(* ===== verification/Prelude.thy ===== *)
theory Prelude
  imports Main "HOL-Library.AList" "HOL-Library.Word" "HOL-Library.Char_ord"
    "HOL-Library.List_Lexorder" "HOL-Library.Sublist" "HOL-Library.Multiset"
begin

text \<open>
  What every theory of the development shares: Go strings as byte lists with the functions of
  package strings the code calls, Go maps as association lists, errors as values, the JSON values
  of type any, sort.Slice, and the page helper of the in-memory repository.

  A Go map is an association list whose order is the order in which a range loop visits the map.
  Go leaves that order open; the lemmas hold for every list, so for every visiting order.
\<close>

section \<open>Lemma collections\<close>

named_theorems store_simps \<open>equations of the map operations\<close>

named_theorems inv_intros \<open>introduction rules for well-formedness of maps\<close>

section \<open>Errors\<close>

text \<open>The sentinel errors of packages model, durablequeue and os, and errors.New texts.\<close>

datatype error =
    ErrNotFound
  | ErrRawConflict
  | ErrProtocolRegistration
  | ErrMarketConflict
  | ErrMarketLimit
  | ErrMarketReview
  | ErrQuarantined
  | ErrQueueFull
  | ErrClosed
  | ErrText string
  | ErrWrap string error

type_synonym 'a res = "error + 'a"

section \<open>Strings\<close>

text \<open>A Go string is its sequence of bytes; bytes builds one from numbers for text that is
  not ASCII.\<close>

definition bytes :: "nat list \<Rightarrow> string" where
  "bytes ns = map char_of ns"

fun go_join :: "string \<Rightarrow> string list \<Rightarrow> string" where
  "go_join sep [] = []"
| "go_join sep [s] = s"
| "go_join sep (s # t # ts) = s @ sep @ go_join sep (t # ts)"

definition has_prefix :: "string \<Rightarrow> string \<Rightarrow> bool" where
  "has_prefix s p \<longleftrightarrow> take (length p) s = p"

definition has_suffix :: "string \<Rightarrow> string \<Rightarrow> bool" where
  "has_suffix s p \<longleftrightarrow> length p \<le> length s \<and> drop (length s - length p) s = p"

definition trim_prefix :: "string \<Rightarrow> string \<Rightarrow> string" where
  "trim_prefix s p = (if has_prefix s p then drop (length p) s else s)"

definition trim_suffix :: "string \<Rightarrow> string \<Rightarrow> string" where
  "trim_suffix s p = (if has_suffix s p then take (length s - length p) s else s)"

fun contains :: "string \<Rightarrow> string \<Rightarrow> bool" where
  "contains [] p = (p = [])"
| "contains (c # s) p = (has_prefix (c # s) p \<or> contains s p)"

text \<open>Case mapping of ASCII letters; other bytes are left as they are.\<close>

definition upper_char :: "char \<Rightarrow> char" where
  "upper_char c = (let n = of_char c :: nat in if 97 \<le> n \<and> n \<le> 122 then char_of (n - 32) else c)"

definition lower_char :: "char \<Rightarrow> char" where
  "lower_char c = (let n = of_char c :: nat in if 65 \<le> n \<and> n \<le> 90 then char_of (n + 32) else c)"

definition to_upper :: "string \<Rightarrow> string" where
  "to_upper s = map upper_char s"

definition to_lower :: "string \<Rightarrow> string" where
  "to_lower s = map lower_char s"

definition equal_fold :: "string \<Rightarrow> string \<Rightarrow> bool" where
  "equal_fold s t \<longleftrightarrow> to_lower s = to_lower t"

text \<open>The UTF-8 encodings of the code points with property White_Space, which
  strings.TrimSpace removes.\<close>

definition spaces :: "string list" where
  "spaces = map bytes ([[9], [10], [11], [12], [13], [32], [0xC2, 0x85], [0xC2, 0xA0],
     [0xE1, 0x9A, 0x80], [0xE2, 0x80, 0xA8], [0xE2, 0x80, 0xA9], [0xE2, 0x80, 0xAF],
     [0xE2, 0x81, 0x9F], [0xE3, 0x80, 0x80]] @ map (\<lambda>n. [0xE2, 0x80, 0x80 + n]) [0..<11])"

function trim_left :: "string list \<Rightarrow> string \<Rightarrow> string" where
  "trim_left ps s = (case find (\<lambda>p. p \<noteq> [] \<and> has_prefix s p) ps of
      None \<Rightarrow> s
    | Some p \<Rightarrow> if s = [] then s else trim_left ps (drop (length p) s))"
  by pat_completeness auto
termination
  by (relation "measure (\<lambda>(ps, s). length s)") (auto simp: find_Some_iff)

declare trim_left.simps [simp del]

definition trim_space :: "string \<Rightarrow> string" where
  "trim_space s = rev (trim_left (map rev spaces) (rev (trim_left spaces s)))"

lemma trim_left_Nil [simp]: "trim_left ps [] = []"
  by (subst trim_left.simps) (simp split: option.split)

lemma trim_space_Nil [simp]: "trim_space [] = []"
  by (simp add: trim_space_def)

definition replace_char :: "char \<Rightarrow> char \<Rightarrow> string \<Rightarrow> string" where
  "replace_char a b s = map (\<lambda>c. if c = a then b else c) s"

text \<open>strings.Trim(s, cutset).\<close>

definition trim_chars :: "char list \<Rightarrow> string \<Rightarrow> string" where
  "trim_chars cs s =
     rev (dropWhile (\<lambda>c. c \<in> set cs) (rev (dropWhile (\<lambda>c. c \<in> set cs) s)))"

definition nul :: char where
  "nul = CHR 0x00"

text \<open>Function key of the in-memory repository: the parts joined by a NUL byte.\<close>

definition key :: "string list \<Rightarrow> string" where
  "key parts = go_join [nul] parts"

lemma key_simps [simp]:
  "key [a] = a"
  "key [a, b] = a @ nul # b"
  "key [a, b, c] = a @ nul # b @ nul # c"
  by (simp_all add: key_def)

lemma split_at_nul:
  "nul \<notin> set a \<Longrightarrow> nul \<notin> set a' \<Longrightarrow> a @ nul # s = a' @ nul # s' \<longleftrightarrow> a = a' \<and> s = s'"
proof (induction a arbitrary: a')
  case Nil
  then show ?case by (cases a') auto
next
  case (Cons x xs)
  then show ?case by (cases a') auto
qed

text \<open>A string without NUL bytes; identifiers that come from JSON documents and HTTP paths are.\<close>

definition nul_free :: "string \<Rightarrow> bool" where
  "nul_free s \<longleftrightarrow> nul \<notin> set s"

lemma key2_inject:
  "nul_free a \<Longrightarrow> nul_free a' \<Longrightarrow> key [a, b] = key [a', b'] \<longleftrightarrow> a = a' \<and> b = b'"
  by (simp add: nul_free_def split_at_nul)

lemma key3_inject:
  "nul_free a \<Longrightarrow> nul_free a' \<Longrightarrow> nul_free b \<Longrightarrow> nul_free b' \<Longrightarrow>
    key [a, b, c] = key [a', b', c'] \<longleftrightarrow> a = a' \<and> b = b' \<and> c = c'"
  by (auto simp: nul_free_def split_at_nul)

lemma has_prefix_append [simp]: "has_prefix (p @ s) p"
  by (simp add: has_prefix_def)

lemma has_prefix_iff: "has_prefix s p \<longleftrightarrow> (\<exists>t. s = p @ t)"
  by (metis append_eq_conv_conj append_take_drop_id has_prefix_def)

lemma has_suffix_append [simp]: "has_suffix (s @ p) p"
  by (simp add: has_suffix_def)

lemma has_suffix_iff: "has_suffix s p \<longleftrightarrow> (\<exists>t. s = t @ p)"
  by (auto simp: has_suffix_def) (metis append_take_drop_id)

lemma trim_suffix_append [simp]: "trim_suffix (s @ p) p = s"
  by (simp add: trim_suffix_def)

section \<open>Values of type any\<close>

text \<open>
  A value of Go type any, as the code stores them in properties, events, tags and configuration:
  AInt is any of Go's integer types, AFloat64 a float64 by its bit pattern.
\<close>

datatype any =
    ANil
  | ABool bool
  | AInt int
  | AFloat64 "64 word"
  | AStr string
  | AArr "any list"
  | AObj "(string \<times> any) list"

type_synonym anymap = "(string \<times> any) list"

section \<open>Go maps\<close>

type_synonym 'v gomap = "(string \<times> 'v) list"

definition mget :: "'v gomap \<Rightarrow> string \<Rightarrow> 'v option" where
  "mget m k = map_of m k"

definition mput :: "'v gomap \<Rightarrow> string \<Rightarrow> 'v \<Rightarrow> 'v gomap" where
  "mput m k v = AList.update k v m"

definition mdel :: "'v gomap \<Rightarrow> string \<Rightarrow> 'v gomap" where
  "mdel m k = AList.delete k m"

text \<open>The value read by m[k]: the zero value z when k is absent.\<close>

definition mget_or :: "'v \<Rightarrow> 'v gomap \<Rightarrow> string \<Rightarrow> 'v" where
  "mget_or z m k = (case mget m k of None \<Rightarrow> z | Some v \<Rightarrow> v)"

definition mvals :: "'v gomap \<Rightarrow> 'v list" where
  "mvals m = map snd m"

text \<open>A Go map holds a key once.\<close>

definition mwf :: "'v gomap \<Rightarrow> bool" where
  "mwf m \<longleftrightarrow> distinct (map fst m)"

lemma mget_mput [store_simps, simp]: "mget (mput m k v) k' = (if k' = k then Some v else mget m k')"
  by (simp add: mget_def mput_def update_conv')

lemma mget_mdel [store_simps, simp]: "mget (mdel m k) k' = (if k' = k then None else mget m k')"
  by (simp add: mget_def mdel_def delete_conv')

lemma mget_Nil [store_simps, simp]: "mget [] k = None"
  by (simp add: mget_def)

lemma mwf_Nil [inv_intros, simp]: "mwf []"
  by (simp add: mwf_def)

lemma mwf_mput [inv_intros, simp]: "mwf m \<Longrightarrow> mwf (mput m k v)"
  by (simp add: mwf_def mput_def distinct_update)

lemma mwf_mdel [inv_intros, simp]: "mwf m \<Longrightarrow> mwf (mdel m k)"
  by (simp add: mwf_def mdel_def distinct_delete)

lemma mget_in: "mwf m \<Longrightarrow> (k, v) \<in> set m \<longleftrightarrow> mget m k = Some v"
  by (simp add: mwf_def mget_def)

lemma mget_SomeD: "mget m k = Some v \<Longrightarrow> (k, v) \<in> set m"
  by (simp add: mget_def map_of_SomeD)

lemma mvals_set: "mwf m \<Longrightarrow> v \<in> set (mvals m) \<longleftrightarrow> (\<exists>k. mget m k = Some v)"
  by (force simp: mvals_def mget_in [symmetric])

lemma mvals_mput: "mwf m \<Longrightarrow> set (mvals (mput m k v)) = insert v {w. \<exists>k'. k' \<noteq> k \<and> mget m k' = Some w}"
  unfolding set_eq_iff by (auto simp: mvals_set split: if_splits)

text \<open>All entries of a map satisfy P, seen through lookups.\<close>

definition mall :: "(string \<Rightarrow> 'v \<Rightarrow> bool) \<Rightarrow> 'v gomap \<Rightarrow> bool" where
  "mall P m \<longleftrightarrow> (\<forall>e \<in> set m. P (fst e) (snd e))"

lemma mall_iff: "mwf m \<Longrightarrow> mall P m \<longleftrightarrow> (\<forall>k v. mget m k = Some v \<longrightarrow> P k v)"
  by (force simp: mall_def mget_in [symmetric])

lemma mall_Nil [inv_intros, simp]: "mall P []"
  by (simp add: mall_def)

lemma mall_mput [inv_intros]: "mall P m \<Longrightarrow> P k v \<Longrightarrow> mall P (mput m k v)"
proof -
  assume a: "mall P m" and b: "P k v"
  have "set (AList.update k v m) \<subseteq> insert (k, v) (set m)"
    by (induction m) auto
  with a b show ?thesis by (auto simp: mall_def mput_def)
qed

lemma mall_mdel [inv_intros]: "mall P m \<Longrightarrow> mall P (mdel m k)"
  by (auto simp: mall_def mdel_def AList.delete_eq)

lemma mall_mget: "mall P m \<Longrightarrow> mget m k = Some v \<Longrightarrow> P k v"
  using mget_SomeD [of m k v] by (auto simp: mall_def)

end
