(* ===== verification/Slices.thy ===== *)
theory Slices
  imports Prelude
begin

text \<open>
  Slices: sort.Slice under a less function, the page helper of the in-memory repository, and the
  filter-then-sort-then-page shape of its List operations. The locale slice_order states what a
  less function owes sort.Slice; the theories of the repository interpret it for every
  less function of the code.
\<close>

section \<open>sort.Slice\<close>

text \<open>
  Insertion keeps elements that less does not separate in their input order. sort.Slice promises no
  order between them; since the input is visited in an arbitrary map order, every outcome of
  sort.Slice is the outcome of sort_slice for some visiting order.
\<close>

fun insort_by :: "('a \<Rightarrow> 'a \<Rightarrow> bool) \<Rightarrow> 'a \<Rightarrow> 'a list \<Rightarrow> 'a list" where
  "insort_by before x [] = [x]"
| "insort_by before x (y # ys) = (if before y x then y # insort_by before x ys else x # y # ys)"

definition sort_slice :: "('a \<Rightarrow> 'a \<Rightarrow> bool) \<Rightarrow> 'a list \<Rightarrow> 'a list" where
  "sort_slice before xs = foldr (insort_by before) xs []"

lemma mset_insort_by [simp]: "mset (insort_by before x xs) = add_mset x (mset xs)"
  by (induction xs) auto

lemma mset_sort_slice [simp]: "mset (sort_slice before xs) = mset xs"
  by (induction xs) (auto simp: sort_slice_def)

lemma set_sort_slice [simp]: "set (sort_slice before xs) = set xs"
  by (metis mset_sort_slice set_mset_mset)

lemma length_sort_slice [simp]: "length (sort_slice before xs) = length xs"
  by (metis mset_sort_slice size_mset)

lemma sort_slice_Nil [simp]: "sort_slice before [] = []"
  by (simp add: sort_slice_def)

lemma sort_slice_single [simp]: "sort_slice before [x] = [x]"
  by (simp add: sort_slice_def)

locale slice_order =
  fixes before :: "'a \<Rightarrow> 'a \<Rightarrow> bool"
  assumes less_asym: "before x y \<Longrightarrow> \<not> before y x"
    and not_less_trans: "\<not> before y x \<Longrightarrow> \<not> before z y \<Longrightarrow> \<not> before z x"
begin

lemma set_insort_by: "set (insort_by before x xs) = insert x (set xs)"
  by (induction xs) auto

lemma sorted_insort_by:
  "sorted_wrt (\<lambda>a b. \<not> before b a) xs \<Longrightarrow> sorted_wrt (\<lambda>a b. \<not> before b a) (insort_by before x xs)"
proof (induction xs)
  case Nil
  then show ?case by simp
next
  case (Cons y ys)
  then show ?case
    by (auto simp: set_insort_by dest: less_asym not_less_trans)
qed

lemma sorted_sort_slice: "sorted_wrt (\<lambda>a b. \<not> before b a) (sort_slice before xs)"
  by (induction xs) (auto simp: sort_slice_def sorted_insort_by)

end

section \<open>Pages\<close>

text \<open>Function page: a negative offset reads as 0, a limit that is not positive as 100.\<close>

definition page :: "'a list \<Rightarrow> int \<Rightarrow> int \<Rightarrow> 'a list" where
  "page v offset limit =
     (let offset = (if offset < 0 then 0 else offset)
      in if offset \<ge> int (length v) then []
         else let limit = (if limit \<le> 0 then 100 else limit);
                  end0 = offset + limit;
                  end1 = (if end0 > int (length v) then int (length v) else end0)
              in take (nat (end1 - offset)) (drop (nat offset) v))"

lemma page_eq:
  assumes "0 \<le> offset" "0 < limit"
  shows "page v offset limit = take (nat limit) (drop (nat offset) v)"
proof (cases "offset \<ge> int (length v)")
  case True
  then show ?thesis using assms by (simp add: page_def)
next
  case False
  then show ?thesis using assms
    by (auto simp: page_def Let_def nat_diff_distrib' nat_add_distrib)
qed

lemma length_page: "0 < limit \<Longrightarrow> int (length (page v offset limit)) \<le> limit"
  by (auto simp: page_def Let_def)

lemma set_page: "set (page v offset limit) \<subseteq> set v"
proof -
  have "set (take n (drop m v)) \<subseteq> set v" for n m
    by (meson set_drop_subset set_take_subset subset_trans)
  then show ?thesis by (simp add: page_def Let_def)
qed

section \<open>The shape of the List operations\<close>

text \<open>The entries of a map that satisfy P, in visiting order.\<close>

definition mfilter :: "('v \<Rightarrow> bool) \<Rightarrow> 'v gomap \<Rightarrow> 'v list" where
  "mfilter P m = filter P (mvals m)"

lemma set_mfilter: "set (mfilter P m) = {v \<in> set (mvals m). P v}"
  by (simp add: mfilter_def)

lemma mfilter_Nil [simp]: "mfilter P [] = []"
  by (simp add: mfilter_def mvals_def)

lemma in_mfilter: "mwf m \<Longrightarrow> v \<in> set (mfilter P m) \<longleftrightarrow> P v \<and> (\<exists>k. mget m k = Some v)"
  by (auto simp: set_mfilter mvals_set)

section \<open>Stores keyed by strings\<close>

text \<open>
  What the components rely on in a map: the laws of lookup after insertion and deletion and the
  absence of duplicate keys.
\<close>

locale keyed_store =
  fixes get :: "'m \<Rightarrow> string \<Rightarrow> 'v option"
    and put :: "'m \<Rightarrow> string \<Rightarrow> 'v \<Rightarrow> 'm"
    and del :: "'m \<Rightarrow> string \<Rightarrow> 'm"
    and ok :: "'m \<Rightarrow> bool"
  assumes get_put: "get (put m k v) k' = (if k' = k then Some v else get m k')"
    and get_del: "get (del m k) k' = (if k' = k then None else get m k')"
    and ok_put: "ok m \<Longrightarrow> ok (put m k v)"
    and ok_del: "ok m \<Longrightarrow> ok (del m k)"
begin

lemma get_put_same: "get (put m k v) k = Some v"
  by (simp add: get_put)

lemma get_put_other: "k' \<noteq> k \<Longrightarrow> get (put m k v) k' = get m k'"
  by (simp add: get_put)

lemma put_overwrites: "get (put (put m k v) k w) = get (put m k w)"
  by (rule ext) (simp add: get_put)

lemma puts_commute: "k \<noteq> k' \<Longrightarrow> get (put (put m k v) k' w) = get (put (put m k' w) k v)"
  by (rule ext) (auto simp: get_put)

lemma put_if_absent_first:
  "get (if get m k = None then put m k v else m) k = Some (case get m k of None \<Rightarrow> v | Some w \<Rightarrow> w)"
  by (auto simp: get_put split: option.splits)

end

interpretation gm: keyed_store "mget :: 'v gomap \<Rightarrow> string \<Rightarrow> 'v option" mput mdel mwf
  by unfold_locales auto

section \<open>Stores without clashes\<close>

text \<open>
  A map whose entries are filed under their own key and no two of which clash: two devices with one
  access key, two open alarms of one rule. The locale proves once when an update keeps that and what
  the loops that search such a map find, whatever order they visit it in.
\<close>

definition no_clash :: "('v \<Rightarrow> 'v \<Rightarrow> bool) \<Rightarrow> 'v gomap \<Rightarrow> bool" where
  "no_clash clash m \<longleftrightarrow> (\<forall>e \<in> set m. \<forall>e' \<in> set m. clash (snd e) (snd e') \<longrightarrow> fst e = fst e')"

definition store_inv :: "(string \<Rightarrow> 'v \<Rightarrow> bool) \<Rightarrow> ('v \<Rightarrow> 'v \<Rightarrow> bool) \<Rightarrow> 'v gomap \<Rightarrow> bool" where
  "store_inv filed clash m \<longleftrightarrow> mwf m \<and> mall filed m \<and> no_clash clash m"

locale clash_store =
  fixes filed :: "string \<Rightarrow> 'v \<Rightarrow> bool" and clash :: "'v \<Rightarrow> 'v \<Rightarrow> bool"
  assumes clash_sym: "clash a b \<Longrightarrow> clash b a"
begin

lemma store_invD:
  assumes "store_inv filed clash m"
  shows "mwf m" "mget m k = Some a \<Longrightarrow> filed k a"
    "mget m k = Some a \<Longrightarrow> mget m k' = Some a' \<Longrightarrow> clash a a' \<Longrightarrow> k = k'"
proof -
  show wf: "mwf m" using assms by (simp add: store_inv_def)
  show "mget m k = Some a \<Longrightarrow> filed k a"
    using assms mall_mget [of filed m k a] by (simp add: store_inv_def)
  show "mget m k = Some a \<Longrightarrow> mget m k' = Some a' \<Longrightarrow> clash a a' \<Longrightarrow> k = k'"
    using assms wf by (force simp: store_inv_def no_clash_def mget_in [symmetric])
qed

lemma store_inv_mput:
  assumes inv: "store_inv filed clash m" and filed: "filed k v"
    and fresh: "\<And>k' a. mget m k' = Some a \<Longrightarrow> clash v a \<Longrightarrow> k' = k"
  shows "store_inv filed clash (mput m k v)"
proof -
  have wf: "mwf (mput m k v)" using inv by (simp add: store_inv_def)
  have "no_clash clash (mput m k v)"
    unfolding no_clash_def
    using store_invD(3) [OF inv] fresh clash_sym wf
    by (auto simp: mget_in split: if_splits)
  with inv filed wf show ?thesis by (simp add: store_inv_def mall_mput)
qed

lemma store_inv_replace:
  assumes inv: "store_inv filed clash m" and old: "mget m k = Some a" and filed: "filed k v"
    and same: "\<And>b. clash v b \<Longrightarrow> clash a b"
  shows "store_inv filed clash (mput m k v)"
  using store_invD(3) [OF inv old] same by (intro store_inv_mput [OF inv filed]) metis

lemma store_inv_Nil: "store_inv filed clash []"
  by (simp add: store_inv_def no_clash_def)

lemma find_unique:
  assumes inv: "store_inv filed clash m" and k: "mget m k = Some a" and P: "P a"
    and clash: "\<And>b. P b \<Longrightarrow> clash a b"
  shows "find (\<lambda>e. P (snd e)) m = Some (k, a)"
proof (cases "find (\<lambda>e. P (snd e)) m")
  case None
  then show ?thesis using P mget_SomeD [OF k] by (auto simp: find_None_iff)
next
  case (Some e)
  then have e: "e \<in> set m" "P (snd e)" by (auto simp: find_Some_iff)
  then have "mget m (fst e) = Some (snd e)"
    using store_invD(1) [OF inv] by (simp add: mget_in [symmetric])
  moreover from this have "k = fst e"
    using store_invD(3) [OF inv k] e(2) clash by blast
  ultimately show ?thesis using Some k by (cases e) auto
qed

end

lemma find_absent:
  "mwf m \<Longrightarrow> find (\<lambda>e. P (snd e)) m = None \<longleftrightarrow> (\<forall>k a. mget m k = Some a \<longrightarrow> \<not> P a)"
  by (auto simp: find_None_iff mget_in [symmetric] split_paired_all)

lemma find_mvals: "find P (mvals m) = map_option snd (find (\<lambda>e. P (snd e)) m)"
  by (induction m) (auto simp: mvals_def)

lemma list_ex_mvals: "mwf m \<Longrightarrow> list_ex P (mvals m) \<longleftrightarrow> (\<exists>k e. mget m k = Some e \<and> P e)"
  unfolding list_ex_iff Bex_def by (simp add: mvals_set) blast

end
