(* ===== verification/Messages.thy ===== *)
theory Messages
  imports Slices
begin

text \<open>
  Package model, message types: raw messages and their archive index, standard messages, component
  status, device state, commands and credential revocations. Records carry the source's fields in
  the source's order; a zero_ constant is Go's zero value of the type.
\<close>

record raw_message =
  rm_MessageID :: string
  rm_Source :: string
  rm_TenantID :: string
  rm_ProductID :: string
  rm_DeviceID :: string
  rm_DeviceName :: string
  rm_GatewayID :: string
  rm_Protocol :: string
  rm_Transport :: string
  rm_ReceivedAt :: int
  rm_PayloadFormat :: string
  rm_Payload :: string
  rm_ClientID :: string
  rm_RemoteAddress :: string
  rm_Headers :: "string gomap"
  rm_ParserVersion :: string
  rm_ProtocolID :: string
  rm_ProtocolVersion :: string
  rm_PointTableVersion :: string
  rm_CollectorID :: string
  rm_Metadata :: anymap

definition zero_raw_message :: raw_message where
  "zero_raw_message = \<lparr>rm_MessageID = [], rm_Source = [], rm_TenantID = [],
     rm_ProductID = [], rm_DeviceID = [], rm_DeviceName = [], rm_GatewayID = [],
     rm_Protocol = [], rm_Transport = [], rm_ReceivedAt = 0, rm_PayloadFormat = [],
     rm_Payload = [], rm_ClientID = [], rm_RemoteAddress = [], rm_Headers = [],
     rm_ParserVersion = [], rm_ProtocolID = [], rm_ProtocolVersion = [],
     rm_PointTableVersion = [], rm_CollectorID = [], rm_Metadata = []\<rparr>"

record raw_index =
  ri_MessageID :: string
  ri_TenantID :: string
  ri_ProductID :: string
  ri_DeviceID :: string
  ri_Protocol :: string
  ri_PayloadFormat :: string
  ri_ObjectBucket :: string
  ri_ObjectKey :: string
  ri_ObjectOffset :: int
  ri_PayloadHash :: string
  ri_PayloadSize :: int
  ri_ReceivedAt :: int
  ri_ArchivedAt :: int
  ri_PublishedAt :: int
  ri_PublishAttempts :: int
  ri_LastPublishError :: string
  ri_ParseAttemptedAt :: int
  ri_ParseError :: string
  ri_Parsed :: bool
  ri_ParsedMessageType :: string
  ri_Parser :: string

definition zero_raw_index :: raw_index where
  "zero_raw_index = \<lparr>ri_MessageID = [], ri_TenantID = [], ri_ProductID = [],
     ri_DeviceID = [], ri_Protocol = [], ri_PayloadFormat = [], ri_ObjectBucket = [],
     ri_ObjectKey = [], ri_ObjectOffset = 0, ri_PayloadHash = [], ri_PayloadSize = 0,
     ri_ReceivedAt = 0, ri_ArchivedAt = 0, ri_PublishedAt = 0, ri_PublishAttempts = 0,
     ri_LastPublishError = [], ri_ParseAttemptedAt = 0, ri_ParseError = [], ri_Parsed = False,
     ri_ParsedMessageType = [], ri_Parser = []\<rparr>"

type_synonym message_type = string

text \<open>The constants of type MessageType.\<close>

definition PropertyReport :: message_type where
  "PropertyReport = ''PROPERTY_REPORT''"

definition EventReport :: message_type where
  "EventReport = ''EVENT_REPORT''"

definition StateChange :: message_type where
  "StateChange = ''STATE_CHANGE''"

definition AlarmReport :: message_type where
  "AlarmReport = ''ALARM_REPORT''"

definition CommandReply :: message_type where
  "CommandReply = ''COMMAND_REPLY''"

definition LogReport :: message_type where
  "LogReport = ''LOG_REPORT''"

lemmas message_type_defs =
  PropertyReport_def EventReport_def StateChange_def AlarmReport_def CommandReply_def LogReport_def

record standard_message =
  sm_MessageID :: string
  sm_RawMessageID :: string
  sm_TenantID :: string
  sm_ProductID :: string
  sm_DeviceID :: string
  sm_MessageType :: message_type
  sm_Timestamp :: int
  sm_Properties :: anymap
  sm_Event :: anymap
  sm_Tags :: "string gomap"
  sm_Raw :: anymap
  sm_Parser :: string
  sm_ParserVersion :: string

definition zero_standard_message :: standard_message where
  "zero_standard_message = \<lparr>sm_MessageID = [], sm_RawMessageID = [], sm_TenantID = [],
     sm_ProductID = [], sm_DeviceID = [], sm_MessageType = [], sm_Timestamp = 0,
     sm_Properties = [], sm_Event = [], sm_Tags = [], sm_Raw = [], sm_Parser = [],
     sm_ParserVersion = []\<rparr>"

record device_state =
  ds_TenantID :: string
  ds_ProductID :: string
  ds_DeviceID :: string
  ds_ConnectionStatus :: string
  ds_DataStatus :: string
  ds_BusinessStatus :: string
  ds_LastConnectAt :: int
  ds_LastDisconnectAt :: int
  ds_LastSeenAt :: int
  ds_LastMessageID :: string
  ds_ReportIntervalSec :: int
  ds_OfflineToleranceSec :: int
  ds_OfflineAt :: int
  ds_OfflineDetectedAt :: int
  ds_StatusSource :: string
  ds_Reason :: string

definition zero_device_state :: device_state where
  "zero_device_state = \<lparr>ds_TenantID = [], ds_ProductID = [], ds_DeviceID = [],
     ds_ConnectionStatus = [], ds_DataStatus = [], ds_BusinessStatus = [], ds_LastConnectAt = 0,
     ds_LastDisconnectAt = 0, ds_LastSeenAt = 0, ds_LastMessageID = [], ds_ReportIntervalSec = 0,
     ds_OfflineToleranceSec = 0, ds_OfflineAt = 0, ds_OfflineDetectedAt = 0,
     ds_StatusSource = [], ds_Reason = []\<rparr>"

record device_state_event =
  se_State :: device_state
  se_RecordedAt :: int

record credential_revocation =
  cr_ID :: string
  cr_TenantID :: string
  cr_DeviceID :: string
  cr_Username :: string
  cr_Status :: string
  cr_LastError :: string
  cr_CreatedAt :: int
  cr_UpdatedAt :: int

definition zero_credential_revocation :: credential_revocation where
  "zero_credential_revocation = \<lparr>cr_ID = [], cr_TenantID = [], cr_DeviceID = [],
     cr_Username = [], cr_Status = [], cr_LastError = [], cr_CreatedAt = 0,
     cr_UpdatedAt = 0\<rparr>"

record device_command =
  dc_Confirmed :: bool
  dc_ID :: string
  dc_TenantID :: string
  dc_ProductID :: string
  dc_DeviceID :: string
  dc_Type :: string
  dc_Data :: anymap
  dc_Status :: string
  dc_LastError :: string
  dc_Reply :: anymap
  dc_CreatedAt :: int
  dc_UpdatedAt :: int

definition zero_device_command :: device_command where
  "zero_device_command = \<lparr>dc_Confirmed = False, dc_ID = [], dc_TenantID = [],
     dc_ProductID = [], dc_DeviceID = [], dc_Type = [], dc_Data = [], dc_Status = [],
     dc_LastError = [], dc_Reply = [], dc_CreatedAt = 0, dc_UpdatedAt = 0\<rparr>"

record component_status =
  cp_ID :: string
  cp_Name :: string
  cp_Location :: string
  cp_Timestamp :: int
  cp_Alarms :: "bool gomap"

record execution_lease =
  le_TenantID :: string
  le_Resource :: string
  le_Owner :: string
  le_Endpoint :: string
  le_Token :: int
  le_ExpiresAt :: int

definition zero_execution_lease :: execution_lease where
  "zero_execution_lease = \<lparr>le_TenantID = [], le_Resource = [], le_Owner = [],
     le_Endpoint = [], le_Token = 0, le_ExpiresAt = 0\<rparr>"

record replay_diff =
  rd_RawMessageID :: string
  rd_Status :: string
  rd_Previous :: "standard_message option"
  rd_Current :: "standard_message option"
  rd_Error :: string

record replay_request =
  rr_ID :: string
  rr_TenantID :: string
  rr_ProductID :: string
  rr_DeviceID :: string
  rr_Start :: int
  rr_End :: int
  rr_ParserVersion :: string
  rr_Mode :: string
  rr_RatePerSecond :: int
  rr_Status :: string
  rr_Processed :: int
  rr_Failed :: int
  rr_CreatedBy :: string
  rr_CreatedAt :: int
  rr_CompletedAt :: int
  rr_DiffSummary :: "int gomap"
  rr_Diffs :: "replay_diff list"

definition zero_replay_request :: replay_request where
  "zero_replay_request = \<lparr>rr_ID = [], rr_TenantID = [], rr_ProductID = [],
     rr_DeviceID = [], rr_Start = 0, rr_End = 0, rr_ParserVersion = [], rr_Mode = [],
     rr_RatePerSecond = 0, rr_Status = [], rr_Processed = 0, rr_Failed = 0, rr_CreatedBy = [],
     rr_CreatedAt = 0, rr_CompletedAt = 0, rr_DiffSummary = [], rr_Diffs = []\<rparr>"

end
