(* ===== verification/Alarms.thy ===== *)
theory Alarms
  imports Slices
begin

text \<open>
  Package model, alarm types: rules and their pending timers, alarms and component watermarks, video
  events and camera metadata, AI records, knowledge documents and audit entries.
\<close>

record rule_condition =
  rc_Field :: string
  rc_Operator :: string
  rc_Value :: any

record rule_action =
  ra_Type :: string
  ra_CameraID :: string
  ra_Page :: string

record alarm_rule =
  ar_ID :: string
  ar_TenantID :: string
  ar_ProductID :: string
  ar_Name :: string
  ar_Description :: string
  ar_AlarmType :: string
  ar_Level :: string
  ar_Conditions :: "rule_condition list"
  ar_Match :: string
  ar_DurationSeconds :: int
  ar_Recovery :: "rule_condition list"
  ar_Actions :: "rule_action list"
  ar_Expression :: string
  ar_Enabled :: bool
  ar_Version :: int
  ar_CreatedAt :: int
  ar_UpdatedAt :: int

definition zero_alarm_rule :: alarm_rule where
  "zero_alarm_rule = \<lparr>ar_ID = [], ar_TenantID = [], ar_ProductID = [], ar_Name = [],
     ar_Description = [], ar_AlarmType = [], ar_Level = [], ar_Conditions = [], ar_Match = [],
     ar_DurationSeconds = 0, ar_Recovery = [], ar_Actions = [], ar_Expression = [],
     ar_Enabled = False, ar_Version = 0, ar_CreatedAt = 0, ar_UpdatedAt = 0\<rparr>"

record ui_action_event =
  ue_ID :: string
  ue_TenantID :: string
  ue_RuleID :: string
  ue_AlarmID :: string
  ue_DeviceID :: string
  ue_Action :: rule_action
  ue_TriggeredAt :: int

record camera_summary =
  cs_CameraID :: string
  cs_Brand :: string
  cs_CameraName :: string
  cs_CameraPoint :: string
  cs_DeviceID :: string
  cs_Building :: string
  cs_Floor :: string
  cs_Room :: string
  cs_Enabled :: bool

record alarm =
  al_ComponentID :: string
  al_ComponentName :: string
  al_ComponentLocation :: string
  al_ID :: string
  al_TenantID :: string
  al_RuleID :: string
  al_TriggerID :: string
  al_DeviceID :: string
  al_DeviceName :: string
  al_AlarmType :: string
  al_AlarmLevel :: string
  al_Status :: string
  al_Source :: string
  al_CityCode :: string
  al_DistrictCode :: string
  al_BuildingID :: string
  al_DeviceType :: string
  al_AreaID :: string
  al_FirstTriggeredAt :: int
  al_LastTriggeredAt :: int
  al_TriggerCount :: int
  al_RecoveredAt :: int
  al_AckedAt :: int
  al_ClosedAt :: int
  al_Confidence :: "64 word"
  al_MultiSource :: bool
  al_Cameras :: "camera_summary list"
  al_Details :: anymap

definition zero_alarm :: alarm where
  "zero_alarm = \<lparr>al_ComponentID = [], al_ComponentName = [], al_ComponentLocation = [],
     al_ID = [], al_TenantID = [], al_RuleID = [], al_TriggerID = [], al_DeviceID = [],
     al_DeviceName = [], al_AlarmType = [], al_AlarmLevel = [], al_Status = [], al_Source = [],
     al_CityCode = [], al_DistrictCode = [], al_BuildingID = [], al_DeviceType = [],
     al_AreaID = [], al_FirstTriggeredAt = 0, al_LastTriggeredAt = 0, al_TriggerCount = 0,
     al_RecoveredAt = 0, al_AckedAt = 0, al_ClosedAt = 0, al_Confidence = 0,
     al_MultiSource = False, al_Cameras = [], al_Details = []\<rparr>"

record component_alarm_state =
  ca_Timestamp :: int
  ca_MessageID :: string
  ca_Active :: bool
  ca_AlarmID :: string
  ca_Event :: string

definition zero_component_alarm_state :: component_alarm_state where
  "zero_component_alarm_state = \<lparr>ca_Timestamp = 0, ca_MessageID = [], ca_Active = False,
     ca_AlarmID = [], ca_Event = []\<rparr>"

record video_event =
  ve_EventID :: string
  ve_Source :: string
  ve_TenantID :: string
  ve_ProjectID :: string
  ve_CameraID :: string
  ve_CameraName :: string
  ve_AreaID :: string
  ve_AlarmType :: string
  ve_AlarmName :: string
  ve_AlarmLevel :: string
  ve_Confidence :: "64 word"
  ve_EventTime :: int
  ve_ReceivedAt :: int
  ve_SnapshotURL :: string
  ve_VideoClipURL :: string
  ve_CityCode :: string
  ve_DistrictCode :: string
  ve_BuildingID :: string
  ve_Location :: anymap
  ve_Raw :: anymap

definition zero_video_event :: video_event where
  "zero_video_event = \<lparr>ve_EventID = [], ve_Source = [], ve_TenantID = [],
     ve_ProjectID = [], ve_CameraID = [], ve_CameraName = [], ve_AreaID = [], ve_AlarmType = [],
     ve_AlarmName = [], ve_AlarmLevel = [], ve_Confidence = 0, ve_EventTime = 0,
     ve_ReceivedAt = 0, ve_SnapshotURL = [], ve_VideoClipURL = [], ve_CityCode = [],
     ve_DistrictCode = [], ve_BuildingID = [], ve_Location = [], ve_Raw = []\<rparr>"

record camera_mapping =
  vm_TenantID :: string
  vm_CameraID :: string
  vm_CameraName :: string
  vm_Brand :: string
  vm_CameraPoint :: string
  vm_DeviceID :: string
  vm_IngestMode :: string
  vm_ProjectID :: string
  vm_CityCode :: string
  vm_DistrictCode :: string
  vm_Building :: string
  vm_Floor :: string
  vm_Room :: string
  vm_AreaID :: string
  vm_RelatedDeviceIDs :: "string list"
  vm_RelatedFloorIDs :: "string list"
  vm_RelatedRoomIDs :: "string list"
  vm_VideoPlatformID :: string
  vm_StreamURL :: string
  vm_StreamType :: string
  vm_SDKEndpoint :: string
  vm_SDKCameraID :: string
  vm_SDKCredentialRef :: string
  vm_StreamConfigured :: bool
  vm_PreviewEligible :: bool
  vm_Enabled :: bool
  vm_UpdatedAt :: int

definition zero_camera_mapping :: camera_mapping where
  "zero_camera_mapping = \<lparr>vm_TenantID = [], vm_CameraID = [], vm_CameraName = [],
     vm_Brand = [], vm_CameraPoint = [], vm_DeviceID = [], vm_IngestMode = [], vm_ProjectID = [],
     vm_CityCode = [], vm_DistrictCode = [], vm_Building = [], vm_Floor = [], vm_Room = [],
     vm_AreaID = [], vm_RelatedDeviceIDs = [], vm_RelatedFloorIDs = [], vm_RelatedRoomIDs = [],
     vm_VideoPlatformID = [], vm_StreamURL = [], vm_StreamType = [], vm_SDKEndpoint = [],
     vm_SDKCameraID = [], vm_SDKCredentialRef = [], vm_StreamConfigured = False,
     vm_PreviewEligible = False, vm_Enabled = False, vm_UpdatedAt = 0\<rparr>"

record camera_relation =
  vr_TenantID :: string
  vr_CameraID :: string
  vr_RelationType :: string
  vr_TargetID :: string

record ai_analysis =
  ai_TenantID :: string
  ai_AlarmID :: string
  ai_Summary :: string
  ai_PossibleReasons :: "string list"
  ai_Suggestions :: "string list"
  ai_RiskLevel :: string
  ai_Confidence :: "64 word"
  ai_Model :: string
  ai_PromptVersion :: string
  ai_CreatedAt :: int
  ai_Error :: string

definition zero_ai_analysis :: ai_analysis where
  "zero_ai_analysis = \<lparr>ai_TenantID = [], ai_AlarmID = [], ai_Summary = [],
     ai_PossibleReasons = [], ai_Suggestions = [], ai_RiskLevel = [], ai_Confidence = 0,
     ai_Model = [], ai_PromptVersion = [], ai_CreatedAt = 0, ai_Error = []\<rparr>"

record knowledge_doc =
  kd_ID :: string
  kd_TenantID :: string
  kd_WorkflowID :: string
  kd_ProductID :: string
  kd_Category :: string
  kd_Tags :: "string list"
  kd_ObjectBucket :: string
  kd_ObjectKey :: string
  kd_Filename :: string
  kd_Status :: string
  kd_Metadata :: anymap
  kd_CreatedAt :: int

record workflow_binding =
  wk_TenantID :: string
  wk_WorkflowID :: string
  wk_ProductIDs :: "string list"
  wk_Categories :: "string list"
  wk_Tags :: "string list"
  wk_RetrievalMode :: string
  wk_TopK :: int
  wk_MinScore :: "64 word"
  wk_NoMatchPolicy :: string
  wk_UpdatedAt :: int

definition zero_workflow_binding :: workflow_binding where
  "zero_workflow_binding = \<lparr>wk_TenantID = [], wk_WorkflowID = [], wk_ProductIDs = [],
     wk_Categories = [], wk_Tags = [], wk_RetrievalMode = [], wk_TopK = 0, wk_MinScore = 0,
     wk_NoMatchPolicy = [], wk_UpdatedAt = 0\<rparr>"

record ai_tool_call =
  tc_ID :: string
  tc_TenantID :: string
  tc_Actor :: string
  tc_Tool :: string
  tc_Input :: anymap
  tc_Output :: any
  tc_Success :: bool
  tc_Error :: string
  tc_CreatedAt :: int

record audit_log =
  au_ID :: string
  au_TenantID :: string
  au_Actor :: string
  au_Action :: string
  au_TargetType :: string
  au_TargetID :: string
  au_Details :: anymap
  au_CreatedAt :: int

end
