(* ===== verification/Inventory.thy ===== *)
theory Inventory
  imports Slices
begin

text \<open>
  Package model, inventory types: products, protocol packages, definitions and releases, point
  tables, product bindings, access profiles, managed devices, the private protocol market and the
  onboarding bundle.
\<close>

record thing_field =
  tf_Writable :: bool
  tf_Identifier :: string
  tf_Name :: string
  tf_DataType :: string
  tf_Unit :: string
  tf_Required :: bool

record thing_operation =
  to_Identifier :: string
  to_Name :: string
  to_Fields :: "thing_field list"

record thing_model =
  tm_Properties :: "thing_field list"
  tm_Events :: "thing_operation list"
  tm_Commands :: "thing_operation list"

record product =
  pr_ThingModel :: "thing_model option"
  pr_ID :: string
  pr_TenantID :: string
  pr_Name :: string
  pr_Category :: string
  pr_ProtocolPackageID :: string
  pr_Transport :: string
  pr_PayloadFormat :: string
  pr_Status :: string
  pr_Description :: string
  pr_Metadata :: anymap
  pr_CreatedAt :: int
  pr_UpdatedAt :: int

definition zero_product :: product where
  "zero_product = \<lparr>pr_ThingModel = None, pr_ID = [], pr_TenantID = [], pr_Name = [],
     pr_Category = [], pr_ProtocolPackageID = [], pr_Transport = [], pr_PayloadFormat = [],
     pr_Status = [], pr_Description = [], pr_Metadata = [], pr_CreatedAt = 0,
     pr_UpdatedAt = 0\<rparr>"

record protocol_package =
  pp_ID :: string
  pp_TenantID :: string
  pp_Name :: string
  pp_Version :: string
  pp_Protocol :: string
  pp_Transport :: string
  pp_PayloadFormat :: string
  pp_ParserType :: string
  pp_Status :: string
  pp_Description :: string
  pp_Config :: anymap
  pp_CreatedAt :: int
  pp_UpdatedAt :: int

definition zero_protocol_package :: protocol_package where
  "zero_protocol_package = \<lparr>pp_ID = [], pp_TenantID = [], pp_Name = [], pp_Version = [],
     pp_Protocol = [], pp_Transport = [], pp_PayloadFormat = [], pp_ParserType = [],
     pp_Status = [], pp_Description = [], pp_Config = [], pp_CreatedAt = 0,
     pp_UpdatedAt = 0\<rparr>"

record protocol_definition =
  pd_ID :: string
  pd_TenantID :: string
  pd_Name :: string
  pd_Vendor :: string
  pd_Description :: string
  pd_CreatedAt :: int
  pd_UpdatedAt :: int

definition zero_protocol_definition :: protocol_definition where
  "zero_protocol_definition = \<lparr>pd_ID = [], pd_TenantID = [], pd_Name = [], pd_Vendor = [],
     pd_Description = [], pd_CreatedAt = 0, pd_UpdatedAt = 0\<rparr>"

record modbus_point =
  mp_Identifier :: string
  mp_Name :: string
  mp_FunctionCode :: int
  mp_Address :: int
  mp_AddressNotation :: string
  mp_DataType :: string
  mp_RegisterCount :: int
  mp_ByteOrder :: string
  mp_WordOrder :: string
  mp_Bit :: "int option"
  mp_Scale :: "64 word"
  mp_Offset :: "64 word"
  mp_Unit :: string
  mp_Access :: string
  mp_PollIntervalSec :: int
  mp_Deadband :: "64 word"
  mp_AlarmMapping :: anymap
  mp_Description :: string

record modbus_read_block =
  mb_ID :: string
  mb_FunctionCode :: int
  mb_StartAddress :: int
  mb_Quantity :: int
  mb_PollIntervalSec :: int

record point_table_release =
  pt_TenantID :: string
  pt_ProtocolID :: string
  pt_Version :: string
  pt_SourceName :: string
  pt_SourceSHA256 :: string
  pt_Points :: "modbus_point list"
  pt_CreatedAt :: int

definition zero_point_table_release :: point_table_release where
  "zero_point_table_release = \<lparr>pt_TenantID = [], pt_ProtocolID = [], pt_Version = [],
     pt_SourceName = [], pt_SourceSHA256 = [], pt_Points = [], pt_CreatedAt = 0\<rparr>"

record protocol_release =
  pl_TenantID :: string
  pl_ProtocolID :: string
  pl_Version :: string
  pl_Transport :: string
  pl_PayloadFormat :: string
  pl_ParserType :: string
  pl_Status :: string
  pl_PointTableVersion :: string
  pl_Capabilities :: "string list"
  pl_Config :: anymap
  pl_Artifact :: anymap
  pl_CreatedAt :: int
  pl_PublishedAt :: int

definition zero_protocol_release :: protocol_release where
  "zero_protocol_release = \<lparr>pl_TenantID = [], pl_ProtocolID = [], pl_Version = [],
     pl_Transport = [], pl_PayloadFormat = [], pl_ParserType = [], pl_Status = [],
     pl_PointTableVersion = [], pl_Capabilities = [], pl_Config = [], pl_Artifact = [],
     pl_CreatedAt = 0, pl_PublishedAt = 0\<rparr>"

record product_binding =
  pb_TenantID :: string
  pb_ProductID :: string
  pb_ProtocolID :: string
  pb_Version :: string
  pb_PreviousVersion :: string
  pb_PreviousProtocolID :: string
  pb_UpdatedAt :: int

definition zero_product_binding :: product_binding where
  "zero_product_binding = \<lparr>pb_TenantID = [], pb_ProductID = [], pb_ProtocolID = [],
     pb_Version = [], pb_PreviousVersion = [], pb_PreviousProtocolID = [],
     pb_UpdatedAt = 0\<rparr>"

record protocol_query =
  pq_Type :: string
  pq_IntervalSec :: int
  pq_Params :: anymap

record child_product_binding =
  cb_Type :: string
  cb_ProductID :: string

record child_identity =
  ci_Address :: string
  ci_Type :: string
  ci_Name :: string

record access_profile =
  ap_ConnectionMode :: string
  ap_WireFormat :: string
  ap_Queries :: "protocol_query list"
  ap_ChildProducts :: "child_product_binding list"
  ap_CredentialRef :: string
  ap_EndpointPath :: string
  ap_SerialPort :: string
  ap_BaudRate :: int
  ap_Parity :: string
  ap_StopBits :: int
  ap_EdgeNodeID :: string
  ap_Mode :: string
  ap_Network :: string
  ap_AutoRegister :: bool
  ap_ID :: string
  ap_TenantID :: string
  ap_DeviceID :: string
  ap_ProductID :: string
  ap_ProtocolID :: string
  ap_ProtocolVersion :: string
  ap_PointTableVersion :: string
  ap_CollectorID :: string
  ap_Host :: string
  ap_Port :: int
  ap_UnitID :: int
  ap_TimeoutMs :: int
  ap_Retries :: int
  ap_Enabled :: bool
  ap_RuntimeStatus :: string
  ap_LastSuccessAt :: int
  ap_LastErrorAt :: int
  ap_LastError :: string
  ap_CreatedAt :: int
  ap_UpdatedAt :: int

definition zero_access_profile :: access_profile where
  "zero_access_profile = \<lparr>ap_ConnectionMode = [], ap_WireFormat = [], ap_Queries = [],
     ap_ChildProducts = [], ap_CredentialRef = [], ap_EndpointPath = [], ap_SerialPort = [],
     ap_BaudRate = 0, ap_Parity = [], ap_StopBits = 0, ap_EdgeNodeID = [], ap_Mode = [],
     ap_Network = [], ap_AutoRegister = False, ap_ID = [], ap_TenantID = [], ap_DeviceID = [],
     ap_ProductID = [], ap_ProtocolID = [], ap_ProtocolVersion = [], ap_PointTableVersion = [],
     ap_CollectorID = [], ap_Host = [], ap_Port = 0, ap_UnitID = 0, ap_TimeoutMs = 0,
     ap_Retries = 0, ap_Enabled = False, ap_RuntimeStatus = [], ap_LastSuccessAt = 0,
     ap_LastErrorAt = 0, ap_LastError = [], ap_CreatedAt = 0, ap_UpdatedAt = 0\<rparr>"

record managed_device =
  md_ID :: string
  md_TenantID :: string
  md_ProductID :: string
  md_Name :: string
  md_Status :: string
  md_DeviceRole :: string
  md_GatewayID :: string
  md_RegistrationSource :: string
  md_AutoRegistered :: bool
  md_AccessKey :: string
  md_SecretHash :: string
  md_SecretHint :: string
  md_Description :: string
  md_Tags :: "string gomap"
  md_CreatedAt :: int
  md_UpdatedAt :: int

definition zero_managed_device :: managed_device where
  "zero_managed_device = \<lparr>md_ID = [], md_TenantID = [], md_ProductID = [], md_Name = [],
     md_Status = [], md_DeviceRole = [], md_GatewayID = [], md_RegistrationSource = [],
     md_AutoRegistered = False, md_AccessKey = [], md_SecretHash = [], md_SecretHint = [],
     md_Description = [], md_Tags = [], md_CreatedAt = 0, md_UpdatedAt = 0\<rparr>"

record market_review =
  mr_Actor :: string
  mr_Decision :: string
  mr_Reason :: string
  mr_At :: int

record market_entry =
  me_TenantID :: string
  me_ProtocolID :: string
  me_Version :: string
  me_Name :: string
  me_Description :: string
  me_License :: string
  me_Tags :: "string list"
  me_SourceSHA256 :: string
  me_PackageSHA256 :: string
  me_SourceSize :: int
  me_SubmittedBy :: string
  me_SubmittedAt :: int
  me_Generation :: int
  me_Status :: string
  me_Reviews :: "market_review list"

definition zero_market_entry :: market_entry where
  "zero_market_entry = \<lparr>me_TenantID = [], me_ProtocolID = [], me_Version = [],
     me_Name = [], me_Description = [], me_License = [], me_Tags = [], me_SourceSHA256 = [],
     me_PackageSHA256 = [], me_SourceSize = 0, me_SubmittedBy = [], me_SubmittedAt = 0,
     me_Generation = 0, me_Status = [], me_Reviews = []\<rparr>"

record onboarding_bundle =
  ob_Product :: "product option"
  ob_ReuseProfile :: bool
  ob_Device :: managed_device
  ob_Profile :: "access_profile option"
  ob_Release :: "protocol_release option"
  ob_PointTable :: "point_table_release option"
  ob_Binding :: "product_binding option"

end
