(* ===== verification/Json.thy ===== *)
theory Json
  imports Messages Inventory Alarms
begin

text \<open>
  The in-memory repository copies what it stores and returns by json.Marshal followed by
  json.Unmarshal (function clone). On a value of type any this turns every integer into the nearest
  float64; a NaN or an infinity makes Marshal fail, and clone then returns the zero value. Strings
  are taken to be valid UTF-8, which decoding JSON requests ensures. A json.RawMessage is compacted
  by Marshal; that function of package encoding/json is the parameter cp, with None for bytes that
  are not JSON. A nil payload becomes null.
\<close>

section \<open>float64\<close>

fun bit_len :: "nat \<Rightarrow> nat" where
  "bit_len n = (if n = 0 then 0 else Suc (bit_len (n div 2)))"

declare bit_len.simps [simp del]

text \<open>m divided by 2 to the k, rounded to the nearest integer, ties to the even one.\<close>

definition round_half_even :: "nat \<Rightarrow> nat \<Rightarrow> nat" where
  "round_half_even m k =
     (let q = m div 2 ^ k; r = m mod 2 ^ k; h = 2 ^ k
      in if 2 * r > h \<or> (2 * r = h \<and> odd q) then q + 1 else q)"

definition f64_of_int :: "int \<Rightarrow> 64 word" where
  "f64_of_int n =
     (if n = 0 then 0
      else let m = nat \<bar>n\<bar>; e = bit_len m - 1;
               mant = (if e \<le> 52 then m * 2 ^ (52 - e) else round_half_even m (e - 52))
           in word_of_nat ((if n < 0 then 2 ^ 63 else 0) + (e + 1023) * 2 ^ 52 + mant - 2 ^ 52))"

definition f64_finite :: "64 word \<Rightarrow> bool" where
  "f64_finite w \<longleftrightarrow> unat (drop_bit 52 w) mod 2048 \<noteq> 2047"

definition f64_zero :: "64 word \<Rightarrow> bool" where
  "f64_zero w \<longleftrightarrow> unat w mod 2 ^ 63 = 0"

text \<open>Comparison of two float64 values: false with a NaN, and the two zeros are equal.\<close>

definition f64_nan :: "64 word \<Rightarrow> bool" where
  "f64_nan w \<longleftrightarrow> \<not> f64_finite w \<and> unat w mod 2 ^ 52 \<noteq> 0"

definition f64_rank :: "64 word \<Rightarrow> int" where
  "f64_rank w = (if 2 ^ 63 \<le> unat w then - int (unat w - 2 ^ 63) else int (unat w))"

definition f64_less :: "64 word \<Rightarrow> 64 word \<Rightarrow> bool" where
  "f64_less a b \<longleftrightarrow> \<not> f64_nan a \<and> \<not> f64_nan b \<and> f64_rank a < f64_rank b"

lemma f64_of_int_examples:
  "f64_of_int 1 = 0x3FF0000000000000" "f64_of_int (-2) = 0xC000000000000000"
  "f64_of_int 9007199254740993 = f64_of_int 9007199254740992"
  by (simp_all add: f64_of_int_def bit_len.simps round_half_even_def Let_def)

section \<open>clone on values of type any\<close>

fun json_any :: "any \<Rightarrow> any" where
  "json_any ANil = ANil"
| "json_any (ABool b) = ABool b"
| "json_any (AInt n) = AFloat64 (f64_of_int n)"
| "json_any (AFloat64 w) = AFloat64 w"
| "json_any (AStr s) = AStr s"
| "json_any (AArr xs) = AArr (map json_any xs)"
| "json_any (AObj es) = AObj (map (\<lambda>e. (fst e, json_any (snd e))) es)"

fun json_ok :: "any \<Rightarrow> bool" where
  "json_ok (AFloat64 w) = f64_finite w"
| "json_ok (AArr xs) = list_all json_ok xs"
| "json_ok (AObj es) = list_all (\<lambda>e. json_ok (snd e)) es"
| "json_ok _ = True"

definition json_map :: "anymap \<Rightarrow> anymap" where
  "json_map m = map (\<lambda>e. (fst e, json_any (snd e))) m"

definition json_map_ok :: "anymap \<Rightarrow> bool" where
  "json_map_ok m \<longleftrightarrow> list_all (\<lambda>e. json_ok (snd e)) m"

text \<open>A copy of a copy is the copy.\<close>

lemma json_any_idem [simp]: "json_any (json_any x) = json_any x"
  by (induction x rule: json_any.induct) auto

lemma json_map_idem [simp]: "json_map (json_map m) = json_map m"
  by (simp add: json_map_def)

lemma mget_json_map: "mget (json_map m) k = map_option json_any (mget m k)"
  by (induction m) (auto simp: json_map_def mget_def)

section \<open>clone on the types the repository stores\<close>

text \<open>
  On types without a field of type any (protocol definitions, product bindings, device states,
  alarm rules, camera mappings and relations, credential revocations, market entries) clone is the
  identity, and the model leaves it out.
\<close>

definition clone_product :: "product \<Rightarrow> product" where
  "clone_product v = (if json_map_ok (pr_Metadata v)
     then v\<lparr>pr_Metadata := json_map (pr_Metadata v)\<rparr> else zero_product)"

definition clone_package :: "protocol_package \<Rightarrow> protocol_package" where
  "clone_package v = (if json_map_ok (pp_Config v)
     then v\<lparr>pp_Config := json_map (pp_Config v)\<rparr> else zero_protocol_package)"

definition clone_release :: "protocol_release \<Rightarrow> protocol_release" where
  "clone_release v = (if json_map_ok (pl_Config v) \<and> json_map_ok (pl_Artifact v)
     then v\<lparr>pl_Config := json_map (pl_Config v), pl_Artifact := json_map (pl_Artifact v)\<rparr>
     else zero_protocol_release)"

definition clone_point_table :: "point_table_release \<Rightarrow> point_table_release" where
  "clone_point_table v =
     (if list_all (\<lambda>p. json_map_ok (mp_AlarmMapping p) \<and> f64_finite (mp_Scale p) \<and>
           f64_finite (mp_Offset p) \<and> f64_finite (mp_Deadband p)) (pt_Points v)
      then v\<lparr>pt_Points := map (\<lambda>p. p\<lparr>mp_AlarmMapping := json_map (mp_AlarmMapping p)\<rparr>)
             (pt_Points v)\<rparr>
      else zero_point_table_release)"

definition clone_profile :: "access_profile \<Rightarrow> access_profile" where
  "clone_profile v = (if list_all (\<lambda>q. json_map_ok (pq_Params q)) (ap_Queries v)
     then v\<lparr>ap_Queries := map (\<lambda>q. q\<lparr>pq_Params := json_map (pq_Params q)\<rparr>) (ap_Queries v)\<rparr>
     else zero_access_profile)"

definition clone_raw :: "(string \<Rightarrow> string option) \<Rightarrow> raw_message \<Rightarrow> raw_message" where
  "clone_raw cp v =
     (case (if rm_Payload v = [] then Some ''null'' else cp (rm_Payload v)) of
        None \<Rightarrow> zero_raw_message
      | Some p \<Rightarrow> if json_map_ok (rm_Metadata v)
          then v\<lparr>rm_Payload := p, rm_Metadata := json_map (rm_Metadata v)\<rparr>
          else zero_raw_message)"

definition clone_standard :: "standard_message \<Rightarrow> standard_message" where
  "clone_standard v =
     (if json_map_ok (sm_Properties v) \<and> json_map_ok (sm_Event v) \<and> json_map_ok (sm_Raw v)
      then v\<lparr>sm_Properties := json_map (sm_Properties v), sm_Event := json_map (sm_Event v),
             sm_Raw := json_map (sm_Raw v)\<rparr>
      else zero_standard_message)"

definition clone_command :: "device_command \<Rightarrow> device_command" where
  "clone_command v = (if json_map_ok (dc_Data v) \<and> json_map_ok (dc_Reply v)
     then v\<lparr>dc_Data := json_map (dc_Data v), dc_Reply := json_map (dc_Reply v)\<rparr>
     else zero_device_command)"

definition clone_map :: "anymap \<Rightarrow> anymap" where
  "clone_map m = (if json_map_ok m then json_map m else [])"

end
