(* ===== verification/Rules.thy ===== *)
theory Rules
  imports Messages Alarms Json
begin

text \<open>
  Rule matching (internal/core/rules.go). Parameters: sprint is fmt.Sprint of a value, parse_float is
  strconv.ParseFloat with 64 bits, and gengine compiles and runs an expression over a message with the
  third-party rule engine; None is an error of either step.
\<close>

record matcher =
  mt_sprint :: "any \<Rightarrow> string"
  mt_parse_float :: "string \<Rightarrow> 64 word option"
  mt_gengine :: "string \<Rightarrow> standard_message \<Rightarrow> bool option"

definition f64_eq :: "64 word \<Rightarrow> 64 word \<Rightarrow> bool" where
  "f64_eq a b \<longleftrightarrow> \<not> f64_nan a \<and> \<not> f64_nan b \<and> f64_rank a = f64_rank b"

fun asFloat :: "matcher \<Rightarrow> any \<Rightarrow> 64 word option" where
  "asFloat mt (AFloat64 w) = Some w"
| "asFloat mt (AInt n) = Some (f64_of_int n)"
| "asFloat mt (ABool b) = Some (if b then f64_of_int 1 else 0)"
| "asFloat mt (AStr s) = mt_parse_float mt s"
| "asFloat mt _ = None"

definition fieldValue :: "standard_message \<Rightarrow> string \<Rightarrow> any option" where
  "fieldValue msg path =
     (if has_prefix path ''properties.'' then mget (sm_Properties msg) (trim_prefix path ''properties.'')
      else if has_prefix path ''tags.'' then map_option AStr (mget (sm_Tags msg) (trim_prefix path ''tags.''))
      else if has_prefix path ''event.'' then mget (sm_Event msg) (trim_prefix path ''event.'')
      else case mget (sm_Properties msg) path of
             Some v \<Rightarrow> Some v
           | None \<Rightarrow> (case mget (sm_Tags msg) path of
                 Some v \<Rightarrow> Some (AStr v)
               | None \<Rightarrow> mget (sm_Event msg) path))"

text \<open>The part of compare after the operators exists, contains and in.\<close>

definition compare_values :: "matcher \<Rightarrow> any \<Rightarrow> string \<Rightarrow> any \<Rightarrow> bool" where
  "compare_values mt a op b =
     (case (asFloat mt a, asFloat mt b) of
        (Some af, Some bf) \<Rightarrow>
          if op \<in> {''>'', ''gt''} then f64_less bf af
          else if op \<in> {''>='', ''gte''} then f64_less bf af \<or> f64_eq af bf
          else if op \<in> {''<'', ''lt''} then f64_less af bf
          else if op \<in> {''<='', ''lte''} then f64_less af bf \<or> f64_eq af bf
          else if op \<in> {''!='', ''ne''} then \<not> f64_eq af bf
          else f64_eq af bf
      | _ \<Rightarrow>
          let as = to_lower (mt_sprint mt a); bs = to_lower (mt_sprint mt b)
          in if op \<in> {''!='', ''ne''} then as \<noteq> bs else as = bs)"

definition compare :: "matcher \<Rightarrow> any \<Rightarrow> string \<Rightarrow> any \<Rightarrow> bool" where
  "compare mt a op0 b =
     (let op = to_lower (trim_space op0)
      in if op = ''exists'' then a \<noteq> ANil
         else if op = ''contains'' then contains (mt_sprint mt a) (mt_sprint mt b)
         else if op = ''in'' then (case b of AArr xs \<Rightarrow> list_ex (\<lambda>x. compare_values mt a ''eq'' x) xs | _ \<Rightarrow> False)
         else compare_values mt a op b)"

definition condition_holds :: "matcher \<Rightarrow> rule_condition \<Rightarrow> standard_message \<Rightarrow> bool" where
  "condition_holds mt c msg = (case fieldValue msg (rc_Field c) of
     None \<Rightarrow> False | Some v \<Rightarrow> compare mt v (rc_Operator c) (rc_Value c))"

fun match_all :: "matcher \<Rightarrow> rule_condition list \<Rightarrow> standard_message \<Rightarrow> bool" where
  "match_all mt [] msg = True"
| "match_all mt (c # cs) msg = (if \<not> condition_holds mt c msg then False else match_all mt cs msg)"

fun match_any :: "matcher \<Rightarrow> rule_condition list \<Rightarrow> standard_message \<Rightarrow> bool" where
  "match_any mt [] msg = False"
| "match_any mt (c # cs) msg = (if condition_holds mt c msg then True else match_any mt cs msg)"

definition MatchConditions :: "matcher \<Rightarrow> rule_condition list \<Rightarrow> standard_message \<Rightarrow> bool" where
  "MatchConditions mt cs msg = (if cs = [] then False else match_all mt cs msg)"

definition forbidden_tokens :: "string list" where
  "forbidden_tokens = [''rule '', ''begin'', ''end'', ''{'', ''}'', '';'', ''import'', ''exec'', ''system'']"

definition EvaluateGengineExpression :: "matcher \<Rightarrow> string \<Rightarrow> standard_message \<Rightarrow> bool option" where
  "EvaluateGengineExpression mt expression0 msg =
     (let expression = trim_space expression0
      in if expression = [] then None
         else if list_ex (\<lambda>t. contains (to_lower expression) t) forbidden_tokens then None
         else if length expression > 4096 then None
         else mt_gengine mt expression msg)"

definition MatchRule :: "matcher \<Rightarrow> alarm_rule \<Rightarrow> standard_message \<Rightarrow> bool" where
  "MatchRule mt rule msg =
     (if \<not> ar_Enabled rule \<or> (ar_TenantID rule \<noteq> [] \<and> ar_TenantID rule \<noteq> sm_TenantID msg) \<or>
         (ar_ProductID rule \<noteq> [] \<and> ar_ProductID rule \<noteq> sm_ProductID msg)
      then False
      else if trim_space (ar_Expression rule) \<noteq> []
      then EvaluateGengineExpression mt (ar_Expression rule) msg = Some True
      else if ar_Conditions rule = [] then False
      else if \<not> equal_fold (ar_Match rule) ''any'' then match_all mt (ar_Conditions rule) msg
      else match_any mt (ar_Conditions rule) msg)"

lemma match_all_iff: "match_all mt cs msg \<longleftrightarrow> list_all (\<lambda>c. condition_holds mt c msg) cs"
  by (induction cs) auto

lemma match_any_iff: "match_any mt cs msg \<longleftrightarrow> list_ex (\<lambda>c. condition_holds mt c msg) cs"
  by (induction cs) auto

text \<open>A rule of one tenant or product never matches a message of another, nor does a disabled one.\<close>

lemma MatchRule_scope:
  "MatchRule mt rule msg \<Longrightarrow> ar_Enabled rule \<and> (ar_TenantID rule = [] \<or> ar_TenantID rule = sm_TenantID msg) \<and>
     (ar_ProductID rule = [] \<or> ar_ProductID rule = sm_ProductID msg)"
  by (auto simp: MatchRule_def split: if_splits)

end
