(* ===== verification/Components.thy ===== *)
theory Components
  imports Json
begin

text \<open>
  MessageComponents (model/component.go): the component states a message reports under the event key
  components, decoded as json.Marshal, a strict json.Decode into a list of ComponentStatus and a second
  decode of the alarm flags see them, and checked. Field names match without regard to the case of
  ASCII letters, as in encoding/json.
\<close>

section \<open>Decoding\<close>

text \<open>
  The integer a JSON number decodes to when the target is an int64; None for a fraction or a value out
  of range. A float64 of more than 53 bits is written with its shortest decimals, which may differ from
  the integer below; MessageComponents refuses such timestamps in either case.
\<close>

definition f64_int :: "64 word \<Rightarrow> int option" where
  "f64_int w =
     (let e = unat (drop_bit 52 w) mod 2048; m = unat w mod 2 ^ 52 + 2 ^ 52;
          sign = (if 2 ^ 63 \<le> unat w then -1 else 1)
      in if f64_zero w then Some 0
         else if e < 1023 \<or> 1023 + 63 \<le> e then None
         else if 1023 + 52 \<le> e then Some (sign * int (m * 2 ^ (e - 1075)))
         else if m mod 2 ^ (1075 - e) = 0 then Some (sign * int (m div 2 ^ (1075 - e)))
         else None)"

fun decode_int64 :: "any \<Rightarrow> int option" where
  "decode_int64 (AInt n) = (if - (2 ^ 63) \<le> n \<and> n < 2 ^ 63 then Some n else None)"
| "decode_int64 (AFloat64 w) = f64_int w"
| "decode_int64 _ = None"

text \<open>The entries of the alarms object so far: the bool, and whether the last value was null.\<close>

fun decode_alarms :: "(bool \<times> bool) gomap \<Rightarrow> anymap \<Rightarrow> (bool \<times> bool) gomap option" where
  "decode_alarms flags [] = Some flags"
| "decode_alarms flags ((k, v) # rest) = (case v of
     ABool b \<Rightarrow> decode_alarms (mput flags k (b, False)) rest
   | ANil \<Rightarrow> decode_alarms (mput flags k (False, True)) rest
   | _ \<Rightarrow> None)"

record decoded =
  de_ID :: string
  de_Name :: string
  de_Location :: string
  de_Timestamp :: int
  de_Alarms :: "(bool \<times> bool) gomap"

text \<open>One field of a component object; null leaves a string or number alone and empties a map.\<close>

definition decode_field :: "decoded \<Rightarrow> string \<times> any \<Rightarrow> decoded option" where
  "decode_field d e =
     (let name = to_lower (fst e)
      in if name = ''id'' then (case snd e of AStr s \<Rightarrow> Some (d\<lparr>de_ID := s\<rparr>) | ANil \<Rightarrow> Some d | _ \<Rightarrow> None)
         else if name = ''name'' then
           (case snd e of AStr s \<Rightarrow> Some (d\<lparr>de_Name := s\<rparr>) | ANil \<Rightarrow> Some d | _ \<Rightarrow> None)
         else if name = ''location'' then
           (case snd e of AStr s \<Rightarrow> Some (d\<lparr>de_Location := s\<rparr>) | ANil \<Rightarrow> Some d | _ \<Rightarrow> None)
         else if name = ''timestamp'' then
           (case snd e of ANil \<Rightarrow> Some d
            | v \<Rightarrow> (case decode_int64 v of None \<Rightarrow> None | Some n \<Rightarrow> Some (d\<lparr>de_Timestamp := n\<rparr>)))
         else if name = ''alarms'' then
           (case snd e of ANil \<Rightarrow> Some (d\<lparr>de_Alarms := []\<rparr>)
            | AObj flags \<Rightarrow> (case decode_alarms (de_Alarms d) (sort_key fst flags) of
                None \<Rightarrow> None | Some a \<Rightarrow> Some (d\<lparr>de_Alarms := a\<rparr>))
            | _ \<Rightarrow> None)
         else None)"

fun decode_fields :: "decoded \<Rightarrow> anymap \<Rightarrow> decoded option" where
  "decode_fields d [] = Some d"
| "decode_fields d (e # rest) = (case decode_field d e of None \<Rightarrow> None | Some d1 \<Rightarrow> decode_fields d1 rest)"

definition zero_decoded :: decoded where
  "zero_decoded = \<lparr>de_ID = [], de_Name = [], de_Location = [], de_Timestamp = 0, de_Alarms = []\<rparr>"

text \<open>Marshal writes the keys of a map in order.\<close>

fun decode_list :: "any list \<Rightarrow> decoded list option" where
  "decode_list [] = Some []"
| "decode_list (x # xs) = (case (case x of
       AObj es \<Rightarrow> decode_fields zero_decoded (sort_key fst es)
     | ANil \<Rightarrow> Some zero_decoded
     | _ \<Rightarrow> None) of
     None \<Rightarrow> None
   | Some d \<Rightarrow> (case decode_list xs of None \<Rightarrow> None | Some ds \<Rightarrow> Some (d # ds)))"

definition decode_components :: "any \<Rightarrow> decoded list option" where
  "decode_components value = (case value of
     AArr xs \<Rightarrow> decode_list xs | ANil \<Rightarrow> Some [] | _ \<Rightarrow> None)"

section \<open>Checking\<close>

definition componentAlarmType :: "string \<Rightarrow> bool" where
  "componentAlarmType s \<longleftrightarrow> (case s of [] \<Rightarrow> False | c # cs \<Rightarrow>
     CHR ''A'' \<le> c \<and> c \<le> CHR ''Z'' \<and> length cs \<le> 63 \<and>
     list_all (\<lambda>x. (CHR ''A'' \<le> x \<and> x \<le> CHR ''Z'') \<or> (CHR ''0'' \<le> x \<and> x \<le> CHR ''9'') \<or> x = CHR ''_'') cs)"

definition identity_bad :: "string list \<Rightarrow> decoded \<Rightarrow> bool" where
  "identity_bad seen d \<longleftrightarrow> trim_space (de_ID d) \<noteq> de_ID d \<or> de_ID d = [] \<or> length (de_ID d) > 128 \<or>
     list_ex (\<lambda>c. c \<in> {nul, CHR 0x0D, CHR 0x0A}) (de_ID d) \<or> de_ID d \<in> set seen \<or>
     length (de_Name d) > 256 \<or> length (de_Location d) > 512"

definition component_time :: "int \<Rightarrow> decoded \<Rightarrow> int" where
  "component_time at d = (if de_Timestamp d = 0 then at else de_Timestamp d)"

definition time_bad :: "int \<Rightarrow> int \<Rightarrow> bool" where
  "time_bad at t \<longleftrightarrow> t \<le> 0 \<or> t > 253402300799999 \<or> (at > 0 \<and> t > at + 300000)"

definition check_component :: "int \<Rightarrow> string list \<Rightarrow> decoded \<Rightarrow> component_status res" where
  "check_component at seen d =
     (if identity_bad seen d then Inl (ErrText ''component identity is invalid or duplicated'')
      else if time_bad at (component_time at d) then Inl (ErrText ''invalid component timestamp'')
      else if de_Alarms d = [] \<or> length (de_Alarms d) > 32
      then Inl (ErrText ''component alarms must contain 1..32 explicit boolean states'')
      else if \<not> list_all (\<lambda>e. componentAlarmType (fst e) \<and> \<not> snd (snd e)) (de_Alarms d)
      then Inl (ErrText ''invalid component alarm type or boolean'')
      else Inr \<lparr>cp_ID = de_ID d, cp_Name = de_Name d, cp_Location = de_Location d,
             cp_Timestamp = component_time at d, cp_Alarms = map (\<lambda>e. (fst e, fst (snd e))) (de_Alarms d)\<rparr>)"

fun check_components :: "int \<Rightarrow> string list \<Rightarrow> decoded list \<Rightarrow> component_status list res" where
  "check_components at seen [] = Inr []"
| "check_components at seen (d # ds) = (case check_component at seen d of
     Inl e \<Rightarrow> Inl e
   | Inr c \<Rightarrow> (case check_components at (de_ID d # seen) ds of
         Inl e \<Rightarrow> Inl e | Inr cs \<Rightarrow> Inr (c # cs)))"

definition MessageComponents :: "standard_message \<Rightarrow> component_status list res" where
  "MessageComponents msg = (case mget (sm_Event msg) ''components'' of
     None \<Rightarrow> Inr []
   | Some value \<Rightarrow>
       if sm_MessageType msg \<noteq> AlarmReport \<and> sm_MessageType msg \<noteq> StateChange \<and>
          sm_MessageType msg \<noteq> EventReport
       then Inl (ErrText ''component status requires alarm, state or event message'')
       else if \<not> json_ok value then Inl (ErrText ''json: unsupported value'')
       else case decode_components value of
              None \<Rightarrow> Inl (ErrText ''invalid components'')
            | Some ds \<Rightarrow> if ds = [] \<or> length ds > 256
                then Inl (ErrText ''components must contain 1..256 objects'')
                else check_components (sm_Timestamp msg) [] ds)"

section \<open>What the checks promise\<close>

definition component_valid :: "standard_message \<Rightarrow> component_status \<Rightarrow> bool" where
  "component_valid msg c \<longleftrightarrow> cp_ID c \<noteq> [] \<and> nul_free (cp_ID c) \<and> length (cp_ID c) \<le> 128 \<and>
     0 < cp_Timestamp c \<and> cp_Timestamp c \<le> 253402300799999 \<and>
     (sm_Timestamp msg > 0 \<longrightarrow> cp_Timestamp c \<le> sm_Timestamp msg + 300000) \<and>
     cp_Alarms c \<noteq> [] \<and> length (cp_Alarms c) \<le> 32 \<and> mwf (cp_Alarms c) \<and>
     list_all (componentAlarmType \<circ> fst) (cp_Alarms c)"

lemma decode_alarms_mwf: "mwf flags \<Longrightarrow> decode_alarms flags es = Some a \<Longrightarrow> mwf a"
  by (induction flags es rule: decode_alarms.induct) (auto split: any.splits)

lemma decode_field_mwf: "mwf (de_Alarms d) \<Longrightarrow> decode_field d e = Some d1 \<Longrightarrow> mwf (de_Alarms d1)"
  by (auto simp: decode_field_def Let_def decode_alarms_mwf split: if_splits any.splits option.splits)

lemma decode_fields_mwf: "mwf (de_Alarms d) \<Longrightarrow> decode_fields d es = Some d1 \<Longrightarrow> mwf (de_Alarms d1)"
  by (induction d es rule: decode_fields.induct) (auto simp: decode_field_mwf split: option.splits)

lemma decode_list_mwf: "decode_list xs = Some ds \<Longrightarrow> list_all (\<lambda>d. mwf (de_Alarms d)) ds"
proof (induction xs arbitrary: ds)
  case Nil
  then show ?case by simp
next
  case (Cons x xs)
  have "mwf (de_Alarms zero_decoded)" by (simp add: zero_decoded_def)
  then show ?case using Cons
    by (auto dest: decode_fields_mwf split: option.splits any.splits)
qed

lemma identity_nul: "\<not> identity_bad seen d \<Longrightarrow> nul_free (de_ID d)"
  by (auto simp: identity_bad_def list_ex_iff nul_free_def)

lemma check_component_ok:
  assumes "check_component at seen d = Inr c"
  shows "\<not> identity_bad seen d" "\<not> time_bad at (component_time at d)"
    "de_Alarms d \<noteq> []" "length (de_Alarms d) \<le> 32" "list_all (componentAlarmType \<circ> fst) (de_Alarms d)"
    "c = \<lparr>cp_ID = de_ID d, cp_Name = de_Name d, cp_Location = de_Location d,
       cp_Timestamp = component_time at d, cp_Alarms = map (\<lambda>e. (fst e, fst (snd e))) (de_Alarms d)\<rparr>"
  using assms unfolding check_component_def by (simp_all split: if_split_asm add: list_all_iff)

lemma check_component_valid:
  assumes "check_component (sm_Timestamp msg) seen d = Inr c" "mwf (de_Alarms d)"
  shows "component_valid msg c \<and> cp_ID c = de_ID d \<and> de_ID d \<notin> set seen"
proof -
  note ok = check_component_ok [OF assms(1)]
  have "mwf (cp_Alarms c)" using assms(2) by (simp add: ok(6) mwf_def comp_def)
  moreover have "list_all (componentAlarmType \<circ> fst) (cp_Alarms c)"
    using ok(5) by (simp add: ok(6) list_all_iff)
  moreover have "cp_ID c \<noteq> []" "length (cp_ID c) \<le> 128" "de_ID d \<notin> set seen"
    using ok(1) by (simp_all add: identity_bad_def ok(6))
  ultimately show ?thesis
    using ok(2-4) identity_nul [OF ok(1)] by (auto simp: component_valid_def time_bad_def ok(6))
qed

lemma check_components_valid:
  "check_components (sm_Timestamp msg) seen ds = Inr cs \<Longrightarrow> list_all (\<lambda>d. mwf (de_Alarms d)) ds \<Longrightarrow>
     list_all (component_valid msg) cs \<and> distinct (map cp_ID cs) \<and> set (map cp_ID cs) \<inter> set seen = {} \<and>
     length cs = length ds"
proof (induction ds arbitrary: seen cs)
  case Nil
  then show ?case by simp
next
  case (Cons d ds)
  from Cons.prems(1) obtain c cs' where c: "check_component (sm_Timestamp msg) seen d = Inr c"
    and cs': "check_components (sm_Timestamp msg) (de_ID d # seen) ds = Inr cs'" "cs = c # cs'"
    by (auto split: sum.splits)
  have c': "component_valid msg c \<and> cp_ID c = de_ID d \<and> cp_ID c \<notin> set seen"
    using check_component_valid [OF c] Cons.prems(2) by simp
  have "list_all (component_valid msg) cs' \<and> distinct (map cp_ID cs') \<and>
      set (map cp_ID cs') \<inter> set (de_ID d # seen) = {} \<and> length cs' = length ds"
    using Cons.IH [OF cs'(1)] Cons.prems(2) by simp
  then show ?case using c' cs'(2) by auto
qed

text \<open>
  C23. What the component states of an accepted message satisfy: between one and 256 components with
  distinct identifiers that are safe as parts of a repository key, each with a time that is positive
  and at most five minutes ahead of the message, and one to 32 flags of distinct well-formed kinds.
\<close>
theorem MessageComponents_valid:
  assumes "MessageComponents msg = Inr cs" "mget (sm_Event msg) ''components'' \<noteq> None"
  shows "cs \<noteq> [] \<and> length cs \<le> 256 \<and> distinct (map cp_ID cs) \<and> list_all (component_valid msg) cs"
proof -
  from assms obtain ds x where ds: "decode_components x = Some ds" "ds \<noteq> []" "length ds \<le> 256"
    and cs: "check_components (sm_Timestamp msg) [] ds = Inr cs"
    by (auto simp: MessageComponents_def split: if_splits option.splits)
  have "list_all (\<lambda>d. mwf (de_Alarms d)) ds"
    using ds(1) decode_list_mwf by (auto simp: decode_components_def split: any.splits)
  then show ?thesis using check_components_valid [OF cs] ds by fastforce
qed

definition sample_report :: standard_message where
  "sample_report = zero_standard_message\<lparr>sm_MessageType := AlarmReport, sm_Timestamp := 1000,
     sm_Event := [(''components'', AArr [AObj [(''id'', AStr ''c1''), (''alarms'', AObj [(''FIRE'', ABool True)])]])]\<rparr>"

theorem MessageComponents_valid_witness:
  "\<exists>c. MessageComponents sample_report = Inr [c] \<and> component_valid sample_report c"
proof -
  have "MessageComponents sample_report = Inr [\<lparr>cp_ID = ''c1'', cp_Name = [], cp_Location = [],
     cp_Timestamp = 1000, cp_Alarms = [(''FIRE'', True)]\<rparr>]"
    by code_simp
  moreover have "mget (sm_Event sample_report) ''components'' \<noteq> None"
    by (simp add: sample_report_def mget_def)
  ultimately show ?thesis using MessageComponents_valid by fastforce
qed

end
