(* ===== verification/Parsers.thy ===== *)
theory Parsers
  imports Messages
begin

text \<open>
  The parser registry (internal/parser/parser.go): the choice of a parser by name and version or by
  the metadata of a raw message. A parser is a record of its methods; ConfigurableParser is the
  optional method ParseWithConfig.
\<close>

record meta =
  mt_TenantID :: string
  mt_ProductID :: string
  mt_DeviceID :: string
  mt_Protocol :: string
  mt_PayloadFormat :: string

record parser =
  pa_Name :: string
  pa_Version :: string
  pa_Match :: "meta \<Rightarrow> bool"
  pa_Parse :: "raw_message \<Rightarrow> standard_message res"
  pa_ParseWithConfig :: "(raw_message \<Rightarrow> anymap \<Rightarrow> standard_message res) option"

record registry =
  rg_parsers :: "parser list"
  rg_automatic :: "parser list"

definition NewRegistry :: "parser list \<Rightarrow> registry" where
  "NewRegistry ps = \<lparr>rg_parsers = ps, rg_automatic = ps\<rparr>"

definition Register :: "parser \<Rightarrow> registry \<Rightarrow> registry" where
  "Register p r = r\<lparr>rg_parsers := rg_parsers r @ [p], rg_automatic := rg_automatic r @ [p]\<rparr>"

text \<open>A parsed message is stamped with the parser that made it; an error names that parser.\<close>

definition stamp :: "parser \<Rightarrow> standard_message res \<Rightarrow> standard_message res" where
  "stamp p x = (case x of
     Inl e \<Rightarrow> Inl (ErrWrap (pa_Name p @ ''@'' @ pa_Version p) e)
   | Inr m \<Rightarrow> Inr (m\<lparr>sm_Parser := pa_Name p, sm_ParserVersion := pa_Version p\<rparr>))"

fun parse_version ::
  "parser list \<Rightarrow> string \<Rightarrow> string \<Rightarrow> anymap \<Rightarrow> raw_message \<Rightarrow> standard_message res" where
  "parse_version [] name version config raw =
     (if version \<noteq> []
      then Inl (ErrText (''parser '' @ name @ '' version '' @ version @ '' is not registered''))
      else Inl (ErrText (''parser '' @ name @ '' is not registered'')))"
| "parse_version (p # ps) name version config raw =
     (if pa_Name p \<noteq> name \<or> version \<noteq> [] \<and> pa_Version p \<noteq> version
      then parse_version ps name version config raw
      else stamp p (case pa_ParseWithConfig p of
             Some f \<Rightarrow> f raw config | None \<Rightarrow> pa_Parse p raw))"

definition ParseVersionWithConfig ::
  "registry \<Rightarrow> string \<Rightarrow> string \<Rightarrow> anymap \<Rightarrow> raw_message \<Rightarrow> standard_message res" where
  "ParseVersionWithConfig r name version config raw =
     parse_version (rg_parsers r) name version config raw"

definition ParseWithConfig ::
  "registry \<Rightarrow> string \<Rightarrow> anymap \<Rightarrow> raw_message \<Rightarrow> standard_message res" where
  "ParseWithConfig r name config raw = ParseVersionWithConfig r name [] config raw"

definition ParseVersion :: "registry \<Rightarrow> string \<Rightarrow> string \<Rightarrow> raw_message \<Rightarrow> standard_message res" where
  "ParseVersion r name version raw = ParseVersionWithConfig r name version [] raw"

definition ParseWith :: "registry \<Rightarrow> string \<Rightarrow> raw_message \<Rightarrow> standard_message res" where
  "ParseWith r name raw = ParseVersionWithConfig r name [] [] raw"

fun parse_automatic :: "parser list \<Rightarrow> raw_message \<Rightarrow> standard_message res" where
  "parse_automatic [] raw = Inl (ErrText (''no parser matched product='' @ rm_ProductID raw @
     '' protocol='' @ rm_Protocol raw @ '' format='' @ rm_PayloadFormat raw))"
| "parse_automatic (p # ps) raw =
     (if pa_Match p \<lparr>mt_TenantID = rm_TenantID raw, mt_ProductID = rm_ProductID raw,
           mt_DeviceID = rm_DeviceID raw, mt_Protocol = rm_Protocol raw,
           mt_PayloadFormat = rm_PayloadFormat raw\<rparr>
      then stamp p (pa_Parse p raw) else parse_automatic ps raw)"

definition Parse :: "registry \<Rightarrow> raw_message \<Rightarrow> standard_message res" where
  "Parse r raw = parse_automatic (rg_automatic r) raw"

text \<open>A parsed message names a registered parser.\<close>

lemma parse_version_named:
  "parse_version ps name version config raw = Inr m \<Longrightarrow>
     \<exists>p \<in> set ps. sm_Parser m = name \<and> pa_Name p = name \<and> sm_ParserVersion m = pa_Version p \<and>
       (version = [] \<or> pa_Version p = version)"
  by (induction ps) (auto simp: stamp_def split: if_splits sum.splits)

lemma parse_automatic_named:
  "parse_automatic ps raw = Inr m \<Longrightarrow>
     \<exists>p \<in> set ps. sm_Parser m = pa_Name p \<and> sm_ParserVersion m = pa_Version p"
  by (induction ps) (auto simp: stamp_def split: if_splits sum.splits)

end
