(* ===== verification/Repo_State.thy ===== *)
theory Repo_State
  imports Json
begin

text \<open>
  The state of the in-memory repository (internal/adapters/memory): one field per map or slice of
  type Repository, under the source's names with the prefix r_. Every operation of the repository
  runs under its mutex, so an operation is one function from state to state.
\<close>

record raw_reservation =
  rv_Metadata :: raw_message
  rv_Hash :: string

record ai_plugin_config =
  pc_Provider :: string
  pc_BaseURL :: string
  pc_Model :: string
  pc_APIKey :: string

record repo =
  r_componentAlarms :: "component_alarm_state gomap"
  r_protocolMarket :: "market_entry gomap"
  r_rawReservations :: "raw_reservation gomap"
  r_leases :: "execution_lease gomap"
  r_revocations :: "credential_revocation gomap"
  r_commands :: "device_command gomap"
  r_raw :: "raw_index gomap"
  r_rawMessages :: "raw_message gomap"
  r_standard :: "standard_message gomap"
  r_standardProcessed :: "bool gomap"
  r_rulePending :: "int gomap"
  r_states :: "device_state gomap"
  r_stateEvents :: "device_state_event list"
  r_rules :: "alarm_rule gomap"
  r_alarms :: "alarm gomap"
  r_video :: "video_event gomap"
  r_videoMappings :: "camera_mapping gomap"
  r_videoRelations :: "camera_relation list gomap"
  r_ai :: "ai_analysis gomap"
  r_knowledge :: "knowledge_doc gomap"
  r_workflowKnowledge :: "workflow_binding gomap"
  r_replays :: "replay_request gomap"
  r_audits :: "audit_log list"
  r_aiToolCalls :: "ai_tool_call list"
  r_aiProviderConfig :: "ai_plugin_config option"
  r_products :: "product gomap"
  r_protocols :: "protocol_package gomap"
  r_protocolDefinitions :: "protocol_definition gomap"
  r_protocolReleases :: "protocol_release gomap"
  r_pointTables :: "point_table_release gomap"
  r_protocolBindings :: "product_binding gomap"
  r_accessProfiles :: "access_profile gomap"
  r_devices :: "managed_device gomap"

definition NewRepository :: repo where
  "NewRepository = \<lparr>r_componentAlarms = [], r_protocolMarket = [], r_rawReservations = [],
     r_leases = [], r_revocations = [], r_commands = [], r_raw = [], r_rawMessages = [],
     r_standard = [], r_standardProcessed = [], r_rulePending = [], r_states = [],
     r_stateEvents = [], r_rules = [], r_alarms = [], r_video = [], r_videoMappings = [],
     r_videoRelations = [], r_ai = [], r_knowledge = [], r_workflowKnowledge = [],
     r_replays = [], r_audits = [], r_aiToolCalls = [], r_aiProviderConfig = None,
     r_products = [], r_protocols = [], r_protocolDefinitions = [], r_protocolReleases = [],
     r_pointTables = [], r_protocolBindings = [], r_accessProfiles = [], r_devices = []\<rparr>"

text \<open>A lookup that answers the zero value with ErrNotFound: the error alone is kept, the value
  is read by no caller that sees the error.\<close>

definition found :: "'v option \<Rightarrow> 'v res" where
  "found x = (case x of None \<Rightarrow> Inl ErrNotFound | Some v \<Rightarrow> Inr v)"

lemma found_simps [simp]: "found None = Inl ErrNotFound" "found (Some v) = Inr v"
  by (simp_all add: found_def)

lemma found_Inr [simp]: "found x = Inr v \<longleftrightarrow> x = Some v"
  by (cases x) auto

lemma found_Inl [simp]: "found x = Inl e \<longleftrightarrow> x = None \<and> e = ErrNotFound"
  by (cases x) auto

text \<open>The value and the total of a paged listing.\<close>

definition paged :: "'a list \<Rightarrow> int \<Rightarrow> int \<Rightarrow> 'a list \<times> int" where
  "paged items limit offset = (page items offset limit, int (length items))"

text \<open>The less functions of the repository's sort.Slice calls.\<close>

definition newer :: "('a \<Rightarrow> int) \<Rightarrow> 'a \<Rightarrow> 'a \<Rightarrow> bool" where
  "newer f a b \<longleftrightarrow> f a > f b"

definition older :: "('a \<Rightarrow> int) \<Rightarrow> 'a \<Rightarrow> 'a \<Rightarrow> bool" where
  "older f a b \<longleftrightarrow> f a < f b"

definition by_name :: "('a \<Rightarrow> string) \<Rightarrow> 'a \<Rightarrow> 'a \<Rightarrow> bool" where
  "by_name f a b \<longleftrightarrow> f a < f b"

text \<open>Newest first, ties by descending identifier.\<close>

definition newer_id :: "('a \<Rightarrow> int) \<Rightarrow> ('a \<Rightarrow> string) \<Rightarrow> 'a \<Rightarrow> 'a \<Rightarrow> bool" where
  "newer_id f g a b \<longleftrightarrow> (if f a = f b then g a > g b else f a > f b)"

definition release_less :: "protocol_release \<Rightarrow> protocol_release \<Rightarrow> bool" where
  "release_less a b \<longleftrightarrow> (if pl_ProtocolID a = pl_ProtocolID b
     then pl_CreatedAt a > pl_CreatedAt b else pl_ProtocolID a < pl_ProtocolID b)"

definition market_less :: "market_entry \<Rightarrow> market_entry \<Rightarrow> bool" where
  "market_less a b \<longleftrightarrow> (if me_ProtocolID a = me_ProtocolID b
     then me_Version a < me_Version b else me_ProtocolID a < me_ProtocolID b)"

interpretation newer: slice_order "newer f" for f
  by unfold_locales (auto simp: newer_def)

interpretation older: slice_order "older f" for f
  by unfold_locales (auto simp: older_def)

interpretation by_name: slice_order "by_name f" for f
  by unfold_locales (auto simp: by_name_def)

interpretation newer_id: slice_order "newer_id f g" for f g
  by unfold_locales (auto simp: newer_id_def split: if_splits)

interpretation release_less: slice_order release_less
  by unfold_locales (auto simp: release_less_def split: if_splits)

interpretation market_less: slice_order market_less
  by unfold_locales (auto simp: market_less_def split: if_splits)

end
