(* ===== verification/Repo_Inventory.thy ===== *)
theory Repo_Inventory
  imports Repo_State
begin

text \<open>
  The inventory operations of the in-memory repository: products, protocol packages, definitions and
  releases, point tables, product bindings, access profiles and managed devices
  (internal/adapters/memory/repository.go), and the private market (protocol_market.go).
\<close>

section \<open>Products and protocol packages\<close>

definition SaveProduct :: "product \<Rightarrow> repo \<Rightarrow> repo" where
  "SaveProduct v r =
     r\<lparr>r_products := mput (r_products r) (key [pr_TenantID v, pr_ID v]) (clone_product v)\<rparr>"

definition GetProduct :: "string \<Rightarrow> string \<Rightarrow> repo \<Rightarrow> product res" where
  "GetProduct tenant i r =
     (case mget (r_products r) (key [tenant, i]) of
        None \<Rightarrow> Inl ErrNotFound | Some v \<Rightarrow> Inr (clone_product v))"

definition ListProducts :: "string \<Rightarrow> repo \<Rightarrow> product list" where
  "ListProducts tenant r = sort_slice (newer pr_UpdatedAt)
     (map clone_product (mfilter (\<lambda>v. tenant = [] \<or> pr_TenantID v = tenant) (r_products r)))"

definition ListProductsPage :: "string \<Rightarrow> int \<Rightarrow> int \<Rightarrow> repo \<Rightarrow> product list \<times> int" where
  "ListProductsPage tenant limit offset r = paged (ListProducts tenant r) limit offset"

definition SaveProtocolPackage :: "protocol_package \<Rightarrow> repo \<Rightarrow> repo" where
  "SaveProtocolPackage v r =
     r\<lparr>r_protocols := mput (r_protocols r) (key [pp_TenantID v, pp_ID v]) (clone_package v)\<rparr>"

definition GetProtocolPackage :: "string \<Rightarrow> string \<Rightarrow> repo \<Rightarrow> protocol_package res" where
  "GetProtocolPackage tenant i r =
     (case mget (r_protocols r) (key [tenant, i]) of
        None \<Rightarrow> Inl ErrNotFound | Some v \<Rightarrow> Inr (clone_package v))"

definition ListProtocolPackages :: "string \<Rightarrow> repo \<Rightarrow> protocol_package list" where
  "ListProtocolPackages tenant r = sort_slice (newer pp_UpdatedAt)
     (map clone_package (mfilter (\<lambda>v. tenant = [] \<or> pp_TenantID v = tenant) (r_protocols r)))"

definition ListProtocolPackagesPage ::
  "string \<Rightarrow> int \<Rightarrow> int \<Rightarrow> repo \<Rightarrow> protocol_package list \<times> int" where
  "ListProtocolPackagesPage tenant limit offset r =
     paged (ListProtocolPackages tenant r) limit offset"

section \<open>Protocol definitions, releases, point tables and bindings\<close>

definition SaveProtocolDefinition :: "protocol_definition \<Rightarrow> repo \<Rightarrow> repo" where
  "SaveProtocolDefinition v r =
     r\<lparr>r_protocolDefinitions := mput (r_protocolDefinitions r) (key [pd_TenantID v, pd_ID v]) v\<rparr>"

definition GetProtocolDefinition :: "string \<Rightarrow> string \<Rightarrow> repo \<Rightarrow> protocol_definition res" where
  "GetProtocolDefinition tenant i r = found (mget (r_protocolDefinitions r) (key [tenant, i]))"

definition ListProtocolDefinitions :: "string \<Rightarrow> repo \<Rightarrow> protocol_definition list" where
  "ListProtocolDefinitions tenant r = sort_slice (newer pd_UpdatedAt)
     (mfilter (\<lambda>v. tenant = [] \<or> pd_TenantID v = tenant) (r_protocolDefinitions r))"

definition CreateProtocolRelease :: "protocol_release \<Rightarrow> repo \<Rightarrow> repo res" where
  "CreateProtocolRelease v r =
     (let k = key [pl_TenantID v, pl_ProtocolID v, pl_Version v]
      in if mget (r_protocolReleases r) k \<noteq> None
         then Inl (ErrText ''protocol release already exists'')
         else Inr (r\<lparr>r_protocolReleases := mput (r_protocolReleases r) k (clone_release v)\<rparr>))"

definition GetProtocolRelease ::
  "string \<Rightarrow> string \<Rightarrow> string \<Rightarrow> repo \<Rightarrow> protocol_release res" where
  "GetProtocolRelease tenant protocolID version r =
     (case mget (r_protocolReleases r) (key [tenant, protocolID, version]) of
        None \<Rightarrow> Inl ErrNotFound | Some v \<Rightarrow> Inr (clone_release v))"

definition ListProtocolReleases :: "string \<Rightarrow> string \<Rightarrow> repo \<Rightarrow> protocol_release list" where
  "ListProtocolReleases tenant protocolID r = sort_slice release_less
     (map clone_release (mfilter (\<lambda>v. (tenant = [] \<or> pl_TenantID v = tenant) \<and>
        (protocolID = [] \<or> pl_ProtocolID v = protocolID)) (r_protocolReleases r)))"

definition UpdateProtocolReleaseStatus ::
  "string \<Rightarrow> string \<Rightarrow> string \<Rightarrow> string \<Rightarrow> int \<Rightarrow> repo \<Rightarrow> repo res" where
  "UpdateProtocolReleaseStatus tenant protocolID version status publishedAt r =
     (let k = key [tenant, protocolID, version]
      in case mget (r_protocolReleases r) k of
           None \<Rightarrow> Inl ErrNotFound
         | Some v \<Rightarrow> Inr (r\<lparr>r_protocolReleases := mput (r_protocolReleases r) k
             (clone_release (v\<lparr>pl_Status := status, pl_PublishedAt := publishedAt\<rparr>))\<rparr>))"

definition CreatePointTableRelease :: "point_table_release \<Rightarrow> repo \<Rightarrow> repo res" where
  "CreatePointTableRelease v r =
     (let k = key [pt_TenantID v, pt_ProtocolID v, pt_Version v]
      in if mget (r_pointTables r) k \<noteq> None
         then Inl (ErrText ''point table release already exists'')
         else Inr (r\<lparr>r_pointTables := mput (r_pointTables r) k (clone_point_table v)\<rparr>))"

definition GetPointTableRelease ::
  "string \<Rightarrow> string \<Rightarrow> string \<Rightarrow> repo \<Rightarrow> point_table_release res" where
  "GetPointTableRelease tenant protocolID version r =
     (case mget (r_pointTables r) (key [tenant, protocolID, version]) of
        None \<Rightarrow> Inl ErrNotFound | Some v \<Rightarrow> Inr (clone_point_table v))"

definition SaveProductProtocolBinding :: "product_binding \<Rightarrow> repo \<Rightarrow> repo" where
  "SaveProductProtocolBinding v r =
     r\<lparr>r_protocolBindings := mput (r_protocolBindings r) (key [pb_TenantID v, pb_ProductID v]) v\<rparr>"

definition GetProductProtocolBinding :: "string \<Rightarrow> string \<Rightarrow> repo \<Rightarrow> product_binding res" where
  "GetProductProtocolBinding tenant productID r =
     found (mget (r_protocolBindings r) (key [tenant, productID]))"

section \<open>Access profiles\<close>

definition SaveDeviceAccessProfile :: "access_profile \<Rightarrow> repo \<Rightarrow> repo" where
  "SaveDeviceAccessProfile v r =
     r\<lparr>r_accessProfiles := mput (r_accessProfiles r) (key [ap_TenantID v, ap_ID v])
         (clone_profile v)\<rparr>"

definition GetDeviceAccessProfile :: "string \<Rightarrow> string \<Rightarrow> repo \<Rightarrow> access_profile res" where
  "GetDeviceAccessProfile tenant i r =
     (case mget (r_accessProfiles r) (key [tenant, i]) of
        None \<Rightarrow> Inl ErrNotFound | Some v \<Rightarrow> Inr (clone_profile v))"

definition ListDeviceAccessProfiles :: "string \<Rightarrow> repo \<Rightarrow> access_profile list" where
  "ListDeviceAccessProfiles tenant r = sort_slice (newer ap_UpdatedAt)
     (map clone_profile (mfilter (\<lambda>v. tenant = [] \<or> ap_TenantID v = tenant) (r_accessProfiles r)))"

text \<open>
  Configuration is the JSON text of a profile without its runtime observations, or the text invalid
  when Marshal fails. Two texts are equal exactly when these values are: objects are compared with
  their keys sorted, as Marshal writes them.
\<close>

fun json_sort :: "any \<Rightarrow> any" where
  "json_sort (AArr xs) = AArr (map json_sort xs)"
| "json_sort (AObj es) = AObj (sort_key fst (map (\<lambda>e. (fst e, json_sort (snd e))) es))"
| "json_sort x = json_any x"

definition Configuration :: "access_profile \<Rightarrow> access_profile option" where
  "Configuration p =
     (if list_all (\<lambda>q. json_map_ok (pq_Params q)) (ap_Queries p)
      then Some (p\<lparr>ap_RuntimeStatus := [], ap_LastError := [], ap_LastSuccessAt := 0,
             ap_LastErrorAt := 0, ap_Queries := map (\<lambda>q. q\<lparr>pq_Params :=
               sort_key fst (map (\<lambda>e. (fst e, json_sort (snd e))) (pq_Params q))\<rparr>) (ap_Queries p)\<rparr>)
      else None)"

definition UpdateDeviceAccessStatus ::
  "access_profile \<Rightarrow> string \<Rightarrow> string \<Rightarrow> int \<Rightarrow> repo \<Rightarrow> bool \<times> repo" where
  "UpdateDeviceAccessStatus expected status message at r =
     (let k = key [ap_TenantID expected, ap_ID expected]
      in case mget (r_accessProfiles r) k of
           None \<Rightarrow> (False, r)
         | Some current \<Rightarrow>
             if Configuration current \<noteq> Configuration expected then (False, r)
             else let c1 = current\<lparr>ap_RuntimeStatus := status, ap_LastError := message\<rparr>;
                      c2 = (if status = ''ONLINE'' \<or> (status = ''LISTENING'' \<and> at > 0)
                            then c1\<lparr>ap_LastSuccessAt := at\<rparr>
                            else if status = ''ERROR'' then c1\<lparr>ap_LastErrorAt := at\<rparr> else c1)
                  in (True, r\<lparr>r_accessProfiles := mput (r_accessProfiles r) k c2\<rparr>))"

section \<open>Managed devices\<close>

definition access_key_taken :: "managed_device \<Rightarrow> repo \<Rightarrow> bool" where
  "access_key_taken v r \<longleftrightarrow> list_ex (\<lambda>current. md_AccessKey current = md_AccessKey v \<and>
     (md_TenantID current \<noteq> md_TenantID v \<or> md_ID current \<noteq> md_ID v)) (mvals (r_devices r))"

definition SaveManagedDevice :: "managed_device \<Rightarrow> repo \<Rightarrow> repo res" where
  "SaveManagedDevice v r =
     (if access_key_taken v r then Inl (ErrText ''access key already exists'')
      else Inr (r\<lparr>r_devices := mput (r_devices r) (key [md_TenantID v, md_ID v]) v\<rparr>))"

definition GetManagedDevice :: "string \<Rightarrow> string \<Rightarrow> repo \<Rightarrow> managed_device res" where
  "GetManagedDevice tenant i r = found (mget (r_devices r) (key [tenant, i]))"

definition GetManagedDeviceByAccessKey :: "string \<Rightarrow> repo \<Rightarrow> managed_device res" where
  "GetManagedDeviceByAccessKey accessKey r =
     found (find (\<lambda>v. md_AccessKey v = accessKey) (mvals (r_devices r)))"

definition ListManagedDevices :: "string \<Rightarrow> repo \<Rightarrow> managed_device list" where
  "ListManagedDevices tenant r = sort_slice (newer md_UpdatedAt)
     (mfilter (\<lambda>v. tenant = [] \<or> md_TenantID v = tenant) (r_devices r))"

definition ListManagedDevicesPage ::
  "string \<Rightarrow> int \<Rightarrow> int \<Rightarrow> repo \<Rightarrow> managed_device list \<times> int" where
  "ListManagedDevicesPage tenant limit offset r =
     paged (ListManagedDevices tenant r) limit offset"

definition CountManagedDeviceChildren :: "string \<Rightarrow> string list \<Rightarrow> repo \<Rightarrow> int gomap" where
  "CountManagedDeviceChildren tenant ids r =
     (if ids = [] then []
      else let wanted = filter (\<lambda>i. i \<noteq> []) ids
           in foldl (\<lambda>counts device.
                if md_TenantID device = tenant \<and> md_GatewayID device \<noteq> [] \<and>
                   md_GatewayID device \<in> set wanted
                then mput counts (md_GatewayID device)
                       (mget_or 0 counts (md_GatewayID device) + 1)
                else counts) [] (mvals (r_devices r)))"

definition ListManagedDeviceChildren ::
  "string \<Rightarrow> string \<Rightarrow> int \<Rightarrow> int \<Rightarrow> repo \<Rightarrow> managed_device list \<times> int" where
  "ListManagedDeviceChildren tenant parent limit offset r =
     (let items = sort_slice (by_name md_ID)
            (mfilter (\<lambda>d. md_TenantID d = tenant \<and> md_GatewayID d = parent) (r_devices r));
          total = int (length items);
          offset = max 0 (min offset total);
          limit = max 1 (min limit 100)
      in (take (nat (min total (offset + limit) - offset)) (drop (nat offset) items), total))"

section \<open>The private protocol market\<close>

definition ListProtocolMarket :: "string \<Rightarrow> repo \<Rightarrow> market_entry list" where
  "ListProtocolMarket tenant r =
     sort_slice market_less (mfilter (\<lambda>v. me_TenantID v = tenant) (r_protocolMarket r))"

definition GetProtocolMarket :: "string \<Rightarrow> string \<Rightarrow> string \<Rightarrow> repo \<Rightarrow> market_entry res" where
  "GetProtocolMarket tenant i version r =
     found (mget (r_protocolMarket r) (key [tenant, i, version]))"

definition SubmitProtocolMarket :: "market_entry \<Rightarrow> repo \<Rightarrow> repo res" where
  "SubmitProtocolMarket v r =
     (let k = key [me_TenantID v, me_ProtocolID v, me_Version v]
      in if mget (r_protocolMarket r) k \<noteq> None then Inl ErrMarketConflict
         else if length (mfilter (\<lambda>e. me_TenantID e = me_TenantID v) (r_protocolMarket r)) \<ge> 1000
         then Inl ErrMarketLimit
         else Inr (r\<lparr>r_protocolMarket := mput (r_protocolMarket r) k v\<rparr>))"

text \<open>Method Review of an entry (internal/model/protocol_market.go); now is the clock it reads.\<close>

definition Review :: "string \<Rightarrow> string \<Rightarrow> string \<Rightarrow> int \<Rightarrow> int \<Rightarrow> market_entry \<Rightarrow> market_entry res" where
  "Review actor decision reason expected now v =
     (if me_Generation v \<noteq> expected then Inl ErrMarketConflict
      else if actor = [] \<or> length reason > 4096 \<or> reason = [] then Inl ErrMarketReview
      else if (if decision = ''WITHDRAWN''
               then me_Status v \<noteq> ''APPROVED'' \<and> me_Status v \<noteq> ''SUBMITTED''
               else (decision \<noteq> ''APPROVED'' \<and> decision \<noteq> ''REJECTED'') \<or>
                    me_Status v \<noteq> ''SUBMITTED'' \<or> me_SubmittedBy v = actor)
      then Inl ErrMarketReview
      else Inr (v\<lparr>me_Generation := me_Generation v + 1, me_Status := decision,
             me_Reviews := me_Reviews v @ [\<lparr>mr_Actor = actor, mr_Decision = decision,
               mr_Reason = reason, mr_At = now\<rparr>]\<rparr>))"

definition ReviewProtocolMarket ::
  "string \<Rightarrow> string \<Rightarrow> string \<Rightarrow> string \<Rightarrow> string \<Rightarrow> string \<Rightarrow> int \<Rightarrow> int \<Rightarrow> repo \<Rightarrow>
     market_entry res \<times> repo" where
  "ReviewProtocolMarket tenant i version actor decision reason expected now r =
     (let k = key [tenant, i, version]
      in case mget (r_protocolMarket r) k of
           None \<Rightarrow> (Inl ErrNotFound, r)
         | Some v \<Rightarrow> (case Review actor decision reason expected now v of
               Inl e \<Rightarrow> (Inl e, r)
             | Inr w \<Rightarrow> (Inr w, r\<lparr>r_protocolMarket := mput (r_protocolMarket r) k w\<rparr>)))"

end
