(* ===== verification/Repo_Messages.thy ===== *)
theory Repo_Messages
  imports Repo_State
begin

text \<open>
  The message operations of the in-memory repository: raw reservations, raw messages and their
  archive index, standard messages with their processed flags, property history, device states and
  their events. The parameter sha is the hexadecimal SHA-256 digest, cp the compaction of
  json.RawMessage (theory Json).
\<close>

section \<open>Raw messages\<close>

definition PayloadHash :: "(string \<Rightarrow> string) \<Rightarrow> raw_message \<Rightarrow> string" where
  "PayloadHash sha m = sha (rm_Payload m)"

definition ReserveRawMessage ::
  "(string \<Rightarrow> string) \<Rightarrow> (string \<Rightarrow> string option) \<Rightarrow> raw_message \<Rightarrow> repo \<Rightarrow>
     raw_message res \<times> repo" where
  "ReserveRawMessage sha cp v r =
     (let k = key [rm_TenantID v, rm_MessageID v]
      in case mget (r_rawReservations r) k of
           Some old \<Rightarrow>
             if rv_Hash old \<noteq> PayloadHash sha v \<or> rm_ProductID (rv_Metadata old) \<noteq> rm_ProductID v \<or>
                rm_DeviceID (rv_Metadata old) \<noteq> rm_DeviceID v
             then (Inl ErrRawConflict, r)
             else (Inr ((clone_raw cp (rv_Metadata old))\<lparr>rm_Payload := rm_Payload v\<rparr>), r)
         | None \<Rightarrow>
             (Inr v, r\<lparr>r_rawReservations := mput (r_rawReservations r) k
                \<lparr>rv_Metadata = (clone_raw cp v)\<lparr>rm_Payload := []\<rparr>, rv_Hash = PayloadHash sha v\<rparr>\<rparr>))"

definition SaveRawIndex :: "raw_index \<Rightarrow> repo \<Rightarrow> bool \<times> repo" where
  "SaveRawIndex v r =
     (let k = key [ri_TenantID v, ri_MessageID v]
      in if mget (r_raw r) k \<noteq> None then (False, r)
         else (True, r\<lparr>r_raw := mput (r_raw r) k v\<rparr>))"

definition SaveRawMessage ::
  "(string \<Rightarrow> string) \<Rightarrow> (string \<Rightarrow> string option) \<Rightarrow> raw_message \<Rightarrow> repo \<Rightarrow> repo res" where
  "SaveRawMessage sha cp v r =
     (let k = key [rm_TenantID v, rm_MessageID v]
      in case mget (r_rawMessages r) k of
           Some old \<Rightarrow>
             if PayloadHash sha old \<noteq> PayloadHash sha v \<or> rm_DeviceID old \<noteq> rm_DeviceID v \<or>
                rm_ProductID old \<noteq> rm_ProductID v
             then Inl ErrRawConflict else Inr r
         | None \<Rightarrow> Inr (r\<lparr>r_rawMessages := mput (r_rawMessages r) k (clone_raw cp v)\<rparr>))"

definition GetRawMessage ::
  "(string \<Rightarrow> string option) \<Rightarrow> string \<Rightarrow> string \<Rightarrow> repo \<Rightarrow> raw_message res" where
  "GetRawMessage cp tenant messageID r =
     (case mget (r_rawMessages r) (key [tenant, messageID]) of
        None \<Rightarrow> Inl ErrNotFound | Some v \<Rightarrow> Inr (clone_raw cp v))"

definition MarkRawPublished :: "string \<Rightarrow> string \<Rightarrow> int \<Rightarrow> string \<Rightarrow> repo \<Rightarrow> repo res" where
  "MarkRawPublished tenant messageID publishedAt lastError r =
     (let k = key [tenant, messageID]
      in case mget (r_raw r) k of
           None \<Rightarrow> Inl ErrNotFound
         | Some v \<Rightarrow>
             let v1 = v\<lparr>ri_PublishAttempts := ri_PublishAttempts v + 1,
                       ri_LastPublishError := lastError\<rparr>;
                 v2 = (if lastError = [] then v1\<lparr>ri_PublishedAt := publishedAt\<rparr> else v1)
             in Inr (r\<lparr>r_raw := mput (r_raw r) k v2\<rparr>))"

definition MarkRawParseResult :: "string \<Rightarrow> string \<Rightarrow> int \<Rightarrow> string \<Rightarrow> repo \<Rightarrow> repo" where
  "MarkRawParseResult tenant i at message r =
     (let k = key [tenant, i]
      in case mget (r_raw r) k of
           None \<Rightarrow> r
         | Some v \<Rightarrow> r\<lparr>r_raw := mput (r_raw r) k
               (v\<lparr>ri_ParseAttemptedAt := at, ri_ParseError := message\<rparr>)\<rparr>)"

definition ListPendingRawIndexes :: "int \<Rightarrow> repo \<Rightarrow> raw_index list" where
  "ListPendingRawIndexes limit r =
     page (sort_slice (older ri_ArchivedAt) (mfilter (\<lambda>v. ri_PublishedAt v = 0) (r_raw r))) 0 limit"

definition GetRawIndex :: "string \<Rightarrow> string \<Rightarrow> repo \<Rightarrow> raw_index res" where
  "GetRawIndex tenant messageID r = found (mget (r_raw r) (key [tenant, messageID]))"

record raw_filter =
  f_TenantID :: string
  f_ProductID :: string
  f_DeviceID :: string
  f_Start :: int
  f_End :: int
  f_Limit :: int
  f_Offset :: int

definition raw_skipped :: "raw_filter \<Rightarrow> raw_index \<Rightarrow> bool" where
  "raw_skipped f v \<longleftrightarrow>
     f_TenantID f \<noteq> [] \<and> ri_TenantID v \<noteq> f_TenantID f \<or>
     f_ProductID f \<noteq> [] \<and> ri_ProductID v \<noteq> f_ProductID f \<or>
     f_DeviceID f \<noteq> [] \<and> ri_DeviceID v \<noteq> f_DeviceID f \<or>
     f_Start f > 0 \<and> ri_ReceivedAt v < f_Start f \<or>
     f_End f > 0 \<and> ri_ReceivedAt v > f_End f"

definition ListRawIndexes :: "raw_filter \<Rightarrow> repo \<Rightarrow> raw_index list" where
  "ListRawIndexes f r = page (sort_slice (newer ri_ReceivedAt)
     (mfilter (\<lambda>v. \<not> raw_skipped f v) (r_raw r))) (f_Offset f) (f_Limit f)"

definition CountRawIndexes :: "raw_filter \<Rightarrow> repo \<Rightarrow> int" where
  "CountRawIndexes f r = int (length (mfilter (\<lambda>v. \<not> raw_skipped f v) (r_raw r)))"

section \<open>Standard messages\<close>

definition SaveStandardMessageIfAbsent :: "standard_message \<Rightarrow> repo \<Rightarrow> bool \<times> repo" where
  "SaveStandardMessageIfAbsent v r =
     (let k = key [sm_TenantID v, sm_MessageID v]
      in if mget (r_standard r) k \<noteq> None then (False, r)
         else (True, r\<lparr>r_standard := mput (r_standard r) k v,
                       r_standardProcessed := mput (r_standardProcessed r) k False\<rparr>))"

definition SaveStandardMessage :: "standard_message \<Rightarrow> repo \<Rightarrow> repo" where
  "SaveStandardMessage v r = snd (SaveStandardMessageIfAbsent v r)"

text \<open>The first result is whether to process the message, the second whether it is new.\<close>

definition ClaimStandardMessage :: "standard_message \<Rightarrow> repo \<Rightarrow> (bool \<times> bool) \<times> repo" where
  "ClaimStandardMessage v r =
     (let k = key [sm_TenantID v, sm_MessageID v]
      in if mget (r_standard r) k = None
         then ((True, True), r\<lparr>r_standard := mput (r_standard r) k v,
                       r_standardProcessed := mput (r_standardProcessed r) k False\<rparr>)
         else ((\<not> mget_or False (r_standardProcessed r) k, False), r))"

definition MarkStandardMessageProcessed :: "string \<Rightarrow> string \<Rightarrow> repo \<Rightarrow> repo res" where
  "MarkStandardMessageProcessed tenant messageID r =
     (let k = key [tenant, messageID]
      in if mget (r_standard r) k = None then Inl ErrNotFound
         else Inr (r\<lparr>r_standardProcessed := mput (r_standardProcessed r) k True\<rparr>))"

definition GetStandardMessageByRaw :: "string \<Rightarrow> string \<Rightarrow> repo \<Rightarrow> standard_message res" where
  "GetStandardMessageByRaw tenant rawID r =
     (case find (\<lambda>v. sm_TenantID v = tenant \<and> sm_RawMessageID v = rawID) (mvals (r_standard r)) of
        None \<Rightarrow> Inl ErrNotFound | Some v \<Rightarrow> Inr (clone_standard v))"

definition GetLatestMessage :: "string \<Rightarrow> string \<Rightarrow> repo \<Rightarrow> standard_message res" where
  "GetLatestMessage tenant device r =
     found (foldl (\<lambda>out v.
       if sm_TenantID v = tenant \<and> sm_DeviceID v = device \<and>
          (case out of None \<Rightarrow> True | Some w \<Rightarrow> sm_Timestamp v > sm_Timestamp w)
       then Some (clone_standard v) else out) None (mvals (r_standard r)))"

record history_item =
  hi_timestamp :: int
  hi_value :: any
  hi_messageId :: string

definition PropertyHistory ::
  "string \<Rightarrow> string \<Rightarrow> string \<Rightarrow> int \<Rightarrow> int \<Rightarrow> int \<Rightarrow> repo \<Rightarrow> history_item list" where
  "PropertyHistory tenant device property start end1 limit r =
     (let out = sort_slice (older hi_timestamp) (concat (map (\<lambda>v.
            if sm_TenantID v \<noteq> tenant \<or> sm_DeviceID v \<noteq> device \<or> sm_Timestamp v < start \<or>
               (end1 > 0 \<and> sm_Timestamp v > end1) then []
            else case mget (sm_Properties v) property of
                   None \<Rightarrow> []
                 | Some value \<Rightarrow> [\<lparr>hi_timestamp = sm_Timestamp v, hi_value = value,
                                 hi_messageId = sm_MessageID v\<rparr>]) (mvals (r_standard r))))
      in if limit > 0 \<and> int (length out) > limit then drop (length out - nat limit) out else out)"

definition PropertyHistoryPage ::
  "string \<Rightarrow> string \<Rightarrow> string \<Rightarrow> int \<Rightarrow> int \<Rightarrow> int \<Rightarrow> int \<Rightarrow> repo \<Rightarrow> history_item list \<times> int" where
  "PropertyHistoryPage tenant device property start end1 limit offset r =
     (let items = PropertyHistory tenant device property start end1 0 r;
          total = int (length items);
          limit = (if limit \<le> 0 then 20 else limit);
          offset = (if offset < 0 then 0 else offset);
          endIndex = total - offset
      in if endIndex \<le> 0 then ([], total)
         else let startIndex = (if endIndex - limit < 0 then 0 else endIndex - limit)
              in (take (nat (endIndex - startIndex)) (drop (nat startIndex) items), total))"

definition ListDeviceMessages ::
  "string \<Rightarrow> string \<Rightarrow> message_type \<Rightarrow> int \<Rightarrow> int \<Rightarrow> repo \<Rightarrow> standard_message list \<times> int" where
  "ListDeviceMessages t d kind limit offset r =
     paged (sort_slice (newer_id sm_Timestamp sm_MessageID) (map clone_standard
       (mfilter (\<lambda>v. sm_TenantID v = t \<and> sm_DeviceID v = d \<and>
          (kind = [] \<or> sm_MessageType v = kind)) (r_standard r)))) limit offset"

section \<open>Device states\<close>

definition UpsertDeviceState :: "device_state \<Rightarrow> repo \<Rightarrow> repo" where
  "UpsertDeviceState v r =
     r\<lparr>r_states := mput (r_states r) (key [ds_TenantID v, ds_DeviceID v]) v\<rparr>"

definition GetDeviceState :: "string \<Rightarrow> string \<Rightarrow> repo \<Rightarrow> device_state res" where
  "GetDeviceState tenant device r = found (mget (r_states r) (key [tenant, device]))"

definition ListDeviceStates :: "string \<Rightarrow> repo \<Rightarrow> device_state list" where
  "ListDeviceStates tenant r = mfilter (\<lambda>v. tenant = [] \<or> ds_TenantID v = tenant) (r_states r)"

definition ListDeviceStatesPage ::
  "string \<Rightarrow> int \<Rightarrow> int \<Rightarrow> repo \<Rightarrow> device_state list \<times> int" where
  "ListDeviceStatesPage tenant limit offset r =
     paged (sort_slice (newer ds_LastSeenAt) (ListDeviceStates tenant r)) limit offset"

definition registered_ids :: "string \<Rightarrow> repo \<Rightarrow> string list" where
  "registered_ids tenant r =
     map md_ID (mfilter (\<lambda>d. md_TenantID d = tenant) (r_devices r))"

definition ListUnregisteredDeviceStatesPage ::
  "string \<Rightarrow> int \<Rightarrow> int \<Rightarrow> repo \<Rightarrow> device_state list \<times> int" where
  "ListUnregisteredDeviceStatesPage tenant limit offset r =
     paged (sort_slice (newer ds_LastSeenAt)
       (filter (\<lambda>item. ds_DeviceID item \<notin> set (registered_ids tenant r))
          (ListDeviceStates tenant r))) limit offset"

definition CountDeviceStates :: "string \<Rightarrow> bool \<Rightarrow> repo \<Rightarrow> int \<times> int" where
  "CountDeviceStates tenant unregisteredOnly r =
     (let counted = mfilter (\<lambda>s. ds_TenantID s = tenant \<and>
            (unregisteredOnly \<longrightarrow> ds_DeviceID s \<notin> set (registered_ids tenant r))) (r_states r);
          online = filter (\<lambda>s. ds_BusinessStatus s = ''ONLINE'' \<or> ds_BusinessStatus s = ''ALARM'')
            counted
      in (int (length counted), int (length online)))"

definition SaveDeviceStateEvent :: "device_state \<Rightarrow> int \<Rightarrow> repo \<Rightarrow> repo" where
  "SaveDeviceStateEvent v now r =
     r\<lparr>r_stateEvents := r_stateEvents r @ [\<lparr>se_State = v, se_RecordedAt = now\<rparr>]\<rparr>"

definition ListDeviceStateEvents ::
  "string \<Rightarrow> string \<Rightarrow> int \<Rightarrow> int \<Rightarrow> repo \<Rightarrow> device_state_event list \<times> int" where
  "ListDeviceStateEvents t d limit offset r =
     paged (filter (\<lambda>v. ds_TenantID (se_State v) = t \<and> ds_DeviceID (se_State v) = d)
       (rev (r_stateEvents r))) limit offset"

end
