(* ===== verification/Repo_Devices.thy ===== *)
theory Repo_Devices
  imports Repo_Inventory Repo_Messages
begin

text \<open>
  The device operations of the in-memory repository that check and change several maps at once:
  execution leases (execution.go), protocol registration and children (protocol_registration.go,
  protocol_children.go with package model), credentials and commands (device_operations.go) and the
  onboarding bundle (onboarding.go). The argument now is the clock an operation reads.
\<close>

section \<open>Execution leases\<close>

text \<open>ttl in milliseconds; the code accepts 1 second to 1 minute.\<close>

definition AcquireExecutionLease ::
  "string \<Rightarrow> string \<Rightarrow> string \<Rightarrow> string \<Rightarrow> int \<Rightarrow> int \<Rightarrow> repo \<Rightarrow>
     (execution_lease \<times> bool) res \<times> repo" where
  "AcquireExecutionLease tenant resource owner endpoint ttl now r =
     (if tenant = [] \<or> resource = [] \<or> owner = [] \<or> ttl < 1000 \<or> ttl > 60000
      then (Inl (ErrText ''invalid execution lease''), r)
      else let k = key [tenant, resource];
               found1 = mget (r_leases r) k;
               v = mget_or zero_execution_lease (r_leases r) k
           in if found1 \<noteq> None \<and> le_ExpiresAt v > now \<and> le_Owner v \<noteq> owner
              then (Inr (v, False), r)
              else let v1 = (if found1 = None
                       then zero_execution_lease\<lparr>le_TenantID := tenant, le_Resource := resource,
                              le_Token := 1\<rparr>
                       else if le_ExpiresAt v \<le> now then v\<lparr>le_Token := le_Token v + 1\<rparr> else v);
                       v2 = v1\<lparr>le_Owner := owner, le_Endpoint := endpoint, le_ExpiresAt := now + ttl\<rparr>
                   in (Inr (v2, True), r\<lparr>r_leases := mput (r_leases r) k v2\<rparr>))"

definition GetExecutionLease :: "string \<Rightarrow> string \<Rightarrow> int \<Rightarrow> repo \<Rightarrow> execution_lease res" where
  "GetExecutionLease tenant resource now r =
     (case mget (r_leases r) (key [tenant, resource]) of
        None \<Rightarrow> Inl ErrNotFound
      | Some v \<Rightarrow> if le_ExpiresAt v \<le> now then Inl ErrNotFound else Inr v)"

definition ReleaseExecutionLease :: "execution_lease \<Rightarrow> repo \<Rightarrow> repo" where
  "ReleaseExecutionLease lease r =
     (let k = key [le_TenantID lease, le_Resource lease]
      in case mget (r_leases r) k of
           None \<Rightarrow> r
         | Some v \<Rightarrow> if le_Owner v = le_Owner lease \<and> le_Token v = le_Token lease
             then r\<lparr>r_leases := mput (r_leases r) k (v\<lparr>le_ExpiresAt := 0\<rparr>)\<rparr> else r)"

section \<open>Protocol registration\<close>

text \<open>
  ValidProtocolDeviceID: unicode.IsSpace and unicode.IsControl over the bytes of an identifier. The
  spaces are those of strings.TrimSpace, the control characters U+0000 to U+001F and U+007F to
  U+009F, the latter range two bytes in UTF-8.
\<close>

definition control_or_space :: "string list" where
  "control_or_space = spaces @ map (\<lambda>n. [char_of n]) ([0..<32] @ [127]) @
     map (\<lambda>n. [char_of (0xC2::nat), char_of n]) [128..<160]"

definition ValidProtocolDeviceID :: "string \<Rightarrow> bool" where
  "ValidProtocolDeviceID i \<longleftrightarrow>
     \<not> (i = [] \<or> length i > 128 \<or> trim_space i \<noteq> i) \<and>
     \<not> list_ex (\<lambda>p. contains i p) control_or_space \<and>
     CHR ''/'' \<notin> set i \<and> CHR 0x5C \<notin> set i"

definition ProtocolDeviceAccessKey :: "(string \<Rightarrow> string) \<Rightarrow> string \<Rightarrow> string \<Rightarrow> string" where
  "ProtocolDeviceAccessKey sha tenant i = ''protocol_'' @ sha (tenant @ nul # i)"

definition ProtocolRegistrationDevice ::
  "(string \<Rightarrow> string) \<Rightarrow> access_profile \<Rightarrow> access_profile \<Rightarrow> product \<Rightarrow> string \<Rightarrow> string \<Rightarrow>
     int \<Rightarrow> managed_device res" where
  "ProtocolRegistrationDevice sha expected current product1 i name now =
     (if Configuration expected \<noteq> Configuration current \<or> \<not> ap_Enabled current \<or>
         \<not> ap_AutoRegister current \<or> ap_Mode current \<noteq> ''listener'' \<or>
         (ap_Network current \<noteq> ''tcp'' \<and> ap_Network current \<noteq> ''udp'') \<or>
         ap_TenantID current = [] \<or> ap_ID current = [] \<or> \<not> ValidProtocolDeviceID i \<or>
         (ap_DeviceID current \<noteq> [] \<and> ap_DeviceID current \<noteq> i) \<or>
         pr_TenantID product1 \<noteq> ap_TenantID current \<or> pr_ID product1 \<noteq> ap_ProductID current \<or>
         pr_Status product1 \<noteq> ''ENABLED'' \<or> length name > 256
      then Inl ErrProtocolRegistration
      else Inr (zero_managed_device\<lparr>md_ID := i, md_TenantID := ap_TenantID current,
             md_ProductID := ap_ProductID current, md_Name := (if name = [] then i else name),
             md_Status := ''ENABLED'', md_DeviceRole := ''DIRECT'',
             md_RegistrationSource := ''PROTOCOL_AUTO'', md_AutoRegistered := True,
             md_CreatedAt := now, md_UpdatedAt := now,
             md_AccessKey := ProtocolDeviceAccessKey sha (ap_TenantID current) i,
             md_Tags := [(''connector'', to_upper (ap_Network current)),
                         (''connectorProfileId'', ap_ID current)]\<rparr>))"

definition RegisteredProtocolDevice :: "managed_device \<Rightarrow> access_profile \<Rightarrow> error option" where
  "RegisteredProtocolDevice existing profile =
     (if md_TenantID existing \<noteq> ap_TenantID profile \<or> md_ProductID existing \<noteq> ap_ProductID profile \<or>
         md_Status existing \<noteq> ''ENABLED''
      then Some ErrProtocolRegistration else None)"

text \<open>The result is the device, whether it is new, and the error.\<close>

definition RegisterProtocolDevice ::
  "(string \<Rightarrow> string) \<Rightarrow> access_profile \<Rightarrow> string \<Rightarrow> string \<Rightarrow> int \<Rightarrow> repo \<Rightarrow>
     (managed_device \<times> bool \<times> error option) \<times> repo" where
  "RegisterProtocolDevice sha expected i name now r =
     (let current = mget_or zero_access_profile (r_accessProfiles r)
            (key [ap_TenantID expected, ap_ID expected]);
          product1 = mget_or zero_product (r_products r)
            (key [ap_TenantID current, ap_ProductID current])
      in case ProtocolRegistrationDevice sha expected current product1 i name now of
           Inl e \<Rightarrow> ((zero_managed_device, False, Some e), r)
         | Inr d \<Rightarrow>
             if ap_EdgeNodeID current \<noteq> [] then ((d, False, Some ErrProtocolRegistration), r)
             else (case mget (r_devices r) (key [ap_TenantID current, i]) of
                 Some existing \<Rightarrow>
                   ((existing, False, RegisteredProtocolDevice existing current), r)
               | None \<Rightarrow>
                   if list_ex (\<lambda>e. md_AccessKey e = md_AccessKey d) (mvals (r_devices r))
                   then ((zero_managed_device, False, Some ErrProtocolRegistration), r)
                   else ((d, True, None),
                     r\<lparr>r_devices := mput (r_devices r) (key [md_TenantID d, md_ID d]) d\<rparr>)))"

section \<open>Children behind a gateway\<close>

definition ChildDeviceID :: "(string \<Rightarrow> string) \<Rightarrow> string \<Rightarrow> string \<Rightarrow> string \<Rightarrow> string" where
  "ChildDeviceID sha tenant parent address =
     ''child_'' @ drop 9 (ProtocolDeviceAccessKey sha tenant (parent @ nul # address))"

definition ProtocolChildDevice ::
  "(string \<Rightarrow> string) \<Rightarrow> access_profile \<Rightarrow> access_profile \<Rightarrow> managed_device \<Rightarrow> product \<Rightarrow>
     child_identity \<Rightarrow> int \<Rightarrow> managed_device res" where
  "ProtocolChildDevice sha expected current parent product1 identity now =
     (if Configuration expected \<noteq> Configuration current \<or> \<not> ap_Enabled current \<or>
         ap_EdgeNodeID current \<noteq> [] \<or> ap_Mode current \<noteq> ''listener'' \<or>
         md_TenantID parent \<noteq> ap_TenantID current \<or> md_ProductID parent \<noteq> ap_ProductID current \<or>
         md_Status parent \<noteq> ''ENABLED'' \<or> md_DeviceRole parent = ''CHILD'' \<or>
         (ap_DeviceID current \<noteq> [] \<and> md_ID parent \<noteq> ap_DeviceID current) \<or>
         \<not> ValidProtocolDeviceID (ci_Address identity) \<or> length (ci_Name identity) > 256 \<or>
         pr_TenantID product1 \<noteq> ap_TenantID current \<or> pr_Status product1 \<noteq> ''ENABLED''
      then Inl ErrProtocolRegistration
      else if \<not> list_ex (\<lambda>v. cb_Type v = ci_Type identity \<and> cb_ProductID v = pr_ID product1)
            (ap_ChildProducts current)
      then Inl ErrProtocolRegistration
      else let i = ChildDeviceID sha (ap_TenantID current) (md_ID parent) (ci_Address identity)
           in Inr (zero_managed_device\<lparr>md_ID := i, md_TenantID := ap_TenantID current,
                md_ProductID := pr_ID product1,
                md_Name := (if ci_Name identity = [] then ci_Address identity else ci_Name identity),
                md_Status := ''ENABLED'', md_DeviceRole := ''CHILD'', md_GatewayID := md_ID parent,
                md_RegistrationSource := ''PROTOCOL_CHILD_AUTO'', md_AutoRegistered := True,
                md_AccessKey := ProtocolDeviceAccessKey sha (ap_TenantID current) i,
                md_CreatedAt := now, md_UpdatedAt := now,
                md_Tags := [(''connector'', ''TCP_CHILD''), (''connectorProfileId'', ap_ID current),
                            (''childAddress'', ci_Address identity), (''childType'', ci_Type identity)]\<rparr>))"

definition ExistingProtocolChild :: "managed_device \<Rightarrow> managed_device \<Rightarrow> error option" where
  "ExistingProtocolChild old next1 =
     (if md_TenantID old \<noteq> md_TenantID next1 \<or> md_ProductID old \<noteq> md_ProductID next1 \<or>
         md_GatewayID old \<noteq> md_GatewayID next1 \<or> md_DeviceRole old \<noteq> ''CHILD'' \<or>
         md_Status old \<noteq> ''ENABLED'' \<or>
         mget_or [] (md_Tags old) ''childAddress'' \<noteq> mget_or [] (md_Tags next1) ''childAddress'' \<or>
         mget_or [] (md_Tags old) ''childType'' \<noteq> mget_or [] (md_Tags next1) ''childType''
      then Some ErrProtocolRegistration else None)"

definition RegisterProtocolChild ::
  "(string \<Rightarrow> string) \<Rightarrow> access_profile \<Rightarrow> string \<Rightarrow> child_identity \<Rightarrow> int \<Rightarrow> repo \<Rightarrow>
     (managed_device \<times> bool \<times> error option) \<times> repo" where
  "RegisterProtocolChild sha expected parentID identity now r =
     (let tenant = ap_TenantID expected;
          current = mget_or zero_access_profile (r_accessProfiles r) (key [tenant, ap_ID expected]);
          parent = mget_or zero_managed_device (r_devices r) (key [tenant, parentID])
      in if pr_Status (mget_or zero_product (r_products r) (key [tenant, md_ProductID parent]))
              \<noteq> ''ENABLED''
         then ((zero_managed_device, False, Some ErrProtocolRegistration), r)
         else let productID = foldl (\<lambda>acc v. if cb_Type v = ci_Type identity
                    then cb_ProductID v else acc) [] (ap_ChildProducts current);
                  product1 = mget_or zero_product (r_products r) (key [tenant, productID])
         in case ProtocolChildDevice sha expected current parent product1 identity now of
              Inl e \<Rightarrow> ((zero_managed_device, False, Some e), r)
            | Inr d \<Rightarrow>
                let binding = mget (r_protocolBindings r) (key [md_TenantID d, md_ProductID d]);
                    b = (case binding of None \<Rightarrow> zero_product_binding | Some b \<Rightarrow> b);
                    release = mget_or zero_protocol_release (r_protocolReleases r)
                      (key [md_TenantID d, pb_ProtocolID b, pb_Version b])
                in if binding = None \<or> pl_Status release \<noteq> ''PUBLISHED''
                   then ((d, False, Some ErrProtocolRegistration), r)
                   else if access_key_taken d r
                   then ((d, False, Some ErrProtocolRegistration), r)
                   else (case mget (r_devices r) (key [md_TenantID d, md_ID d]) of
                       Some old \<Rightarrow>
                         (case ExistingProtocolChild old d of
                            Some e \<Rightarrow> ((d, False, Some e), r)
                          | None \<Rightarrow>
                              let o1 = old\<lparr>md_UpdatedAt := md_UpdatedAt d\<rparr>;
                                  d1 = (if ci_Name identity \<noteq> []
                                        then o1\<lparr>md_Name := ci_Name identity\<rparr> else o1)
                              in ((d1, False, None), r\<lparr>r_devices :=
                                   mput (mput (r_devices r)
                                      (key [md_TenantID parent, md_ID parent])
                                      (parent\<lparr>md_DeviceRole := ''GATEWAY''\<rparr>))
                                      (key [md_TenantID d1, md_ID d1]) d1\<rparr>))
                     | None \<Rightarrow>
                         ((d, True, None), r\<lparr>r_devices :=
                            mput (mput (r_devices r) (key [md_TenantID parent, md_ID parent])
                               (parent\<lparr>md_DeviceRole := ''GATEWAY''\<rparr>))
                               (key [md_TenantID d, md_ID d]) d\<rparr>)))"

section \<open>Credentials and commands\<close>

definition ChangeDeviceCredential ::
  "string \<Rightarrow> string \<Rightarrow> string \<Rightarrow> string \<Rightarrow> int \<Rightarrow> repo \<Rightarrow>
     (managed_device \<times> credential_revocation) res \<times> repo" where
  "ChangeDeviceCredential t i access hash now r =
     (case mget (r_devices r) (key [t, i]) of
        None \<Rightarrow> (Inl ErrNotFound, r)
      | Some d \<Rightarrow>
          let v0 = zero_credential_revocation\<lparr>
                cr_ID := ''revoke_'' @ md_ID d @ ''_'' @ md_AccessKey d, cr_TenantID := t,
                cr_DeviceID := i, cr_Username := md_AccessKey d, cr_Status := ''PENDING'',
                cr_CreatedAt := now, cr_UpdatedAt := now\<rparr>
          in if access \<noteq> [] \<and> list_ex (\<lambda>other. md_AccessKey other = access) (mvals (r_devices r))
             then (Inl (ErrText ''duplicate access key''), r)
             else let d1 = (if access \<noteq> [] then d\<lparr>md_AccessKey := access\<rparr> else d);
                      d2 = d1\<lparr>md_SecretHash := hash, md_SecretHint := [], md_UpdatedAt := now\<rparr>;
                      rk = key [t, cr_ID v0];
                      old = mget (r_revocations r) rk;
                      v = (case old of Some w \<Rightarrow> w | None \<Rightarrow> v0);
                      revs = (if old = None then mput (r_revocations r) rk v0 else r_revocations r)
                  in (Inr (d2, v), r\<lparr>r_revocations := revs,
                        r_devices := mput (r_devices r) (key [t, i]) d2\<rparr>))"

definition ListCredentialRevocations ::
  "string \<Rightarrow> string \<Rightarrow> bool \<Rightarrow> repo \<Rightarrow> credential_revocation list" where
  "ListCredentialRevocations t d pending r = sort_slice (older cr_CreatedAt)
     (mfilter (\<lambda>v. (t = [] \<or> cr_TenantID v = t) \<and> (d = [] \<or> cr_DeviceID v = d) \<and>
        (\<not> pending \<or> cr_Status v \<noteq> ''REVOKED'')) (r_revocations r))"

definition UpdateCredentialRevocation :: "credential_revocation \<Rightarrow> repo \<Rightarrow> repo res" where
  "UpdateCredentialRevocation v r =
     (let k = key [cr_TenantID v, cr_ID v]
      in case mget (r_revocations r) k of
           None \<Rightarrow> Inl ErrNotFound
         | Some old \<Rightarrow> if cr_Status old = ''REVOKED'' then Inr r
             else Inr (r\<lparr>r_revocations := mput (r_revocations r) k v\<rparr>))"

definition CreateDeviceCommand :: "device_command \<Rightarrow> repo \<Rightarrow> (device_command \<times> bool) \<times> repo" where
  "CreateDeviceCommand v r =
     (let k = key [dc_TenantID v, dc_ID v]
      in case mget (r_commands r) k of
           Some old \<Rightarrow> ((clone_command old, False), r)
         | None \<Rightarrow> ((clone_command v, True),
             r\<lparr>r_commands := mput (r_commands r) k (clone_command v)\<rparr>))"

definition UpdateDeviceCommandDispatch ::
  "string \<Rightarrow> string \<Rightarrow> string \<Rightarrow> string \<Rightarrow> int \<Rightarrow> repo \<Rightarrow> repo res" where
  "UpdateDeviceCommandDispatch t i status message now r =
     (let k = key [t, i]
      in case mget (r_commands r) k of
           None \<Rightarrow> Inl ErrNotFound
         | Some v \<Rightarrow> if dc_Status v = ''DISPATCHING''
             then Inr (r\<lparr>r_commands := mput (r_commands r) k
                (v\<lparr>dc_Status := status, dc_LastError := message, dc_UpdatedAt := now\<rparr>)\<rparr>)
             else Inr r)"

definition CompleteDeviceCommand ::
  "string \<Rightarrow> string \<Rightarrow> string \<Rightarrow> anymap \<Rightarrow> int \<Rightarrow> repo \<Rightarrow> repo" where
  "CompleteDeviceCommand t d i reply now r =
     (let k = key [t, i]
      in case mget (r_commands r) k of
           None \<Rightarrow> r
         | Some v \<Rightarrow>
             if dc_DeviceID v \<noteq> d then r
             else if dc_Status v = ''SUCCEEDED'' \<or> dc_Status v = ''FAILED'' then r
             else r\<lparr>r_commands := mput (r_commands r) k
                (v\<lparr>dc_Status := (if mget reply ''success'' = Some (ABool True)
                                then ''SUCCEEDED'' else ''FAILED''),
                   dc_Reply := clone_map reply, dc_UpdatedAt := now\<rparr>)\<rparr>)"

definition ListDeviceCommands ::
  "string \<Rightarrow> string \<Rightarrow> int \<Rightarrow> int \<Rightarrow> repo \<Rightarrow> device_command list \<times> int" where
  "ListDeviceCommands t d limit offset r =
     paged (sort_slice (newer_id dc_CreatedAt dc_ID) (map clone_command
       (mfilter (\<lambda>v. dc_TenantID v = t \<and> dc_DeviceID v = d) (r_commands r)))) limit offset"

definition GetDeviceCommand :: "string \<Rightarrow> string \<Rightarrow> repo \<Rightarrow> device_command res" where
  "GetDeviceCommand tenant i r =
     (case mget (r_commands r) (key [tenant, i]) of
        None \<Rightarrow> Inl ErrNotFound | Some v \<Rightarrow> Inr (clone_command v))"

section \<open>Onboarding\<close>

text \<open>The checks of SaveOnboarding, in the code's order; None lets the bundle in.\<close>

definition onboarding_error :: "onboarding_bundle \<Rightarrow> repo \<Rightarrow> string option" where
  "onboarding_error b r =
     (let d = ob_Device b;
          pk = key [md_TenantID d, md_ProductID d]
      in if mget (r_devices r) (key [md_TenantID d, md_ID d]) \<noteq> None
         then Some ''device already exists''
         else if ob_Product b \<noteq> None \<and> mget (r_products r) pk \<noteq> None
         then Some ''product already exists''
         else if ob_Product b = None \<and>
            (case mget (r_products r) pk of None \<Rightarrow> True | Some p \<Rightarrow> pr_Status p \<noteq> ''ENABLED'')
         then Some ''product is disabled''
         else if list_ex (\<lambda>other. md_AccessKey other = md_AccessKey d) (mvals (r_devices r))
         then Some ''access key already exists''
         else if (case ob_Release b of None \<Rightarrow> False
            | Some v \<Rightarrow> (case mget (r_protocolReleases r)
                 (key [pl_TenantID v, pl_ProtocolID v, pl_Version v]) of
                 None \<Rightarrow> False
               | Some old \<Rightarrow> pl_Status old \<noteq> ''PUBLISHED'' \<or> pl_ParserType old \<noteq> pl_ParserType v))
         then Some ''protocol release changed; test again''
         else (case ob_Profile b of None \<Rightarrow> None
            | Some v \<Rightarrow>
                let old = mget (r_accessProfiles r) (key [ap_TenantID v, ap_ID v]);
                    binding = (case mget (r_protocolBindings r)
                        (key [ap_TenantID v, ap_ProductID v]) of
                        Some x \<Rightarrow> x
                      | None \<Rightarrow> (case ob_Binding b of Some x \<Rightarrow> x | None \<Rightarrow> zero_product_binding))
                in if old \<noteq> None \<and> \<not> ob_ReuseProfile b then Some ''profile already exists''
                   else if ob_ReuseProfile b \<and> (case old of None \<Rightarrow> True
                      | Some p \<Rightarrow> \<not> ap_Enabled p \<or> ap_ProductID p \<noteq> ap_ProductID v \<or>
                          ap_Host p \<noteq> ap_Host v \<or> ap_Port p \<noteq> ap_Port v \<or>
                          ap_Network p \<noteq> ap_Network v)
                   then Some ''listener changed; test again''
                   else if pb_ProtocolID binding \<noteq> ap_ProtocolID v \<or>
                      pb_Version binding \<noteq> ap_ProtocolVersion v
                   then Some ''product binding changed; test again''
                   else if list_ex (\<lambda>p. ap_ConnectionMode v \<noteq> ''dial'' \<and>
                        ap_ConnectionMode p \<noteq> ''dial'' \<and> \<not> ob_ReuseProfile b \<and> ap_Enabled p \<and>
                        ap_Mode p = ''listener'' \<and> ap_Mode v = ''listener'' \<and>
                        ap_Network p = ap_Network v \<and> ap_Port p = ap_Port v)
                        (mvals (r_accessProfiles r))
                   then Some ''listener port is already reserved''
                   else None))"

definition put_new :: "'v gomap \<Rightarrow> string \<Rightarrow> 'v \<Rightarrow> 'v gomap" where
  "put_new m k v = (if mget m k = None then mput m k v else m)"

definition onboard_release :: "protocol_release \<Rightarrow> repo \<Rightarrow> repo" where
  "onboard_release v r = r\<lparr>
     r_protocolReleases := put_new (r_protocolReleases r)
       (key [pl_TenantID v, pl_ProtocolID v, pl_Version v]) (clone_release v),
     r_protocolDefinitions := put_new (r_protocolDefinitions r) (key [pl_TenantID v, pl_ProtocolID v])
       (zero_protocol_definition\<lparr>pd_TenantID := pl_TenantID v, pd_ID := pl_ProtocolID v,
          pd_Name := pl_ProtocolID v, pd_CreatedAt := pl_CreatedAt v,
          pd_UpdatedAt := pl_CreatedAt v\<rparr>)\<rparr>"

definition onboard_point_table :: "point_table_release \<Rightarrow> repo \<Rightarrow> repo" where
  "onboard_point_table v r = r\<lparr>r_pointTables := put_new (r_pointTables r)
     (key [pt_TenantID v, pt_ProtocolID v, pt_Version v]) (clone_point_table v)\<rparr>"

definition onboard_product :: "string \<Rightarrow> product \<Rightarrow> protocol_release \<Rightarrow> repo \<Rightarrow> repo" where
  "onboard_product pk p v r =
     (let pkg = zero_protocol_package\<lparr>pp_TenantID := pl_TenantID v, pp_ID := pr_ProtocolPackageID p,
            pp_Name := pl_ProtocolID v, pp_Version := pl_Version v, pp_Protocol := pl_ProtocolID v,
            pp_Transport := pl_Transport v, pp_PayloadFormat := pl_PayloadFormat v,
            pp_ParserType := pl_ParserType v, pp_Status := pl_Status v, pp_Config := pl_Config v,
            pp_CreatedAt := pl_CreatedAt v, pp_UpdatedAt := pl_CreatedAt v\<rparr>
      in r\<lparr>r_products := mput (r_products r) pk (clone_product p),
           r_protocols := put_new (r_protocols r) (key [pp_TenantID pkg, pp_ID pkg])
             (clone_package pkg)\<rparr>)"

definition onboard_binding :: "product_binding \<Rightarrow> repo \<Rightarrow> repo" where
  "onboard_binding v r = r\<lparr>r_protocolBindings := put_new (r_protocolBindings r)
     (key [pb_TenantID v, pb_ProductID v]) v\<rparr>"

text \<open>
  A new product without a release makes the code dereference a nil pointer. The panic is the error
  text below; the point table written before it stays, and so does the new product, which the code
  writes just before it reads the release.
\<close>

definition SaveOnboarding :: "onboarding_bundle \<Rightarrow> repo \<Rightarrow> error option \<times> repo" where
  "SaveOnboarding b r =
     (case onboarding_error b r of
        Some e \<Rightarrow> (Some (ErrText e), r)
      | None \<Rightarrow>
          let d = ob_Device b;
              pk = key [md_TenantID d, md_ProductID d];
              r1 = (case ob_Release b of None \<Rightarrow> r | Some v \<Rightarrow> onboard_release v r);
              r2 = (case ob_PointTable b of None \<Rightarrow> r1 | Some v \<Rightarrow> onboard_point_table v r1)
          in case (ob_Product b, ob_Release b) of
               (Some p, None) \<Rightarrow> (Some (ErrText ''nil pointer dereference''),
                  r2\<lparr>r_products := mput (r_products r2) pk (clone_product p)\<rparr>)
             | (product1, release) \<Rightarrow>
                 let r3 = (case (product1, release) of
                        (Some p, Some v) \<Rightarrow> onboard_product pk p v r2 | _ \<Rightarrow> r2);
                     r4 = (case ob_Binding b of None \<Rightarrow> r3 | Some v \<Rightarrow> onboard_binding v r3);
                     r5 = (case ob_Profile b of None \<Rightarrow> r4
                        | Some v \<Rightarrow> if ob_ReuseProfile b then r4 else SaveDeviceAccessProfile v r4)
                 in (None, r5\<lparr>r_devices := mput (r_devices r5) (key [md_TenantID d, md_ID d]) d\<rparr>))"

end
