(* ===== verification/Repo_Alarms.thy ===== *)
theory Repo_Alarms
  imports Repo_State
begin

text \<open>
  The alarm operations of the in-memory repository: rules and their pending timers, alarms and the
  component watermarks (component.go of packages model and memory), video events and cameras, AI
  records, knowledge documents, replays and the audit log. cloneAlarm and cloneVideoEvent copy
  nested maps so that callers share none with the store; on values they are the identity.
\<close>

section \<open>Rules\<close>

definition SaveRule :: "alarm_rule \<Rightarrow> repo \<Rightarrow> repo" where
  "SaveRule v r = r\<lparr>r_rules := mput (r_rules r) (key [ar_TenantID v, ar_ID v]) v\<rparr>"

definition ListRules :: "string \<Rightarrow> repo \<Rightarrow> alarm_rule list" where
  "ListRules tenant r = mfilter (\<lambda>v. tenant = [] \<or> ar_TenantID v = tenant) (r_rules r)"

definition ListRulesPage :: "string \<Rightarrow> int \<Rightarrow> int \<Rightarrow> repo \<Rightarrow> alarm_rule list \<times> int" where
  "ListRulesPage tenant limit offset r = paged (ListRules tenant r) limit offset"

definition DeleteRule :: "string \<Rightarrow> string \<Rightarrow> repo \<Rightarrow> repo res" where
  "DeleteRule tenant i r =
     (let k = key [tenant, i]
      in if mget (r_rules r) k = None then Inl ErrNotFound
         else Inr (r\<lparr>r_rules := mdel (r_rules r) k\<rparr>))"

definition SaveRulePending :: "string \<Rightarrow> string \<Rightarrow> string \<Rightarrow> int \<Rightarrow> repo \<Rightarrow> repo" where
  "SaveRulePending tenant ruleID deviceID since r =
     (let k = key [tenant, ruleID, deviceID]
      in case mget (r_rulePending r) k of
           Some current \<Rightarrow> if current \<le> since then r
             else r\<lparr>r_rulePending := mput (r_rulePending r) k since\<rparr>
         | None \<Rightarrow> r\<lparr>r_rulePending := mput (r_rulePending r) k since\<rparr>)"

definition GetRulePending :: "string \<Rightarrow> string \<Rightarrow> string \<Rightarrow> repo \<Rightarrow> int option" where
  "GetRulePending tenant ruleID deviceID r =
     mget (r_rulePending r) (key [tenant, ruleID, deviceID])"

definition DeleteRulePending :: "string \<Rightarrow> string \<Rightarrow> string \<Rightarrow> repo \<Rightarrow> repo" where
  "DeleteRulePending tenant ruleID deviceID r =
     r\<lparr>r_rulePending := mdel (r_rulePending r) (key [tenant, ruleID, deviceID])\<rparr>"

definition DeleteRulePendings :: "string \<Rightarrow> string \<Rightarrow> repo \<Rightarrow> repo" where
  "DeleteRulePendings tenant ruleID r =
     r\<lparr>r_rulePending := filter (\<lambda>e. \<not> has_prefix (fst e) (key [tenant, ruleID] @ [nul]))
         (r_rulePending r)\<rparr>"

section \<open>Alarms\<close>

definition open_status :: "alarm \<Rightarrow> bool" where
  "open_status a \<longleftrightarrow> al_Status a = ''ACTIVE'' \<or> al_Status a = ''ACKED''"

definition same_alarm :: "alarm \<Rightarrow> alarm \<Rightarrow> bool" where
  "same_alarm v a \<longleftrightarrow> al_TenantID a = al_TenantID v \<and> al_DeviceID a = al_DeviceID v \<and>
     al_RuleID a = al_RuleID v \<and> open_status a"

text \<open>A further trigger v of the open alarm a.\<close>

definition count_trigger :: "alarm \<Rightarrow> alarm \<Rightarrow> alarm" where
  "count_trigger v a =
     (let a1 = a\<lparr>al_LastTriggeredAt := al_LastTriggeredAt v,
                al_TriggerCount := al_TriggerCount a + 1\<rparr>
      in if f64_less (al_Confidence a) (al_Confidence v)
         then a1\<lparr>al_Confidence := al_Confidence v\<rparr> else a1)"

definition UpsertAlarm :: "alarm \<Rightarrow> repo \<Rightarrow> (alarm \<times> bool) \<times> repo" where
  "UpsertAlarm v r =
     (case find (\<lambda>e. same_alarm v (snd e)) (r_alarms r) of
        Some (k, a) \<Rightarrow>
          if al_TriggerID v \<noteq> [] \<and> al_TriggerID a = al_TriggerID v then ((a, False), r)
          else ((count_trigger v a, False), r\<lparr>r_alarms := mput (r_alarms r) k (count_trigger v a)\<rparr>)
      | None \<Rightarrow> ((v, True), r\<lparr>r_alarms := mput (r_alarms r) (key [al_TenantID v, al_ID v]) v\<rparr>))"

definition GetAlarm :: "string \<Rightarrow> string \<Rightarrow> repo \<Rightarrow> alarm res" where
  "GetAlarm tenant i r = found (mget (r_alarms r) (key [tenant, i]))"

record alarm_filter =
  q_TenantID :: string
  q_DeviceID :: string
  q_Status :: string
  q_Level :: string
  q_Source :: string
  q_Start :: int
  q_End :: int
  q_Limit :: int
  q_Offset :: int

definition all_alarms :: alarm_filter where
  "all_alarms = \<lparr>q_TenantID = [], q_DeviceID = [], q_Status = [], q_Level = [], q_Source = [],
     q_Start = 0, q_End = 0, q_Limit = 0, q_Offset = 0\<rparr>"

definition alarm_skipped :: "alarm_filter \<Rightarrow> alarm \<Rightarrow> bool" where
  "alarm_skipped f v \<longleftrightarrow>
     q_TenantID f \<noteq> [] \<and> al_TenantID v \<noteq> q_TenantID f \<or>
     q_DeviceID f \<noteq> [] \<and> al_DeviceID v \<noteq> q_DeviceID f \<or>
     q_Status f \<noteq> [] \<and> al_Status v \<noteq> q_Status f \<or>
     q_Level f \<noteq> [] \<and> al_AlarmLevel v \<noteq> q_Level f \<or>
     q_Source f \<noteq> [] \<and> al_Source v \<noteq> q_Source f \<or>
     q_Start f > 0 \<and> al_LastTriggeredAt v < q_Start f \<or>
     q_End f > 0 \<and> al_LastTriggeredAt v > q_End f"

text \<open>
  The loop of ListAlarms visits the map in any order, another one at each call, and sort.Slice may leave
  alarms triggered at one time in any order: visit is the order of this call.
\<close>

definition ListAlarms :: "(string \<Rightarrow> nat) \<Rightarrow> alarm_filter \<Rightarrow> repo \<Rightarrow> alarm list" where
  "ListAlarms visit f r = page (sort_slice (newer al_LastTriggeredAt)
     (mfilter (\<lambda>v. \<not> alarm_skipped f v) (sort_key (\<lambda>e. visit (fst e)) (r_alarms r)))) (q_Offset f) (q_Limit f)"

definition CountAlarms :: "alarm_filter \<Rightarrow> repo \<Rightarrow> int" where
  "CountAlarms f r = int (length (mfilter (\<lambda>v. \<not> alarm_skipped f v) (r_alarms r)))"

definition UpdateAlarm :: "alarm \<Rightarrow> repo \<Rightarrow> repo res" where
  "UpdateAlarm v r =
     (let k = key [al_TenantID v, al_ID v]
      in if mget (r_alarms r) k = None then Inl ErrNotFound
         else Inr (r\<lparr>r_alarms := mput (r_alarms r) k v\<rparr>))"

section \<open>Component watermarks\<close>

definition Supersedes :: "component_alarm_state \<Rightarrow> component_alarm_state \<Rightarrow> bool" where
  "Supersedes next1 old \<longleftrightarrow>
     (if ca_Timestamp next1 < ca_Timestamp old \<or>
         (ca_MessageID next1 = ca_MessageID old \<and> ca_MessageID old \<noteq> [])
      then False
      else ca_Timestamp next1 \<noteq> ca_Timestamp old \<or> (\<not> ca_Active old \<and> ca_Active next1))"

definition TransitionComponentAlarm ::
  "alarm \<Rightarrow> alarm \<Rightarrow> component_alarm_state \<Rightarrow> alarm \<times> string" where
  "TransitionComponentAlarm candidate old state =
     (let active = open_status old
      in if ca_Active state then
           if active then
             let o1 = old\<lparr>al_LastTriggeredAt := al_LastTriggeredAt candidate,
                         al_TriggerCount := al_TriggerCount old + 1,
                         al_TriggerID := al_TriggerID candidate,
                         al_Details := al_Details candidate\<rparr>;
                 o2 = (if al_ComponentName candidate \<noteq> []
                       then o1\<lparr>al_ComponentName := al_ComponentName candidate\<rparr> else o1);
                 o3 = (if al_ComponentLocation candidate \<noteq> []
                       then o2\<lparr>al_ComponentLocation := al_ComponentLocation candidate\<rparr> else o2)
             in (o3, [])
           else (candidate, ''raised'')
         else if active
         then (old\<lparr>al_Status := ''RECOVERED'', al_RecoveredAt := al_LastTriggeredAt candidate\<rparr>,
               ''recovered'')
         else (old, []))"

definition ApplyComponentAlarm ::
  "alarm \<Rightarrow> component_alarm_state \<Rightarrow> repo \<Rightarrow> (alarm \<times> string) \<times> repo" where
  "ApplyComponentAlarm candidate state r =
     (let k = key [al_TenantID candidate, al_DeviceID candidate, al_RuleID candidate];
          previous = mget_or zero_component_alarm_state (r_componentAlarms r) k;
          old = mget_or zero_alarm (r_alarms r) (key [al_TenantID candidate, ca_AlarmID previous])
      in if ca_MessageID state = ca_MessageID previous \<and> ca_Timestamp state = ca_Timestamp previous
         then ((old, ca_Event previous), r)
         else if \<not> Supersedes state previous then ((old, []), r)
         else let (alarm1, event) = TransitionComponentAlarm candidate old state;
                  state1 = state\<lparr>ca_AlarmID := al_ID alarm1, ca_Event := event\<rparr>;
                  alarms1 = (if al_ID alarm1 \<noteq> []
                     then mput (r_alarms r) (key [al_TenantID alarm1, al_ID alarm1]) alarm1
                     else r_alarms r)
              in ((alarm1, event), r\<lparr>r_alarms := alarms1,
                    r_componentAlarms := mput (r_componentAlarms r) k state1\<rparr>))"

section \<open>Video events and cameras\<close>

definition SaveVideoEvent :: "video_event \<Rightarrow> repo \<Rightarrow> bool \<times> repo" where
  "SaveVideoEvent v r =
     (let k = key [ve_TenantID v, ve_EventID v]
      in if mget (r_video r) k \<noteq> None then (False, r)
         else (True, r\<lparr>r_video := mput (r_video r) k v\<rparr>))"

definition UpdateVideoEvent :: "video_event \<Rightarrow> repo \<Rightarrow> repo" where
  "UpdateVideoEvent v r =
     r\<lparr>r_video := mput (r_video r) (key [ve_TenantID v, ve_EventID v]) v\<rparr>"

definition media_pending :: "video_event \<Rightarrow> bool" where
  "media_pending v \<longleftrightarrow> (case mget (ve_Raw v) ''mediaTransferStatus'' of
      Some (AStr s) \<Rightarrow> s = ''PENDING'' \<or> s = ''FAILED'' | _ \<Rightarrow> False)"

text \<open>The loop checks the limit after each append, so it returns one event even for a limit below 1.\<close>

definition ListPendingVideoEvents :: "int \<Rightarrow> repo \<Rightarrow> video_event list" where
  "ListPendingVideoEvents limit r = take (nat (max 1 limit)) (mfilter media_pending (r_video r))"

fun unique_from :: "string list \<Rightarrow> string list \<Rightarrow> string list" where
  "unique_from seen [] = []"
| "unique_from seen (v # vs) =
     (let t = trim_space v
      in if t = [] \<or> t \<in> set seen then unique_from seen vs else t # unique_from (t # seen) vs)"

definition uniqueStrings :: "string list \<Rightarrow> string list" where
  "uniqueStrings values = unique_from [] values"

definition one_device_error :: error where
  "one_device_error = ErrText ''a camera can be associated with at most one device''"

definition SaveVideoCameraMapping :: "camera_mapping \<Rightarrow> repo \<Rightarrow> repo res" where
  "SaveVideoCameraMapping v0 r =
     (let legacy = uniqueStrings (vm_RelatedDeviceIDs v0);
          v = (if vm_DeviceID v0 = [] \<and> length legacy = 1
               then v0\<lparr>vm_DeviceID := legacy ! 0\<rparr> else v0)
      in if length legacy > 1 \<or>
            vm_DeviceID v \<noteq> [] \<and> length legacy = 1 \<and> legacy ! 0 \<noteq> vm_DeviceID v
         then Inl one_device_error
         else let v1 = v\<lparr>vm_RelatedDeviceIDs := [], vm_RelatedFloorIDs := [],
                        vm_RelatedRoomIDs := []\<rparr>;
                  k = key [vm_TenantID v1, vm_CameraID v1];
                  relations = (if vm_DeviceID v1 \<noteq> []
                    then [\<lparr>vr_TenantID = vm_TenantID v1, vr_CameraID = vm_CameraID v1,
                           vr_RelationType = ''device'', vr_TargetID = vm_DeviceID v1\<rparr>]
                    else [])
              in Inr (r\<lparr>r_videoMappings := mput (r_videoMappings r) k v1,
                       r_videoRelations := mput (r_videoRelations r) k relations\<rparr>))"

definition GetVideoCameraMapping :: "string \<Rightarrow> string \<Rightarrow> repo \<Rightarrow> camera_mapping res" where
  "GetVideoCameraMapping tenant camera r = found (mget (r_videoMappings r) (key [tenant, camera]))"

definition ListVideoCameraMappings :: "string \<Rightarrow> repo \<Rightarrow> camera_mapping list" where
  "ListVideoCameraMappings tenant r = sort_slice (by_name vm_CameraID)
     (mfilter (\<lambda>v. tenant = [] \<or> vm_TenantID v = tenant) (r_videoMappings r))"

definition ListVideoCameraMappingsPage ::
  "string \<Rightarrow> int \<Rightarrow> int \<Rightarrow> repo \<Rightarrow> camera_mapping list \<times> int" where
  "ListVideoCameraMappingsPage tenant limit offset r =
     paged (ListVideoCameraMappings tenant r) limit offset"

text \<open>The loop over the relations: the device seen so far and the relations kept.\<close>

fun keep_relations ::
  "string \<Rightarrow> string \<Rightarrow> string \<Rightarrow> camera_relation list \<Rightarrow> (string \<times> camera_relation list) res" where
  "keep_relations tenant camera deviceID [] = Inr (deviceID, [])"
| "keep_relations tenant camera deviceID (x # xs) =
     (if vr_RelationType x \<noteq> ''device'' \<or> trim_space (vr_TargetID x) = []
      then keep_relations tenant camera deviceID xs
      else if deviceID \<noteq> [] \<and> deviceID \<noteq> vr_TargetID x then Inl one_device_error
      else (case keep_relations tenant camera (vr_TargetID x) xs of
              Inl e \<Rightarrow> Inl e
            | Inr (d, ys) \<Rightarrow>
                Inr (d, x\<lparr>vr_TenantID := tenant, vr_CameraID := camera\<rparr> # ys)))"

definition ReplaceVideoCameraRelations ::
  "string \<Rightarrow> string \<Rightarrow> camera_relation list \<Rightarrow> repo \<Rightarrow> repo res" where
  "ReplaceVideoCameraRelations tenant camera relations r =
     (case keep_relations tenant camera [] relations of
        Inl e \<Rightarrow> Inl e
      | Inr (deviceID, copies) \<Rightarrow>
          let k = key [tenant, camera];
              r1 = r\<lparr>r_videoRelations := mput (r_videoRelations r) k copies\<rparr>
          in Inr (case mget (r_videoMappings r) k of
                    None \<Rightarrow> r1
                  | Some mapping \<Rightarrow> r1\<lparr>r_videoMappings := mput (r_videoMappings r) k
                      (mapping\<lparr>vm_DeviceID := deviceID, vm_RelatedDeviceIDs := [],
                         vm_RelatedFloorIDs := [], vm_RelatedRoomIDs := []\<rparr>)\<rparr>))"

definition ListVideoCameraRelations :: "string \<Rightarrow> string \<Rightarrow> repo \<Rightarrow> camera_relation list" where
  "ListVideoCameraRelations tenant camera r = mget_or [] (r_videoRelations r) (key [tenant, camera])"

definition ListVideoCameraRelationsByTarget ::
  "string \<Rightarrow> string \<Rightarrow> string \<Rightarrow> repo \<Rightarrow> camera_relation list" where
  "ListVideoCameraRelationsByTarget tenant relationType targetID r =
     sort_slice (by_name vr_CameraID) (filter (\<lambda>x. vr_TenantID x = tenant \<and>
       vr_RelationType x = relationType \<and> vr_TargetID x = targetID)
         (concat (mvals (r_videoRelations r))))"

section \<open>AI records, knowledge, replays and the audit log\<close>

definition SaveAIAnalysis :: "ai_analysis \<Rightarrow> repo \<Rightarrow> repo" where
  "SaveAIAnalysis v r = r\<lparr>r_ai := mput (r_ai r) (key [ai_TenantID v, ai_AlarmID v]) v\<rparr>"

definition GetAIAnalysis :: "string \<Rightarrow> string \<Rightarrow> repo \<Rightarrow> ai_analysis res" where
  "GetAIAnalysis tenant i r = found (mget (r_ai r) (key [tenant, i]))"

definition SaveKnowledgeDoc :: "knowledge_doc \<Rightarrow> repo \<Rightarrow> repo" where
  "SaveKnowledgeDoc v r = r\<lparr>r_knowledge := mput (r_knowledge r) (key [kd_TenantID v, kd_ID v]) v\<rparr>"

definition ListKnowledgeDocs :: "string \<Rightarrow> repo \<Rightarrow> knowledge_doc list" where
  "ListKnowledgeDocs tenant r = sort_slice (newer_id kd_CreatedAt kd_ID)
     (map (\<lambda>v. v\<lparr>kd_Metadata := clone_map (kd_Metadata v)\<rparr>)
        (mfilter (\<lambda>v. kd_TenantID v = tenant) (r_knowledge r)))"

definition ListKnowledgeDocsPage :: "string \<Rightarrow> int \<Rightarrow> int \<Rightarrow> repo \<Rightarrow> knowledge_doc list \<times> int" where
  "ListKnowledgeDocsPage tenant limit offset r = paged (ListKnowledgeDocs tenant r) limit offset"

definition SaveWorkflowKnowledgeBinding :: "workflow_binding \<Rightarrow> repo \<Rightarrow> repo" where
  "SaveWorkflowKnowledgeBinding v r = r\<lparr>r_workflowKnowledge :=
     mput (r_workflowKnowledge r) (key [wk_TenantID v, wk_WorkflowID v])
       (if f64_finite (wk_MinScore v) then v else zero_workflow_binding)\<rparr>"

definition GetWorkflowKnowledgeBinding :: "string \<Rightarrow> string \<Rightarrow> repo \<Rightarrow> workflow_binding" where
  "GetWorkflowKnowledgeBinding tenant workflowID r =
     mget_or zero_workflow_binding (r_workflowKnowledge r) (key [tenant, workflowID])"

definition SaveReplay :: "replay_request \<Rightarrow> repo \<Rightarrow> repo" where
  "SaveReplay v r = r\<lparr>r_replays := mput (r_replays r) (rr_ID v) v\<rparr>"

definition UpdateReplay :: "replay_request \<Rightarrow> repo \<Rightarrow> repo" where
  "UpdateReplay v r = SaveReplay v r"

definition GetReplay :: "string \<Rightarrow> repo \<Rightarrow> replay_request res" where
  "GetReplay i r = found (mget (r_replays r) i)"

definition SaveAudit :: "audit_log \<Rightarrow> repo \<Rightarrow> repo" where
  "SaveAudit v r = r\<lparr>r_audits := r_audits r @ [v]\<rparr>"

definition SaveAIToolCall :: "ai_tool_call \<Rightarrow> repo \<Rightarrow> repo" where
  "SaveAIToolCall v r = r\<lparr>r_aiToolCalls := r_aiToolCalls r @
     [if json_map_ok (tc_Input v) \<and> json_ok (tc_Output v)
      then v\<lparr>tc_Input := json_map (tc_Input v), tc_Output := json_any (tc_Output v)\<rparr>
      else \<lparr>tc_ID = [], tc_TenantID = [], tc_Actor = [], tc_Tool = [], tc_Input = [],
            tc_Output = ANil, tc_Success = False, tc_Error = [], tc_CreatedAt = 0\<rparr>]\<rparr>"

definition LoadAIProviderConfig :: "repo \<Rightarrow> ai_plugin_config option" where
  "LoadAIProviderConfig r = r_aiProviderConfig r"

definition SaveAIProviderConfig :: "ai_plugin_config \<Rightarrow> repo \<Rightarrow> repo" where
  "SaveAIProviderConfig v r = r\<lparr>r_aiProviderConfig := Some v\<rparr>"

end
