(* ===== verification/Engine_Base.thy ===== *)
theory Engine_Base
  imports Rules Components Parsers Repo_Devices Repo_Alarms
begin

text \<open>
  The engine (internal/core): its state, its environment and the steps its handlers are made of. The
  state is the repository, the second raw message database, the last arrival per device that
  rawstore.Store keeps, the messages sent so far, and a count of the calls that leave the process or visit a map in an
  order of their own.
  Publishing to the bus or to MQTT may fail, by a function of that count, so that every pattern of
  failures is covered. The clock reads one value during a handler. The model runs the handlers one at
  a time; locks that serialise them per device or per message are then without effect.
\<close>

section \<open>Outgoing messages\<close>

text \<open>What is marshalled into a message; P_none is the empty message of a value Marshal rejects.\<close>

datatype payload =
    P_none
  | P_raw raw_message
  | P_standard standard_message
  | P_state device_state
  | P_alarm alarm
  | P_ui ui_action_event
  | P_video video_event

datatype event =
    Bus string string payload
  | Mqtt string payload

record engine =
  e_repo :: repo
  e_click :: repo
  e_last :: "int gomap"
  e_out :: "event list"
  e_calls :: nat

text \<open>
  The environment: the clock in milliseconds and, as decimal text, in nanoseconds; the random part of
  identifiers, the failures of bus and MQTT and the order in which a listing of alarms visits their map,
  by call number; the rule matcher; SHA-256 in hexadecimal, JSON compaction and decoding of a JSON object from text (packages crypto/sha256 and
  encoding/json); the parsers; the configuration of rawstore.Store: which databases there are, the
  reader of the object storage and the interval of frequent devices. MQTT is configured.
\<close>

record env =
  v_now :: int
  v_nanos :: string
  v_rnd :: "nat \<Rightarrow> string"
  v_bus :: "nat \<Rightarrow> error option"
  v_mqtt :: "nat \<Rightarrow> error option"
  v_visit :: "nat \<Rightarrow> string \<Rightarrow> nat"
  v_matcher :: matcher
  v_sha :: "string \<Rightarrow> string"
  v_cp :: "string \<Rightarrow> string option"
  v_object :: "string \<Rightarrow> anymap option"
  v_parsers :: registry
  v_postgres :: bool
  v_clickhouse :: bool
  v_legacy :: "(raw_index \<Rightarrow> raw_message res) option"
  v_interval :: int

section \<open>Steps\<close>

type_synonym 'a proc = "engine \<Rightarrow> 'a res \<times> engine"

definition ret :: "'a \<Rightarrow> 'a proc" where
  "ret x s = (Inr x, s)"

definition fail :: "error \<Rightarrow> 'a proc" where
  "fail e s = (Inl e, s)"

text \<open>Run m, return its error, or go on with its result.\<close>

definition andThen :: "'a proc \<Rightarrow> ('a \<Rightarrow> 'b proc) \<Rightarrow> 'b proc" where
  "andThen m f s = (case m s of (Inl e, s1) \<Rightarrow> (Inl e, s1) | (Inr x, s1) \<Rightarrow> f x s1)"

text \<open>The error of m is discarded.\<close>

definition ignore :: "'a proc \<Rightarrow> unit proc" where
  "ignore m s = (Inr (), snd (m s))"

fun each :: "('a \<Rightarrow> unit proc) \<Rightarrow> 'a list \<Rightarrow> unit proc" where
  "each f [] = ret ()"
| "each f (x # xs) = andThen (f x) (\<lambda>_. each f xs)"

text \<open>Calls of the repository: a lookup, a lookup whose error is examined, an update.\<close>

definition ask :: "(repo \<Rightarrow> 'a) \<Rightarrow> 'a proc" where
  "ask f s = (Inr (f (e_repo s)), s)"

definition query :: "(repo \<Rightarrow> 'a res) \<Rightarrow> 'a proc" where
  "query f s = (f (e_repo s), s)"

definition update_repo :: "(repo \<Rightarrow> repo) \<Rightarrow> unit proc" where
  "update_repo f s = (Inr (), s\<lparr>e_repo := f (e_repo s)\<rparr>)"

definition update_res :: "(repo \<Rightarrow> repo res) \<Rightarrow> unit proc" where
  "update_res f s = (case f (e_repo s) of
     Inl e \<Rightarrow> (Inl e, s) | Inr r \<Rightarrow> (Inr (), s\<lparr>e_repo := r\<rparr>))"

definition call_repo :: "(repo \<Rightarrow> 'a \<times> repo) \<Rightarrow> 'a proc" where
  "call_repo f s = (Inr (fst (f (e_repo s))), s\<lparr>e_repo := snd (f (e_repo s))\<rparr>)"

text \<open>The error text of a sentinel error, and of an error wrapped by fmt.Errorf with %w.\<close>

fun error_text :: "error \<Rightarrow> string" where
  "error_text ErrNotFound = ''not found''"
| "error_text ErrRawConflict = ''message id already exists with different content''"
| "error_text ErrProtocolRegistration =
     ''protocol registration is disabled, stale or conflicts with existing inventory''"
| "error_text ErrMarketConflict = ''protocol market entry changed or already exists''"
| "error_text ErrMarketLimit = ''protocol market supports at most 1000 versions per organization''"
| "error_text ErrMarketReview = ''market review requires another user and a valid state transition''"
| "error_text ErrQuarantined = ''quarantined''"
| "error_text ErrQueueFull = ''queue full''"
| "error_text ErrClosed = ''closed''"
| "error_text (ErrText t) = t"
| "error_text (ErrWrap t e) = t @ '': '' @ error_text e"

text \<open>Run m and examine its error; run m and wrap its error.\<close>

definition attempt :: "'a proc \<Rightarrow> 'a res proc" where
  "attempt m s = (Inr (fst (m s)), snd (m s))"

definition wrapped :: "string \<Rightarrow> 'a proc \<Rightarrow> 'a proc" where
  "wrapped t m s = (case m s of (Inl e, s1) \<Rightarrow> (Inl (ErrWrap t e), s1) | (Inr x, s1) \<Rightarrow> (Inr x, s1))"

lemmas proc_defs = ret_def fail_def andThen_def ignore_def ask_def query_def update_repo_def
  update_res_def call_repo_def attempt_def wrapped_def

section \<open>Publishing\<close>

definition publish :: "env \<Rightarrow> string \<Rightarrow> string \<Rightarrow> payload \<Rightarrow> unit proc" where
  "publish v topic k p s = (case v_bus v (e_calls s) of
     Some e \<Rightarrow> (Inl e, s\<lparr>e_calls := e_calls s + 1\<rparr>)
   | None \<Rightarrow> (Inr (), s\<lparr>e_calls := e_calls s + 1, e_out := e_out s @ [Bus topic k p]\<rparr>))"

definition realtime :: "env \<Rightarrow> string \<Rightarrow> payload \<Rightarrow> unit proc" where
  "realtime v topic p s = (case v_mqtt v (e_calls s) of
     Some e \<Rightarrow> (Inl e, s\<lparr>e_calls := e_calls s + 1\<rparr>)
   | None \<Rightarrow> (Inr (), s\<lparr>e_calls := e_calls s + 1, e_out := e_out s @ [Mqtt topic p]\<rparr>))"

text \<open>Function id: the prefix and 12 random bytes in hexadecimal.\<close>

definition new_id :: "env \<Rightarrow> string \<Rightarrow> string proc" where
  "new_id v p s = (Inr (p @ ''_'' @ v_rnd v (e_calls s)), s\<lparr>e_calls := e_calls s + 1\<rparr>)"

section \<open>Topics\<close>

definition TopicRaw :: string where "TopicRaw = ''iot.raw.message''"
definition TopicParsed :: string where "TopicParsed = ''iot.parsed.message''"
definition TopicPropertyReport :: string where "TopicPropertyReport = ''iot.property.report''"
definition TopicEventReport :: string where "TopicEventReport = ''iot.event.report''"
definition TopicVideoAlarm :: string where "TopicVideoAlarm = ''iot.video.alarm''"
definition TopicAlarmRaised :: string where "TopicAlarmRaised = ''iot.alarm.raised''"
definition TopicAlarmRecovered :: string where "TopicAlarmRecovered = ''iot.alarm.recovered''"
definition TopicAlarmConfirmed :: string where "TopicAlarmConfirmed = ''iot.alarm.confirmed''"
definition TopicUIAction :: string where "TopicUIAction = ''iot.ui-action''"

lemmas topic_defs = TopicRaw_def TopicParsed_def TopicPropertyReport_def TopicEventReport_def
  TopicVideoAlarm_def TopicAlarmRaised_def TopicAlarmRecovered_def TopicAlarmConfirmed_def
  TopicUIAction_def

text \<open>The local function clean of both MQTTTopic methods.\<close>

definition clean_level :: "string \<Rightarrow> string" where
  "clean_level value =
     (let w = trim_chars [CHR '' ''] (replace_char (CHR ''/'') (CHR ''_'') value)
      in if w = [] then ''unknown'' else w)"

definition standard_topic :: "standard_message \<Rightarrow> string" where
  "standard_topic m = ''/iot/parsed/'' @ go_join ''/'' (map clean_level
     [sm_TenantID m, sm_ProductID m, sm_DeviceID m, sm_MessageType m])"

definition alarm_topic :: "string \<Rightarrow> alarm \<Rightarrow> string" where
  "alarm_topic eventType a = ''/iot/alarm/'' @ go_join ''/'' (map clean_level
     [eventType, al_CityCode a, al_DistrictCode a, al_BuildingID a, al_DeviceType a, al_DeviceID a])"

definition state_topic :: "device_state \<Rightarrow> string" where
  "state_topic s = ''/iot/device/state/'' @ go_join ''/'' [ds_TenantID s, ds_ProductID s, ds_DeviceID s]"

lemma clean_level_safe: "CHR ''/'' \<notin> set (clean_level s) \<and> clean_level s \<noteq> []"
proof -
  have "set (dropWhile P xs) \<subseteq> set xs" for P and xs :: string by (meson set_dropWhileD subsetI)
  then have "set (trim_chars cs xs) \<subseteq> set xs" for cs xs
    unfolding trim_chars_def by (metis set_rev subset_trans)
  moreover have "CHR ''/'' \<notin> set (replace_char (CHR ''/'') (CHR ''_'') s)"
    by (auto simp: replace_char_def)
  ultimately show ?thesis by (auto simp: clean_level_def Let_def)
qed

section \<open>Values of type any inside alarms\<close>

text \<open>A standard message and a component status as the JSON objects they marshal to; fields with
  omitempty are left out when empty.\<close>

definition omit_empty :: "bool \<Rightarrow> string \<Rightarrow> any \<Rightarrow> anymap" where
  "omit_empty isEmpty k x = (if isEmpty then [] else [(k, x)])"

definition message_any :: "standard_message \<Rightarrow> any" where
  "message_any m = AObj ([(''messageId'', AStr (sm_MessageID m)), (''rawMessageId'', AStr (sm_RawMessageID m)),
     (''tenantId'', AStr (sm_TenantID m)), (''productId'', AStr (sm_ProductID m)),
     (''deviceId'', AStr (sm_DeviceID m)), (''messageType'', AStr (sm_MessageType m)),
     (''timestamp'', AInt (sm_Timestamp m))] @
     omit_empty (sm_Properties m = []) ''properties'' (AObj (sm_Properties m)) @
     omit_empty (sm_Event m = []) ''event'' (AObj (sm_Event m)) @
     omit_empty (sm_Tags m = []) ''tags'' (AObj (map (\<lambda>e. (fst e, AStr (snd e))) (sm_Tags m))) @
     omit_empty (sm_Raw m = []) ''raw'' (AObj (sm_Raw m)) @
     [(''parser'', AStr (sm_Parser m)), (''parserVersion'', AStr (sm_ParserVersion m))])"

definition component_any :: "component_status \<Rightarrow> any" where
  "component_any c = AObj ([(''id'', AStr (cp_ID c))] @
     omit_empty (cp_Name c = []) ''name'' (AStr (cp_Name c)) @
     omit_empty (cp_Location c = []) ''location'' (AStr (cp_Location c)) @
     [(''timestamp'', AInt (cp_Timestamp c)),
      (''alarms'', AObj (map (\<lambda>e. (fst e, ABool (snd e))) (cp_Alarms c)))])"

text \<open>Function tag.\<close>

definition tag :: "standard_message \<Rightarrow> string \<Rightarrow> string \<Rightarrow> string" where
  "tag m k fallback = (let x = mget_or [] (sm_Tags m) k in if x \<noteq> [] then x else fallback)"

end
