(* ===== verification/Engine_State.thy ===== *)
theory Engine_State
  imports Engine_Base
begin

text \<open>
  Device states (engine.go, connections.go): what a message, a connection report, an alarm change and
  the offline scan make of a device's connection, data and business status.
\<close>

definition StandardParserName :: string where
  "StandardParserName = ''iot_standard_parser''"

text \<open>The reason of a device with an open alarm, six Chinese characters in UTF-8.\<close>

definition alarm_reason :: string where
  "alarm_reason = bytes [0xE5, 0xAD, 0x98, 0xE5, 0x9C, 0xA8, 0xE6, 0xB4, 0xBB, 0xE5, 0x8A, 0xA8,
     0xE5, 0x91, 0x8A, 0xE8, 0xAD, 0xA6]"

text \<open>The state touchState starts from, and the state it makes of it.\<close>

definition first_state :: "standard_message \<Rightarrow> device_state" where
  "first_state msg = zero_device_state\<lparr>ds_TenantID := sm_TenantID msg, ds_ProductID := sm_ProductID msg,
     ds_DeviceID := sm_DeviceID msg, ds_ReportIntervalSec := 300, ds_OfflineToleranceSec := 60,
     ds_ConnectionStatus := ''UNKNOWN''\<rparr>"

definition reported_connection :: "standard_message \<Rightarrow> string option" where
  "reported_connection msg =
     (if sm_MessageType msg = StateChange \<and> sm_Parser msg = StandardParserName
      then (case mget (sm_Properties msg) ''connectionStatus'' of
              Some (AStr status) \<Rightarrow>
                if status \<in> {''CONNECTED'', ''DISCONNECTED'', ''UNKNOWN''} then Some status else None
            | _ \<Rightarrow> None)
      else None)"

definition touched_state :: "standard_message \<Rightarrow> device_state \<Rightarrow> device_state" where
  "touched_state msg state0 =
     (let state1 = state0\<lparr>ds_DataStatus := ''ACTIVE'',
            ds_BusinessStatus := (if sm_MessageType msg = AlarmReport \<or>
                equal_fold (ds_BusinessStatus state0) ''ALARM'' then ''ALARM'' else ''ONLINE''),
            ds_LastSeenAt := sm_Timestamp msg, ds_LastMessageID := sm_MessageID msg,
            ds_StatusSource := ''RAW_MESSAGE''\<rparr>
      in case reported_connection msg of
           None \<Rightarrow> state1
         | Some status \<Rightarrow>
             let state2 = state1\<lparr>ds_ConnectionStatus := status\<rparr>
             in if status = ''CONNECTED'' then state2\<lparr>ds_LastConnectAt := sm_Timestamp msg\<rparr>
                else if status = ''DISCONNECTED'' then state2\<lparr>ds_LastDisconnectAt := sm_Timestamp msg\<rparr>
                else state2)"

definition status_changed :: "device_state \<Rightarrow> device_state \<Rightarrow> bool" where
  "status_changed old new \<longleftrightarrow> ds_BusinessStatus old \<noteq> ds_BusinessStatus new \<or>
     ds_ConnectionStatus old \<noteq> ds_ConnectionStatus new"

definition touchState :: "env \<Rightarrow> standard_message \<Rightarrow> unit proc" where
  "touchState v msg =
     andThen (ask (GetDeviceState (sm_TenantID msg) (sm_DeviceID msg))) (\<lambda>x.
     let state = (case x of Inr s \<Rightarrow> s | Inl e \<Rightarrow> first_state msg)
     in if sm_Timestamp msg < ds_LastSeenAt state then ret ()
        else let next1 = touched_state msg state
             in andThen (update_repo (UpsertDeviceState next1)) (\<lambda>_.
                if status_changed state next1
                then andThen (update_repo (SaveDeviceStateEvent next1 (v_now v))) (\<lambda>_.
                     ignore (realtime v (state_topic next1) (P_state next1)))
                else ret ()))"

definition updateDeviceState :: "env \<Rightarrow> device_state \<Rightarrow> unit proc" where
  "updateDeviceState v state0 =
     andThen (ask (GetDeviceState (ds_TenantID state0) (ds_DeviceID state0))) (\<lambda>x.
     let old = (case x of Inr s \<Rightarrow> s | Inl e \<Rightarrow> zero_device_state);
         state = (if ds_LastSeenAt state0 = 0
                  then state0\<lparr>ds_LastSeenAt := ds_LastSeenAt old\<rparr> else state0)
     in andThen (update_repo (UpsertDeviceState state)) (\<lambda>_.
        if status_changed old state
        then andThen (update_repo (SaveDeviceStateEvent state (v_now v))) (\<lambda>_.
             realtime v (state_topic state) (P_state state))
        else ret ()))"

text \<open>UpdateDeviceState is updateDeviceState under the lock of the device.\<close>

definition UpdateDeviceState :: "env \<Rightarrow> device_state \<Rightarrow> unit proc" where
  "UpdateDeviceState v state = updateDeviceState v state"

text \<open>A listing of alarms, in the order its own call visits the map.\<close>

definition list_alarms :: "env \<Rightarrow> alarm_filter \<Rightarrow> alarm list proc" where
  "list_alarms v f s =
     (Inr (ListAlarms (v_visit v (e_calls s)) f (e_repo s)), s\<lparr>e_calls := e_calls s + 1\<rparr>)"

fun has_alarm :: "env \<Rightarrow> string \<Rightarrow> string \<Rightarrow> string list \<Rightarrow> bool proc" where
  "has_alarm v tenant device [] = ret False"
| "has_alarm v tenant device (status # rest) =
     andThen (list_alarms v (all_alarms\<lparr>q_TenantID := tenant, q_DeviceID := device,
        q_Status := status, q_Limit := 1\<rparr>)) (\<lambda>items.
     if items \<noteq> [] then ret True else has_alarm v tenant device rest)"

definition hasOpenAlarm :: "env \<Rightarrow> string \<Rightarrow> string \<Rightarrow> bool proc" where
  "hasOpenAlarm v tenant device = has_alarm v tenant device [''ACTIVE'', ''ACKED'']"

definition syncDeviceBusinessStatus :: "env \<Rightarrow> string \<Rightarrow> string \<Rightarrow> string \<Rightarrow> unit proc" where
  "syncDeviceBusinessStatus v tenant product1 device =
     andThen (ask (GetDeviceState tenant device)) (\<lambda>x. case x of
        Inl e \<Rightarrow> ret ()
      | Inr state \<Rightarrow> andThen (hasOpenAlarm v tenant device) (\<lambda>isOpen.
          let state1 = (if ds_ProductID state = [] then state\<lparr>ds_ProductID := product1\<rparr> else state)
          in UpdateDeviceState v (state1\<lparr>
               ds_BusinessStatus := (if isOpen then ''ALARM'' else ''ONLINE''),
               ds_StatusSource := (if isOpen then ''ACTIVE_ALARM'' else ''RAW_MESSAGE''),
               ds_Reason := (if isOpen then alarm_reason else [])\<rparr>)))"

definition ReportConnection ::
  "env \<Rightarrow> string \<Rightarrow> string \<Rightarrow> string \<Rightarrow> bool \<Rightarrow> int \<Rightarrow> unit proc" where
  "ReportConnection v tenant product1 device connected at =
     andThen (ask (GetDeviceState tenant device)) (\<lambda>x.
     let state = (case x of Inr s \<Rightarrow> s
           | Inl e \<Rightarrow> zero_device_state\<lparr>ds_TenantID := tenant, ds_ProductID := product1,
               ds_DeviceID := device, ds_DataStatus := ''UNKNOWN'', ds_BusinessStatus := ''UNKNOWN'',
               ds_ReportIntervalSec := 300, ds_OfflineToleranceSec := 60\<rparr>);
         state1 = (if connected
           then state\<lparr>ds_ConnectionStatus := ''CONNECTED'', ds_LastConnectAt := at\<rparr>
           else state\<lparr>ds_ConnectionStatus := ''DISCONNECTED'', ds_LastDisconnectAt := at\<rparr>)
     in updateDeviceState v (state1\<lparr>ds_StatusSource := ''LISTENER_SESSION''\<rparr>))"

text \<open>The last moment at which a device may still be silent.\<close>

definition offline_deadline :: "device_state \<Rightarrow> int" where
  "offline_deadline s = ds_LastSeenAt s + (ds_ReportIntervalSec s + ds_OfflineToleranceSec s) * 1000"

definition silent :: "int \<Rightarrow> device_state \<Rightarrow> bool" where
  "silent now s \<longleftrightarrow> \<not> (ds_LastSeenAt s = 0 \<or> offline_deadline s \<ge> now)"

definition offline_state :: "int \<Rightarrow> device_state \<Rightarrow> device_state" where
  "offline_state now s = s\<lparr>ds_DataStatus := ''SILENT'',
     ds_BusinessStatus := (if ds_ConnectionStatus s = ''CONNECTED'' then ''SUSPECTED_OFFLINE'' else ''OFFLINE''),
     ds_OfflineAt := offline_deadline s, ds_OfflineDetectedAt := now,
     ds_StatusSource := ''RAW_MESSAGE_TIMEOUT''\<rparr>"

definition ScanOffline :: "env \<Rightarrow> unit proc" where
  "ScanOffline v =
     andThen (ask (ListDeviceStates [])) (\<lambda>states.
     each (\<lambda>s. if silent (v_now v) s then ignore (UpdateDeviceState v (offline_state (v_now v) s))
               else ret ()) states)"

end
