(* ===== verification/Engine_Alarms.thy ===== *)
theory Engine_Alarms
  imports Engine_State
begin

text \<open>
  Alarms in the engine (engine.go, component.go): alarms raised by rules and by devices themselves,
  their recovery, component alarms, closing the alarms of a rule that goes away, the operator's status
  changes, and the cameras shown with an alarm.
\<close>

section \<open>Cameras\<close>

definition cameraSummary :: "camera_mapping \<Rightarrow> camera_summary" where
  "cameraSummary v = \<lparr>cs_CameraID = vm_CameraID v, cs_Brand = vm_Brand v, cs_CameraName = vm_CameraName v,
     cs_CameraPoint = vm_CameraPoint v, cs_DeviceID = vm_DeviceID v, cs_Building = vm_Building v,
     cs_Floor = vm_Floor v, cs_Room = vm_Room v, cs_Enabled = vm_Enabled v\<rparr>"

fun summaries :: "string \<Rightarrow> repo \<Rightarrow> string list \<Rightarrow> camera_relation list \<Rightarrow> camera_summary list res" where
  "summaries tenant r seen [] = Inr []"
| "summaries tenant r seen (x # xs) =
     (if vr_CameraID x = [] \<or> vr_CameraID x \<in> set seen then summaries tenant r seen xs
      else case GetVideoCameraMapping tenant (vr_CameraID x) r of
             Inl e \<Rightarrow> Inl e
           | Inr mapping \<Rightarrow> (case summaries tenant r (vr_CameraID x # seen) xs of
               Inl e \<Rightarrow> Inl e | Inr out \<Rightarrow> Inr (cameraSummary mapping # out)))"

definition ListCameraSummaries :: "string \<Rightarrow> string \<Rightarrow> repo \<Rightarrow> camera_summary list res" where
  "ListCameraSummaries tenant deviceID r =
     (if trim_space tenant = [] \<or> trim_space deviceID = [] then Inr []
      else summaries tenant r [] (ListVideoCameraRelationsByTarget tenant ''device'' deviceID r))"

text \<open>a.Cameras, _ = ...: no cameras on an error.\<close>

definition alarm_cameras :: "string \<Rightarrow> string \<Rightarrow> repo \<Rightarrow> camera_summary list" where
  "alarm_cameras tenant deviceID r =
     (case ListCameraSummaries tenant deviceID r of Inl e \<Rightarrow> [] | Inr xs \<Rightarrow> xs)"

section \<open>What a message says about alarms\<close>

definition messageMap :: "env \<Rightarrow> any option \<Rightarrow> anymap option" where
  "messageMap v value = (case value of
     Some (AObj m) \<Rightarrow> Some m | Some (AStr s) \<Rightarrow> v_object v s | _ \<Rightarrow> None)"

definition directMessageSources :: "env \<Rightarrow> standard_message \<Rightarrow> anymap list" where
  "directMessageSources v msg =
     [sm_Properties msg, sm_Event msg, sm_Raw msg] @
     (case messageMap v (mget (sm_Raw msg) ''payload'') of
        None \<Rightarrow> []
      | Some payload \<Rightarrow> payload # (case messageMap v (mget payload ''alarm'') of
            None \<Rightarrow> [] | Some alarm1 \<Rightarrow> [alarm1])) @
     (case messageMap v (mget (sm_Event msg) ''alarm'') of None \<Rightarrow> [] | Some alarm1 \<Rightarrow> [alarm1])"

fun first_value :: "anymap list \<Rightarrow> string \<Rightarrow> any option" where
  "first_value [] k = None"
| "first_value (source # sources) k =
     (case mget source k of Some x \<Rightarrow> Some x | None \<Rightarrow> first_value sources k)"

definition messageValue :: "env \<Rightarrow> standard_message \<Rightarrow> string \<Rightarrow> any option" where
  "messageValue v msg k = first_value (directMessageSources v msg) k"

fun firstMessageValue :: "env \<Rightarrow> standard_message \<Rightarrow> string list \<Rightarrow> any" where
  "firstMessageValue v msg [] = ANil"
| "firstMessageValue v msg (k # ks) =
     (case messageValue v msg k of Some x \<Rightarrow> x | None \<Rightarrow> firstMessageValue v msg ks)"

fun truthy :: "any \<Rightarrow> bool" where
  "truthy (ABool b) = b"
| "truthy (AFloat64 w) = (\<not> f64_zero w)"
| "truthy (AInt n) = (n \<noteq> 0)"
| "truthy (AStr s) = (let t = trim_space s in
     equal_fold t ''true'' \<or> t = ''1'' \<or> equal_fold t ''yes'' \<or> equal_fold t ''on'')"
| "truthy _ = False"

definition messageFlag :: "env \<Rightarrow> standard_message \<Rightarrow> string \<Rightarrow> bool" where
  "messageFlag v msg k = (case messageValue v msg k of None \<Rightarrow> False | Some x \<Rightarrow> truthy x)"

definition token_char :: "char \<Rightarrow> bool" where
  "token_char c \<longleftrightarrow> (let n = of_char c :: nat in (65 \<le> n \<and> n \<le> 90) \<or> (48 \<le> n \<and> n \<le> 57) \<or>
     c = CHR ''_'' \<or> c = CHR ''.'')"

definition normalizeAlarmToken :: "env \<Rightarrow> any \<Rightarrow> string" where
  "normalizeAlarmToken v value =
     (if value = ANil then []
      else let text1 = to_upper (trim_space (mt_sprint (v_matcher v) value))
           in if text1 \<in> {[], ''<NIL>'', ''TRUE'', ''FALSE''} then []
              else let text2 = replace_char (CHR ''-'') (CHR ''_'') (replace_char (CHR '' '') (CHR ''_'') text1);
                       out = filter token_char text2
                   in take 64 (trim_chars [CHR ''_'', CHR ''.''] out))"

definition directAlarmMetadata :: "env \<Rightarrow> standard_message \<Rightarrow> string \<times> string" where
  "directAlarmMetadata v msg =
     (let t0 = normalizeAlarmToken v (firstMessageValue v msg [''alarmType'', ''alarm_type'']);
          flag = messageFlag v msg;
          alarmType = (if t0 \<noteq> [] then t0
            else if flag ''fireAlarm'' then ''FIRE''
            else if flag ''smoke'' \<or> flag ''smokeDetected'' then ''SMOKE_DETECTED''
            else if flag ''fault'' \<or> flag ''powerFault'' \<or> flag ''sensorFault'' then ''DEVICE_FAULT''
            else if flag ''offline'' then ''DEVICE_OFFLINE''
            else ''MANUAL_ALARM'');
          level = normalizeAlarmToken v (firstMessageValue v msg [''alarmLevel'', ''alarm_level'', ''level''])
      in (alarmType, if level \<in> {''CRITICAL'', ''HIGH'', ''MEDIUM'', ''LOW'', ''INFO''}
                     then level else ''HIGH''))"

definition cleared_keys :: "string list" where
  "cleared_keys = [''alarm'', ''fireAlarm'', ''smoke'', ''smokeDetected'', ''fault'', ''offline'',
     ''powerFault'', ''openCircuit'', ''shortCircuit'', ''removed'', ''sensorFault'', ''upgradeFault'']"

text \<open>The loop of both cleared functions: some key is present and none of the present ones is true.\<close>

definition all_clear :: "env \<Rightarrow> standard_message \<Rightarrow> string list \<Rightarrow> bool" where
  "all_clear v msg ks \<longleftrightarrow> list_all (\<lambda>k. \<not> messageFlag v msg k) ks \<and>
     list_ex (\<lambda>k. messageValue v msg k \<noteq> None) ks"

definition directAlarmCleared :: "env \<Rightarrow> standard_message \<Rightarrow> bool" where
  "directAlarmCleared v msg =
     (if mget (sm_Event msg) ''type'' = Some (AStr ''COMPONENT_STATUS'') \<and>
         mget (sm_Event msg) ''objects'' \<noteq> None then False
      else if sm_MessageType msg \<noteq> PropertyReport \<and> sm_MessageType msg \<noteq> StateChange then False
      else all_clear v msg cleared_keys)"

definition kind_keys :: "string \<Rightarrow> string list" where
  "kind_keys kind =
     (if kind = ''FIRE'' then [''fireAlarm'']
      else if kind = ''SMOKE_DETECTED'' then [''smoke'', ''smokeDetected'']
      else if kind = ''DEVICE_FAULT'' then [''fault'', ''powerFault'', ''openCircuit'', ''shortCircuit'',
        ''removed'', ''sensorFault'', ''upgradeFault'']
      else if kind = ''DEVICE_OFFLINE'' then [''offline'']
      else if kind = ''MANUAL_ALARM'' then [''alarm'']
      else [])"

definition directAlarmTypeCleared :: "env \<Rightarrow> standard_message \<Rightarrow> string \<Rightarrow> bool" where
  "directAlarmTypeCleared v msg kind = all_clear v msg (kind_keys kind)"

section \<open>Raising\<close>

definition directAlarmRulePrefix :: string where
  "directAlarmRulePrefix = ''device-report:''"

definition directAlarmRuleID :: "string \<Rightarrow> string" where
  "directAlarmRuleID alarmType = directAlarmRulePrefix @ alarmType"

definition alarmDeviceName :: "string \<Rightarrow> string \<Rightarrow> repo \<Rightarrow> string" where
  "alarmDeviceName tenant device r =
     (case GetManagedDevice tenant device r of Inl e \<Rightarrow> [] | Inr d \<Rightarrow> trim_space (md_Name d))"

text \<open>The fields every alarm raised from a message has in common.\<close>

definition message_alarm :: "env \<Rightarrow> standard_message \<Rightarrow> string \<Rightarrow> repo \<Rightarrow> alarm" where
  "message_alarm v msg i r = zero_alarm\<lparr>al_ID := i, al_TenantID := sm_TenantID msg,
     al_TriggerID := sm_MessageID msg, al_DeviceID := sm_DeviceID msg,
     al_DeviceName := alarmDeviceName (sm_TenantID msg) (sm_DeviceID msg) r,
     al_Status := ''ACTIVE'', al_Source := ''device'',
     al_CityCode := tag msg ''cityCode'' ''unknown'', al_DistrictCode := tag msg ''districtCode'' ''unknown'',
     al_BuildingID := tag msg ''buildingId'' ''unknown'',
     al_DeviceType := tag msg ''deviceType'' (sm_ProductID msg), al_AreaID := tag msg ''areaId'' [],
     al_FirstTriggeredAt := v_now v, al_LastTriggeredAt := v_now v, al_TriggerCount := 1,
     al_Cameras := alarm_cameras (sm_TenantID msg) (sm_DeviceID msg) r\<rparr>"

text \<open>json.Marshal of an alarm: its details hold a message, whose numbers come from JSON.\<close>

definition alarm_payload :: "alarm \<Rightarrow> payload" where
  "alarm_payload a = (if json_map_ok (al_Details a) \<and> f64_finite (al_Confidence a)
     then P_alarm a else P_none)"

definition announce :: "env \<Rightarrow> string \<Rightarrow> string \<Rightarrow> alarm \<Rightarrow> unit proc" where
  "announce v topic eventType a =
     andThen (ignore (publish v topic (al_ID a) (alarm_payload a))) (\<lambda>_.
     ignore (realtime v (alarm_topic eventType a) (alarm_payload a)))"

definition raiseDirectAlarm :: "env \<Rightarrow> standard_message \<Rightarrow> (alarm \<times> bool) proc" where
  "raiseDirectAlarm v msg =
     andThen (new_id v ''alarm'') (\<lambda>i.
     andThen (ask (message_alarm v msg i)) (\<lambda>a0.
     let (alarmType, level) = directAlarmMetadata v msg;
         a = a0\<lparr>al_RuleID := directAlarmRuleID alarmType, al_AlarmType := alarmType,
                al_AlarmLevel := level,
                al_Details := [(''message'', message_any msg), (''direct'', ABool True)]\<rparr>
     in andThen (call_repo (UpsertAlarm a)) (\<lambda>(saved, created).
        andThen (if created then announce v TopicAlarmRaised ''raised'' saved else ret ()) (\<lambda>_.
        ret (saved, created)))))"

definition run_action :: "env \<Rightarrow> alarm_rule \<Rightarrow> standard_message \<Rightarrow> alarm \<Rightarrow> rule_action \<Rightarrow> unit proc" where
  "run_action v rule msg saved action =
     andThen (new_id v ''ui_action'') (\<lambda>i.
     let ev = \<lparr>ue_ID = i, ue_TenantID = sm_TenantID msg, ue_RuleID = ar_ID rule, ue_AlarmID = al_ID saved,
            ue_DeviceID = sm_DeviceID msg, ue_Action = action, ue_TriggeredAt = v_now v\<rparr>
     in andThen (ignore (publish v TopicUIAction i (P_ui ev))) (\<lambda>_.
        ignore (realtime v (''/iot/ui-action/'' @ sm_TenantID msg) (P_ui ev))))"

definition raiseRuleAlarm :: "env \<Rightarrow> alarm_rule \<Rightarrow> standard_message \<Rightarrow> (alarm \<times> bool) proc" where
  "raiseRuleAlarm v rule msg =
     andThen (new_id v ''alarm'') (\<lambda>i.
     andThen (ask (message_alarm v msg i)) (\<lambda>a0.
     let a = a0\<lparr>al_RuleID := ar_ID rule, al_AlarmType := ar_AlarmType rule, al_AlarmLevel := ar_Level rule,
               al_Details := [(''message'', message_any msg), (''ruleName'', AStr (ar_Name rule))]\<rparr>
     in andThen (call_repo (UpsertAlarm a)) (\<lambda>(saved, created).
        andThen (if created then announce v TopicAlarmRaised ''raised'' saved else ret ()) (\<lambda>_.
        andThen (if created \<or> al_TriggerID saved \<noteq> sm_MessageID msg
                 then each (run_action v rule msg saved) (ar_Actions rule) else ret ()) (\<lambda>_.
        ret (saved, created))))))"

section \<open>Recovering and closing\<close>

definition recovered :: "env \<Rightarrow> alarm \<Rightarrow> alarm" where
  "recovered v a = a\<lparr>al_Status := ''RECOVERED'', al_RecoveredAt := v_now v\<rparr>"

definition recover_one :: "env \<Rightarrow> alarm \<Rightarrow> unit proc" where
  "recover_one v a =
     andThen (update_res (UpdateAlarm (recovered v a))) (\<lambda>_.
     announce v TopicAlarmRecovered ''recovered'' (recovered v a))"

definition device_alarms :: "env \<Rightarrow> string \<Rightarrow> string \<Rightarrow> string \<Rightarrow> alarm list proc" where
  "device_alarms v tenant device status = list_alarms v (all_alarms\<lparr>q_TenantID := tenant,
     q_DeviceID := device, q_Status := status, q_Limit := 100\<rparr>)"

definition recoverDirectAlarms :: "env \<Rightarrow> standard_message \<Rightarrow> unit proc" where
  "recoverDirectAlarms v msg =
     each (\<lambda>status.
       andThen (device_alarms v (sm_TenantID msg) (sm_DeviceID msg) status) (\<lambda>alarms.
       each (\<lambda>a. if al_ComponentID a \<noteq> [] \<or> \<not> has_prefix (al_RuleID a) directAlarmRulePrefix \<or>
                    \<not> directAlarmTypeCleared v msg (al_AlarmType a)
                 then ret () else recover_one v a) alarms)) [''ACTIVE'', ''ACKED'']"

definition recoverRuleAlarm :: "env \<Rightarrow> alarm_rule \<Rightarrow> standard_message \<Rightarrow> unit proc" where
  "recoverRuleAlarm v rule msg =
     andThen (device_alarms v (sm_TenantID msg) (sm_DeviceID msg) ''ACTIVE'') (\<lambda>alarms.
     each (\<lambda>a. if al_RuleID a \<noteq> ar_ID rule then ret () else recover_one v a) alarms)"

text \<open>
  One status of closeRuleAlarms: the loop over pages of 1000 alarms. offset and the devices affected
  so far are its variables; fuel bounds the number of pages read, and running out of it is None.
\<close>

fun close_status ::
  "env \<Rightarrow> nat \<Rightarrow> string \<Rightarrow> string \<Rightarrow> string \<Rightarrow> int \<Rightarrow> string list \<Rightarrow> string list option proc" where
  "close_status v 0 tenant ruleID status offset affected = ret None"
| "close_status v (Suc fuel) tenant ruleID status offset affected =
     andThen (list_alarms v (all_alarms\<lparr>q_TenantID := tenant, q_Status := status, q_Limit := 1000,
        q_Offset := offset\<rparr>)) (\<lambda>alarms.
     if alarms = [] then ret (Some affected)
     else let mine = filter (\<lambda>a. al_RuleID a = ruleID) alarms
          in andThen (each (recover_one v) mine) (\<lambda>_.
             if mine \<noteq> []
             then close_status v fuel tenant ruleID status 0 (affected @ map al_DeviceID mine)
             else close_status v fuel tenant ruleID status (offset + int (length alarms)) affected))"

text \<open>The keys of a map, in the order a loop over it happens to visit them.\<close>

definition visited :: "env \<Rightarrow> string list \<Rightarrow> string list proc" where
  "visited v ks s = (Inr (sort_key (v_visit v (e_calls s)) ks), s\<lparr>e_calls := e_calls s + 1\<rparr>)"

definition closeRuleAlarms :: "env \<Rightarrow> nat \<Rightarrow> string \<Rightarrow> string \<Rightarrow> unit option proc" where
  "closeRuleAlarms v fuel tenant ruleID =
     andThen (close_status v fuel tenant ruleID ''ACTIVE'' 0 []) (\<lambda>x. case x of
       None \<Rightarrow> ret None
     | Some affected \<Rightarrow> andThen (close_status v fuel tenant ruleID ''ACKED'' 0 affected) (\<lambda>y. case y of
         None \<Rightarrow> ret None
       | Some devices \<Rightarrow> andThen (visited v (remdups devices)) (\<lambda>ds.
           andThen (each (syncDeviceBusinessStatus v tenant []) ds) (\<lambda>_. ret (Some ())))))"

definition engine_DeleteRule :: "env \<Rightarrow> nat \<Rightarrow> string \<Rightarrow> string \<Rightarrow> unit option proc" where
  "engine_DeleteRule v fuel tenant ruleID =
     andThen (update_res (DeleteRule tenant ruleID)) (\<lambda>_.
     andThen (update_repo (DeleteRulePendings tenant ruleID)) (\<lambda>_.
     closeRuleAlarms v fuel tenant ruleID))"

definition engine_DisableRule :: "env \<Rightarrow> nat \<Rightarrow> string \<Rightarrow> string \<Rightarrow> unit option proc" where
  "engine_DisableRule v fuel tenant ruleID =
     andThen (update_repo (DeleteRulePendings tenant ruleID)) (\<lambda>_.
     closeRuleAlarms v fuel tenant ruleID)"

section \<open>Operators\<close>

text \<open>The status an operator may set, by the status the alarm has.\<close>

definition operator_status :: "env \<Rightarrow> string \<Rightarrow> alarm \<Rightarrow> alarm res" where
  "operator_status v status a =
     (if status = ''ACKED''
      then if al_Status a \<noteq> ''ACTIVE'' then Inl (ErrText ''only active alarms can be acknowledged'')
           else Inr (a\<lparr>al_Status := status, al_AckedAt := v_now v\<rparr>)
      else if status = ''CLOSED'' then Inr (a\<lparr>al_Status := status, al_ClosedAt := v_now v\<rparr>)
      else if status = ''SUPPRESSED'' then Inr (a\<lparr>al_Status := status\<rparr>)
      else Inl (ErrText (''unsupported status '' @ status)))"

text \<open>
  SetAlarmStatus reads the alarm, then writes it back with its new status and goes on. It holds no lock:
  other calls may come between the two parts, which is why they have names of their own.
\<close>

definition SetAlarmStatus_read :: "env \<Rightarrow> string \<Rightarrow> string \<Rightarrow> string \<Rightarrow> alarm proc" where
  "SetAlarmStatus_read v tenant alarmID status =
     andThen (query (GetAlarm tenant alarmID)) (\<lambda>a0.
     case operator_status v status a0 of Inl e \<Rightarrow> fail e | Inr a \<Rightarrow> ret a)"

definition SetAlarmStatus_write ::
  "env \<Rightarrow> string \<Rightarrow> string \<Rightarrow> string \<Rightarrow> string \<Rightarrow> alarm \<Rightarrow> alarm proc" where
  "SetAlarmStatus_write v tenant alarmID status actor a =
     andThen (update_res (UpdateAlarm a)) (\<lambda>_.
     andThen (syncDeviceBusinessStatus v (al_TenantID a) [] (al_DeviceID a)) (\<lambda>_.
     andThen (new_id v ''audit'') (\<lambda>i.
     andThen (update_repo (SaveAudit \<lparr>au_ID = i, au_TenantID = tenant, au_Actor = actor,
        au_Action = ''alarm.'' @ to_lower status, au_TargetType = ''alarm'', au_TargetID = alarmID,
        au_Details = [], au_CreatedAt = v_now v\<rparr>)) (\<lambda>_.
     andThen (announce v TopicAlarmConfirmed ''confirmed'' a) (\<lambda>_. ret a)))))"

definition SetAlarmStatus :: "env \<Rightarrow> string \<Rightarrow> string \<Rightarrow> string \<Rightarrow> string \<Rightarrow> alarm proc" where
  "SetAlarmStatus v tenant alarmID status actor =
     andThen (SetAlarmStatus_read v tenant alarmID status) (SetAlarmStatus_write v tenant alarmID status actor)"

section \<open>Component alarms\<close>

definition component_candidate ::
  "env \<Rightarrow> standard_message \<Rightarrow> component_status \<Rightarrow> string \<Rightarrow> string \<Rightarrow> repo \<Rightarrow> alarm" where
  "component_candidate v msg c kind i r = (message_alarm v msg i r)\<lparr>
     al_RuleID := directAlarmRulePrefix @ kind @ '':component:'' @ v_sha v (cp_ID c),
     al_ComponentID := cp_ID c, al_ComponentName := cp_Name c, al_ComponentLocation := cp_Location c,
     al_AlarmType := kind, al_AlarmLevel := ''HIGH'',
     al_Details := [(''message'', message_any msg), (''component'', component_any c), (''direct'', ABool True)]\<rparr>"

definition apply_kind :: "env \<Rightarrow> standard_message \<Rightarrow> component_status \<Rightarrow> string \<Rightarrow> unit proc" where
  "apply_kind v msg c kind =
     andThen (new_id v ''alarm'') (\<lambda>i.
     andThen (ask (component_candidate v msg c kind i)) (\<lambda>a.
     andThen (call_repo (ApplyComponentAlarm a (zero_component_alarm_state\<lparr>ca_Timestamp := cp_Timestamp c,
        ca_MessageID := sm_MessageID msg, ca_Active := mget_or False (cp_Alarms c) kind\<rparr>))) (\<lambda>(saved, ev).
     if ev = [] then ret ()
     else andThen (publish v (if ev = ''recovered'' then TopicAlarmRecovered else TopicAlarmRaised)
            (al_ID saved) (alarm_payload saved)) (\<lambda>_.
          realtime v (alarm_topic ev saved) (alarm_payload saved)))))"

definition applyComponentAlarms :: "env \<Rightarrow> standard_message \<Rightarrow> component_status list \<Rightarrow> unit proc" where
  "applyComponentAlarms v msg components =
     each (\<lambda>c. each (apply_kind v msg c) (sort (map fst (cp_Alarms c)))) components"

end
