(* ===== verification/Engine_Ingest.thy ===== *)
theory Engine_Ingest
  imports Engine_Alarms
begin

text \<open>
  The way of a message through the engine (engine.go, rawstore/store.go): ingestion and archiving of a
  raw message, its publication and the retry of unpublished ones, parsing, and the handling of the
  parsed message with the rules. Values returned beside an error are left out.
\<close>

section \<open>Archiving\<close>

definition PostgreSQLBucket :: string where
  "PostgreSQLBucket = ''postgres''"

definition ClickHouseBucket :: string where
  "ClickHouseBucket = ''clickhouse''"

definition isHighFrequency :: "int \<Rightarrow> int \<Rightarrow> int \<Rightarrow> bool" where
  "isHighFrequency current previous thresholdSec =
     (if current \<le> previous \<or> previous \<le> 0 \<or> thresholdSec \<le> 0 then False
      else current - previous \<le> thresholdSec * 1000)"

text \<open>rawstore.New: the threshold is 60 seconds unless configured.\<close>

definition threshold :: "env \<Rightarrow> int" where
  "threshold v = (if v_interval v \<le> 0 then 60 else v_interval v)"

definition swap_last :: "string \<Rightarrow> int \<Rightarrow> int proc" where
  "swap_last k t s = (Inr (mget_or 0 (e_last s) k), s\<lparr>e_last := mput (e_last s) k t\<rparr>)"

definition chooseBackend :: "env \<Rightarrow> raw_message \<Rightarrow> string proc" where
  "chooseBackend v value =
     andThen (ask (GetDeviceState (rm_TenantID value) (rm_DeviceID value))) (\<lambda>x.
     let (configuredInterval, stateLastSeen) = (case x of
           Inl e \<Rightarrow> (0, 0) | Inr st \<Rightarrow> (ds_ReportIntervalSec st, ds_LastSeenAt st))
     in andThen (swap_last (key [rm_TenantID value, rm_DeviceID value]) (rm_ReceivedAt value)) (\<lambda>previous.
        if configuredInterval > 0 \<and> configuredInterval \<le> threshold v then ret ClickHouseBucket
        else if isHighFrequency (rm_ReceivedAt value) stateLastSeen (threshold v) \<or>
                isHighFrequency (rm_ReceivedAt value) previous (threshold v)
        then ret ClickHouseBucket
        else ret PostgreSQLBucket))"

text \<open>The database written for the chosen backend, and its name.\<close>

definition database_for :: "env \<Rightarrow> string \<Rightarrow> string option" where
  "database_for v backend =
     (if backend = ClickHouseBucket
      then (if v_clickhouse v then Some ClickHouseBucket
            else if v_postgres v then Some PostgreSQLBucket else None)
      else (if v_postgres v then Some PostgreSQLBucket
            else if v_clickhouse v then Some ClickHouseBucket else None))"

definition update_click :: "(repo \<Rightarrow> repo res) \<Rightarrow> unit proc" where
  "update_click f s = (case f (e_click s) of
     Inl e \<Rightarrow> (Inl e, s) | Inr r \<Rightarrow> (Inr (), s\<lparr>e_click := r\<rparr>))"

definition PutRaw :: "env \<Rightarrow> raw_message \<Rightarrow> raw_index proc" where
  "PutRaw v value =
     andThen (chooseBackend v value) (\<lambda>backend.
     case database_for v backend of
       None \<Rightarrow> fail (ErrText ''no database raw message store is configured'')
     | Some bucket \<Rightarrow>
         andThen (if bucket = ClickHouseBucket then update_click (SaveRawMessage (v_sha v) (v_cp v) value)
                  else update_res (SaveRawMessage (v_sha v) (v_cp v) value)) (\<lambda>_.
         ret (zero_raw_index\<lparr>ri_MessageID := rm_MessageID value, ri_TenantID := rm_TenantID value,
           ri_ProductID := rm_ProductID value, ri_DeviceID := rm_DeviceID value,
           ri_Protocol := rm_Protocol value, ri_PayloadFormat := rm_PayloadFormat value,
           ri_ObjectBucket := bucket, ri_ObjectKey := rm_MessageID value,
           ri_PayloadHash := PayloadHash (v_sha v) value, ri_PayloadSize := int (length (rm_Payload value)),
           ri_ReceivedAt := rm_ReceivedAt value, ri_ArchivedAt := v_now v\<rparr>)))"

definition GetRaw :: "env \<Rightarrow> raw_index \<Rightarrow> raw_message proc" where
  "GetRaw v index s =
     (if ri_ObjectBucket index = PostgreSQLBucket
      then if \<not> v_postgres v then fail (ErrText ''postgres raw message store is not configured'') s
           else (GetRawMessage (v_cp v) (ri_TenantID index) (ri_MessageID index) (e_repo s), s)
      else if ri_ObjectBucket index = ClickHouseBucket
      then if \<not> v_clickhouse v then fail (ErrText ''clickhouse raw message store is not configured'') s
           else (GetRawMessage (v_cp v) (ri_TenantID index) (ri_MessageID index) (e_click s), s)
      else case v_legacy v of
             None \<Rightarrow> fail (ErrText ''legacy raw message reader is not configured'') s
           | Some reader \<Rightarrow> (reader index, s))"

section \<open>Ingestion\<close>

definition Normalize :: "env \<Rightarrow> raw_message \<Rightarrow> raw_message" where
  "Normalize v m =
     (let m1 = (if rm_MessageID m = [] then m\<lparr>rm_MessageID := ''raw_'' @ take 24 (v_sha v
            (go_join '':'' [rm_TenantID m, rm_DeviceID m, v_nanos v, rm_Payload m]))\<rparr> else m);
          m2 = (if rm_Source m1 = [] then m1\<lparr>rm_Source := ''external-ingest''\<rparr> else m1);
          m3 = (if rm_ReceivedAt m2 = 0 then m2\<lparr>rm_ReceivedAt := v_now v\<rparr> else m2)
      in if rm_PayloadFormat m3 = [] then m3\<lparr>rm_PayloadFormat := ''json''\<rparr> else m3)"

text \<open>The missing fields are listed in the order of a map, here that of the source text.\<close>

definition ValidateRaw :: "raw_message \<Rightarrow> error option" where
  "ValidateRaw m =
     (let missing = map fst (filter (\<lambda>e. trim_space (snd e) = []) [(''messageId'', rm_MessageID m),
            (''tenantId'', rm_TenantID m), (''productId'', rm_ProductID m), (''deviceId'', rm_DeviceID m)])
      in if missing \<noteq> [] then Some (ErrText (''missing required fields: '' @ go_join '', '' missing))
         else if rm_Payload m = [] then Some (ErrText ''payload is required'')
         else None)"

text \<open>SecretHint and the prefix of the default name, Chinese text in UTF-8.\<close>

definition managed_by_gateway :: string where
  "managed_by_gateway = bytes [231, 189, 145, 229, 133, 179, 230, 137, 152, 231, 174, 161]"

definition child_name :: string where
  "child_name = bytes [229, 173, 144, 232, 174, 190, 229, 164, 135, 32]"

text \<open>The checks of ensureGatewayChild: no child, a known child, or a child to register.\<close>

datatype child_check = Not_a_child | Known_child | New_child managed_device

definition check_child :: "raw_message \<Rightarrow> repo \<Rightarrow> child_check res" where
  "check_child raw r =
     (if rm_GatewayID raw = [] \<or> rm_DeviceID raw = rm_GatewayID raw then Inr Not_a_child
      else case GetManagedDevice (rm_TenantID raw) (rm_GatewayID raw) r of
        Inl e \<Rightarrow> Inl (ErrText (''gateway '' @ rm_GatewayID raw @ '' is not registered''))
      | Inr gateway \<Rightarrow> (case GetProduct (rm_TenantID raw) (md_ProductID gateway) r of
          Inl e \<Rightarrow> Inl (ErrText ''gateway product not found'')
        | Inr gatewayProduct \<Rightarrow>
            if md_DeviceRole gateway \<noteq> ''GATEWAY'' \<and> pr_Category gatewayProduct \<noteq> ''gateway''
            then Inl (ErrText (''device '' @ md_ID gateway @ '' is not configured as a gateway''))
            else if rm_ProductID raw = [] then Inl (ErrText ''child productId is required'')
            else if (case GetProduct (rm_TenantID raw) (rm_ProductID raw) r of
                       Inl e \<Rightarrow> True | Inr p \<Rightarrow> pr_Status p \<noteq> ''ENABLED'')
            then Inl (ErrText ''child product is not enabled'')
            else case GetManagedDevice (rm_TenantID raw) (rm_DeviceID raw) r of
                   Inl e \<Rightarrow> Inr (New_child gateway)
                 | Inr child \<Rightarrow>
                     if md_DeviceRole child \<noteq> ''CHILD'' \<or> md_GatewayID child \<noteq> md_ID gateway
                     then Inl (ErrText (''device '' @ md_ID child @
                        '' is already registered outside gateway '' @ md_ID gateway))
                     else if md_ProductID child \<noteq> rm_ProductID raw
                     then Inl (ErrText ''child device product does not match its registration'')
                     else Inr Known_child))"

definition new_child :: "env \<Rightarrow> raw_message \<Rightarrow> string \<Rightarrow> string \<Rightarrow> string \<Rightarrow> managed_device" where
  "new_child v raw gatewayID secret accessId = zero_managed_device\<lparr>md_ID := rm_DeviceID raw,
     md_TenantID := rm_TenantID raw, md_ProductID := rm_ProductID raw,
     md_Name := (if rm_DeviceName raw = [] then child_name @ rm_DeviceID raw else rm_DeviceName raw),
     md_Status := ''ENABLED'', md_DeviceRole := ''CHILD'', md_GatewayID := gatewayID,
     md_RegistrationSource := ''GATEWAY_AUTO'', md_AutoRegistered := True,
     md_AccessKey := ''dk_'' @ trim_prefix accessId ''_'', md_SecretHash := v_sha v secret,
     md_SecretHint := managed_by_gateway, md_CreatedAt := v_now v, md_UpdatedAt := v_now v\<rparr>"

definition ensureGatewayChild :: "env \<Rightarrow> raw_message \<Rightarrow> unit proc" where
  "ensureGatewayChild v raw =
     andThen (query (check_child raw)) (\<lambda>c. case c of
       New_child gateway \<Rightarrow>
         andThen (new_id v ''child_secret'') (\<lambda>secret.
         andThen (new_id v []) (\<lambda>accessId.
         let child = new_child v raw (md_ID gateway) secret accessId
         in andThen (wrapped ''auto-register child device'' (update_res (SaveManagedDevice child))) (\<lambda>_.
            andThen (new_id v ''audit'') (\<lambda>i.
            update_repo (SaveAudit \<lparr>au_ID = i, au_TenantID = rm_TenantID raw,
              au_Actor = ''gateway:'' @ md_ID gateway, au_Action = ''device.child.auto-register'',
              au_TargetType = ''device'', au_TargetID = md_ID child,
              au_Details = [(''gatewayId'', AStr (md_ID gateway)), (''productId'', AStr (md_ProductID child))],
              au_CreatedAt = v_now v\<rparr>)))))
     | _ \<Rightarrow> ret ())"

text \<open>json.Marshal of a raw message fails when its payload is not JSON.\<close>

definition raw_payload :: "env \<Rightarrow> raw_message \<Rightarrow> payload" where
  "raw_payload v raw = (if (rm_Payload raw = [] \<or> v_cp v (rm_Payload raw) \<noteq> None) \<and>
       json_map_ok (rm_Metadata raw) then P_raw raw else P_none)"

definition publishArchivedRaw :: "env \<Rightarrow> raw_index \<Rightarrow> raw_message \<Rightarrow> unit proc" where
  "publishArchivedRaw v idx raw =
     andThen (attempt (publish v TopicRaw (rm_DeviceID raw) (raw_payload v raw))) (\<lambda>x. case x of
       Inl e \<Rightarrow>
         andThen (ignore (update_res (MarkRawPublished (ri_TenantID idx) (ri_MessageID idx) 0 (error_text e))))
           (\<lambda>_. fail (ErrWrap ''publish archived raw'' e))
     | Inr _ \<Rightarrow> wrapped ''mark raw published''
         (update_res (MarkRawPublished (ri_TenantID idx) (ri_MessageID idx) (v_now v) [])))"

definition bind_protocol :: "raw_message \<Rightarrow> repo \<Rightarrow> raw_message" where
  "bind_protocol raw r =
     (if rm_ProtocolID raw = [] \<or> rm_ProtocolVersion raw = []
      then case GetProductProtocolBinding (rm_TenantID raw) (rm_ProductID raw) r of
             Inl e \<Rightarrow> raw
           | Inr b \<Rightarrow>
               let raw1 = raw\<lparr>rm_ProtocolID := pb_ProtocolID b, rm_ProtocolVersion := pb_Version b\<rparr>
               in case GetProtocolRelease (rm_TenantID raw) (pb_ProtocolID b) (pb_Version b) r of
                    Inl e \<Rightarrow> raw1
                  | Inr release \<Rightarrow> raw1\<lparr>rm_PointTableVersion := pl_PointTableVersion release\<rparr>
      else raw)"

definition index_conflict :: "env \<Rightarrow> raw_index \<Rightarrow> raw_message \<Rightarrow> bool" where
  "index_conflict v existing raw \<longleftrightarrow> ri_PayloadHash existing \<noteq> PayloadHash (v_sha v) raw \<or>
     ri_DeviceID existing \<noteq> rm_DeviceID raw \<or> ri_ProductID existing \<noteq> rm_ProductID raw"

text \<open>IngestRaw after its checks: the message is archived already, or it is archived now.\<close>

definition ingest_again :: "env \<Rightarrow> raw_message \<Rightarrow> raw_index \<Rightarrow> (raw_index \<times> bool) proc" where
  "ingest_again v raw existing =
     (if index_conflict v existing raw then fail ErrRawConflict
      else if ri_PublishedAt existing = 0
      then andThen (wrapped ''read pending raw'' (GetRaw v existing)) (\<lambda>stored.
           andThen (publishArchivedRaw v existing stored) (\<lambda>_. ret (existing, False)))
      else ret (existing, False))"

definition ingest_new :: "env \<Rightarrow> raw_message \<Rightarrow> (raw_index \<times> bool) proc" where
  "ingest_new v raw0 =
     andThen (call_repo (ReserveRawMessage (v_sha v) (v_cp v) raw0)) (\<lambda>reserved. case reserved of
       Inl e \<Rightarrow> fail e
     | Inr raw \<Rightarrow>
         andThen (wrapped ''archive raw'' (PutRaw v raw)) (\<lambda>idx.
         andThen (call_repo (SaveRawIndex idx)) (\<lambda>created.
         if \<not> created
         then andThen (query (GetRawIndex (rm_TenantID raw) (rm_MessageID raw))) (\<lambda>existing.
              if index_conflict v existing raw then fail ErrRawConflict else ret (existing, False))
         else andThen (publishArchivedRaw v idx raw) (\<lambda>_. ret (idx, True)))))"

definition IngestRaw :: "env \<Rightarrow> raw_message \<Rightarrow> (raw_index \<times> bool) proc" where
  "IngestRaw v raw0 =
     andThen (ask (bind_protocol (Normalize v raw0))) (\<lambda>raw.
     case ValidateRaw raw of
       Some e \<Rightarrow> fail e
     | None \<Rightarrow>
         andThen (ensureGatewayChild v raw) (\<lambda>_.
         andThen (ask (GetRawIndex (rm_TenantID raw) (rm_MessageID raw))) (\<lambda>x. case x of
           Inr existing \<Rightarrow> ingest_again v raw existing
         | Inl e \<Rightarrow> ingest_new v raw)))"

text \<open>One tick of retryPendingRaw.\<close>

definition retry_one :: "env \<Rightarrow> raw_index \<Rightarrow> unit proc" where
  "retry_one v idx =
     andThen (attempt (GetRaw v idx)) (\<lambda>x. case x of
       Inl e \<Rightarrow> ignore (update_res (MarkRawPublished (ri_TenantID idx) (ri_MessageID idx) 0 (error_text e)))
     | Inr raw \<Rightarrow> ignore (publishArchivedRaw v idx raw))"

definition retryPendingRaw :: "env \<Rightarrow> unit proc" where
  "retryPendingRaw v = andThen (ask (ListPendingRawIndexes 200)) (each (retry_one v))"

section \<open>Parsing\<close>

text \<open>The parse by the protocol release bound to the message or to its product, if there is one.\<close>

definition parse_bound :: "env \<Rightarrow> raw_message \<Rightarrow> repo \<Rightarrow> standard_message res option" where
  "parse_bound v raw r =
     (let (protocolID, protocolVersion) =
        (if rm_ProtocolID raw = [] \<or> rm_ProtocolVersion raw = []
         then case GetProductProtocolBinding (rm_TenantID raw) (rm_ProductID raw) r of
                Inl e \<Rightarrow> (rm_ProtocolID raw, rm_ProtocolVersion raw)
              | Inr b \<Rightarrow> (pb_ProtocolID b, pb_Version b)
         else (rm_ProtocolID raw, rm_ProtocolVersion raw))
      in if protocolID = [] \<or> protocolVersion = [] then None
         else let name = ''protocol release '' @ protocolID @ ''@'' @ protocolVersion
              in case GetProtocolRelease (rm_TenantID raw) protocolID protocolVersion r of
                   Inl e \<Rightarrow> Some (Inl (ErrWrap (name @ '' not found'') e))
                 | Inr release \<Rightarrow>
                     if pl_Status release = ''REVOKED'' then Some (Inl (ErrText (name @ '' is revoked'')))
                     else Some (ParseWithConfig (v_parsers v) (pl_ParserType release) (pl_Config release)
                       (raw\<lparr>rm_ProtocolID := protocolID, rm_ProtocolVersion := protocolVersion,
                            rm_PointTableVersion := (if rm_PointTableVersion raw = []
                              then pl_PointTableVersion release else rm_PointTableVersion raw)\<rparr>)))"

text \<open>The parse by the protocol package of the product, if one is published.\<close>

definition parse_package :: "env \<Rightarrow> raw_message \<Rightarrow> repo \<Rightarrow> standard_message res option" where
  "parse_package v raw r = (case GetProduct (rm_TenantID raw) (rm_ProductID raw) r of
     Inl e \<Rightarrow> None
   | Inr p \<Rightarrow>
       if pr_ProtocolPackageID p = [] then None
       else case GetProtocolPackage (rm_TenantID raw) (pr_ProtocolPackageID p) r of
              Inl e \<Rightarrow> None
            | Inr pkg \<Rightarrow> if pp_Status pkg \<noteq> ''PUBLISHED'' then None
                else Some (ParseVersionWithConfig (v_parsers v) (pp_ParserType pkg) (rm_ParserVersion raw)
                       (pp_Config pkg) raw))"

definition parse_raw :: "env \<Rightarrow> raw_message \<Rightarrow> repo \<Rightarrow> standard_message res" where
  "parse_raw v raw r =
     (case (case parse_bound v raw r of
              Some x \<Rightarrow> x
            | None \<Rightarrow> (case parse_package v raw r of Some x \<Rightarrow> x | None \<Rightarrow> Parse (v_parsers v) raw)) of
        Inl e \<Rightarrow> Inl e
      | Inr msg \<Rightarrow> (case MessageComponents msg of Inl e \<Rightarrow> Inl e | Inr _ \<Rightarrow> Inr msg))"

definition standard_payload :: "standard_message \<Rightarrow> payload" where
  "standard_payload m = (if json_map_ok (sm_Properties m) \<and> json_map_ok (sm_Event m) \<and>
       json_map_ok (sm_Raw m) then P_standard m else P_none)"

definition parsed_topic :: "standard_message \<Rightarrow> string" where
  "parsed_topic msg = (if sm_MessageType msg = EventReport \<or> sm_MessageType msg = AlarmReport
     then TopicEventReport
     else if sm_MessageType msg = PropertyReport then TopicPropertyReport else TopicParsed)"

text \<open>handleRaw on a decoded raw message.\<close>

definition handleRaw :: "env \<Rightarrow> raw_message \<Rightarrow> unit proc" where
  "handleRaw v raw =
     andThen (ask (parse_raw v raw)) (\<lambda>x.
     let parseError = (case x of Inl e \<Rightarrow> take 512 (error_text e) | Inr _ \<Rightarrow> [])
     in andThen (update_repo (MarkRawParseResult (rm_TenantID raw) (rm_MessageID raw) (v_now v) parseError))
        (\<lambda>_. case x of
          Inl e \<Rightarrow> ret ()
        | Inr msg \<Rightarrow>
            andThen (wrapped (''publish parsed message to kafka topic '' @ parsed_topic msg)
              (publish v (parsed_topic msg) (sm_DeviceID msg) (standard_payload msg))) (\<lambda>_.
            wrapped ''publish parsed message to mqtt''
              (realtime v (standard_topic msg) (standard_payload msg)))))"

section \<open>Handling\<close>

definition clearDuration :: "alarm_rule \<Rightarrow> standard_message \<Rightarrow> unit proc" where
  "clearDuration rule msg =
     update_repo (DeleteRulePending (ar_TenantID rule) (ar_ID rule) (sm_DeviceID msg))"

definition durationSatisfied :: "env \<Rightarrow> alarm_rule \<Rightarrow> standard_message \<Rightarrow> bool proc" where
  "durationSatisfied v rule msg =
     (let now = v_now v div 1000
      in andThen (ask (GetRulePending (ar_TenantID rule) (ar_ID rule) (sm_DeviceID msg))) (\<lambda>pending.
         case pending of
           None \<Rightarrow> andThen (update_repo (SaveRulePending (ar_TenantID rule) (ar_ID rule) (sm_DeviceID msg) now))
                     (\<lambda>_. ret False)
         | Some since \<Rightarrow> ret (now - since \<ge> ar_DurationSeconds rule)))"

text \<open>One rule of the loop of handleStandard; the result is whether its alarm was raised.\<close>

definition apply_rule :: "env \<Rightarrow> standard_message \<Rightarrow> alarm_rule \<Rightarrow> bool proc" where
  "apply_rule v msg rule =
     (if MatchRule (v_matcher v) rule msg
      then andThen (if ar_DurationSeconds rule > 0 then durationSatisfied v rule msg else ret True)
             (\<lambda>satisfied. if \<not> satisfied then ret False
                else andThen (raiseRuleAlarm v rule msg) (\<lambda>_. ret True))
      else if MatchConditions (v_matcher v) (ar_Recovery rule) msg
      then andThen (clearDuration rule msg) (\<lambda>_.
           andThen (recoverRuleAlarm v rule msg) (\<lambda>_. ret False))
      else andThen (clearDuration rule msg) (\<lambda>_. ret False))"

fun apply_rules :: "env \<Rightarrow> standard_message \<Rightarrow> alarm_rule list \<Rightarrow> bool \<Rightarrow> bool proc" where
  "apply_rules v msg [] ruleAlarmHandled = ret ruleAlarmHandled"
| "apply_rules v msg (rule # rules) ruleAlarmHandled =
     andThen (apply_rule v msg rule) (\<lambda>raised. apply_rules v msg rules (ruleAlarmHandled \<or> raised))"

definition reply_command :: "env \<Rightarrow> standard_message \<Rightarrow> unit proc" where
  "reply_command v msg =
     (if sm_MessageType msg = CommandReply \<and> sm_Parser msg = StandardParserName
      then case mget (sm_Event msg) ''commandId'' of
             Some (AStr i) \<Rightarrow> update_repo (CompleteDeviceCommand (sm_TenantID msg) (sm_DeviceID msg) i
                (sm_Event msg) (v_now v))
           | _ \<Rightarrow> ret ()
      else ret ())"

text \<open>The alarms of the device's own making, after the rules.\<close>

definition device_alarm_steps ::
  "env \<Rightarrow> standard_message \<Rightarrow> component_status list \<Rightarrow> bool \<Rightarrow> unit proc" where
  "device_alarm_steps v msg components ruleAlarmHandled =
     andThen (if components \<noteq> [] then applyComponentAlarms v msg components else ret ()) (\<lambda>_.
     andThen (if components = [] \<and> sm_MessageType msg = AlarmReport \<and> \<not> ruleAlarmHandled
              then andThen (raiseDirectAlarm v msg) (\<lambda>_. ret ()) else ret ()) (\<lambda>_.
     if components = [] \<and> sm_MessageType msg \<noteq> AlarmReport \<and> directAlarmCleared v msg
     then recoverDirectAlarms v msg else ret ()))"

text \<open>handleStandard on a decoded message.\<close>

definition handleStandard :: "env \<Rightarrow> standard_message \<Rightarrow> unit proc" where
  "handleStandard v msg = (case MessageComponents msg of
     Inl e \<Rightarrow> fail e
   | Inr components \<Rightarrow>
       andThen (call_repo (ClaimStandardMessage msg)) (\<lambda>(shouldProcess, new).
       if \<not> shouldProcess then ret ()
       else andThen (reply_command v msg) (\<lambda>_.
            andThen (touchState v msg) (\<lambda>_.
            andThen (ask (ListRules (sm_TenantID msg))) (\<lambda>rules.
            andThen (apply_rules v msg rules False) (\<lambda>ruleAlarmHandled.
            andThen (device_alarm_steps v msg components ruleAlarmHandled) (\<lambda>_.
            andThen (syncDeviceBusinessStatus v (sm_TenantID msg) (sm_ProductID msg) (sm_DeviceID msg)) (\<lambda>_.
            update_res (MarkStandardMessageProcessed (sm_TenantID msg) (sm_MessageID msg))))))))))"

text \<open>handleState on bytes that decode to a device state, to a standard message, or to neither.\<close>

definition handleState :: "env \<Rightarrow> device_state option \<Rightarrow> standard_message option \<Rightarrow> unit proc" where
  "handleState v st msg = (case st of
     Some state \<Rightarrow> if ds_DeviceID state \<noteq> [] then UpdateDeviceState v state
       else (case msg of None \<Rightarrow> fail (ErrText ''json'') | Some m \<Rightarrow> touchState v m)
   | None \<Rightarrow> (case msg of None \<Rightarrow> fail (ErrText ''json'') | Some m \<Rightarrow> touchState v m))"

end
