(* ===== verification/Device_Inv.thy ===== *)
theory Device_Inv
  imports Repo_Devices
begin

text \<open>
  Correctness of the device store: every device is filed under its tenant and identifier and no two
  devices share an access key, for every operation that writes devices (SaveManagedDevice, the two
  protocol registrations, ChangeDeviceCredential, SaveOnboarding). An access key is what a device
  authenticates with, so this is what makes GetManagedDeviceByAccessKey name one device.
\<close>

section \<open>The invariant\<close>

definition device_filed :: "string \<Rightarrow> managed_device \<Rightarrow> bool" where
  "device_filed k d \<longleftrightarrow> k = key [md_TenantID d, md_ID d] \<and> nul_free (md_TenantID d)"

definition same_access_key :: "managed_device \<Rightarrow> managed_device \<Rightarrow> bool" where
  "same_access_key d e \<longleftrightarrow> md_AccessKey d = md_AccessKey e"

definition devices_inv :: "managed_device gomap \<Rightarrow> bool" where
  "devices_inv m \<longleftrightarrow> store_inv device_filed same_access_key m"

interpretation device_store: clash_store device_filed same_access_key
  by unfold_locales (simp add: same_access_key_def)

lemma devices_invD:
  assumes "devices_inv m"
  shows "mwf m" "mget m k = Some d \<Longrightarrow> k = key [md_TenantID d, md_ID d]"
    "mget m k = Some d \<Longrightarrow> nul_free (md_TenantID d)"
    "mget m k = Some d \<Longrightarrow> mget m k' = Some d' \<Longrightarrow> md_AccessKey d = md_AccessKey d' \<Longrightarrow> k = k'"
  using assms device_store.store_invD [of m]
  by (auto simp: devices_inv_def device_filed_def same_access_key_def)

lemmas devices_inv_mput = device_store.store_inv_mput [folded devices_inv_def]

lemmas devices_inv_replace = device_store.store_inv_replace [folded devices_inv_def]

lemmas devices_inv_Nil = device_store.store_inv_Nil [folded devices_inv_def]

text \<open>The loops over all devices, in terms of lookups.\<close>

lemma access_key_taken_iff:
  assumes "devices_inv (r_devices r)" "nul_free (md_TenantID v)"
  shows "access_key_taken v r \<longleftrightarrow> (\<exists>k e. mget (r_devices r) k = Some e \<and>
    md_AccessKey e = md_AccessKey v \<and> k \<noteq> key [md_TenantID v, md_ID v])"
proof -
  have "k \<noteq> key [md_TenantID v, md_ID v] \<longleftrightarrow> md_TenantID e \<noteq> md_TenantID v \<or> md_ID e \<noteq> md_ID v"
    if "mget (r_devices r) k = Some e" for k e
    using devices_invD(2,3) [OF assms(1) that] assms(2)
    by (metis key2_inject)
  then show ?thesis
    unfolding access_key_taken_def list_ex_mvals [OF devices_invD(1) [OF assms(1)]] by blast
qed

lemma access_key_free:
  "devices_inv (r_devices r) \<Longrightarrow> nul_free (md_TenantID v) \<Longrightarrow> \<not> access_key_taken v r \<Longrightarrow>
     mget (r_devices r) k = Some e \<Longrightarrow> md_AccessKey e = md_AccessKey v \<Longrightarrow>
     k = key [md_TenantID v, md_ID v]"
  unfolding access_key_taken_iff by blast

lemma some_access_key_iff:
  "devices_inv m \<Longrightarrow> list_ex (\<lambda>e. md_AccessKey e = x) (mvals m) \<longleftrightarrow>
     (\<exists>k e. mget m k = Some e \<and> md_AccessKey e = x)"
  by (simp add: list_ex_mvals devices_invD(1))

section \<open>The operations\<close>

lemma SaveManagedDevice_inv:
  assumes inv: "devices_inv (r_devices r)" and v: "nul_free (md_TenantID v)"
    and save: "SaveManagedDevice v r = Inr r'"
  shows "devices_inv (r_devices r')"
proof -
  have free: "\<not> access_key_taken v r" and r': "r_devices r' = mput (r_devices r) (key [md_TenantID v, md_ID v]) v"
    using save by (auto simp: SaveManagedDevice_def split: if_splits)
  show ?thesis
    unfolding r' using free v access_key_taken_iff [OF inv v]
    by (intro devices_inv_mput inv) (auto simp: device_filed_def same_access_key_def)
qed

text \<open>A device with the fields of a stored one, except the ones a registration or a credential
  change may write.\<close>

lemma devices_inv_update:
  assumes "devices_inv m" "mget m k = Some d" "k = key [md_TenantID e, md_ID e]"
    "md_TenantID e = md_TenantID d" "md_AccessKey e = md_AccessKey d"
  shows "devices_inv (mput m k e)"
  using assms devices_invD(3) [OF assms(1,2)]
  by (intro devices_inv_replace [OF assms(1,2)]) (auto simp: device_filed_def same_access_key_def)

lemma update_keeps_access_key:
  "mget m k = Some d \<Longrightarrow> md_AccessKey d' = md_AccessKey d \<Longrightarrow> mget (mput m k d') k' = Some e \<Longrightarrow>
     \<exists>e0. mget m k' = Some e0 \<and> md_AccessKey e0 = md_AccessKey e"
  by (auto split: if_splits)

lemma ProtocolRegistrationDevice_Inr:
  "ProtocolRegistrationDevice sha expected current p i name now = Inr d \<Longrightarrow>
     md_TenantID d = ap_TenantID current \<and> md_ID d = i \<and> ap_TenantID current \<noteq> [] \<and>
     md_ProductID d = ap_ProductID current \<and> md_Status d = ''ENABLED'' \<and>
     md_AccessKey d = ProtocolDeviceAccessKey sha (ap_TenantID current) i"
  by (auto simp: ProtocolRegistrationDevice_def split: if_splits)

text \<open>Every access profile belongs to a tenant without NUL bytes.\<close>

definition profiles_inv :: "access_profile gomap \<Rightarrow> bool" where
  "profiles_inv m \<longleftrightarrow> mwf m \<and> mall (\<lambda>k p. nul_free (ap_TenantID p)) m"

lemma nul_free_Nil [simp]: "nul_free []"
  by (simp add: nul_free_def)

lemma profiles_inv_tenant:
  "profiles_inv m \<Longrightarrow> nul_free (ap_TenantID (mget_or zero_access_profile m k))"
  using mall_mget [of "\<lambda>k p. nul_free (ap_TenantID p)" m k]
  by (auto simp: profiles_inv_def mget_or_def zero_access_profile_def split: option.splits)

lemma RegisterProtocolDevice_inv:
  assumes inv: "devices_inv (r_devices r)" and prof: "profiles_inv (r_accessProfiles r)"
  shows "devices_inv (r_devices (snd (RegisterProtocolDevice sha expected i name now r)))"
proof -
  let ?c = "mget_or zero_access_profile (r_accessProfiles r) (key [ap_TenantID expected, ap_ID expected])"
  let ?p = "mget_or zero_product (r_products r) (key [ap_TenantID ?c, ap_ProductID ?c])"
  show ?thesis
  proof (cases "ProtocolRegistrationDevice sha expected ?c ?p i name now")
    case (Inl e)
    then show ?thesis using inv by (simp add: RegisterProtocolDevice_def Let_def)
  next
    case (Inr d)
    note d = ProtocolRegistrationDevice_Inr [OF Inr]
    have "devices_inv (mput (r_devices r) (key [md_TenantID d, md_ID d]) d)"
      if "\<not> list_ex (\<lambda>e. md_AccessKey e = md_AccessKey d) (mvals (r_devices r))"
      using that profiles_inv_tenant [OF prof] d some_access_key_iff [OF inv]
      by (intro devices_inv_mput inv) (auto simp: device_filed_def same_access_key_def)
    then show ?thesis
      using Inr inv by (auto simp: RegisterProtocolDevice_def Let_def split: option.splits)
  qed
qed

lemma ProtocolChildDevice_Inr:
  assumes "ProtocolChildDevice sha expected current parent p identity now = Inr d"
  shows "md_TenantID d = ap_TenantID current" "md_TenantID parent = ap_TenantID current"
    "md_Status parent = ''ENABLED''" "md_DeviceRole parent \<noteq> ''CHILD''"
    "md_GatewayID d = md_ID parent" "md_DeviceRole d = ''CHILD''"
    "md_ID d = ChildDeviceID sha (ap_TenantID current) (md_ID parent) (ci_Address identity)"
  using assms by (auto simp: ProtocolChildDevice_def Let_def split: if_splits)

lemma ExistingProtocolChild_None:
  "ExistingProtocolChild old d = None \<Longrightarrow> md_TenantID old = md_TenantID d \<and> md_DeviceRole old = ''CHILD'' \<and>
     md_ProductID old = md_ProductID d \<and> md_GatewayID old = md_GatewayID d \<and> md_Status old = ''ENABLED''"
  by (auto simp: ExistingProtocolChild_def split: if_splits)

lemma RegisterProtocolChild_inv:
  assumes inv: "devices_inv (r_devices r)" and prof: "profiles_inv (r_accessProfiles r)"
  shows "devices_inv (r_devices (snd (RegisterProtocolChild sha expected parentID identity now r)))"
proof -
  let ?c = "mget_or zero_access_profile (r_accessProfiles r) (key [ap_TenantID expected, ap_ID expected])"
  let ?P = "mget_or zero_managed_device (r_devices r) (key [ap_TenantID expected, parentID])"
  let ?p = "mget_or zero_product (r_products r) (key [ap_TenantID expected,
      foldl (\<lambda>acc v. if cb_Type v = ci_Type identity then cb_ProductID v else acc) [] (ap_ChildProducts ?c)])"
  show ?thesis
  proof (cases "ProtocolChildDevice sha expected ?c ?P ?p identity now")
    case (Inl e)
    then show ?thesis using inv by (simp add: RegisterProtocolChild_def Let_def)
  next
    case (Inr d)
    define P where "P = ?P"
    note d = ProtocolChildDevice_Inr [OF Inr, folded P_def]
    have parent: "mget (r_devices r) (key [ap_TenantID expected, parentID]) = Some P"
      using d(3) by (auto simp: P_def mget_or_def zero_managed_device_def split: option.splits)
    let ?k = "key [md_TenantID P, md_ID P]" and ?g = "P\<lparr>md_DeviceRole := ''GATEWAY''\<rparr>"
    have stored: "mget (r_devices r) ?k = Some P"
      using parent devices_invD(2) [OF inv parent] by simp
    let ?m = "mput (r_devices r) ?k ?g"
    have m: "devices_inv ?m"
      by (rule devices_inv_update [OF inv stored]) simp_all
    have nul: "nul_free (md_TenantID d)" using d(1) profiles_inv_tenant [OF prof] by simp
    have new: "devices_inv (mput ?m (key [md_TenantID d, md_ID d]) d)"
      if free: "\<not> access_key_taken d r"
    proof (rule devices_inv_mput [OF m])
      show "device_filed (key [md_TenantID d, md_ID d]) d" using nul by (simp add: device_filed_def)
      show "k' = key [md_TenantID d, md_ID d]" if e: "mget ?m k' = Some e" "same_access_key d e" for k' e
      proof -
        obtain e0 where "mget (r_devices r) k' = Some e0" "md_AccessKey e0 = md_AccessKey e"
          using update_keeps_access_key [OF stored _ e(1)] by auto
        then show ?thesis using access_key_free [OF inv nul free] e(2) by (simp add: same_access_key_def)
      qed
    qed
    have old: "devices_inv (mput ?m (key [md_TenantID e, md_ID e]) e)"
      if o: "mget (r_devices r) (key [md_TenantID d, md_ID d]) = Some old" "ExistingProtocolChild old d = None"
        and e: "md_TenantID e = md_TenantID old" "md_ID e = md_ID old" "md_AccessKey e = md_AccessKey old"
      for old e
    proof -
      have at: "mget (r_devices r) (key [md_TenantID old, md_ID old]) = Some old"
        using o(1) devices_invD(2) [OF inv o(1)] by (simp del: key_simps)
      have "key [md_TenantID old, md_ID old] \<noteq> ?k"
      proof
        assume "key [md_TenantID old, md_ID old] = ?k"
        then have "old = P" using at stored by (metis option.inject)
        then show False using ExistingProtocolChild_None [OF o(2)] d(4) by metis
      qed
      then have "mget ?m (key [md_TenantID e, md_ID e]) = Some old"
        using at e by (simp del: key_simps)
      then show ?thesis by (rule devices_inv_update [OF m _ refl e(1,3)])
    qed
    show ?thesis
      unfolding RegisterProtocolChild_def Let_def P_def [symmetric] Inr [folded P_def]
      using inv new old by (auto split: option.split simp del: key_simps)
  qed
qed

lemma ChangeDeviceCredential_inv:
  assumes inv: "devices_inv (r_devices r)"
  shows "devices_inv (r_devices (snd (ChangeDeviceCredential t i access hash now r)))"
proof (cases "mget (r_devices r) (key [t, i])")
  case None
  then show ?thesis using inv by (simp add: ChangeDeviceCredential_def)
next
  case (Some d)
  have "devices_inv (mput (r_devices r) (key [t, i]) e)"
    if "access = [] \<or> \<not> list_ex (\<lambda>e. md_AccessKey e = access) (mvals (r_devices r))"
      and "md_TenantID e = md_TenantID d" "md_ID e = md_ID d"
        "md_AccessKey e = (if access = [] then md_AccessKey d else access)" for e
    using that devices_invD(2,3) [OF inv Some] devices_invD(4) [OF inv Some] some_access_key_iff [OF inv]
    by (intro devices_inv_mput inv) (auto simp: device_filed_def same_access_key_def split: if_splits)
  then show ?thesis
    using inv Some by (simp add: ChangeDeviceCredential_def Let_def split: if_splits del: key_simps)
qed

lemma onboard_frames [simp]:
  "r_devices (onboard_release v r) = r_devices r" "r_devices (onboard_point_table w r) = r_devices r"
  "r_devices (onboard_product pk p v r) = r_devices r" "r_devices (onboard_binding b r) = r_devices r"
  "r_devices (SaveDeviceAccessProfile a r) = r_devices r"
  "r_accessProfiles (onboard_release v r) = r_accessProfiles r"
  "r_accessProfiles (onboard_point_table w r) = r_accessProfiles r"
  "r_accessProfiles (onboard_product pk p v r) = r_accessProfiles r"
  "r_accessProfiles (onboard_binding b r) = r_accessProfiles r"
  by (simp_all add: onboard_release_def onboard_point_table_def onboard_product_def onboard_binding_def
      SaveDeviceAccessProfile_def Let_def)

lemma onboarding_error_None:
  assumes "onboarding_error b r = None"
  shows "mget (r_devices r) (key [md_TenantID (ob_Device b), md_ID (ob_Device b)]) = None"
    "\<not> list_ex (\<lambda>e. md_AccessKey e = md_AccessKey (ob_Device b)) (mvals (r_devices r))"
  using assms by (simp_all add: onboarding_error_def Let_def split: if_splits)

text \<open>What SaveOnboarding leaves in the maps of devices and of profiles.\<close>

lemma SaveOnboarding_devices:
  "r_devices (snd (SaveOnboarding b r)) = r_devices r \<or>
   onboarding_error b r = None \<and> r_devices (snd (SaveOnboarding b r)) =
     mput (r_devices r) (key [md_TenantID (ob_Device b), md_ID (ob_Device b)]) (ob_Device b)"
  by (auto simp: SaveOnboarding_def Let_def split: option.splits simp del: key_simps)

lemma SaveOnboarding_profiles:
  "r_accessProfiles (snd (SaveOnboarding b r)) = r_accessProfiles r \<or>
   (\<exists>v. ob_Profile b = Some v \<and> r_accessProfiles (snd (SaveOnboarding b r)) =
     mput (r_accessProfiles r) (key [ap_TenantID v, ap_ID v]) (clone_profile v))"
  by (auto simp: SaveOnboarding_def SaveDeviceAccessProfile_def Let_def split: option.splits
      simp del: key_simps)

lemma SaveOnboarding_inv:
  assumes inv: "devices_inv (r_devices r)" and tenant: "nul_free (md_TenantID (ob_Device b))"
  shows "devices_inv (r_devices (snd (SaveOnboarding b r)))"
proof -
  have "devices_inv (mput (r_devices r) (key [md_TenantID (ob_Device b), md_ID (ob_Device b)]) (ob_Device b))"
    if "onboarding_error b r = None"
    using onboarding_error_None [OF that] some_access_key_iff [OF inv] tenant
    by (intro devices_inv_mput inv) (auto simp: device_filed_def same_access_key_def)
  then show ?thesis using SaveOnboarding_devices [of b r] inv by metis
qed

section \<open>The profiles\<close>

lemma clone_profile_tenant: "nul_free (ap_TenantID v) \<Longrightarrow> nul_free (ap_TenantID (clone_profile v))"
  by (simp add: clone_profile_def zero_access_profile_def)

lemma profiles_inv_mput: "profiles_inv m \<Longrightarrow> nul_free (ap_TenantID v) \<Longrightarrow> profiles_inv (mput m k v)"
  by (simp add: profiles_inv_def mall_mput)

lemma SaveDeviceAccessProfile_inv:
  "profiles_inv (r_accessProfiles r) \<Longrightarrow> nul_free (ap_TenantID v) \<Longrightarrow>
     profiles_inv (r_accessProfiles (SaveDeviceAccessProfile v r))"
  by (simp add: SaveDeviceAccessProfile_def profiles_inv_mput clone_profile_tenant)

lemma UpdateDeviceAccessStatus_inv:
  assumes inv: "profiles_inv (r_accessProfiles r)"
  shows "profiles_inv (r_accessProfiles (snd (UpdateDeviceAccessStatus expected status message at r)))"
proof (cases "mget (r_accessProfiles r) (key [ap_TenantID expected, ap_ID expected])")
  case None
  then show ?thesis using inv by (simp add: UpdateDeviceAccessStatus_def)
next
  case (Some p)
  have t: "nul_free (ap_TenantID p)"
    using profiles_inv_tenant [OF inv, of "key [ap_TenantID expected, ap_ID expected]"] Some
    by (simp add: mget_or_def)
  show ?thesis
    using inv t Some by (auto simp: UpdateDeviceAccessStatus_def Let_def intro!: profiles_inv_mput)
qed

lemma SaveOnboarding_profiles_inv:
  "profiles_inv (r_accessProfiles r) \<Longrightarrow> (\<forall>v. ob_Profile b = Some v \<longrightarrow> nul_free (ap_TenantID v)) \<Longrightarrow>
     profiles_inv (r_accessProfiles (snd (SaveOnboarding b r)))"
  using SaveOnboarding_profiles [of b r] profiles_inv_mput clone_profile_tenant by metis

end
