(* ===== verification/Component_Inv.thy ===== *)
theory Component_Inv
  imports Alarm_Inv
begin

text \<open>
  Correctness of the component watermarks (ApplyComponentAlarm with Supersedes and
  TransitionComponentAlarm). The bus may deliver the states of one component several times and out of
  order; the watermark ends at the greatest state by timestamp, with an active state above an inactive
  one of the same time, and the component's alarm is open exactly when that state is active.
\<close>

section \<open>The order of component states\<close>

definition state_rank :: "component_alarm_state \<Rightarrow> int" where
  "state_rank s = 2 * ca_Timestamp s + (if ca_Active s then 1 else 0)"

lemma state_rank_eq: "state_rank s = state_rank t \<longleftrightarrow> ca_Timestamp s = ca_Timestamp t \<and> ca_Active s = ca_Active t"
  by (auto simp: state_rank_def split: if_splits; presburger)

lemma Supersedes_iff:
  "Supersedes s w \<longleftrightarrow> state_rank s > state_rank w \<and> \<not> (ca_MessageID s = ca_MessageID w \<and> ca_MessageID w \<noteq> [])"
  by (auto simp: Supersedes_def state_rank_def)

section \<open>Watermark and alarm of one component\<close>

text \<open>The watermark under key k and the alarm its AlarmID names, as ApplyComponentAlarm reads them.\<close>

definition watermark :: "string \<Rightarrow> repo \<Rightarrow> component_alarm_state" where
  "watermark k r = mget_or zero_component_alarm_state (r_componentAlarms r) k"

definition component_alarm :: "string \<Rightarrow> string \<Rightarrow> repo \<Rightarrow> alarm" where
  "component_alarm tenant k r =
     mget_or zero_alarm (r_alarms r) (key [tenant, ca_AlarmID (watermark k r)])"

text \<open>The alarm of a component is open exactly when its watermark is active.\<close>

definition component_inv :: "string \<Rightarrow> string \<Rightarrow> repo \<Rightarrow> bool" where
  "component_inv tenant k r \<longleftrightarrow>
     mget (r_alarms r) (key [tenant, []]) = None \<and>
     al_ID (component_alarm tenant k r) = ca_AlarmID (watermark k r) \<and>
     (ca_AlarmID (watermark k r) \<noteq> [] \<longrightarrow> al_TenantID (component_alarm tenant k r) = tenant) \<and>
     (open_status (component_alarm tenant k r) \<longleftrightarrow> ca_Active (watermark k r))"

text \<open>A candidate as applyComponentAlarms builds it, for the component filed under k.\<close>

definition candidate_for :: "string \<Rightarrow> string \<Rightarrow> alarm \<Rightarrow> bool" where
  "candidate_for tenant k c \<longleftrightarrow> al_TenantID c = tenant \<and>
     key [al_TenantID c, al_DeviceID c, al_RuleID c] = k \<and> al_ID c \<noteq> [] \<and> al_Status c = ''ACTIVE''"

lemma TransitionComponentAlarm_cases:
  assumes "TransitionComponentAlarm c old s = (a, event)"
  shows "open_status c \<Longrightarrow> open_status a \<longleftrightarrow> ca_Active s"
    "al_ID a = al_ID old \<and> al_TenantID a = al_TenantID old \<or>
     ca_Active s \<and> \<not> open_status old \<and> a = c"
    "event = (if ca_Active s = open_status old then []
              else if ca_Active s then ''raised'' else ''recovered'')"
    "ca_Active s \<Longrightarrow> \<not> open_status old \<Longrightarrow> a = c"
  using assms by (auto simp: TransitionComponentAlarm_def open_status_def Let_def split: if_splits)

lemma ApplyComponentAlarm_stale:
  assumes "\<not> Supersedes s (watermark (key [al_TenantID c, al_DeviceID c, al_RuleID c]) r)"
  shows "snd (ApplyComponentAlarm c s r) = r"
  using assms by (auto simp: ApplyComponentAlarm_def watermark_def Let_def)

lemma ApplyComponentAlarm_applies:
  assumes c: "candidate_for tenant k c" and sup: "Supersedes s (watermark k r)"
    and rank: "ca_MessageID s \<noteq> []"
    and t: "TransitionComponentAlarm c (component_alarm tenant k r) s = (a, event)"
  shows "ApplyComponentAlarm c s r = ((a, event), r\<lparr>
    r_alarms := (if al_ID a \<noteq> [] then mput (r_alarms r) (key [al_TenantID a, al_ID a]) a else r_alarms r),
    r_componentAlarms := mput (r_componentAlarms r) k (s\<lparr>ca_AlarmID := al_ID a, ca_Event := event\<rparr>)\<rparr>)"
proof -
  have k: "tenant @ nul # al_DeviceID c @ nul # al_RuleID c = k" "al_TenantID c = tenant"
    using c by (auto simp: candidate_for_def)
  have ne: "\<not> (ca_MessageID s = ca_MessageID (watermark k r) \<and>
      ca_Timestamp s = ca_Timestamp (watermark k r))"
    using sup rank by (auto simp: Supersedes_iff)
  show ?thesis
    using sup ne t by (auto simp: ApplyComponentAlarm_def k watermark_def [symmetric]
        component_alarm_def Let_def)
qed

lemma component_inv_apply:
  assumes inv: "component_inv tenant k r" and c: "candidate_for tenant k c"
    and m: "ca_MessageID s \<noteq> []"
  shows "component_inv tenant k (snd (ApplyComponentAlarm c s r))"
proof (cases "Supersedes s (watermark k r)")
  case False
  then have "snd (ApplyComponentAlarm c s r) = r"
    using c by (intro ApplyComponentAlarm_stale) (auto simp: candidate_for_def)
  then show ?thesis using inv by simp
next
  case True
  obtain a event where t: "TransitionComponentAlarm c (component_alarm tenant k r) s = (a, event)"
    by fastforce
  have cc: "open_status c" "al_ID c \<noteq> []" "al_TenantID c = tenant"
    using c by (auto simp: candidate_for_def open_status_def)
  note tr = TransitionComponentAlarm_cases [OF t]
  have w: "watermark k (snd (ApplyComponentAlarm c s r)) = s\<lparr>ca_AlarmID := al_ID a, ca_Event := event\<rparr>"
    by (simp add: ApplyComponentAlarm_applies [OF c True m t] watermark_def mget_or_def)
  have tenant: "al_TenantID a = tenant" if "al_ID a \<noteq> []"
    using tr(2) cc inv that by (auto simp: component_inv_def)
  have a: "component_alarm tenant k (snd (ApplyComponentAlarm c s r)) =
      (if al_ID a \<noteq> [] then a else zero_alarm)"
    unfolding component_alarm_def w using tenant inv
    by (simp add: ApplyComponentAlarm_applies [OF c True m t] mget_or_def component_inv_def)
  have none: "\<not> open_status a" if "al_ID a = []"
  proof -
    have "\<not> (ca_Active s \<and> \<not> open_status (component_alarm tenant k r) \<and> a = c)"
      using that cc by auto
    then have "al_ID (component_alarm tenant k r) = []" using tr(2) that by auto
    then have "component_alarm tenant k r = zero_alarm"
      using inv by (simp add: component_inv_def component_alarm_def mget_or_def)
    then have "\<not> open_status (component_alarm tenant k r)"
      by (simp add: zero_alarm_def open_status_def)
    then show ?thesis using tr(1,4) that cc by auto
  qed
  have z: "al_ID zero_alarm = []" "\<not> open_status zero_alarm"
    by (simp_all add: zero_alarm_def open_status_def)
  have act: "open_status a \<longleftrightarrow> ca_Active s" using tr(1) cc by simp
  have "mget (r_alarms (snd (ApplyComponentAlarm c s r))) (key [tenant, []]) = None"
    using inv tenant by (auto simp: ApplyComponentAlarm_applies [OF c True m t] component_inv_def)
  then show ?thesis
    using act none z tenant by (auto simp: component_inv_def w a)
qed

section \<open>Delivery\<close>

text \<open>Candidates and states of one component in the order the bus delivers them.\<close>

definition deliver :: "(alarm \<times> component_alarm_state) list \<Rightarrow> repo \<Rightarrow> repo" where
  "deliver es r = foldl (\<lambda>r e. snd (ApplyComponentAlarm (fst e) (snd e) r)) r es"

text \<open>What MessageComponents and applyComponentAlarms ensure of the deliveries: positive
  timestamps, a message identifier, and one state per message and component.\<close>

definition deliverable :: "string \<Rightarrow> string \<Rightarrow> (alarm \<times> component_alarm_state) list \<Rightarrow> bool" where
  "deliverable tenant k es \<longleftrightarrow> list_all (\<lambda>e. candidate_for tenant k (fst e) \<and>
     ca_MessageID (snd e) \<noteq> [] \<and> ca_Timestamp (snd e) > 0) es \<and>
     list_all (\<lambda>e. list_all (\<lambda>e'. ca_MessageID (snd e) = ca_MessageID (snd e') \<longrightarrow>
        state_rank (snd e) = state_rank (snd e')) es) es"

lemma deliver_snoc [simp]:
  "deliver (es @ [e]) r = snd (ApplyComponentAlarm (fst e) (snd e) (deliver es r))"
  by (simp add: deliver_def)

lemma deliverable_snoc:
  assumes "deliverable tenant k (es @ [e])"
  shows "deliverable tenant k es" "candidate_for tenant k (fst e)" "ca_MessageID (snd e) \<noteq> []"
    "ca_Timestamp (snd e) > 0"
    "e' \<in> set es \<Longrightarrow> ca_MessageID (snd e') = ca_MessageID (snd e) \<Longrightarrow>
       state_rank (snd e') = state_rank (snd e)"
proof -
  have all: "\<forall>x \<in> set (es @ [e]). \<forall>y \<in> set (es @ [e]).
      ca_MessageID (snd x) = ca_MessageID (snd y) \<longrightarrow> state_rank (snd x) = state_rank (snd y)"
    using assms unfolding deliverable_def list_all_iff by (elim conjE)
  have each: "\<forall>x \<in> set (es @ [e]). candidate_for tenant k (fst x) \<and>
      ca_MessageID (snd x) \<noteq> [] \<and> ca_Timestamp (snd x) > 0"
    using assms unfolding deliverable_def list_all_iff by (elim conjE)
  show "deliverable tenant k es"
    unfolding deliverable_def list_all_iff
    by (intro conjI) (use each in simp, intro ballI impI, rule all [rule_format], simp_all)
  show "candidate_for tenant k (fst e)" "ca_MessageID (snd e) \<noteq> []" "ca_Timestamp (snd e) > 0"
    using each by simp_all
  show "e' \<in> set es \<Longrightarrow> ca_MessageID (snd e') = ca_MessageID (snd e) \<Longrightarrow>
       state_rank (snd e') = state_rank (snd e)"
    by (rule all [rule_format]) simp_all
qed

lemma component_inv_deliver:
  "deliverable tenant k es \<Longrightarrow> component_inv tenant k r \<Longrightarrow> component_inv tenant k (deliver es r)"
proof (induction es rule: rev_induct)
  case Nil
  then show ?case by (simp add: deliver_def)
next
  case (snoc e es)
  then show ?case using deliverable_snoc [OF snoc.prems(1)] by (simp add: component_inv_apply)
qed

text \<open>The watermark is one of the delivered states, and none has a greater rank.\<close>

lemma watermark_apply:
  assumes c: "candidate_for tenant k c" and m: "ca_MessageID s \<noteq> []"
  shows "watermark k (snd (ApplyComponentAlarm c s r)) = watermark k r \<and> \<not> Supersedes s (watermark k r) \<or>
    state_rank (watermark k (snd (ApplyComponentAlarm c s r))) = state_rank s \<and>
    ca_MessageID (watermark k (snd (ApplyComponentAlarm c s r))) = ca_MessageID s \<and>
    Supersedes s (watermark k r)"
proof (cases "Supersedes s (watermark k r)")
  case False
  then have "snd (ApplyComponentAlarm c s r) = r"
    using c by (intro ApplyComponentAlarm_stale) (auto simp: candidate_for_def)
  then show ?thesis using False by simp
next
  case True
  obtain a event where t: "TransitionComponentAlarm c (component_alarm tenant k r) s = (a, event)"
    by fastforce
  show ?thesis using True
    by (simp add: ApplyComponentAlarm_applies [OF c True m t] watermark_def mget_or_def state_rank_def)
qed

lemma watermark_deliver:
  assumes "deliverable tenant k es" "watermark k r = zero_component_alarm_state" "es \<noteq> []"
  shows "(\<exists>e \<in> set es. state_rank (watermark k (deliver es r)) = state_rank (snd e) \<and>
      ca_MessageID (watermark k (deliver es r)) = ca_MessageID (snd e)) \<and>
    (\<forall>e \<in> set es. state_rank (snd e) \<le> state_rank (watermark k (deliver es r)))"
  using assms
proof (induction es rule: rev_induct)
  case Nil
  then show ?case by simp
next
  case (snoc e es)
  note d = deliverable_snoc [OF snoc.prems(1)]
  note step = watermark_apply [OF d(2,3), of "deliver es r"]
  show ?case
  proof (cases "es = []")
    case True
    have "Supersedes (snd e) (watermark k (deliver es r))"
      using True snoc.prems(2) d(4)
      by (simp add: deliver_def Supersedes_iff zero_component_alarm_state_def state_rank_def)
    then show ?thesis using step True deliver_snoc [of "[]" e r] by auto
  next
    case False
    from snoc.IH [OF d(1) snoc.prems(2) False] obtain e' where
      e': "e' \<in> set es" "state_rank (watermark k (deliver es r)) = state_rank (snd e')"
        "ca_MessageID (watermark k (deliver es r)) = ca_MessageID (snd e')"
      and le: "\<forall>e \<in> set es. state_rank (snd e) \<le> state_rank (watermark k (deliver es r))"
      by blast
    show ?thesis using step
    proof
      assume keep: "watermark k (snd (ApplyComponentAlarm (fst e) (snd e) (deliver es r))) =
          watermark k (deliver es r) \<and> \<not> Supersedes (snd e) (watermark k (deliver es r))"
      then have "state_rank (snd e) \<le> state_rank (watermark k (deliver es r))"
        using d(5) [OF e'(1)] e' by (auto simp: Supersedes_iff)
      then show ?thesis using keep e' le by auto
    next
      assume "state_rank (watermark k (snd (ApplyComponentAlarm (fst e) (snd e) (deliver es r)))) =
            state_rank (snd e) \<and>
          ca_MessageID (watermark k (snd (ApplyComponentAlarm (fst e) (snd e) (deliver es r)))) =
            ca_MessageID (snd e) \<and> Supersedes (snd e) (watermark k (deliver es r))"
      then show ?thesis using le by (fastforce simp: Supersedes_iff)
    qed
  qed
qed

lemma component_inv_start:
  "watermark k r = zero_component_alarm_state \<Longrightarrow> mget (r_alarms r) (key [tenant, []]) = None \<Longrightarrow>
     component_inv tenant k r"
  by (simp add: component_inv_def component_alarm_def mget_or_def zero_component_alarm_state_def
      zero_alarm_def open_status_def)

text \<open>
  C12. Component alarms converge. Whatever the order and the repetitions in which the states of one
  component are delivered to a store that has none yet, the same watermark time and activity result,
  they are the greatest delivered (by time, active above inactive at the same time), and the
  component's alarm is open exactly when that state is active.
\<close>
theorem component_alarms_converge:
  assumes es: "deliverable tenant k es" and es': "deliverable tenant k es'"
    and same: "set es = set es'" "es \<noteq> []"
    and new: "watermark k r = zero_component_alarm_state" "mget (r_alarms r) (key [tenant, []]) = None"
  shows "ca_Timestamp (watermark k (deliver es r)) = ca_Timestamp (watermark k (deliver es' r)) \<and>
    ca_Active (watermark k (deliver es r)) = ca_Active (watermark k (deliver es' r)) \<and>
    state_rank (watermark k (deliver es r)) = Max ((\<lambda>e. state_rank (snd e)) ` set es) \<and>
    (open_status (component_alarm tenant k (deliver es r)) \<longleftrightarrow> ca_Active (watermark k (deliver es r)))"
proof -
  have ne: "es' \<noteq> []" using same by auto
  have max: "state_rank (watermark k (deliver xs r)) = Max ((\<lambda>e. state_rank (snd e)) ` set xs)"
    if "deliverable tenant k xs" "xs \<noteq> []" for xs
    using watermark_deliver [OF that(1) new(1) that(2)] by (intro Max_eqI [symmetric]) auto
  have "state_rank (watermark k (deliver es r)) = state_rank (watermark k (deliver es' r))"
    using max [OF es same(2)] max [OF es' ne] same by simp
  moreover have "component_inv tenant k (deliver es r)"
    by (rule component_inv_deliver [OF es component_inv_start [OF new]])
  ultimately show ?thesis
    using max [OF es same(2)] by (simp add: state_rank_eq component_inv_def)
qed

text \<open>An alarm asserted at time 1 and cleared at time 2, delivered in both orders.\<close>

definition sample_states :: "(alarm \<times> component_alarm_state) list" where
  "sample_states = [(sample_alarm ''a1'' ''m1'', zero_component_alarm_state\<lparr>ca_Timestamp := 1,
       ca_MessageID := ''m1'', ca_Active := True\<rparr>),
     (sample_alarm ''a2'' ''m2'', zero_component_alarm_state\<lparr>ca_Timestamp := 2,
       ca_MessageID := ''m2''\<rparr>)]"

theorem component_alarms_converge_witness:
  "\<not> ca_Active (watermark (key [''t'', ''d'', ''r'']) (deliver (rev sample_states @ sample_states) NewRepository)) \<and>
   \<not> open_status (component_alarm ''t'' (key [''t'', ''d'', ''r'']) (deliver sample_states NewRepository))"
proof -
  have d: "deliverable ''t'' (key [''t'', ''d'', ''r'']) sample_states"
    "deliverable ''t'' (key [''t'', ''d'', ''r'']) (rev sample_states @ sample_states)"
    by (simp_all add: deliverable_def sample_states_def candidate_for_def sample_alarm_def
        zero_component_alarm_state_def)
  have e: "set sample_states = set (rev sample_states @ sample_states)" "sample_states \<noteq> []"
    by (auto simp: sample_states_def)
  have n: "watermark (key [''t'', ''d'', ''r'']) NewRepository = zero_component_alarm_state"
    "mget (r_alarms NewRepository) (key [''t'', []]) = None"
    by (simp_all add: watermark_def NewRepository_def mget_or_def)
  have "\<not> ca_Active (watermark (key [''t'', ''d'', ''r'']) (deliver sample_states NewRepository))"
    by (simp add: deliver_def sample_states_def sample_alarm_def ApplyComponentAlarm_def NewRepository_def
        Supersedes_def TransitionComponentAlarm_def open_status_def watermark_def mget_or_def
        zero_component_alarm_state_def zero_alarm_def Let_def)
  then show ?thesis
    using component_alarms_converge [OF d e n] by simp
qed

end
