(* ===== verification/Repo_Inv.thy ===== *)
theory Repo_Inv
  imports Device_Inv Component_Inv
begin

text \<open>
  The repository as one state machine: a constructor per operation that writes, the state after a
  call, the states a fresh repository can reach, and the invariant all of them satisfy. Each part of
  the invariant has one lemma per operation that touches it; the other operations leave it alone.
\<close>

section \<open>Leases, market entries, claims and cameras\<close>

definition lease_filed :: "string \<Rightarrow> execution_lease \<Rightarrow> bool" where
  "lease_filed k v \<longleftrightarrow> k = key [le_TenantID v, le_Resource v] \<and> nul_free (le_TenantID v) \<and>
     le_Token v \<ge> 1"

definition leases_inv :: "execution_lease gomap \<Rightarrow> bool" where
  "leases_inv m \<longleftrightarrow> mwf m \<and> mall lease_filed m"

text \<open>
  The history of a market entry: its generation counts its reviews, its status is the decision of the
  last one, and an approval or rejection comes from a user other than the submitter.
\<close>

definition market_filed :: "string \<Rightarrow> market_entry \<Rightarrow> bool" where
  "market_filed k v \<longleftrightarrow> me_Generation v = 1 + int (length (me_Reviews v)) \<and>
     me_Status v = (if me_Reviews v = [] then ''SUBMITTED'' else mr_Decision (last (me_Reviews v))) \<and>
     list_all (\<lambda>x. mr_Decision x = ''APPROVED'' \<or> mr_Decision x = ''REJECTED'' \<longrightarrow>
        mr_Actor x \<noteq> me_SubmittedBy v) (me_Reviews v)"

definition market_inv :: "market_entry gomap \<Rightarrow> bool" where
  "market_inv m \<longleftrightarrow> mwf m \<and> mall market_filed m"

text \<open>Every stored message has a processed flag, and only those.\<close>

definition claims_inv :: "repo \<Rightarrow> bool" where
  "claims_inv r \<longleftrightarrow> mwf (r_standard r) \<and> mwf (r_standardProcessed r) \<and>
     (\<forall>k. mget (r_standard r) k = None \<longleftrightarrow> mget (r_standardProcessed r) k = None)"

text \<open>A camera belongs to at most one device: the relations of a camera that has a mapping all name
  the mapping's device, and there are none when it has no device.\<close>

definition camera_relations_ok :: "string \<Rightarrow> camera_relation list \<Rightarrow> bool" where
  "camera_relations_ok device xs \<longleftrightarrow>
     list_all (\<lambda>x. vr_RelationType x = ''device'' \<and> vr_TargetID x = device \<and> device \<noteq> []) xs"

definition cameras_inv :: "repo \<Rightarrow> bool" where
  "cameras_inv r \<longleftrightarrow> mwf (r_videoMappings r) \<and> mwf (r_videoRelations r) \<and>
     (\<forall>k v. mget (r_videoMappings r) k = Some v \<longrightarrow>
        camera_relations_ok (vm_DeviceID v) (mget_or [] (r_videoRelations r) k)) \<and>
     (\<forall>k. \<exists>device. camera_relations_ok device (mget_or [] (r_videoRelations r) k))"

lemma leases_invD: "leases_inv m \<Longrightarrow> mget m k = Some v \<Longrightarrow> lease_filed k v"
  unfolding leases_inv_def by (blast dest: mall_mget)

lemma market_invD: "market_inv m \<Longrightarrow> mget m k = Some v \<Longrightarrow> market_filed k v"
  unfolding market_inv_def by (blast dest: mall_mget)

lemma AcquireExecutionLease_inv:
  assumes inv: "leases_inv (r_leases r)" and tenant: "nul_free tenant"
  shows "leases_inv (r_leases (snd (AcquireExecutionLease tenant resource owner endpoint ttl now r)))"
proof -
  let ?k = "key [tenant, resource]"
  have old: "lease_filed ?k v" if "mget (r_leases r) ?k = Some v" for v
    by (rule leases_invD [OF inv that])
  show ?thesis
    using inv old tenant
    by (auto simp: AcquireExecutionLease_def Let_def mget_or_def lease_filed_def zero_execution_lease_def
        leases_inv_def mall_mput split: option.splits)
qed

lemma ReleaseExecutionLease_inv:
  assumes inv: "leases_inv (r_leases r)"
  shows "leases_inv (r_leases (ReleaseExecutionLease l r))"
proof (cases "mget (r_leases r) (key [le_TenantID l, le_Resource l])")
  case None
  then show ?thesis using inv by (simp add: ReleaseExecutionLease_def)
next
  case (Some v)
  have "lease_filed (key [le_TenantID l, le_Resource l]) v"
    by (rule leases_invD [OF inv Some])
  then have "leases_inv (mput (r_leases r) (key [le_TenantID l, le_Resource l]) (v\<lparr>le_ExpiresAt := 0\<rparr>))"
    using inv by (simp add: leases_inv_def mall_mput lease_filed_def)
  then show ?thesis using inv Some by (simp add: ReleaseExecutionLease_def)
qed

lemma SubmitProtocolMarket_inv:
  "market_inv (r_protocolMarket r) \<Longrightarrow> me_Generation v = 1 \<Longrightarrow> me_Status v = ''SUBMITTED'' \<Longrightarrow>
     me_Reviews v = [] \<Longrightarrow> SubmitProtocolMarket v r = Inr r' \<Longrightarrow> market_inv (r_protocolMarket r')"
  by (auto simp: SubmitProtocolMarket_def Let_def market_inv_def market_filed_def mall_mput
      split: if_splits)

lemma Review_Inr:
  assumes "Review actor decision reason expected now v = Inr w"
  shows "w = v\<lparr>me_Generation := me_Generation v + 1, me_Status := decision, me_Reviews := me_Reviews v @
      [\<lparr>mr_Actor = actor, mr_Decision = decision, mr_Reason = reason, mr_At = now\<rparr>]\<rparr>"
    "me_Generation v = expected" "actor \<noteq> []"
    "decision = ''WITHDRAWN'' \<or> me_Status v = ''SUBMITTED'' \<and> me_SubmittedBy v \<noteq> actor"
    "decision = ''WITHDRAWN'' \<or> decision = ''APPROVED'' \<or> decision = ''REJECTED''"
    "decision = ''WITHDRAWN'' \<longrightarrow> me_Status v = ''APPROVED'' \<or> me_Status v = ''SUBMITTED''"
  using assms unfolding Review_def by (presburger | simp split: if_split_asm)+

lemma Review_filed:
  assumes v: "market_filed k v" and r: "Review actor decision reason expected now v = Inr w"
  shows "market_filed k w"
proof -
  note f = Review_Inr [OF r]
  have "decision = ''APPROVED'' \<or> decision = ''REJECTED'' \<longrightarrow> actor \<noteq> me_SubmittedBy v"
    using f(4) by auto
  then show ?thesis using v by (simp add: f(1) market_filed_def)
qed

lemma ReviewProtocolMarket_inv:
  assumes inv: "market_inv (r_protocolMarket r)"
  shows "market_inv (r_protocolMarket
    (snd (ReviewProtocolMarket tenant i version actor decision reason expected now r)))"
proof -
  let ?k = "key [tenant, i, version]"
  have "market_filed ?k v" if "mget (r_protocolMarket r) ?k = Some v" for v
    by (rule market_invD [OF inv that])
  then show ?thesis
    using inv
    by (auto simp: ReviewProtocolMarket_def Let_def market_inv_def mall_mput Review_filed
        simp del: key_simps split: option.splits sum.splits)
qed

lemma claims_inv_put:
  assumes "claims_inv r" "r_standard r' = mput (r_standard r) k v"
    "r_standardProcessed r' = mput (r_standardProcessed r) k b"
  shows "claims_inv r'"
  using assms by (simp add: claims_inv_def)

lemma claims_inv_ops:
  assumes inv: "claims_inv r"
  shows "claims_inv (snd (SaveStandardMessageIfAbsent v r))" "claims_inv (SaveStandardMessage v r)"
    "claims_inv (snd (ClaimStandardMessage v r))"
    "MarkStandardMessageProcessed tenant i r = Inr r' \<Longrightarrow> claims_inv r'"
  using inv claims_inv_put [OF inv]
  by (auto simp: SaveStandardMessage_def SaveStandardMessageIfAbsent_def ClaimStandardMessage_def
      MarkStandardMessageProcessed_def Let_def claims_inv_def split: if_splits simp del: key_simps)

lemma keep_relations_ok:
  "keep_relations tenant camera d xs = Inr (device, ys) \<Longrightarrow>
     camera_relations_ok device ys \<and> (d \<noteq> [] \<longrightarrow> device = d)"
proof (induction xs arbitrary: d ys)
  case Nil
  then show ?case by (simp add: camera_relations_ok_def)
next
  case (Cons x xs)
  have ne: "vr_TargetID x \<noteq> []" if "trim_space (vr_TargetID x) \<noteq> []" using that by auto
  show ?case
  proof (cases "vr_RelationType x \<noteq> ''device'' \<or> trim_space (vr_TargetID x) = []")
    case True
    then show ?thesis using Cons by auto
  next
    case False
    then obtain b where b: "keep_relations tenant camera (vr_TargetID x) xs = Inr (device, b)"
      "d = [] \<or> d = vr_TargetID x" "ys = x\<lparr>vr_TenantID := tenant, vr_CameraID := camera\<rparr> # b"
      using Cons.prems by (auto split: if_splits sum.splits)
    then show ?thesis using Cons.IH [OF b(1)] False ne by (auto simp: camera_relations_ok_def)
  qed
qed

lemma camera_relations_ok_Nil [simp]: "camera_relations_ok d []"
  by (simp add: camera_relations_ok_def)

lemma SaveVideoCameraMapping_Inr:
  assumes "SaveVideoCameraMapping v r = Inr r'"
  obtains k m xs where "r' = r\<lparr>r_videoMappings := mput (r_videoMappings r) k m,
      r_videoRelations := mput (r_videoRelations r) k xs\<rparr>" "camera_relations_ok (vm_DeviceID m) xs"
proof -
  let ?l = "uniqueStrings (vm_RelatedDeviceIDs v)"
  define w where "w = (if vm_DeviceID v = [] \<and> length ?l = 1 then v\<lparr>vm_DeviceID := ?l ! 0\<rparr> else v)"
  define m where "m = w\<lparr>vm_RelatedDeviceIDs := [], vm_RelatedFloorIDs := [], vm_RelatedRoomIDs := []\<rparr>"
  show thesis
  proof (rule that)
    show "r' = r\<lparr>r_videoMappings := mput (r_videoMappings r) (key [vm_TenantID m, vm_CameraID m]) m,
        r_videoRelations := mput (r_videoRelations r) (key [vm_TenantID m, vm_CameraID m])
          (if vm_DeviceID m \<noteq> []
           then [\<lparr>vr_TenantID = vm_TenantID m, vr_CameraID = vm_CameraID m,
                  vr_RelationType = ''device'', vr_TargetID = vm_DeviceID m\<rparr>] else [])\<rparr>"
      using assms unfolding SaveVideoCameraMapping_def Let_def w_def [symmetric] m_def [symmetric]
      by (simp split: if_split_asm)
  qed (simp add: camera_relations_ok_def)
qed

lemma cameras_inv_ops:
  assumes inv: "cameras_inv r"
  shows "SaveVideoCameraMapping v r = Inr r' \<Longrightarrow> cameras_inv r'"
    "ReplaceVideoCameraRelations tenant camera xs r = Inr r' \<Longrightarrow> cameras_inv r'"
proof -
  assume "SaveVideoCameraMapping v r = Inr r'"
  then obtain k m xs where "r' = r\<lparr>r_videoMappings := mput (r_videoMappings r) k m,
      r_videoRelations := mput (r_videoRelations r) k xs\<rparr>" "camera_relations_ok (vm_DeviceID m) xs"
    by (rule SaveVideoCameraMapping_Inr)
  then show "cameras_inv r'" using inv by (auto simp: cameras_inv_def mget_or_def)
next
  assume a: "ReplaceVideoCameraRelations tenant camera xs r = Inr r'"
  let ?k = "key [tenant, camera]"
  obtain device ys where k: "keep_relations tenant camera [] xs = Inr (device, ys)"
    using a by (auto simp: ReplaceVideoCameraRelations_def split: sum.splits)
  then have ok: "camera_relations_ok device ys" using keep_relations_ok by blast
  show "cameras_inv r'"
  proof (cases "mget (r_videoMappings r) ?k")
    case None
    then have "r' = r\<lparr>r_videoRelations := mput (r_videoRelations r) ?k ys\<rparr>"
      using a k by (simp add: ReplaceVideoCameraRelations_def Let_def)
    then show ?thesis using inv ok None by (auto simp: cameras_inv_def mget_or_def)
  next
    case (Some m)
    define m' where "m' = m\<lparr>vm_DeviceID := device, vm_RelatedDeviceIDs := [],
         vm_RelatedFloorIDs := [], vm_RelatedRoomIDs := []\<rparr>"
    have d: "vm_DeviceID m' = device" by (simp add: m'_def)
    have "r' = r\<lparr>r_videoRelations := mput (r_videoRelations r) ?k ys,
         r_videoMappings := mput (r_videoMappings r) ?k m'\<rparr>"
      using a k Some by (simp add: ReplaceVideoCameraRelations_def Let_def m'_def)
    note this d
    then show ?thesis using inv ok by (auto simp: cameras_inv_def mget_or_def)
  qed
qed

section \<open>The repository as a state machine\<close>

datatype inventory_call =
    C_SaveProduct product
  | C_SaveProtocolPackage protocol_package
  | C_SaveProtocolDefinition protocol_definition
  | C_CreateProtocolRelease protocol_release
  | C_UpdateProtocolReleaseStatus string string string string int
  | C_CreatePointTableRelease point_table_release
  | C_SaveProductProtocolBinding product_binding
  | C_SaveDeviceAccessProfile access_profile
  | C_UpdateDeviceAccessStatus access_profile string string int
  | C_SaveManagedDevice managed_device
  | C_SubmitProtocolMarket market_entry
  | C_ReviewProtocolMarket string string string string string string int int

datatype message_call =
    C_ReserveRawMessage raw_message
  | C_SaveRawIndex raw_index
  | C_SaveRawMessage raw_message
  | C_MarkRawPublished string string int string
  | C_MarkRawParseResult string string int string
  | C_SaveStandardMessage standard_message
  | C_ClaimStandardMessage standard_message
  | C_MarkStandardMessageProcessed string string
  | C_UpsertDeviceState device_state
  | C_SaveDeviceStateEvent device_state int

datatype alarm_call =
    C_SaveRule alarm_rule
  | C_DeleteRule string string
  | C_SaveRulePending string string string int
  | C_DeleteRulePending string string string
  | C_DeleteRulePendings string string
  | C_UpsertAlarm alarm
  | C_UpdateAlarm alarm
  | C_ApplyComponentAlarm alarm component_alarm_state
  | C_SaveVideoEvent video_event
  | C_UpdateVideoEvent video_event
  | C_SaveVideoCameraMapping camera_mapping
  | C_ReplaceVideoCameraRelations string string "camera_relation list"

datatype record_call =
    C_SaveAIAnalysis ai_analysis
  | C_SaveKnowledgeDoc knowledge_doc
  | C_SaveWorkflowKnowledgeBinding workflow_binding
  | C_SaveReplay replay_request
  | C_SaveAudit audit_log
  | C_SaveAIToolCall ai_tool_call
  | C_SaveAIProviderConfig ai_plugin_config

datatype device_call =
    C_AcquireExecutionLease string string string string int int
  | C_ReleaseExecutionLease execution_lease
  | C_RegisterProtocolDevice access_profile string string int
  | C_RegisterProtocolChild access_profile string child_identity int
  | C_ChangeDeviceCredential string string string string int
  | C_UpdateCredentialRevocation credential_revocation
  | C_CreateDeviceCommand device_command
  | C_UpdateDeviceCommandDispatch string string string string int
  | C_CompleteDeviceCommand string string string anymap int
  | C_SaveOnboarding onboarding_bundle

datatype call =
    Inventory inventory_call
  | Messages message_call
  | Alarms alarm_call
  | Records record_call
  | Devices device_call

text \<open>An operation that answers an error has changed nothing.\<close>

definition kept :: "repo \<Rightarrow> repo res \<Rightarrow> repo" where
  "kept r x = (case x of Inl e \<Rightarrow> r | Inr r' \<Rightarrow> r')"

fun exec_inventory :: "inventory_call \<Rightarrow> repo \<Rightarrow> repo" where
  "exec_inventory (C_SaveProduct a) r = SaveProduct a r"
| "exec_inventory (C_SaveProtocolPackage a) r = SaveProtocolPackage a r"
| "exec_inventory (C_SaveProtocolDefinition a) r = SaveProtocolDefinition a r"
| "exec_inventory (C_CreateProtocolRelease a) r = kept r (CreateProtocolRelease a r)"
| "exec_inventory (C_UpdateProtocolReleaseStatus a b c d e) r = kept r (UpdateProtocolReleaseStatus a b c d e r)"
| "exec_inventory (C_CreatePointTableRelease a) r = kept r (CreatePointTableRelease a r)"
| "exec_inventory (C_SaveProductProtocolBinding a) r = SaveProductProtocolBinding a r"
| "exec_inventory (C_SaveDeviceAccessProfile a) r = SaveDeviceAccessProfile a r"
| "exec_inventory (C_UpdateDeviceAccessStatus a b c d) r = snd (UpdateDeviceAccessStatus a b c d r)"
| "exec_inventory (C_SaveManagedDevice a) r = kept r (SaveManagedDevice a r)"
| "exec_inventory (C_SubmitProtocolMarket a) r = kept r (SubmitProtocolMarket a r)"
| "exec_inventory (C_ReviewProtocolMarket a b c d e f g h) r = snd (ReviewProtocolMarket a b c d e f g h r)"

fun exec_message :: "(string \<Rightarrow> string) \<Rightarrow> (string \<Rightarrow> string option) \<Rightarrow> message_call \<Rightarrow> repo \<Rightarrow> repo" where
  "exec_message sha cp (C_ReserveRawMessage a) r = snd (ReserveRawMessage sha cp a r)"
| "exec_message sha cp (C_SaveRawIndex a) r = snd (SaveRawIndex a r)"
| "exec_message sha cp (C_SaveRawMessage a) r = kept r (SaveRawMessage sha cp a r)"
| "exec_message sha cp (C_MarkRawPublished a b c d) r = kept r (MarkRawPublished a b c d r)"
| "exec_message sha cp (C_MarkRawParseResult a b c d) r = MarkRawParseResult a b c d r"
| "exec_message sha cp (C_SaveStandardMessage a) r = SaveStandardMessage a r"
| "exec_message sha cp (C_ClaimStandardMessage a) r = snd (ClaimStandardMessage a r)"
| "exec_message sha cp (C_MarkStandardMessageProcessed a b) r = kept r (MarkStandardMessageProcessed a b r)"
| "exec_message sha cp (C_UpsertDeviceState a) r = UpsertDeviceState a r"
| "exec_message sha cp (C_SaveDeviceStateEvent a b) r = SaveDeviceStateEvent a b r"

fun exec_alarm :: "alarm_call \<Rightarrow> repo \<Rightarrow> repo" where
  "exec_alarm (C_SaveRule a) r = SaveRule a r"
| "exec_alarm (C_DeleteRule a b) r = kept r (DeleteRule a b r)"
| "exec_alarm (C_SaveRulePending a b c d) r = SaveRulePending a b c d r"
| "exec_alarm (C_DeleteRulePending a b c) r = DeleteRulePending a b c r"
| "exec_alarm (C_DeleteRulePendings a b) r = DeleteRulePendings a b r"
| "exec_alarm (C_UpsertAlarm a) r = snd (UpsertAlarm a r)"
| "exec_alarm (C_UpdateAlarm a) r = kept r (UpdateAlarm a r)"
| "exec_alarm (C_ApplyComponentAlarm a b) r = snd (ApplyComponentAlarm a b r)"
| "exec_alarm (C_SaveVideoEvent a) r = snd (SaveVideoEvent a r)"
| "exec_alarm (C_UpdateVideoEvent a) r = UpdateVideoEvent a r"
| "exec_alarm (C_SaveVideoCameraMapping a) r = kept r (SaveVideoCameraMapping a r)"
| "exec_alarm (C_ReplaceVideoCameraRelations a b c) r = kept r (ReplaceVideoCameraRelations a b c r)"

fun exec_record :: "record_call \<Rightarrow> repo \<Rightarrow> repo" where
  "exec_record (C_SaveAIAnalysis a) r = SaveAIAnalysis a r"
| "exec_record (C_SaveKnowledgeDoc a) r = SaveKnowledgeDoc a r"
| "exec_record (C_SaveWorkflowKnowledgeBinding a) r = SaveWorkflowKnowledgeBinding a r"
| "exec_record (C_SaveReplay a) r = SaveReplay a r"
| "exec_record (C_SaveAudit a) r = SaveAudit a r"
| "exec_record (C_SaveAIToolCall a) r = SaveAIToolCall a r"
| "exec_record (C_SaveAIProviderConfig a) r = SaveAIProviderConfig a r"

fun exec_device :: "(string \<Rightarrow> string) \<Rightarrow> device_call \<Rightarrow> repo \<Rightarrow> repo" where
  "exec_device sha (C_AcquireExecutionLease a b c d e f) r = snd (AcquireExecutionLease a b c d e f r)"
| "exec_device sha (C_ReleaseExecutionLease a) r = ReleaseExecutionLease a r"
| "exec_device sha (C_RegisterProtocolDevice a b c d) r = snd (RegisterProtocolDevice sha a b c d r)"
| "exec_device sha (C_RegisterProtocolChild a b c d) r = snd (RegisterProtocolChild sha a b c d r)"
| "exec_device sha (C_ChangeDeviceCredential a b c d e) r = snd (ChangeDeviceCredential a b c d e r)"
| "exec_device sha (C_UpdateCredentialRevocation a) r = kept r (UpdateCredentialRevocation a r)"
| "exec_device sha (C_CreateDeviceCommand a) r = snd (CreateDeviceCommand a r)"
| "exec_device sha (C_UpdateDeviceCommandDispatch a b c d e) r = kept r (UpdateDeviceCommandDispatch a b c d e r)"
| "exec_device sha (C_CompleteDeviceCommand a b c d e) r = CompleteDeviceCommand a b c d e r"
| "exec_device sha (C_SaveOnboarding a) r = snd (SaveOnboarding a r)"

fun exec :: "(string \<Rightarrow> string) \<Rightarrow> (string \<Rightarrow> string option) \<Rightarrow> call \<Rightarrow> repo \<Rightarrow> repo" where
  "exec sha cp (Inventory c) r = exec_inventory c r"
| "exec sha cp (Messages c) r = exec_message sha cp c r"
| "exec sha cp (Alarms c) r = exec_alarm c r"
| "exec sha cp (Records c) r = exec_record c r"
| "exec sha cp (Devices c) r = exec_device sha c r"

lemma kept_simps [simp]: "kept r (Inl e) = r" "kept r (Inr r') = r'"
  by (simp_all add: kept_def)

text \<open>Equations of the operations, by the group of maps they write.\<close>

lemmas inventory_defs = SaveProduct_def SaveProtocolPackage_def SaveProtocolDefinition_def
  CreateProtocolRelease_def UpdateProtocolReleaseStatus_def CreatePointTableRelease_def
  SaveProductProtocolBinding_def SaveDeviceAccessProfile_def UpdateDeviceAccessStatus_def
  SaveManagedDevice_def SubmitProtocolMarket_def ReviewProtocolMarket_def

lemmas message_defs = ReserveRawMessage_def SaveRawIndex_def SaveRawMessage_def MarkRawPublished_def
  MarkRawParseResult_def SaveStandardMessage_def SaveStandardMessageIfAbsent_def
  ClaimStandardMessage_def MarkStandardMessageProcessed_def UpsertDeviceState_def
  SaveDeviceStateEvent_def

lemmas alarm_defs = SaveRule_def DeleteRule_def SaveRulePending_def DeleteRulePending_def
  DeleteRulePendings_def UpsertAlarm_def UpdateAlarm_def ApplyComponentAlarm_def SaveVideoEvent_def
  UpdateVideoEvent_def SaveVideoCameraMapping_def ReplaceVideoCameraRelations_def

lemmas record_defs = SaveAIAnalysis_def SaveKnowledgeDoc_def SaveWorkflowKnowledgeBinding_def
  SaveReplay_def SaveAudit_def SaveAIToolCall_def SaveAIProviderConfig_def

lemmas device_defs = AcquireExecutionLease_def ReleaseExecutionLease_def RegisterProtocolDevice_def
  RegisterProtocolChild_def ChangeDeviceCredential_def UpdateCredentialRevocation_def
  CreateDeviceCommand_def UpdateDeviceCommandDispatch_def CompleteDeviceCommand_def

lemma exec_inventory_frame [simp]:
  "r_leases (exec_inventory c r) = r_leases r" "r_standard (exec_inventory c r) = r_standard r"
  "r_standardProcessed (exec_inventory c r) = r_standardProcessed r"
  "r_videoMappings (exec_inventory c r) = r_videoMappings r"
  "r_videoRelations (exec_inventory c r) = r_videoRelations r"
  by (cases c; simp add: inventory_defs kept_def Let_def split: option.split sum.split)+

lemma exec_message_frame [simp]:
  "r_leases (exec_message sha cp c r) = r_leases r"
  "r_devices (exec_message sha cp c r) = r_devices r"
  "r_accessProfiles (exec_message sha cp c r) = r_accessProfiles r"
  "r_protocolMarket (exec_message sha cp c r) = r_protocolMarket r"
  "r_videoMappings (exec_message sha cp c r) = r_videoMappings r"
  "r_videoRelations (exec_message sha cp c r) = r_videoRelations r"
  by (cases c; simp add: message_defs kept_def Let_def split: option.split sum.split)+

lemma exec_alarm_frame [simp]:
  "r_leases (exec_alarm c r) = r_leases r" "r_devices (exec_alarm c r) = r_devices r"
  "r_accessProfiles (exec_alarm c r) = r_accessProfiles r"
  "r_protocolMarket (exec_alarm c r) = r_protocolMarket r"
  "r_standard (exec_alarm c r) = r_standard r"
  "r_standardProcessed (exec_alarm c r) = r_standardProcessed r"
  by (cases c; simp add: alarm_defs kept_def Let_def split: option.split sum.split prod.split)+

lemma exec_record_frame [simp]:
  "r_leases (exec_record c r) = r_leases r" "r_devices (exec_record c r) = r_devices r"
  "r_accessProfiles (exec_record c r) = r_accessProfiles r"
  "r_protocolMarket (exec_record c r) = r_protocolMarket r"
  "r_standard (exec_record c r) = r_standard r"
  "r_standardProcessed (exec_record c r) = r_standardProcessed r"
  "r_videoMappings (exec_record c r) = r_videoMappings r"
  "r_videoRelations (exec_record c r) = r_videoRelations r"
  by (cases c; simp add: record_defs)+

lemma onboard_frames_other [simp]:
  "r_leases (snd (SaveOnboarding b r)) = r_leases r"
  "r_protocolMarket (snd (SaveOnboarding b r)) = r_protocolMarket r"
  "r_standard (snd (SaveOnboarding b r)) = r_standard r"
  "r_standardProcessed (snd (SaveOnboarding b r)) = r_standardProcessed r"
  "r_videoMappings (snd (SaveOnboarding b r)) = r_videoMappings r"
  "r_videoRelations (snd (SaveOnboarding b r)) = r_videoRelations r"
  by (simp add: SaveOnboarding_def SaveDeviceAccessProfile_def onboard_release_def onboard_point_table_def
      onboard_product_def onboard_binding_def Let_def split: option.split)+

lemma exec_device_frame [simp]:
  "r_protocolMarket (exec_device sha c r) = r_protocolMarket r"
  "r_standard (exec_device sha c r) = r_standard r"
  "r_standardProcessed (exec_device sha c r) = r_standardProcessed r"
  "r_videoMappings (exec_device sha c r) = r_videoMappings r"
  "r_videoRelations (exec_device sha c r) = r_videoRelations r"
  by (cases c; simp add: device_defs kept_def Let_def split: option.split sum.split)+

section \<open>Reachable repositories\<close>

text \<open>
  What the callers ensure of the values they save: a tenant has no NUL byte, and a market entry starts
  as httpapi/protocol_market.go submits it.
\<close>

definition call_ok :: "call \<Rightarrow> bool" where
  "call_ok c \<longleftrightarrow> (case c of
     Inventory i \<Rightarrow> (case i of
        C_SaveDeviceAccessProfile v \<Rightarrow> nul_free (ap_TenantID v)
      | C_SaveManagedDevice v \<Rightarrow> nul_free (md_TenantID v)
      | C_SubmitProtocolMarket v \<Rightarrow>
          me_Generation v = 1 \<and> me_Status v = ''SUBMITTED'' \<and> me_Reviews v = []
      | _ \<Rightarrow> True)
   | Devices d \<Rightarrow> (case d of
        C_AcquireExecutionLease tenant _ _ _ _ _ \<Rightarrow> nul_free tenant
      | C_SaveOnboarding b \<Rightarrow> nul_free (md_TenantID (ob_Device b)) \<and>
          (case ob_Profile b of None \<Rightarrow> True | Some v \<Rightarrow> nul_free (ap_TenantID v))
      | _ \<Rightarrow> True)
   | _ \<Rightarrow> True)"

inductive reachable :: "(string \<Rightarrow> string) \<Rightarrow> (string \<Rightarrow> string option) \<Rightarrow> repo \<Rightarrow> bool"
  for sha cp where
  start: "reachable sha cp NewRepository"
| call: "reachable sha cp r \<Longrightarrow> call_ok c \<Longrightarrow> reachable sha cp (exec sha cp c r)"

inductive_cases reachable_elim: "reachable sha cp r"

definition repo_inv :: "repo \<Rightarrow> bool" where
  "repo_inv r \<longleftrightarrow> devices_inv (r_devices r) \<and> profiles_inv (r_accessProfiles r) \<and>
     leases_inv (r_leases r) \<and> market_inv (r_protocolMarket r) \<and> claims_inv r \<and> cameras_inv r"

lemma repo_inv_start: "repo_inv NewRepository"
  by (simp add: repo_inv_def NewRepository_def devices_inv_Nil profiles_inv_def leases_inv_def
      market_inv_def claims_inv_def cameras_inv_def mget_or_def)

lemma kept_rule: "P r \<Longrightarrow> (\<And>r'. x = Inr r' \<Longrightarrow> P r') \<Longrightarrow> P (kept r x)"
  by (cases x) auto

lemma frame_eqs:
  "r_standard r' = r_standard r \<Longrightarrow> r_standardProcessed r' = r_standardProcessed r \<Longrightarrow>
     claims_inv r' = claims_inv r"
  "r_videoMappings r' = r_videoMappings r \<Longrightarrow> r_videoRelations r' = r_videoRelations r \<Longrightarrow>
     cameras_inv r' = cameras_inv r"
  by (simp_all add: claims_inv_def cameras_inv_def)

lemma exec_inventory_inv:
  assumes inv: "devices_inv (r_devices r)" "profiles_inv (r_accessProfiles r)"
      "market_inv (r_protocolMarket r)"
    and ok: "call_ok (Inventory c)"
  shows "devices_inv (r_devices (exec_inventory c r)) \<and>
    profiles_inv (r_accessProfiles (exec_inventory c r)) \<and>
    market_inv (r_protocolMarket (exec_inventory c r))"
proof (cases c)
  case (C_SaveManagedDevice v)
  have "r_accessProfiles r' = r_accessProfiles r \<and> r_protocolMarket r' = r_protocolMarket r"
    if "SaveManagedDevice v r = Inr r'" for r'
    using that by (auto simp: SaveManagedDevice_def split: if_splits)
  then show ?thesis
    using inv ok C_SaveManagedDevice SaveManagedDevice_inv [OF inv(1)]
    by (cases "SaveManagedDevice v r") (auto simp: call_ok_def)
next
  case (C_SubmitProtocolMarket v)
  have "r_accessProfiles r' = r_accessProfiles r \<and> r_devices r' = r_devices r"
    if "SubmitProtocolMarket v r = Inr r'" for r'
    using that by (auto simp: SubmitProtocolMarket_def Let_def split: if_splits)
  then show ?thesis
    using inv ok C_SubmitProtocolMarket SubmitProtocolMarket_inv [OF inv(3)]
    by (cases "SubmitProtocolMarket v r") (auto simp: call_ok_def)
next
  case (C_ReviewProtocolMarket a b d e f g h i)
  then show ?thesis
    using inv ReviewProtocolMarket_inv [OF inv(3), of a b d e f g h i]
    by (simp add: ReviewProtocolMarket_def Let_def split: option.split sum.split)
next
  case (C_SaveDeviceAccessProfile v)
  then show ?thesis
    using inv ok SaveDeviceAccessProfile_inv [OF inv(2), of v]
    by (simp add: call_ok_def) (simp add: SaveDeviceAccessProfile_def)
next
  case (C_UpdateDeviceAccessStatus a b d e)
  then show ?thesis
    using inv UpdateDeviceAccessStatus_inv [OF inv(2), of a b d e]
    by (simp add: UpdateDeviceAccessStatus_def Let_def split: option.split)
qed (use inv in \<open>simp add: inventory_defs kept_def Let_def split: option.split\<close>)+

lemma exec_device_inv:
  assumes inv: "devices_inv (r_devices r)" "profiles_inv (r_accessProfiles r)" "leases_inv (r_leases r)"
    and ok: "call_ok (Devices c)"
  shows "devices_inv (r_devices (exec_device sha c r)) \<and>
    profiles_inv (r_accessProfiles (exec_device sha c r)) \<and> leases_inv (r_leases (exec_device sha c r))"
proof (cases c)
  case (C_SaveOnboarding b)
  then show ?thesis
    using inv ok SaveOnboarding_inv [OF inv(1), of b] SaveOnboarding_profiles_inv [OF inv(2), of b]
    by (simp add: call_ok_def split: option.splits)
next
  case (C_RegisterProtocolDevice a b d e)
  then show ?thesis
    using inv RegisterProtocolDevice_inv [OF inv(1,2), of sha a b d e]
    by (simp add: RegisterProtocolDevice_def Let_def split: option.split sum.split)
next
  case (C_RegisterProtocolChild a b d e)
  then show ?thesis
    using inv RegisterProtocolChild_inv [OF inv(1,2), of sha a b d e]
    by (simp add: RegisterProtocolChild_def Let_def split: option.split sum.split)
next
  case (C_ChangeDeviceCredential a b d e f)
  then show ?thesis
    using inv ChangeDeviceCredential_inv [OF inv(1), of a b d e f]
    by (simp add: ChangeDeviceCredential_def Let_def split: option.split)
next
  case (C_AcquireExecutionLease a b d e f g)
  then show ?thesis
    using inv ok AcquireExecutionLease_inv [OF inv(3), of a b d e f g]
    by (simp add: call_ok_def) (simp add: AcquireExecutionLease_def Let_def)
next
  case (C_ReleaseExecutionLease a)
  then show ?thesis
    using inv ReleaseExecutionLease_inv [OF inv(3), of a]
    by (simp add: ReleaseExecutionLease_def Let_def split: option.split)
qed (use inv in \<open>simp add: device_defs kept_def Let_def split: option.split\<close>)+

lemma exec_message_inv:
  assumes inv: "claims_inv r"
  shows "claims_inv (exec_message sha cp c r)"
proof -
  have frame: "claims_inv r'"
    if "r_standard r' = r_standard r" "r_standardProcessed r' = r_standardProcessed r" for r'
    using that inv frame_eqs(1) [of r' r] by simp
  show ?thesis
  proof (cases c)
    case (C_MarkStandardMessageProcessed a b)
    then show ?thesis
      using kept_rule [of claims_inv, OF inv claims_inv_ops(4) [OF inv]] by simp
  next
    case (C_SaveStandardMessage v)
    then show ?thesis using claims_inv_ops(2) [OF inv] by simp
  next
    case (C_ClaimStandardMessage v)
    then show ?thesis using claims_inv_ops(3) [OF inv] by simp
  qed (rule frame; simp add: ReserveRawMessage_def SaveRawIndex_def SaveRawMessage_def
      MarkRawPublished_def MarkRawParseResult_def UpsertDeviceState_def SaveDeviceStateEvent_def
      kept_def Let_def split: option.split)+
qed

lemma exec_alarm_inv:
  assumes inv: "cameras_inv r"
  shows "cameras_inv (exec_alarm c r)"
proof -
  have frame: "cameras_inv r'"
    if "r_videoMappings r' = r_videoMappings r" "r_videoRelations r' = r_videoRelations r" for r'
    using that inv frame_eqs(2) [of r' r] by simp
  show ?thesis
  proof (cases c)
    case (C_SaveVideoCameraMapping v)
    then show ?thesis
      using kept_rule [of cameras_inv, OF inv cameras_inv_ops(1) [OF inv]] by simp
  next
    case (C_ReplaceVideoCameraRelations a b xs)
    then show ?thesis
      using kept_rule [of cameras_inv, OF inv cameras_inv_ops(2) [OF inv]] by simp
  qed (rule frame; simp add: alarm_defs kept_def Let_def split: option.split prod.split)+
qed

lemma exec_inv:
  assumes inv: "repo_inv r" and ok: "call_ok c"
  shows "repo_inv (exec sha cp c r)"
proof (cases c)
  case (Inventory i)
  then show ?thesis
    using inv ok exec_inventory_inv [of r i] frame_eqs [of "exec_inventory i r" r] by (simp add: repo_inv_def)
next
  case (Messages m)
  then show ?thesis
    using inv exec_message_inv [of r sha cp m] frame_eqs(2) [of "exec_message sha cp m r" r]
    by (simp add: repo_inv_def)
next
  case (Alarms a)
  then show ?thesis
    using inv exec_alarm_inv [of r a] frame_eqs(1) [of "exec_alarm a r" r] by (simp add: repo_inv_def)
next
  case (Records x)
  then show ?thesis
    using inv frame_eqs [of "exec_record x r" r] by (simp add: repo_inv_def)
next
  case (Devices d)
  then show ?thesis
    using inv ok exec_device_inv [of r d sha] frame_eqs [of "exec_device sha d r" r]
    by (simp add: repo_inv_def)
qed

lemma reachable_inv: "reachable sha cp r \<Longrightarrow> repo_inv r"
  by (induction rule: reachable.induct) (auto simp: repo_inv_start exec_inv)

text \<open>
  C24. Every repository that calls of the API can build, in any order and with any arguments the callers
  let through, satisfies the invariant: devices are filed under their tenant and identifier, with
  NUL-free tenants and access keys used once; access profiles have NUL-free tenants; leases are filed
  under their tenant and resource, with a NUL-free tenant and a token of at least 1; the generation of a
  market entry is one more than its number of reviews, its status is the decision of the last one, and
  no approval or rejection is the submitter's; a message is stored exactly when it has a processed
  flag; and the relations of a camera name one device, that of its mapping.
\<close>
theorem reachable_repo_inv:
  "reachable sha cp r \<Longrightarrow> repo_inv r"
  by (rule reachable_inv)

definition sample_device :: "string \<Rightarrow> string \<Rightarrow> managed_device" where
  "sample_device i accessKey = zero_managed_device\<lparr>md_ID := i, md_TenantID := ''t'',
     md_AccessKey := accessKey, md_Status := ''ENABLED''\<rparr>"

lemma sample_device_ok: "call_ok (Inventory (C_SaveManagedDevice (sample_device i k)))"
  by (simp add: call_ok_def sample_device_def nul_free_def nul_def)

definition sample_repo :: "(string \<Rightarrow> string) \<Rightarrow> (string \<Rightarrow> string option) \<Rightarrow> repo" where
  "sample_repo sha cp = exec sha cp (Inventory (C_SaveManagedDevice (sample_device ''d2'' ''k2'')))
     (exec sha cp (Inventory (C_SaveManagedDevice (sample_device ''d1'' ''k1''))) NewRepository)"

lemma reachable_sample_repo: "reachable sha cp (sample_repo sha cp)"
  unfolding sample_repo_def by (intro reachable.intros sample_device_ok)

theorem reachable_repo_inv_witness:
  "repo_inv (sample_repo id Some)"
  by (rule reachable_repo_inv [OF reachable_sample_repo])

text \<open>
  C18. Authentication by access key is unambiguous: in a reachable repository a device is found by its
  access key whichever order the loop of GetManagedDeviceByAccessKey visits the map in, and the device
  found carries the key asked for.
\<close>
theorem access_key_names_one_device:
  assumes r: "reachable sha cp r" and d: "GetManagedDevice tenant i r = Inr d"
    and m: "mwf m" "set m = set (r_devices r)"
  shows "GetManagedDeviceByAccessKey (md_AccessKey d) (r\<lparr>r_devices := m\<rparr>) = Inr d"
proof -
  have inv: "devices_inv (r_devices r)"
    using reachable_inv [OF r] by (simp add: repo_inv_def)
  have inv': "store_inv device_filed same_access_key m"
    using inv m by (simp add: devices_inv_def store_inv_def mall_def no_clash_def)
  have "mget m (key [tenant, i]) = Some d"
    using d m devices_invD(1) [OF inv] by (simp add: GetManagedDevice_def mget_in [symmetric])
  then have "find (\<lambda>e. md_AccessKey (snd e) = md_AccessKey d) m = Some (key [tenant, i], d)"
    by (intro device_store.find_unique [OF inv']) (simp_all add: same_access_key_def)
  then show ?thesis by (simp add: GetManagedDeviceByAccessKey_def find_mvals)
qed

theorem access_key_names_one_device_witness:
  "GetManagedDeviceByAccessKey ''k1'' ((sample_repo id Some)
     \<lparr>r_devices := rev (r_devices (sample_repo id Some))\<rparr>) = Inr (sample_device ''d1'' ''k1'')"
proof -
  have d: "r_devices (sample_repo id Some) = [(key [''t'', ''d1''], sample_device ''d1'' ''k1''),
      (key [''t'', ''d2''], sample_device ''d2'' ''k2'')]"
    by (simp add: sample_repo_def SaveManagedDevice_def access_key_taken_def sample_device_def
        NewRepository_def mvals_def mput_def nul_def)
  have "GetManagedDevice ''t'' ''d1'' (sample_repo id Some) = Inr (sample_device ''d1'' ''k1'')"
    by (simp add: GetManagedDevice_def d mget_def nul_def)
  from access_key_names_one_device [OF reachable_sample_repo this, of "rev (r_devices (sample_repo id Some))"]
  have "mwf (rev (r_devices (sample_repo id Some))) \<Longrightarrow> ?thesis"
    by (simp add: sample_device_def)
  moreover have "mwf (rev (r_devices (sample_repo id Some)))"
    by (simp add: d mwf_def nul_def)
  ultimately show ?thesis by blast
qed

end
