(* ===== verification/Repo_Props.thy ===== *)
theory Repo_Props
  imports Repo_Inv
begin

text \<open>
  What the repository promises its callers over whole histories of calls: approvals in the market,
  cameras, final statuses of commands and revocations, the claim of a message, the archive index, the
  configuration of an access profile, onboarding, and the paged listings.
\<close>

section \<open>Histories\<close>

definition run :: "(string \<Rightarrow> string) \<Rightarrow> (string \<Rightarrow> string option) \<Rightarrow> call list \<Rightarrow> repo \<Rightarrow> repo" where
  "run sha cp cs r = foldl (\<lambda>r c. exec sha cp c r) r cs"

lemma run_simps [simp]:
  "run sha cp [] r = r" "run sha cp (c # cs) r = run sha cp cs (exec sha cp c r)"
  by (simp_all add: run_def)

text \<open>A fact that every call keeps holds after every history.\<close>

lemma run_keeps:
  assumes "P r" "\<And>r c. P r \<Longrightarrow> P (exec sha cp c r)"
  shows "P (run sha cp cs r)"
  using assms(1) by (induction cs arbitrary: r) (auto simp: assms(2))

section \<open>Market and cameras\<close>

text \<open>
  C25. No one approves their own submission: an entry that is APPROVED in a reachable repository has an
  approving review as its last one, by a user other than the one who submitted it.
\<close>
theorem market_approval_by_another:
  assumes r: "reachable sha cp r" and v: "GetProtocolMarket tenant i version r = Inr v"
    and approved: "me_Status v = ''APPROVED''"
  shows "me_Reviews v \<noteq> [] \<and> mr_Decision (last (me_Reviews v)) = ''APPROVED'' \<and>
    mr_Actor (last (me_Reviews v)) \<noteq> me_SubmittedBy v"
proof -
  have "market_filed (key [tenant, i, version]) v"
    using reachable_inv [OF r] v by (intro market_invD [of "r_protocolMarket r"])
      (simp_all add: repo_inv_def GetProtocolMarket_def)
  then show ?thesis
    using approved by (auto simp: market_filed_def list_all_iff split: if_splits)
qed

definition sample_entry :: market_entry where
  "sample_entry = zero_market_entry\<lparr>me_TenantID := ''t'', me_ProtocolID := ''p'', me_Version := ''1'',
     me_SubmittedBy := ''ann'', me_Generation := 1, me_Status := ''SUBMITTED''\<rparr>"

definition sample_market :: "(string \<Rightarrow> string) \<Rightarrow> (string \<Rightarrow> string option) \<Rightarrow> repo" where
  "sample_market sha cp = run sha cp [Inventory (C_SubmitProtocolMarket sample_entry),
     Inventory (C_ReviewProtocolMarket ''t'' ''p'' ''1'' ''bob'' ''APPROVED'' ''ok'' 1 5)] NewRepository"

lemma reachable_sample_market: "reachable sha cp (sample_market sha cp)"
  unfolding sample_market_def run_simps
  by (intro reachable.intros) (simp_all add: call_ok_def sample_entry_def zero_market_entry_def)

theorem market_approval_by_another_witness:
  "\<exists>v. GetProtocolMarket ''t'' ''p'' ''1'' (sample_market id Some) = Inr v \<and>
     mr_Actor (last (me_Reviews v)) \<noteq> ''ann''"
proof -
  let ?v = "sample_entry\<lparr>me_Generation := 2, me_Status := ''APPROVED'', me_Reviews :=
      [\<lparr>mr_Actor = ''bob'', mr_Decision = ''APPROVED'', mr_Reason = ''ok'', mr_At = 5\<rparr>]\<rparr>"
  have v: "GetProtocolMarket ''t'' ''p'' ''1'' (sample_market id Some) = Inr ?v"
    by (simp add: sample_market_def SubmitProtocolMarket_def ReviewProtocolMarket_def Review_def
        GetProtocolMarket_def sample_entry_def zero_market_entry_def NewRepository_def Let_def)
  show ?thesis
    using market_approval_by_another [OF reachable_sample_market v] v
    by (simp add: sample_entry_def)
qed

text \<open>
  A camera is associated with at most one device: in a reachable repository all relations of a
  camera name one device, and when the camera has a mapping it is the mapping's device.
\<close>
theorem camera_has_one_device:
  assumes r: "reachable sha cp r"
  shows "\<exists>device. \<forall>x \<in> set (ListVideoCameraRelations tenant camera r).
    vr_RelationType x = ''device'' \<and> vr_TargetID x = device \<and>
    (\<forall>v. GetVideoCameraMapping tenant camera r = Inr v \<longrightarrow> vm_DeviceID v = device)"
proof -
  have inv: "cameras_inv r" using reachable_inv [OF r] by (simp add: repo_inv_def)
  show ?thesis
  proof (cases "GetVideoCameraMapping tenant camera r")
    case (Inl e)
    obtain d where "camera_relations_ok d (mget_or [] (r_videoRelations r) (key [tenant, camera]))"
      using inv unfolding cameras_inv_def by blast
    then show ?thesis
      using Inl by (intro exI [of _ d]) (auto simp: ListVideoCameraRelations_def
          camera_relations_ok_def list_all_iff)
  next
    case (Inr v)
    then have "camera_relations_ok (vm_DeviceID v) (mget_or [] (r_videoRelations r) (key [tenant, camera]))"
      using inv by (simp add: GetVideoCameraMapping_def cameras_inv_def)
    then show ?thesis
      using Inr by (intro exI [of _ "vm_DeviceID v"]) (auto simp: ListVideoCameraRelations_def
          camera_relations_ok_def list_all_iff)
  qed
qed

definition sample_camera :: camera_mapping where
  "sample_camera = zero_camera_mapping\<lparr>vm_TenantID := ''t'', vm_CameraID := ''c'', vm_DeviceID := ''d''\<rparr>"

theorem camera_has_one_device_witness:
  "\<exists>device. \<forall>x \<in> set (ListVideoCameraRelations ''t'' ''c''
     (run id Some [Alarms (C_SaveVideoCameraMapping sample_camera)] NewRepository)). vr_TargetID x = device"
proof -
  have "reachable id Some (run id Some [Alarms (C_SaveVideoCameraMapping sample_camera)] NewRepository)"
    unfolding run_simps by (intro reachable.intros) (simp add: call_ok_def)
  from camera_has_one_device [OF this, of "''t''" "''c''"] show ?thesis by blast
qed

section \<open>Final statuses\<close>

definition command_done :: "device_command \<Rightarrow> bool" where
  "command_done v \<longleftrightarrow> dc_Status v = ''SUCCEEDED'' \<or> dc_Status v = ''FAILED''"

lemma exec_commands_frame [simp]:
  "r_commands (exec_inventory c r) = r_commands r" "r_revocations (exec_inventory c r) = r_revocations r"
  "r_raw (exec_inventory c r) = r_raw r"
  by (cases c; simp add: inventory_defs kept_def Let_def split: option.split sum.split)+

lemma exec_commands_frame_message [simp]:
  "r_commands (exec_message sha cp d r) = r_commands r"
  "r_revocations (exec_message sha cp d r) = r_revocations r"
  by (cases d; simp add: message_defs kept_def Let_def split: option.split sum.split)+

lemma exec_commands_frame_alarm [simp]:
  "r_commands (exec_alarm a r) = r_commands r" "r_revocations (exec_alarm a r) = r_revocations r"
  "r_raw (exec_alarm a r) = r_raw r"
  by (cases a; simp add: alarm_defs kept_def Let_def split: option.split sum.split prod.split)+

lemma exec_commands_frame_record [simp]:
  "r_commands (exec_record x r) = r_commands r" "r_revocations (exec_record x r) = r_revocations r"
  "r_raw (exec_record x r) = r_raw r"
  by (cases x; simp add: record_defs)+

lemma exec_raw_frame_device [simp]:
  "r_raw (exec_device sha c r) = r_raw r" "r_commands (snd (SaveOnboarding b r)) = r_commands r"
  "r_revocations (snd (SaveOnboarding b r)) = r_revocations r"
proof -
  show b: "r_commands (snd (SaveOnboarding b r)) = r_commands r"
    "r_revocations (snd (SaveOnboarding b r)) = r_revocations r"
    by (simp add: SaveOnboarding_def SaveDeviceAccessProfile_def onboard_release_def
        onboard_point_table_def onboard_product_def onboard_binding_def Let_def split: option.split)+
  have "r_raw (snd (SaveOnboarding b r)) = r_raw r" for b
    by (simp add: SaveOnboarding_def SaveDeviceAccessProfile_def onboard_release_def
        onboard_point_table_def onboard_product_def onboard_binding_def Let_def split: option.split)
  then show "r_raw (exec_device sha c r) = r_raw r"
    by (cases c; simp add: device_defs kept_def Let_def split: option.split sum.split)
qed

lemma exec_device_command_done:
  assumes "mget (r_commands r) k = Some v" "command_done v"
  shows "mget (r_commands (exec_device sha c r)) k = Some v"
  using assms
  by (cases c; simp add: device_defs kept_def Let_def command_done_def split: option.split sum.split;
      auto)

lemma exec_device_revoked:
  assumes "mget (r_revocations r) k = Some v" "cr_Status v = ''REVOKED''"
  shows "mget (r_revocations (exec_device sha c r)) k = Some v"
  using assms
  by (cases c; simp add: device_defs kept_def Let_def split: option.split sum.split; auto)

text \<open>
  A finished command keeps its result and a revoked credential stays revoked: no call of the
  repository changes a command that SUCCEEDED or FAILED, or a revocation that is REVOKED, however late
  a second reply, a dispatch report or a retry arrives.
\<close>
theorem final_status_is_final:
  assumes "mget (r_commands r) k = Some v" "command_done v"
    and "mget (r_revocations r) k' = Some w" "cr_Status w = ''REVOKED''"
  shows "mget (r_commands (run sha cp cs r)) k = Some v \<and> mget (r_revocations (run sha cp cs r)) k' = Some w"
proof -
  have "mget (r_commands (exec sha cp c r)) k = Some v \<and> mget (r_revocations (exec sha cp c r)) k' = Some w"
    if "mget (r_commands r) k = Some v \<and> mget (r_revocations r) k' = Some w" for r c
    using that assms exec_device_command_done exec_device_revoked by (cases c) simp_all
  then show ?thesis
    using assms run_keeps [of "\<lambda>r. mget (r_commands r) k = Some v \<and> mget (r_revocations r) k' = Some w"]
    by blast
qed

definition sample_history :: repo where
  "sample_history = NewRepository\<lparr>
     r_commands := [(key [''t'', ''c''], zero_device_command\<lparr>dc_DeviceID := ''d'', dc_Status := ''SUCCEEDED''\<rparr>)],
     r_revocations := [(key [''t'', ''v''], zero_credential_revocation\<lparr>cr_Status := ''REVOKED''\<rparr>)],
     r_raw := [(key [''t'', ''m''], zero_raw_index\<lparr>ri_TenantID := ''t'', ri_MessageID := ''m''\<rparr>)]\<rparr>"

theorem final_status_is_final_witness:
  "mget (r_commands (run id Some [Devices (C_CompleteDeviceCommand ''t'' ''d'' ''c'' [] 9)] sample_history))
     (key [''t'', ''c'']) = Some (zero_device_command\<lparr>dc_DeviceID := ''d'', dc_Status := ''SUCCEEDED''\<rparr>)"
proof -
  have c: "mget (r_commands sample_history) (key [''t'', ''c'']) =
      Some (zero_device_command\<lparr>dc_DeviceID := ''d'', dc_Status := ''SUCCEEDED''\<rparr>)"
    and v: "mget (r_revocations sample_history) (key [''t'', ''v'']) =
      Some (zero_credential_revocation\<lparr>cr_Status := ''REVOKED''\<rparr>)"
    by (simp_all add: sample_history_def mget_def)
  show ?thesis
    by (rule final_status_is_final [OF c _ v, THEN conjunct1]) (simp_all add: command_done_def)
qed

section \<open>Claims and the archive index\<close>

lemma exec_standard_frame:
  assumes "mget (r_standard r) k = Some v" "mget (r_standardProcessed r) k = Some True"
  shows "mget (r_standard (exec_message sha cp c r)) k = Some v \<and>
    mget (r_standardProcessed (exec_message sha cp c r)) k = Some True"
  using assms
  by (cases c; simp add: message_defs kept_def Let_def split: option.split; auto)

text \<open>
  C26. A message is processed at most once more after its mark: once MarkStandardMessageProcessed has
  succeeded, every later claim of the same tenant and message identifier, after any other calls, is
  told not to process.
\<close>
theorem processed_message_is_not_claimed_again:
  assumes mark: "MarkStandardMessageProcessed (sm_TenantID m) (sm_MessageID m) r = Inr r'"
  shows "ClaimStandardMessage m (run sha cp cs r') = ((False, False), run sha cp cs r')"
proof -
  let ?k = "key [sm_TenantID m, sm_MessageID m]"
  obtain v where v: "mget (r_standard r') ?k = Some v \<and> mget (r_standardProcessed r') ?k = Some True"
    using mark by (auto simp: MarkStandardMessageProcessed_def Let_def split: if_splits)
  have "mget (r_standard (exec sha cp c r)) ?k = Some v \<and> mget (r_standardProcessed (exec sha cp c r)) ?k = Some True"
    if "mget (r_standard r) ?k = Some v \<and> mget (r_standardProcessed r) ?k = Some True" for r c
    using that exec_standard_frame [of r ?k v] by (cases c) (simp_all del: key_simps)
  then have "mget (r_standard (run sha cp cs r')) ?k = Some v \<and>
      mget (r_standardProcessed (run sha cp cs r')) ?k = Some True"
    using v by (intro run_keeps [of "\<lambda>r. mget (r_standard r) ?k = Some v \<and>
        mget (r_standardProcessed r) ?k = Some True"])
  then show ?thesis by (simp add: ClaimStandardMessage_def mget_or_def)
qed

definition sample_message :: standard_message where
  "sample_message = zero_standard_message\<lparr>sm_TenantID := ''t'', sm_MessageID := ''m''\<rparr>"

theorem processed_message_is_not_claimed_again_witness:
  "fst (ClaimStandardMessage sample_message (run id Some [Messages (C_SaveStandardMessage sample_message)]
     (kept NewRepository (MarkStandardMessageProcessed ''t'' ''m''
       (SaveStandardMessage sample_message NewRepository))))) = (False, False)"
proof -
  have "MarkStandardMessageProcessed (sm_TenantID sample_message) (sm_MessageID sample_message)
      (SaveStandardMessage sample_message NewRepository) =
    Inr (kept NewRepository (MarkStandardMessageProcessed ''t'' ''m''
       (SaveStandardMessage sample_message NewRepository)))"
    by (simp add: MarkStandardMessageProcessed_def SaveStandardMessage_def
        SaveStandardMessageIfAbsent_def NewRepository_def sample_message_def Let_def)
  from processed_message_is_not_claimed_again [OF this] show ?thesis by (simp del: run_simps)
qed

text \<open>What identifies an archived message, and whether it has been published.\<close>

definition same_archive :: "raw_index \<Rightarrow> raw_index \<Rightarrow> bool" where
  "same_archive v w \<longleftrightarrow> ri_PayloadHash w = ri_PayloadHash v \<and> ri_DeviceID w = ri_DeviceID v \<and>
     ri_ProductID w = ri_ProductID v \<and> ri_TenantID w = ri_TenantID v \<and>
     ri_MessageID w = ri_MessageID v \<and> ri_ObjectBucket w = ri_ObjectBucket v \<and>
     ri_ObjectKey w = ri_ObjectKey v \<and> ri_ArchivedAt w = ri_ArchivedAt v \<and>
     ri_PublishAttempts w \<ge> ri_PublishAttempts v"

lemma exec_same_archive:
  assumes "mget (r_raw r) k = Some w" "same_archive v w"
  shows "\<exists>w'. mget (r_raw (exec_message sha cp c r)) k = Some w' \<and> same_archive v w'"
  using assms
  by (cases c; simp add: message_defs kept_def Let_def same_archive_def split: option.split; auto)

text \<open>
  An archive index entry is never replaced: after any calls the entry is still there, with the
  same payload hash, device, product, object and archive time, and its publish attempts only grow.
\<close>
theorem archive_index_is_stable:
  assumes "mget (r_raw r) k = Some v"
  shows "\<exists>w. mget (r_raw (run sha cp cs r)) k = Some w \<and> same_archive v w"
proof (rule run_keeps [of "\<lambda>r. \<exists>w. mget (r_raw r) k = Some w \<and> same_archive v w"])
  show "\<exists>w. mget (r_raw r) k = Some w \<and> same_archive v w"
    using assms by (simp add: same_archive_def)
  show "\<exists>w. mget (r_raw (exec sha cp c r)) k = Some w \<and> same_archive v w"
    if "\<exists>w. mget (r_raw r) k = Some w \<and> same_archive v w" for r c
    using that exec_same_archive by (cases c) (simp_all, blast)
qed

theorem archive_index_is_stable_witness:
  "\<exists>w. mget (r_raw (run id Some [Messages (C_MarkRawPublished ''t'' ''m'' 0 ''e''),
     Messages (C_SaveRawIndex (zero_raw_index\<lparr>ri_TenantID := ''t'', ri_MessageID := ''m'', ri_DeviceID := ''x''\<rparr>))]
       sample_history)) (key [''t'', ''m'']) = Some w \<and> ri_DeviceID w = []"
proof -
  have i: "mget (r_raw sample_history) (key [''t'', ''m'']) =
      Some (zero_raw_index\<lparr>ri_TenantID := ''t'', ri_MessageID := ''m''\<rparr>)"
    by (simp add: sample_history_def mget_def)
  obtain w where "mget (r_raw (run id Some [Messages (C_MarkRawPublished ''t'' ''m'' 0 ''e''),
      Messages (C_SaveRawIndex (zero_raw_index\<lparr>ri_TenantID := ''t'', ri_MessageID := ''m'', ri_DeviceID := ''x''\<rparr>))]
        sample_history)) (key [''t'', ''m'']) = Some w"
      "same_archive (zero_raw_index\<lparr>ri_TenantID := ''t'', ri_MessageID := ''m''\<rparr>) w"
    using archive_index_is_stable [OF i] by blast
  then show ?thesis by (intro exI [of _ w]) (simp add: same_archive_def zero_raw_index_def)
qed

section \<open>Access profiles\<close>

lemma Configuration_status:
  "Configuration (p\<lparr>ap_RuntimeStatus := s, ap_LastError := m\<rparr>) = Configuration p"
  "Configuration (p\<lparr>ap_RuntimeStatus := s, ap_LastError := m, ap_LastSuccessAt := t\<rparr>) = Configuration p"
  "Configuration (p\<lparr>ap_RuntimeStatus := s, ap_LastError := m, ap_LastErrorAt := t\<rparr>) = Configuration p"
  by (simp_all add: Configuration_def)

text \<open>
  A runtime that reports the status of an access profile never overwrites its configuration: the
  report is accepted exactly when the stored configuration is the one the runtime was started with,
  and every stored profile keeps its configuration.
\<close>
theorem status_report_keeps_configuration:
  assumes "UpdateDeviceAccessStatus expected status message at r = (accepted, r')"
  shows "(accepted \<longleftrightarrow> (\<exists>p. mget (r_accessProfiles r) (key [ap_TenantID expected, ap_ID expected]) = Some p \<and>
      Configuration p = Configuration expected)) \<and>
    map_option Configuration (mget (r_accessProfiles r') k) = map_option Configuration (mget (r_accessProfiles r) k)"
  using assms
  by (auto simp: UpdateDeviceAccessStatus_def Let_def Configuration_status split: option.splits if_splits)

theorem status_report_keeps_configuration_witness:
  "map_option Configuration (mget (r_accessProfiles (snd (UpdateDeviceAccessStatus zero_access_profile ''ERROR''
     ''down'' 3 (SaveDeviceAccessProfile zero_access_profile NewRepository)))) (key [[], []])) =
   Some (Configuration zero_access_profile)"
proof -
  let ?r = "SaveDeviceAccessProfile zero_access_profile NewRepository"
  obtain a r' where u: "UpdateDeviceAccessStatus zero_access_profile ''ERROR'' ''down'' 3 ?r = (a, r')"
    by fastforce
  have "map_option Configuration (mget (r_accessProfiles r') (key [[], []])) =
      map_option Configuration (mget (r_accessProfiles ?r) (key [[], []]))"
    by (rule status_report_keeps_configuration [OF u, THEN conjunct2])
  also have "\<dots> = Some (Configuration zero_access_profile)"
    by (simp add: SaveDeviceAccessProfile_def NewRepository_def clone_profile_def zero_access_profile_def)
  finally show ?thesis by (simp add: u)
qed

section \<open>Onboarding\<close>

text \<open>
  C27. Onboarding is all or nothing: when SaveOnboarding answers an error the repository is unchanged,
  except for a bundle with a new product and no release; when it succeeds the device is stored, its
  product is there, and no other device's record changes.
\<close>
theorem onboarding_all_or_nothing:
  assumes o: "SaveOnboarding b r = (e, r')" and shape: "ob_Product b = None \<or> ob_Release b \<noteq> None"
  shows "(e \<noteq> None \<longrightarrow> r' = r) \<and>
    (e = None \<longrightarrow>
       GetManagedDevice (md_TenantID (ob_Device b)) (md_ID (ob_Device b)) r = Inl ErrNotFound \<and>
       GetManagedDevice (md_TenantID (ob_Device b)) (md_ID (ob_Device b)) r' = Inr (ob_Device b) \<and>
       mget (r_products r') (key [md_TenantID (ob_Device b), md_ProductID (ob_Device b)]) \<noteq> None \<and>
       (\<forall>k. k \<noteq> key [md_TenantID (ob_Device b), md_ID (ob_Device b)] \<longrightarrow>
          mget (r_devices r') k = mget (r_devices r) k))"
proof (cases "onboarding_error b r")
  case (Some x)
  then show ?thesis using o by (auto simp: SaveOnboarding_def)
next
  case None
  have e: "e = None" and dev: "r_devices r' =
      mput (r_devices r) (key [md_TenantID (ob_Device b), md_ID (ob_Device b)]) (ob_Device b)"
    using o None shape
    by (auto simp: SaveOnboarding_def Let_def split: option.splits simp del: key_simps)
  have prod: "ob_Product b = None \<Longrightarrow>
      mget (r_products r) (key [md_TenantID (ob_Device b), md_ProductID (ob_Device b)]) \<noteq> None"
    using None by (auto simp: onboarding_error_def Let_def split: if_splits option.splits)
  have "mget (r_products r') (key [md_TenantID (ob_Device b), md_ProductID (ob_Device b)]) \<noteq> None"
    using o None shape prod
    by (auto simp: SaveOnboarding_def onboard_release_def onboard_point_table_def onboard_product_def
        onboard_binding_def SaveDeviceAccessProfile_def Let_def split: option.splits simp del: key_simps)
  then show ?thesis
    using e dev onboarding_error_None(1) [OF None] by (simp add: GetManagedDevice_def)
qed

definition sample_bundle :: onboarding_bundle where
  "sample_bundle = \<lparr>ob_Product = Some zero_product, ob_ReuseProfile = False,
     ob_Device = sample_device ''d3'' ''k3'', ob_Profile = None,
     ob_Release = Some zero_protocol_release, ob_PointTable = None, ob_Binding = None\<rparr>"

theorem onboarding_all_or_nothing_witness:
  "GetManagedDevice ''t'' ''d3'' (snd (SaveOnboarding sample_bundle NewRepository)) =
     Inr (sample_device ''d3'' ''k3'')"
proof -
  have e: "SaveOnboarding sample_bundle NewRepository =
      (None, snd (SaveOnboarding sample_bundle NewRepository))"
    by (simp add: SaveOnboarding_def onboarding_error_def sample_bundle_def NewRepository_def
        sample_device_def zero_managed_device_def mvals_def Let_def)
  have "ob_Product sample_bundle = None \<or> ob_Release sample_bundle \<noteq> None"
    by (simp add: sample_bundle_def)
  from onboarding_all_or_nothing [OF e this] show ?thesis
    by (simp add: sample_bundle_def sample_device_def)
qed

end
