(* ===== verification/Engine_Calls.thy ===== *)
theory Engine_Calls
  imports Engine_Ingest Repo_Props
begin

text \<open>
  The engine as a client of the repository. Every handler changes the repository only by calls of its
  interface, each made in a state where a guard allows it; the locale guarded_calls turns a guard that
  keeps an invariant into rules by which a handler is checked along its steps. It is interpreted with
  the invariant of the repository and of the alarms, which therefore holds after every handler, and
  every fact about histories of calls becomes a fact about histories of handlers.
\<close>

section \<open>Handlers as guarded calls\<close>

named_theorems safe_intros \<open>rules that show a procedure to be made of guarded calls\<close>

fun path :: "(call \<Rightarrow> repo \<Rightarrow> bool) \<Rightarrow> env \<Rightarrow> repo \<Rightarrow> call list \<Rightarrow> bool" where
  "path G v r [] = True"
| "path G v r (c # cs) = (G c r \<and> path G v (exec (v_sha v) (v_cp v) c r) cs)"

definition by_calls :: "(repo \<Rightarrow> bool) \<Rightarrow> (call \<Rightarrow> repo \<Rightarrow> bool) \<Rightarrow> env \<Rightarrow> 'a proc \<Rightarrow> engine \<Rightarrow> bool" where
  "by_calls P G v m s \<longleftrightarrow> (P (e_repo s) \<longrightarrow>
     (\<exists>cs. path G v (e_repo s) cs \<and> e_repo (snd (m s)) = run (v_sha v) (v_cp v) cs (e_repo s)))"

definition safe :: "(repo \<Rightarrow> bool) \<Rightarrow> (call \<Rightarrow> repo \<Rightarrow> bool) \<Rightarrow> env \<Rightarrow> 'a proc \<Rightarrow> bool" where
  "safe P G v m \<longleftrightarrow> (\<forall>s. by_calls P G v m s)"

definition quiet :: "'a proc \<Rightarrow> bool" where
  "quiet m \<longleftrightarrow> (\<forall>s. e_repo (snd (m s)) = e_repo s)"

lemma path_append:
  "path G v r (cs @ ds) \<longleftrightarrow> path G v r cs \<and> path G v (run (v_sha v) (v_cp v) cs r) ds"
  by (induction cs arbitrary: r) auto

lemma run_append: "run sha cp (cs @ ds) r = run sha cp ds (run sha cp cs r)"
  by (simp add: run_def)

lemma quiet_steps:
  "quiet (ret x)" "quiet (fail e)" "quiet (publish v t k p)" "quiet (realtime v t p)" "quiet (new_id v i)"
  "quiet (ask g)" "quiet (query h)" "quiet (swap_last k n)" "quiet (update_click f)" "quiet (GetRaw v idx)"
  "quiet (list_alarms v q)" "quiet (visited v ks)"
  by (simp_all add: quiet_def ret_def fail_def publish_def realtime_def new_id_def ask_def query_def
      swap_last_def update_click_def GetRaw_def list_alarms_def visited_def split: option.split sum.split)

lemma ignore_cases: "ignore m s = (Inr (), snd (m s))"
  by (simp add: ignore_def)

lemma quiet_combined:
  "quiet m \<Longrightarrow> (\<And>x. quiet (f x)) \<Longrightarrow> quiet (andThen m f)"
  "quiet m \<Longrightarrow> quiet (ignore m)" "quiet m \<Longrightarrow> quiet (attempt m)" "quiet m \<Longrightarrow> quiet (wrapped t m)"
  by (auto simp: quiet_def andThen_def ignore_def attempt_def wrapped_def split: prod.split sum.split)
    (metis snd_conv)+

lemma andThen_Inl: "m s = (Inl e, s1) \<Longrightarrow> andThen m f s = (Inl e, s1)"
  and andThen_Inr: "m s = (Inr x, s1) \<Longrightarrow> andThen m f s = f x s1"
  by (simp_all add: andThen_def)

locale guarded_calls =
  fixes P :: "repo \<Rightarrow> bool" and G :: "call \<Rightarrow> repo \<Rightarrow> bool" and v :: env
  assumes guard_keeps: "P r \<Longrightarrow> G c r \<Longrightarrow> P (exec (v_sha v) (v_cp v) c r)"
begin

lemma path_keeps: "P r \<Longrightarrow> path G v r cs \<Longrightarrow> P (run (v_sha v) (v_cp v) cs r)"
  by (induction cs arbitrary: r) (auto simp: guard_keeps)

lemma by_calls_keeps: "by_calls P G v m s \<Longrightarrow> P (e_repo s) \<Longrightarrow> P (e_repo (snd (m s)))"
  by (auto simp: by_calls_def path_keeps)

lemma safe_keeps: "safe P G v m \<Longrightarrow> P (e_repo s) \<Longrightarrow> P (e_repo (snd (m s)))"
  by (simp add: safe_def by_calls_keeps)

lemma by_calls_andThen:
  assumes m: "by_calls P G v m s"
    and f: "\<And>x s1. P (e_repo s1) \<Longrightarrow> m s = (Inr x, s1) \<Longrightarrow> by_calls P G v (f x) s1"
  shows "by_calls P G v (andThen m f) s"
proof (cases "P (e_repo s)")
  case True
  then obtain cs where cs: "path G v (e_repo s) cs"
      "e_repo (snd (m s)) = run (v_sha v) (v_cp v) cs (e_repo s)"
    using m by (auto simp: by_calls_def)
  obtain y s1 where y: "m s = (y, s1)" by fastforce
  show ?thesis
  proof (cases y)
    case (Inl e)
    then show ?thesis using cs y by (auto simp: by_calls_def andThen_Inl)
  next
    case (Inr x)
    have "P (e_repo s1)" using by_calls_keeps [OF m True] y by simp
    then obtain ds where "path G v (e_repo s1) ds"
        "e_repo (snd (f x s1)) = run (v_sha v) (v_cp v) ds (e_repo s1)"
      using f y Inr by (auto simp: by_calls_def)
    then show ?thesis using cs y Inr
      by (auto simp: by_calls_def andThen_Inr path_append run_append intro!: exI [of _ "cs @ ds"])
  qed
qed (simp add: by_calls_def)

lemma safe_andThen [safe_intros]:
  "safe P G v m \<Longrightarrow> (\<And>x. safe P G v (f x)) \<Longrightarrow> safe P G v (andThen m f)"
  by (simp add: safe_def by_calls_andThen)

lemma by_calls_ask:
  "(P (e_repo s) \<Longrightarrow> by_calls P G v (f (g (e_repo s))) s) \<Longrightarrow> by_calls P G v (andThen (ask g) f) s"
  by (simp add: by_calls_def andThen_def ask_def)

lemma by_calls_query:
  "(\<And>x. P (e_repo s) \<Longrightarrow> g (e_repo s) = Inr x \<Longrightarrow> by_calls P G v (f x) s) \<Longrightarrow>
     by_calls P G v (andThen (query g) f) s"
  by (cases "g (e_repo s)") (auto simp: by_calls_def andThen_def query_def intro!: exI [of _ "[]"])

lemma safe_ask: "(\<And>r. P r \<Longrightarrow> safe P G v (f (g r))) \<Longrightarrow> safe P G v (andThen (ask g) f)"
  unfolding safe_def by (blast intro: by_calls_ask)

lemma safe_query:
  "(\<And>r x. P r \<Longrightarrow> g r = Inr x \<Longrightarrow> safe P G v (f x)) \<Longrightarrow> safe P G v (andThen (query g) f)"
  unfolding safe_def by (blast intro: by_calls_query)

lemma safe_quiet: "quiet m \<Longrightarrow> safe P G v m"
  by (auto simp: safe_def by_calls_def quiet_def intro!: exI [of _ "[]"])

lemmas safe_steps [safe_intros] = quiet_steps [THEN safe_quiet]

lemma safe_list:
  assumes "\<And>visit r. P r \<Longrightarrow> safe P G v (f (ListAlarms visit q r))"
  shows "safe P G v (andThen (list_alarms v q) f)"
  unfolding safe_def
proof (intro allI by_calls_andThen)
  fix s
  show "by_calls P G v (list_alarms v q) s"
    using safe_quiet [OF quiet_steps(11), of v q] by (simp add: safe_def)
  fix x s1
  assume p: "P (e_repo s1)" and l: "list_alarms v q s = (Inr x, s1)"
  then have "x = ListAlarms (v_visit v (e_calls s)) q (e_repo s1)" by (auto simp: list_alarms_def)
  then show "by_calls P G v (f x) s1" using assms [OF p] by (simp add: safe_def)
qed

lemma safe_update_repo:
  "(\<And>r. P r \<Longrightarrow> G c r) \<Longrightarrow> exec (v_sha v) (v_cp v) c = f \<Longrightarrow> safe P G v (update_repo f)"
  unfolding safe_def by (auto simp: by_calls_def update_repo_def intro!: exI [of _ "[c]"])

lemma by_calls_update_res:
  assumes "P (e_repo s) \<Longrightarrow> G c (e_repo s)"
    "exec (v_sha v) (v_cp v) c (e_repo s) = kept (e_repo s) (f (e_repo s))"
  shows "by_calls P G v (update_res f) s"
  using assms
  by (auto simp: by_calls_def update_res_def kept_def split: sum.split intro!: exI [of _ "[c]"])

lemma safe_update_res:
  "(\<And>r. P r \<Longrightarrow> G c r) \<Longrightarrow> (\<And>r. exec (v_sha v) (v_cp v) c r = kept r (f r)) \<Longrightarrow>
     safe P G v (update_res f)"
  unfolding safe_def by (blast intro: by_calls_update_res)

lemma safe_call_repo:
  "(\<And>r. P r \<Longrightarrow> G c r) \<Longrightarrow> (\<And>r. exec (v_sha v) (v_cp v) c r = snd (f r)) \<Longrightarrow> safe P G v (call_repo f)"
  unfolding safe_def by (auto simp: by_calls_def call_repo_def intro!: exI [of _ "[c]"])

lemma safe_ignore [safe_intros]: "safe P G v m \<Longrightarrow> safe P G v (ignore m)"
  by (simp add: safe_def by_calls_def ignore_def)

lemma safe_attempt [safe_intros]: "safe P G v m \<Longrightarrow> safe P G v (attempt m)"
  by (simp add: safe_def by_calls_def attempt_def)

lemma safe_wrapped [safe_intros]: "safe P G v m \<Longrightarrow> safe P G v (wrapped t m)"
  by (auto simp: safe_def by_calls_def wrapped_def split: prod.split sum.split) (metis snd_conv)+

lemma safe_each: "(\<And>x. x \<in> set xs \<Longrightarrow> safe P G v (f x)) \<Longrightarrow> safe P G v (each f xs)"
  by (induction xs) (auto intro: safe_intros)

lemma safe_if [safe_intros]:
  "(b \<Longrightarrow> safe P G v m) \<Longrightarrow> (\<not> b \<Longrightarrow> safe P G v n) \<Longrightarrow> safe P G v (if b then m else n)"
  by simp

lemma safe_case [safe_intros]:
  "safe P G v m \<Longrightarrow> (\<And>x. safe P G v (f x)) \<Longrightarrow> safe P G v (case y of None \<Rightarrow> m | Some x \<Rightarrow> f x)"
  "(\<And>e. safe P G v (h e)) \<Longrightarrow> (\<And>x. safe P G v (f x)) \<Longrightarrow> safe P G v (case z of Inl e \<Rightarrow> h e | Inr x \<Rightarrow> f x)"
  "(\<And>a b. safe P G v (g a b)) \<Longrightarrow> safe P G v (case p of (a, b) \<Rightarrow> g a b)"
  by (simp_all split: option.split sum.split prod.split)

end

end
