(* ===== verification/Engine_Inv.thy ===== *)
theory Engine_Inv
  imports Engine_Calls
begin

text \<open>
  The invariant of a repository the engine works on, and the guard its calls satisfy. Beside the
  repository's own invariant: one open alarm per device and rule, no rule with the identifier of a
  component alarm, and every open component alarm is the one its watermark names. The guard says what
  the engine makes sure of before a call: it never reopens an alarm, and the identifiers of component
  alarms are kept apart from those of rules.
\<close>

section \<open>Component alarms and their rule identifiers\<close>

text \<open>device-report:KIND:component:HASH, told from device-report:KIND by its colons.\<close>

definition component_rule :: "string \<Rightarrow> bool" where
  "component_rule i \<longleftrightarrow> has_prefix i directAlarmRulePrefix \<and> 3 \<le> length (filter (\<lambda>c. c = CHR '':'') i)"

definition component_key :: "alarm \<Rightarrow> string" where
  "component_key a = key [al_TenantID a, al_DeviceID a, al_RuleID a]"

definition component_link :: "repo \<Rightarrow> bool" where
  "component_link r \<longleftrightarrow> (\<forall>k a. mget (r_alarms r) k = Some a \<longrightarrow> open_status a \<longrightarrow>
     component_rule (al_RuleID a) \<longrightarrow> nul_free (al_DeviceID a) \<and>
     (\<exists>w. mget (r_componentAlarms r) (component_key a) = Some w \<and> ca_AlarmID w = al_ID a))"

definition rules_inv :: "repo \<Rightarrow> bool" where
  "rules_inv r \<longleftrightarrow> mall (\<lambda>k x. \<not> component_rule (ar_ID x)) (r_rules r)"

definition engine_inv :: "repo \<Rightarrow> bool" where
  "engine_inv r \<longleftrightarrow> repo_inv r \<and> alarms_inv (r_alarms r) \<and> component_link r \<and> rules_inv r"

definition alarm_guard :: "alarm_call \<Rightarrow> repo \<Rightarrow> bool" where
  "alarm_guard c r \<longleftrightarrow> (case c of
     C_SaveRule x \<Rightarrow> \<not> component_rule (ar_ID x)
   | C_UpsertAlarm a \<Rightarrow> nul_free (al_TenantID a) \<and> \<not> component_rule (al_RuleID a)
   | C_UpdateAlarm a \<Rightarrow> nul_free (al_TenantID a) \<and> (open_status a \<longrightarrow>
       (\<exists>b. mget (r_alarms r) (key [al_TenantID a, al_ID a]) = Some b \<and> same_alarm a b))
   | C_ApplyComponentAlarm a s \<Rightarrow> nul_free (al_TenantID a) \<and> nul_free (al_DeviceID a) \<and>
       component_rule (al_RuleID a)
   | _ \<Rightarrow> True)"

definition guard :: "call \<Rightarrow> repo \<Rightarrow> bool" where
  "guard c r \<longleftrightarrow> call_ok c \<and> (case c of Alarms x \<Rightarrow> alarm_guard x r | _ \<Rightarrow> True)"

text \<open>
  The calls that may be made in any state: those the guard allows, but for writing back an open alarm.
  Whatever else runs between the steps of a procedure made of them, its calls stay allowed.
\<close>

definition blind :: "call \<Rightarrow> repo \<Rightarrow> bool" where
  "blind c r \<longleftrightarrow> guard c r \<and> (case c of Alarms (C_UpdateAlarm a) \<Rightarrow> \<not> open_status a | _ \<Rightarrow> True)"

lemma blind_guard: "blind c r \<Longrightarrow> guard c r"
  by (simp add: blind_def)

lemma blind_anywhere: "blind c r \<Longrightarrow> blind c r'"
  by (auto simp: blind_def guard_def alarm_guard_def split: call.splits alarm_call.splits)

section \<open>The guarded calls keep the invariant\<close>

lemma component_linkD:
  assumes "component_link r" "mget (r_alarms r) k = Some a" "open_status a" "component_rule (al_RuleID a)"
  shows "nul_free (al_DeviceID a)"
    "\<exists>w. mget (r_componentAlarms r) (component_key a) = Some w \<and> ca_AlarmID w = al_ID a"
  using assms by (auto simp: component_link_def)

lemma component_link_put:
  assumes link: "component_link r" and "r_componentAlarms r' = r_componentAlarms r"
    and "r_alarms r' = mput (r_alarms r) k a"
    and "open_status a \<Longrightarrow> component_rule (al_RuleID a) \<Longrightarrow> nul_free (al_DeviceID a) \<and>
      (\<exists>w. mget (r_componentAlarms r) (component_key a) = Some w \<and> ca_AlarmID w = al_ID a)"
  shows "component_link r'"
  using assms by (auto simp: component_link_def)

lemma component_key_same:
  "same_alarm a b \<Longrightarrow> component_key b = component_key a"
  by (simp add: same_alarm_def component_key_def)

lemma UpsertAlarm_link:
  assumes inv: "alarms_inv (r_alarms r)" and link: "component_link r"
    and v: "\<not> component_rule (al_RuleID v)"
  shows "component_link (snd (UpsertAlarm v r))"
proof (cases rule: UpsertAlarm_cases [of r v])
  case created
  then have "UpsertAlarm v r =
      ((v, True), r\<lparr>r_alarms := mput (r_alarms r) (key [al_TenantID v, al_ID v]) v\<rparr>)"
    by (intro UpsertAlarm_new inv) auto
  then show ?thesis using v by (intro component_link_put [OF link]) auto
next
  case (repeated k a)
  then show ?thesis using UpsertAlarm_repeated [OF inv repeated] link by simp
next
  case (counted k a)
  then have "\<not> component_rule (al_RuleID (count_trigger v a))"
    using v by (simp add: same_alarm_def)
  then show ?thesis
    by (intro component_link_put [OF link]) (auto simp: UpsertAlarm_open [OF inv counted])
qed

text \<open>An update of an open alarm keeps tenant, device, rule and identifier.\<close>

lemma update_keeps_id:
  assumes inv: "alarms_inv m" and b: "mget m (key [al_TenantID a, al_ID a]) = Some b"
    and t: "nul_free (al_TenantID a)"
  shows "al_ID b = al_ID a" "al_TenantID b = al_TenantID a"
proof -
  have "key [al_TenantID a, al_ID a] = key [al_TenantID b, al_ID b]"
    by (rule alarms_invD(2) [OF inv b])
  then have "al_TenantID a = al_TenantID b \<and> al_ID a = al_ID b"
    by (rule key2_inject [OF t alarms_invD(3) [OF inv b], THEN iffD1])
  then show "al_ID b = al_ID a" "al_TenantID b = al_TenantID a" by simp_all
qed

lemma UpdateAlarm_keeps:
  assumes inv: "alarms_inv (r_alarms r)" and link: "component_link r"
    and g: "alarm_guard (C_UpdateAlarm a) r" and u: "UpdateAlarm a r = Inr r'"
  shows "alarms_inv (r_alarms r') \<and> component_link r'"
proof -
  let ?k = "key [al_TenantID a, al_ID a]"
  have r': "r' = r\<lparr>r_alarms := mput (r_alarms r) ?k a\<rparr>"
    using u by (simp add: UpdateAlarm_def Let_def split: if_split_asm)
  have t: "nul_free (al_TenantID a)" using g by (simp add: alarm_guard_def)
  show ?thesis
  proof (cases "open_status a")
    case False
    then have "alarms_inv (mput (r_alarms r) ?k a)"
      using t by (intro alarms_inv_mput [OF inv]) (auto simp: alarm_filed_def open_clash_def)
    moreover have "component_link r'"
      using False by (intro component_link_put [OF link]) (auto simp: r')
    ultimately show ?thesis by (simp add: r')
  next
    case True
    then obtain b where b: "mget (r_alarms r) ?k = Some b" "same_alarm a b"
      using g by (auto simp: alarm_guard_def)
    note same = update_keeps_id [OF inv b(1) t]
    have "alarms_inv (mput (r_alarms r) ?k a)"
      using t b(2) by (intro alarms_inv_replace [OF inv b(1)])
        (auto simp: alarm_filed_def open_clash_def same_alarm_def)
    moreover have "component_link r'"
    proof (rule component_link_put [OF link])
      assume "component_rule (al_RuleID a)"
      then show "nul_free (al_DeviceID a) \<and>
          (\<exists>w. mget (r_componentAlarms r) (component_key a) = Some w \<and> ca_AlarmID w = al_ID a)"
        using component_linkD [OF link b(1)] b(2) component_key_same [OF b(2)] same
        by (simp add: same_alarm_def)
    qed (simp_all add: r')
    ultimately show ?thesis by (simp add: r')
  qed
qed

text \<open>What TransitionComponentAlarm makes of the old alarm.\<close>

lemma transition_shape:
  assumes "TransitionComponentAlarm c old s = (a, event)"
  shows "(a = c \<and> \<not> open_status old) \<or>
    (al_ID a = al_ID old \<and> al_TenantID a = al_TenantID old \<and> al_DeviceID a = al_DeviceID old \<and>
     al_RuleID a = al_RuleID old \<and> (open_status a \<longrightarrow> open_status old))"
  using assms by (auto simp: TransitionComponentAlarm_def open_status_def Let_def split: if_splits)

lemma ApplyComponentAlarm_cases:
  obtains (stale) "snd (ApplyComponentAlarm c s r) = r"
    | (applied) a event where
      "TransitionComponentAlarm c (component_alarm (al_TenantID c) (component_key c) r) s = (a, event)"
      "snd (ApplyComponentAlarm c s r) = r\<lparr>r_alarms := (if al_ID a \<noteq> []
           then mput (r_alarms r) (key [al_TenantID a, al_ID a]) a else r_alarms r),
         r_componentAlarms := mput (r_componentAlarms r) (component_key c)
           (s\<lparr>ca_AlarmID := al_ID a, ca_Event := event\<rparr>)\<rparr>"
proof -
  let ?w = "watermark (component_key c) r" and ?old = "component_alarm (al_TenantID c) (component_key c) r"
  obtain a event where t: "TransitionComponentAlarm c ?old s = (a, event)"
    by fastforce
  have eq: "ApplyComponentAlarm c s r =
      (if ca_MessageID s = ca_MessageID ?w \<and> ca_Timestamp s = ca_Timestamp ?w then ((?old, ca_Event ?w), r)
       else if \<not> Supersedes s ?w then ((?old, []), r)
       else ((a, event), r\<lparr>r_alarms := (if al_ID a \<noteq> []
           then mput (r_alarms r) (key [al_TenantID a, al_ID a]) a else r_alarms r),
         r_componentAlarms := mput (r_componentAlarms r) (component_key c)
           (s\<lparr>ca_AlarmID := al_ID a, ca_Event := event\<rparr>)\<rparr>))"
    using t unfolding ApplyComponentAlarm_def component_alarm_def watermark_def component_key_def Let_def
    by (simp only: prod.case)
  show thesis
  proof (cases "ca_MessageID s = ca_MessageID ?w \<and> ca_Timestamp s = ca_Timestamp ?w \<or> \<not> Supersedes s ?w")
    case True
    then show thesis by (intro stale) (auto simp: eq simp del: key_simps)
  next
    case False
    then show thesis by (intro applied [OF t]) (auto simp: eq simp del: key_simps)
  qed
qed

lemma component_alarm_stored:
  assumes inv: "alarms_inv (r_alarms r)" and o: "open_status (component_alarm t k r)"
  shows "mget (r_alarms r) (key [al_TenantID (component_alarm t k r), al_ID (component_alarm t k r)]) =
    Some (component_alarm t k r)"
proof -
  let ?k = "key [t, ca_AlarmID (watermark k r)]"
  obtain b where b: "mget (r_alarms r) ?k = Some b"
    using o by (cases "mget (r_alarms r) ?k")
      (auto simp: component_alarm_def mget_or_def zero_alarm_def open_status_def simp del: key_simps)
  then have "component_alarm t k r = b" by (simp add: component_alarm_def mget_or_def)
  moreover have "?k = key [al_TenantID b, al_ID b]" by (rule alarms_invD(2) [OF inv b])
  ultimately show ?thesis using b by simp
qed

text \<open>An open alarm of the candidate's component is the one the watermark names.\<close>

lemma open_component_is_old:
  assumes inv: "alarms_inv (r_alarms r)" and link: "component_link r"
    and b: "mget (r_alarms r) k = Some b" "open_status b" "component_rule (al_RuleID b)"
    and c: "nul_free (al_TenantID c)" "nul_free (al_DeviceID c)" "component_key b = component_key c"
  shows "component_alarm (al_TenantID c) (component_key c) r = b"
proof -
  have "al_TenantID b = al_TenantID c"
    using c(3) key3_inject [OF alarms_invD(3) [OF inv b(1)] c(1) component_linkD(1) [OF link b] c(2)]
    by (simp add: component_key_def)
  moreover obtain w where "mget (r_componentAlarms r) (component_key b) = Some w" "ca_AlarmID w = al_ID b"
    using component_linkD(2) [OF link b] by blast
  ultimately have "key [al_TenantID c, ca_AlarmID (watermark (component_key c) r)] = k"
    using alarms_invD(2) [OF inv b(1)] c(3) by (simp add: watermark_def mget_or_def)
  then show ?thesis using b(1) by (simp add: component_alarm_def mget_or_def)
qed

lemma ApplyComponentAlarm_keeps:
  assumes inv: "alarms_inv (r_alarms r)" and link: "component_link r"
    and g: "alarm_guard (C_ApplyComponentAlarm c s) r"
  shows "alarms_inv (r_alarms (snd (ApplyComponentAlarm c s r))) \<and>
    component_link (snd (ApplyComponentAlarm c s r))"
proof (cases c s r rule: ApplyComponentAlarm_cases)
  case stale
  then show ?thesis using inv link by simp
next
  case (applied a event)
  let ?old = "component_alarm (al_TenantID c) (component_key c) r"
  let ?r = "snd (ApplyComponentAlarm c s r)" and ?k = "key [al_TenantID a, al_ID a]"
  have c: "nul_free (al_TenantID c)" "nul_free (al_DeviceID c)"
    using g by (simp_all add: alarm_guard_def)
  note old = open_component_is_old [OF inv link _ _ _ c]
  have shape: "(a = c \<and> \<not> open_status ?old) \<or> (al_ID a = al_ID ?old \<and> al_TenantID a = al_TenantID ?old \<and>
      al_DeviceID a = al_DeviceID ?old \<and> al_RuleID a = al_RuleID ?old \<and> (open_status a \<longrightarrow> open_status ?old))"
    by (rule transition_shape [OF applied(1)])
  have clash: "k = ?k"
    if "mget (r_alarms r) k = Some b" "open_clash a b" "al_ID a \<noteq> []" for k b
  proof -
    have b: "open_status b" "open_status a" "component_key b = component_key a" "al_RuleID b = al_RuleID a"
      using that(2) by (auto simp: open_clash_def component_key_def)
    show ?thesis using shape
    proof
      assume ac: "a = c \<and> \<not> open_status ?old"
      then have "?old = b" using b g by (intro old [OF that(1)]) (auto simp: alarm_guard_def)
      then show ?thesis using ac b by simp
    next
      assume ao: "al_ID a = al_ID ?old \<and> al_TenantID a = al_TenantID ?old \<and>
        al_DeviceID a = al_DeviceID ?old \<and> al_RuleID a = al_RuleID ?old \<and> (open_status a \<longrightarrow> open_status ?old)"
      then have "mget (r_alarms r) ?k = Some ?old" using component_alarm_stored [OF inv] b by simp
      moreover have "open_clash ?old b" using that(2) ao by (auto simp: open_clash_def)
      ultimately show ?thesis using alarms_invD(4) [OF inv] that(1) by blast
    qed
  qed
  have tenant: "nul_free (al_TenantID a)" if "al_ID a \<noteq> []"
    using shape
  proof
    assume "al_ID a = al_ID ?old \<and> al_TenantID a = al_TenantID ?old \<and>
        al_DeviceID a = al_DeviceID ?old \<and> al_RuleID a = al_RuleID ?old \<and> (open_status a \<longrightarrow> open_status ?old)"
    moreover have "nul_free (al_TenantID ?old)"
      using alarms_invD(3) [OF inv]
      by (auto simp: component_alarm_def mget_or_def zero_alarm_def nul_free_def simp del: key_simps
          split: option.split)
    ultimately show ?thesis by simp
  qed (use c in simp)
  have "alarms_inv (r_alarms ?r)"
    unfolding applied(2) using inv clash tenant
    by (auto simp: alarm_filed_def simp del: key_simps intro!: alarms_inv_mput)
  moreover have "component_link ?r"
    unfolding component_link_def
  proof (intro allI impI)
    fix k b
    assume b: "mget (r_alarms ?r) k = Some b" "open_status b" "component_rule (al_RuleID b)"
    show "nul_free (al_DeviceID b) \<and>
        (\<exists>w. mget (r_componentAlarms ?r) (component_key b) = Some w \<and> ca_AlarmID w = al_ID b)"
    proof (cases "mget (r_alarms r) k = Some b")
      case True
      then show ?thesis
        using old [OF True b(2,3)] shape b component_linkD [OF link True b(2,3)]
        by (auto simp: applied(2))
    next
      case False
      then have ba: "b = a" using b(1) by (auto simp: applied(2) split: if_splits)
      then show ?thesis using shape b c component_linkD [OF link component_alarm_stored [OF inv]]
        by (auto simp: applied(2) component_key_def)
    qed
  qed
  ultimately show ?thesis ..
qed

lemma UpsertAlarm_rules: "r_rules (snd (UpsertAlarm a r)) = r_rules r"
  and UpdateAlarm_rules: "UpdateAlarm a r = Inr r' \<Longrightarrow> r_rules r' = r_rules r"
  and ApplyComponentAlarm_rules: "r_rules (snd (ApplyComponentAlarm a s r)) = r_rules r"
  by (auto simp: UpsertAlarm_def UpdateAlarm_def ApplyComponentAlarm_def Let_def
      split: option.split if_splits prod.split)

lemma alarms_frame_inventory [simp]:
  "r_alarms (exec_inventory c r) = r_alarms r" "r_rules (exec_inventory c r) = r_rules r"
  "r_componentAlarms (exec_inventory c r) = r_componentAlarms r"
  by (cases c; simp add: inventory_defs kept_def Let_def split: option.split sum.split)+

lemma alarms_frame_message [simp]:
  "r_alarms (exec_message sha cp c r) = r_alarms r" "r_rules (exec_message sha cp c r) = r_rules r"
  "r_componentAlarms (exec_message sha cp c r) = r_componentAlarms r"
  by (cases c; simp add: message_defs kept_def Let_def split: option.split sum.split)+

lemma alarms_frame_record [simp]:
  "r_alarms (exec_record c r) = r_alarms r" "r_rules (exec_record c r) = r_rules r"
  "r_componentAlarms (exec_record c r) = r_componentAlarms r"
  by (cases c; simp add: record_defs)+

lemma alarms_frame_device [simp]:
  "r_alarms (exec_device sha c r) = r_alarms r" "r_rules (exec_device sha c r) = r_rules r"
  "r_componentAlarms (exec_device sha c r) = r_componentAlarms r"
proof -
  have o: "r_alarms (snd (SaveOnboarding b r)) = r_alarms r"
    "r_rules (snd (SaveOnboarding b r)) = r_rules r"
    "r_componentAlarms (snd (SaveOnboarding b r)) = r_componentAlarms r" for b
    by (simp add: SaveOnboarding_def SaveDeviceAccessProfile_def onboard_release_def onboard_point_table_def
        onboard_product_def onboard_binding_def Let_def split: option.split)+
  show "r_alarms (exec_device sha c r) = r_alarms r" "r_rules (exec_device sha c r) = r_rules r"
    "r_componentAlarms (exec_device sha c r) = r_componentAlarms r"
    by (cases c; simp add: device_defs o kept_def Let_def split: option.split sum.split)+
qed

lemma component_link_frame:
  "r_alarms r' = r_alarms r \<Longrightarrow> r_componentAlarms r' = r_componentAlarms r \<Longrightarrow>
     component_link r' = component_link r"
  by (simp add: component_link_def)

lemma rules_inv_frame: "r_rules r' = r_rules r \<Longrightarrow> rules_inv r' = rules_inv r"
  by (simp add: rules_inv_def)

lemma alarm_calls_keep:
  assumes inv: "alarms_inv (r_alarms r)" and link: "component_link r" and rules: "rules_inv r"
    and g: "alarm_guard c r"
  shows "alarms_inv (r_alarms (exec_alarm c r)) \<and> component_link (exec_alarm c r) \<and> rules_inv (exec_alarm c r)"
proof -
  have frame: ?thesis if "r_alarms (exec_alarm c r) = r_alarms r"
      "r_componentAlarms (exec_alarm c r) = r_componentAlarms r" "rules_inv (exec_alarm c r)"
    using that inv link component_link_frame [of "exec_alarm c r" r] by simp
  show ?thesis
  proof (cases c)
    case (C_UpsertAlarm a)
    then show ?thesis
      using g UpsertAlarm_keeps_one [OF inv, of a] UpsertAlarm_link [OF inv link, of a] rules
      by (simp add: alarm_guard_def rules_inv_def UpsertAlarm_rules)
  next
    case (C_UpdateAlarm a)
    then show ?thesis
      using g UpdateAlarm_keeps [OF inv link, of a] inv link rules
      by (cases "UpdateAlarm a r") (auto simp: rules_inv_def UpdateAlarm_rules)
  next
    case (C_ApplyComponentAlarm a s)
    then show ?thesis
      using g ApplyComponentAlarm_keeps [OF inv link, of a s] rules
      by (simp add: rules_inv_def ApplyComponentAlarm_rules)
  next
    case (C_SaveRule x)
    then show ?thesis using g rules
      by (intro frame) (simp_all add: alarm_guard_def rules_inv_def SaveRule_def mall_mput)
  next
    case (C_DeleteRule a b)
    then show ?thesis using rules
      by (intro frame) (simp_all add: rules_inv_def DeleteRule_def Let_def mall_mdel)
  qed (use rules in \<open>intro frame; simp add: alarm_defs kept_def Let_def rules_inv_def
      split: option.split sum.split prod.split\<close>)+
qed

lemma guard_keeps_engine_inv:
  assumes inv: "engine_inv r" and g: "guard c r"
  shows "engine_inv (exec sha cp c r)"
proof -
  have repo: "repo_inv (exec sha cp c r)"
    using inv g exec_inv by (simp add: engine_inv_def guard_def)
  show ?thesis
    using repo inv g alarm_calls_keep [of r] component_link_frame [of "exec sha cp c r" r]
      rules_inv_frame [of "exec sha cp c r" r]
    by (cases c) (auto simp: engine_inv_def guard_def)
qed

interpretation engine_calls: guarded_calls engine_inv guard v for v
  by unfold_locales (rule guard_keeps_engine_inv)

interpretation blind_calls: guarded_calls engine_inv blind v for v
  by unfold_locales (auto intro: guard_keeps_engine_inv blind_guard)

lemma path_blind: "path blind v r cs \<Longrightarrow> path guard v r cs"
  by (induction cs arbitrary: r) (auto intro: blind_guard)

lemma blind_is_guarded: "safe P blind v m \<Longrightarrow> safe P guard v m"
  by (auto simp: safe_def by_calls_def intro: path_blind)

lemma engine_inv_start: "engine_inv NewRepository"
  by (simp add: engine_inv_def repo_inv_start)
    (simp add: NewRepository_def alarms_inv_def alarm_store.store_inv_Nil component_link_def rules_inv_def)

end
