(* ===== verification/Engine_Handlers.thy ===== *)
theory Engine_Handlers
  imports Engine_Inv
begin

text \<open>
  Every handler of the engine but SetAlarmStatus is a procedure of blind calls, which may be made in any
  state that keeps the invariant: the calls one by one, then the procedures from the inside out. A rule
  of such a procedure takes what it has read earlier as given and the state as any other, so that the
  calls stay allowed when other handlers run between its steps.
\<close>

section \<open>The calls\<close>

abbreviation "unlocked v m \<equiv> safe engine_inv blind v m"

lemma quiet_calls [safe_intros]:
  "unlocked v (update_repo (UpsertDeviceState st))" "unlocked v (update_repo (SaveDeviceStateEvent st n))"
  "unlocked v (update_repo (DeleteRulePendings t i))" "unlocked v (update_repo (DeleteRulePending t i d))"
  "unlocked v (update_repo (SaveRulePending t i d n))" "unlocked v (update_repo (SaveAudit x))"
  "unlocked v (update_repo (MarkRawParseResult t i n e))"
  "unlocked v (update_repo (CompleteDeviceCommand t d i reply n))"
  using blind_calls.safe_update_repo [of "Messages (C_UpsertDeviceState st)"]
    blind_calls.safe_update_repo [of "Messages (C_SaveDeviceStateEvent st n)"]
    blind_calls.safe_update_repo [of "Alarms (C_DeleteRulePendings t i)"]
    blind_calls.safe_update_repo [of "Alarms (C_DeleteRulePending t i d)"]
    blind_calls.safe_update_repo [of "Alarms (C_SaveRulePending t i d n)"]
    blind_calls.safe_update_repo [of "Records (C_SaveAudit x)"]
    blind_calls.safe_update_repo [of "Messages (C_MarkRawParseResult t i n e)"]
    blind_calls.safe_update_repo [of "Devices (C_CompleteDeviceCommand t d i reply n)"]
  by (simp_all add: blind_def guard_def call_ok_def alarm_guard_def fun_eq_iff)

lemma result_calls [safe_intros]:
  "unlocked v (update_res (DeleteRule t i))" "unlocked v (update_res (MarkRawPublished t i n e))"
  "unlocked v (update_res (MarkStandardMessageProcessed t i))"
  "unlocked v (update_res (SaveRawMessage (v_sha v) (v_cp v) raw))"
  using blind_calls.safe_update_res [of "Alarms (C_DeleteRule t i)"]
    blind_calls.safe_update_res [of "Messages (C_MarkRawPublished t i n e)"]
    blind_calls.safe_update_res [of "Messages (C_MarkStandardMessageProcessed t i)"]
    blind_calls.safe_update_res [of "Messages (C_SaveRawMessage raw)"]
  by (simp_all add: blind_def guard_def call_ok_def alarm_guard_def)

lemmas call_repo_rule = blind_calls.safe_call_repo [where c = c for c]

lemma value_calls [safe_intros]:
  "unlocked v (call_repo (ReserveRawMessage (v_sha v) (v_cp v) raw))" "unlocked v (call_repo (SaveRawIndex idx))"
  "unlocked v (call_repo (ClaimStandardMessage msg))"
  by (rule call_repo_rule [of "Messages (C_ReserveRawMessage raw)"]
      call_repo_rule [of "Messages (C_SaveRawIndex idx)"]
      call_repo_rule [of "Messages (C_ClaimStandardMessage msg)"]; simp add: blind_def guard_def call_ok_def)+

lemma unlocked_SaveManagedDevice:
  "nul_free (md_TenantID d) \<Longrightarrow> unlocked v (update_res (SaveManagedDevice d))"
  using blind_calls.safe_update_res [of "Inventory (C_SaveManagedDevice d)"]
  by (simp add: blind_def guard_def call_ok_def)

lemma unlocked_UpsertAlarm:
  "nul_free (al_TenantID a) \<Longrightarrow> \<not> component_rule (al_RuleID a) \<Longrightarrow> unlocked v (call_repo (UpsertAlarm a))"
  by (rule call_repo_rule [of "Alarms (C_UpsertAlarm a)"]) (simp_all add: blind_def guard_def call_ok_def alarm_guard_def)

lemma unlocked_ApplyComponentAlarm:
  "nul_free (al_TenantID a) \<Longrightarrow> nul_free (al_DeviceID a) \<Longrightarrow> component_rule (al_RuleID a) \<Longrightarrow>
     unlocked v (call_repo (ApplyComponentAlarm a s))"
  by (rule call_repo_rule [of "Alarms (C_ApplyComponentAlarm a s)"])
    (simp_all add: blind_def guard_def call_ok_def alarm_guard_def)

lemma unlocked_UpdateAlarm_closed:
  "nul_free (al_TenantID a) \<Longrightarrow> \<not> open_status a \<Longrightarrow> unlocked v (update_res (UpdateAlarm a))"
  using blind_calls.safe_update_res [of "Alarms (C_UpdateAlarm a)"]
  by (simp add: blind_def guard_def call_ok_def alarm_guard_def)

section \<open>Device states\<close>

lemma unlocked_touchState [safe_intros]: "unlocked v (touchState v msg)"
  unfolding touchState_def Let_def by (intro safe_intros)

lemma unlocked_updateDeviceState [safe_intros]:
  "unlocked v (updateDeviceState v st)" "unlocked v (UpdateDeviceState v st)"
  unfolding UpdateDeviceState_def updateDeviceState_def Let_def by (intro safe_intros)+

lemma unlocked_hasOpenAlarm [safe_intros]: "unlocked v (hasOpenAlarm v t d)"
  unfolding hasOpenAlarm_def has_alarm.simps by (intro safe_intros)

lemma unlocked_syncDeviceBusinessStatus [safe_intros]: "unlocked v (syncDeviceBusinessStatus v t p d)"
  unfolding syncDeviceBusinessStatus_def Let_def by (intro safe_intros)

lemma unlocked_ReportConnection [safe_intros]: "unlocked v (ReportConnection v t p d c at)"
  unfolding ReportConnection_def Let_def by (intro safe_intros)

lemma unlocked_ScanOffline [safe_intros]: "unlocked v (ScanOffline v)"
  unfolding ScanOffline_def by (intro safe_intros blind_calls.safe_each)

lemma unlocked_handleState [safe_intros]: "unlocked v (handleState v st msg)"
  unfolding handleState_def by (intro safe_intros)

section \<open>Alarms\<close>

lemma unlocked_announce [safe_intros]: "unlocked v (announce v t e a)"
  unfolding announce_def by (intro safe_intros)

lemma message_alarm_simps [simp]:
  "al_TenantID (message_alarm v msg i r) = sm_TenantID msg" "al_ID (message_alarm v msg i r) = i"
  "al_DeviceID (message_alarm v msg i r) = sm_DeviceID msg" "al_Status (message_alarm v msg i r) = ''ACTIVE''"
  "al_TriggerID (message_alarm v msg i r) = sm_MessageID msg"
  by (simp_all add: message_alarm_def)

text \<open>The alarm kind of a message has no colon, so its rule is no component's.\<close>

lemma set_trim_chars: "set (trim_chars cs s) \<subseteq> set s"
proof -
  have "set (dropWhile Q xs) \<subseteq> set xs" for Q and xs :: string by (meson set_dropWhileD subsetI)
  then show ?thesis unfolding trim_chars_def by (metis set_rev subset_trans)
qed

lemma normalizeAlarmToken_chars: "c \<in> set (normalizeAlarmToken v x) \<Longrightarrow> token_char c"
proof -
  have "set (take n (trim_chars cs (filter token_char s))) \<subseteq> Collect token_char" for n cs s
    using set_take_subset [of n "trim_chars cs (filter token_char s)"] set_trim_chars [of cs "filter token_char s"]
    by auto
  then show "c \<in> set (normalizeAlarmToken v x) \<Longrightarrow> token_char c"
    by (auto simp: normalizeAlarmToken_def Let_def split: if_splits)
qed

lemma directAlarmMetadata_chars: "c \<in> set (fst (directAlarmMetadata v msg)) \<Longrightarrow> token_char c"
proof -
  have "\<forall>s \<in> {''FIRE'', ''SMOKE_DETECTED'', ''DEVICE_FAULT'', ''DEVICE_OFFLINE'', ''MANUAL_ALARM''}.
      \<forall>c \<in> set s. token_char c"
    by (simp add: token_char_def)
  then show "c \<in> set (fst (directAlarmMetadata v msg)) \<Longrightarrow> token_char c"
    using normalizeAlarmToken_chars
    by (auto simp: directAlarmMetadata_def Let_def split: if_splits)
qed

lemma no_colon_no_component: "(\<And>c. c \<in> set s \<Longrightarrow> token_char c) \<Longrightarrow> \<not> component_rule (directAlarmRuleID s)"
proof -
  assume "\<And>c. c \<in> set s \<Longrightarrow> token_char c"
  moreover have "\<not> token_char (CHR '':'')" by (simp add: token_char_def)
  ultimately have "filter (\<lambda>c. c = CHR '':'') s = []" by (auto simp: filter_empty_conv)
  then show ?thesis
    by (simp add: component_rule_def directAlarmRuleID_def directAlarmRulePrefix_def)
qed

lemma unlocked_raiseDirectAlarm:
  assumes "nul_free (sm_TenantID msg)"
  shows "unlocked v (raiseDirectAlarm v msg)"
proof -
  obtain kind level where m: "directAlarmMetadata v msg = (kind, level)" by fastforce
  then have "\<not> component_rule (directAlarmRuleID kind)"
    using directAlarmMetadata_chars [of _ v msg] by (intro no_colon_no_component) simp
  then show ?thesis
    using assms unfolding raiseDirectAlarm_def m Let_def prod.case
    by (intro safe_intros blind_calls.safe_ask unlocked_UpsertAlarm) simp_all
qed

lemma unlocked_run_action [safe_intros]: "unlocked v (run_action v rule msg saved action)"
  unfolding run_action_def Let_def by (intro safe_intros)

lemma unlocked_raiseRuleAlarm:
  assumes "nul_free (sm_TenantID msg)" "\<not> component_rule (ar_ID rule)"
  shows "unlocked v (raiseRuleAlarm v rule msg)"
  using assms unfolding raiseRuleAlarm_def Let_def
  by (intro safe_intros blind_calls.safe_ask unlocked_UpsertAlarm blind_calls.safe_each) simp_all

lemma recovered_simps [simp]:
  "al_TenantID (recovered v a) = al_TenantID a" "al_ID (recovered v a) = al_ID a"
  "\<not> open_status (recovered v a)"
  by (simp_all add: recovered_def open_status_def)

lemma unlocked_recover_one: "nul_free (al_TenantID a) \<Longrightarrow> unlocked v (recover_one v a)"
  unfolding recover_one_def by (intro safe_intros unlocked_UpdateAlarm_closed) simp_all

lemma mset_visited: "mset (mfilter P (sort_key visit m)) = mset (mfilter P m)"
  by (simp add: mfilter_def mvals_def)

lemma ListAlarms_subset:
  assumes "a \<in> set (ListAlarms visit f r)"
  shows "a \<in> set (mfilter (\<lambda>x. \<not> alarm_skipped f x) (r_alarms r))"
proof -
  have "a \<in> set (mfilter (\<lambda>x. \<not> alarm_skipped f x) (sort_key (\<lambda>e. visit (fst e)) (r_alarms r)))"
    using assms set_page unfolding ListAlarms_def by fastforce
  then show ?thesis by (simp only: mset_eq_setD [OF mset_visited])
qed

lemma ListAlarms_stored:
  assumes "alarms_inv (r_alarms r)" "a \<in> set (ListAlarms visit f r)"
  shows "\<exists>k. mget (r_alarms r) k = Some a" "\<not> alarm_skipped f a" "nul_free (al_TenantID a)"
proof -
  have wf: "mwf (r_alarms r)" by (rule alarms_invD(1) [OF assms(1)])
  have a: "a \<in> set (mfilter (\<lambda>x. \<not> alarm_skipped f x) (r_alarms r))"
    by (rule ListAlarms_subset [OF assms(2)])
  then show "\<not> alarm_skipped f a" by (simp add: mfilter_def)
  show "\<exists>k. mget (r_alarms r) k = Some a"
    using a by (auto simp: mfilter_def mvals_set [OF wf])
  then show "nul_free (al_TenantID a)" using alarms_invD(3) [OF assms(1)] by blast
qed

lemma engine_invD:
  assumes "engine_inv r"
  shows "repo_inv r" "alarms_inv (r_alarms r)" "component_link r" "rules_inv r"
  using assms by (simp_all add: engine_inv_def)

lemma unlocked_recoverDirectAlarms [safe_intros]: "unlocked v (recoverDirectAlarms v msg)"
  unfolding recoverDirectAlarms_def device_alarms_def
  by (intro blind_calls.safe_each blind_calls.safe_list blind_calls.safe_if blind_calls.safe_steps
      unlocked_recover_one ListAlarms_stored(3) engine_invD(2))

lemma unlocked_recoverRuleAlarm [safe_intros]: "unlocked v (recoverRuleAlarm v rule msg)"
  unfolding recoverRuleAlarm_def device_alarms_def
  by (intro blind_calls.safe_each blind_calls.safe_list blind_calls.safe_if blind_calls.safe_steps
      unlocked_recover_one ListAlarms_stored(3) engine_invD(2))

lemma component_candidate_simps [simp]:
  "al_TenantID (component_candidate v msg c kind i r) = sm_TenantID msg"
  "al_DeviceID (component_candidate v msg c kind i r) = sm_DeviceID msg"
  "al_ID (component_candidate v msg c kind i r) = i"
  by (simp_all add: component_candidate_def)

lemma component_candidate_rule: "component_rule (al_RuleID (component_candidate v msg c kind i r))"
  by (simp add: component_candidate_def component_rule_def directAlarmRulePrefix_def has_prefix_def)

lemma unlocked_applyComponentAlarms:
  "nul_free (sm_TenantID msg) \<Longrightarrow> nul_free (sm_DeviceID msg) \<Longrightarrow>
     unlocked v (applyComponentAlarms v msg components)"
  unfolding applyComponentAlarms_def apply_kind_def
  by (intro blind_calls.safe_each blind_calls.safe_ask blind_calls.safe_andThen blind_calls.safe_if
      blind_calls.safe_case blind_calls.safe_steps unlocked_ApplyComponentAlarm component_candidate_rule)
    simp_all

lemma unlocked_close_status: "unlocked v (close_status v fuel tenant ruleID status offset affected)"
proof (induction fuel arbitrary: offset affected)
  case 0
  then show ?case by (simp add: blind_calls.safe_steps)
next
  case (Suc fuel)
  show ?case
    unfolding close_status.simps Let_def
    by (intro blind_calls.safe_list blind_calls.safe_andThen blind_calls.safe_if blind_calls.safe_each
        blind_calls.safe_steps unlocked_recover_one Suc.IH)
      (auto dest: engine_invD(2) ListAlarms_stored(3))
qed

lemma unlocked_closeRuleAlarms [safe_intros]: "unlocked v (closeRuleAlarms v fuel tenant ruleID)"
  unfolding closeRuleAlarms_def
  by (intro safe_intros unlocked_close_status blind_calls.safe_each)

lemma unlocked_rules_closed [safe_intros]:
  "unlocked v (engine_DeleteRule v fuel tenant ruleID)" "unlocked v (engine_DisableRule v fuel tenant ruleID)"
  unfolding engine_DeleteRule_def engine_DisableRule_def by (intro safe_intros)+

section \<open>Messages\<close>

lemma unlocked_publishArchivedRaw [safe_intros]: "unlocked v (publishArchivedRaw v idx raw)"
  unfolding publishArchivedRaw_def by (intro safe_intros)

lemma unlocked_retryPendingRaw [safe_intros]: "unlocked v (retryPendingRaw v)"
  unfolding retryPendingRaw_def retry_one_def by (intro safe_intros blind_calls.safe_each)

lemma unlocked_PutRaw [safe_intros]: "unlocked v (PutRaw v raw)"
  unfolding PutRaw_def chooseBackend_def Let_def by (intro safe_intros)

lemma unlocked_ensureGatewayChild:
  assumes "nul_free (rm_TenantID raw)"
  shows "unlocked v (ensureGatewayChild v raw)"
proof -
  have t: "nul_free (md_TenantID (new_child v raw g secret i))" for g secret i
    using assms by (simp add: new_child_def)
  show ?thesis
    unfolding ensureGatewayChild_def Let_def
    by (intro safe_intros) (auto split: child_check.split intro!: safe_intros unlocked_SaveManagedDevice t)
qed

lemma unlocked_IngestRaw:
  assumes "nul_free (rm_TenantID raw)"
  shows "unlocked v (IngestRaw v raw)"
proof -
  have t: "nul_free (rm_TenantID (bind_protocol (Normalize v raw) r))" for r
    using assms by (auto simp: bind_protocol_def Normalize_def Let_def split: sum.split)
  show ?thesis
    unfolding IngestRaw_def ingest_again_def ingest_new_def
    by (intro blind_calls.safe_ask blind_calls.safe_case blind_calls.safe_andThen blind_calls.safe_if
        blind_calls.safe_steps blind_calls.safe_wrapped unlocked_ensureGatewayChild t value_calls
        unlocked_publishArchivedRaw unlocked_PutRaw)
qed

lemma unlocked_handleRaw [safe_intros]: "unlocked v (handleRaw v raw)"
  unfolding handleRaw_def Let_def by (intro safe_intros)

lemma unlocked_apply_rule:
  assumes "nul_free (sm_TenantID msg)" "\<not> component_rule (ar_ID rule)"
  shows "unlocked v (apply_rule v msg rule)"
  unfolding apply_rule_def durationSatisfied_def clearDuration_def Let_def
  by (intro safe_intros unlocked_raiseRuleAlarm assms)

lemma unlocked_apply_rules:
  "nul_free (sm_TenantID msg) \<Longrightarrow> (\<And>x. x \<in> set rules \<Longrightarrow> \<not> component_rule (ar_ID x)) \<Longrightarrow>
     unlocked v (apply_rules v msg rules b)"
  by (induction rules arbitrary: b)
    (simp_all add: blind_calls.safe_steps blind_calls.safe_andThen unlocked_apply_rule)

lemma ListRules_no_component:
  assumes "rules_inv r" "x \<in> set (ListRules tenant r)"
  shows "\<not> component_rule (ar_ID x)"
  using assms by (auto simp: rules_inv_def mall_def ListRules_def mfilter_def mvals_def)

lemma unlocked_handleStandard:
  assumes "nul_free (sm_TenantID msg)" "nul_free (sm_DeviceID msg)"
  shows "unlocked v (handleStandard v msg)"
proof -
  have reply: "unlocked v (reply_command v msg)"
    unfolding reply_command_def by (auto split: option.split any.split intro!: safe_intros)
  have steps: "unlocked v (device_alarm_steps v msg cs b)" for cs b
    unfolding device_alarm_steps_def
    by (intro safe_intros unlocked_applyComponentAlarms unlocked_raiseDirectAlarm assms)
  show ?thesis
    unfolding handleStandard_def
    by (intro blind_calls.safe_case blind_calls.safe_steps blind_calls.safe_if blind_calls.safe_ask
        blind_calls.safe_andThen value_calls result_calls reply steps
        unlocked_touchState unlocked_syncDeviceBusinessStatus unlocked_apply_rules assms
        ListRules_no_component engine_invD(4))
qed

section \<open>Operators\<close>

text \<open>
  SetAlarmStatus writes back an alarm it has read: as long as nothing comes between the two, an alarm it
  acknowledges is still open.
\<close>

lemma operator_status_keeps:
  assumes "operator_status v status a0 = Inr a"
  shows "al_TenantID a = al_TenantID a0" "al_ID a = al_ID a0" "al_DeviceID a = al_DeviceID a0"
    "al_RuleID a = al_RuleID a0" "open_status a \<Longrightarrow> open_status a0"
  using assms by (auto simp: operator_status_def open_status_def split: if_splits)

lemma SetAlarmStatus_read_Inr:
  "fst (SetAlarmStatus_read v tenant i status s) = Inr a \<longleftrightarrow>
     (\<exists>a0. GetAlarm tenant i (e_repo s) = Inr a0 \<and> operator_status v status a0 = Inr a)"
  "snd (SetAlarmStatus_read v tenant i status s) = s"
  by (auto simp: SetAlarmStatus_read_def andThen_def query_def fail_def ret_def split: sum.split)

lemma guarded_write:
  assumes "engine_inv (e_repo s) \<Longrightarrow> alarm_guard (C_UpdateAlarm a) (e_repo s)"
  shows "by_calls engine_inv guard v (SetAlarmStatus_write v tenant i status actor a) s"
proof -
  have "by_calls engine_inv guard v (update_res (UpdateAlarm a)) s"
    using assms by (intro engine_calls.by_calls_update_res [of _ "Alarms (C_UpdateAlarm a)"])
      (simp_all add: guard_def call_ok_def)
  then have "by_calls engine_inv guard v (andThen (update_res (UpdateAlarm a)) f) s"
    if "\<And>x. unlocked v (f x)" for f :: "unit \<Rightarrow> alarm proc"
    using blind_is_guarded [OF that] by (intro engine_calls.by_calls_andThen) (simp_all add: safe_def)
  then show ?thesis unfolding SetAlarmStatus_write_def by this (intro safe_intros)
qed

lemma guarded_SetAlarmStatus:
  assumes "engine_inv (e_repo s)"
  shows "by_calls engine_inv guard v (SetAlarmStatus v tenant i status actor) s"
proof (cases "SetAlarmStatus_read v tenant i status s")
  case (Pair y s1)
  have s1: "s1 = s" using SetAlarmStatus_read_Inr(2) [of v tenant i status s] Pair by simp
  show ?thesis
  proof (cases y)
    case (Inl e)
    then show ?thesis using Pair s1
      by (auto simp: SetAlarmStatus_def by_calls_def andThen_def intro!: exI [of _ "[]"])
  next
    case (Inr a)
    then obtain a0 where a0: "mget (r_alarms (e_repo s)) (key [tenant, i]) = Some a0"
        "operator_status v status a0 = Inr a"
      using SetAlarmStatus_read_Inr(1) [of v tenant i status s a] Pair
      by (auto simp: GetAlarm_def found_def simp del: key_simps split: option.splits)
    note k = operator_status_keeps [OF a0(2)]
    have "alarm_guard (C_UpdateAlarm a) (e_repo s)"
      using a0(1) k alarms_invD(2,3) [OF engine_invD(2) [OF assms] a0(1)]
      by (auto simp: alarm_guard_def same_alarm_def simp del: key_simps)
    then have "by_calls engine_inv guard v (SetAlarmStatus_write v tenant i status actor a) s"
      by (rule guarded_write)
    then show ?thesis using Pair s1 Inr by (simp add: SetAlarmStatus_def by_calls_def andThen_def)
  qed
qed

end
