(* ===== verification/Engine_Props.thy ===== *)
theory Engine_Props
  imports Engine_Handlers
begin

text \<open>
  Histories of the engine: handlers in any order, under any clock and any failures of bus and MQTT,
  mixed with direct calls of the repository that the guard lets through. What holds after all of them.
\<close>

section \<open>Histories\<close>

datatype handler =
    H_IngestRaw raw_message
  | H_retryPendingRaw
  | H_handleRaw raw_message
  | H_handleStandard standard_message
  | H_handleState "device_state option" "standard_message option"
  | H_ReportConnection string string string bool int
  | H_ScanOffline
  | H_SetAlarmStatus string string string string
  | H_DeleteRule nat string string
  | H_DisableRule nat string string

fun handle :: "env \<Rightarrow> handler \<Rightarrow> engine \<Rightarrow> engine" where
  "handle v (H_IngestRaw raw) s = snd (IngestRaw v raw s)"
| "handle v H_retryPendingRaw s = snd (retryPendingRaw v s)"
| "handle v (H_handleRaw raw) s = snd (handleRaw v raw s)"
| "handle v (H_handleStandard msg) s = snd (handleStandard v msg s)"
| "handle v (H_handleState st msg) s = snd (handleState v st msg s)"
| "handle v (H_ReportConnection t p d c at) s = snd (ReportConnection v t p d c at s)"
| "handle v H_ScanOffline s = snd (ScanOffline v s)"
| "handle v (H_SetAlarmStatus t i status actor) s = snd (SetAlarmStatus v t i status actor s)"
| "handle v (H_DeleteRule fuel t i) s = snd (engine_DeleteRule v fuel t i s)"
| "handle v (H_DisableRule fuel t i) s = snd (engine_DisableRule v fuel t i s)"

text \<open>What the transports ensure: identifiers have no NUL byte.\<close>

fun handler_ok :: "handler \<Rightarrow> bool" where
  "handler_ok (H_IngestRaw raw) = nul_free (rm_TenantID raw)"
| "handler_ok (H_handleStandard msg) = (nul_free (sm_TenantID msg) \<and> nul_free (sm_DeviceID msg))"
| "handler_ok _ = True"

definition started :: engine where
  "started = \<lparr>e_repo = NewRepository, e_click = NewRepository, e_last = [], e_out = [], e_calls = 0\<rparr>"

text \<open>The engines that can be observed after the engine s, and those observable at all.\<close>

inductive later :: "engine \<Rightarrow> engine \<Rightarrow> bool" for s where
  now: "later s s"
| handler: "later s t \<Longrightarrow> handler_ok h \<Longrightarrow> later s (handle v h t)"
| api: "later s t \<Longrightarrow> guard c (e_repo t) \<Longrightarrow>
    later s (t\<lparr>e_repo := exec (v_sha (v :: env)) (v_cp v) c (e_repo t)\<rparr>)"

inductive_cases later_elim: "later s t"

text \<open>Every handler but SetAlarmStatus makes blind calls only, SetAlarmStatus alone makes guarded ones.\<close>

fun operator_handler :: "handler \<Rightarrow> bool" where
  "operator_handler (H_SetAlarmStatus t i status actor) = True"
| "operator_handler _ = False"

lemma handle_by_blind_calls:
  assumes "handler_ok h" "\<not> operator_handler h" "engine_inv (e_repo s)"
  shows "\<exists>cs. path blind v (e_repo s) cs \<and> e_repo (handle v h s) = run (v_sha v) (v_cp v) cs (e_repo s)"
proof -
  have g: "\<exists>cs. path blind v (e_repo s) cs \<and> e_repo (snd (m s)) = run (v_sha v) (v_cp v) cs (e_repo s)"
    if "unlocked v m" for m :: "'a proc"
    using that assms(3) by (simp add: safe_def by_calls_def)
  show ?thesis
  proof (cases h)
    case (H_IngestRaw raw)
    then show ?thesis using g [OF unlocked_IngestRaw] assms(1) by simp
  next
    case (H_handleStandard msg)
    then show ?thesis
      using assms unlocked_handleStandard [of msg v] by (simp add: safe_def by_calls_def)
  qed (use assms(2,3) unlocked_retryPendingRaw unlocked_handleRaw unlocked_handleState unlocked_ReportConnection
      unlocked_ScanOffline unlocked_rules_closed in \<open>simp add: safe_def by_calls_def\<close>)+
qed

lemma handle_by_calls:
  assumes "handler_ok h" "engine_inv (e_repo s)"
  shows "\<exists>cs. path guard v (e_repo s) cs \<and> e_repo (handle v h s) = run (v_sha v) (v_cp v) cs (e_repo s)"
proof (cases "operator_handler h")
  case True
  then show ?thesis
    using guarded_SetAlarmStatus [OF assms(2), of v] assms(2) by (cases h) (auto simp: by_calls_def)
next
  case False
  then show ?thesis using handle_by_blind_calls [OF assms(1) _ assms(2)] path_blind by blast
qed

lemma later_engine_inv: "later s t \<Longrightarrow> engine_inv (e_repo s) \<Longrightarrow> engine_inv (e_repo t)"
proof (induction rule: later.induct)
  case (handler t h v)
  then show ?case using handle_by_calls [of h t v] engine_calls.path_keeps by metis
next
  case (api t c v)
  then show ?case by (simp add: guard_keeps_engine_inv)
qed

text \<open>A fact of the repository that every call keeps, whatever SHA-256 and compaction are, holds later.\<close>

lemma later_keeps:
  assumes "later s t" "engine_inv (e_repo s)" "Q (e_repo s)" "\<And>sha cp c r. Q r \<Longrightarrow> Q (exec sha cp c r)"
  shows "Q (e_repo t)"
  using assms(1)
proof (induction rule: later.induct)
  case now
  show ?case by (rule assms(3))
next
  case (handler t h v)
  have inv: "engine_inv (e_repo t)" by (rule later_engine_inv [OF handler.hyps(1) assms(2)])
  show ?case
    using handle_by_calls [OF handler.hyps(2) inv, of v] run_keeps [of Q, OF handler.IH assms(4)] by auto
next
  case (api t c v)
  then show ?case using assms(4) by simp
qed

section \<open>Samples\<close>

text \<open>An environment in which nothing fails; random parts are numbered.\<close>

definition sample_env :: "int \<Rightarrow> env" where
  "sample_env now = \<lparr>v_now = now, v_nanos = ''0'', v_rnd = (\<lambda>n. replicate n (CHR ''r'')),
     v_bus = (\<lambda>_. None), v_mqtt = (\<lambda>_. None), v_visit = (\<lambda>_ _. 0),
     v_matcher = \<lparr>mt_sprint = (\<lambda>_. []), mt_parse_float = (\<lambda>_. None), mt_gengine = (\<lambda>_ _. None)\<rparr>,
     v_sha = id, v_cp = Some, v_object = (\<lambda>_. None), v_parsers = NewRegistry [],
     v_postgres = True, v_clickhouse = False, v_legacy = None, v_interval = 60\<rparr>"

text \<open>A device reports an alarm.\<close>

definition alarm_message :: "string \<Rightarrow> standard_message" where
  "alarm_message i = zero_standard_message\<lparr>sm_MessageID := i, sm_TenantID := ''t'', sm_ProductID := ''p'',
     sm_DeviceID := ''d'', sm_MessageType := AlarmReport, sm_Timestamp := 1000\<rparr>"

lemma alarm_message_ok: "handler_ok (H_handleStandard (alarm_message i))"
  by (simp add: alarm_message_def nul_free_def nul_def)

section \<open>One open alarm\<close>

text \<open>
  The engine while handlers run at the same time. A handler may run as a whole, or be under way: then
  each of its calls is a step of its own, and for every handler but SetAlarmStatus that is a blind call
  (handle_by_blind_calls). SetAlarmStatus reads an alarm and writes it back in two steps, and the video
  functions, which are not modelled, read alarms and write them back without reopening one. rc_read holds
  the alarms read so far, as they were and as they are to be written; rc_reopened says that an alarm has
  been written back as open although it had been closed after it was read.
\<close>

record alarm_race =
  rc_engine :: engine
  rc_read :: "(alarm \<times> alarm) list"
  rc_reopened :: bool

text \<open>The alarm read as a0 and still open, under its own device and rule.\<close>

definition still_open :: "alarm \<Rightarrow> repo \<Rightarrow> bool" where
  "still_open a0 r \<longleftrightarrow> (case mget (r_alarms r) (key [al_TenantID a0, al_ID a0]) of
     None \<Rightarrow> False | Some b \<Rightarrow> same_alarm a0 b)"

definition write_back :: "alarm \<times> alarm \<Rightarrow> engine \<Rightarrow> alarm_race \<Rightarrow> alarm_race" where
  "write_back p s x = x\<lparr>rc_engine := s, rc_reopened := rc_reopened x \<or>
     open_status (fst p) \<and> open_status (snd p) \<and> \<not> still_open (fst p) (e_repo (rc_engine x))\<rparr>"

definition refreshes :: "alarm \<Rightarrow> alarm \<Rightarrow> bool" where
  "refreshes a0 a \<longleftrightarrow> al_TenantID a = al_TenantID a0 \<and> al_ID a = al_ID a0 \<and>
     al_DeviceID a = al_DeviceID a0 \<and> al_RuleID a = al_RuleID a0 \<and> (open_status a \<longrightarrow> open_status a0)"

inductive racing :: "alarm_race \<Rightarrow> bool" where
  start: "racing \<lparr>rc_engine = started, rc_read = [], rc_reopened = False\<rparr>"
| handler: "racing x \<Longrightarrow> handler_ok h \<Longrightarrow> \<not> operator_handler h \<Longrightarrow>
    racing (x\<lparr>rc_engine := handle v h (rc_engine x)\<rparr>)"
| call: "racing x \<Longrightarrow> blind c (e_repo (rc_engine x)) \<Longrightarrow>
    racing (x\<lparr>rc_engine := (rc_engine x)\<lparr>e_repo := exec sha cp c (e_repo (rc_engine x))\<rparr>\<rparr>)"
| operator_read: "racing x \<Longrightarrow> GetAlarm tenant i (e_repo (rc_engine x)) = Inr a0 \<Longrightarrow>
    fst (SetAlarmStatus_read v tenant i status (rc_engine x)) = Inr a \<Longrightarrow>
    racing (x\<lparr>rc_read := (a0, a) # rc_read x\<rparr>)"
| operator_write: "racing x \<Longrightarrow> p \<in> set (rc_read x) \<Longrightarrow>
    racing (write_back p (snd (SetAlarmStatus_write v tenant i status actor (snd p) (rc_engine x))) x)"
| video_read: "racing x \<Longrightarrow> mget (r_alarms (e_repo (rc_engine x))) k = Some a0 \<Longrightarrow> refreshes a0 a \<Longrightarrow>
    racing (x\<lparr>rc_read := (a0, a) # rc_read x\<rparr>)"
| video_write: "racing x \<Longrightarrow> p \<in> set (rc_read x) \<Longrightarrow>
    racing (write_back p (snd (update_res (UpdateAlarm (snd p)) (rc_engine x))) x)"

text \<open>What holds unless an alarm has been reopened.\<close>

definition race_inv :: "alarm_race \<Rightarrow> bool" where
  "race_inv x \<longleftrightarrow> \<not> rc_reopened x \<longrightarrow> engine_inv (e_repo (rc_engine x)) \<and>
     (\<forall>p \<in> set (rc_read x). refreshes (fst p) (snd p) \<and> nul_free (al_TenantID (fst p)))"

lemma race_inv_read:
  assumes "race_inv x" "mget (r_alarms (e_repo (rc_engine x))) k = Some a0" "refreshes a0 a"
  shows "race_inv (x\<lparr>rc_read := (a0, a) # rc_read x\<rparr>)"
  using assms alarms_invD(3) [OF engine_invD(2) assms(2)] by (auto simp: race_inv_def)

lemma race_inv_write:
  assumes inv: "race_inv x" and p: "p \<in> set (rc_read x)"
    and m: "\<And>s. (engine_inv (e_repo s) \<Longrightarrow> alarm_guard (C_UpdateAlarm (snd p)) (e_repo s)) \<Longrightarrow>
      by_calls engine_inv guard v m s"
  shows "race_inv (write_back p (snd (m (rc_engine x))) x)"
proof (cases "rc_reopened (write_back p (snd (m (rc_engine x))) x)")
  case False
  let ?r = "e_repo (rc_engine x)"
  have e: "engine_inv ?r" and rest: "\<forall>q \<in> set (rc_read x). refreshes (fst q) (snd q) \<and> nul_free (al_TenantID (fst q))"
    and f: "open_status (fst p) \<Longrightarrow> open_status (snd p) \<Longrightarrow> still_open (fst p) ?r"
    using inv False by (auto simp: race_inv_def write_back_def)
  have "alarm_guard (C_UpdateAlarm (snd p)) ?r"
    using rest p f by (auto simp: alarm_guard_def refreshes_def still_open_def same_alarm_def simp del: key_simps
        split: option.splits)
  then have "engine_inv (e_repo (snd (m (rc_engine x))))"
    using engine_calls.by_calls_keeps [OF m e] by blast
  then show ?thesis using rest by (simp add: race_inv_def write_back_def)
qed (simp add: race_inv_def)

lemma racing_inv: "racing x \<Longrightarrow> race_inv x"
proof (induction rule: racing.induct)
  case start
  then show ?case by (simp add: race_inv_def started_def engine_inv_start)
next
  case (handler x h v)
  then show ?case
    using handle_by_calls [of h "rc_engine x" v] engine_calls.path_keeps by (fastforce simp: race_inv_def)
next
  case (call x c sha cp)
  then show ?case using guard_keeps_engine_inv blind_guard by (auto simp: race_inv_def)
next
  case (operator_read x tenant i a0 v status a)
  have "refreshes a0 a"
    using operator_read.hyps(2,3) operator_status_keeps [of v status a0 a]
    by (auto simp: SetAlarmStatus_read_Inr refreshes_def)
  moreover have "mget (r_alarms (e_repo (rc_engine x))) (key [tenant, i]) = Some a0"
    using operator_read.hyps(2) by (auto simp: GetAlarm_def found_def simp del: key_simps split: option.splits)
  ultimately show ?case using race_inv_read [OF operator_read.IH] by blast
next
  case (operator_write x p v tenant i status actor)
  show ?case using guarded_write by (rule race_inv_write [OF operator_write.IH operator_write.hyps(2), of v])
next
  case (video_read x k a0 a)
  then show ?case by (intro race_inv_read)
next
  case (video_write x p)
  have "by_calls engine_inv guard (sample_env 5) (update_res (UpdateAlarm (snd p))) s"
    if "engine_inv (e_repo s) \<Longrightarrow> alarm_guard (C_UpdateAlarm (snd p)) (e_repo s)" for s
    using that by (intro engine_calls.by_calls_update_res [of _ "Alarms (C_UpdateAlarm (snd p))"])
      (simp_all add: guard_def call_ok_def)
  then show ?case by (rule race_inv_write [OF video_write.IH video_write.hyps(2)])
qed


text \<open>A first trigger, which an operator reads in order to acknowledge it.\<close>

abbreviation first_alarm :: alarm where
  "first_alarm \<equiv> sample_alarm ''a1'' ''m1''"

abbreviation acked_alarm :: alarm where
  "acked_alarm \<equiv> first_alarm\<lparr>al_Status := ''ACKED'', al_AckedAt := 5\<rparr>"

definition race_call :: "alarm_call \<Rightarrow> alarm_race \<Rightarrow> alarm_race" where
  "race_call c x = x\<lparr>rc_engine := (rc_engine x)\<lparr>e_repo := exec id Some (Alarms c) (e_repo (rc_engine x))\<rparr>\<rparr>"

definition race_read :: alarm_race where
  "race_read = (race_call (C_UpsertAlarm first_alarm) \<lparr>rc_engine = started, rc_read = [], rc_reopened = False\<rparr>)
     \<lparr>rc_read := [(first_alarm, acked_alarm)]\<rparr>"

definition race_write :: "alarm_race \<Rightarrow> alarm_race" where
  "race_write x = write_back (first_alarm, acked_alarm)
     (snd (SetAlarmStatus_write (sample_env 5) ''t'' ''a1'' ''ACKED'' ''op'' acked_alarm (rc_engine x))) x"

lemma racing_read: "racing race_read"
proof -
  let ?x = "race_call (C_UpsertAlarm first_alarm) \<lparr>rc_engine = started, rc_read = [], rc_reopened = False\<rparr>"
  have "racing ?x"
    unfolding race_call_def
    by (intro racing.call racing.start) (simp add: blind_def guard_def call_ok_def alarm_guard_def sample_alarm_def
        nul_free_def nul_def component_rule_def has_prefix_def directAlarmRulePrefix_def)
  moreover have g: "GetAlarm ''t'' ''a1'' (e_repo (rc_engine ?x)) = Inr first_alarm"
    by (simp add: race_call_def GetAlarm_def UpsertAlarm_def started_def NewRepository_def mput_def mget_def
        found_def sample_alarm_def)
  moreover have "fst (SetAlarmStatus_read (sample_env 5) ''t'' ''a1'' ''ACKED'' (rc_engine ?x)) = Inr acked_alarm"
    unfolding SetAlarmStatus_read_Inr using g by (simp add: operator_status_def sample_alarm_def sample_env_def)
  ultimately have "racing (?x\<lparr>rc_read := (first_alarm, acked_alarm) # rc_read ?x\<rparr>)" by (rule racing.operator_read)
  then show ?thesis by (simp add: race_read_def race_call_def)
qed

lemma racing_write: "racing x \<Longrightarrow> rc_read x = [(first_alarm, acked_alarm)] \<Longrightarrow> racing (race_write x)"
  using racing.operator_write [of x "(first_alarm, acked_alarm)" "sample_env 5" "''t''" "''a1''" "''ACKED''" "''op''"]
  by (simp add: race_write_def)

text \<open>The acknowledgement changes the alarms by its UpdateAlarm alone.\<close>

lemma race_write_alarms:
  assumes "r_states (e_repo (rc_engine x)) = []"
    and "mget (r_alarms (e_repo (rc_engine x))) (key [''t'', ''a1'']) \<noteq> None"
  shows "r_alarms (e_repo (rc_engine (race_write x))) =
    mput (r_alarms (e_repo (rc_engine x))) (key [''t'', ''a1'']) acked_alarm"
  using assms
  by (auto simp: race_write_def write_back_def SetAlarmStatus_write_def update_res_def UpdateAlarm_def Let_def
      andThen_def sample_alarm_def syncDeviceBusinessStatus_def ask_def GetDeviceState_def found_def mget_def
      ret_def new_id_def update_repo_def SaveAudit_def announce_def ignore_def publish_def realtime_def sample_env_def
      simp del: key_simps)

text \<open>A second trigger before the acknowledgement is written: there is still one alarm, and it is open.\<close>

definition race_counted :: alarm_race where
  "race_counted = race_write (race_call (C_UpsertAlarm (sample_alarm ''a2'' ''m2'')) race_read)"

lemma race_read_simps:
  "rc_read race_read = [(first_alarm, acked_alarm)]" "rc_reopened race_read = False"
  "r_alarms (e_repo (rc_engine race_read)) = [(key [''t'', ''a1''], first_alarm)]"
  "r_states (e_repo (rc_engine race_read)) = []"
  by (simp_all add: race_read_def race_call_def UpsertAlarm_def started_def NewRepository_def mput_def
      sample_alarm_def)

lemma racing_call:
  assumes "racing x" "\<And>r. alarm_guard c r" "\<And>a. c = C_UpdateAlarm a \<Longrightarrow> \<not> open_status a"
  shows "racing (race_call c x)"
  unfolding race_call_def
  using assms(2,3) by (intro racing.call [OF assms(1)]) (simp add: blind_def guard_def call_ok_def split: alarm_call.split)

lemma sample_alarm_guard: "alarm_guard (C_UpsertAlarm (sample_alarm i m)) r"
  by (simp add: alarm_guard_def sample_alarm_def nul_free_def nul_def component_rule_def has_prefix_def
      directAlarmRulePrefix_def)

abbreviation twice_triggered :: alarm where
  "twice_triggered \<equiv> count_trigger (sample_alarm ''a2'' ''m2'') first_alarm"

lemma sample_alarm_simps:
  "al_TenantID (sample_alarm i m) = ''t''" "al_ID (sample_alarm i m) = i" "al_DeviceID (sample_alarm i m) = ''d''"
  "al_RuleID (sample_alarm i m) = ''r''" "al_TriggerID (sample_alarm i m) = m" "open_status (sample_alarm i m)"
  by (simp_all add: sample_alarm_def open_status_def)

lemma race_counted_racing: "racing race_counted" "rc_reopened race_counted = False"
  "r_alarms (e_repo (rc_engine race_counted)) = [(key [''t'', ''a1''], acked_alarm)]"
proof -
  let ?x = "race_call (C_UpsertAlarm (sample_alarm ''a2'' ''m2'')) race_read"
  have "racing ?x" by (intro racing_call racing_read sample_alarm_guard) simp
  then show "racing race_counted"
    unfolding race_counted_def by (rule racing_write) (simp add: race_call_def race_read_simps)
  have same: "same_alarm (sample_alarm ''a2'' ''m2'') first_alarm"
    by (simp add: same_alarm_def sample_alarm_simps)
  have a: "r_alarms (e_repo (rc_engine ?x)) = [(key [''t'', ''a1''], twice_triggered)]"
    using same by (simp add: race_call_def UpsertAlarm_def race_read_simps sample_alarm_simps mput_def)
  have "same_alarm first_alarm twice_triggered"
    by (simp add: same_alarm_def count_trigger_def Let_def sample_alarm_def open_status_def)
  then show "rc_reopened race_counted = False"
    by (simp add: race_counted_def race_write_def write_back_def still_open_def a sample_alarm_simps mget_def)
      (simp add: race_call_def race_read_simps)
  have "r_states (e_repo (rc_engine ?x)) = []"
    using same by (simp add: race_call_def UpsertAlarm_def race_read_simps sample_alarm_simps)
  from race_write_alarms [OF this]
  show "r_alarms (e_repo (rc_engine race_counted)) = [(key [''t'', ''a1''], acked_alarm)]"
    by (simp add: race_counted_def a mget_def mput_def)
qed


text \<open>
  Why the exception is needed: an alarm is acknowledged, and while SetAlarmStatus has read it and not
  yet written it back, it is recovered and raised again under another identifier.
\<close>

definition race_lost :: alarm_race where
  "race_lost = race_write (race_call (C_UpsertAlarm (sample_alarm ''a2'' ''m2''))
     (race_call (C_UpdateAlarm (recovered (sample_env 5) first_alarm)) race_read))"


section \<open>A message is processed once\<close>

lemma andThen_InrE:
  assumes "andThen m f s = (Inr y, s')"
  obtains x s1 where "m s = (Inr x, s1)" "f x s1 = (Inr y, s')"
proof (cases "m s")
  case (Pair z s1)
  then show thesis using assms that by (cases z) (simp_all add: andThen_def)
qed

lemma call_repo_Inr: "call_repo f s = (Inr x, s1) \<longleftrightarrow> x = fst (f (e_repo s)) \<and> s1 = s\<lparr>e_repo := snd (f (e_repo s))\<rparr>"
  by (auto simp: call_repo_def)

lemma update_res_Inr: "update_res f s = (Inr u, s1) \<longleftrightarrow> (\<exists>r. f (e_repo s) = Inr r \<and> s1 = s\<lparr>e_repo := r\<rparr>)"
  by (auto simp: update_res_def split: sum.split)

definition processed :: "standard_message \<Rightarrow> repo \<Rightarrow> bool" where
  "processed m r \<longleftrightarrow> mget (r_standard r) (key [sm_TenantID m, sm_MessageID m]) \<noteq> None \<and>
     mget (r_standardProcessed r) (key [sm_TenantID m, sm_MessageID m]) = Some True"

lemma processed_kept: "processed m r \<Longrightarrow> processed m (exec sha cp c r)"
proof -
  assume p: "processed m r"
  then obtain x where "mget (r_standard r) (key [sm_TenantID m, sm_MessageID m]) = Some x"
    by (auto simp: processed_def)
  then show ?thesis
    using p exec_standard_frame [of r "key [sm_TenantID m, sm_MessageID m]" x sha cp]
    by (cases c) (simp_all add: processed_def del: key_simps)
qed

lemma mark_processed:
  "MarkStandardMessageProcessed (sm_TenantID m) (sm_MessageID m) r = Inr r' \<Longrightarrow> processed m r'"
  by (auto simp: MarkStandardMessageProcessed_def processed_def Let_def split: if_splits)

lemma update_marked:
  "update_res (MarkStandardMessageProcessed (sm_TenantID m) (sm_MessageID m)) s = (Inr u, s') \<Longrightarrow>
     processed m (e_repo s')"
  by (auto simp: update_res_Inr mark_processed)

lemma claim_refused:
  assumes "claims_inv r" "ClaimStandardMessage m r = (c, r')" "\<not> fst c"
  shows "processed m r'"
proof -
  let ?k = "key [sm_TenantID m, sm_MessageID m]"
  have "mget (r_standard r) ?k = None \<longleftrightarrow> mget (r_standardProcessed r) ?k = None"
    using assms(1) unfolding claims_inv_def by blast
  then show ?thesis using assms(2,3)
    by (auto simp: ClaimStandardMessage_def processed_def mget_or_def Let_def
        simp del: key_simps split: if_splits option.splits)
qed

lemma handled_is_processed:
  assumes inv: "engine_inv (e_repo s)" and h: "handleStandard v m s = (Inr (), s')"
  shows "processed m (e_repo s')" "\<exists>cs. MessageComponents m = Inr cs"
proof -
  obtain cs where cs: "MessageComponents m = Inr cs"
    using h by (cases "MessageComponents m") (simp_all add: handleStandard_def fail_def)
  then show "\<exists>cs. MessageComponents m = Inr cs" ..
  from h obtain c s1 where c: "call_repo (ClaimStandardMessage m) s = (Inr c, s1)"
    and rest: "(case c of (shouldProcess, new) \<Rightarrow> if \<not> shouldProcess then ret ()
       else andThen (reply_command v m) (\<lambda>_. andThen (touchState v m) (\<lambda>_.
            andThen (ask (ListRules (sm_TenantID m))) (\<lambda>rules. andThen (apply_rules v m rules False) (\<lambda>b.
            andThen (device_alarm_steps v m cs b) (\<lambda>_.
            andThen (syncDeviceBusinessStatus v (sm_TenantID m) (sm_ProductID m) (sm_DeviceID m)) (\<lambda>_.
            update_res (MarkStandardMessageProcessed (sm_TenantID m) (sm_MessageID m)))))))) ) s1 = (Inr (), s')"
    unfolding handleStandard_def cs sum.case by (rule andThen_InrE)
  show "processed m (e_repo s')"
  proof (cases "fst c")
    case False
    then have "s' = s1" using rest by (auto simp: ret_def split: prod.splits)
    moreover have "claims_inv (e_repo s)" using inv by (simp add: engine_inv_def repo_inv_def)
    ultimately show ?thesis
      using c False claim_refused [of "e_repo s" m c "e_repo s1"]
      by (cases "ClaimStandardMessage m (e_repo s)") (auto simp: call_repo_Inr)
  next
    case True
    then show ?thesis using rest
      by (auto split: prod.splits elim!: andThen_InrE dest: update_marked)
  qed
qed

text \<open>
  C1. A message takes effect once. When handleStandard has answered no error for a message, then after
  any handlers and calls a redelivery of the same message is accepted and changes nothing: no state, no
  alarm, no notification.
\<close>
theorem standard_message_once:
  assumes s: "later started s" and m: "handler_ok (H_handleStandard m)"
    and first: "handleStandard v m s = (Inr (), s1)" and t: "later s1 t"
  shows "handleStandard w m t = (Inr (), t)"
proof -
  have inv: "engine_inv (e_repo s)"
    using later_engine_inv [OF s] engine_inv_start by (simp add: started_def)
  have inv1: "engine_inv (e_repo s1)"
    using later_engine_inv [OF later.handler [OF later.now m, of s v] inv] first by simp
  have "processed m (e_repo t)"
    by (rule later_keeps [OF t inv1 handled_is_processed(1) [OF inv first] processed_kept])
  then have "ClaimStandardMessage m (e_repo t) = ((False, False), e_repo t)"
    by (auto simp: processed_def ClaimStandardMessage_def mget_or_def)
  then show ?thesis
    using handled_is_processed(2) [OF inv first]
    by (auto simp: handleStandard_def andThen_def call_repo_def ret_def)
qed

definition log_message :: standard_message where
  "log_message = zero_standard_message\<lparr>sm_MessageID := ''l'', sm_TenantID := ''t'', sm_ProductID := ''p'',
     sm_DeviceID := ''d'', sm_MessageType := LogReport, sm_Timestamp := 1000\<rparr>"

lemma log_message_handled:
  "handleStandard (sample_env 5) log_message started =
     (Inr (), handle (sample_env 5) (H_handleStandard log_message) started)"
proof -
  have "fst (handleStandard (sample_env 5) log_message started) = Inr ()"
    by (simp add: handleStandard_def MessageComponents_def log_message_def zero_standard_message_def
        started_def NewRepository_def sample_env_def message_type_defs andThen_def call_repo_def ask_def
        ClaimStandardMessage_def reply_command_def touchState_def GetDeviceState_def ListRules_def
        first_state_def zero_device_state_def touched_state_def reported_connection_def Let_def
        status_changed_def update_repo_def UpsertDeviceState_def SaveDeviceStateEvent_def ignore_def
        realtime_def ret_def device_alarm_steps_def directAlarmCleared_def syncDeviceBusinessStatus_def
        hasOpenAlarm_def list_alarms_def ListAlarms_def mfilter_def mvals_def page_def equal_fold_def to_lower_def
        UpdateDeviceState_def updateDeviceState_def update_res_def MarkStandardMessageProcessed_def)
  then show ?thesis by (cases "handleStandard (sample_env 5) log_message started") simp
qed

lemma log_message_ok: "handler_ok (H_handleStandard log_message)"
  by (simp add: log_message_def nul_free_def nul_def)

theorem standard_message_once_witness:
  "handleStandard (sample_env 9) log_message (handle (sample_env 7) (H_handleStandard (alarm_message ''m''))
       (handle (sample_env 5) (H_handleStandard log_message) started)) =
     (Inr (), handle (sample_env 7) (H_handleStandard (alarm_message ''m''))
       (handle (sample_env 5) (H_handleStandard log_message) started))"
  by (rule standard_message_once [OF later.now log_message_ok log_message_handled])
    (intro later.handler later.now alarm_message_ok)

end
