(* ===== verification/Engine_Close.thy ===== *)
theory Engine_Close
  imports Engine_Props
begin

text \<open>
  closeRuleAlarms: the loop over pages of alarms that starts again at the first page after it has
  recovered something. Every listing visits the alarms in an order of its own. The loop ends, within a
  number of pages the alarms bound, recovers alarms of the rule only, and leaves none of them open when
  the listings are steady, whatever bus and MQTT do.
\<close>

section \<open>What a procedure leaves alone\<close>

named_theorems leaves_intros \<open>rules that show a part of the repository to be left alone\<close>

definition leaves :: "(repo \<Rightarrow> 'b) \<Rightarrow> 'a proc \<Rightarrow> bool" where
  "leaves f m \<longleftrightarrow> (\<forall>s. f (e_repo (snd (m s))) = f (e_repo s))"

lemma leavesD: "leaves f m \<Longrightarrow> f (e_repo (snd (m s))) = f (e_repo s)"
  by (simp add: leaves_def)

lemma leaves_quiet: "quiet m \<Longrightarrow> leaves f m"
  by (simp add: leaves_def quiet_def)

lemma leaves_andThen [leaves_intros]:
  "leaves f m \<Longrightarrow> (\<And>x. leaves f (g x)) \<Longrightarrow> leaves f (andThen m g)"
  by (auto simp: leaves_def andThen_def split: prod.split sum.split) (metis snd_conv)+

lemma leaves_wrapping [leaves_intros]:
  "leaves f m \<Longrightarrow> leaves f (ignore m)" "leaves f m \<Longrightarrow> leaves f (attempt m)"
  "leaves f m \<Longrightarrow> leaves f (wrapped t m)"
  by (auto simp: leaves_def ignore_def attempt_def wrapped_def split: prod.split sum.split)
    (metis snd_conv)+

lemma leaves_each [leaves_intros]: "(\<And>x. leaves f (g x)) \<Longrightarrow> leaves f (each g xs)"
  by (induction xs) (simp_all add: leaves_quiet quiet_steps leaves_andThen)

lemma leaves_cases [leaves_intros]:
  "leaves f m \<Longrightarrow> leaves f n \<Longrightarrow> leaves f (if b then m else n)"
  "leaves f m \<Longrightarrow> (\<And>x. leaves f (g x)) \<Longrightarrow> leaves f (case y of None \<Rightarrow> m | Some x \<Rightarrow> g x)"
  "(\<And>e. leaves f (h e)) \<Longrightarrow> (\<And>x. leaves f (g x)) \<Longrightarrow> leaves f (case z of Inl e \<Rightarrow> h e | Inr x \<Rightarrow> g x)"
  "(\<And>a b. leaves f (k a b)) \<Longrightarrow> leaves f (case p of (a, b) \<Rightarrow> k a b)"
  by (simp_all split: option.split sum.split prod.split)

lemma leaves_updates:
  "(\<And>r. f (u r) = f r) \<Longrightarrow> leaves f (update_repo u)"
  "(\<And>r r'. w r = Inr r' \<Longrightarrow> f r' = f r) \<Longrightarrow> leaves f (update_res w)"
  "(\<And>r. f (snd (c r)) = f r) \<Longrightarrow> leaves f (call_repo c)"
  by (auto simp: leaves_def update_repo_def update_res_def call_repo_def split: sum.split)

lemmas quiet_leaves [leaves_intros] = quiet_steps [THEN leaves_quiet]

text \<open>Updating a device's state touches the states and their events only.\<close>

lemma leaves_sync:
  assumes "\<And>r st. f (UpsertDeviceState st r) = f r" "\<And>r st n. f (SaveDeviceStateEvent st n r) = f r"
  shows "leaves f (updateDeviceState v st)" "leaves f (syncDeviceBusinessStatus v t p d)"
proof -
  have u: "leaves f (updateDeviceState v st)" for st
    unfolding updateDeviceState_def Let_def by (intro leaves_intros leaves_updates assms)
  then show "leaves f (updateDeviceState v st)" .
  show "leaves f (syncDeviceBusinessStatus v t p d)"
    unfolding syncDeviceBusinessStatus_def UpdateDeviceState_def hasOpenAlarm_def has_alarm.simps Let_def
    by (intro leaves_intros leaves_updates assms u)
qed

section \<open>Recovering the alarms of a page\<close>

text \<open>The alarm store after the alarms xs of it have been recovered.\<close>

definition closed_alarms :: "env \<Rightarrow> alarm list \<Rightarrow> alarm gomap \<Rightarrow> alarm gomap \<Rightarrow> bool" where
  "closed_alarms v xs m m' \<longleftrightarrow> mwf m' \<and>
     (\<forall>k. mget m' k = (case mget m k of None \<Rightarrow> None
        | Some a \<Rightarrow> Some (if a \<in> set xs then recovered v a else a)))"

lemma announce_quiet: "quiet (announce v t e a)"
  unfolding announce_def by (intro quiet_combined quiet_steps)

lemma announce_Inr: "fst (announce v t e a s) = Inr ()"
  by (simp add: announce_def andThen_def ignore_def)

lemma recover_one_stored:
  assumes a: "mget (r_alarms (e_repo s)) (key [al_TenantID a, al_ID a]) \<noteq> None"
  shows "fst (recover_one v a s) = Inr ()"
    "e_repo (snd (recover_one v a s)) = (e_repo s)\<lparr>r_alarms :=
       mput (r_alarms (e_repo s)) (key [al_TenantID a, al_ID a]) (recovered v a)\<rparr>"
proof -
  let ?r = "(e_repo s)\<lparr>r_alarms := mput (r_alarms (e_repo s)) (key [al_TenantID a, al_ID a]) (recovered v a)\<rparr>"
  have u: "update_res (UpdateAlarm (recovered v a)) s = (Inr (), s\<lparr>e_repo := ?r\<rparr>)"
    using a by (auto simp: update_res_def UpdateAlarm_def Let_def)
  show "fst (recover_one v a s) = Inr ()"
    by (simp add: recover_one_def andThen_def u announce_Inr)
  show "e_repo (snd (recover_one v a s)) = ?r"
    using announce_quiet [of v TopicAlarmRecovered "''recovered''" "recovered v a"]
    by (simp add: recover_one_def andThen_def u quiet_def)
qed

text \<open>Alarms filed under their keys; stored alarms of a list.\<close>

definition filed :: "alarm gomap \<Rightarrow> bool" where
  "filed m \<longleftrightarrow> mwf m \<and> (\<forall>k a. mget m k = Some a \<longrightarrow> k = key [al_TenantID a, al_ID a])"

lemma filedD: "filed m \<Longrightarrow> mwf m" "filed m \<Longrightarrow> mget m k = Some a \<Longrightarrow> k = key [al_TenantID a, al_ID a]"
  by (simp_all add: filed_def del: key_simps)

lemma alarms_inv_filed: "alarms_inv m \<Longrightarrow> filed m"
  unfolding filed_def using alarms_invD(1,2) by blast

definition stored :: "repo \<Rightarrow> alarm list \<Rightarrow> bool" where
  "stored r xs \<longleftrightarrow> (\<forall>a \<in> set xs. mget (r_alarms r) (key [al_TenantID a, al_ID a]) = Some a)"

lemma ListAlarms_all_stored:
  assumes "filed (r_alarms r)"
  shows "stored r (filter P (ListAlarms visit f r))"
proof -
  have "mget (r_alarms r) (key [al_TenantID a, al_ID a]) = Some a" if "a \<in> set (ListAlarms visit f r)" for a
  proof -
    have "a \<in> set (mvals (r_alarms r))"
      using ListAlarms_subset [OF that] by (simp add: mfilter_def)
    then obtain k where k: "mget (r_alarms r) k = Some a"
      using mvals_set [OF filedD(1) [OF assms]] by auto
    then show ?thesis using filedD(2) [OF assms k] by simp
  qed
  then show ?thesis by (simp add: stored_def)
qed

lemma each_recover:
  assumes "stored (e_repo s) xs" "filed (r_alarms (e_repo s))" "distinct xs"
  shows "fst (each (recover_one v) xs s) = Inr () \<and>
    (\<exists>m. e_repo (snd (each (recover_one v) xs s)) = (e_repo s)\<lparr>r_alarms := m\<rparr> \<and>
       closed_alarms v xs (r_alarms (e_repo s)) m)"
  using assms
proof (induction xs arbitrary: s)
  case Nil
  have "closed_alarms v [] (r_alarms (e_repo s)) (r_alarms (e_repo s))"
    using filedD(1) [OF Nil(2)] by (simp add: closed_alarms_def split: option.split)
  then show ?case by (auto simp: ret_def intro!: exI [of _ "r_alarms (e_repo s)"])
next
  case (Cons a xs)
  let ?k = "key [al_TenantID a, al_ID a]" and ?m = "r_alarms (e_repo s)"
  have a: "mget ?m ?k = Some a" using Cons.prems(1) by (simp add: stored_def)
  obtain y s1 where s1: "recover_one v a s = (y, s1)" by fastforce
  have r1: "y = Inr ()" "e_repo s1 = (e_repo s)\<lparr>r_alarms := mput ?m ?k (recovered v a)\<rparr>"
    using recover_one_stored [of s a v] a s1 by auto
  have ne: "key [al_TenantID b, al_ID b] \<noteq> ?k" if "b \<in> set xs" for b
  proof
    assume eq: "key [al_TenantID b, al_ID b] = ?k"
    have "mget ?m (key [al_TenantID b, al_ID b]) = Some b"
      using that Cons.prems(1) by (simp add: stored_def del: key_simps)
    then have "b = a" using a unfolding eq by simp
    then show False using that Cons.prems(3) by simp
  qed
  have "mget (r_alarms (e_repo s1)) (key [al_TenantID b, al_ID b]) = Some b" if "b \<in> set xs" for b
    using Cons.prems(1) ne [OF that] that by (simp add: stored_def r1(2) del: key_simps)
  then have "stored (e_repo s1) xs" unfolding stored_def by blast
  moreover have "filed (r_alarms (e_repo s1))" "distinct xs"
    using Cons.prems by (simp_all add: r1(2) filed_def del: key_simps)
  ultimately obtain m where ih: "fst (each (recover_one v) xs s1) = Inr ()"
      "e_repo (snd (each (recover_one v) xs s1)) = (e_repo s1)\<lparr>r_alarms := m\<rparr>"
      "closed_alarms v xs (r_alarms (e_repo s1)) m"
    using Cons.IH [of s1] by blast
  have rec: "recovered v a \<notin> set xs" using ne [of "recovered v a"] by auto
  have uniq: "k = ?k" if "mget ?m k = Some a" for k
    by (rule filedD(2) [OF Cons.prems(2) that])
  have "closed_alarms v (a # xs) ?m m"
    unfolding closed_alarms_def
  proof (intro conjI allI)
    show "mwf m" using ih(3) by (simp add: closed_alarms_def)
    fix k
    have "mget m k = (case mget (mput ?m ?k (recovered v a)) k of None \<Rightarrow> None
        | Some b \<Rightarrow> Some (if b \<in> set xs then recovered v b else b))"
      using ih(3) by (simp add: closed_alarms_def r1(2) del: key_simps mget_mput)
    moreover have "mget ?m k \<noteq> Some a" if "k \<noteq> ?k"
      using uniq [of k] that by blast
    ultimately show "mget m k = (case mget ?m k of None \<Rightarrow> None
        | Some b \<Rightarrow> Some (if b \<in> set (a # xs) then recovered v b else b))"
      using a rec by (cases "k = ?k") (auto simp del: key_simps split: option.split)
  qed
  then show ?case using ih s1 r1 by (auto simp: andThen_def)
qed

text \<open>The alarms of a tenant with a status, and those among them of the rule.\<close>

definition status_filter :: "string \<Rightarrow> string \<Rightarrow> alarm_filter" where
  "status_filter tenant status = all_alarms\<lparr>q_TenantID := tenant, q_Status := status\<rparr>"

definition in_status :: "string \<Rightarrow> string \<Rightarrow> repo \<Rightarrow> alarm list" where
  "in_status tenant status r = mfilter (\<lambda>x. \<not> alarm_skipped (status_filter tenant status) x) (r_alarms r)"

text \<open>The list the pages of one call are cut from.\<close>

definition listing :: "(string \<Rightarrow> nat) \<Rightarrow> string \<Rightarrow> string \<Rightarrow> repo \<Rightarrow> alarm list" where
  "listing visit tenant status r = sort_slice (newer al_LastTriggeredAt)
     (mfilter (\<lambda>x. \<not> alarm_skipped (status_filter tenant status) x) (sort_key (\<lambda>e. visit (fst e)) (r_alarms r)))"

lemma ListAlarms_listing:
  "ListAlarms visit (all_alarms\<lparr>q_TenantID := tenant, q_Status := status, q_Limit := 1000, q_Offset := offset\<rparr>) r =
     page (listing visit tenant status r) offset 1000"
  by (simp add: ListAlarms_def listing_def status_filter_def alarm_skipped_def all_alarms_def)

lemma mset_listing: "mset (listing visit tenant status r) = mset (in_status tenant status r)"
  by (simp add: listing_def in_status_def mset_visited)

lemma listing_simps [simp]:
  "set (listing visit tenant status r) = set (in_status tenant status r)"
  "length (listing visit tenant status r) = length (in_status tenant status r)"
  using mset_listing [of visit tenant status r] by (blast dest: mset_eq_setD mset_eq_length)+

lemma set_in_status: "mwf (r_alarms r) \<Longrightarrow> a \<in> set (in_status tenant status r) \<longleftrightarrow>
    (\<exists>k. mget (r_alarms r) k = Some a) \<and> \<not> alarm_skipped (status_filter tenant status) a"
  by (auto simp: in_status_def mfilter_def mvals_set)

section \<open>Counting\<close>

lemma length_mfilter:
  assumes "mwf m"
  shows "length (mfilter P m) = card {k. \<exists>a. mget m k = Some a \<and> P a}"
proof -
  let ?f = "filter (\<lambda>e. P (snd e)) m"
  have "distinct (map fst ?f)" using assms by (simp add: mwf_def distinct_map_filter)
  then have "length ?f = card (fst ` set ?f)" by (metis distinct_card length_map set_map)
  also have "fst ` set ?f = {k. \<exists>a. mget m k = Some a \<and> P a}"
    using mget_in [OF assms] by force
  finally show ?thesis by (simp add: mfilter_def mvals_def filter_map comp_def)
qed

lemma finite_keys: "mwf m \<Longrightarrow> finite {k. \<exists>a. mget m k = Some a \<and> P a}"
  by (rule finite_subset [of _ "fst ` set m"]) (force simp: mget_in [symmetric])+

lemma distinct_in_status: "filed (r_alarms r) \<Longrightarrow> distinct (in_status tenant status r)"
proof -
  assume f: "filed (r_alarms r)"
  have "inj_on snd (set (r_alarms r))"
  proof (rule inj_onI)
    fix x y assume xy: "x \<in> set (r_alarms r)" "y \<in> set (r_alarms r)" "snd x = snd y"
    then have "mget (r_alarms r) (fst x) = Some (snd x)" "mget (r_alarms r) (fst y) = Some (snd x)"
      using mget_in [OF filedD(1) [OF f]] by (metis prod.collapse)+
    then have "fst x = fst y" using filedD(2) [OF f] by metis
    then show "x = y" using xy(3) by (simp add: prod_eq_iff)
  qed
  moreover have "distinct (r_alarms r)"
    using filedD(1) [OF f] by (simp add: mwf_def distinct_map)
  ultimately have "distinct (mvals (r_alarms r))" by (simp add: mvals_def distinct_map)
  then have "distinct (mfilter P (r_alarms r))" for P by (simp add: mfilter_def)
  then show ?thesis unfolding in_status_def .
qed

text \<open>The alarms the loop is after.\<close>

definition target :: "string \<Rightarrow> string \<Rightarrow> string \<Rightarrow> alarm \<Rightarrow> bool" where
  "target tenant ruleID status a \<longleftrightarrow>
     \<not> alarm_skipped (status_filter tenant status) a \<and> al_RuleID a = ruleID"

definition closed_all :: "env \<Rightarrow> (alarm \<Rightarrow> bool) \<Rightarrow> alarm gomap \<Rightarrow> alarm gomap \<Rightarrow> bool" where
  "closed_all v T m m' \<longleftrightarrow> mwf m' \<and>
     (\<forall>k. mget m' k = (case mget m k of None \<Rightarrow> None | Some a \<Rightarrow> Some (if T a then recovered v a else a)))"

definition targets :: "string \<Rightarrow> string \<Rightarrow> string \<Rightarrow> repo \<Rightarrow> nat" where
  "targets tenant ruleID status r = length (filter (\<lambda>a. al_RuleID a = ruleID) (in_status tenant status r))"

lemma targets_card:
  "mwf (r_alarms r) \<Longrightarrow> targets tenant ruleID status r =
     card {k. \<exists>a. mget (r_alarms r) k = Some a \<and> target tenant ruleID status a}"
proof -
  have "filter (\<lambda>a. al_RuleID a = ruleID) (mfilter (\<lambda>x. \<not> alarm_skipped (status_filter tenant status) x) m) =
      mfilter (target tenant ruleID status) m" for m
    by (auto simp: mfilter_def target_def intro!: filter_cong)
  then show "mwf (r_alarms r) \<Longrightarrow> ?thesis"
    by (simp add: targets_def in_status_def length_mfilter)
qed

lemma in_status_card:
  "mwf (r_alarms r) \<Longrightarrow> length (in_status tenant status r) =
     card {k. \<exists>a. mget (r_alarms r) k = Some a \<and> \<not> alarm_skipped (status_filter tenant status) a}"
  by (simp add: in_status_def length_mfilter)

lemma recovered_skipped:
  "status \<in> {''ACTIVE'', ''ACKED''} \<Longrightarrow> alarm_skipped (status_filter tenant status) (recovered v a)"
  by (auto simp: alarm_skipped_def status_filter_def all_alarms_def recovered_def)

text \<open>Recovering some of the targets leaves fewer, and no more alarms in the status.\<close>

lemma closed_fewer:
  assumes status: "status \<in> {''ACTIVE'', ''ACKED''}" and f: "filed (r_alarms r)"
    and c: "closed_alarms v xs (r_alarms r) m" and sub: "set xs \<subseteq> {a. target tenant ruleID status a}"
    and st: "stored r xs" and ne: "xs \<noteq> []"
  shows "filed m" "targets tenant ruleID status (r\<lparr>r_alarms := m\<rparr>) < targets tenant ruleID status r"
    "length (in_status tenant status (r\<lparr>r_alarms := m\<rparr>)) \<le> length (in_status tenant status r)"
proof -
  let ?m = "r_alarms r"
  have wf: "mwf ?m" "mwf m" using filedD(1) [OF f] c by (simp_all add: closed_alarms_def)
  have get: "mget m k = (case mget ?m k of None \<Rightarrow> None
      | Some a \<Rightarrow> Some (if a \<in> set xs then recovered v a else a))" for k
    using c by (simp add: closed_alarms_def)
  have was: "mget ?m k = Some a \<and> a \<notin> set xs"
    if "mget m k = Some a" "\<not> alarm_skipped (status_filter tenant status) a" for k a
    using that get [of k] recovered_skipped [OF status] by (auto split: option.splits if_splits)
  show "filed m"
    unfolding filed_def
  proof (intro conjI allI impI)
    fix k a assume "mget m k = Some a"
    then obtain b where b: "mget ?m k = Some b" "a = b \<or> a = recovered v b"
      using get [of k] by (auto split: option.splits if_splits)
    then show "k = key [al_TenantID a, al_ID a]" using filedD(2) [OF f b(1)] by auto
  qed (rule wf)
  show "length (in_status tenant status (r\<lparr>r_alarms := m\<rparr>)) \<le> length (in_status tenant status r)"
    using was wf by (auto simp: in_status_card intro!: card_mono finite_keys)
  obtain a where a: "a \<in> set xs" using ne by (cases xs) auto
  let ?k = "key [al_TenantID a, al_ID a]"
  have "mget ?m ?k = Some a" using a st by (simp add: stored_def del: key_simps)
  then have "?k \<in> {k. \<exists>a. mget ?m k = Some a \<and> target tenant ruleID status a}"
      "?k \<notin> {k. \<exists>a. mget m k = Some a \<and> target tenant ruleID status a}"
    using a sub was [of ?k] by (auto simp: target_def simp del: key_simps)
  moreover have "{k. \<exists>a. mget m k = Some a \<and> target tenant ruleID status a} \<subseteq>
      {k. \<exists>a. mget ?m k = Some a \<and> target tenant ruleID status a}"
    using was by (auto simp: target_def)
  ultimately show "targets tenant ruleID status (r\<lparr>r_alarms := m\<rparr>) < targets tenant ruleID status r"
    using wf finite_keys [OF wf(1)] by (auto simp: targets_card intro!: psubset_card_mono)
qed

section \<open>Steady listings\<close>

text \<open>
  The pages of one listing fit together when they are cut from one list. Every call visits the map in an
  order of its own, so this holds for sure when one page has room for all alarms of the status, or when no
  two of them were last triggered at the same time, so that their order is given.
\<close>

definition steady :: "string \<Rightarrow> string \<Rightarrow> repo \<Rightarrow> bool" where
  "steady tenant status r \<longleftrightarrow> length (in_status tenant status r) \<le> 1000 \<or>
     inj_on al_LastTriggeredAt (set (in_status tenant status r))"

lemma listing_unique:
  assumes inj: "inj_on al_LastTriggeredAt (set (in_status tenant status r))" and f: "filed (r_alarms r)"
  shows "listing visit tenant status r = listing visit' tenant status r"
proof -
  let ?f = "\<lambda>a. - al_LastTriggeredAt a"
  have inj': "inj_on ?f (set (in_status tenant status r))" using inj by (simp add: inj_on_def)
  have l: "sorted (map ?f (listing w tenant status r))" "distinct (map ?f (listing w tenant status r))" for w
  proof -
    have "sorted_wrt (\<lambda>a b. \<not> newer al_LastTriggeredAt b a) (listing w tenant status r)"
      unfolding listing_def by (rule newer.sorted_sort_slice)
    then show "sorted (map ?f (listing w tenant status r))"
      by (simp add: sorted_map newer_def not_less)
    have "distinct (listing w tenant status r)"
      using distinct_in_status [OF f] mset_listing mset_eq_imp_distinct_iff by blast
    then show "distinct (map ?f (listing w tenant status r))" using inj' by (simp add: distinct_map)
  qed
  show ?thesis by (rule map_sorted_distinct_set_unique [of ?f, OF _ l l]) (simp_all add: inj')
qed

text \<open>The alarms before an offset, in whatever order, are none of the rule's.\<close>

definition clean :: "string \<Rightarrow> string \<Rightarrow> string \<Rightarrow> int \<Rightarrow> repo \<Rightarrow> bool" where
  "clean tenant ruleID status offset r \<longleftrightarrow>
     (\<forall>visit. \<forall>a \<in> set (take (nat offset) (listing visit tenant status r)). al_RuleID a \<noteq> ruleID)"

lemma clean_start: "clean tenant ruleID status 0 r"
  by (simp add: clean_def)

lemma take_page: "take (n + length (take k (drop n l))) l = take n l @ take k (drop n l)"
  by (simp add: take_add min_def)

lemma clean_page:
  assumes s: "steady tenant status r" and f: "filed (r_alarms r)" and c: "clean tenant ruleID status offset r"
    and offset: "0 \<le> offset" and p: "p = take 1000 (drop (nat offset) (listing visit tenant status r))"
    and none: "filter (\<lambda>a. al_RuleID a = ruleID) p = []"
  shows "clean tenant ruleID status (offset + int (length p)) r"
proof -
  let ?l = "listing visit tenant status r"
  have n: "nat (offset + int (length p)) = nat offset + length p"
    using offset by (simp only: nat_add_distrib of_nat_0_le_iff nat_int)
  have here: "al_RuleID a \<noteq> ruleID" if "a \<in> set (take (nat (offset + int (length p))) ?l)" for a
  proof -
    have "a \<in> set (take (nat offset) ?l) \<or> a \<in> set p" using that unfolding n unfolding p take_page by (simp only: set_append Un_iff)
    then show ?thesis using c none by (auto simp: clean_def filter_empty_conv)
  qed
  show ?thesis
    using s unfolding steady_def
  proof
    assume "inj_on al_LastTriggeredAt (set (in_status tenant status r))"
    then have same: "listing w tenant status r = ?l" for w by (rule listing_unique [OF _ f])
    show ?thesis unfolding clean_def
    proof (intro allI ballI)
      fix w a assume "a \<in> set (take (nat (offset + int (length p))) (listing w tenant status r))"
      then show "al_RuleID a \<noteq> ruleID" unfolding same [of w] by (rule here)
    qed
  next
    assume len: "length (in_status tenant status r) \<le> 1000"
    then have "take (nat (offset + int (length p))) ?l = ?l" using offset by (simp add: p)
    then have "\<forall>a \<in> set (in_status tenant status r). al_RuleID a \<noteq> ruleID"
      using here by (metis listing_simps(1))
    then show ?thesis unfolding clean_def using listing_simps(1) by (metis in_set_takeD)
  qed
qed

section \<open>The loop ends\<close>

text \<open>Nothing but targets has been recovered.\<close>

definition closed_some :: "env \<Rightarrow> (alarm \<Rightarrow> bool) \<Rightarrow> alarm gomap \<Rightarrow> alarm gomap \<Rightarrow> bool" where
  "closed_some v T m m' \<longleftrightarrow> mwf m' \<and> (\<forall>k. mget m' k = mget m k \<or>
     (\<exists>a. mget m k = Some a \<and> T a \<and> mget m' k = Some (recovered v a)))"

lemma closed_refl:
  "mwf m \<Longrightarrow> closed_some v T m m"
  "mwf m \<Longrightarrow> (\<And>k a. mget m k = Some a \<Longrightarrow> \<not> T a) \<Longrightarrow> closed_all v T m m"
  by (auto simp: closed_some_def closed_all_def split: option.split)

lemma closed_step:
  assumes "closed_alarms v xs m m1" "set xs \<subseteq> Collect T" "\<And>a. \<not> T (recovered v a)"
  shows "closed_some v T m1 m2 \<Longrightarrow> closed_some v T m m2" "closed_all v T m1 m2 \<Longrightarrow> closed_all v T m m2"
proof -
  have get: "mget m1 k = (case mget m k of None \<Rightarrow> None | Some a \<Rightarrow> Some (if a \<in> set xs then recovered v a else a))" for k
    using assms(1) by (simp add: closed_alarms_def)
  show "closed_all v T m1 m2 \<Longrightarrow> closed_all v T m m2"
    using assms get by (auto simp: closed_all_def split: option.splits if_splits)
  assume c: "closed_some v T m1 m2"
  have "mget m2 k = mget m k \<or> (\<exists>a. mget m k = Some a \<and> T a \<and> mget m2 k = Some (recovered v a))" for k
  proof (cases "mget m k")
    case None
    then have "mget m1 k = None" using get [of k] by simp
    then show ?thesis using c None by (metis closed_some_def option.distinct(1))
  next
    case (Some a)
    then have "mget m1 k = Some (if a \<in> set xs then recovered v a else a)" using get [of k] by simp
    moreover have "mget m2 k = mget m1 k \<or> (\<exists>b. mget m1 k = Some b \<and> T b \<and> mget m2 k = Some (recovered v b))"
      using c unfolding closed_some_def by blast
    ultimately show ?thesis using Some assms(2,3) by (auto split: if_splits)
  qed
  then show "closed_some v T m m2" using c by (simp add: closed_some_def)
qed

text \<open>One pass of the loop, by the page it reads.\<close>

lemma close_status_pass:
  assumes page: "ListAlarms (v_visit v (e_calls s)) (all_alarms\<lparr>q_TenantID := tenant, q_Status := status, q_Limit := 1000,
      q_Offset := offset\<rparr>) (e_repo s) = p" and s1: "s1 = s\<lparr>e_calls := e_calls s + 1\<rparr>"
  shows "p = [] \<Longrightarrow> close_status v (Suc fuel) tenant ruleID status offset affected s = (Inr (Some affected), s1)"
    "p \<noteq> [] \<Longrightarrow> filter (\<lambda>a. al_RuleID a = ruleID) p = [] \<Longrightarrow>
      close_status v (Suc fuel) tenant ruleID status offset affected s =
      close_status v fuel tenant ruleID status (offset + int (length p)) affected s1"
    "filter (\<lambda>a. al_RuleID a = ruleID) p = xs \<Longrightarrow> xs \<noteq> [] \<Longrightarrow> each (recover_one v) xs s1 = (Inr (), s2) \<Longrightarrow>
      close_status v (Suc fuel) tenant ruleID status offset affected s =
      close_status v fuel tenant ruleID status 0 (affected @ map al_DeviceID xs) s2"
  by (auto simp: andThen_def list_alarms_def page ret_def Let_def s1)

text \<open>What the loop comes to: it has not run out of fuel, and what it has done to the alarms.\<close>

definition status_closed :: "env \<Rightarrow> string \<Rightarrow> string \<Rightarrow> string \<Rightarrow> repo \<Rightarrow> string list option res \<times> engine \<Rightarrow> bool" where
  "status_closed v tenant ruleID status r out \<longleftrightarrow> (\<exists>devices m. fst out = Inr (Some devices) \<and>
     e_repo (snd out) = r\<lparr>r_alarms := m\<rparr> \<and> filed m \<and> closed_some v (target tenant ruleID status) (r_alarms r) m \<and>
     (steady tenant status r \<longrightarrow> closed_all v (target tenant ruleID status) (r_alarms r) m))"

lemma steady_closed:
  assumes "steady tenant status r" "filed (r_alarms r)" "closed_alarms v xs (r_alarms r) m"
    "length (in_status tenant status (r\<lparr>r_alarms := m\<rparr>)) \<le> length (in_status tenant status r)"
    "status \<in> {''ACTIVE'', ''ACKED''}"
  shows "steady tenant status (r\<lparr>r_alarms := m\<rparr>)"
proof -
  have wf: "mwf (r_alarms r)" "mwf m" using filedD(1) [OF assms(2)] assms(3) by (simp_all add: closed_alarms_def)
  have "set (in_status tenant status (r\<lparr>r_alarms := m\<rparr>)) \<subseteq> set (in_status tenant status r)"
  proof
    fix a assume a: "a \<in> set (in_status tenant status (r\<lparr>r_alarms := m\<rparr>))"
    then obtain k where k: "mget m k = Some a" "\<not> alarm_skipped (status_filter tenant status) a"
      using set_in_status [of "r\<lparr>r_alarms := m\<rparr>"] wf(2) by auto
    have "mget m k = (case mget (r_alarms r) k of None \<Rightarrow> None
        | Some a \<Rightarrow> Some (if a \<in> set xs then recovered v a else a))"
      using assms(3) by (simp add: closed_alarms_def)
    then have "mget (r_alarms r) k = Some a"
      using k recovered_skipped [OF assms(5)] by (auto split: option.splits if_splits)
    then show "a \<in> set (in_status tenant status r)" using k set_in_status [OF wf(1)] by blast
  qed
  then show ?thesis using assms(1,4) by (auto simp: steady_def intro: inj_on_subset)
qed

lemma close_status_ends:
  assumes status: "status \<in> {''ACTIVE'', ''ACKED''}" and f: "filed (r_alarms (e_repo s))"
    and offset: "0 \<le> offset"
    and c: "steady tenant status (e_repo s) \<Longrightarrow> clean tenant ruleID status offset (e_repo s)"
    and n: "length (in_status tenant status (e_repo s)) \<le> n"
    and fuel: "targets tenant ruleID status (e_repo s) * (n + 2) +
      (length (in_status tenant status (e_repo s)) - nat offset) < fuel"
  shows "status_closed v tenant ruleID status (e_repo s) (close_status v fuel tenant ruleID status offset affected s)"
  using f offset c n fuel
proof (induction fuel arbitrary: s offset affected)
  case 0
  then show ?case by simp
next
  case (Suc fuel)
  let ?r = "e_repo s" and ?visit = "v_visit v (e_calls s)" and ?s = "s\<lparr>e_calls := e_calls s + 1\<rparr>"
  let ?l = "listing ?visit tenant status (e_repo s)"
  let ?p = "take 1000 (drop (nat offset) ?l)"
  let ?xs = "filter (\<lambda>a. al_RuleID a = ruleID) ?p"
  have wf: "mwf (r_alarms ?r)" by (rule filedD(1) [OF Suc.prems(1)])
  have page: "ListAlarms ?visit (all_alarms\<lparr>q_TenantID := tenant, q_Status := status, q_Limit := 1000,
      q_Offset := offset\<rparr>) ?r = ?p"
    using Suc.prems(2) by (simp add: ListAlarms_listing page_eq)
  consider (empty) "?p = []" | (some) "?xs \<noteq> []" | (none) "?p \<noteq> []" "?xs = []" by fastforce
  then show ?case
  proof cases
    case empty
    then have all: "take (nat offset) ?l = ?l" by simp
    have "closed_all v (target tenant ruleID status) (r_alarms ?r) (r_alarms ?r)" if "steady tenant status ?r"
    proof -
      have "\<forall>a \<in> set ?l. al_RuleID a \<noteq> ruleID"
        using Suc.prems(3) [OF that] all unfolding clean_def by metis
      then show ?thesis by (intro closed_refl wf) (auto simp: target_def set_in_status [OF wf])
    qed
    then show ?thesis
      unfolding close_status_pass(1) [OF page refl empty] status_closed_def using Suc.prems(1) closed_refl(1) [OF wf]
      by (intro exI [of _ affected] exI [of _ "r_alarms ?r"]) simp
  next
    case none
    have len: "0 < length ?p" using none(1) by simp
    have n: "nat (offset + int (length ?p)) = nat offset + length ?p"
      using Suc.prems(2) by (simp only: nat_add_distrib of_nat_0_le_iff nat_int)
    have "length ?p \<le> length (in_status tenant status ?r) - nat offset"
      by (metis length_drop length_take listing_simps(2) min.cobounded1)
    then have "targets tenant ruleID status ?r * (n + 2) +
        (length (in_status tenant status ?r) - nat (offset + int (length ?p))) < fuel"
      using Suc.prems(5) len unfolding n by linarith
    moreover have "0 \<le> offset + int (length ?p)" using Suc.prems(2) by (simp only: add_nonneg_nonneg of_nat_0_le_iff)
    ultimately have "status_closed v tenant ruleID status (e_repo ?s)
        (close_status v fuel tenant ruleID status (offset + int (length ?p)) affected ?s)"
      using Suc.prems(1-4) clean_page [OF _ Suc.prems(1) _ Suc.prems(2) refl none(2)] by (intro Suc.IH) simp_all
    then show ?thesis unfolding close_status_pass(2) [OF page refl none] by simp
  next
    case some
    have sub: "set ?xs \<subseteq> {a. target tenant ruleID status a}"
      by (auto simp: target_def dest!: in_set_takeD in_set_dropD) (simp add: set_in_status [OF wf])
    have st: "stored ?r ?xs"
      using ListAlarms_all_stored [OF Suc.prems(1), of _ ?visit "all_alarms\<lparr>q_TenantID := tenant, q_Status := status,
        q_Limit := 1000, q_Offset := offset\<rparr>"] unfolding page .
    have d: "distinct ?xs"
      using distinct_in_status [OF Suc.prems(1)] mset_eq_imp_distinct_iff [OF mset_listing] by simp
    obtain y s1 where s1: "each (recover_one v) ?xs ?s = (y, s1)" by fastforce
    obtain m where m: "y = Inr ()" "e_repo s1 = ?r\<lparr>r_alarms := m\<rparr>" "closed_alarms v ?xs (r_alarms ?r) m"
      using each_recover [of ?s ?xs v] st Suc.prems(1) d s1 by auto
    note fewer = closed_fewer [OF status Suc.prems(1) m(3) sub st some]
    have "Suc (targets tenant ruleID status (e_repo s1)) * (n + 2) \<le> targets tenant ruleID status ?r * (n + 2)"
      using fewer(2) by (intro mult_le_mono1) (simp add: m(2))
    then have "targets tenant ruleID status (e_repo s1) * (n + 2) + (length (in_status tenant status (e_repo s1)) - nat 0) < fuel"
      using Suc.prems(4,5) fewer(3) by (simp add: m(2))
    then have ih: "status_closed v tenant ruleID status (e_repo s1)
        (close_status v fuel tenant ruleID status 0 (affected @ map al_DeviceID ?xs) s1)"
      using fewer Suc.prems(4) clean_start by (intro Suc.IH) (simp_all add: m(2))
    have eq: "close_status v (Suc fuel) tenant ruleID status offset affected s =
        close_status v fuel tenant ruleID status 0 (affected @ map al_DeviceID ?xs) s1"
      by (rule close_status_pass(3) [OF page refl refl some]) (use s1 m(1) in simp)
    have not: "\<not> target tenant ruleID status (recovered v a)" for a
      by (simp add: target_def recovered_skipped [OF status])
    show ?thesis
      using ih closed_step [OF m(3) sub not] steady_closed [OF _ Suc.prems(1) m(3) fewer(3) status]
      unfolding eq status_closed_def by (auto simp: m(2))
  qed
qed

section \<open>Closing the alarms of a rule\<close>

lemma in_status_bounds:
  "length (in_status tenant status r) \<le> length (r_alarms r)"
  "targets tenant ruleID status r \<le> length (r_alarms r)"
proof -
  show l: "length (in_status tenant status r) \<le> length (r_alarms r)"
    by (simp add: in_status_def mfilter_def mvals_def order_trans [OF length_filter_le])
  then show "targets tenant ruleID status r \<le> length (r_alarms r)"
    unfolding targets_def by (rule order_trans [OF length_filter_le])
qed

lemma closed_some_length:
  assumes "filed m" "closed_some v T m m'"
  shows "length m' = length m"
proof -
  have wf: "mwf m" "mwf m'" using assms by (simp_all add: filed_def closed_some_def)
  have "(\<exists>a. mget m' k = Some a \<and> True) \<longleftrightarrow> (\<exists>a. mget m k = Some a \<and> True)" for k
    using assms(2) unfolding closed_some_def by (metis option.distinct(1))
  then have "length (mfilter (\<lambda>_. True) m') = length (mfilter (\<lambda>_. True) m)"
    unfolding length_mfilter [OF wf(1)] length_mfilter [OF wf(2)] by simp
  then show ?thesis by (simp add: mfilter_def mvals_def)
qed

text \<open>Both statuses: all alarms of the rule are closed, the rest is as it was.\<close>

definition rule_target :: "string \<Rightarrow> string \<Rightarrow> alarm \<Rightarrow> bool" where
  "rule_target tenant ruleID a \<longleftrightarrow> target tenant ruleID ''ACTIVE'' a \<or> target tenant ruleID ''ACKED'' a"

lemma closed_compose:
  assumes some: "closed_some v (target tenant ruleID ''ACTIVE'') m m1" "closed_some v (target tenant ruleID ''ACKED'') m1 m2"
  shows "closed_some v (rule_target tenant ruleID) m m2"
    "closed_all v (target tenant ruleID ''ACTIVE'') m m1 \<Longrightarrow> closed_all v (target tenant ruleID ''ACKED'') m1 m2 \<Longrightarrow>
      closed_all v (rule_target tenant ruleID) m m2"
proof -
  have not: "\<not> target tenant ruleID ''ACKED'' (recovered v a)" for a
    by (simp add: target_def recovered_skipped)
  show "closed_some v (rule_target tenant ruleID) m m2"
    unfolding closed_some_def
  proof (intro conjI allI)
    fix k
    have one: "mget m1 k = mget m k \<or> (\<exists>a. mget m k = Some a \<and> target tenant ruleID ''ACTIVE'' a \<and> mget m1 k = Some (recovered v a))"
      using some unfolding closed_some_def by blast
    moreover have "mget m2 k = mget m1 k \<or> (\<exists>a. mget m1 k = Some a \<and> target tenant ruleID ''ACKED'' a \<and> mget m2 k = Some (recovered v a))"
      using some unfolding closed_some_def by blast
    ultimately consider "mget m2 k = mget m1 k" | a where "mget m k = Some a" "target tenant ruleID ''ACKED'' a"
        "mget m2 k = Some (recovered v a)" "mget m1 k = mget m k"
      using not by (metis option.inject)
    then show "mget m2 k = mget m k \<or> (\<exists>a. mget m k = Some a \<and> rule_target tenant ruleID a \<and> mget m2 k = Some (recovered v a))"
      using one unfolding rule_target_def by cases auto
  qed (use some(2) in \<open>simp add: closed_some_def\<close>)
  show "closed_all v (rule_target tenant ruleID) m m2"
    if "closed_all v (target tenant ruleID ''ACTIVE'') m m1" "closed_all v (target tenant ruleID ''ACKED'') m1 m2"
    using that not by (auto simp: closed_all_def rule_target_def split: option.splits if_splits)
qed

text \<open>Recovering ACTIVE alarms leaves the ACKED ones alone.\<close>

lemma in_status_untouched:
  assumes f: "filed (r_alarms r)" and c: "closed_some v (target tenant ruleID ''ACTIVE'') (r_alarms r) m"
  shows "set (in_status tenant ''ACKED'' (r\<lparr>r_alarms := m\<rparr>)) = set (in_status tenant ''ACKED'' r)"
    "length (in_status tenant ''ACKED'' (r\<lparr>r_alarms := m\<rparr>)) = length (in_status tenant ''ACKED'' r)"
proof -
  have wf: "mwf (r_alarms r)" "mwf m" using filedD(1) [OF f] c by (simp_all add: closed_some_def)
  have acked: "\<not> alarm_skipped (status_filter tenant ''ACKED'') a \<Longrightarrow> \<not> target tenant ruleID ''ACTIVE'' a" for a
    by (auto simp: target_def alarm_skipped_def status_filter_def all_alarms_def)
  have same: "mget m k = Some a \<and> \<not> alarm_skipped (status_filter tenant ''ACKED'') a \<longleftrightarrow>
      mget (r_alarms r) k = Some a \<and> \<not> alarm_skipped (status_filter tenant ''ACKED'') a" for k a
    using c acked recovered_skipped [of "''ACKED''" tenant v] unfolding closed_some_def
    by (metis insertCI option.inject)
  show "set (in_status tenant ''ACKED'' (r\<lparr>r_alarms := m\<rparr>)) = set (in_status tenant ''ACKED'' r)"
    using same wf by (simp add: set_eq_iff set_in_status) blast
  show "length (in_status tenant ''ACKED'' (r\<lparr>r_alarms := m\<rparr>)) = length (in_status tenant ''ACKED'' r)"
    using same wf by (simp add: in_status_card)
qed

definition steady_rule :: "string \<Rightarrow> repo \<Rightarrow> bool" where
  "steady_rule tenant r \<longleftrightarrow> steady tenant ''ACTIVE'' r \<and> steady tenant ''ACKED'' r"

lemma steady_rule_alarms: "r_alarms r = r_alarms r' \<Longrightarrow> steady_rule tenant r = steady_rule tenant r'"
  by (simp add: steady_rule_def steady_def in_status_def)

lemma closeRuleAlarms_ends:
  assumes f: "filed (r_alarms (e_repo s))"
    and fuel: "length (r_alarms (e_repo s)) * (length (r_alarms (e_repo s)) + 3) < fuel"
    and out: "out = closeRuleAlarms v fuel tenant ruleID s"
  shows "fst out \<noteq> Inr None"
    "closed_some v (rule_target tenant ruleID) (r_alarms (e_repo s)) (r_alarms (e_repo (snd out)))"
    "steady_rule tenant (e_repo s) \<Longrightarrow>
       closed_all v (rule_target tenant ruleID) (r_alarms (e_repo s)) (r_alarms (e_repo (snd out)))"
    "r_rules (e_repo (snd out)) = r_rules (e_repo s)" "r_rulePending (e_repo (snd out)) = r_rulePending (e_repo s)"
proof -
  let ?n = "length (r_alarms (e_repo s))"
  have enough: "targets tenant ruleID st r * (?n + 2) + (length (in_status tenant st r) - nat 0) < fuel"
    if "length (r_alarms r) = ?n" for st r
  proof -
    have "targets tenant ruleID st r * (?n + 2) \<le> ?n * (?n + 2)" "length (in_status tenant st r) \<le> ?n"
      using in_status_bounds [where r = r] that by (simp_all only: mult_le_mono1)
    then show ?thesis using fuel by (simp add: algebra_simps)
  qed
  obtain x1 s1 where e1: "close_status v fuel tenant ruleID ''ACTIVE'' 0 [] s = (x1, s1)" by fastforce
  have "status_closed v tenant ruleID ''ACTIVE'' (e_repo s) (x1, s1)"
    unfolding e1 [symmetric] using f enough [of "e_repo s"] in_status_bounds(1) clean_start
    by (intro close_status_ends) simp_all
  then obtain d1 m1 where c1: "x1 = Inr (Some d1)" "e_repo s1 = (e_repo s)\<lparr>r_alarms := m1\<rparr>" "filed m1"
      "closed_some v (target tenant ruleID ''ACTIVE'') (r_alarms (e_repo s)) m1"
      "steady tenant ''ACTIVE'' (e_repo s) \<Longrightarrow> closed_all v (target tenant ruleID ''ACTIVE'') (r_alarms (e_repo s)) m1"
    by (auto simp: status_closed_def)
  have len: "length (r_alarms (e_repo s1)) = ?n" using closed_some_length [OF f c1(4)] c1(2) by simp
  obtain x2 s2 where e2: "close_status v fuel tenant ruleID ''ACKED'' 0 d1 s1 = (x2, s2)" by fastforce
  have "status_closed v tenant ruleID ''ACKED'' (e_repo s1) (x2, s2)"
    unfolding e2 [symmetric] using c1(3) enough [OF len] in_status_bounds(1) [of tenant "''ACKED''" "e_repo s1"] clean_start len
    by (intro close_status_ends) (simp_all add: c1(2))
  moreover have "steady tenant ''ACKED'' (e_repo s1) = steady tenant ''ACKED'' (e_repo s)"
    using in_status_untouched [OF f c1(4)] by (simp add: steady_def c1(2))
  ultimately obtain d2 m2 where c2: "x2 = Inr (Some d2)" "e_repo s2 = (e_repo s1)\<lparr>r_alarms := m2\<rparr>"
      "closed_some v (target tenant ruleID ''ACKED'') m1 m2"
      "steady tenant ''ACKED'' (e_repo s) \<Longrightarrow> closed_all v (target tenant ruleID ''ACKED'') m1 m2"
    by (auto simp: status_closed_def c1(2))
  let ?t = "andThen (visited v (remdups d2)) (\<lambda>ds. andThen (each (syncDeviceBusinessStatus v tenant []) ds)
      (\<lambda>_. ret (Some ()))) s2"
  have eq: "out = ?t"
    unfolding out closeRuleAlarms_def
    by (simp add: andThen_def [of "close_status _ _ _ _ _ _ _"] e1 e2 c1(1) c2(1))
  have l: "leaves f (andThen (visited v (remdups d2)) (\<lambda>ds. andThen (each (syncDeviceBusinessStatus v tenant []) ds)
      (\<lambda>_. ret (Some ()))))"
    if "\<And>r st. f (UpsertDeviceState st r) = f r" "\<And>r st n. f (SaveDeviceStateEvent st n r) = f r" for f :: "repo \<Rightarrow> 'c"
    by (intro leaves_intros leaves_sync that)
  have kept: "r_alarms (e_repo (snd ?t)) = m2" "r_rules (e_repo (snd ?t)) = r_rules (e_repo s)"
    "r_rulePending (e_repo (snd ?t)) = r_rulePending (e_repo s)"
    using leavesD [OF l [of r_alarms], of s2] leavesD [OF l [of r_rules], of s2] leavesD [OF l [of r_rulePending], of s2]
    by (simp_all add: UpsertDeviceState_def SaveDeviceStateEvent_def c1(2) c2(2))
  show "fst out \<noteq> Inr None" unfolding eq by (auto simp: andThen_def ret_def split: prod.split sum.split)
  show "closed_some v (rule_target tenant ruleID) (r_alarms (e_repo s)) (r_alarms (e_repo (snd out)))"
    unfolding eq kept by (rule closed_compose(1) [OF c1(4) c2(3)])
  show "closed_all v (rule_target tenant ruleID) (r_alarms (e_repo s)) (r_alarms (e_repo (snd out)))"
    if "steady_rule tenant (e_repo s)"
    using closed_compose(2) [OF c1(4) c2(3) c1(5) c2(4)] that unfolding eq kept by (simp add: steady_rule_def)
  show "r_rules (e_repo (snd out)) = r_rules (e_repo s)" "r_rulePending (e_repo (snd out)) = r_rulePending (e_repo s)"
    unfolding eq by (rule kept)+
qed

text \<open>
  C11. closeRuleAlarms ends, in whatever order every listing visits the alarms. With fuel above n * (n + 3)
  for n alarms in the store, the loop over the pages never runs out of it, although it starts again at the
  first page after every page that had an alarm of the rule; it changes no alarm but ACTIVE and ACKED ones
  of the rule, which it recovers, whatever bus and MQTT do. It recovers all of them if the listings are
  steady: for each of the two statuses the tenant has at most 1000 alarms, or no two of them were last
  triggered at one time. No other handler runs meanwhile.
\<close>
theorem DisableRule_ends:
  assumes inv: "engine_inv (e_repo s)"
    and fuel: "length (r_alarms (e_repo s)) * (length (r_alarms (e_repo s)) + 3) < fuel"
    and out: "out = engine_DisableRule v fuel tenant ruleID s"
  shows "fst out \<noteq> Inr None \<and>
    (\<forall>k. mget (r_alarms (e_repo (snd out))) k = mget (r_alarms (e_repo s)) k \<or>
       (\<exists>a. mget (r_alarms (e_repo s)) k = Some a \<and> rule_target tenant ruleID a \<and>
          mget (r_alarms (e_repo (snd out))) k = Some (recovered v a))) \<and>
    (steady_rule tenant (e_repo s) \<longrightarrow> (\<forall>k. mget (r_alarms (e_repo (snd out))) k =
       (case mget (r_alarms (e_repo s)) k of None \<Rightarrow> None
        | Some a \<Rightarrow> Some (if rule_target tenant ruleID a then recovered v a else a))))"
proof -
  let ?s = "s\<lparr>e_repo := DeleteRulePendings tenant ruleID (e_repo s)\<rparr>"
  have a: "r_alarms (e_repo ?s) = r_alarms (e_repo s)" by (simp add: DeleteRulePendings_def)
  have eq: "out = closeRuleAlarms v fuel tenant ruleID ?s"
    by (simp add: out engine_DisableRule_def andThen_def update_repo_def)
  have f: "filed (r_alarms (e_repo ?s))"
    using alarms_inv_filed [OF engine_invD(2) [OF inv]] unfolding a .
  have st: "steady_rule tenant (e_repo ?s) = steady_rule tenant (e_repo s)"
    by (rule steady_rule_alarms [OF a])
  show ?thesis
    using closeRuleAlarms_ends(1-3) [OF f _ eq] fuel unfolding a st closed_all_def closed_some_def by blast
qed

text \<open>
  C10. Deleting a rule leaves nothing of it behind: after DeleteRule of a stored rule, even when the
  final status update of a device fails, the rule is gone and no device has a pending timer for it; and
  none of its alarms is open, in whatever order every listing visits the alarms, if the listings are
  steady: for each of ACTIVE and ACKED the tenant has at most 1000 alarms, or no two of them were last
  triggered at one time. No other handler runs meanwhile.
\<close>
theorem DeleteRule_leaves_nothing:
  assumes inv: "engine_inv (e_repo s)" and rule: "mget (r_rules (e_repo s)) (key [tenant, ruleID]) \<noteq> None"
    and fuel: "length (r_alarms (e_repo s)) * (length (r_alarms (e_repo s)) + 3) < fuel"
    and r: "r = e_repo (snd (engine_DeleteRule v fuel tenant ruleID s))"
  shows "mget (r_rules r) (key [tenant, ruleID]) = None \<and> GetRulePending tenant ruleID device r = None \<and>
    (steady_rule tenant (e_repo s) \<longrightarrow> (\<forall>k a. mget (r_alarms r) k = Some a \<longrightarrow>
       al_TenantID a = tenant \<longrightarrow> al_RuleID a = ruleID \<longrightarrow> \<not> open_status a))"
proof -
  define r1 where "r1 = DeleteRulePendings tenant ruleID
    ((e_repo s)\<lparr>r_rules := mdel (r_rules (e_repo s)) (key [tenant, ruleID])\<rparr>)"
  let ?s = "s\<lparr>e_repo := r1\<rparr>"
  have eq: "engine_DeleteRule v fuel tenant ruleID s = closeRuleAlarms v fuel tenant ruleID ?s"
    using rule by (auto simp: engine_DeleteRule_def andThen_def update_repo_def update_res_def DeleteRule_def
        Let_def r1_def simp del: key_simps)
  have a: "r_alarms (e_repo ?s) = r_alarms (e_repo s)" by (simp add: r1_def DeleteRulePendings_def)
  have f: "filed (r_alarms (e_repo ?s))"
    using alarms_inv_filed [OF engine_invD(2) [OF inv]] unfolding a .
  have st: "steady_rule tenant (e_repo ?s) = steady_rule tenant (e_repo s)" by (rule steady_rule_alarms [OF a])
  note ends = closeRuleAlarms_ends [OF f, unfolded a, OF fuel eq, folded r]
  have "mget (r_rules r) (key [tenant, ruleID]) = None"
    using ends(4) by (simp add: r1_def DeleteRulePendings_def)
  moreover have "GetRulePending tenant ruleID device r = None"
  proof -
    have p: "r_rulePending r = filter (\<lambda>e. \<not> has_prefix (fst e) (key [tenant, ruleID] @ [nul])) (r_rulePending (e_repo s))"
      using ends(5) by (simp add: r1_def DeleteRulePendings_def)
    have "has_prefix (key [tenant, ruleID, device]) (key [tenant, ruleID] @ [nul])"
      using has_prefix_append [of "key [tenant, ruleID] @ [nul]" device] by simp
    then show ?thesis
      unfolding GetRulePending_def p mget_def by (force simp: map_of_eq_None_iff)
  qed
  moreover have "\<not> open_status a"
    if a: "steady_rule tenant (e_repo s)" "mget (r_alarms r) k = Some a" "al_TenantID a = tenant" "al_RuleID a = ruleID" for k a
  proof
    assume o: "open_status a"
    have "rule_target tenant ruleID a"
      using a(3,4) o by (auto simp: rule_target_def target_def alarm_skipped_def status_filter_def all_alarms_def open_status_def)
    then show False
      using a(2) o ends(3) a(1) unfolding st by (auto simp: closed_all_def split: option.splits if_splits)
  qed
  ultimately show ?thesis by blast
qed

definition rule_engine :: engine where
  "rule_engine = started\<lparr>e_repo := sample_store\<lparr>r_rules := [(key [''t'', ''r''], zero_alarm_rule\<lparr>ar_ID := ''r''\<rparr>)]\<rparr>\<rparr>"

lemma rule_engine_inv: "engine_inv (e_repo rule_engine)"
proof -
  have "repo_inv (e_repo rule_engine)"
    using repo_inv_start by (simp add: rule_engine_def sample_store_def repo_inv_def claims_inv_def cameras_inv_def)
  moreover have "alarms_inv (r_alarms (e_repo rule_engine))"
    using sample_store_inv by (simp add: rule_engine_def)
  moreover have "\<not> component_rule ''r''"
    by (simp add: component_rule_def has_prefix_def directAlarmRulePrefix_def)
  then have "component_link (e_repo rule_engine)" "rules_inv (e_repo rule_engine)"
    by (auto simp: component_link_def rules_inv_def mall_def rule_engine_def sample_store_def mget_def sample_alarm_def
        split: if_splits)
  ultimately show ?thesis by (simp add: engine_inv_def)
qed

lemma rule_engine_fuel: "length (r_alarms (e_repo rule_engine)) * (length (r_alarms (e_repo rule_engine)) + 3) < 5"
  by (simp add: rule_engine_def sample_store_def)

lemma rule_engine_steady: "steady_rule ''t'' (e_repo rule_engine)"
  by (simp add: steady_rule_def steady_def in_status_def rule_engine_def sample_store_def mfilter_def mvals_def)

lemma rule_engine_alarm:
  "mget (r_alarms (e_repo rule_engine)) (key [''t'', ''a1'']) = Some (sample_alarm ''a1'' ''m1'')"
  by (simp add: rule_engine_def sample_store_def mget_def)

theorem DisableRule_ends_witness:
  "\<exists>a. mget (r_alarms (e_repo (snd (engine_DisableRule (sample_env 9) 5 ''t'' ''r'' rule_engine)))) (key [''t'', ''a1'']) =
     Some a \<and> al_Status a = ''RECOVERED''"
proof -
  have "rule_target ''t'' ''r'' (sample_alarm ''a1'' ''m1'')"
    by (simp add: rule_target_def target_def alarm_skipped_def status_filter_def all_alarms_def sample_alarm_def
        zero_alarm_def)
  then show ?thesis
    using DisableRule_ends [OF rule_engine_inv rule_engine_fuel refl, of "sample_env 9" "''t''" "''r''"]
      rule_engine_steady rule_engine_alarm
    by (simp add: recovered_def del: key_simps)
qed

theorem DeleteRule_leaves_nothing_witness:
  "mget (r_rules (e_repo (snd (engine_DeleteRule (sample_env 9) 5 ''t'' ''r'' rule_engine)))) (key [''t'', ''r'']) = None \<and>
   \<not> list_ex (\<lambda>e. snd e = sample_alarm ''a1'' ''m1'')
      (r_alarms (e_repo (snd (engine_DeleteRule (sample_env 9) 5 ''t'' ''r'' rule_engine))))"
proof -
  have rule: "mget (r_rules (e_repo rule_engine)) (key [''t'', ''r'']) \<noteq> None"
    by (simp add: rule_engine_def mget_def)
  let ?r = "e_repo (snd (engine_DeleteRule (sample_env 9) 5 ''t'' ''r'' rule_engine))"
  note left = DeleteRule_leaves_nothing [OF rule_engine_inv rule rule_engine_fuel refl, of "sample_env 9" "''d''"]
  have open_left: "\<not> open_status a" if "mget (r_alarms ?r) k = Some a" "al_TenantID a = ''t''" "al_RuleID a = ''r''" for k a
    using left rule_engine_steady that by blast
  have "engine_inv ?r"
    using later_engine_inv [OF later.handler [OF later.now, of "H_DeleteRule 5 ''t'' ''r''" rule_engine "sample_env 9"]]
      rule_engine_inv by simp
  then have wf: "mwf (r_alarms ?r)" using alarms_invD(1) engine_invD(2) by blast
  have "snd e \<noteq> sample_alarm ''a1'' ''m1''" if "e \<in> set (r_alarms ?r)" for e
    using open_left [of "fst e" "snd e"] mget_in [OF wf, of "fst e" "snd e"] that sample_alarm_simps by auto
  then show ?thesis using left by (auto simp: list_ex_iff)
qed

end
