(* ===== verification/Durable_Queue.thy ===== *)
theory Durable_Queue
  imports Repo_Messages
begin

text \<open>
  The durable queue of received messages (internal/durablequeue/queue.go): a directory whose files are
  the state. The name of a file is the hash of the message's identity; the suffixes .rejected and
  .corrupt set a file aside. The record disk says which system calls fail during one operation; a
  failing atomicFile may fail before (dk_write) or after (dk_flush) the new file got its name, and the
  os.Stat by which put then looks for the file may fail as well (dk_restat). Temporary files and the lock
  file have none of the three suffixes and are left out. The codec is encoding/json on raw messages,
  with None for an error, and the hexadecimal SHA-256 digest.
\<close>

record codec =
  cd_enc :: "raw_message \<Rightarrow> string option"
  cd_dec :: "string \<Rightarrow> raw_message option"
  cd_sha :: "string \<Rightarrow> string"

record disk =
  dk_read :: "error option"
  dk_stat :: "error option"
  dk_dir :: "error option"
  dk_write :: "error option"
  dk_flush :: "error option"
  dk_restat :: "error option"
  dk_rename :: "error option"
  dk_remove :: "error option"

definition good_disk :: disk where
  "good_disk = \<lparr>dk_read = None, dk_stat = None, dk_dir = None, dk_write = None, dk_flush = None,
     dk_restat = None, dk_rename = None, dk_remove = None\<rparr>"

record queue =
  q_files :: "string gomap"
  q_maxBytes :: int
  q_used :: int
  q_maxItems :: int
  q_closed :: bool

type_synonym 'a step = "'a res \<times> queue"

section \<open>Names\<close>

definition json_suffix :: string where "json_suffix = ''.json''"
definition rejected_suffix :: string where "rejected_suffix = ''.rejected''"
definition corrupt_suffix :: string where "corrupt_suffix = ''.corrupt''"

definition queueEntry :: "string \<Rightarrow> bool" where
  "queueEntry name \<longleftrightarrow> has_suffix name json_suffix \<or> has_suffix name rejected_suffix \<or> has_suffix name corrupt_suffix"

definition queueName :: "codec \<Rightarrow> raw_message \<Rightarrow> string" where
  "queueName cd raw = cd_sha cd (key [rm_TenantID raw, rm_MessageID raw]) @ json_suffix"

definition queue_entries :: "queue \<Rightarrow> string list" where
  "queue_entries q = filter queueEntry (map fst (q_files q))"

text \<open>Method entries: the names of pending messages in byte order.\<close>

definition entries :: "queue \<Rightarrow> string list" where
  "entries q = sort (filter (\<lambda>n. has_suffix n json_suffix) (map fst (q_files q)))"

definition file_size :: "string gomap \<Rightarrow> string \<Rightarrow> int" where
  "file_size m n = int (length (mget_or [] m n))"

section \<open>Operations\<close>

text \<open>The files of an existing directory, as its entries that are regular files.\<close>

definition OpenQueue :: "string gomap \<Rightarrow> int \<Rightarrow> int \<Rightarrow> queue res" where
  "OpenQueue files maxBytes maxItems =
     (if maxBytes < 1 \<or> maxItems < 1 then Inl (ErrText ''invalid queue limits'')
      else Inr \<lparr>q_files = files, q_maxBytes = maxBytes,
        q_used = sum_list (map (file_size files) (filter queueEntry (map fst files))),
        q_maxItems = maxItems, q_closed = False\<rparr>)"

definition Close :: "queue \<Rightarrow> queue" where
  "Close q = q\<lparr>q_closed := True\<rparr>"

definition failing :: "error option \<Rightarrow> unit res" where
  "failing e = (case e of None \<Rightarrow> Inr () | Some x \<Rightarrow> Inl x)"

definition put_limit :: nat where "put_limit = 1048576"

text \<open>The message as stored: the first reception's time is kept when stamp is set.\<close>

definition stamped :: "codec \<Rightarrow> disk \<Rightarrow> bool \<Rightarrow> int \<Rightarrow> raw_message \<Rightarrow> queue \<Rightarrow> raw_message res" where
  "stamped cd dk stamp now raw q =
     (if \<not> stamp then Inr raw
      else case dk_read dk of
          Some e \<Rightarrow> Inl e
        | None \<Rightarrow>
            (case mget (q_files q) (queueName cd raw) of
               None \<Rightarrow> Inr (raw\<lparr>rm_ReceivedAt := now\<rparr>)
             | Some old \<Rightarrow>
                 (case cd_dec cd old of
                    None \<Rightarrow> Inl ErrQuarantined
                  | Some saved \<Rightarrow> Inr (raw\<lparr>rm_ReceivedAt := rm_ReceivedAt saved\<rparr>))))"

definition put_file :: "disk \<Rightarrow> string \<Rightarrow> string \<Rightarrow> queue \<Rightarrow> unit step" where
  "put_file dk target b q =
     (let put = q\<lparr>q_files := mput (q_files q) target b\<rparr>;
          counted = put\<lparr>q_used := q_used q + int (length b)\<rparr>
      in if dk_write dk \<noteq> None then (Inl (the (dk_write dk)), q)
         else if dk_flush dk \<noteq> None
         then (Inl (the (dk_flush dk)), if dk_restat dk = None then counted else put)
         else (Inr (), counted))"

definition put_queue :: "codec \<Rightarrow> disk \<Rightarrow> bool \<Rightarrow> int \<Rightarrow> raw_message \<Rightarrow> queue \<Rightarrow> unit step" where
  "put_queue cd dk stamp now raw0 q =
     (let target = queueName cd raw0
      in if rm_TenantID raw0 = [] \<or> rm_MessageID raw0 = [] then (Inl (ErrText ''raw identity is required''), q)
         else if q_closed q then (Inl ErrClosed, q)
         else case stamped cd dk stamp now raw0 q of
             Inl e \<Rightarrow> (Inl e, q)
           | Inr raw \<Rightarrow>
               (case cd_enc cd raw of
                  None \<Rightarrow> (Inl (ErrText ''json''), q)
                | Some b \<Rightarrow>
                    if put_limit < length b then (Inl (ErrText ''raw exceeds 1 MiB''), q)
                    else if dk_stat dk \<noteq> None then (Inl (the (dk_stat dk)), q)
                    else if mget (q_files q) (target @ rejected_suffix) \<noteq> None \<or>
                       mget (q_files q) (target @ corrupt_suffix) \<noteq> None
                    then (Inl ErrQuarantined, q)
                    else if dk_read dk \<noteq> None then (Inl (the (dk_read dk)), q)
                    else (case mget (q_files q) target of
                        Some old \<Rightarrow> if old \<noteq> b then (Inl ErrRawConflict, q) else (failing (dk_flush dk), q)
                      | None \<Rightarrow>
                          if dk_dir dk \<noteq> None then (Inl (the (dk_dir dk)), q)
                          else if q_maxItems q \<le> int (length (queue_entries q)) \<or>
                             q_maxBytes q < q_used q + int (length b)
                          then (Inl ErrQueueFull, q)
                          else put_file dk target b q)))"

definition Put :: "codec \<Rightarrow> disk \<Rightarrow> raw_message \<Rightarrow> queue \<Rightarrow> unit step" where
  "Put cd dk raw q = put_queue cd dk False 0 raw q"

definition PutReceived :: "codec \<Rightarrow> disk \<Rightarrow> int \<Rightarrow> raw_message \<Rightarrow> queue \<Rightarrow> unit step" where
  "PutReceived cd dk now raw q = put_queue cd dk True now raw q"

text \<open>Why a pending file cannot be handed out, if it cannot.\<close>

definition corruption :: "codec \<Rightarrow> string \<Rightarrow> string \<Rightarrow> string option" where
  "corruption cd name b =
     (if put_limit < length b then Some ''entry exceeds 1 MiB''
      else case cd_dec cd b of
          None \<Rightarrow> Some ''invalid JSON''
        | Some raw \<Rightarrow>
            if rm_TenantID raw = [] \<or> rm_MessageID raw = [] \<or> queueName cd raw \<noteq> name
            then Some ''identity checksum mismatch'' else None)"

definition rename_file :: "string \<Rightarrow> string \<Rightarrow> string gomap \<Rightarrow> string gomap" where
  "rename_file a b m = (case mget m a of None \<Rightarrow> m | Some x \<Rightarrow> mput (mdel m a) b x)"

definition Next :: "codec \<Rightarrow> disk \<Rightarrow> queue \<Rightarrow> raw_message option step" where
  "Next cd dk q =
     (if q_closed q then (Inl ErrClosed, q)
      else if dk_dir dk \<noteq> None then (Inl (the (dk_dir dk)), q)
      else case entries q of
          [] \<Rightarrow> (Inr None, q)
        | name # _ \<Rightarrow>
            if dk_stat dk \<noteq> None then (Inl (the (dk_stat dk)), q)
            else if dk_read dk \<noteq> None then (Inl (the (dk_read dk)), q)
            else let b = mget_or [] (q_files q) name in
              (case corruption cd name b of
                 None \<Rightarrow> (Inr (cd_dec cd b), q)
               | Some reason \<Rightarrow>
                   if mget (q_files q) (name @ corrupt_suffix) \<noteq> None
                   then (Inl (ErrText ''corrupt quarantine already exists''), q)
                   else if dk_rename dk \<noteq> None then (Inl (the (dk_rename dk)), q)
                   else let q1 = q\<lparr>q_files := rename_file name (name @ corrupt_suffix) (q_files q)\<rparr>
                     in if dk_flush dk \<noteq> None then (Inl (the (dk_flush dk)), q1)
                        else (Inl (ErrText (''queue entry '' @ name @ '' quarantined: '' @ reason)), q1)))"

definition Ack :: "codec \<Rightarrow> disk \<Rightarrow> raw_message \<Rightarrow> queue \<Rightarrow> unit step" where
  "Ack cd dk raw q =
     (let path = queueName cd raw
      in if q_closed q then (Inl ErrClosed, q)
         else if dk_stat dk \<noteq> None then (Inl (the (dk_stat dk)), q)
         else if mget (q_files q) path = None then (Inr (), q)
         else if dk_remove dk \<noteq> None then (Inl (the (dk_remove dk)), q)
         else (failing (dk_flush dk), q\<lparr>q_files := mdel (q_files q) path,
           q_used := q_used q - file_size (q_files q) path\<rparr>))"

definition Depth :: "queue \<Rightarrow> int" where
  "Depth q = int (length (entries q))"

definition Reject_queue :: "codec \<Rightarrow> disk \<Rightarrow> raw_message \<Rightarrow> queue \<Rightarrow> unit step" where
  "Reject_queue cd dk raw q =
     (let path = queueName cd raw
      in if q_closed q then (Inl ErrClosed, q)
         else if dk_rename dk \<noteq> None then (Inl (the (dk_rename dk)), q)
         else if mget (q_files q) path = None then (Inl ErrNotFound, q)
         else (failing (dk_flush dk), q\<lparr>q_files := rename_file path (path @ rejected_suffix) (q_files q)\<rparr>))"

definition Rejected :: "queue \<Rightarrow> int" where
  "Rejected q = int (length (filter (\<lambda>n. has_suffix n rejected_suffix) (map fst (q_files q))))"

definition Corrupt :: "queue \<Rightarrow> int" where
  "Corrupt q = int (length (filter (\<lambda>n. has_suffix n corrupt_suffix) (map fst (q_files q))))"

text \<open>The loop over the directory, whose entries come sorted; the disk of each renaming is its own.\<close>

fun retry_files :: "(string \<Rightarrow> error option) \<Rightarrow> string list \<Rightarrow> string gomap \<Rightarrow> unit res \<times> string gomap" where
  "retry_files rename [] m = (Inr (), m)"
| "retry_files rename (name # names) m =
     (if \<not> has_suffix name (json_suffix @ rejected_suffix) then retry_files rename names m
      else let target = trim_suffix name rejected_suffix in
        if mget m target \<noteq> None then (Inl (ErrText ''active queue already contains rejected id''), m)
        else if rename name \<noteq> None then (Inl (the (rename name)), m)
        else retry_files rename names (rename_file name target m))"

definition RetryRejected :: "disk \<Rightarrow> (string \<Rightarrow> error option) \<Rightarrow> queue \<Rightarrow> unit step" where
  "RetryRejected dk rename q =
     (if q_closed q then (Inl ErrClosed, q)
      else if dk_dir dk \<noteq> None then (Inl (the (dk_dir dk)), q)
      else case retry_files rename (sort (map fst (q_files q))) (q_files q) of
          (Inl e, m) \<Rightarrow> (Inl e, q\<lparr>q_files := m\<rparr>)
        | (Inr _, m) \<Rightarrow> (failing (dk_flush dk), q\<lparr>q_files := m\<rparr>))"

end
