(* ===== verification/Queue_Inv.thy ===== *)
theory Queue_Inv
  imports Durable_Queue
begin

text \<open>
  Correctness of the durable queue under any sequence of operations and any failing system calls: the
  number of files and the bytes counted keep their limits, the count is exact unless a put can neither
  flush nor look for the file it has written, a message has one file, and what was received stays on disk
  until it is acknowledged.
\<close>

section \<open>Suffixes\<close>

lemma has_suffix_last: "has_suffix s p \<Longrightarrow> p \<noteq> [] \<Longrightarrow> last s = last p"
  by (auto simp: has_suffix_iff)

lemma suffixes_differ [simp]:
  "\<not> has_suffix (n @ json_suffix) rejected_suffix" "\<not> has_suffix (n @ json_suffix) corrupt_suffix"
  "\<not> has_suffix (n @ rejected_suffix) json_suffix" "\<not> has_suffix (n @ rejected_suffix) corrupt_suffix"
  "\<not> has_suffix (n @ corrupt_suffix) json_suffix" "\<not> has_suffix (n @ corrupt_suffix) rejected_suffix"
  by (auto dest!: has_suffix_last simp: json_suffix_def rejected_suffix_def corrupt_suffix_def)

lemma suffixes_distinct [simp]:
  "rejected_suffix \<noteq> []" "corrupt_suffix \<noteq> []" "rejected_suffix \<noteq> corrupt_suffix" "corrupt_suffix \<noteq> rejected_suffix"
  by (simp_all add: rejected_suffix_def corrupt_suffix_def)

lemma json_not_others:
  "has_suffix n json_suffix \<Longrightarrow> n \<noteq> m @ rejected_suffix" "has_suffix n json_suffix \<Longrightarrow> n \<noteq> m @ corrupt_suffix"
  "m @ rejected_suffix \<noteq> m' @ corrupt_suffix"
  using suffixes_differ by (metis has_suffix_append)+

lemma suffix_not_nil [simp]: "n @ rejected_suffix \<noteq> n" "n @ corrupt_suffix \<noteq> n" "n \<noteq> n @ rejected_suffix" "n \<noteq> n @ corrupt_suffix"
  by (simp_all add: rejected_suffix_def corrupt_suffix_def)

lemma queueEntry_suffix [simp]:
  "queueEntry (n @ json_suffix)" "queueEntry (n @ rejected_suffix)" "queueEntry (n @ corrupt_suffix)"
  by (simp_all add: queueEntry_def)

lemma queueEntry_json: "has_suffix n json_suffix \<Longrightarrow> queueEntry n"
  by (simp add: queueEntry_def)

lemma queueName_json [simp]: "has_suffix (queueName cd raw) json_suffix"
  by (simp add: queueName_def)

section \<open>Sums over a directory\<close>

definition weigh :: "(string \<Rightarrow> string \<Rightarrow> int) \<Rightarrow> string gomap \<Rightarrow> int" where
  "weigh w m = sum_list (map (\<lambda>e. w (fst e) (snd e)) m)"

lemma weigh_new: "mget m k = None \<Longrightarrow> weigh w (mput m k v) = weigh w m + w k v"
  unfolding mget_def mput_def weigh_def by (induction m) (auto split: if_splits)

lemma weigh_del: "mwf m \<Longrightarrow> mget m k = Some v \<Longrightarrow> weigh w (mdel m k) = weigh w m - w k v"
proof (induction m)
  case (Cons e m)
  have "mdel m k = m" if "k \<notin> fst ` set m"
    using that unfolding mdel_def by (induction m) auto
  then show ?case using Cons
    by (cases e) (auto simp: mget_def mdel_def weigh_def mwf_def split: if_splits)
qed simp

lemma weigh_rename:
  "mwf m \<Longrightarrow> mget m a = Some x \<Longrightarrow> mget m b = None \<Longrightarrow> w a x = w b x \<Longrightarrow> weigh w (rename_file a b m) = weigh w m"
  by (simp add: rename_file_def weigh_new weigh_del)

definition size_of :: "string \<Rightarrow> string \<Rightarrow> int" where
  "size_of n b = (if queueEntry n then int (length b) else 0)"

definition one_of :: "string \<Rightarrow> string \<Rightarrow> int" where
  "one_of n b = (if queueEntry n then 1 else 0)"

lemma weigh_one: "weigh one_of m = int (length (filter queueEntry (map fst m)))"
  by (induction m) (auto simp: weigh_def one_of_def)

lemma weigh_size:
  assumes "mwf m"
  shows "weigh size_of m = sum_list (map (file_size m) (filter queueEntry (map fst m)))"
proof -
  have "sum_list (map (file_size m') (filter queueEntry (map fst m))) = weigh size_of m"
    if "mwf m" "\<And>n b. (n, b) \<in> set m \<Longrightarrow> mget m' n = Some b" for m m'
    using that
  proof (induction m)
    case (Cons e m)
    have "mget m' (fst e) = Some (snd e)" using Cons.prems(2) by simp
    then have e: "file_size m' (fst e) = int (length (snd e))" by (simp add: file_size_def mget_or_def)
    have "sum_list (map (file_size m') (filter queueEntry (map fst m))) = weigh size_of m"
      using Cons by (simp add: mwf_def)
    then show ?case using e by (simp add: weigh_def size_of_def)
  qed (simp add: weigh_def)
  from this [OF assms, of m] show ?thesis using assms by (simp add: mget_in)
qed

section \<open>Invariant\<close>

text \<open>A message is pending, rejected or corrupt, never two of these.\<close>

definition apart :: "string gomap \<Rightarrow> bool" where
  "apart m \<longleftrightarrow> (\<forall>n. has_suffix n json_suffix \<longrightarrow>
     (mget m n \<noteq> None \<longrightarrow> mget m (n @ rejected_suffix) = None \<and> mget m (n @ corrupt_suffix) = None) \<and>
     (mget m (n @ rejected_suffix) \<noteq> None \<longrightarrow> mget m (n @ corrupt_suffix) = None))"

definition queue_inv :: "queue \<Rightarrow> bool" where
  "queue_inv q \<longleftrightarrow> mwf (q_files q) \<and> apart (q_files q) \<and> q_used q \<le> weigh size_of (q_files q) \<and>
     q_used q \<le> q_maxBytes q \<and> weigh one_of (q_files q) \<le> q_maxItems q"

text \<open>Every file is counted.\<close>

definition counted :: "queue \<Rightarrow> bool" where
  "counted q \<longleftrightarrow> q_used q = weigh size_of (q_files q)"

text \<open>A put that fails to flush its file can still look for it.\<close>

definition accountable :: "disk \<Rightarrow> bool" where
  "accountable dk \<longleftrightarrow> dk_flush dk = None \<or> dk_restat dk = None"

lemma apart_Nil [simp]: "apart []"
  by (simp add: apart_def)

lemma apartD:
  assumes "apart m" "has_suffix n json_suffix"
  shows "mget m n = Some b \<Longrightarrow> mget m (n @ rejected_suffix) = None" "mget m n = Some b \<Longrightarrow> mget m (n @ corrupt_suffix) = None"
    "mget m (n @ rejected_suffix) = Some b \<Longrightarrow> mget m (n @ corrupt_suffix) = None"
  using assms by (auto simp: apart_def)

lemma mwf_rename [simp]: "mwf m \<Longrightarrow> mwf (rename_file a b m)"
  by (simp add: rename_file_def split: option.split)

lemma mget_rename:
  "mget m a = Some x \<Longrightarrow> mget (rename_file a b m) n = (if n = b then Some x else if n = a then None else mget m n)"
  by (simp add: rename_file_def)

text \<open>An operation on the files of one message.\<close>

definition same_elsewhere :: "string \<Rightarrow> string gomap \<Rightarrow> string gomap \<Rightarrow> bool" where
  "same_elsewhere n m m' \<longleftrightarrow> (\<forall>k. k \<noteq> n \<and> k \<noteq> n @ rejected_suffix \<and> k \<noteq> n @ corrupt_suffix \<longrightarrow> mget m' k = mget m k)"

lemma other_forms:
  assumes "has_suffix n json_suffix" "has_suffix k json_suffix" "k \<noteq> n"
  shows "x \<in> {k, k @ rejected_suffix, k @ corrupt_suffix} \<Longrightarrow> x \<noteq> n \<and> x \<noteq> n @ rejected_suffix \<and> x \<noteq> n @ corrupt_suffix"
  using assms json_not_others(3) [of k n] json_not_others(3) [of n k]
    json_not_others(1,2) [OF assms(1), of k] json_not_others(1,2) [OF assms(2), of n] by auto

lemma apart_step:
  assumes "apart m" "has_suffix n json_suffix" "same_elsewhere n m m'"
    and "mget m' n \<noteq> None \<longrightarrow> mget m' (n @ rejected_suffix) = None \<and> mget m' (n @ corrupt_suffix) = None"
    and "mget m' (n @ rejected_suffix) \<noteq> None \<longrightarrow> mget m' (n @ corrupt_suffix) = None"
  shows "apart m'"
  unfolding apart_def
proof (intro allI impI)
  fix k
  assume k: "has_suffix k json_suffix"
  show "(mget m' k \<noteq> None \<longrightarrow> mget m' (k @ rejected_suffix) = None \<and> mget m' (k @ corrupt_suffix) = None) \<and>
     (mget m' (k @ rejected_suffix) \<noteq> None \<longrightarrow> mget m' (k @ corrupt_suffix) = None)"
  proof (cases "k = n")
    case False
    then have "mget m' x = mget m x" if "x \<in> {k, k @ rejected_suffix, k @ corrupt_suffix}" for x
      using other_forms [OF assms(2) k False that] assms(3) by (simp add: same_elsewhere_def)
    then show ?thesis using assms(1) k by (simp add: apart_def)
  qed (use assms in simp)
qed

lemma same_rename:
  "mget m n = Some x \<Longrightarrow> same_elsewhere n m (rename_file n (n @ rejected_suffix) m)"
  "mget m n = Some x \<Longrightarrow> same_elsewhere n m (rename_file n (n @ corrupt_suffix) m)"
  "mget m (n @ rejected_suffix) = Some x \<Longrightarrow> same_elsewhere n m (rename_file (n @ rejected_suffix) n m)"
  by (simp_all add: same_elsewhere_def mget_rename)

lemma same_put: "same_elsewhere n m (mput m n b)"
  by (simp add: same_elsewhere_def)

lemma same_del: "same_elsewhere n m (mdel m n)"
  by (simp add: same_elsewhere_def)

lemma apart_rename:
  assumes "apart m" "has_suffix n json_suffix" "mget m n = Some x"
  shows "apart (rename_file n (n @ rejected_suffix) m)" "apart (rename_file n (n @ corrupt_suffix) m)"
  using json_not_others(3) [of n n] apartD(1,2) [OF assms]
  by (auto intro!: apart_step [OF assms(1,2) same_rename(1) [OF assms(3)]]
      apart_step [OF assms(1,2) same_rename(2) [OF assms(3)]] simp: mget_rename [OF assms(3)])

lemma apart_retry:
  assumes "apart m" "has_suffix n json_suffix" "mget m (n @ rejected_suffix) = Some x"
  shows "apart (rename_file (n @ rejected_suffix) n m)"
  using json_not_others(3) [of n n] apartD(3) [OF assms]
  by (auto intro!: apart_step [OF assms(1,2) same_rename(3) [OF assms(3)]] simp: mget_rename [OF assms(3)])

lemma apart_put:
  assumes "apart m" "has_suffix n json_suffix" "mget m (n @ rejected_suffix) = None" "mget m (n @ corrupt_suffix) = None"
  shows "apart (mput m n b)"
  using assms by (intro apart_step [OF assms(1,2) same_put]) auto

lemma apart_del: "apart m \<Longrightarrow> apart (mdel m n)"
  by (auto simp: apart_def)

section \<open>Operations\<close>

lemma queue_inv_same_weights:
  assumes "queue_inv q" "mwf m" "apart m" "weigh size_of m = weigh size_of (q_files q)"
    "weigh one_of m = weigh one_of (q_files q)"
  shows "queue_inv (q\<lparr>q_files := m\<rparr>)"
  using assms by (simp add: queue_inv_def)

lemma weights_rename:
  assumes "mwf m" "mget m a = Some x" "mget m b = None" "queueEntry a" "queueEntry b"
  shows "weigh size_of (rename_file a b m) = weigh size_of m" "weigh one_of (rename_file a b m) = weigh one_of m"
  using assms by (auto intro!: weigh_rename simp: size_of_def one_of_def)

lemma queue_inv_rename:
  assumes q: "queue_inv q" "has_suffix n json_suffix" "mget (q_files q) n = Some x"
  shows "queue_inv (q\<lparr>q_files := rename_file n (n @ rejected_suffix) (q_files q)\<rparr>)"
    "queue_inv (q\<lparr>q_files := rename_file n (n @ corrupt_suffix) (q_files q)\<rparr>)"
proof -
  have "mwf (q_files q)" and a: "apart (q_files q)" using q(1) by (simp_all add: queue_inv_def)
  note w = weights_rename [OF this(1) q(3) _ queueEntry_json [OF q(2)]]
  show "queue_inv (q\<lparr>q_files := rename_file n (n @ rejected_suffix) (q_files q)\<rparr>)"
    "queue_inv (q\<lparr>q_files := rename_file n (n @ corrupt_suffix) (q_files q)\<rparr>)"
    using apart_rename [OF a q(2,3)] w apartD(1,2) [OF a q(2,3)] \<open>mwf (q_files q)\<close>
    by (auto intro!: queue_inv_same_weights [OF q(1)])
qed

lemma queue_inv_put_file:
  assumes q: "queue_inv q" "has_suffix n json_suffix" "mget (q_files q) n = None"
    "mget (q_files q) (n @ rejected_suffix) = None" "mget (q_files q) (n @ corrupt_suffix) = None"
    and fits: "int (length (queue_entries q)) < q_maxItems q" "q_used q + int (length b) \<le> q_maxBytes q"
  shows "queue_inv (snd (put_file dk n b q))"
proof -
  have "weigh one_of (q_files q) < q_maxItems q" using fits(1) by (simp add: weigh_one queue_entries_def)
  then show ?thesis
    using q fits(2) queueEntry_json [OF q(2)]
    by (auto simp: put_file_def queue_inv_def weigh_new size_of_def one_of_def apart_put Let_def)
qed

lemma queue_inv_put: "queue_inv q \<Longrightarrow> queue_inv (snd (put_queue cd dk stamp now raw q))"
  by (auto simp: put_queue_def Let_def not_le split: sum.split option.split intro!: queue_inv_put_file)

lemma entries_set: "n \<in> set (entries q) \<longleftrightarrow> has_suffix n json_suffix \<and> n \<in> fst ` set (q_files q)"
  by (auto simp: entries_def)

lemma entries_mget: "n \<in> set (entries q) \<Longrightarrow> \<exists>b. mget (q_files q) n = Some b"
  unfolding entries_set mget_def by (metis domD domIff map_of_eq_None_iff)

lemma Next_cases:
  obtains "snd (Next cd dk q) = q"
  | n b where "n \<in> set (entries q)" "mget (q_files q) n = Some b"
      "snd (Next cd dk q) = q\<lparr>q_files := rename_file n (n @ corrupt_suffix) (q_files q)\<rparr>"
proof (cases "entries q")
  case Nil
  then show thesis using that(1) by (simp add: Next_def)
next
  case (Cons n ns)
  obtain b where b: "mget (q_files q) n = Some b" using entries_mget [of n q] Cons by auto
  have "snd (Next cd dk q) = q \<or> snd (Next cd dk q) = q\<lparr>q_files := rename_file n (n @ corrupt_suffix) (q_files q)\<rparr>"
    by (simp add: Next_def Cons Let_def split: option.split)
  then show thesis using that(1) that(2) [of n b] b Cons by auto
qed

lemma queue_inv_Next: "queue_inv q \<Longrightarrow> queue_inv (snd (Next cd dk q))"
  by (rule Next_cases [of cd dk q]) (auto simp: queue_inv_rename entries_set)

lemma queue_inv_Ack: "queue_inv q \<Longrightarrow> queue_inv (snd (Ack cd dk raw q))"
proof -
  assume q: "queue_inv q"
  have j: "queueEntry (queueName cd raw)" by (simp add: queueEntry_json)
  have "queue_inv (q\<lparr>q_files := mdel (q_files q) (queueName cd raw),
      q_used := q_used q - file_size (q_files q) (queueName cd raw)\<rparr>)"
    if "mget (q_files q) (queueName cd raw) = Some b" for b
    using q that j apart_del [of "q_files q"]
    by (simp add: queue_inv_def weigh_del size_of_def one_of_def file_size_def mget_or_def)
  then show ?thesis using q by (auto simp: Ack_def Let_def)
qed

lemma queue_inv_Reject: "queue_inv q \<Longrightarrow> queue_inv (snd (Reject_queue cd dk raw q))"
  by (auto simp: Reject_queue_def Let_def intro: queue_inv_rename(1))

lemma retry_target:
  assumes "has_suffix n (json_suffix @ rejected_suffix)"
  shows "has_suffix (trim_suffix n rejected_suffix) json_suffix" "trim_suffix n rejected_suffix @ rejected_suffix = n"
proof -
  obtain t where "n = (t @ json_suffix) @ rejected_suffix" using assms by (auto simp: has_suffix_iff)
  then show "has_suffix (trim_suffix n rejected_suffix) json_suffix" "trim_suffix n rejected_suffix @ rejected_suffix = n"
    by (simp_all only: trim_suffix_append has_suffix_append)
qed

lemma retry_files_keeps:
  assumes "P m"
    and "\<And>m n x. P m \<Longrightarrow> has_suffix n json_suffix \<Longrightarrow> mget m (n @ rejected_suffix) = Some x \<Longrightarrow> mget m n = None \<Longrightarrow>
      P (rename_file (n @ rejected_suffix) n m)"
  shows "P (snd (retry_files rename names m))"
  using assms(1)
proof (induction names arbitrary: m)
  case (Cons name names)
  show ?case
  proof (cases "has_suffix name (json_suffix @ rejected_suffix)")
    case True
    note t = retry_target [OF True]
    have "P (rename_file name (trim_suffix name rejected_suffix) m)"
      if "mget m (trim_suffix name rejected_suffix) = None"
    proof (cases "mget m name")
      case None
      then show ?thesis using Cons.prems by (simp add: rename_file_def)
    next
      case (Some x)
      then show ?thesis using assms(2) [OF Cons.prems t(1)] t(2) that by simp
    qed
    then show ?thesis using Cons by (simp add: Let_def)
  qed (use Cons in simp)
qed simp

lemma queue_inv_RetryRejected: "queue_inv q \<Longrightarrow> queue_inv (snd (RetryRejected dk rename q))"
proof -
  assume q: "queue_inv q"
  have "queue_inv (q\<lparr>q_files := snd (retry_files rename names m)\<rparr>)" if "queue_inv (q\<lparr>q_files := m\<rparr>)" for names m
  proof (rule retry_files_keeps [where P = "\<lambda>m. queue_inv (q\<lparr>q_files := m\<rparr>)", OF that])
    fix m n x
    assume m: "queue_inv (q\<lparr>q_files := m\<rparr>)" "has_suffix n json_suffix" "mget m (n @ rejected_suffix) = Some x" "mget m n = None"
    then have "mwf m" "apart m" by (simp_all add: queue_inv_def)
    then show "queue_inv (q\<lparr>q_files := rename_file (n @ rejected_suffix) n m\<rparr>)"
      using queue_inv_same_weights [OF m(1)] apart_retry [OF _ m(2,3)]
        weights_rename [OF _ m(3,4) queueEntry_suffix(2) queueEntry_json [OF m(2)]] by simp
  qed
  from this [of "q_files q"] have r: "queue_inv (q\<lparr>q_files := snd (retry_files rename names (q_files q))\<rparr>)" for names
    using q by simp
  show ?thesis
    using q r [of "sort (map fst (q_files q))"]
    by (auto simp: RetryRejected_def split: prod.split sum.split)
qed

section \<open>Histories\<close>

datatype queue_op =
    Op_Put bool int raw_message
  | Op_Next
  | Op_Ack raw_message
  | Op_Reject raw_message
  | Op_Retry "string \<Rightarrow> error option"

fun queue_step :: "codec \<Rightarrow> disk \<times> queue_op \<Rightarrow> queue \<Rightarrow> queue" where
  "queue_step cd (dk, Op_Put stamp now raw) q = snd (put_queue cd dk stamp now raw q)"
| "queue_step cd (dk, Op_Next) q = snd (Next cd dk q)"
| "queue_step cd (dk, Op_Ack raw) q = snd (Ack cd dk raw q)"
| "queue_step cd (dk, Op_Reject raw) q = snd (Reject_queue cd dk raw q)"
| "queue_step cd (dk, Op_Retry rename) q = snd (RetryRejected dk rename q)"

definition queue_run :: "codec \<Rightarrow> (disk \<times> queue_op) list \<Rightarrow> queue \<Rightarrow> queue" where
  "queue_run cd ops q = fold (queue_step cd) ops q"

lemma queue_inv_step: "queue_inv q \<Longrightarrow> queue_inv (queue_step cd op q)"
  by (cases "(cd, op, q)" rule: queue_step.cases)
    (simp_all add: queue_inv_put queue_inv_Next queue_inv_Ack queue_inv_Reject queue_inv_RetryRejected)

lemma counted_rename:
  assumes "counted q" "queue_inv q" "mget (q_files q) a = Some x" "mget (q_files q) b = None" "queueEntry a" "queueEntry b"
  shows "counted (q\<lparr>q_files := rename_file a b (q_files q)\<rparr>)"
  using assms weights_rename(1) [of "q_files q" a x b] by (simp add: counted_def queue_inv_def)

lemma counted_retry: "counted q \<Longrightarrow> queue_inv q \<Longrightarrow> counted (snd (RetryRejected dk rename q))"
proof -
  assume q: "counted q" "queue_inv q"
  let ?P = "\<lambda>m. mwf m \<and> weigh size_of m = weigh size_of (q_files q)"
  have "?P (snd (retry_files rename names m))" if "?P m" for names m
    by (rule retry_files_keeps [where P = ?P, OF that])
      (use weights_rename(1) [OF _ _ _ queueEntry_suffix(2) queueEntry_json] in auto)
  from this [of "q_files q" "sort (map fst (q_files q))"] show ?thesis
    using q by (auto simp: RetryRejected_def counted_def queue_inv_def split: prod.split sum.split)
qed

lemma counted_step:
  assumes c: "counted q" and q: "queue_inv q" and dk: "accountable (fst op)"
  shows "counted (queue_step cd op q)"
proof -
  have a: "mwf (q_files q)" "apart (q_files q)" using q by (simp_all add: queue_inv_def)
  obtain dk act where op: "op = (dk, act)" by (cases op)
  show ?thesis
  proof (cases act)
    case (Op_Put stamp now raw)
    have "queueEntry (queueName cd raw)" by (simp add: queueEntry_json)
    then have "counted (snd (put_file dk (queueName cd raw) b q))" if "mget (q_files q) (queueName cd raw) = None" for b
      using c dk that by (auto simp: op put_file_def accountable_def counted_def weigh_new size_of_def Let_def)
    then show ?thesis using c
      by (auto simp: op Op_Put put_queue_def Let_def split: sum.split option.split)
  next
    case Op_Next
    show ?thesis
      by (rule Next_cases [of cd dk q])
        (use c q apartD(2) [OF a(2)] in \<open>auto simp: op Op_Next entries_set queueEntry_json intro!: counted_rename\<close>)
  next
    case (Op_Ack raw)
    have "queueEntry (queueName cd raw)" by (simp add: queueEntry_json)
    then show ?thesis
      using c a(1) by (auto simp: op Op_Ack Ack_def Let_def counted_def weigh_del size_of_def file_size_def mget_or_def)
  next
    case (Op_Reject raw)
    show ?thesis
      using c q apartD(1) [OF a(2)]
      by (auto simp: op Op_Reject Reject_queue_def Let_def queueEntry_json intro!: counted_rename)
  next
    case (Op_Retry rename)
    then show ?thesis using counted_retry [OF c q] by (simp add: op)
  qed
qed

lemma counted_run:
  "counted q \<Longrightarrow> queue_inv q \<Longrightarrow> \<forall>dk \<in> fst ` set ops. accountable dk \<Longrightarrow> counted (queue_run cd ops q)"
proof (induction ops arbitrary: q)
  case (Cons op ops)
  then have "counted (queue_step cd op q)" "queue_inv (queue_step cd op q)"
    using counted_step queue_inv_step by simp_all
  then show ?case using Cons by (simp add: queue_run_def)
qed (simp add: queue_run_def)

lemma queue_inv_run: "queue_inv q \<Longrightarrow> queue_inv (queue_run cd ops q)"
  unfolding queue_run_def by (induction ops arbitrary: q) (simp_all add: queue_inv_step)

lemma queue_inv_open: "OpenQueue [] maxBytes maxItems = Inr q \<Longrightarrow> queue_inv q"
  and counted_open: "OpenQueue [] maxBytes maxItems = Inr q \<Longrightarrow> counted q"
  by (auto simp: OpenQueue_def queue_inv_def counted_def weigh_def split: if_splits)

lemma step_limits:
  "q_maxBytes (queue_step cd op q) = q_maxBytes q \<and> q_maxItems (queue_step cd op q) = q_maxItems q \<and>
   q_closed (queue_step cd op q) = q_closed q"
  by (cases "(cd, op, q)" rule: queue_step.cases)
    (auto simp: put_queue_def put_file_def Next_def Ack_def Reject_queue_def RetryRejected_def Let_def
      split: option.split sum.split list.split prod.split)

lemma run_limits:
  "q_maxBytes (queue_run cd ops q) = q_maxBytes q \<and> q_maxItems (queue_run cd ops q) = q_maxItems q \<and>
   q_closed (queue_run cd ops q) = q_closed q"
  unfolding queue_run_def by (induction ops arbitrary: q) (simp_all add: step_limits)

text \<open>
  C29. Over any history of a queue opened on an empty directory, whatever system calls fail, the bytes it
  counts are at most the size of its files, and neither they nor the number of files exceed its limits. As
  long as no operation fails both to flush the directory and to stat the file it has written, the count is
  the size of the files exactly, and reopening the directory gives the same queue.
\<close>
theorem queue_accounting:
  assumes "OpenQueue [] maxBytes maxItems = Inr q0" "q = queue_run cd ops q0"
  shows "q_used q \<le> sum_list (map (file_size (q_files q)) (queue_entries q)) \<and> q_used q \<le> maxBytes \<and>
    int (length (queue_entries q)) \<le> maxItems \<and>
    ((\<forall>dk \<in> fst ` set ops. dk_flush dk = None \<or> dk_restat dk = None) \<longrightarrow>
       q_used q = sum_list (map (file_size (q_files q)) (queue_entries q)) \<and>
       OpenQueue (q_files q) maxBytes maxItems = Inr q)"
proof -
  have q: "queue_inv q" unfolding assms(2) by (rule queue_inv_run [OF queue_inv_open [OF assms(1)]])
  have l: "q_maxBytes q = maxBytes" "q_maxItems q = maxItems" "\<not> q_closed q" "1 \<le> maxBytes" "1 \<le> maxItems"
    using assms run_limits [of cd ops q0] by (auto simp: OpenQueue_def split: if_splits)
  have "int (length (queue_entries q)) \<le> maxItems" "q_used q \<le> maxBytes"
    using q l by (simp_all add: queue_inv_def weigh_one queue_entries_def)
  moreover have "q_used q \<le> sum_list (map (file_size (q_files q)) (queue_entries q))"
    using q weigh_size [of "q_files q"] by (simp add: queue_inv_def queue_entries_def)
  moreover have "q_used q = sum_list (map (file_size (q_files q)) (queue_entries q)) \<and>
      OpenQueue (q_files q) maxBytes maxItems = Inr q"
    if "\<forall>dk \<in> fst ` set ops. dk_flush dk = None \<or> dk_restat dk = None"
  proof -
    have "counted q"
      unfolding assms(2) using that
      by (intro counted_run counted_open [OF assms(1)] queue_inv_open [OF assms(1)]) (simp add: accountable_def)
    then have used: "q_used q = sum_list (map (file_size (q_files q)) (queue_entries q))"
      using q by (simp add: counted_def queue_inv_def weigh_size queue_entries_def)
    then show ?thesis using l by (simp add: OpenQueue_def queue_entries_def)
  qed
  ultimately show ?thesis by blast
qed

text \<open>An uncounted file: the put that fails in both ways leaves a file its queue does not count.\<close>

lemma uncounted_file:
  assumes "dk_write dk = None" "dk_flush dk \<noteq> None" "dk_restat dk \<noteq> None"
  shows "q_used (snd (put_file dk n b q)) = q_used q \<and> mget (q_files (snd (put_file dk n b q))) n = Some b"
  using assms by (auto simp: put_file_def Let_def)

section \<open>Nothing received is lost\<close>

definition holds_file :: "string \<Rightarrow> string \<Rightarrow> string gomap \<Rightarrow> bool" where
  "holds_file n b m \<longleftrightarrow> mget m n = Some b \<or> mget m (n @ rejected_suffix) = Some b \<or>
     mget m (n @ corrupt_suffix) = Some b"

lemma holds_elsewhere:
  assumes "has_suffix n json_suffix" "has_suffix k json_suffix" "k \<noteq> n" "same_elsewhere k m m'" "holds_file n b m"
  shows "holds_file n b m'"
proof -
  have "mget m' x = mget m x" if "x \<in> {n, n @ rejected_suffix, n @ corrupt_suffix}" for x
    using other_forms [OF assms(2,1) _ that] assms(3,4) by (auto simp: same_elsewhere_def)
  then show ?thesis using assms(5) by (simp add: holds_file_def)
qed

lemma holds_rename:
  assumes "apart m" "has_suffix n json_suffix" "has_suffix k json_suffix" "mget m k = Some x" "holds_file n b m"
  shows "holds_file n b (rename_file k (k @ rejected_suffix) m)" "holds_file n b (rename_file k (k @ corrupt_suffix) m)"
proof -
  have "holds_file n b (rename_file k (k @ rejected_suffix) m) \<and> holds_file n b (rename_file k (k @ corrupt_suffix) m)"
  proof (cases "k = n")
    case True
    then show ?thesis
      using assms(4,5) apartD(1,2) [OF assms(1,2), of x] by (auto simp: holds_file_def mget_rename)
  next
    case False
    then show ?thesis using holds_elsewhere [OF assms(2,3) False same_rename(1) [OF assms(4)] assms(5)]
        holds_elsewhere [OF assms(2,3) False same_rename(2) [OF assms(4)] assms(5)] by simp
  qed
  then show "holds_file n b (rename_file k (k @ rejected_suffix) m)" "holds_file n b (rename_file k (k @ corrupt_suffix) m)"
    by auto
qed

lemma holds_retry:
  assumes "apart m" "has_suffix n json_suffix" "has_suffix k json_suffix" "mget m (k @ rejected_suffix) = Some x"
    "mget m k = None" "holds_file n b m"
  shows "holds_file n b (rename_file (k @ rejected_suffix) k m)"
proof (cases "k = n")
  case True
  then show ?thesis
    using assms(4-6) apartD(3) [OF assms(1,2), of x] by (auto simp: holds_file_def mget_rename)
next
  case False
  then show ?thesis by (rule holds_elsewhere [OF assms(2,3) _ same_rename(3) [OF assms(4)] assms(6)])
qed

lemma holds_put:
  assumes "has_suffix n json_suffix" "has_suffix k json_suffix" "mget m k = None"
    "mget m (k @ rejected_suffix) = None" "mget m (k @ corrupt_suffix) = None" "holds_file n b m"
  shows "holds_file n b (mput m k c)"
proof (cases "k = n")
  case True
  then show ?thesis using assms(3-6) by (simp add: holds_file_def)
next
  case False
  then show ?thesis by (rule holds_elsewhere [OF assms(1,2) _ same_put assms(6)])
qed

lemma holds_step:
  assumes q: "queue_inv q" and n: "has_suffix n json_suffix" and h: "holds_file n b (q_files q)"
    and op: "\<And>raw. snd op = Op_Ack raw \<Longrightarrow> queueName cd raw \<noteq> n"
  shows "holds_file n b (q_files (queue_step cd op q))"
proof -
  have a: "apart (q_files q)" using q by (simp add: queue_inv_def)
  obtain dk act where op2: "op = (dk, act)" by (cases op)
  show ?thesis
  proof (cases act)
    case (Op_Put stamp now raw)
    show ?thesis using h
      by (auto simp: op2 Op_Put put_queue_def put_file_def Let_def split: sum.split option.split
          intro!: holds_put [OF n])
  next
    case Op_Next
    show ?thesis
      by (rule Next_cases [of cd dk q])
        (use h in \<open>auto simp: op2 Op_Next entries_set intro: holds_rename(2) [OF a n]\<close>)
  next
    case (Op_Ack raw)
    then have "queueName cd raw \<noteq> n" using op by (simp add: op2)
    from holds_elsewhere [OF n queueName_json this same_del h] show ?thesis
      using h by (simp add: op2 Op_Ack Ack_def Let_def)
  next
    case (Op_Reject raw)
    show ?thesis
      using h by (auto simp: op2 Op_Reject Reject_queue_def Let_def intro: holds_rename(1) [OF a n])
  next
    case (Op_Retry rename)
    have "apart (snd (retry_files rename names m)) \<and> holds_file n b (snd (retry_files rename names m))"
      if "apart m" "holds_file n b m" for names m
      by (rule retry_files_keeps [where P = "\<lambda>m. apart m \<and> holds_file n b m"])
        (use that in \<open>auto intro: apart_retry holds_retry [OF _ n]\<close>)
    from this [OF a h, of "sort (map fst (q_files q))"] show ?thesis
      using h by (auto simp: op2 Op_Retry RetryRejected_def split: prod.split sum.split)
  qed
qed

lemma holds_run:
  assumes "queue_inv q" "has_suffix n json_suffix" "holds_file n b (q_files q)"
    "\<forall>raw. Op_Ack raw \<in> snd ` set ops \<longrightarrow> queueName cd raw \<noteq> n"
  shows "holds_file n b (q_files (queue_run cd ops q))"
  using assms
proof (induction ops arbitrary: q)
  case (Cons op ops)
  have "holds_file n b (q_files (queue_step cd op q))"
    by (rule holds_step [OF Cons.prems(1-3)]) (use Cons.prems(4) in force)
  then show ?case
    using Cons.IH [OF queue_inv_step [OF Cons.prems(1)]] Cons.prems(2,4) by (simp add: queue_run_def)
qed (simp add: queue_run_def)

lemma put_stored:
  assumes "put_queue cd dk stamp now raw q = (Inr (), q')"
  shows "\<exists>at b. cd_enc cd (if stamp then raw\<lparr>rm_ReceivedAt := at\<rparr> else raw) = Some b \<and>
    mget (q_files q') (queueName cd raw) = Some b \<and> length b \<le> put_limit"
proof -
  let ?n = "queueName cd raw"
  obtain r b where r: "stamped cd dk stamp now raw q = Inr r" "cd_enc cd r = Some b" "length b \<le> put_limit"
    "mget (q_files q') ?n = Some b"
    using assms by (auto simp: put_queue_def put_file_def failing_def Let_def not_less
        split: if_splits sum.splits option.splits)
  have "\<exists>at. r = (if stamp then raw\<lparr>rm_ReceivedAt := at\<rparr> else raw)"
    using r(1) by (auto simp: stamped_def split: if_splits option.splits)
  then show ?thesis using r by metis
qed

text \<open>
  C13. What PutReceived has accepted stays on disk: until its message is acknowledged, the bytes written
  for it are in its pending, rejected or quarantined file, whatever else happens to the queue and
  whatever system calls fail.
\<close>
theorem received_is_not_lost:
  assumes "OpenQueue [] maxBytes maxItems = Inr q0"
    and "PutReceived cd dk now raw (queue_run cd before q0) = (Inr (), q)"
    and "\<forall>r. Op_Ack r \<in> snd ` set after \<longrightarrow> queueName cd r \<noteq> queueName cd raw"
  shows "\<exists>at b. cd_enc cd (raw\<lparr>rm_ReceivedAt := at\<rparr>) = Some b \<and>
    holds_file (queueName cd raw) b (q_files (queue_run cd after q))"
proof -
  have inv: "queue_inv (queue_run cd before q0)" by (rule queue_inv_run [OF queue_inv_open [OF assms(1)]])
  have "queue_inv q" using queue_inv_put [OF inv, of cd dk True now raw] assms(2) by (simp add: PutReceived_def)
  moreover obtain at b where b: "cd_enc cd (raw\<lparr>rm_ReceivedAt := at\<rparr>) = Some b"
    "mget (q_files q) (queueName cd raw) = Some b"
    using put_stored [of cd dk True now raw "queue_run cd before q0" q] assms(2) by (auto simp: PutReceived_def)
  moreover have "holds_file (queueName cd raw) b (q_files q)" using b(2) by (simp add: holds_file_def)
  ultimately show ?thesis using holds_run [OF _ queueName_json _ assms(3)] by blast
qed

end
