(* ===== verification/Wire.thy ===== *)
theory Wire
  imports Prelude
begin

text \<open>
  Bytes on the wire, for the codecs of field protocols: encoding/binary on 16-bit fields,
  encoding/hex, decimal and hexadecimal numbers of package fmt, and the JSON string a frame travels
  in. A frame is a list of 8-bit words.
\<close>

unbundle bit_operations_syntax

type_synonym octet = "8 word"

section \<open>Steps that may fail\<close>

text \<open>A sequence of statements of which each returns early with its error.\<close>

definition bind_res :: "'a res \<Rightarrow> ('a \<Rightarrow> 'b res) \<Rightarrow> 'b res" where
  "bind_res m f = (case m of Inl e \<Rightarrow> Inl e | Inr x \<Rightarrow> f x)"

definition must :: "bool \<Rightarrow> error \<Rightarrow> unit res" where
  "must b e = (if b then Inr () else Inl e)"

definition some_or :: "'a option \<Rightarrow> error \<Rightarrow> 'a res" where
  "some_or x e = (case x of None \<Rightarrow> Inl e | Some y \<Rightarrow> Inr y)"

named_theorems res_simps \<open>when steps that may fail succeed\<close>

lemma bind_res_Inr [res_simps]: "bind_res m f = Inr y \<longleftrightarrow> (\<exists>x. m = Inr x \<and> f x = Inr y)"
  by (cases m) (simp_all add: bind_res_def)

lemma must_Inr [res_simps]: "must b e = Inr u \<longleftrightarrow> b"
  by (simp add: must_def)

lemma some_or_Inr [res_simps]: "some_or x e = Inr y \<longleftrightarrow> x = Some y"
  by (cases x) (simp_all add: some_or_def)

lemma bind_res_simps [simp]: "bind_res (Inr x) f = f x" "bind_res (Inl e) f = Inl e"
  by (simp_all add: bind_res_def)

text \<open>Two texts that a byte outside of them separates from the rest.\<close>

lemma split_at: "c \<notin> set a \<Longrightarrow> c \<notin> set a' \<Longrightarrow> a @ c # b = a' @ c # b' \<longleftrightarrow> a = a' \<and> b = b'"
proof (induction a arbitrary: a')
  case Nil
  then show ?case by (cases a') auto
next
  case (Cons x xs)
  then show ?case by (cases a') auto
qed

text \<open>White space at the ends: none next to a visible ASCII character.\<close>

definition visible :: "char \<Rightarrow> bool" where
  "visible c \<longleftrightarrow> 33 \<le> (of_char c :: nat) \<and> of_char c \<le> (126 :: nat)"

lemma no_space:
  assumes "visible c"
  shows "find (\<lambda>p. p \<noteq> [] \<and> has_prefix (c # t) p) spaces = None"
    "find (\<lambda>p. p \<noteq> [] \<and> has_prefix (c # t) p) (map rev spaces) = None"
proof -
  have "\<forall>p \<in> set spaces. p \<noteq> [] \<and> \<not> visible (hd p) \<and> \<not> visible (last p)"
    by (simp add: spaces_def bytes_def visible_def upt_rec)
  then have "\<not> has_prefix (c # t) p \<and> \<not> has_prefix (c # t) (rev p)" if "p \<in> set spaces" for p
    using that assms by (cases p; cases "rev p") (auto simp: has_prefix_def hd_rev [symmetric])
  then show "find (\<lambda>p. p \<noteq> [] \<and> has_prefix (c # t) p) spaces = None"
    "find (\<lambda>p. p \<noteq> [] \<and> has_prefix (c # t) p) (map rev spaces) = None"
    by (auto simp: find_None_iff)
qed

lemma trim_space_visible:
  assumes "visible c" "visible (last (c # t))"
  shows "trim_space (c # t) = c # t"
proof -
  have "trim_left spaces (c # t) = c # t" using no_space(1) [OF assms(1)] by (subst trim_left.simps) simp
  moreover have "trim_left (map rev spaces) (d # u) = d # u" if "visible d" for d u
    using no_space(2) [OF that] by (subst trim_left.simps) simp
  moreover obtain d u where "rev (c # t) = d # u" by (cases "rev (c # t)") auto
  moreover from this have "visible d" using assms(2) by (metis last_rev hd_rev list.sel(1))
  ultimately show ?thesis by (metis rev_rev_ident trim_space_def)
qed

lemmas visible_simps = trim_space_visible visible_def

section \<open>16-bit fields\<close>

text \<open>binary.BigEndian.Uint16 and PutUint16 of two bytes; the little-endian ones take them swapped.\<close>

definition join16 :: "octet \<Rightarrow> octet \<Rightarrow> 16 word" where
  "join16 hi lo = push_bit 8 (ucast hi) OR ucast lo"

definition high8 :: "16 word \<Rightarrow> octet" where
  "high8 w = ucast (drop_bit 8 w)"

definition low8 :: "16 word \<Rightarrow> octet" where
  "low8 w = ucast w"

lemma join16_split [simp]: "join16 (high8 w) (low8 w) = w"
  unfolding join16_def high8_def low8_def
  by (rule bit_word_eqI) (auto simp: bit_simps)

lemma high8_join16 [simp]: "high8 (join16 hi lo) = hi"
  unfolding join16_def high8_def
  by (rule bit_word_eqI) (auto simp: bit_simps dest: bit_imp_le_length)

lemma low8_join16 [simp]: "low8 (join16 hi lo) = lo"
  unfolding join16_def low8_def
  by (rule bit_word_eqI) (auto simp: bit_simps dest: bit_imp_le_length)

lemma split16_inject: "low8 v = low8 w \<Longrightarrow> high8 v = high8 w \<Longrightarrow> v = w"
  by (metis join16_split)

lemma join16_0 [simp]: "join16 0 0 = 0"
  by (simp add: join16_def)

lemma unat16: "n < 65536 \<Longrightarrow> unat (word_of_nat n :: 16 word) = n"
  by (simp add: unat_of_nat)

lemma unat8: "n < 256 \<Longrightarrow> unat (word_of_nat n :: octet) = n"
  by (simp add: unat_of_nat)

definition be16 :: "octet list \<Rightarrow> nat \<Rightarrow> 16 word" where
  "be16 xs i = join16 (xs ! i) (xs ! Suc i)"

definition le16 :: "octet list \<Rightarrow> nat \<Rightarrow> 16 word" where
  "le16 xs i = join16 (xs ! Suc i) (xs ! i)"

definition put_be16 :: "16 word \<Rightarrow> octet list" where
  "put_be16 w = [high8 w, low8 w]"

definition put_le16 :: "16 word \<Rightarrow> octet list" where
  "put_le16 w = [low8 w, high8 w]"

lemma length_put16 [simp]: "length (put_be16 w) = 2" "length (put_le16 w) = 2"
  by (simp_all add: put_be16_def put_le16_def)

text \<open>Integer division of Go rounds towards zero.\<close>

definition go_div :: "int \<Rightarrow> int \<Rightarrow> int" where
  "go_div a b = sgn a * sgn b * (\<bar>a\<bar> div \<bar>b\<bar>)"

lemma go_div_nonneg: "0 \<le> a \<Longrightarrow> 0 < b \<Longrightarrow> go_div a b = a div b"
  by (cases "a = 0") (simp_all add: go_div_def)

definition go_mod :: "int \<Rightarrow> int \<Rightarrow> int" where
  "go_mod a b = a - b * go_div a b"

lemma go_mod_nonneg: "0 \<le> a \<Longrightarrow> 0 < b \<Longrightarrow> go_mod a b = a mod b"
  by (simp add: go_mod_def go_div_nonneg minus_mult_div_eq_mod)

section \<open>Parts of texts\<close>

text \<open>strings.Split with a separator of one byte.\<close>

fun split_char :: "char \<Rightarrow> string \<Rightarrow> string list" where
  "split_char c [] = [[]]"
| "split_char c (x # xs) = (if x = c then [] # split_char c xs
    else (case split_char c xs of [] \<Rightarrow> [[x]] | y # ys \<Rightarrow> (x # y) # ys))"

lemma split_char_not_Nil [simp]: "split_char c s \<noteq> []"
  by (induction s) (auto split: list.split)

lemma split_char_plain: "c \<notin> set s \<Longrightarrow> split_char c s = [s]"
  by (induction s) auto

lemma split_char_append: "split_char c (s @ c # t) = split_char c s @ split_char c t"
  by (induction s) (auto split: list.split)

lemma split_char_free: "p \<in> set (split_char c s) \<Longrightarrow> c \<notin> set p"
proof (induction s arbitrary: p)
  case (Cons x xs)
  then show ?case by (cases "split_char c xs") (auto split: if_splits)
qed simp

section \<open>Numbers in texts\<close>

fun nat_digits :: "nat \<Rightarrow> string" where
  "nat_digits n = (if n < 10 then [char_of (48 + n)] else nat_digits (n div 10) @ [char_of (48 + n mod 10)])"

declare nat_digits.simps [simp del]

text \<open>strconv.Itoa, and the verb d of package fmt.\<close>

definition decimal :: "int \<Rightarrow> string" where
  "decimal n = (if n < 0 then CHR ''-'' # nat_digits (nat (- n)) else nat_digits (nat n))"

text \<open>The verb 02d.\<close>

definition decimal2 :: "int \<Rightarrow> string" where
  "decimal2 n = (let s = decimal n in if length s < 2 then CHR ''0'' # s else s)"

text \<open>strconv.Atoi: an optional sign and decimal digits, within 64 bits; None is an error.\<close>

definition digit_of :: "char \<Rightarrow> int" where
  "digit_of c = int (of_char c) - 48"

definition atoi :: "string \<Rightarrow> int option" where
  "atoi s =
     (let neg = (take 1 s = ''-''); ds = (if take 1 s \<in> {''-'', ''+''} then drop 1 s else s);
          n = foldl (\<lambda>a c. 10 * a + digit_of c) 0 ds; m = (if neg then - n else n)
      in if ds = [] \<or> list_ex (\<lambda>c. digit_of c < 0 \<or> 9 < digit_of c) ds \<or> m < - (2 ^ 63) \<or> 2 ^ 63 \<le> m
         then None else Some m)"

text \<open>Arithmetic on Go's int, of 64 bits, wraps around.\<close>

definition go_int :: "int \<Rightarrow> int" where
  "go_int n = signed_take_bit 63 n"

lemma go_int_id: "- (2 ^ 63) \<le> n \<Longrightarrow> n < 2 ^ 63 \<Longrightarrow> go_int n = n"
  by (simp add: go_int_def signed_take_bit_int_eq_self)

text \<open>The value Atoi returns beside an error: 0 for bad syntax, the nearest bound out of range.\<close>

definition atoi_value :: "string \<Rightarrow> int" where
  "atoi_value s =
     (let neg = (take 1 s = ''-''); ds = (if take 1 s \<in> {''-'', ''+''} then drop 1 s else s);
          n = foldl (\<lambda>a c. 10 * a + digit_of c) 0 ds; m = (if neg then - n else n)
      in if ds = [] \<or> list_ex (\<lambda>c. digit_of c < 0 \<or> 9 < digit_of c) ds then 0
         else max (- (2 ^ 63)) (min (2 ^ 63 - 1) m))"

lemma atoi_examples: "atoi ''40001'' = Some 40001" "atoi ''-7'' = Some (-7)" "atoi ''1x'' = None" "atoi [] = None"
  by (simp_all add: atoi_def digit_of_def Let_def)

lemma nat_digits_value: "foldl (\<lambda>a c. 10 * a + (of_char c - 48)) 0 (nat_digits n) = n"
proof (induction n rule: nat_digits.induct)
  case (1 n)
  then show ?case by (subst nat_digits.simps) auto
qed

lemma nat_digits_inject: "nat_digits m = nat_digits n \<longleftrightarrow> m = n"
  by (metis nat_digits_value)

lemma nat_digits_chars: "c \<in> set (nat_digits n) \<Longrightarrow> 48 \<le> (of_char c :: nat) \<and> of_char c \<le> (57 :: nat)"
proof (induction n rule: nat_digits.induct)
  case (1 n)
  show ?case
  proof (cases "n < 10")
    case True
    then show ?thesis using "1.prems" by (auto simp: nat_digits.simps [of n])
  next
    case False
    then show ?thesis using 1 by (auto simp: nat_digits.simps [of n])
  qed
qed

lemma nat_digits_no: "CHR ''/'' \<notin> set (nat_digits n)" "CHR ''-'' \<notin> set (nat_digits n)"
  using nat_digits_chars [of "CHR ''/''" n] nat_digits_chars [of "CHR ''-''" n] by auto

lemma nat_digits_not_Nil [simp]: "nat_digits n \<noteq> []"
  by (subst nat_digits.simps) simp

lemma decimal_inject: "decimal m = decimal n \<longleftrightarrow> m = n"
proof -
  have h: "CHR ''-'' # s \<noteq> nat_digits k" for s k using nat_digits_no(2) [of k] by (metis list.set_intros(1))
  show ?thesis
    using h h [symmetric] by (auto simp: decimal_def nat_digits_inject)
qed

lemma decimal_no_slash: "CHR ''/'' \<notin> set (decimal n)"
  by (auto simp: decimal_def nat_digits_no)

text \<open>Atoi reads back what Itoa writes.\<close>

lemma digits_value:
  "\<forall>c \<in> set s. 48 \<le> (of_char c :: nat) \<Longrightarrow> foldl (\<lambda>a c. 10 * a + digit_of c) (int a) s =
     int (foldl (\<lambda>a c. 10 * a + (of_char c - 48)) a s)"
proof (induction s arbitrary: a)
  case (Cons c s)
  have h: "10 * int a + digit_of c = int (10 * a + (of_char c - 48))"
    using Cons.prems by (simp add: digit_of_def of_nat_diff)
  show ?case unfolding foldl_Cons h by (rule Cons.IH) (use Cons.prems in simp)
qed simp

lemma atoi_nat_digits: "n < 2 ^ 63 \<Longrightarrow> atoi (nat_digits n) = Some (int n)"
proof -
  assume n: "n < 2 ^ 63"
  have c: "\<forall>c \<in> set (nat_digits n). 48 \<le> (of_char c :: nat) \<and> of_char c \<le> (57 :: nat)"
    using nat_digits_chars by blast
  obtain d ds where e: "nat_digits n = d # ds" using nat_digits_not_Nil [of n] by (cases "nat_digits n") auto
  have "d \<noteq> CHR ''-''" "d \<noteq> CHR ''+''" using c by (auto simp: e)
  moreover have "foldl (\<lambda>a c. 10 * a + digit_of c) 0 (nat_digits n) = int n"
    using digits_value [of "nat_digits n" 0] c nat_digits_value [of n] by simp
  moreover have "\<not> list_ex (\<lambda>c. digit_of c < 0 \<or> 9 < digit_of c) (nat_digits n)"
    using c by (auto simp: list_ex_iff digit_of_def)
  ultimately show ?thesis using n by (simp add: atoi_def e Let_def)
qed

definition digit_char :: "nat \<Rightarrow> char" where
  "digit_char n = (if n < 10 then char_of (48 + n) else char_of (87 + n))"

text \<open>The verb 02X of a byte, as hex.EncodeToString in capitals.\<close>

definition hex2 :: "octet \<Rightarrow> string" where
  "hex2 b = map upper_char [digit_char (unat b div 16), digit_char (unat b mod 16)]"

text \<open>strings.ToUpper of hex.EncodeToString.\<close>

definition hex_upper :: "octet list \<Rightarrow> string" where
  "hex_upper xs = concat (map hex2 xs)"

definition digit_value :: "char \<Rightarrow> nat option" where
  "digit_value c = (let n = of_char c in
     if 48 \<le> n \<and> n \<le> 57 then Some (n - 48)
     else if 97 \<le> n \<and> n \<le> 102 then Some (n - 87)
     else if 65 \<le> n \<and> n \<le> 70 then Some (n - 55) else None)"

text \<open>hex.DecodeString: an odd number of digits or another byte is an error.\<close>

fun hex_decode :: "string \<Rightarrow> octet list option" where
  "hex_decode [] = Some []"
| "hex_decode [c] = None"
| "hex_decode (c # d # s) = (case (digit_value c, digit_value d, hex_decode s) of
     (Some h, Some l, Some xs) \<Rightarrow> Some (word_of_nat (16 * h + l) # xs) | _ \<Rightarrow> None)"

lemma digit_value_upper: "n < 16 \<Longrightarrow> digit_value (upper_char (digit_char n)) = Some n"
  by (auto simp: digit_value_def upper_char_def digit_char_def Let_def)

lemma digit_value_lower: "n < 16 \<Longrightarrow> digit_value (digit_char n) = Some n"
  by (auto simp: digit_value_def digit_char_def Let_def)

lemma octet_bound: "unat (b :: octet) < 256"
proof -
  have "unat b < 2 ^ LENGTH(8)" by (rule unsigned_less)
  then show ?thesis by simp
qed

lemma hex_decode_upper [simp]: "hex_decode (hex_upper xs) = Some xs"
proof (induction xs)
  case (Cons b xs)
  have "unat b div 16 < 16" "16 * (unat b div 16) + unat b mod 16 = unat b"
    using octet_bound [of b] by simp_all
  with Cons show ?case
    by (simp add: hex_upper_def hex2_def digit_value_upper del: of_nat_mult of_nat_add)
qed (simp add: hex_upper_def)

lemma hex_upper_inject: "hex_upper xs = hex_upper ys \<longleftrightarrow> xs = ys"
  using hex_decode_upper by (metis option.inject)

section \<open>JSON strings\<close>

text \<open>A code point in UTF-8; a surrogate becomes U+FFFD.\<close>

definition utf8 :: "nat \<Rightarrow> string" where
  "utf8 r = bytes (if r < 0x80 then [r]
     else if r < 0x800 then [0xC0 + r div 64, 0x80 + r mod 64]
     else if 0xD800 \<le> r \<and> r < 0xE000 then [0xEF, 0xBF, 0xBD]
     else if r < 0x10000 then [0xE0 + r div 4096, 0x80 + r div 64 mod 64, 0x80 + r mod 64]
     else [0xF0 + r div 262144, 0x80 + r div 4096 mod 64, 0x80 + r div 64 mod 64, 0x80 + r mod 64])"

text \<open>Four hexadecimal digits at the front.\<close>

definition hex4 :: "string \<Rightarrow> nat option" where
  "hex4 s = (case map digit_value (take 4 s) of
     [Some a, Some b, Some c, Some d] \<Rightarrow> Some (4096 * a + 256 * b + 16 * c + d) | _ \<Rightarrow> None)"

definition json_escape :: "char \<Rightarrow> string option" where
  "json_escape c = (if c \<in> set [CHR 0x22, CHR 0x5C, CHR ''/''] then Some [c]
     else map_of [(CHR ''b'', bytes [8]), (CHR ''f'', bytes [12]), (CHR ''n'', bytes [10]),
       (CHR ''r'', bytes [13]), (CHR ''t'', bytes [9])] c)"

text \<open>The rest of a string literal after its opening quote: its text, and what follows it.\<close>

function json_chars :: "string \<Rightarrow> (string \<times> string) option" where
  "json_chars [] = None"
| "json_chars (c # s) =
     (if c = CHR 0x22 then Some ([], s)
      else if of_char c < (32 :: nat) then None
      else if c \<noteq> CHR 0x5C then map_option (\<lambda>(t, r). (c # t, r)) (json_chars s)
      else case s of
        [] \<Rightarrow> None
      | e # s1 \<Rightarrow>
          if e = CHR ''u''
          then (case hex4 s1 of
              None \<Rightarrow> None
            | Some h \<Rightarrow>
                (case (if take 2 (drop 4 s1) = [CHR 0x5C, CHR ''u''] then hex4 (drop 6 s1) else None) of
                   Some l \<Rightarrow>
                     if 0xD800 \<le> h \<and> h < 0xDC00 \<and> 0xDC00 \<le> l \<and> l < 0xE000
                     then map_option (\<lambda>(t, r). (utf8 (0x10000 + (h - 0xD800) * 1024 + (l - 0xDC00)) @ t, r))
                            (json_chars (drop 10 s1))
                     else map_option (\<lambda>(t, r). (utf8 h @ t, r)) (json_chars (drop 4 s1))
                 | None \<Rightarrow> map_option (\<lambda>(t, r). (utf8 h @ t, r)) (json_chars (drop 4 s1))))
          else (case json_escape e of
              None \<Rightarrow> None
            | Some x \<Rightarrow> map_option (\<lambda>(t, r). (x @ t, r)) (json_chars s1)))"
  by pat_completeness auto
termination
  by (relation "measure length") auto

declare json_chars.simps(2) [simp del]

definition json_space :: "char \<Rightarrow> bool" where
  "json_space c \<longleftrightarrow> c \<in> set [CHR '' '', CHR 0x09, CHR 0x0A, CHR 0x0D]"

text \<open>
  json.Unmarshal into a string: the text of a string literal, or the empty text for null; None is an
  error, as for any other document.
\<close>

definition unmarshal_text :: "string \<Rightarrow> string option" where
  "unmarshal_text s =
     (let d = rev (dropWhile json_space (rev (dropWhile json_space s)))
      in if d = ''null'' then Some []
         else case d of
           c # t \<Rightarrow> if c = CHR 0x22
             then (case json_chars t of Some (x, []) \<Rightarrow> Some x | _ \<Rightarrow> None) else None
         | [] \<Rightarrow> None)"

text \<open>json.Marshal of the hexadecimal text of a frame; no byte of it needs an escape.\<close>

definition marshal_hex :: "octet list \<Rightarrow> string" where
  "marshal_hex xs = CHR 0x22 # hex_upper xs @ [CHR 0x22]"

definition plain_char :: "char \<Rightarrow> bool" where
  "plain_char c \<longleftrightarrow> (48 \<le> (of_char c :: nat) \<and> of_char c \<le> (57 :: nat)) \<or>
     (65 \<le> (of_char c :: nat) \<and> of_char c \<le> (70 :: nat))"

lemma plain_digit: "n < 16 \<Longrightarrow> plain_char (upper_char (digit_char n))"
  by (auto simp: plain_char_def upper_char_def digit_char_def Let_def)

lemma hex_upper_plain: "c \<in> set (hex_upper xs) \<Longrightarrow> plain_char c"
  using octet_bound by (auto simp: hex_upper_def hex2_def plain_digit less_mult_imp_div_less)

lemma plain_chars:
  "\<forall>c \<in> set s. plain_char c \<Longrightarrow> json_chars (s @ CHR 0x22 # t) = Some (s, t)"
  by (induction s) (auto simp: json_chars.simps(2) plain_char_def)

lemma unmarshal_marshal_hex [simp]: "unmarshal_text (marshal_hex xs) = Some (hex_upper xs)"
  using plain_chars [of "hex_upper xs" "[]"] hex_upper_plain
  by (simp add: unmarshal_text_def marshal_hex_def json_space_def Let_def)

end
