(* ===== verification/Mqtt_Inbox.thy ===== *)
theory Mqtt_Inbox
  imports Queue_Inv Wire
begin

text \<open>
  The durable MQTT receiver (internal/adapters/mqtt/inbox.go, ingress.go): a published message is
  routed by its topic, written to one of eight durable queues and only then acknowledged to the broker;
  a worker per queue hands the stored messages to the handler of their route. The worker is a client
  of the queue: the locale received_queue states what it relies on.
\<close>

section \<open>Ingress\<close>

definition route :: "string \<Rightarrow> string" where
  "route topic =
     (if has_prefix topic ''/iot/up/'' then ''standard''
      else if has_prefix topic ''/external/raw/'' \<or> has_prefix topic ''/jetlinks/raw/'' then ''raw''
      else if has_prefix topic ''/iot/device/state/'' then ''state''
      else if has_prefix topic ''/external/video/alarm/'' then ''video'' else [])"

definition Reject_error :: "error \<Rightarrow> error" where
  "Reject_error e = ErrWrap ''rejected'' e"

text \<open>errors.As finds a rejected error, or errors.Is the conflict, somewhere along the wrapped errors.\<close>

fun permanent :: "error \<Rightarrow> bool" where
  "permanent ErrRawConflict = True"
| "permanent (ErrWrap s e) = (s = ''rejected'' \<or> permanent e)"
| "permanent _ = False"

definition ingressID :: "codec \<Rightarrow> string \<Rightarrow> string \<Rightarrow> string" where
  "ingressID cd topic payload = ''mqtt_'' @ cd_sha cd (topic @ nul # payload)"

text \<open>encb and decb are json.Marshal and json.Unmarshal of a byte slice.\<close>

definition inbox_envelope :: "codec \<Rightarrow> (string \<Rightarrow> string) \<Rightarrow> string \<Rightarrow> string \<Rightarrow> raw_message" where
  "inbox_envelope cd encb topic payload = zero_raw_message\<lparr>rm_TenantID := ''mqtt-inbox'',
     rm_MessageID := ingressID cd topic payload, rm_Source := ''mqtt-receive-inbox'',
     rm_Headers := [(''topic'', topic)], rm_Payload := encb payload\<rparr>"

text \<open>The first byte of the topic's hash, modulo the number of queues.\<close>

definition shard :: "codec \<Rightarrow> nat \<Rightarrow> string \<Rightarrow> nat" where
  "shard cd n topic =
     (case map digit_value (take 2 (cd_sha cd topic)) of
        [Some a, Some b] \<Rightarrow> (16 * a + b) mod n | _ \<Rightarrow> 0)"

record inbox =
  ib_queues :: "queue list"
  ib_lastError :: "error option"

definition inbox_put :: "codec \<Rightarrow> (string \<Rightarrow> string) \<Rightarrow> disk \<Rightarrow> int \<Rightarrow> string \<Rightarrow> string \<Rightarrow> inbox \<Rightarrow> unit res \<times> inbox" where
  "inbox_put cd encb dk now topic payload d =
     (let i = shard cd (length (ib_queues d)) topic
      in case PutReceived cd dk now (inbox_envelope cd encb topic payload) (ib_queues d ! i) of
           (r, q) \<Rightarrow> (r, d\<lparr>ib_queues := (ib_queues d)[i := q],
             ib_lastError := (case r of Inl e \<Rightarrow> Some e | Inr _ \<Rightarrow> None)\<rparr>))"

definition openInbox :: "string gomap list \<Rightarrow> int \<Rightarrow> int \<Rightarrow> inbox res" where
  "openInbox roots maxBytes maxItems =
     fold (\<lambda>files r. case r of
          Inl e \<Rightarrow> Inl e
        | Inr d \<Rightarrow> (case OpenQueue files (go_div maxBytes 8) (go_div maxItems 8) of
            Inl e \<Rightarrow> Inl e | Inr q \<Rightarrow> Inr (d\<lparr>ib_queues := ib_queues d @ [q]\<rparr>)))
       roots (Inr \<lparr>ib_queues = [], ib_lastError = None\<rparr>)"

text \<open>What becomes of a published message: dropped or stored, both acknowledged, or left to the broker.\<close>

datatype reception = Dropped | Stored | Unacknowledged

definition acknowledged :: "reception \<Rightarrow> bool" where
  "acknowledged r \<longleftrightarrow> r \<noteq> Unacknowledged"

definition payload_limit :: nat where "payload_limit = 131072"

definition receive_message :: "codec \<Rightarrow> (string \<Rightarrow> string) \<Rightarrow> disk \<Rightarrow> int \<Rightarrow> bool \<Rightarrow> bool \<Rightarrow> string \<Rightarrow> string \<Rightarrow> inbox \<Rightarrow>
    reception \<times> inbox" where
  "receive_message cd encb dk now stopped retained topic payload d =
     (if stopped then (Unacknowledged, d)
      else if retained \<or> route topic = [] \<or> payload_limit < length payload then (Dropped, d)
      else case inbox_put cd encb dk now topic payload d of
          (Inl e, d1) \<Rightarrow> (Unacknowledged, d1)
        | (Inr _, d1) \<Rightarrow> (Stored, d1))"

section \<open>Workers\<close>

text \<open>
  A worker: its queue, the entry of the map pending that shows its state, and the calls of handlers so
  far. The outcome of a call is a function of the number of calls before it.
\<close>

record 'q worker =
  wk_queue :: 'q
  wk_pending :: "error option"
  wk_log :: "(string \<times> string \<times> int) list"

definition open_envelope :: "codec \<Rightarrow> (string \<Rightarrow> string option) \<Rightarrow> raw_message \<Rightarrow> (string \<times> string \<times> int) option" where
  "open_envelope cd decb raw =
     (let topic = mget_or [] (rm_Headers raw) ''topic''
      in case decb (rm_Payload raw) of
           None \<Rightarrow> None
         | Some payload \<Rightarrow>
             if rm_MessageID raw \<noteq> ingressID cd topic payload \<or> route topic = [] then None
             else Some (topic, payload, rm_ReceivedAt raw))"

definition settle :: "('m \<Rightarrow> 'q \<Rightarrow> unit res \<times> 'q) \<Rightarrow> 'm \<Rightarrow> 'q worker \<Rightarrow> 'q worker" where
  "settle f m w = (case f m (wk_queue w) of (r, q) \<Rightarrow>
     w\<lparr>wk_queue := q, wk_pending := (case r of Inl e \<Rightarrow> Some e | Inr _ \<Rightarrow> None)\<rparr>)"

definition worker_step :: "('q \<Rightarrow> raw_message option res \<times> 'q) \<Rightarrow> (raw_message \<Rightarrow> 'q \<Rightarrow> unit res \<times> 'q) \<Rightarrow>
    (raw_message \<Rightarrow> 'q \<Rightarrow> unit res \<times> 'q) \<Rightarrow> codec \<Rightarrow> (string \<Rightarrow> string option) \<Rightarrow> (nat \<Rightarrow> error option) \<Rightarrow>
    'q worker \<Rightarrow> 'q worker" where
  "worker_step nxt ack rej cd decb outcome w =
     (case nxt (wk_queue w) of
        (Inl e, q) \<Rightarrow> w\<lparr>wk_queue := q, wk_pending := Some e\<rparr>
      | (Inr None, q) \<Rightarrow> w\<lparr>wk_queue := q, wk_pending := None\<rparr>
      | (Inr (Some raw), q) \<Rightarrow>
          let w1 = w\<lparr>wk_queue := q\<rparr> in
          (case open_envelope cd decb raw of
             None \<Rightarrow> settle rej raw w1
           | Some call \<Rightarrow>
               let w2 = w1\<lparr>wk_log := wk_log w1 @ [call]\<rparr> in
               (case outcome (length (wk_log w1)) of
                  None \<Rightarrow> settle ack raw w2
                | Some e \<Rightarrow> if permanent e then settle rej raw w2 else w2\<lparr>wk_pending := Some e\<rparr>)))"

section \<open>What a worker relies on\<close>

text \<open>The calls of handlers that a list of messages leads to.\<close>

definition calls :: "codec \<Rightarrow> (string \<Rightarrow> string option) \<Rightarrow> raw_message option list \<Rightarrow> (string \<times> string \<times> int) list" where
  "calls cd decb ms = List.map_filter (\<lambda>m. case m of None \<Rightarrow> None | Some raw \<Rightarrow> open_envelope cd decb raw) ms"

text \<open>
  A call of a handler fails in passing when its error is none that rejects the message: the message stays
  first and is handed out again. A message is answered once a call with it has not failed in passing.
\<close>

definition passing :: "(nat \<Rightarrow> error option) \<Rightarrow> nat \<Rightarrow> bool" where
  "passing outcome k \<longleftrightarrow> (case outcome k of None \<Rightarrow> False | Some e \<Rightarrow> \<not> permanent e)"

definition answered :: "(nat \<Rightarrow> error option) \<Rightarrow> (string \<times> string \<times> int) list \<Rightarrow> string \<times> string \<times> int \<Rightarrow> bool" where
  "answered outcome log1 call \<longleftrightarrow> (\<exists>k < length log1. log1 ! k = call \<and> \<not> passing outcome k)"

lemma answered_append: "answered outcome xs c \<Longrightarrow> answered outcome (xs @ ys) c"
  by (simp add: answered_def) (metis nth_append trans_less_add1)

lemma answered_last: "\<not> passing outcome (length xs) \<Longrightarrow> answered outcome (xs @ [c]) c"
  by (auto simp: answered_def)

text \<open>
  waiting lists what the queue will hand out, in order, with None for an entry that it will set aside
  instead.
\<close>

locale received_queue =
  fixes ok :: "'q \<Rightarrow> bool" and waiting :: "'q \<Rightarrow> raw_message option list"
    and nxt :: "'q \<Rightarrow> raw_message option res \<times> 'q"
    and ack :: "raw_message \<Rightarrow> 'q \<Rightarrow> unit res \<times> 'q" and rej :: "raw_message \<Rightarrow> 'q \<Rightarrow> unit res \<times> 'q"
  assumes next_none: "ok q \<Longrightarrow> waiting q = [] \<Longrightarrow> nxt q = (Inr None, q)"
    and next_some: "ok q \<Longrightarrow> waiting q = Some m # ms \<Longrightarrow> nxt q = (Inr (Some m), q)"
    and next_bad: "ok q \<Longrightarrow> waiting q = None # ms \<Longrightarrow> \<exists>e q'. nxt q = (Inl e, q') \<and> ok q' \<and> waiting q' = ms"
    and ack_first: "ok q \<Longrightarrow> waiting q = Some m # ms \<Longrightarrow> \<exists>q'. ack m q = (Inr (), q') \<and> ok q' \<and> waiting q' = ms"
    and rej_first: "ok q \<Longrightarrow> waiting q = Some m # ms \<Longrightarrow> \<exists>q'. rej m q = (Inr (), q') \<and> ok q' \<and> waiting q' = ms"
begin

lemma step_first:
  assumes "ok (wk_queue w)" "waiting (wk_queue w) = m # ms"
    "\<And>k e. outcome k = Some e \<Longrightarrow> permanent e"
  shows "ok (wk_queue (worker_step nxt ack rej cd decb outcome w)) \<and>
    waiting (wk_queue (worker_step nxt ack rej cd decb outcome w)) = ms \<and>
    wk_log (worker_step nxt ack rej cd decb outcome w) = wk_log w @ calls cd decb [m]"
proof (cases m)
  case None
  then show ?thesis
    using next_bad [OF assms(1)] assms(2) by (auto simp: worker_step_def calls_def map_filter_simps)
next
  case (Some raw)
  note w = assms(2) [unfolded Some]
  obtain q1 q2 where q: "ack raw (wk_queue w) = (Inr (), q1)" "ok q1" "waiting q1 = ms"
    "rej raw (wk_queue w) = (Inr (), q2)" "ok q2" "waiting q2 = ms"
    using ack_first [OF assms(1) w] rej_first [OF assms(1) w] by blast
  show ?thesis
    using next_some [OF assms(1) w] q assms(3)
    by (auto simp: worker_step_def settle_def calls_def map_filter_simps Some Let_def split: option.split)
qed

lemma drains:
  assumes "ok (wk_queue w)" "\<And>k e. outcome k = Some e \<Longrightarrow> permanent e"
  shows "ok (wk_queue ((worker_step nxt ack rej cd decb outcome ^^ length (waiting (wk_queue w))) w)) \<and>
    waiting (wk_queue ((worker_step nxt ack rej cd decb outcome ^^ length (waiting (wk_queue w))) w)) = [] \<and>
    wk_log ((worker_step nxt ack rej cd decb outcome ^^ length (waiting (wk_queue w))) w) =
      wk_log w @ calls cd decb (waiting (wk_queue w))"
  using assms(1)
proof (induction "waiting (wk_queue w)" arbitrary: w)
  case Nil
  then show ?case by (simp add: calls_def map_filter_simps flip: Nil(1))
next
  case (Cons m ms)
  let ?s = "worker_step nxt ack rej cd decb outcome"
  note s = step_first [OF Cons.prems Cons.hyps(2) [symmetric] assms(2), where cd = cd and decb = decb]
  have "wk_log ((?s ^^ length ms) (?s w)) = wk_log w @ calls cd decb [m] @ calls cd decb ms"
    using Cons.hyps(1) [of "?s w"] s by simp
  moreover have "calls cd decb (m # ms) = calls cd decb [m] @ calls cd decb ms"
    by (simp add: calls_def map_filter_simps split: option.split)
  ultimately show ?case
    using Cons.hyps(1) [of "?s w"] s by (simp add: funpow_swap1 flip: Cons.hyps(2))
qed

text \<open>The same when calls may fail in passing: each such failure costs one more run.\<close>

lemma step_passing:
  assumes "ok (wk_queue w)" "waiting (wk_queue w) = m # ms" "w' = worker_step nxt ack rej cd decb outcome w"
  shows "ok (wk_queue w')"
    "(waiting (wk_queue w') = ms \<and> (wk_log w' = wk_log w \<or> (\<exists>c. wk_log w' = wk_log w @ [c])) \<and>
       (\<forall>c \<in> set (calls cd decb [m]). answered outcome (wk_log w') c)) \<or>
     (waiting (wk_queue w') = m # ms \<and> passing outcome (length (wk_log w)) \<and> (\<exists>c. wk_log w' = wk_log w @ [c]))"
proof -
  let ?goal = "ok (wk_queue w') \<and>
    ((waiting (wk_queue w') = ms \<and> (wk_log w' = wk_log w \<or> (\<exists>c. wk_log w' = wk_log w @ [c])) \<and>
       (\<forall>c \<in> set (calls cd decb [m]). answered outcome (wk_log w') c)) \<or>
     (waiting (wk_queue w') = m # ms \<and> passing outcome (length (wk_log w)) \<and> (\<exists>c. wk_log w' = wk_log w @ [c])))"
  have ?goal
  proof (cases m)
    case None
    then show ?thesis
      using next_bad [OF assms(1)] assms(2,3) by (auto simp: worker_step_def calls_def map_filter_simps)
  next
    case (Some raw)
    note w = assms(2) [unfolded Some]
    obtain q1 q2 where q: "ack raw (wk_queue w) = (Inr (), q1)" "ok q1" "waiting q1 = ms"
      "rej raw (wk_queue w) = (Inr (), q2)" "ok q2" "waiting q2 = ms"
      using ack_first [OF assms(1) w] rej_first [OF assms(1) w] by blast
    show ?thesis
      using next_some [OF assms(1) w] q assms answered_last [of outcome "wk_log w"]
      by (auto simp: worker_step_def settle_def calls_def map_filter_simps Some Let_def passing_def split: option.split)
  qed
  then show "ok (wk_queue w')"
    "(waiting (wk_queue w') = ms \<and> (wk_log w' = wk_log w \<or> (\<exists>c. wk_log w' = wk_log w @ [c])) \<and>
       (\<forall>c \<in> set (calls cd decb [m]). answered outcome (wk_log w') c)) \<or>
     (waiting (wk_queue w') = m # ms \<and> passing outcome (length (wk_log w)) \<and> (\<exists>c. wk_log w' = wk_log w @ [c]))"
    by blast+
qed

lemma log_grows: "\<exists>xs. wk_log ((worker_step nxt ack rej cd decb outcome ^^ n) w) = wk_log w @ xs"
proof (induction n arbitrary: w)
  case (Suc n)
  have "\<exists>xs. wk_log (worker_step nxt ack rej cd decb outcome w) = wk_log w @ xs"
    by (auto simp: worker_step_def settle_def Let_def split: prod.split sum.split option.split)
  then show ?case
    using Suc.IH [of "worker_step nxt ack rej cd decb outcome w"] by (auto simp: funpow_swap1)
qed simp

lemma answers_all:
  assumes "ok (wk_queue w)"
    "length (waiting (wk_queue w)) + card {k. length (wk_log w) \<le> k \<and> k < length (wk_log w) + n \<and> passing outcome k} \<le> n"
    "c \<in> set (calls cd decb (waiting (wk_queue w)))"
  shows "answered outcome (wk_log ((worker_step nxt ack rej cd decb outcome ^^ n) w)) c"
  using assms
proof (induction n arbitrary: w)
  case 0
  then show ?case by (simp add: calls_def map_filter_simps)
next
  case (Suc n)
  let ?s = "worker_step nxt ack rej cd decb outcome" and ?L = "length (wk_log w)"
  let ?F = "\<lambda>l n. {k. l \<le> k \<and> k < l + n \<and> passing outcome k}"
  obtain m ms where ms: "waiting (wk_queue w) = m # ms"
    using Suc.prems(3) by (cases "waiting (wk_queue w)") (auto simp: calls_def map_filter_simps)
  note st = step_passing [OF Suc.prems(1) ms refl, of cd decb outcome]
  have split: "c \<in> set (calls cd decb [m]) \<or> c \<in> set (calls cd decb ms)"
    using Suc.prems(3) by (auto simp: ms calls_def map_filter_simps split: option.splits)
  from st(2) show ?case
  proof
    assume a: "waiting (wk_queue (?s w)) = ms \<and> (wk_log (?s w) = wk_log w \<or> (\<exists>c. wk_log (?s w) = wk_log w @ [c])) \<and>
      (\<forall>c \<in> set (calls cd decb [m]). answered outcome (wk_log (?s w)) c)"
    have "card (?F (length (wk_log (?s w))) n) \<le> card (?F ?L (Suc n))"
      by (rule card_mono) (use a in auto)
    then have later: "c \<in> set (calls cd decb ms) \<Longrightarrow> answered outcome (wk_log ((?s ^^ n) (?s w))) c"
      using Suc.prems(2) a by (intro Suc.IH [OF st(1)]) (auto simp: ms)
    obtain xs where "wk_log ((?s ^^ n) (?s w)) = wk_log (?s w) @ xs" using log_grows by blast
    then have "c \<in> set (calls cd decb [m]) \<Longrightarrow> answered outcome (wk_log ((?s ^^ n) (?s w))) c"
      using a answered_append by metis
    then show ?case using split later by (auto simp: funpow_swap1)
  next
    assume b: "waiting (wk_queue (?s w)) = m # ms \<and> passing outcome ?L \<and> (\<exists>c. wk_log (?s w) = wk_log w @ [c])"
    then have len: "length (wk_log (?s w)) = Suc ?L" by auto
    have "?F ?L (Suc n) = insert ?L (?F (Suc ?L) n)" using b by (auto simp: less_Suc_eq_le Suc_le_eq le_less)
    moreover have "finite (?F (Suc ?L) n)" by simp
    ultimately have "card (?F ?L (Suc n)) = Suc (card (?F (Suc ?L) n))" by simp
    then have "answered outcome (wk_log ((?s ^^ n) (?s w))) c"
      using Suc.prems(2,3) b ms by (intro Suc.IH [OF st(1)]) (simp_all add: len)
    then show ?case by (simp add: funpow_swap1)
  qed
qed

end

section \<open>The file queue as provider\<close>

definition intact :: "codec \<Rightarrow> string gomap \<Rightarrow> string \<Rightarrow> raw_message option" where
  "intact cd m n = (let b = mget_or [] m n in if corruption cd n b = None then cd_dec cd b else None)"

definition queue_waiting :: "codec \<Rightarrow> queue \<Rightarrow> raw_message option list" where
  "queue_waiting cd q = map (intact cd (q_files q)) (entries q)"

definition queue_ok :: "queue \<Rightarrow> bool" where
  "queue_ok q \<longleftrightarrow> queue_inv q \<and> \<not> q_closed q"

lemma entries_sorted: "queue_inv q \<Longrightarrow> sorted (entries q) \<and> distinct (entries q)"
  by (simp add: entries_def queue_inv_def mwf_def)

lemma set_entries: "set (entries q) = {n. has_suffix n json_suffix \<and> mget (q_files q) n \<noteq> None}"
proof -
  have "n \<in> fst ` set m \<longleftrightarrow> mget m n \<noteq> None" for n and m :: "string gomap"
    by (simp add: mget_def map_of_eq_None_iff)
  then show ?thesis by (auto simp: entries_set)
qed

lemma entries_tl:
  assumes q: "queue_inv q" "entries q = n # ns" and q': "queue_inv q'"
    and dom: "\<And>k. has_suffix k json_suffix \<Longrightarrow> mget (q_files q') k = (if k = n then None else mget (q_files q) k)"
  shows "entries q' = ns" "queue_waiting cd q' = tl (queue_waiting cd q)"
proof -
  have "set (entries q') = set (entries q) - {n}" by (auto simp: set_entries dom split: if_splits)
  also have "\<dots> = set ns" using entries_sorted [OF q(1)] by (auto simp: q(2))
  finally show e: "entries q' = ns"
    using entries_sorted [OF q(1)] entries_sorted [OF q'] by (intro sorted_distinct_set_unique) (auto simp: q(2))
  have "mget (q_files q') k = mget (q_files q) k" if "k \<in> set ns" for k
  proof -
    have "has_suffix k json_suffix" using that q(2) entries_set [of k q] by simp
    moreover have "k \<noteq> n" using entries_sorted [OF q(1)] that by (auto simp: q(2))
    ultimately show ?thesis using dom by simp
  qed
  then have "intact cd (q_files q') k = intact cd (q_files q) k" if "k \<in> set ns" for k
    using that by (simp add: intact_def mget_or_def)
  then show "queue_waiting cd q' = tl (queue_waiting cd q)" by (simp add: queue_waiting_def e q(2))
qed

lemma first_entry:
  assumes "queue_inv q" "entries q = n # ns"
  shows "has_suffix n json_suffix" "\<exists>b. mget (q_files q) n = Some b"
    "mget (q_files q) (n @ rejected_suffix) = None" "mget (q_files q) (n @ corrupt_suffix) = None"
proof -
  show j: "has_suffix n json_suffix" and b: "\<exists>b. mget (q_files q) n = Some b"
    using assms(2) entries_set [of n q] entries_mget [of n q] by simp_all
  then show "mget (q_files q) (n @ rejected_suffix) = None" "mget (q_files q) (n @ corrupt_suffix) = None"
    using apartD(1,2) [of "q_files q" n] assms(1) by (auto simp: queue_inv_def)
qed

lemma intact_name: "intact cd m n = Some raw \<Longrightarrow> queueName cd raw = n"
  by (auto simp: intact_def corruption_def Let_def split: if_splits option.splits)

lemma good_disk_simps [simp]:
  "dk_read good_disk = None" "dk_stat good_disk = None" "dk_dir good_disk = None" "dk_write good_disk = None"
  "dk_flush good_disk = None" "dk_rename good_disk = None" "dk_remove good_disk = None" "failing None = Inr ()"
  by (simp_all add: good_disk_def failing_def)

lemma settle_first:
  assumes q: "queue_ok q" and w: "queue_waiting cd q = m # ms" and n: "entries q = n # ns"
  shows "queueName cd raw = n \<Longrightarrow> \<exists>q'. Ack cd good_disk raw q = (Inr (), q') \<and> queue_ok q' \<and> queue_waiting cd q' = ms"
    and "queueName cd raw = n \<Longrightarrow> \<exists>q'. Reject_queue cd good_disk raw q = (Inr (), q') \<and> queue_ok q' \<and> queue_waiting cd q' = ms"
    and "m = None \<Longrightarrow> \<exists>e q'. Next cd good_disk q = (Inl e, q') \<and> queue_ok q' \<and> queue_waiting cd q' = ms"
proof -
  have inv: "queue_inv q" and open_: "\<not> q_closed q" using q by (simp_all add: queue_ok_def)
  note f = first_entry [OF inv n]
  obtain b where b: "mget (q_files q) n = Some b" using f(2) ..
  have ms: "tl (queue_waiting cd q) = ms" using w by simp
  have ren: "queue_ok (q\<lparr>q_files := rename_file n (n @ s) (q_files q)\<rparr>) \<and>
      queue_waiting cd (q\<lparr>q_files := rename_file n (n @ s) (q_files q)\<rparr>) = ms"
    if "s \<in> {rejected_suffix, corrupt_suffix}" for s
  proof -
    have i: "queue_inv (q\<lparr>q_files := rename_file n (n @ s) (q_files q)\<rparr>)"
      using queue_inv_rename [OF inv f(1) b] that by auto
    have "mget (rename_file n (n @ s) (q_files q)) k = (if k = n then None else mget (q_files q) k)"
      if "has_suffix k json_suffix" for k
      using json_not_others(1,2) [OF that, of n] \<open>s \<in> _\<close> by (auto simp: mget_rename [OF b])
    then show ?thesis using entries_tl(2) [OF inv n i] i open_ ms by (simp add: queue_ok_def)
  qed
  show "\<exists>q'. Ack cd good_disk raw q = (Inr (), q') \<and> queue_ok q' \<and> queue_waiting cd q' = ms" if "queueName cd raw = n"
  proof -
    let ?q = "q\<lparr>q_files := mdel (q_files q) n, q_used := q_used q - file_size (q_files q) n\<rparr>"
    have a: "Ack cd good_disk raw q = (Inr (), ?q)" using that b open_ by (simp add: Ack_def Let_def)
    have i: "queue_inv ?q" using queue_inv_Ack [OF inv, of cd good_disk raw] a by simp
    then show ?thesis using entries_tl(2) [OF inv n i] a ms open_ by (simp add: queue_ok_def)
  qed
  show "\<exists>q'. Reject_queue cd good_disk raw q = (Inr (), q') \<and> queue_ok q' \<and> queue_waiting cd q' = ms"
    if "queueName cd raw = n"
    using that b open_ ren [of rejected_suffix] by (simp add: Reject_queue_def Let_def)
  show "\<exists>e q'. Next cd good_disk q = (Inl e, q') \<and> queue_ok q' \<and> queue_waiting cd q' = ms" if "m = None"
  proof -
    have "intact cd (q_files q) n = None" using w n that by (simp add: queue_waiting_def)
    then have "corruption cd n b \<noteq> None" using b
      by (auto simp: intact_def mget_or_def corruption_def Let_def split: if_splits option.splits)
    then obtain reason where "corruption cd n b = Some reason" by blast
    then show ?thesis
      using ren [of corrupt_suffix] b f(4) open_ by (simp add: Next_def n mget_or_def Let_def)
  qed
qed

interpretation file_queue: received_queue queue_ok "queue_waiting cd" "Next cd good_disk" "Ack cd good_disk"
    "Reject_queue cd good_disk" for cd
proof
  fix q :: queue and m :: raw_message and ms
  assume q: "queue_ok q"
  show "Next cd good_disk q = (Inr None, q)" if "queue_waiting cd q = []"
    using q that by (simp add: Next_def queue_waiting_def queue_ok_def)
  have entry: "\<exists>n ns. entries q = n # ns" if "queue_waiting cd q = x # xs" for x xs
    using that by (auto simp: queue_waiting_def)
  {
    assume w: "queue_waiting cd q = Some m # ms"
    obtain n ns where n: "entries q = n # ns" using entry [OF w] by blast
    have i: "intact cd (q_files q) n = Some m" using w n by (simp add: queue_waiting_def)
    then have "corruption cd n (mget_or [] (q_files q) n) = None" "cd_dec cd (mget_or [] (q_files q) n) = Some m"
      by (simp_all add: intact_def Let_def split: if_splits)
    then show "Next cd good_disk q = (Inr (Some m), q)" using q by (simp add: Next_def n Let_def queue_ok_def)
    show "\<exists>q'. Ack cd good_disk m q = (Inr (), q') \<and> queue_ok q' \<and> queue_waiting cd q' = ms"
      by (rule settle_first(1) [OF q w n intact_name [OF i]])
    show "\<exists>q'. Reject_queue cd good_disk m q = (Inr (), q') \<and> queue_ok q' \<and> queue_waiting cd q' = ms"
      by (rule settle_first(2) [OF q w n intact_name [OF i]])
  }
  assume w: "queue_waiting cd q = None # ms"
  then show "\<exists>e q'. Next cd good_disk q = (Inl e, q') \<and> queue_ok q' \<and> queue_waiting cd q' = ms"
    using entry [OF w] settle_first(3) [OF q w] by blast
qed

section \<open>Received messages are handled\<close>

abbreviation inbox_worker :: "codec \<Rightarrow> (string \<Rightarrow> string option) \<Rightarrow> (nat \<Rightarrow> error option) \<Rightarrow> queue worker \<Rightarrow> queue worker" where
  "inbox_worker cd decb outcome \<equiv> worker_step (Next cd good_disk) (Ack cd good_disk) (Reject_queue cd good_disk) cd decb outcome"

lemma length_waiting: "length (queue_waiting cd q) = nat (Depth q)"
  by (simp add: queue_waiting_def Depth_def)

text \<open>
  C30. While the disk works and every handler call succeeds or fails for good, a worker empties its
  queue in as many iterations as the queue is deep, and hands every intact message to its handler
  exactly once, in the order of the file names; unreadable entries are set aside on the way.
\<close>
theorem worker_drains_queue:
  assumes "queue_inv (wk_queue w)" "\<not> q_closed (wk_queue w)" "\<And>k e. outcome k = Some e \<Longrightarrow> permanent e"
  shows "Depth (wk_queue ((inbox_worker cd decb outcome ^^ nat (Depth (wk_queue w))) w)) = 0 \<and>
    wk_log ((inbox_worker cd decb outcome ^^ nat (Depth (wk_queue w))) w) =
      wk_log w @ calls cd decb (queue_waiting cd (wk_queue w))"
proof -
  have "queue_ok (wk_queue w)" using assms(1,2) by (simp add: queue_ok_def)
  from file_queue.drains [OF this assms(3), where cda = cd and decb = decb]
  have "queue_waiting cd (wk_queue ((inbox_worker cd decb outcome ^^ nat (Depth (wk_queue w))) w)) = []"
    "wk_log ((inbox_worker cd decb outcome ^^ nat (Depth (wk_queue w))) w) =
      wk_log w @ calls cd decb (queue_waiting cd (wk_queue w))" by (simp_all add: length_waiting)
  then show ?thesis by (simp add: queue_waiting_def Depth_def)
qed

lemma shard_bound: "0 < n \<Longrightarrow> shard cd n topic < n"
  by (auto simp: shard_def split: list.split option.split)

lemma waiting_handled:
  assumes "Some raw \<in> set ms" "open_envelope cd decb raw = Some call"
  shows "call \<in> set (calls cd decb ms)"
  using assms by (induction ms) (auto simp: calls_def map_filter_simps split: option.splits)

text \<open>
  C2. A message that the receiver has stored, and only then acknowledged, reaches the handler of its
  route with its topic and payload, and is handed to it again until it succeeds or rejects the message:
  while the disk works and nothing else is stored, this is done once the worker of its queue has run as often
  as the queue is deep and once more for every call of a handler that failed in passing meanwhile. Assumed is that encoding/json
  gives back the envelope and the payload it is given.
\<close>
theorem stored_message_is_handled:
  assumes json: "\<And>at. \<exists>b. cd_enc cd (inbox_envelope cd encb topic payload\<lparr>rm_ReceivedAt := at\<rparr>) = Some b \<and>
      cd_dec cd b = Some (inbox_envelope cd encb topic payload\<lparr>rm_ReceivedAt := at\<rparr>)"
      "decb (encb payload) = Some payload"
    and stored: "receive_message cd encb dk now False retained topic payload d = (Stored, d')"
    and i: "i = shard cd (length (ib_queues d)) topic" "ib_queues d \<noteq> []"
    and q: "queue_inv (ib_queues d ! i)" "\<not> q_closed (ib_queues d ! i)"
    and w: "wk_queue w = ib_queues d' ! i"
    and runs: "nat (Depth (wk_queue w)) +
      card {k. length (wk_log w) \<le> k \<and> k < length (wk_log w) + runs \<and> passing outcome k} \<le> runs"
  shows "\<exists>at. answered outcome (wk_log ((inbox_worker cd decb outcome ^^ runs) w)) (topic, payload, at)"
proof -
  let ?env = "inbox_envelope cd encb topic payload"
  have r: "route topic \<noteq> []" using stored by (auto simp: receive_message_def split: if_splits)
  obtain q1 where p: "put_queue cd dk True now ?env (ib_queues d ! i) = (Inr (), q1)" and d': "ib_queues d' ! i = q1"
    using stored shard_bound [of "length (ib_queues d)" cd topic] i
    by (auto simp: receive_message_def inbox_put_def PutReceived_def Let_def split: if_splits sum.splits prod.splits)
  obtain at b where b: "cd_enc cd (?env\<lparr>rm_ReceivedAt := at\<rparr>) = Some b"
    "mget (q_files q1) (queueName cd ?env) = Some b" "length b \<le> put_limit"
    using put_stored [OF p] by auto
  have dec: "cd_dec cd b = Some (?env\<lparr>rm_ReceivedAt := at\<rparr>)" using json(1) [of at] b(1) by auto
  have ok: "queue_inv (wk_queue w)" "\<not> q_closed (wk_queue w)"
    using queue_inv_put [OF q(1), of cd dk True now ?env] step_limits [of cd "(dk, Op_Put True now ?env)" "ib_queues d ! i"] q(2)
    by (simp_all add: p w d')
  have n: "queueName cd ?env \<in> set (entries q1)" using b(2) by (simp add: set_entries)
  have "queueName cd (?env\<lparr>rm_ReceivedAt := at\<rparr>) = queueName cd ?env" by (simp add: queueName_def)
  then have "intact cd (q_files q1) (queueName cd ?env) = Some (?env\<lparr>rm_ReceivedAt := at\<rparr>)"
    using b dec by (simp add: intact_def mget_or_def corruption_def inbox_envelope_def ingressID_def Let_def)
  then have "Some (?env\<lparr>rm_ReceivedAt := at\<rparr>) \<in> set (queue_waiting cd q1)"
    using n by (force simp: queue_waiting_def)
  moreover have "open_envelope cd decb (?env\<lparr>rm_ReceivedAt := at\<rparr>) = Some (topic, payload, at)"
    using json(2) r by (simp add: open_envelope_def inbox_envelope_def mget_or_def mget_def Let_def)
  ultimately have c: "(topic, payload, at) \<in> set (calls cd decb (queue_waiting cd (wk_queue w)))"
    using waiting_handled w d' by metis
  have "queue_ok (wk_queue w)" using ok by (simp add: queue_ok_def)
  from file_queue.answers_all [OF this _ c, of runs outcome] runs
  show ?thesis by (auto simp: length_waiting)
qed

section \<open>Witnesses\<close>

text \<open>A codec for one envelope, with its time of reception in unary.\<close>

definition unary :: "int \<Rightarrow> string" where
  "unary n = (if n < 0 then CHR ''-'' # replicate (nat (- n)) (CHR ''x'') else replicate (nat n) (CHR ''x''))"

definition from_unary :: "string \<Rightarrow> int" where
  "from_unary s = (if take 1 s = ''-'' then - int (length s - 1) else int (length s))"

lemma from_unary [simp]: "from_unary (unary n) = n"
  by (cases "nat n") (auto simp: unary_def from_unary_def)

definition sample_sha :: "string \<Rightarrow> string" where
  "sample_sha s = ''00''"

definition sample_envelope :: raw_message where
  "sample_envelope = zero_raw_message\<lparr>rm_TenantID := ''mqtt-inbox'', rm_MessageID := ''mqtt_00'',
     rm_Source := ''mqtt-receive-inbox'', rm_Headers := [(''topic'', ''/iot/up/a'')], rm_Payload := ''p''\<rparr>"

definition sample_codec :: codec where
  "sample_codec = \<lparr>cd_enc = (\<lambda>raw. Some (unary (rm_ReceivedAt raw))),
     cd_dec = (\<lambda>b. Some (sample_envelope\<lparr>rm_ReceivedAt := from_unary b\<rparr>)), cd_sha = sample_sha\<rparr>"

lemma sample_envelope: "inbox_envelope sample_codec id ''/iot/up/a'' ''p'' = sample_envelope"
  by (simp add: inbox_envelope_def sample_envelope_def ingressID_def sample_codec_def sample_sha_def)

definition sample_queue :: queue where
  "sample_queue = \<lparr>q_files = [], q_maxBytes = 100, q_used = 0, q_maxItems = 3, q_closed = False\<rparr>"

lemma sample_opened: "OpenQueue [] 100 3 = Inr sample_queue"
  by (simp add: OpenQueue_def sample_queue_def)

lemma sample_queue_inv: "queue_inv sample_queue" "\<not> q_closed sample_queue"
  using queue_inv_open [OF sample_opened] by (simp_all add: sample_queue_def)

lemma unary_2: "unary 2 = ''xx''"
  by (simp add: unary_def numeral_2_eq_2)

lemma sample_stored:
  "put_queue sample_codec good_disk True 2 sample_envelope sample_queue =
     (Inr (), sample_queue\<lparr>q_files := [(''00.json'', ''xx'')], q_used := 2\<rparr>)"
  by (simp add: put_queue_def stamped_def put_file_def sample_codec_def sample_queue_def sample_envelope_def
      zero_raw_message_def queueName_def sample_sha_def json_suffix_def queue_entries_def unary_2 put_limit_def
      mput_def Let_def)

text \<open>The first call fails in passing, the second succeeds.\<close>

definition sample_outcome :: "nat \<Rightarrow> error option" where
  "sample_outcome k = (if k = 0 then Some (ErrText ''later'') else None)"

theorem stored_message_is_handled_witness:
  "\<exists>d at. receive_message sample_codec id good_disk 2 False False ''/iot/up/a'' ''p''
       \<lparr>ib_queues = [sample_queue], ib_lastError = None\<rparr> = (Stored, d) \<and>
     answered sample_outcome (wk_log ((inbox_worker sample_codec Some sample_outcome ^^ 2)
       \<lparr>wk_queue = ib_queues d ! 0, wk_pending = None, wk_log = []\<rparr>)) (''/iot/up/a'', ''p'', at)"
proof -
  let ?d = "\<lparr>ib_queues = [sample_queue], ib_lastError = None\<rparr>"
  have shard: "shard sample_codec (length (ib_queues ?d)) ''/iot/up/a'' = 0" by (simp add: shard_def sample_codec_def sample_sha_def digit_value_def)
  let ?q = "sample_queue\<lparr>q_files := [(''00.json'', ''xx'')], q_used := 2\<rparr>"
  have r: "\<exists>d. receive_message sample_codec id good_disk 2 False False ''/iot/up/a'' ''p'' ?d = (Stored, d) \<and>
      ib_queues d ! 0 = ?q"
    using shard by (simp add: receive_message_def route_def has_prefix_def payload_limit_def inbox_put_def
        PutReceived_def sample_envelope sample_stored Let_def)
  then obtain d where d: "receive_message sample_codec id good_disk 2 False False ''/iot/up/a'' ''p'' ?d = (Stored, d)"
    "ib_queues d ! 0 = ?q" by blast
  have one: "{k. 0 \<le> k \<and> k < 0 + 2 \<and> passing sample_outcome k} = {0}"
    by (auto simp: passing_def sample_outcome_def split: if_splits)
  have "nat (Depth ?q) = 1" by (simp add: Depth_def entries_def has_suffix_def json_suffix_def)
  then have "\<exists>at. answered sample_outcome (wk_log ((inbox_worker sample_codec Some sample_outcome ^^ 2)
       \<lparr>wk_queue = ib_queues d ! 0, wk_pending = None, wk_log = []\<rparr>)) (''/iot/up/a'', ''p'', at)"
    using one d(2) shard sample_queue_inv sample_envelope
    by (intro stored_message_is_handled [where encb = id and i = 0, OF _ _ d(1)]) (simp_all add: sample_codec_def)
  then show ?thesis using d by auto
qed

theorem worker_drains_queue_witness:
  "Depth (wk_queue ((inbox_worker sample_codec Some (\<lambda>_. None) ^^ 1)
     \<lparr>wk_queue = sample_queue\<lparr>q_files := [(''00.json'', ''xx'')], q_used := 2\<rparr>, wk_pending = None, wk_log = []\<rparr>)) = 0"
proof -
  let ?q = "sample_queue\<lparr>q_files := [(''00.json'', ''xx'')], q_used := 2\<rparr>"
  have "queue_inv ?q" "\<not> q_closed ?q"
    using queue_inv_put [OF sample_queue_inv(1), of sample_codec good_disk True 2 sample_envelope] sample_queue_inv(2)
    by (simp_all add: sample_stored)
  moreover have "nat (Depth ?q) = 1" by (simp add: Depth_def entries_def has_suffix_def json_suffix_def)
  ultimately show ?thesis
    using worker_drains_queue [of "\<lparr>wk_queue = ?q, wk_pending = None, wk_log = []\<rparr>" "\<lambda>_. None" sample_codec Some] by simp
qed

theorem queue_accounting_witness:
  "OpenQueue (q_files (queue_run sample_codec [(good_disk, Op_Put True 2 sample_envelope)] sample_queue)) 100 3 =
     Inr (queue_run sample_codec [(good_disk, Op_Put True 2 sample_envelope)] sample_queue)"
  using queue_accounting [OF sample_opened refl, of sample_codec "[(good_disk, Op_Put True 2 sample_envelope)]"] by simp

theorem received_is_not_lost_witness:
  "\<exists>b. holds_file ''00.json'' b (q_files (queue_run sample_codec [(good_disk, Op_Reject sample_envelope), (good_disk, Op_Next)]
     (sample_queue\<lparr>q_files := [(''00.json'', ''xx'')], q_used := 2\<rparr>)))"
proof -
  have n: "queueName sample_codec sample_envelope = ''00.json''"
    by (simp add: queueName_def sample_codec_def sample_sha_def json_suffix_def)
  have "PutReceived sample_codec good_disk 2 sample_envelope (queue_run sample_codec [] sample_queue) =
      (Inr (), sample_queue\<lparr>q_files := [(''00.json'', ''xx'')], q_used := 2\<rparr>)"
    by (simp add: PutReceived_def queue_run_def sample_stored)
  from received_is_not_lost [OF sample_opened this, of "[(good_disk, Op_Reject sample_envelope), (good_disk, Op_Next)]"]
  show ?thesis by (auto simp: n)
qed

end
