(* ===== verification/Gb26875.thy ===== *)
theory Gb26875
  imports Wire Parsers
begin

text \<open>
  Fire-alarm frames of GB/T 26875.3 (internal/parser/gb26875.go): frames as lists of bytes with a
  start marker, a control unit, application data, a checksum and an end marker; the standard message
  a frame becomes; the frames the platform and its test devices send. The time zone of the process
  is the parameter zone, the offset in seconds that holds at a point of Unix time.
\<close>

section \<open>Dates\<close>

text \<open>Days from 1 January of the year 0 to 1 January of year y, in the proleptic Gregorian calendar.\<close>

definition days_to_year :: "int \<Rightarrow> int" where
  "days_to_year y = 365 * y + (y + 3) div 4 - (y + 99) div 100 + (y + 399) div 400"

definition leap_year :: "int \<Rightarrow> bool" where
  "leap_year y \<longleftrightarrow> y mod 4 = 0 \<and> (y mod 100 \<noteq> 0 \<or> y mod 400 = 0)"

definition days_to_month :: "int \<Rightarrow> int \<Rightarrow> int" where
  "days_to_month y m =
     [0, 31, 59, 90, 120, 151, 181, 212, 243, 273, 304, 334] ! nat (m - 1) + (if 2 < m \<and> leap_year y then 1 else 0)"

text \<open>time.Date normalises a month outside 1 to 12 into the years; days and times of day just add up.\<close>

definition civil_seconds :: "int \<Rightarrow> int \<Rightarrow> int \<Rightarrow> int \<Rightarrow> int \<Rightarrow> int \<Rightarrow> int" where
  "civil_seconds year month day hour minute second =
     (let y = year + (month - 1) div 12; m = (month - 1) mod 12 + 1
      in (days_to_year y + days_to_month y m + day - 1 - 719528) * 86400 + hour * 3600 + minute * 60 + second)"

text \<open>The year of a number of seconds since 1970.\<close>

definition civil_year :: "int \<Rightarrow> int" where
  "civil_year t =
     (let n = t div 86400 + 719528; y = n * 400 div 146097
      in if n < days_to_year y then y - 1 else if days_to_year (y + 1) \<le> n then y + 1 else y)"

text \<open>
  time.Date and Time.Year in a zone: the offset is first looked up as if the civil time were UTC, and
  looked up again at the time that offset gives.
\<close>

definition date_in :: "(int \<Rightarrow> int) \<Rightarrow> int \<Rightarrow> int" where
  "date_in zone t = (if zone t = 0 then t else t - zone (t - zone t))"

definition year_in :: "(int \<Rightarrow> int) \<Rightarrow> int \<Rightarrow> int" where
  "year_in zone t = civil_year (t + zone t)"

text \<open>A point in time in its zone, as the frame builders read it.\<close>

record civil =
  ci_Year :: int
  ci_Month :: int
  ci_Day :: int
  ci_Hour :: int
  ci_Minute :: int
  ci_Second :: int

section \<open>Times on the wire\<close>

definition decodeBCD :: "octet \<Rightarrow> int" where
  "decodeBCD v =
     (if drop_bit 4 v \<le> 9 \<and> v AND 0x0F \<le> 9 then uint (drop_bit 4 v) * 10 + uint (v AND 0x0F) else uint v)"

text \<open>The shift binds tighter than the or, and the conversion keeps the lowest eight bits.\<close>

definition encodeBCD :: "int \<Rightarrow> octet" where
  "encodeBCD v = word_of_int (push_bit 4 (go_div v 10) OR go_mod v 10)"

definition decodeGB26875Time :: "(int \<Rightarrow> int) \<Rightarrow> octet list \<Rightarrow> int" where
  "decodeGB26875Time zone data =
     (if length data \<noteq> 6 then 0
      else let vs = map decodeBCD data; year = 2000 + vs ! 5;
               t = date_in zone (civil_seconds year (vs ! 4) (vs ! 3) (vs ! 2) (vs ! 1) (vs ! 0))
        in if vs ! 4 < 1 \<or> 12 < vs ! 4 \<or> vs ! 3 < 1 \<or> 31 < vs ! 3 \<or> 23 < vs ! 2 \<or> 59 < vs ! 1 \<or>
              59 < vs ! 0 \<or> year_in zone t \<noteq> year
           then 0 else t * 1000)"

definition encodeGB26875Time :: "civil \<Rightarrow> octet list" where
  "encodeGB26875Time at =
     [encodeBCD (ci_Second at), encodeBCD (ci_Minute at), encodeBCD (ci_Hour at), encodeBCD (ci_Day at),
      encodeBCD (ci_Month at), encodeBCD (go_mod (ci_Year at) 100)]"

section \<open>Frames\<close>

record gb26875_frame =
  gf_Sequence :: "16 word"
  gf_VersionMajor :: octet
  gf_VersionMinor :: octet
  gf_Source :: string
  gf_Destination :: string
  gf_Command :: octet
  gf_Data :: "octet list"
  gf_FrameTime :: int

definition mark :: octet where
  "mark = 0x40"

definition hash :: octet where
  "hash = 0x23"

definition checksum :: "octet list \<Rightarrow> octet" where
  "checksum xs = foldl (+) 0 xs"

definition decodeGB26875Frame :: "(int \<Rightarrow> int) \<Rightarrow> octet list \<Rightarrow> gb26875_frame res" where
  "decodeGB26875Frame zone data =
     (if length data < 30 then Inl (ErrText ''GB26875 frame is too short'')
      else if data ! 0 \<noteq> mark \<or> data ! 1 \<noteq> mark then Inl (ErrText ''GB26875 start marker must be @@'')
      else if data ! (length data - 2) \<noteq> hash \<or> data ! (length data - 1) \<noteq> hash
      then Inl (ErrText ''GB26875 end marker must be ##'')
      else let n = unat (le16 data 24)
        in if 512 < n then Inl (ErrText ''GB26875 application data length exceeds 512'')
           else if length data \<noteq> 30 + n then Inl (ErrText ''GB26875 frame length mismatch'')
           else if data ! (27 + n) \<noteq> checksum (take (25 + n) (drop 2 data))
           then Inl (ErrText ''GB26875 checksum mismatch'')
           else Inr \<lparr>gf_Sequence = le16 data 2, gf_VersionMajor = data ! 4, gf_VersionMinor = data ! 5,
             gf_Source = hex_upper (take 6 (drop 12 data)), gf_Destination = hex_upper (take 6 (drop 18 data)),
             gf_Command = data ! 26, gf_Data = take n (drop 27 data),
             gf_FrameTime = decodeGB26875Time zone (take 6 (drop 6 data))\<rparr>)"

text \<open>The bytes the checksum covers: the control unit and the application data.\<close>

definition frame_body ::
  "16 word \<Rightarrow> octet list \<Rightarrow> octet list \<Rightarrow> octet \<Rightarrow> octet list \<Rightarrow> civil \<Rightarrow> octet list" where
  "frame_body sequence source destination command application at =
     put_le16 sequence @ [0x01, 0x03] @ encodeGB26875Time at @ source @ destination @
     put_le16 (word_of_nat (length application)) @ [command] @ application"

definition buildGB26875Frame ::
  "16 word \<Rightarrow> octet list \<Rightarrow> octet list \<Rightarrow> octet \<Rightarrow> octet list \<Rightarrow> civil \<Rightarrow> octet list" where
  "buildGB26875Frame sequence source destination command application at =
     (let body = frame_body sequence source destination command application at
      in [mark, mark] @ body @ [checksum body] @ [hash, hash])"

definition platform_address :: "octet list" where
  "platform_address = replicate 6 0xFF"

text \<open>copy of a text into a zeroed field of n bytes.\<close>

definition field_of :: "nat \<Rightarrow> string \<Rightarrow> octet list" where
  "field_of n s = take n (map (\<lambda>c. word_of_nat (of_char c)) s @ replicate n 0)"

definition BuildGB26875RegistrationFrame :: "16 word \<Rightarrow> octet list \<Rightarrow> civil \<Rightarrow> octet list" where
  "BuildGB26875RegistrationFrame sequence source at =
     buildGB26875Frame sequence source platform_address 0x00
       ([0x00, 0x01, 0x01, 0x03] @ replicate 14 0 @ field_of 16 (hex_upper source) @ replicate 78 0) at"

definition BuildGB26875ComponentStatusFrame ::
  "16 word \<Rightarrow> octet list \<Rightarrow> octet \<Rightarrow> octet \<Rightarrow> octet \<Rightarrow> 16 word \<Rightarrow> 16 word \<Rightarrow> 16 word \<Rightarrow> string \<Rightarrow> civil \<Rightarrow> octet list" where
  "BuildGB26875ComponentStatusFrame sequence source systemType systemAddress componentType circuitAddress
     nodeAddress status description at =
     buildGB26875Frame sequence source platform_address 0x02
       ([0x02, 0x01] @ [systemType, systemAddress, componentType] @ put_le16 circuitAddress @
        put_le16 nodeAddress @ put_le16 status @ field_of 31 description @ encodeGB26875Time at) at"

definition BuildGB26875AckFrame :: "16 word \<Rightarrow> octet list \<Rightarrow> civil \<Rightarrow> octet list" where
  "BuildGB26875AckFrame sequence destination at =
     buildGB26875Frame sequence platform_address destination 0x03 [] at"

definition BuildGB26875TimeSyncFrame :: "16 word \<Rightarrow> octet list \<Rightarrow> civil \<Rightarrow> octet list" where
  "BuildGB26875TimeSyncFrame sequence destination at =
     buildGB26875Frame sequence platform_address destination 0x01 ([0x5A, 0x01] @ encodeGB26875Time at) at"

definition BuildGB26875TimeSyncRequestFrame :: "16 word \<Rightarrow> octet list \<Rightarrow> civil \<Rightarrow> octet list" where
  "BuildGB26875TimeSyncRequestFrame sequence source at =
     buildGB26875Frame sequence source platform_address 0x01 ([0x5A, 0x01] @ encodeGB26875Time at) at"

section \<open>Messages\<close>

text \<open>utf8.ValidString.\<close>

definition between :: "nat \<Rightarrow> nat \<Rightarrow> char \<Rightarrow> bool" where
  "between lo hi c \<longleftrightarrow> lo \<le> of_char c \<and> of_char c \<le> hi"

definition tail_bytes :: "string \<Rightarrow> bool" where
  "tail_bytes s = list_all (between 0x80 0xBF) s"

text \<open>The length of the code point at the front; 0 when it is no UTF-8.\<close>

definition rune_length :: "string \<Rightarrow> nat" where
  "rune_length s = (case s of [] \<Rightarrow> 0 | c # t \<Rightarrow>
     if between 0 0x7F c then 1
     else if between 0xC2 0xDF c \<and> 1 \<le> length t \<and> tail_bytes (take 1 t) then 2
     else if between 0xE0 0xEF c \<and> 2 \<le> length t \<and> tail_bytes (take 2 t) \<and>
       (of_char c = (0xE0 :: nat) \<longrightarrow> between 0xA0 0xBF (hd t)) \<and>
       (of_char c = (0xED :: nat) \<longrightarrow> between 0x80 0x9F (hd t)) then 3
     else if between 0xF0 0xF4 c \<and> 3 \<le> length t \<and> tail_bytes (take 3 t) \<and>
       (of_char c = (0xF0 :: nat) \<longrightarrow> between 0x90 0xBF (hd t)) \<and>
       (of_char c = (0xF4 :: nat) \<longrightarrow> between 0x80 0x8F (hd t)) then 4
     else 0)"

function utf8_valid :: "string \<Rightarrow> bool" where
  "utf8_valid s =
     (if s = [] then True else if rune_length s = 0 then False else utf8_valid (drop (rune_length s) s))"
  by pat_completeness auto
termination
  by (relation "measure length") auto

declare utf8_valid.simps [simp del]

definition string_of :: "octet list \<Rightarrow> string" where
  "string_of bs = map (\<lambda>b. char_of (unat b)) bs"

fun bytesIndex :: "octet list \<Rightarrow> octet \<Rightarrow> int" where
  "bytesIndex [] v = -1"
| "bytesIndex (b # bs) v =
     (if b = v then 0 else if bytesIndex bs v < 0 then -1 else bytesIndex bs v + 1)"

definition gb26875ComponentName :: "octet \<Rightarrow> string" where
  "gb26875ComponentName v =
     (if v = 23 then bytes [0xE6, 0x89, 0x8B, 0xE5, 0x8A, 0xA8, 0xE7, 0x81, 0xAB, 0xE7, 0x81, 0xBE,
       0xE6, 0x8A, 0xA5, 0xE8, 0xAD, 0xA6, 0xE6, 0x8C, 0x89, 0xE9, 0x92, 0xAE]
     else if v = 30 then bytes [0xE6, 0x84, 0x9F, 0xE6, 0xB8, 0xA9, 0xE7, 0x81, 0xAB, 0xE7, 0x81, 0xBE,
       0xE6, 0x8E, 0xA2, 0xE6, 0xB5, 0x8B, 0xE5, 0x99, 0xA8]
     else if v = 40 then bytes [0xE6, 0x84, 0x9F, 0xE7, 0x83, 0x9F, 0xE7, 0x81, 0xAB, 0xE7, 0x81, 0xBE,
       0xE6, 0x8E, 0xA2, 0xE6, 0xB5, 0x8B, 0xE5, 0x99, 0xA8]
     else if v = 137 then bytes [0xE5, 0xA3, 0xB0, 0xE5, 0x85, 0x89, 0xE6, 0x8A, 0xA5, 0xE8, 0xAD, 0xA6,
       0xE5, 0x99, 0xA8]
     else bytes [0xE9, 0x83, 0xA8, 0xE4, 0xBB, 0xB6, 0xE7, 0xB1, 0xBB, 0xE5, 0x9E, 0x8B] @ decimal (uint v))"

definition isGB26875PlatformAddress :: "string \<Rightarrow> bool" where
  "isGB26875PlatformAddress v \<longleftrightarrow> equal_fold v ''FFFFFFFFFFFF'' \<or> equal_fold v ''000000000000''"

definition hex_byte :: "octet \<Rightarrow> string" where
  "hex_byte v = ''0x'' @ hex2 v"

text \<open>status and its bit n.\<close>

definition flag :: "16 word \<Rightarrow> nat \<Rightarrow> bool" where
  "flag status n \<longleftrightarrow> status AND push_bit n 1 \<noteq> 0"

text \<open>The bits that make a fault: fault, power fault, offline, open and short circuit, removed, sensor and upgrade fault.\<close>

definition fault_bits :: "16 word" where
  "fault_bits = push_bit 2 1 OR push_bit 8 1 OR push_bit 9 1 OR push_bit 10 1 OR push_bit 11 1 OR
     push_bit 12 1 OR push_bit 14 1 OR push_bit 15 1"

definition object_status :: "octet list \<Rightarrow> 16 word" where
  "object_status v = le16 v 7"

definition object_description :: "octet list \<Rightarrow> string" where
  "object_description v =
     (let field = take 31 (drop 9 v); cut = bytesIndex field 0;
          field = (if 0 \<le> cut then take (nat cut) field else field); text = trim_space (string_of field)
      in if utf8_valid text then text else hex_upper field)"

definition component_object :: "(int \<Rightarrow> int) \<Rightarrow> octet list \<Rightarrow> anymap" where
  "component_object zone v =
     (let status = object_status v
      in [(''systemType'', AInt (uint (v ! 0))), (''systemAddress'', AInt (uint (v ! 1))),
        (''componentType'', AInt (uint (v ! 2))), (''componentTypeName'', AStr (gb26875ComponentName (v ! 2))),
        (''circuitAddress'', AInt (uint (le16 v 3))), (''nodeAddress'', AInt (uint (le16 v 5))),
        (''statusWord'', AInt (uint status)), (''description'', AStr (object_description v)),
        (''occurredAt'', AInt (decodeGB26875Time zone (take 6 (drop 40 v)))),
        (''test'', ABool (flag status 0)), (''fireAlarm'', ABool (flag status 1)),
        (''fault'', ABool (flag status 2)), (''shielded'', ABool (flag status 3)),
        (''supervision'', ABool (flag status 4)), (''started'', ABool (flag status 5)),
        (''feedback'', ABool (flag status 6)), (''delayed'', ABool (flag status 7)),
        (''powerFault'', ABool (flag status 8)), (''offline'', ABool (flag status 9)),
        (''openCircuit'', ABool (flag status 10)), (''shortCircuit'', ABool (flag status 11)),
        (''removed'', ABool (flag status 12)), (''sensorFault'', ABool (flag status 14)),
        (''upgradeFault'', ABool (flag status 15))])"

text \<open>The objects of the data, one after another.\<close>

definition object_bytes :: "octet list \<Rightarrow> nat \<Rightarrow> octet list" where
  "object_bytes data i = take 46 (drop (46 * i) data)"

definition any_of :: "anymap \<Rightarrow> string \<Rightarrow> any" where
  "any_of m k = mget_or ANil m k"

definition applyGB26875ComponentStatus ::
  "(int \<Rightarrow> int) \<Rightarrow> standard_message \<Rightarrow> octet list \<Rightarrow> nat \<Rightarrow> standard_message res" where
  "applyGB26875ComponentStatus zone msg data n =
     (if n < 1 \<or> length data \<noteq> n * 46 then Inl (ErrText ''GB26875 component status: wrong length'')
      else let parts = map (object_bytes data) [0..<n];
               objects = map (component_object zone) parts;
               anyAlarm = list_ex (\<lambda>v. flag (object_status v) 1) parts;
               anyFault = list_ex (\<lambda>v. object_status v AND fault_bits \<noteq> 0) parts;
               first = objects ! 0
        in Inr (msg\<lparr>sm_Properties :=
               [(''fireAlarm'', ABool anyAlarm), (''fault'', ABool anyFault)] @
               map (\<lambda>k. (k, any_of first k))
                 [''componentType'', ''componentTypeName'', ''circuitAddress'', ''nodeAddress'', ''statusWord'',
                  ''started'', ''feedback'', ''shielded'', ''supervision'', ''offline'', ''powerFault'',
                  ''openCircuit'', ''shortCircuit'', ''removed'', ''sensorFault''] @
               [(''objects'', AArr (map AObj objects))],
             sm_Event := [(''type'', AStr ''COMPONENT_STATUS''), (''alarm'', ABool anyAlarm),
               (''fault'', ABool anyFault), (''objects'', AArr (map AObj objects))],
             sm_MessageType := (if anyAlarm \<or> anyFault then AlarmReport else StateChange)\<rparr>))"

definition applyGB26875Data ::
  "(int \<Rightarrow> int) \<Rightarrow> standard_message \<Rightarrow> gb26875_frame \<Rightarrow> standard_message res" where
  "applyGB26875Data zone msg frame =
     (let data = gf_Data frame; command = gf_Command frame
      in if command = 0x07 \<and> data = [] then Inr (msg\<lparr>sm_Event := [(''type'', AStr ''KEEPALIVE'')]\<rparr>)
         else if command = 0x03 \<and> data = []
         then Inr (msg\<lparr>sm_MessageType := CommandReply, sm_Event := [(''type'', AStr ''ACK'')]\<rparr>)
         else if length data < 2
         then Inl (ErrText (''GB26875 command '' @ hex_byte command @ '' requires an application data header''))
         else let typeFlag = data ! 0; n = unat (data ! 1);
                  msg = msg\<lparr>sm_Raw := mput (mput (sm_Raw msg) ''typeFlag'' (AStr (hex_byte typeFlag)))
                    ''objectCount'' (AInt (int n))\<rparr>
           in if command = 0x00 \<and> typeFlag = 0x00
              then if n \<noteq> 1 \<or> length data \<noteq> 112
                then Inl (ErrText ''GB26875 registration expects one 110-byte object'')
                else Inr (msg\<lparr>sm_MessageType := StateChange,
                  sm_Event := [(''type'', AStr ''REGISTER''), (''objectCount'', AInt (int n))],
                  sm_Properties := [(''registered'', ABool True),
                    (''registrationObjectLength'', AInt (int (length (drop 2 data)))),
                    (''registrationPayload'', AStr (hex_upper (drop 2 data)))]\<rparr>)
              else if command = 0x01 \<and> typeFlag = 0x5A
              then if n \<noteq> 1 \<or> length data \<noteq> 8
                then Inl (ErrText ''GB26875 time synchronization expects one 6-byte time object'')
                else let at = decodeGB26875Time zone (drop 2 data)
                  in Inr (if isGB26875PlatformAddress (gf_Source frame)
                    then msg\<lparr>sm_MessageType := CommandReply,
                      sm_Event := [(''type'', AStr ''TIME_SYNC''), (''synchronizedAt'', AInt at)],
                      sm_Properties := [(''requestedAt'', AInt at)]\<rparr>
                    else msg\<lparr>sm_MessageType := EventReport,
                      sm_Event := [(''type'', AStr ''TIME_SYNC_REQUEST''), (''requestedAt'', AInt at)],
                      sm_Properties := [(''requestedAt'', AInt at)]\<rparr>)
              else if command = 0x02 \<and> typeFlag = 0x02
              then applyGB26875ComponentStatus zone msg (drop 2 data) n
              else Inl (ErrText (''unsupported GB26875 command/type combination '' @ hex_byte command @
                ''/'' @ hex_byte typeFlag)))"

text \<open>The text of the payload: quotes and white space removed.\<close>

definition frame_text :: "string \<Rightarrow> string" where
  "frame_text payload =
     filter (\<lambda>c. c \<notin> set [CHR '' '', CHR 0x0D, CHR 0x0A, CHR 0x09]) (trim_space (trim_chars [CHR 0x22] payload))"

definition gb26875_message :: "raw_message \<Rightarrow> string \<Rightarrow> gb26875_frame \<Rightarrow> standard_message" where
  "gb26875_message raw text frame =
     \<lparr>sm_MessageID = ''msg_'' @ trim_prefix (rm_MessageID raw) ''raw_'', sm_RawMessageID = rm_MessageID raw,
      sm_TenantID = rm_TenantID raw, sm_ProductID = rm_ProductID raw, sm_DeviceID = rm_DeviceID raw,
      sm_MessageType = PropertyReport,
      sm_Timestamp = (if 0 < gf_FrameTime frame then gf_FrameTime frame else rm_ReceivedAt raw),
      sm_Properties = [], sm_Event = [],
      sm_Tags = [(''protocol'', ''GB/T 26875.3-2011''), (''terminalVendor'', ''Dahua'')],
      sm_Raw = [(''payloadFormat'', AStr ''hex''), (''payload'', AStr (to_upper text)),
        (''sequence'', AInt (uint (gf_Sequence frame))),
        (''protocolVersion'', AStr (decimal (uint (gf_VersionMajor frame)) @ ''.'' @
           decimal2 (uint (gf_VersionMinor frame)))),
        (''sourceAddress'', AStr (gf_Source frame)), (''destinationAddress'', AStr (gf_Destination frame)),
        (''command'', AStr (hex_byte (gf_Command frame)))],
      sm_Parser = [], sm_ParserVersion = []\<rparr>"

definition Parse_gb26875 :: "(int \<Rightarrow> int) \<Rightarrow> raw_message \<Rightarrow> standard_message res" where
  "Parse_gb26875 zone raw =
     (let text = frame_text (rm_Payload raw)
      in bind_res (some_or (hex_decode text) (ErrText ''invalid hex payload''))
           (\<lambda>data. bind_res (decodeGB26875Frame zone data)
             (\<lambda>frame. applyGB26875Data zone (gb26875_message raw text frame) frame)))"

definition Match_gb26875 :: "meta \<Rightarrow> bool" where
  "Match_gb26875 m \<longleftrightarrow>
     (let p = to_lower (mt_Protocol m)
      in equal_fold (mt_PayloadFormat m) ''hex'' \<and> (contains p ''gb26875'' \<or> contains p ''dahua-fire''))"

definition GB26875Parser :: "(int \<Rightarrow> int) \<Rightarrow> parser" where
  "GB26875Parser zone = \<lparr>pa_Name = ''gb26875_dahua_parser'', pa_Version = ''1.0.0'',
     pa_Match = Match_gb26875, pa_Parse = Parse_gb26875 zone, pa_ParseWithConfig = None\<rparr>"

end
