(* ===== verification/Gb_Frames.thy ===== *)
theory Gb_Frames
  imports Gb26875
begin

text \<open>
  Facts on the codec of fire-alarm frames: the calendar and BCD fields give back the time they were
  made from, and a byte list decodes exactly when it is a control unit and application data between
  markers with their checksum.
\<close>

section \<open>Dates come back\<close>

lemma ceil_div:
  assumes "0 < (m :: int)"
  shows "(y + (m - 1)) div m = y div m + (if y mod m = 0 then 0 else 1)"
proof -
  have "y + (m - 1) = (y mod m + (m - 1)) + m * (y div m)" by simp
  then have "(y + (m - 1)) div m = (y mod m + (m - 1)) div m + y div m"
    using assms by (metis div_mult_self2 less_irrefl add.commute)
  moreover have "(y mod m + (m - 1)) div m = (if y mod m = 0 then 0 else 1)"
    using assms pos_mod_bound [OF assms, of y] pos_mod_sign [OF assms, of y]
    by (auto intro: int_div_pos_eq [of _ _ _ "y mod m - 1"])
  ultimately show ?thesis by simp
qed

lemma days_to_year_leap: "days_to_year (y + 1) = days_to_year y + (if leap_year y then 366 else 365)"
proof -
  have s: "(y + 1 + k) div m = (y + k) div m + (if y mod m = 0 then 1 else 0)" if "0 < m" "k = m - 1" for m k
    using ceil_div [OF that(1), of y] that by (simp add: div_add_self2)
  have "y mod (100 * 4) = 0 \<Longrightarrow> y mod 100 = 0" "y mod (4 * 25) = 0 \<Longrightarrow> y mod 4 = 0"
    by (metis dvd_mult_left mod_eq_0_iff_dvd)+
  moreover have "(100 :: int) * 4 = 400" "(4 :: int) * 25 = 100" by simp_all
  ultimately have i: "y mod 400 = 0 \<Longrightarrow> y mod 100 = 0" "y mod 100 = 0 \<Longrightarrow> y mod 4 = 0" by metis+
  have "(y + 1 + 3) div 4 = (y + 3) div 4 + (if y mod 4 = 0 then 1 else 0)"
    "(y + 1 + 99) div 100 = (y + 99) div 100 + (if y mod 100 = 0 then 1 else 0)"
    "(y + 1 + 399) div 400 = (y + 399) div 400 + (if y mod 400 = 0 then 1 else 0)"
    by (rule s; simp)+
  note e = this
  show ?thesis
    unfolding days_to_year_def leap_year_def e
    by (cases "y mod 4 = 0"; cases "y mod 100 = 0"; cases "y mod 400 = 0") (use i in auto)
qed

lemma days_to_year_bounds:
  "400 * days_to_year a \<le> 146097 * a + 1200" "146097 * a - 1200 \<le> 400 * days_to_year a"
proof -
  have d: "m * (b div m) \<le> b" "b < m * (b div m) + m" if "0 < m" for b m :: int
    using that pos_mod_bound [OF that, of b] pos_mod_sign [OF that, of b]
      minus_mod_eq_mult_div [of b m] by - linarith+
  obtain p q r where e: "p = (a + 3) div 4" "q = (a + 99) div 100" "r = (a + 399) div 400" by blast
  show "400 * days_to_year a \<le> 146097 * a + 1200" "146097 * a - 1200 \<le> 400 * days_to_year a"
    using d [of 4 "a + 3", OF zero_less_numeral] d [of 100 "a + 99", OF zero_less_numeral] d [of 400 "a + 399", OF zero_less_numeral]
    unfolding days_to_year_def e [symmetric] by (simp_all add: algebra_simps)
qed

lemma year_of_day:
  assumes "days_to_year y \<le> n" "n < days_to_year (y + 1)" "146097 * z \<le> n * 400" "n * 400 < 146097 * (z + 1)"
  shows "(if n < days_to_year z then z - 1 else if days_to_year (z + 1) \<le> n then z + 1 else z) = y"
proof -
  have "146097 * y - 1200 \<le> 400 * n" "400 * n < 146097 * (y + 1) + 1200"
    using days_to_year_bounds [of y] days_to_year_bounds [of "y + 1"] assms(1, 2) by - linarith+
  then have "z - y \<le> 1" "y - z \<le> 1" using assms(3, 4) by (simp_all add: algebra_simps)
  then have "z = y \<or> z = y - 1 \<or> z = y + 1" by auto
  then show ?thesis
    using assms(1, 2) days_to_year_leap [of y] days_to_year_leap [of "y - 1"] by (auto split: if_splits)
qed

text \<open>A civil time with its fields in range; a day beyond the end of its month counts into the next.\<close>

definition civil_ok :: "civil \<Rightarrow> bool" where
  "civil_ok at \<longleftrightarrow> 2000 \<le> ci_Year at \<and> ci_Year at \<le> 2099 \<and> 1 \<le> ci_Month at \<and> ci_Month at \<le> 12 \<and>
     1 \<le> ci_Day at \<and> ci_Day at \<le> 31 \<and> 0 \<le> ci_Hour at \<and> ci_Hour at \<le> 23 \<and> 0 \<le> ci_Minute at \<and>
     ci_Minute at \<le> 59 \<and> 0 \<le> ci_Second at \<and> ci_Second at \<le> 59"

text \<open>Time.UnixMilli of a civil time, in a zone of constant offset.\<close>

definition civil_milli :: "int \<Rightarrow> civil \<Rightarrow> int" where
  "civil_milli offset at =
     (civil_seconds (ci_Year at) (ci_Month at) (ci_Day at) (ci_Hour at) (ci_Minute at) (ci_Second at) - offset) * 1000"

lemma day_of_year:
  assumes "1 \<le> m" "m \<le> 12" "1 \<le> d" "d \<le> 31"
  shows "0 \<le> days_to_month y m + d - 1" "days_to_month y m + d - 1 < (if leap_year y then 366 else 365)"
proof -
  have "m \<in> set [1..12]" using assms by simp
  then have "m \<in> {1, 2, 3, 4, 5, 6, 7, 8, 9, 10, 11, 12}" by (simp add: upto_rec1)
  then show "0 \<le> days_to_month y m + d - 1" "days_to_month y m + d - 1 < (if leap_year y then 366 else 365)"
    using assms(3, 4) by (auto simp: days_to_month_def)
qed

lemma civil_year_seconds:
  assumes "1 \<le> mo" "mo \<le> 12" "1 \<le> d" "d \<le> 31" "0 \<le> h" "h \<le> 23" "0 \<le> mi" "mi \<le> 59" "0 \<le> s" "s \<le> 59"
  shows "civil_year (civil_seconds y mo d h mi s) = y"
proof -
  have m: "(mo - 1) div 12 = 0" "(mo - 1) mod 12 + 1 = mo" using assms(1, 2) by simp_all
  obtain n where n: "n = days_to_year y + (days_to_month y mo + d - 1)" by blast
  obtain t where t: "t = h * 3600 + mi * 60 + s" "0 \<le> t" "t < 86400" using assms(5-) by (simp add: algebra_simps)
  have "civil_seconds y mo d h mi s = t + (n - 719528) * 86400"
    unfolding civil_seconds_def m n t(1) by (simp add: algebra_simps)
  then have "civil_seconds y mo d h mi s div 86400 + 719528 = n"
    using t(2, 3) by simp
  moreover have "days_to_year y \<le> n" "n < days_to_year (y + 1)"
    using day_of_year [OF assms(1-4), of y] days_to_year_leap [of y] n by auto
  moreover have "146097 * (n * 400 div 146097) \<le> n * 400" "n * 400 < 146097 * (n * 400 div 146097 + 1)"
    using pos_mod_bound [of 146097 "n * 400"] pos_mod_sign [of 146097 "n * 400"]
      minus_mod_eq_mult_div [of "n * 400" 146097] by (simp_all add: algebra_simps)
  ultimately show ?thesis unfolding civil_year_def Let_def by (simp only: year_of_day)
qed

lemma decode_encode_BCD:
  assumes "0 \<le> v" "v \<le> 99"
  shows "decodeBCD (encodeBCD v) = v"
proof -
  have "list_all (\<lambda>v. decodeBCD (encodeBCD v) = v) [0..99]" by code_simp
  with assms show ?thesis by (simp add: list_all_iff)
qed

lemma decode_encode_time:
  assumes "civil_ok at"
  shows "decodeGB26875Time (\<lambda>_. offset) (encodeGB26875Time at) = civil_milli offset at"
proof -
  define y where "y = ci_Year at - 2000"
  then have y: "ci_Year at = 2000 + y" "0 \<le> y" "y \<le> 99"
    using assms by (simp_all add: civil_ok_def)
  then have "go_mod (ci_Year at) 100 = y"
    using mod_add_left_eq [of 2000 100 y] by (simp add: go_mod_nonneg)
  then show ?thesis
    using assms y(2, 3) unfolding civil_ok_def
    by (simp add: decodeGB26875Time_def encodeGB26875Time_def decode_encode_BCD date_in_def year_in_def
        civil_year_seconds civil_milli_def y(1) Let_def eval_nat_numeral)
qed

section \<open>Frames come back\<close>

lemma length_encode_time [simp]: "length (encodeGB26875Time at) = 6"
  by (simp add: encodeGB26875Time_def)

lemma length_field [simp]: "length (field_of n s) = n"
  by (simp add: field_of_def)

text \<open>What the decoder reads off a control unit of 25 bytes and the application data.\<close>

definition frame_fields :: "(int \<Rightarrow> int) \<Rightarrow> octet list \<Rightarrow> octet list \<Rightarrow> gb26875_frame" where
  "frame_fields zone control data =
     \<lparr>gf_Sequence = le16 control 0, gf_VersionMajor = control ! 2, gf_VersionMinor = control ! 3,
      gf_Source = hex_upper (take 6 (drop 10 control)), gf_Destination = hex_upper (take 6 (drop 16 control)),
      gf_Command = control ! 24, gf_Data = data,
      gf_FrameTime = decodeGB26875Time zone (take 6 (drop 4 control))\<rparr>"

definition wrap_frame :: "octet list \<Rightarrow> octet list \<Rightarrow> octet list" where
  "wrap_frame control data =
     [mark, mark] @ control @ data @ [checksum (control @ data)] @ [hash, hash]"

lemma decode_wrap:
  assumes "length control = 25" "unat (le16 control 22) = length data" "length data \<le> 512"
  shows "decodeGB26875Frame zone (wrap_frame control data) = Inr (frame_fields zone control data)"
proof -
  define w where "w = wrap_frame control data"
  have len: "length w = 30 + length data" using assms(1) by (simp add: w_def wrap_frame_def)
  have at: "w ! (2 + i) = control ! i" if "i < 25" for i
    using that assms(1) by (simp add: w_def wrap_frame_def nth_append)
  have le: "le16 w (2 + i) = le16 control i" if "Suc i < 25" for i
    using at [of i] at [of "Suc i"] that by (simp add: le16_def)
  have tk: "take 6 (drop (2 + i) w) = take 6 (drop i control)" if "i \<le> 19" for i
    using that assms(1) by (simp add: w_def wrap_frame_def)
  have rest: "take (length data) (drop 27 w) = data" "take (25 + length data) (drop 2 w) = control @ data"
    "w ! (27 + length data) = checksum (control @ data)" "w ! (28 + length data) = hash"
    "w ! (29 + length data) = hash" "w ! 0 = mark" "w ! 1 = mark"
    using assms(1) by (simp_all add: w_def wrap_frame_def nth_append)
  have n: "le16 w 24 = le16 control 22" using le [of 22] by simp
  show ?thesis unfolding w_def [symmetric]
    using assms le [of 0] at [of 2] at [of 3] at [of 24] tk [of 10] tk [of 16] tk [of 4] rest
    by (simp add: decodeGB26875Frame_def frame_fields_def len n Let_def)
qed

lemma decode_wraps:
  assumes "decodeGB26875Frame zone w = Inr f"
  obtains control data where "w = wrap_frame control data" "length control = 25"
    "unat (le16 control 22) = length data" "length data \<le> 512" "f = frame_fields zone control data"
proof -
  define n where "n = unat (le16 w 24)"
  have h: "length w = 30 + n" "w ! 0 = mark" "w ! 1 = mark" "w ! (28 + n) = hash" "w ! (29 + n) = hash"
    "n \<le> 512" "w ! (27 + n) = checksum (take (25 + n) (drop 2 w))"
    using assms by (auto simp: decodeGB26875Frame_def n_def Let_def split: if_splits)
  define control data where "control = take 25 (drop 2 w)" and "data = take n (drop 27 w)"
  have len: "length control = 25" "length data = n" using h(1) by (simp_all add: control_def data_def)
  have "w = wrap_frame control data"
  proof (rule nth_equalityI)
    show "length w = length (wrap_frame control data)" using h(1) len by (simp add: wrap_frame_def)
    have b: "control @ data = take (25 + n) (drop 2 w)"
      by (simp add: control_def data_def take_add)
    fix i assume i: "i < length w"
    consider "i = 0" | "i = 1" | "2 \<le> i \<and> i < 27 + n" | "i = 27 + n" | "i = 28 + n" | "i = 29 + n"
      using i h(1) by linarith
    moreover have "2 \<le> i \<Longrightarrow> Suc (Suc (i - Suc (Suc 0))) = i" by simp
    ultimately show "w ! i = wrap_frame control data ! i"
      using h len i unfolding wrap_frame_def append_assoc [symmetric] b
      by cases (auto simp: nth_append nth_Cons')
  qed
  moreover have "le16 control 22 = le16 w 24" using h(1) by (simp add: control_def le16_def)
  ultimately show ?thesis
    using that [of control data] decode_wrap [of control data zone] assms len h(6) n_def by simp
qed

end
