(* ===== verification/Modbus_Frame.thy ===== *)
theory Modbus_Frame
  imports Wire Inventory
begin

text \<open>
  Modbus frames: the CRC of RTU frames (internal/modbusframe/rtu.go), the read requests and the
  responses accepted for them (internal/protocolruntime/modbus.go, rtu_tcp.go). What a connection
  delivers is the list of bytes that arrive before a read fails, and the error of that failure.
\<close>

section \<open>CRC\<close>

definition crc_shift :: "16 word \<Rightarrow> 16 word" where
  "crc_shift v = (if v AND 1 \<noteq> 0 then drop_bit 1 v XOR 0xA001 else drop_bit 1 v)"

definition crc_byte :: "octet \<Rightarrow> 16 word \<Rightarrow> 16 word" where
  "crc_byte b v = (crc_shift ^^ 8) (v XOR ucast b)"

definition CRC :: "octet list \<Rightarrow> 16 word" where
  "CRC data = fold crc_byte data 0xFFFF"

definition AppendCRC :: "octet list \<Rightarrow> octet list" where
  "AppendCRC data = (let v = CRC data in data @ [low8 v, high8 v])"

definition Validate_rtu :: "octet list \<Rightarrow> unit res" where
  "Validate_rtu data =
     (if length data < 5 \<or> 256 < length data then Inl (ErrText ''invalid Modbus RTU frame length'')
      else if CRC (take (length data - 2) data) \<noteq> le16 data (length data - 2)
      then Inl (ErrText ''Modbus RTU CRC mismatch'') else Inr ())"

section \<open>Requests\<close>

definition buildReadRequest :: "16 word \<Rightarrow> octet \<Rightarrow> modbus_read_block \<Rightarrow> octet list res" where
  "buildReadRequest transaction unit block =
     (if mb_FunctionCode block < 1 \<or> 4 < mb_FunctionCode block
      then Inl (ErrText ''read functionCode must be 01, 02, 03 or 04'')
      else let limit = (if mb_FunctionCode block \<le> 2 then 2000 else 125)
        in if mb_StartAddress block < 0 \<or> 65535 < mb_StartAddress block \<or> mb_Quantity block \<le> 0 \<or>
              limit < mb_Quantity block \<or> 65536 < mb_StartAddress block + mb_Quantity block
           then Inl (ErrText ''Modbus read block is outside protocol limits'')
           else Inr (put_be16 transaction @ [0, 0] @ put_be16 6 @ [unit, word_of_int (mb_FunctionCode block)] @
             put_be16 (word_of_int (mb_StartAddress block)) @ put_be16 (word_of_int (mb_Quantity block))))"

section \<open>Responses\<close>

type_synonym conn = "octet list \<times> error"

text \<open>io.ReadFull of n bytes: what was read, its error, and what the connection holds afterwards.\<close>

definition read_full :: "nat \<Rightarrow> conn \<Rightarrow> octet list \<times> error option \<times> conn" where
  "read_full n c =
     (if n \<le> length (fst c) then (take n (fst c), None, drop n (fst c), snd c)
      else (fst c, Some (if fst c \<noteq> [] \<and> snd c = ErrText ''EOF'' then ErrText ''unexpected EOF'' else snd c),
        [], snd c))"

definition modbus_exception :: "octet \<Rightarrow> error" where
  "modbus_exception code = ErrText (''Modbus exception code 0x'' @ hex2 code)"

text \<open>The response and the error; the connection afterwards. Most errors come without a response.\<close>

definition readResponse :: "16 word \<Rightarrow> octet \<Rightarrow> octet \<Rightarrow> conn \<Rightarrow> (octet list \<times> error option) \<times> conn" where
  "readResponse transaction unit fn c =
     (case read_full 7 c of (header, e, c1) \<Rightarrow>
        if e \<noteq> None then (([], e), c1)
        else if be16 header 0 \<noteq> transaction then (([], Some (ErrText ''Modbus transaction id mismatch'')), c1)
        else if be16 header 2 \<noteq> 0 then (([], Some (ErrText ''Modbus protocol id is not zero'')), c1)
        else let n = unat (be16 header 4)
          in if n < 3 \<or> 254 < n
             then (([], Some (ErrText (''invalid Modbus response length '' @ decimal (int n)))), c1)
             else if header ! 6 \<noteq> unit then (([], Some (ErrText ''Modbus unit id mismatch'')), c1)
             else (case read_full (n - 1) c1 of (rest, e, c2) \<Rightarrow>
               if e \<noteq> None then (([], e), c2)
               else if length rest < 2 then (([], Some (ErrText ''Modbus response PDU is incomplete'')), c2)
               else if rest ! 0 AND 0x80 \<noteq> 0 then ((header @ rest, Some (modbus_exception (rest ! 1))), c2)
               else if rest ! 0 \<noteq> fn then (([], Some (ErrText ''Modbus function code mismatch'')), c2)
               else ((header @ rest, None), c2)))"

text \<open>The buffer of three bytes is returned as it is filled; missing bytes are zero.\<close>

definition readRTUResponse :: "octet \<Rightarrow> octet \<Rightarrow> conn \<Rightarrow> (octet list \<times> error option) \<times> conn" where
  "readRTUResponse unit fn c =
     (case read_full 3 c of (head, e, c1) \<Rightarrow>
        if e \<noteq> None then ((take 3 (head @ [0, 0, 0]), e), c1)
        else if head ! 0 \<noteq> unit \<or> (head ! 1 \<noteq> fn \<and> head ! 1 \<noteq> fn OR 0x80)
        then ((head, Some (ErrText ''Modbus RTU address or function mismatch'')), c1)
        else let size = (if head ! 1 AND 0x80 \<noteq> 0 then 2 else unat (head ! 2) + 2)
          in if 252 < size then ((head, Some (ErrText ''Modbus RTU response too large'')), c1)
             else (case read_full size c1 of (tail, e, c2) \<Rightarrow>
               if e \<noteq> None then ((head @ tail, e), c2)
               else (case Validate_rtu (head @ tail) of
                   Inl er \<Rightarrow> ((head @ tail, Some er), c2)
                 | Inr _ \<Rightarrow>
                     if head ! 1 AND 0x80 \<noteq> 0 then ((head @ tail, Some (modbus_exception (head ! 2))), c2)
                     else ((head @ tail, None), c2))))"

definition expected_bytes :: "modbus_read_block \<Rightarrow> int" where
  "expected_bytes block =
     (if mb_FunctionCode block \<le> 2 then go_div (mb_Quantity block + 7) 8 else mb_Quantity block * 2)"

definition validateReadByteCount :: "octet list \<Rightarrow> modbus_read_block \<Rightarrow> bool \<Rightarrow> unit res" where
  "validateReadByteCount frame block rtu =
     (let offset = (if rtu then 2 else 8); expected = expected_bytes block
      in if length frame \<le> offset \<or> int (unat (frame ! offset)) \<noteq> expected
         then Inl (ErrText ''Modbus response byte count does not match query'')
         else if int (length frame) \<noteq> int offset + 1 + expected + (if rtu then 2 else 0)
         then Inl (ErrText ''Modbus response length does not match query'') else Inr ())"

section \<open>The CRC register\<close>

text \<open>A shift can be undone: bit 15 of the result says whether the polynomial was added.\<close>

lemma crc_shift_bit15: "bit (crc_shift v) 15 \<longleftrightarrow> bit v 0"
  by (auto simp: crc_shift_def bit_simps and_one_eq odd_iff_mod_2_eq_one [symmetric] bit_0
      dest: bit_imp_le_length)

lemma crc_shift_xor: "crc_shift (v XOR w) = crc_shift v XOR crc_shift w"
  by (rule bit_word_eqI)
    (auto simp: crc_shift_def bit_simps and_one_eq odd_iff_mod_2_eq_one [symmetric] bit_0 even_xor_iff)

lemma crc_shifts_xor: "(crc_shift ^^ n) (v XOR w) = (crc_shift ^^ n) v XOR (crc_shift ^^ n) w"
  by (induction n) (simp_all add: crc_shift_xor)

lemma crc_shift_back:
  assumes "\<not> bit (crc_shift v) 15"
  shows "\<not> bit v 0" "bit v (Suc i) \<longleftrightarrow> bit (crc_shift v) i"
proof -
  show v: "\<not> bit v 0" using assms by (simp add: crc_shift_bit15)
  then have "crc_shift v = drop_bit 1 v" by (simp add: crc_shift_def and_one_eq bit_0 even_iff_mod_2_eq_zero)
  then show "bit v (Suc i) \<longleftrightarrow> bit (crc_shift v) i" by (simp only: bit_drop_bit_eq) simp
qed

text \<open>After n shifts, a register with its n top bits clear was that register moved n places up.\<close>

lemma crc_shifts_back:
  assumes "\<And>i. 16 - n \<le> i \<Longrightarrow> \<not> bit ((crc_shift ^^ n) v) i" "n \<le> 16"
  shows "bit v i \<longleftrightarrow> n \<le> i \<and> bit ((crc_shift ^^ n) v) (i - n)"
  using assms
proof (induction n arbitrary: i)
  case (Suc n)
  let ?w = "(crc_shift ^^ n) v"
  have top: "\<not> bit (crc_shift ?w) 15" using Suc.prems by simp
  have w: "bit ?w j \<longleftrightarrow> 0 < j \<and> bit (crc_shift ?w) (j - 1)" for j
    using crc_shift_back [OF top] by (cases j) simp_all
  have "\<not> bit ?w j" if "16 - n \<le> j" for j
    using w [of j] Suc.prems(1) [of "j - 1"] that Suc.prems(2) by auto
  then have "bit v i \<longleftrightarrow> n \<le> i \<and> bit ?w (i - n)" using Suc.IH Suc.prems(2) by simp
  then show ?case using w [of "i - n"] by (auto simp: Suc_le_eq)
qed simp

lemma xor_word_0: "(v :: 'a :: len word) XOR w = 0 \<Longrightarrow> v = w"
proof -
  assume "v XOR w = 0"
  moreover have "v = (v XOR w) XOR w" by (simp add: xor.assoc)
  ultimately show "v = w" by simp
qed

lemma xor_word_cancel: "(v :: 'a :: len word) XOR b = w XOR b \<Longrightarrow> v = w"
proof -
  assume "v XOR b = w XOR b"
  then have "(v XOR b) XOR b = (w XOR b) XOR b" by simp
  then show "v = w" by (simp add: xor.assoc)
qed

lemma crc_shifts_inject:
  assumes n: "n \<le> 16" and e: "(crc_shift ^^ n) v = (crc_shift ^^ n) w"
  shows "v = w"
proof (rule xor_word_0)
  have z: "(crc_shift ^^ n) (v XOR w) = 0" by (simp add: crc_shifts_xor e)
  show "v XOR w = 0"
    using crc_shifts_back [of n "v XOR w"] n by (intro bit_word_eqI) (simp add: z)
qed

lemma crc_byte_inject: "crc_byte b v = crc_byte b w \<longleftrightarrow> v = w"
proof
  assume "crc_byte b v = crc_byte b w"
  then have "v XOR ucast b = w XOR ucast b"
    unfolding crc_byte_def by (rule crc_shifts_inject [rotated]) simp
  then show "v = w" by (rule xor_word_cancel)
qed simp

lemma fold_crc_inject: "fold crc_byte ds v = fold crc_byte ds w \<longleftrightarrow> v = w"
  by (induction ds arbitrary: v w) (simp_all add: crc_byte_inject)

text \<open>The eight shifts of a single byte never give a register that fits in a byte.\<close>

lemma ucast_octet_0: "(ucast (b :: octet) :: 16 word) = 0 \<Longrightarrow> b = 0"
proof (rule bit_word_eqI)
  fix i
  assume "(ucast b :: 16 word) = 0" "i < LENGTH(8)"
  then have "\<not> bit (ucast b :: 16 word) i" by simp
  then show "bit b i \<longleftrightarrow> bit (0 :: octet) i" using \<open>i < LENGTH(8)\<close> by (simp add: bit_simps)
qed

lemma crc_of_byte:
  assumes e: "(crc_shift ^^ 8) (ucast (b :: octet)) = ucast (c :: octet)"
  shows "b = 0" "c = 0"
proof -
  have "bit (ucast b :: 16 word) i \<longleftrightarrow> 8 \<le> i \<and> bit ((crc_shift ^^ 8) (ucast b)) (i - 8)" for i
    by (rule crc_shifts_back) (auto simp: e bit_simps dest: bit_imp_le_length)
  moreover have "\<not> (8 \<le> i \<and> bit (ucast b :: 16 word) i)" for i
    by (auto simp: bit_simps dest: bit_imp_le_length)
  ultimately have "\<not> bit (ucast b :: 16 word) i" for i by blast
  then have "(ucast b :: 16 word) = 0" by (intro bit_word_eqI) simp
  then show "b = 0" by (rule ucast_octet_0)
  have "(crc_shift ^^ n) 0 = 0" for n by (induction n) (simp_all add: crc_shift_def)
  then have "(ucast c :: 16 word) = 0" using e by (simp only: \<open>b = 0\<close> unsigned_0)
  then show "c = 0" by (rule ucast_octet_0)
qed

text \<open>Two bytes can be read off the register they lead to.\<close>

lemma crc_two_bytes:
  assumes "crc_byte b (crc_byte a v) = crc_byte d (crc_byte c v)"
  shows "a = c" "b = d"
proof -
  let ?T = "crc_shift ^^ 8"
  have "?T (v XOR ucast a) XOR ucast b = ?T (v XOR ucast c) XOR ucast d"
    using assms unfolding crc_byte_def by (rule crc_shifts_inject [rotated]) simp
  then have "?T v XOR (?T (ucast a) XOR ucast b) = ?T v XOR (?T (ucast c) XOR ucast d)"
    by (simp add: crc_shifts_xor xor.assoc)
  then have "?T (ucast a) XOR ucast b = ?T (ucast c) XOR ucast d"
    by (metis xor.commute xor_word_cancel)
  then have "(?T (ucast a) XOR ucast b) XOR (?T (ucast c) XOR ucast b) =
      (?T (ucast c) XOR ucast d) XOR (?T (ucast c) XOR ucast b)" by simp
  then have "?T (ucast (a XOR c)) = ucast (d XOR b)"
    by (simp add: unsigned_xor_eq crc_shifts_xor xor.assoc xor.commute xor.left_commute)
  from crc_of_byte [OF this] show "a = c" "b = d"
    by (auto dest: xor_word_0)
qed

lemma crc_shift_even: "\<not> bit v 0 \<Longrightarrow> crc_shift v = drop_bit 1 v"
  by (simp add: crc_shift_def and_one_eq bit_0 even_iff_mod_2_eq_zero)

lemma crc_shifts_clear: "(\<And>i. i < n \<Longrightarrow> \<not> bit v i) \<Longrightarrow> (crc_shift ^^ n) v = drop_bit n v"
proof (induction n)
  case (Suc n)
  then have "(crc_shift ^^ n) v = drop_bit n v" by simp
  moreover have "\<not> bit (drop_bit n v) 0" using Suc.prems [of n] by (simp only: bit_drop_bit_eq) simp
  ultimately show ?case using crc_shift_even [of "drop_bit n v"] by (simp add: drop_bit_drop_bit)
qed simp

lemma crc_residue: "CRC (AppendCRC d) = 0"
proof -
  let ?v = "CRC d"
  have z: "(crc_shift ^^ 8) 0 = 0" using crc_shifts_clear [of 8 0] by simp
  have "crc_byte (low8 ?v) ?v = drop_bit 8 (?v XOR ucast (low8 ?v))"
    unfolding crc_byte_def by (rule crc_shifts_clear) (simp add: low8_def bit_simps)
  also have "\<dots> = ucast (high8 ?v)"
    by (rule bit_word_eqI) (auto simp: low8_def high8_def bit_simps dest: bit_imp_le_length)
  finally have "crc_byte (high8 ?v) (crc_byte (low8 ?v) ?v) = 0" by (simp add: crc_byte_def z)
  moreover have "CRC (AppendCRC d) = crc_byte (high8 ?v) (crc_byte (low8 ?v) ?v)"
    by (simp add: CRC_def AppendCRC_def Let_def)
  ultimately show ?thesis by simp
qed

lemma Validate_rtu_iff:
  "Validate_rtu f = Inr () \<longleftrightarrow> (\<exists>d. 3 \<le> length d \<and> length d \<le> 254 \<and> f = AppendCRC d)"
proof
  assume v: "Validate_rtu f = Inr ()"
  let ?n = "length f - 2"
  have n: "5 \<le> length f" "length f \<le> 256" and c: "CRC (take ?n f) = le16 f ?n"
    using v by (auto simp: Validate_rtu_def split: if_splits)
  have "f = take ?n f @ [f ! ?n, f ! Suc ?n]"
    using n id_take_nth_drop [of ?n f] by (simp add: Cons_nth_drop_Suc [symmetric])
  then have "f = AppendCRC (take ?n f)"
    by (simp add: AppendCRC_def c le16_def)
  then show "\<exists>d. 3 \<le> length d \<and> length d \<le> 254 \<and> f = AppendCRC d"
    using n by (intro exI [of _ "take ?n f"]) auto
next
  assume "\<exists>d. 3 \<le> length d \<and> length d \<le> 254 \<and> f = AppendCRC d"
  then show "Validate_rtu f = Inr ()"
    by (auto simp: Validate_rtu_def AppendCRC_def Let_def le16_def nth_append)
qed

lemma AppendCRC_parts [simp]:
  "length (AppendCRC d) = length d + 2" "take (length d) (AppendCRC d) = d"
  "i < length d \<Longrightarrow> AppendCRC d ! i = d ! i"
  by (simp_all add: AppendCRC_def Let_def nth_append)

text \<open>
  An RTU frame passes Validate exactly when it is 3 to 254 bytes of data with the CRC AppendCRC
  puts after them, and those bytes can be read back.
\<close>
theorem rtu_frames_are_checked_data:
  "Validate_rtu f = Inr () \<longleftrightarrow>
     (\<exists>d. 3 \<le> length d \<and> length d \<le> 254 \<and> f = AppendCRC d \<and> take (length f - 2) f = d)"
  unfolding Validate_rtu_iff by (metis AppendCRC_parts(1,2) diff_add_inverse2)

text \<open>
  C34. Damage to any two neighbouring bytes of a valid RTU frame, in its data, in its CRC or across
  both, is detected.
\<close>
theorem two_damaged_bytes_are_detected:
  assumes "Validate_rtu f = Inr ()" "Suc i < length f" "x \<noteq> f ! i \<or> y \<noteq> f ! Suc i"
  shows "Validate_rtu (f[i := x, Suc i := y]) \<noteq> Inr ()"
proof
  let ?g = "f[i := x, Suc i := y]"
  assume "Validate_rtu ?g = Inr ()"
  with assms(1) have c: "CRC f = CRC ?g" unfolding Validate_rtu_iff by (auto simp: crc_residue)
  obtain A a b B where f: "f = A @ a # b # B" and i: "length A = i"
    using assms(2) id_take_nth_drop [of i f]
    by (metis Cons_nth_drop_Suc Suc_lessD append_take_drop_id length_take min.absorb4)
  then have g: "?g = A @ x # y # B" by (simp add: list_update_append)
  have "fold crc_byte B (crc_byte b (crc_byte a (fold crc_byte A 0xFFFF))) =
      fold crc_byte B (crc_byte y (crc_byte x (fold crc_byte A 0xFFFF)))"
    using c unfolding g by (simp add: CRC_def f)
  then have "crc_byte b (crc_byte a (fold crc_byte A 0xFFFF)) = crc_byte y (crc_byte x (fold crc_byte A 0xFFFF))"
    by (rule fold_crc_inject [THEN iffD1])
  from crc_two_bytes [OF this] show False
    using assms(3) by (simp add: f nth_append flip: i)
qed

theorem two_damaged_bytes_are_detected_witness:
  "Validate_rtu ((AppendCRC [1, 3, 2, 0, 7])[4 := 8, 5 := 0]) \<noteq> Inr ()"
proof -
  have "Validate_rtu (AppendCRC [1, 3, 2, 0, 7]) = Inr ()"
    unfolding Validate_rtu_iff by (intro exI [of _ "[1, 3, 2, 0, 7]"]) simp
  from two_damaged_bytes_are_detected [OF this, of 4 8 0] show ?thesis by simp
qed

section \<open>Framing of responses\<close>

text \<open>A response of Modbus TCP around its PDU.\<close>

definition tcp_frame :: "16 word \<Rightarrow> octet \<Rightarrow> octet list \<Rightarrow> octet list" where
  "tcp_frame transaction unit pdu =
     put_be16 transaction @ [0, 0] @ put_be16 (word_of_nat (length pdu + 1)) @ [unit] @ pdu"

lemma read_full_iff:
  "read_full n c = (x, None, c') \<longleftrightarrow> length x = n \<and> fst c = x @ fst c' \<and> snd c' = snd c"
  by (cases c; cases c') (auto simp: read_full_def)

lemma list7: "length xs = 7 \<Longrightarrow> \<exists>a b c d e f g. xs = [a, b, c, d, e, f, g]"
  by (auto simp: numeral_eq_Suc length_Suc_conv)

lemma readResponse_iff:
  "readResponse t u fn c = ((r, None), c') \<longleftrightarrow>
     (\<exists>pdu. 2 \<le> length pdu \<and> length pdu \<le> 253 \<and> r = tcp_frame t u pdu \<and> fst c = r @ fst c' \<and>
        snd c' = snd c \<and> pdu ! 0 = fn \<and> fn AND 0x80 = 0)" (is "?l \<longleftrightarrow> ?r")
proof
  assume l: ?l
  obtain h e c1 where h: "read_full 7 c = (h, e, c1)" by (metis prod_cases3)
  with l have e: "e = None" by (cases e) (simp_all add: readResponse_def)
  let ?n = "unat (be16 h 4)"
  obtain rest e2 c2 where rest: "read_full (?n - 1) c1 = (rest, e2, c2)" by (metis prod_cases3)
  have n: "be16 h 0 = t" "be16 h 2 = 0" "\<not> ?n < 3" "\<not> 254 < ?n" "h ! 6 = u"
    using l unfolding readResponse_def h e by (simp_all add: Let_def split: if_splits)
  then have rest2: "e2 = None" "rest ! 0 AND 0x80 = 0" "rest ! 0 = fn" "r = h @ rest" "c' = c2"
    using l rest unfolding readResponse_def h e by (simp_all add: Let_def split: if_splits)
  have len: "length h = 7" "fst c = h @ fst c1" "snd c1 = snd c"
      "length rest = ?n - 1" "fst c1 = rest @ fst c2" "snd c2 = snd c1"
    using h rest e rest2(1) by (simp_all add: read_full_iff)
  obtain a b p q f g k where hs: "h = [a, b, p, q, f, g, k]" using list7 [OF len(1)] by blast
  have pq: "p = 0" "q = 0" using n(2) high8_join16 [of p q] low8_join16 [of p q]
    by (simp_all add: be16_def hs high8_def low8_def)
  have n4: "be16 h 4 = word_of_nat (length rest + 1)"
    using len(4) n(3) by (simp add: word_unat_eq_iff unat_of_nat)
  have "put_be16 (word_of_nat (length rest + 1)) = [f, g]"
    unfolding n4 [symmetric] by (simp add: hs be16_def put_be16_def)
  moreover have "put_be16 t = [a, b]" using n(1) by (auto simp: hs be16_def put_be16_def)
  moreover have "k = u" using n(5) by (simp add: hs)
  ultimately have "h = put_be16 t @ [0, 0] @ put_be16 (word_of_nat (length rest + 1)) @ [u]"
    using hs pq by simp
  then show ?r using n len rest2 by (intro exI [of _ rest]) (auto simp: tcp_frame_def)
next
  assume ?r
  then obtain pdu where p: "2 \<le> length pdu" "length pdu \<le> 253" "r = tcp_frame t u pdu"
    "fst c = r @ fst c'" "snd c' = snd c" "pdu ! 0 = fn" "fn AND 0x80 = 0" by blast
  let ?h = "put_be16 t @ [0, 0] @ put_be16 (word_of_nat (length pdu + 1)) @ [u]"
  have h: "read_full 7 c = (?h, None, pdu @ fst c', snd c)"
    using p(3,4) by (simp add: read_full_iff tcp_frame_def)
  have b: "be16 ?h 0 = t" "be16 ?h 2 = 0" "be16 ?h 4 = word_of_nat (length pdu + 1)" "?h ! 6 = u"
    by (simp_all add: be16_def put_be16_def)
  have n: "unat (word_of_nat (length pdu + 1) :: 16 word) = length pdu + 1"
    by (rule unat16) (use p(2) in simp)
  have rest: "read_full (length pdu) (pdu @ fst c', snd c) = (pdu, None, c')"
    using p(5) by (cases c') (simp add: read_full_iff)
  show ?l unfolding readResponse_def h prod.case b n Let_def
    using p rest by (simp add: tcp_frame_def)
qed

text \<open>A response of Modbus RTU to a read: the byte count, the data and the CRC.\<close>

definition rtu_frame :: "octet \<Rightarrow> octet \<Rightarrow> octet list \<Rightarrow> octet list" where
  "rtu_frame unit fn data = AppendCRC ([unit, fn, word_of_nat (length data)] @ data)"

lemma or_0x80: "(fn OR 0x80) AND 0x80 \<noteq> (0 :: octet)"
proof
  assume "(fn OR 0x80) AND 0x80 = (0 :: octet)"
  then have "\<not> bit ((fn OR 0x80) AND (0x80 :: octet)) 7" by simp
  then show False by (simp only: bit_and_iff bit_or_iff) simp
qed

lemma readRTUResponse_iff:
  "readRTUResponse u fn c = ((r, None), c') \<longleftrightarrow>
     (\<exists>data. length data \<le> 250 \<and> r = rtu_frame u fn data \<and> fst c = r @ fst c' \<and>
        snd c' = snd c \<and> fn AND 0x80 = 0)" (is "?l \<longleftrightarrow> ?r")
proof
  assume l: ?l
  obtain h e c1 where h: "read_full 3 c = (h, e, c1)" by (metis prod_cases3)
  with l have e: "e = None" by (cases e) (simp_all add: readRTUResponse_def)
  have len: "length h = 3" "fst c = h @ fst c1" "snd c1 = snd c"
    using h e by (simp_all add: read_full_iff)
  then obtain k f n where hs: "h = [k, f, n]" by (auto simp: numeral_eq_Suc length_Suc_conv)
  define size where "size = (if f AND 0x80 \<noteq> 0 then 2 else unat n + 2)"
  obtain tl e2 c2 where tl: "read_full size c1 = (tl, e2, c2)" by (metis prod_cases3)
  have hd: "k = u" "f = fn \<or> f = fn OR 0x80" "size \<le> 252"
    using l unfolding readRTUResponse_def h e hs by (simp_all add: size_def Let_def split: if_splits)
  have e2: "e2 = None"
    using l tl hd unfolding readRTUResponse_def h e hs size_def
    by (cases e2) (auto simp: Let_def split: if_splits)
  have t: "Validate_rtu (h @ tl) = Inr ()" "f AND 0x80 = 0" "r = h @ tl" "c' = c2"
    using l tl hd unfolding readRTUResponse_def h e hs e2 size_def
    by (auto simp: Let_def split: if_splits sum.splits)
  have f: "f = fn" using hd(2) t(2) or_0x80 by auto
  have tlen: "length tl = unat n + 2" "fst c1 = tl @ fst c2" "snd c2 = snd c1"
    using tl t(2) unfolding e2 by (simp_all add: read_full_iff size_def)
  obtain d where d: "h @ tl = AppendCRC d" using t(1) by (auto simp: Validate_rtu_iff)
  have dl: "length d = unat n + 3" using arg_cong [OF d, of length] tlen(1) len(1) by simp
  have "d = take (length d) (h @ tl)" by (simp add: d)
  then have "d = [u, fn, n] @ take (unat n) tl" using dl hs hd(1) f by (simp add: add.commute [of _ 3] numeral_eq_Suc)
  moreover have "n = word_of_nat (length (take (unat n) tl))" using tlen(1) by simp
  ultimately have "h @ tl = rtu_frame u fn (take (unat n) tl)" using d by (simp add: rtu_frame_def)
  moreover have "unat n \<le> 250" using hd(3) t(2) by (simp add: size_def)
  ultimately show ?r using t len tlen f
    by (intro exI [of _ "take (unat n) tl"]) auto
next
  assume ?r
  then obtain data where p: "length data \<le> 250" "r = rtu_frame u fn data" "fst c = r @ fst c'"
    "snd c' = snd c" "fn AND 0x80 = 0" by blast
  let ?n = "word_of_nat (length data) :: octet" and ?h = "[u, fn, word_of_nat (length data)]"
  obtain tl where r: "r = ?h @ tl" and tl: "length tl = length data + 2"
    using p(2) by (simp add: rtu_frame_def AppendCRC_def Let_def)
  have h: "read_full 3 c = (?h, None, tl @ fst c', snd c)"
    using p(3) by (simp add: read_full_iff r)
  have n: "unat ?n = length data" by (rule unat8) (use p(1) in simp)
  have rest: "read_full (length data + 2) (tl @ fst c', snd c) = (tl, None, c')"
    using p(4) tl by (cases c') (simp add: read_full_iff)
  have v: "Validate_rtu (?h @ tl) = Inr ()"
    unfolding Validate_rtu_iff r [symmetric] p(2) rtu_frame_def
    by (rule exI [of _ "?h @ data"]) (use p(1) in simp)
  show ?l unfolding readRTUResponse_def h prod.case
    using p rest v r n by (simp add: Let_def)
qed

end
