(* ===== verification/Gb_Gateway.thy ===== *)
theory Gb_Gateway
  imports Gb_Frames Modbus_Frame
begin

text \<open>
  The gateway process of fire-alarm devices (cmd/gb26875-gateway/main.go): it reads frames off TCP
  connections and UDP datagrams, forwards them to the platform, confirms them, and lets an operator
  ask a connected device for a time synchronisation. The platform's answers, the clock and the
  results of writes are the environment; a session pointer is the number of its allocation.
\<close>

section \<open>Frames in a stream\<close>

text \<open>The bytes after the next start marker.\<close>

fun after_marker :: "octet list \<Rightarrow> octet list option" where
  "after_marker (a # b # bs) = (if a \<noteq> mark then after_marker (b # bs) else if b \<noteq> mark then after_marker bs else Some bs)"
| "after_marker _ = None"

definition readFrame :: "conn \<Rightarrow> octet list res \<times> conn" where
  "readFrame c = (case after_marker (fst c) of
     None \<Rightarrow> (Inl (snd c), ([], snd c))
   | Some bs \<Rightarrow>
       (case read_full 25 (bs, snd c) of
          (_, Some e, c1) \<Rightarrow> (Inl e, c1)
        | (header, None, c1) \<Rightarrow>
            let n = unat (le16 header 22)
            in if 512 < n then (Inl (ErrText ''application length exceeds 512''), c1)
               else (case read_full (n + 3) c1 of
                   (_, Some e, c2) \<Rightarrow> (Inl e, c2)
                 | (body, None, c2) \<Rightarrow> (Inr ([mark, mark] @ header @ body), c2))))"

section \<open>State\<close>

text \<open>A session: its device address, the TCP connection or UDP peer it sends to, and the channels that wait for a reply.\<close>

datatype peer = Tcp nat | Udp string

record device_session =
  se_id :: nat
  se_deviceID :: string
  se_source :: "octet list"
  se_peer :: peer
  se_sequence :: "16 word"
  se_pending :: "(16 word \<times> octet list option) list"

datatype request =
    Login string string string
  | GetProduct string
  | RegisterDevice string string string
  | PostRaw raw_message

datatype platform_reply = NoReply | TokenReply string | ProductReply product

record gateway =
  gw_tenant :: string
  gw_token :: string
  gw_devices :: "bool gomap"
  gw_byDevice :: "device_session gomap"
  gw_next :: nat
  gw_requests :: "request list"
  gw_writes :: "(peer \<times> octet list) list"
  gw_ticks :: nat

text \<open>
  The environment: the platform's answer to a request after earlier ones, the clock at its n-th reading
  (nanoseconds, and the civil time in the zone of the process), the error of a write after earlier
  ones, and the zone.
\<close>

record gateway_env =
  ge_answer :: "request list \<Rightarrow> request \<Rightarrow> platform_reply res"
  ge_nano :: "nat \<Rightarrow> int"
  ge_civil :: "nat \<Rightarrow> civil"
  ge_write :: "(peer \<times> octet list) list \<Rightarrow> peer \<times> octet list \<Rightarrow> error option"
  ge_zone :: "int \<Rightarrow> int"

definition do_request :: "gateway_env \<Rightarrow> request \<Rightarrow> gateway \<Rightarrow> platform_reply res \<times> gateway" where
  "do_request v q g = (ge_answer v (gw_requests g) q, g\<lparr>gw_requests := gw_requests g @ [q]\<rparr>)"

definition write_peer :: "gateway_env \<Rightarrow> peer \<Rightarrow> octet list \<Rightarrow> gateway \<Rightarrow> error option \<times> gateway" where
  "write_peer v p frame g = (ge_write v (gw_writes g) (p, frame), g\<lparr>gw_writes := gw_writes g @ [(p, frame)]\<rparr>)"

definition login :: "gateway_env \<Rightarrow> string \<Rightarrow> string \<Rightarrow> gateway \<Rightarrow> unit res \<times> gateway" where
  "login v username password g = (case do_request v (Login username password (gw_tenant g)) g of
     (Inl e, g1) \<Rightarrow> (Inl (ErrWrap ''platform login'' e), g1)
   | (Inr (TokenReply t), g1) \<Rightarrow> (Inr (), g1\<lparr>gw_token := t\<rparr>)
   | (Inr _, g1) \<Rightarrow> (Inr (), g1\<lparr>gw_token := []\<rparr>))"

definition gateway_setup :: "gateway_env \<Rightarrow> gateway \<Rightarrow> unit res \<times> gateway" where
  "gateway_setup v g = (case do_request v (GetProduct ''product_gb26875_lora_fire'') g of
     (Inl e, g1) \<Rightarrow> (Inl (ErrWrap ''product not configured'' e), g1)
   | (Inr (ProductReply p), g1) \<Rightarrow>
       (if pr_ProtocolPackageID p = [] then Inl (ErrText ''product without protocol'') else Inr (), g1)
   | (Inr _, g1) \<Rightarrow> (Inl (ErrText ''product without protocol''), g1))"

section \<open>Sessions\<close>

definition new_session :: "string \<Rightarrow> octet list \<Rightarrow> peer \<Rightarrow> nat \<Rightarrow> device_session" where
  "new_session deviceID source p n = \<lparr>se_id = n, se_deviceID = deviceID, se_source = source, se_peer = p,
     se_sequence = 0, se_pending = []\<rparr>"

text \<open>registerTCP and registerUDP: the session of a device is kept, its peer is replaced.\<close>

definition register_session :: "string \<Rightarrow> octet list \<Rightarrow> peer \<Rightarrow> gateway \<Rightarrow> nat \<times> gateway" where
  "register_session deviceID source p g = (case mget (gw_byDevice g) deviceID of
     Some s \<Rightarrow> (se_id s, g\<lparr>gw_byDevice := mput (gw_byDevice g) deviceID (s\<lparr>se_source := source, se_peer := p\<rparr>)\<rparr>)
   | None \<Rightarrow> (gw_next g, g\<lparr>gw_byDevice := mput (gw_byDevice g) deviceID (new_session deviceID source p (gw_next g)),
       gw_next := Suc (gw_next g)\<rparr>))"

definition remove_session :: "string \<Rightarrow> nat option \<Rightarrow> gateway \<Rightarrow> gateway" where
  "remove_session deviceID session g =
     (if deviceID = [] \<or> session = None then g
      else if map_option se_id (mget (gw_byDevice g) deviceID) = session
      then g\<lparr>gw_byDevice := mdel (gw_byDevice g) deviceID\<rparr> else g)"

text \<open>A channel of capacity one takes a frame when it is empty.\<close>

definition offer :: "16 word \<Rightarrow> octet list \<Rightarrow> device_session \<Rightarrow> device_session" where
  "offer sequence frame s = (case map_of (se_pending s) sequence of
     Some None \<Rightarrow> s\<lparr>se_pending := AList.update sequence (Some frame) (se_pending s)\<rparr>
   | _ \<Rightarrow> s)"

definition deliver_frame :: "string \<Rightarrow> 16 word \<Rightarrow> octet list \<Rightarrow> gateway \<Rightarrow> gateway" where
  "deliver_frame deviceID sequence frame g = (case mget (gw_byDevice g) deviceID of
     None \<Rightarrow> g
   | Some s \<Rightarrow> g\<lparr>gw_byDevice := mput (gw_byDevice g) deviceID (offer sequence frame s)\<rparr>)"

text \<open>
  requestTimeSync up to its wait, and what follows the wait: the reply or nothing after 30 seconds.
  The channel is gone in any case.
\<close>

definition next_sequence :: "16 word \<Rightarrow> 16 word" where
  "next_sequence w = (if w + 1 = 0 then 1 else w + 1)"

definition sync_start ::
  "gateway_env \<Rightarrow> string \<Rightarrow> civil \<Rightarrow> gateway \<Rightarrow> (16 word \<times> error option) option \<times> gateway" where
  "sync_start v deviceID at g = (case mget (gw_byDevice g) deviceID of
     None \<Rightarrow> (None, g)
   | Some s \<Rightarrow>
       let sequence = next_sequence (se_sequence s);
           s1 = s\<lparr>se_sequence := sequence, se_pending := AList.update sequence None (se_pending s)\<rparr>;
           g1 = g\<lparr>gw_byDevice := mput (gw_byDevice g) deviceID s1\<rparr>
       in case write_peer v (se_peer s) (BuildGB26875TimeSyncFrame sequence (se_source s) at) g1 of
            (None, g2) \<Rightarrow> (Some (sequence, None), g2)
          | (Some e, g2) \<Rightarrow> (Some (sequence, Some e),
              g2\<lparr>gw_byDevice := mput (gw_byDevice g2) deviceID (s1\<lparr>se_pending := AList.delete sequence (se_pending s1)\<rparr>)\<rparr>))"

definition sync_finish :: "string \<Rightarrow> 16 word \<Rightarrow> gateway \<Rightarrow> octet list option \<times> gateway" where
  "sync_finish deviceID sequence g = (case mget (gw_byDevice g) deviceID of
     None \<Rightarrow> (None, g)
   | Some s \<Rightarrow>
       (case map_of (se_pending s) sequence of Some r \<Rightarrow> r | None \<Rightarrow> None,
        g\<lparr>gw_byDevice := mput (gw_byDevice g) deviceID (s\<lparr>se_pending := AList.delete sequence (se_pending s)\<rparr>)\<rparr>))"

section \<open>Forwarding\<close>

definition gateway_product :: string where
  "gateway_product = ''product_gb26875_lora_fire''"

definition forward :: "gateway_env \<Rightarrow> raw_message \<Rightarrow> string \<Rightarrow> gateway \<Rightarrow> error option \<times> gateway" where
  "forward v raw source g =
     (let post = (\<lambda>g. case do_request v (PostRaw raw) g of (Inl e, g1) \<Rightarrow> (Some e, g1) | (Inr _, g1) \<Rightarrow> (None, g1))
      in if mget_or False (gw_devices g) (rm_DeviceID raw) then post g
         else case do_request v (RegisterDevice (rm_DeviceID raw) (rm_ProductID raw) source) g of
             (Inl e, g1) \<Rightarrow> (Some e, g1)
           | (Inr _, g1) \<Rightarrow> post (g1\<lparr>gw_devices := mput (gw_devices g1) (rm_DeviceID raw) True\<rparr>))"

definition gateway_raw :: "gateway_env \<Rightarrow> octet list \<Rightarrow> string \<Rightarrow> string \<Rightarrow> gateway \<Rightarrow> raw_message" where
  "gateway_raw v frame transport remote g =
     (let source = hex_upper (take 6 (drop 12 frame)); n = ge_nano v (gw_ticks g); now = ge_nano v (Suc (gw_ticks g))
      in zero_raw_message\<lparr>rm_MessageID := ''raw_gb26875_'' @ to_lower source @ ''_'' @ decimal n,
        rm_TenantID := gw_tenant g, rm_ProductID := gateway_product, rm_DeviceID := ''gb26875_'' @ to_lower source,
        rm_Protocol := ''gb26875-dahua-v1.03'', rm_Transport := transport, rm_PayloadFormat := ''hex'',
        rm_Payload := marshal_hex frame, rm_ReceivedAt := go_div now 1000000,
        rm_Source := ''gb26875-'' @ to_lower transport @ ''-gateway'', rm_RemoteAddress := remote\<rparr>)"

definition event_type :: "standard_message \<Rightarrow> string" where
  "event_type m = (case mget (sm_Event m) ''type'' of Some (AStr s) \<Rightarrow> s | _ \<Rightarrow> [])"

text \<open>What the platform sends back to the device for a frame it has taken.\<close>

definition gateway_reply :: "gateway_env \<Rightarrow> octet list \<Rightarrow> standard_message \<Rightarrow> gateway \<Rightarrow> octet list" where
  "gateway_reply v frame m g =
     (let destination = take 6 (drop 12 frame); at = ge_civil v (gw_ticks g)
      in if event_type m = ''TIME_SYNC_REQUEST'' then BuildGB26875TimeSyncFrame (le16 frame 2) destination at
         else if event_type m = ''ACK'' then []
         else BuildGB26875AckFrame (le16 frame 2) destination at)"

definition processFrame ::
  "gateway_env \<Rightarrow> octet list \<Rightarrow> string \<Rightarrow> string \<Rightarrow> gateway \<Rightarrow> octet list res \<times> gateway" where
  "processFrame v frame transport remote g =
     (if length frame < 18 then (Inl (ErrText ''frame is too short''), g)
      else let raw = gateway_raw v frame transport remote g; g = g\<lparr>gw_ticks := gw_ticks g + 2\<rparr>
        in case Parse_gb26875 (ge_zone v) raw of
             Inl e \<Rightarrow> (Inl e, g)
           | Inr m \<Rightarrow>
               (case forward v raw (hex_upper (take 6 (drop 12 frame))) g of
                  (Some e, g1) \<Rightarrow> (Inl e, g1)
                | (None, g1) \<Rightarrow> (Inr (gateway_reply v frame m g1), g1\<lparr>gw_ticks := Suc (gw_ticks g1)\<rparr>)))"

definition frame_device :: "octet list \<Rightarrow> string" where
  "frame_device frame = ''gb26875_'' @ to_lower (hex_upper (take 6 (drop 12 frame)))"

text \<open>
  One frame of a peer: the session it is registered under when it is taken, and whether the connection goes on; a failing
  write of the confirmation ends a TCP connection.
\<close>

definition take_frame ::
  "gateway_env \<Rightarrow> peer \<Rightarrow> string \<Rightarrow> string \<Rightarrow> octet list \<Rightarrow> gateway \<Rightarrow> (nat option \<times> bool) \<times> gateway" where
  "take_frame v p transport remote frame g = (case processFrame v frame transport remote g of
     (Inl _, g1) \<Rightarrow> ((None, True), g1)
   | (Inr ack, g1) \<Rightarrow>
       (case register_session (frame_device frame) (take 6 (drop 12 frame)) p g1 of
          (n, g2) \<Rightarrow>
            let g3 = deliver_frame (frame_device frame) (le16 frame 2) frame g2
            in if ack = [] then ((Some n, True), g3)
               else (case write_peer v p ack g3 of (e, g4) \<Rightarrow> ((Some n, e = None), g4))))"

section \<open>The control interface\<close>

text \<open>ServeHTTP up to the request to the device: the HTTP status of a refusal, or the device.\<close>

definition control_device :: "string \<Rightarrow> string \<Rightarrow> string \<Rightarrow> string \<Rightarrow> gateway \<Rightarrow> nat + string" where
  "control_device token verb provided path g =
     (if verb \<noteq> ''POST'' then Inl 405
      else if token \<noteq> [] \<and> provided \<noteq> token then Inl 401
      else let parts = split_char (CHR ''/'') (trim_chars [CHR ''/''] path)
        in if length parts \<noteq> 5 \<or> parts ! 0 \<noteq> ''api'' \<or> parts ! 1 \<noteq> ''v1'' \<or> parts ! 2 \<noteq> ''devices'' \<or>
              parts ! 4 \<noteq> ''time-sync'' \<or> parts ! 3 = [] then Inl 404
           else if mget (gw_byDevice g) (parts ! 3) = None then Inl 404 else Inr (parts ! 3))"

text \<open>ServeHTTP after the wait: the status, and the event of the device's response.\<close>

definition control_answer :: "gateway_env \<Rightarrow> int \<Rightarrow> octet list option \<Rightarrow> nat \<times> anymap" where
  "control_answer v now response = (case response of
     None \<Rightarrow> (504, [])
   | Some frame \<Rightarrow>
       (case Parse_gb26875 (ge_zone v) (zero_raw_message\<lparr>rm_MessageID := ''raw_control_response'',
            rm_Protocol := ''gb26875-dahua-v1.03'', rm_PayloadFormat := ''hex'',
            rm_Payload := CHR 0x22 # to_lower (hex_upper frame) @ [CHR 0x22], rm_ReceivedAt := now\<rparr>) of
          Inl _ \<Rightarrow> (502, []) | Inr m \<Rightarrow> (200, sm_Event m)))"

section \<open>Connections\<close>

lemma after_marker_length: "after_marker xs = Some ys \<Longrightarrow> length ys < length xs"
  by (induction xs rule: after_marker.induct) (auto split: if_splits)

lemma read_full_None:
  "read_full n c = (xs, None, c') \<longleftrightarrow> n \<le> length (fst c) \<and> xs = take n (fst c) \<and> c' = (drop n (fst c), snd c)"
  by (auto simp: read_full_def)

text \<open>A frame that is read was there: the reader consumes what it returns, and more of a shorter stream.\<close>

lemma readFrame_consumes:
  assumes "readFrame c = (Inr frame, c')"
  shows "length (fst c') < length (fst c)"
proof -
  obtain bs where "after_marker (fst c) = Some bs" using assms by (auto simp: readFrame_def split: option.splits)
  with assms show ?thesis
    using after_marker_length by (fastforce simp: readFrame_def read_full_None Let_def split: prod.splits option.splits if_splits)
qed

text \<open>
  The loop of a TCP connection; session is the variable the deferred removal reads. The device
  identifier that removal reads is the variable of the function, which the loop's own variable of the
  same name hides, so that it stays empty.
\<close>

function connection_loop ::
  "gateway_env \<Rightarrow> nat \<Rightarrow> string \<Rightarrow> conn \<Rightarrow> nat option \<Rightarrow> gateway \<Rightarrow> nat option \<times> gateway" where
  "connection_loop v n remote c session g = (case readFrame c of
     (Inl _, _) \<Rightarrow> (session, g)
   | (Inr frame, c1) \<Rightarrow>
       (case take_frame v (Tcp n) ''TCP'' remote frame g of
          ((s, go), g1) \<Rightarrow>
            let session = (if s = None then session else s)
            in if go then connection_loop v n remote c1 session g1 else (session, g1)))"
  by pat_completeness auto
termination
  by (relation "measure (\<lambda>(v, n, remote, c, session, g). length (fst c))") (auto dest!: readFrame_consumes [OF sym])

declare connection_loop.simps [simp del]

text \<open>A connection that no other one, no datagram and no request of the control interface interrupts (Gb_Steps has them interleaved).\<close>

definition handleConnection :: "gateway_env \<Rightarrow> nat \<Rightarrow> string \<Rightarrow> conn \<Rightarrow> gateway \<Rightarrow> gateway" where
  "handleConnection v n remote c g = (case connection_loop v n remote c None g of
     (session, g1) \<Rightarrow> remove_session [] session g1)"

text \<open>The loop of the UDP socket over the datagrams that arrive, with the address of each.\<close>

definition handleUDP :: "gateway_env \<Rightarrow> (octet list \<times> string) list \<Rightarrow> gateway \<Rightarrow> gateway" where
  "handleUDP v datagrams g =
     fold (\<lambda>(frame, remote) g. snd (take_frame v (Udp remote) ''UDP'' remote (take 542 frame) g)) datagrams g"

end
