(* ===== verification/Gb_Props.thy ===== *)
theory Gb_Props
  imports Gb_Gateway
begin

text \<open>
  What the gateway does with a stream of frames: it finds every frame between other bytes, forwards
  each one it can parse, and confirms it under the device's own sequence number.
\<close>

section \<open>Frames in a stream\<close>

text \<open>Bytes a frame reader takes for one frame: the announced length is what follows.\<close>

definition framed :: "octet list \<Rightarrow> bool" where
  "framed f \<longleftrightarrow> 30 \<le> length f \<and> take 2 f = [mark, mark] \<and> unat (le16 f 24) \<le> 512 \<and>
     length f = 30 + unat (le16 f 24)"

definition stream :: "(octet list \<times> octet list) list \<Rightarrow> octet list" where
  "stream items = concat (map (\<lambda>(junk, f). junk @ f) items)"

lemma after_marker_skip: "a \<noteq> mark \<Longrightarrow> after_marker (a # xs) = after_marker xs"
  by (cases xs) auto

lemma after_marker_junk:
  "mark \<notin> set junk \<Longrightarrow> after_marker (junk @ [mark, mark] @ xs) = Some xs"
  "mark \<notin> set junk \<Longrightarrow> after_marker junk = None"
  by (induction junk) (auto simp: after_marker_skip)

lemma readFrame_framed:
  assumes "framed f" "mark \<notin> set junk"
  shows "readFrame (junk @ f @ rest, e) = (Inr f, rest, e)"
proof -
  define h b where "h = take 25 (drop 2 f)" and "b = drop 27 f"
  have "f = take 2 f @ take 25 (drop 2 f) @ drop 25 (drop 2 f)" by (simp only: append_take_drop_id)
  then have f: "f = [mark, mark] @ h @ b" using assms(1) by (simp add: framed_def h_def b_def)
  have len: "length h = 25" using assms(1) by (simp add: framed_def h_def)
  have n: "le16 h 22 = le16 f 24" using len by (simp add: f le16_def nth_append nth_Cons')
  have b: "length b = unat (le16 f 24) + 3" using assms(1) by (simp add: framed_def b_def)
  have a: "after_marker (junk @ f @ rest) = Some (h @ b @ rest)"
    using after_marker_junk(1) [OF assms(2)] by (simp add: f)
  show ?thesis
    using assms(1) len b n by (simp add: readFrame_def a read_full_def f [symmetric] framed_def Let_def) (simp add: f)
qed

lemma readFrame_end: "mark \<notin> set junk \<Longrightarrow> readFrame (junk, e) = (Inl e, [], e)"
  by (simp add: readFrame_def after_marker_junk)

text \<open>A connection whose writes succeed hands each frame of its stream to take_frame, in order.\<close>

definition take_all :: "gateway_env \<Rightarrow> nat \<Rightarrow> string \<Rightarrow> octet list list \<Rightarrow> gateway \<Rightarrow> gateway" where
  "take_all v n remote fs g = fold (\<lambda>f g. snd (take_frame v (Tcp n) ''TCP'' remote f g)) fs g"

lemma take_all_simps [simp]:
  "take_all v n remote [] g = g"
  "take_all v n remote (f # fs) g = take_all v n remote fs (snd (take_frame v (Tcp n) ''TCP'' remote f g))"
  by (simp_all add: take_all_def)

lemma take_frame_goes_on:
  "(\<And>ws w. ge_write v ws w = None) \<Longrightarrow> snd (fst (take_frame v p transport remote f g))"
  by (simp add: take_frame_def write_peer_def Let_def split: prod.splits sum.splits)

lemma connection_stream:
  assumes "list_all (\<lambda>(junk, f). mark \<notin> set junk \<and> framed f) items" "mark \<notin> set rest"
    "\<And>ws w. ge_write v ws w = None"
  shows "snd (connection_loop v n remote (stream items @ rest, e) session g) = take_all v n remote (map snd items) g"
  using assms(1)
proof (induction items arbitrary: session g)
  case Nil
  then show ?case by (subst connection_loop.simps) (simp add: stream_def readFrame_end assms(2))
next
  case (Cons x items)
  obtain junk f where x: "x = (junk, f)" by (cases x)
  have r: "readFrame (stream (x # items) @ rest, e) = (Inr f, stream items @ rest, e)"
    using Cons.prems readFrame_framed [of f junk "stream items @ rest" e] by (simp add: stream_def x)
  obtain s g1 where t: "take_frame v (Tcp n) ''TCP'' remote f g = ((s, True), g1)"
    using take_frame_goes_on [OF assms(3), of "Tcp n" "''TCP''" remote f g] by (metis prod.collapse)
  show ?case
    using Cons by (subst connection_loop.simps) (simp add: r [unfolded x] t x)
qed

section \<open>Built frames\<close>

lemma build_wraps:
  assumes "length source = 6" "length destination = 6"
  obtains control where
    "buildGB26875Frame sequence source destination command application at = wrap_frame control application"
    "length control = 25" "le16 control 22 = word_of_nat (length application)"
    "frame_fields zone control application =
       \<lparr>gf_Sequence = sequence, gf_VersionMajor = 1, gf_VersionMinor = 3, gf_Source = hex_upper source,
        gf_Destination = hex_upper destination, gf_Command = command, gf_Data = application,
        gf_FrameTime = decodeGB26875Time zone (encodeGB26875Time at)\<rparr>"
proof
  define control where "control = put_le16 sequence @ [0x01, 0x03] @ encodeGB26875Time at @ source @ destination @
     put_le16 (word_of_nat (length application)) @ [command]"
  show "buildGB26875Frame sequence source destination command application at = wrap_frame control application"
    by (simp add: buildGB26875Frame_def frame_body_def wrap_frame_def control_def Let_def)
  show "length control = 25" using assms by (simp add: control_def)
  show "le16 control 22 = word_of_nat (length application)"
    using assms by (simp add: control_def le16_def nth_append put_le16_def)
  show "frame_fields zone control application =
       \<lparr>gf_Sequence = sequence, gf_VersionMajor = 1, gf_VersionMinor = 3, gf_Source = hex_upper source,
        gf_Destination = hex_upper destination, gf_Command = command, gf_Data = application,
        gf_FrameTime = decodeGB26875Time zone (encodeGB26875Time at)\<rparr>"
    using assms by (simp add: frame_fields_def control_def le16_def nth_append put_le16_def)
qed

lemma decode_build:
  assumes "length source = 6" "length destination = 6" "length application \<le> 512"
  shows "decodeGB26875Frame zone (buildGB26875Frame sequence source destination command application at) =
     Inr \<lparr>gf_Sequence = sequence, gf_VersionMajor = 1, gf_VersionMinor = 3, gf_Source = hex_upper source,
        gf_Destination = hex_upper destination, gf_Command = command, gf_Data = application,
        gf_FrameTime = decodeGB26875Time zone (encodeGB26875Time at)\<rparr>"
proof -
  have "unat (word_of_nat (length application) :: 16 word) = length application"
    using assms(3) by (simp add: unat16)
  with build_wraps [OF assms(1, 2), of sequence command application at zone] decode_wrap assms(3) show ?thesis by metis
qed

lemma framed_build:
  assumes "length source = 6" "length destination = 6" "length application \<le> 512"
  shows "framed (buildGB26875Frame sequence source destination command application at)"
proof -
  obtain control where c: "buildGB26875Frame sequence source destination command application at = wrap_frame control application"
    "length control = 25" "le16 control 22 = word_of_nat (length application)"
    using build_wraps [OF assms(1, 2)] by metis
  have "unat (word_of_nat (length application) :: 16 word) = length application"
    using assms(3) by (simp add: unat16)
  moreover have "le16 (wrap_frame control application) 24 = le16 control 22"
    using c(2) by (simp add: le16_def wrap_frame_def nth_append nth_Cons')
  ultimately show ?thesis using c assms(3) by (simp add: framed_def) (simp add: wrap_frame_def)
qed

text \<open>
  C35. A frame built with at most 512 bytes of application data for a time between 2000 and 2099 decodes,
  in a zone whose offset from UTC is constant, to exactly the sequence number, addresses, command,
  application data and time it was built from. (Where clocks are set back, a local time of the hour
  that comes twice decodes to one of two times; longer data is refused by the decoder.)
\<close>

theorem built_frame_decodes:
  assumes "length source = 6" "length destination = 6" "length application \<le> 512" "civil_ok at"
  shows "decodeGB26875Frame (\<lambda>_. offset) (buildGB26875Frame sequence source destination command application at) =
     Inr \<lparr>gf_Sequence = sequence, gf_VersionMajor = 1, gf_VersionMinor = 3, gf_Source = hex_upper source,
        gf_Destination = hex_upper destination, gf_Command = command, gf_Data = application,
        gf_FrameTime = civil_milli offset at\<rparr>"
  by (simp add: decode_build [OF assms(1-3)] decode_encode_time [OF assms(4)])

definition sample_time :: civil where
  "sample_time = \<lparr>ci_Year = 2024, ci_Month = 2, ci_Day = 29, ci_Hour = 8, ci_Minute = 30, ci_Second = 15\<rparr>"

lemma sample_time_ok: "civil_ok sample_time"
  by (simp add: sample_time_def civil_ok_def)

theorem built_frame_decodes_witness:
  "map_sum id gf_FrameTime (decodeGB26875Frame (\<lambda>_. 28800)
     (buildGB26875Frame 7 [1, 2, 3, 4, 5, 6] platform_address 0x03 [] sample_time)) = Inr 1709166615000"
proof -
  have "length platform_address = 6" by (simp add: platform_address_def)
  then show ?thesis
    using built_frame_decodes [of "[1, 2, 3, 4, 5, 6]" platform_address "[]" sample_time 28800 7 "0x03"] sample_time_ok
    by (simp add: civil_milli_def civil_seconds_def days_to_year_def days_to_month_def leap_year_def sample_time_def)
qed

section \<open>Parsing\<close>

lemma plain_visible: "plain_char c \<Longrightarrow> visible c"
  by (auto simp: plain_char_def visible_def)

lemma trim_plain: "\<forall>c \<in> set s. plain_char c \<Longrightarrow> trim_space s = s"
  by (cases s) (simp_all add: trim_space_visible plain_visible)

lemma frame_text_marshal [simp]: "frame_text (marshal_hex xs) = hex_upper xs"
proof -
  have p: "plain_char c \<Longrightarrow> c \<noteq> CHR 0x22 \<and> c \<noteq> CHR '' '' \<and> c \<noteq> CHR 0x0D \<and> c \<noteq> CHR 0x0A \<and> c \<noteq> CHR 0x09" for c
    by (auto simp: plain_char_def)
  have d: "dropWhile (\<lambda>c. c = CHR 0x22) s = s" if "\<forall>c \<in> set s. plain_char c" for s
    using that p by (cases s) auto
  have "trim_chars [CHR 0x22] (marshal_hex xs) = hex_upper xs"
  proof (cases "hex_upper xs" rule: rev_cases)
    case (snoc s c)
    then have "plain_char c" "\<forall>d \<in> set (s @ [c]). plain_char d" using hex_upper_plain [of _ xs] by auto
    moreover obtain d u where "s @ [c] = d # u" by (cases "s @ [c]") auto
    ultimately show ?thesis using p d [of "rev u"] by (auto simp: snoc trim_chars_def marshal_hex_def dropWhile_append)
  qed (simp add: trim_chars_def marshal_hex_def)
  moreover have "filter (\<lambda>c. c \<notin> set [CHR '' '', CHR 0x0D, CHR 0x0A, CHR 0x09]) (hex_upper xs) = hex_upper xs"
    using hex_upper_plain [of _ xs] p by (fastforce simp: filter_id_conv)
  ultimately show ?thesis using hex_upper_plain [of _ xs] by (simp add: frame_text_def trim_plain)
qed

lemma Parse_marshal:
  "rm_Payload raw = marshal_hex xs \<Longrightarrow> Parse_gb26875 zone raw =
     bind_res (decodeGB26875Frame zone xs) (\<lambda>f. applyGB26875Data zone (gb26875_message raw (hex_upper xs) f) f)"
  by (simp add: Parse_gb26875_def some_or_def Let_def)

text \<open>Whether a frame can be applied, and the event it becomes, do not depend on the message.\<close>

lemma apply_event:
  "map_sum id sm_Event (applyGB26875Data zone msg f) = map_sum id sm_Event (applyGB26875Data zone msg' f)"
  by (simp add: applyGB26875Data_def applyGB26875ComponentStatus_def Let_def)

definition frame_event :: "(int \<Rightarrow> int) \<Rightarrow> octet list \<Rightarrow> anymap res" where
  "frame_event zone xs = bind_res (decodeGB26875Frame zone xs)
     (\<lambda>f. map_sum id sm_Event (applyGB26875Data zone zero_standard_message f))"

lemma Parse_event:
  assumes "rm_Payload raw = marshal_hex xs"
  shows "map_sum id sm_Event (Parse_gb26875 zone raw) = frame_event zone xs"
  unfolding Parse_marshal [OF assms] frame_event_def
  by (cases "decodeGB26875Frame zone xs") (auto intro: apply_event)

lemma event_ack:
  "applyGB26875Data zone msg f = Inr m \<Longrightarrow> event_type m = ''ACK'' \<longleftrightarrow> gf_Command f = 3"
  by (auto simp: applyGB26875Data_def applyGB26875ComponentStatus_def event_type_def mget_def Let_def split: if_splits)

section \<open>Status reports\<close>

lemma flag_or: "flag status 1 \<or> status AND fault_bits \<noteq> 0 \<longleftrightarrow> status AND (push_bit 1 1 OR fault_bits) \<noteq> 0"
proof -
  have "a OR b = 0 \<longleftrightarrow> a = 0 \<and> b = 0" for a b :: "16 word"
    by (metis or_eq_0_iff)
  then show ?thesis by (simp add: flag_def bit.conj_disj_distrib)
qed

text \<open>
  The standard message of a status frame a device has built: it is an alarm report exactly when the
  fire bit or a fault bit of the status word is set, and it carries the time and the fields the frame
  was built from.
\<close>

theorem status_frame_message:
  assumes "length source = 6" "civil_ok at" "rm_Payload raw = marshal_hex (BuildGB26875ComponentStatusFrame sequence
     source systemType systemAddress componentType circuitAddress nodeAddress status description at)"
  shows "\<exists>m. Parse_gb26875 (\<lambda>_. offset) raw = Inr m \<and>
     sm_MessageType m = (if status AND (push_bit 1 1 OR fault_bits) \<noteq> 0 then AlarmReport else StateChange) \<and>
     sm_Timestamp m = (if 0 < civil_milli offset at then civil_milli offset at else rm_ReceivedAt raw) \<and>
     sm_DeviceID m = rm_DeviceID raw \<and> sm_RawMessageID m = rm_MessageID raw \<and>
     mget (sm_Properties m) ''fireAlarm'' = Some (ABool (flag status 1)) \<and>
     mget (sm_Properties m) ''statusWord'' = Some (AInt (uint status)) \<and>
     mget (sm_Properties m) ''componentType'' = Some (AInt (uint componentType)) \<and>
     mget (sm_Properties m) ''circuitAddress'' = Some (AInt (uint circuitAddress)) \<and>
     mget (sm_Properties m) ''nodeAddress'' = Some (AInt (uint nodeAddress))"
proof -
  define ob where "ob = [systemType, systemAddress, componentType] @ put_le16 circuitAddress @
     put_le16 nodeAddress @ put_le16 status @ field_of 31 description @ encodeGB26875Time at"
  have len: "length ob = 46" by (simp add: ob_def)
  have w: "le16 ob 3 = circuitAddress" "le16 ob 5 = nodeAddress" "object_status ob = status" "ob ! 2 = componentType"
    by (simp_all add: ob_def le16_def put_le16_def object_status_def nth_append)
  have obs: "object_bytes ob 0 = ob" using len by (simp add: object_bytes_def)
  have "length platform_address = 6" by (simp add: platform_address_def)
  with len have d: "decodeGB26875Frame (\<lambda>_. offset) (BuildGB26875ComponentStatusFrame sequence source systemType systemAddress
      componentType circuitAddress nodeAddress status description at) = Inr \<lparr>gf_Sequence = sequence, gf_VersionMajor = 1,
        gf_VersionMinor = 3, gf_Source = hex_upper source, gf_Destination = hex_upper platform_address, gf_Command = 2,
        gf_Data = [2, 1] @ ob, gf_FrameTime = civil_milli offset at\<rparr>"
    unfolding BuildGB26875ComponentStatusFrame_def ob_def [symmetric]
    by (simp add: decode_build assms(1) decode_encode_time assms(2))
  show ?thesis
    unfolding Parse_marshal [OF assms(3)] d flag_or [symmetric]
    by (simp add: applyGB26875Data_def applyGB26875ComponentStatus_def gb26875_message_def len obs w Let_def
        mget_def component_object_def any_of_def mget_or_def)
qed

theorem status_frame_message_witness:
  "\<exists>m. Parse_gb26875 (\<lambda>_. 0) (zero_raw_message\<lparr>rm_Payload := marshal_hex (BuildGB26875ComponentStatusFrame 1
     [18, 52, 86, 120, 144, 18] 128 1 23 2 7 2 ''call point'' sample_time)\<rparr>) = Inr m \<and> sm_MessageType m = AlarmReport \<and>
     mget (sm_Properties m) ''nodeAddress'' = Some (AInt 7)"
  using status_frame_message [of "[18, 52, 86, 120, 144, 18]" sample_time "zero_raw_message\<lparr>rm_Payload := marshal_hex
     (BuildGB26875ComponentStatusFrame 1 [18, 52, 86, 120, 144, 18] 128 1 23 2 7 2 ''call point'' sample_time)\<rparr>"
     1 128 1 23 2 7 2 "''call point''" 0] sample_time_ok
  by (auto simp: fault_bits_def)

section \<open>The gateway\<close>

definition accepted :: "(int \<Rightarrow> int) \<Rightarrow> octet list \<Rightarrow> bool" where
  "accepted zone f \<longleftrightarrow> (case frame_event zone f of Inl _ \<Rightarrow> False | Inr _ \<Rightarrow> True)"

definition is_ack :: "octet list \<Rightarrow> bool" where
  "is_ack f \<longleftrightarrow> f ! 26 = 3"

fun posts :: "request list \<Rightarrow> raw_message list" where
  "posts [] = []"
| "posts (PostRaw raw # qs) = raw # posts qs"
| "posts (_ # qs) = posts qs"

lemma posts_append [simp]: "posts (ps @ qs) = posts ps @ posts qs"
  by (induction ps rule: posts.induct) auto

text \<open>A frame from the platform under the sequence number and to the address of a device frame.\<close>

definition confirms :: "octet list \<Rightarrow> octet list \<Rightarrow> bool" where
  "confirms f w \<longleftrightarrow> (case decodeGB26875Frame (\<lambda>_. 0) w of
     Inl _ \<Rightarrow> False
   | Inr r \<Rightarrow> gf_Sequence r = le16 f 2 \<and> gf_Destination r = hex_upper (take 6 (drop 12 f)) \<and>
       gf_Source r = hex_upper platform_address \<and> gf_Command r \<in> {1, 3})"

definition reachable_platform :: "gateway_env \<Rightarrow> bool" where
  "reachable_platform v \<longleftrightarrow> (\<forall>qs q. \<exists>r. ge_answer v qs q = Inr r) \<and> (\<forall>ws w. ge_write v ws w = None)"

lemma reachable_platformD:
  assumes "reachable_platform v"
  shows "ge_write v ws w = None" "\<exists>r. ge_answer v qs q = Inr r"
  using assms unfolding reachable_platform_def by blast+

lemma do_request_ok:
  "reachable_platform v \<Longrightarrow> \<exists>r. do_request v q g = (Inr r, g\<lparr>gw_requests := gw_requests g @ [q]\<rparr>)"
  using reachable_platformD(2) [of v "gw_requests g" q] by (auto simp: do_request_def)

lemma forward_ok:
  assumes "reachable_platform v"
  obtains g' where "forward v raw source g = (None, g')" "posts (gw_requests g') = posts (gw_requests g) @ [raw]"
    "gw_writes g' = gw_writes g" "gw_byDevice g' = gw_byDevice g"
proof (cases "mget_or False (gw_devices g) (rm_DeviceID raw)")
  case True
  obtain r where "do_request v (PostRaw raw) g = (Inr r, g\<lparr>gw_requests := gw_requests g @ [PostRaw raw]\<rparr>)"
    using do_request_ok [OF assms] by blast
  then show ?thesis using that by (simp add: forward_def True Let_def)
next
  case False
  define g1 where "g1 = g\<lparr>gw_requests := gw_requests g @ [RegisterDevice (rm_DeviceID raw) (rm_ProductID raw) source],
    gw_devices := mput (gw_devices g) (rm_DeviceID raw) True\<rparr>"
  obtain r1 where r1: "do_request v (RegisterDevice (rm_DeviceID raw) (rm_ProductID raw) source) g =
      (Inr r1, g\<lparr>gw_requests := gw_requests g @ [RegisterDevice (rm_DeviceID raw) (rm_ProductID raw) source]\<rparr>)"
    using do_request_ok [OF assms] by blast
  obtain r2 where "do_request v (PostRaw raw) g1 = (Inr r2, g1\<lparr>gw_requests := gw_requests g1 @ [PostRaw raw]\<rparr>)"
    using do_request_ok [OF assms] by blast
  then have "forward v raw source g = (None, g1\<lparr>gw_requests := gw_requests g1 @ [PostRaw raw]\<rparr>)"
    by (simp add: forward_def False r1 Let_def g1_def)
  then show ?thesis using that by (simp add: g1_def)
qed

lemma build_not_Nil: "buildGB26875Frame sequence source destination command application at \<noteq> []"
  by (simp add: buildGB26875Frame_def Let_def)

lemma framed_length: "framed f \<Longrightarrow> 30 \<le> length f"
  by (simp add: framed_def)

lemma reply_shape:
  assumes "Parse_gb26875 zone raw = Inr m" "rm_Payload raw = marshal_hex f" "framed f"
  shows "is_ack f \<Longrightarrow> gateway_reply v f m g = []" "\<not> is_ack f \<Longrightarrow> gateway_reply v f m g \<noteq> [] \<and> confirms f (gateway_reply v f m g)"
proof -
  obtain r where r: "decodeGB26875Frame zone f = Inr r" "applyGB26875Data zone (gb26875_message raw (hex_upper f) r) r = Inr m"
    using assms(1) unfolding Parse_marshal [OF assms(2)] by (auto simp: res_simps)
  then have c: "gf_Command r = f ! 26" by (auto simp: decodeGB26875Frame_def Let_def split: if_splits)
  note ack = event_ack [OF r(2)]
  show "gateway_reply v f m g = []" if "is_ack f" using ack that by (simp add: gateway_reply_def is_ack_def c Let_def)
  show "gateway_reply v f m g \<noteq> [] \<and> confirms f (gateway_reply v f m g)" if "\<not> is_ack f"
  proof -
    have l: "length platform_address = 6" "length (take 6 (drop 12 f)) = 6"
      using framed_length [OF assms(3)] by (simp_all add: platform_address_def)
    then show ?thesis using ack that
      by (auto simp: gateway_reply_def is_ack_def c confirms_def BuildGB26875AckFrame_def BuildGB26875TimeSyncFrame_def
          decode_build build_not_Nil Let_def)
  qed
qed

text \<open>One frame while the platform answers and the connection takes writes.\<close>

lemma take_rejected:
  assumes "\<not> accepted (ge_zone v) f" "framed f"
  obtains k where "take_frame v p transport remote f g = ((None, True), g\<lparr>gw_ticks := k\<rparr>)"
proof -
  define raw where "raw = gateway_raw v f transport remote g"
  have "rm_Payload raw = marshal_hex f" by (simp add: raw_def gateway_raw_def Let_def)
  from Parse_event [OF this, of "ge_zone v"] assms(1) obtain e where "Parse_gb26875 (ge_zone v) raw = Inl e"
    by (cases "Parse_gb26875 (ge_zone v) raw") (auto simp: accepted_def split: sum.splits)
  then show ?thesis using framed_length [OF assms(2)] that
    by (simp add: take_frame_def processFrame_def raw_def [symmetric] Let_def)
qed

lemma deliver_register:
  assumes "register_session d source p g = (n, g1)"
  shows "gw_writes (deliver_frame d q f g1) = gw_writes g" "gw_requests (deliver_frame d q f g1) = gw_requests g"
    "map_option se_peer (mget (gw_byDevice (deliver_frame d q f g1)) x) =
       (if x = d then Some p else map_option se_peer (mget (gw_byDevice g) x))"
  using assms by (auto simp: deliver_frame_def register_session_def offer_def new_session_def split: option.splits)

lemma take_accepted:
  assumes "accepted (ge_zone v) f" "framed f" "reachable_platform v"
  obtains s g' raw ws where "take_frame v p transport remote f g = ((s, True), g')"
    "posts (gw_requests g') = posts (gw_requests g) @ [raw]" "rm_Payload raw = marshal_hex f"
    "gw_writes g' = gw_writes g @ ws" "ws = [] \<longleftrightarrow> is_ack f" "\<forall>w \<in> set ws. fst w = p \<and> confirms f (snd w)" "length ws \<le> 1"
    "\<And>d. map_option se_peer (mget (gw_byDevice g') d) =
       (if d = frame_device f then Some p else map_option se_peer (mget (gw_byDevice g) d))"
proof -
  define raw where "raw = gateway_raw v f transport remote g"
  have pay: "rm_Payload raw = marshal_hex f" by (simp add: raw_def gateway_raw_def Let_def)
  from Parse_event [OF pay, of "ge_zone v"] assms(1) obtain m where m: "Parse_gb26875 (ge_zone v) raw = Inr m"
    by (cases "Parse_gb26875 (ge_zone v) raw") (auto simp: accepted_def split: sum.splits)
  define g0 where "g0 = g\<lparr>gw_ticks := gw_ticks g + 2\<rparr>"
  obtain g1 where fw: "forward v raw (hex_upper (take 6 (drop 12 f))) g0 = (None, g1)"
    "posts (gw_requests g1) = posts (gw_requests g0) @ [raw]" "gw_writes g1 = gw_writes g0" "gw_byDevice g1 = gw_byDevice g0"
    using forward_ok [OF assms(3)] by metis
  define ack where "ack = gateway_reply v f m g1"
  define g2 where "g2 = g1\<lparr>gw_ticks := Suc (gw_ticks g1)\<rparr>"
  have pf: "processFrame v f transport remote g = (Inr ack, g2)"
    using framed_length [OF assms(2)] fw(1) m
    by (simp add: processFrame_def raw_def [symmetric] g0_def ack_def g2_def Let_def)
  obtain n g3 where rs: "register_session (frame_device f) (take 6 (drop 12 f)) p g2 = (n, g3)" by fastforce
  note d = deliver_register [OF rs, of "le16 f 2" f]
  show ?thesis
  proof (cases "is_ack f")
    case True
    then have "take_frame v p transport remote f g = ((Some n, True), deliver_frame (frame_device f) (le16 f 2) f g3)"
      using reply_shape(1) [OF m pay assms(2)] by (simp add: take_frame_def pf rs ack_def Let_def)
    then show ?thesis using that [of _ _ raw "[]"] d fw pay True by (simp add: g2_def g0_def)
  next
    case False
    define g4 where "g4 = deliver_frame (frame_device f) (le16 f 2) f g3"
    have a: "ack \<noteq> []" "confirms f ack" using reply_shape(2) [OF m pay assms(2) False] by (auto simp: ack_def)
    then have "take_frame v p transport remote f g = ((Some n, True), g4\<lparr>gw_writes := gw_writes g4 @ [(p, ack)]\<rparr>)"
      using reachable_platformD(1) [OF assms(3)] by (simp add: take_frame_def pf rs g4_def write_peer_def Let_def)
    then show ?thesis using that [of _ _ raw "[(p, ack)]"] d fw pay False a by (simp add: g2_def g0_def g4_def)
  qed
qed

text \<open>The frames of a stream one after another.\<close>

definition taken :: "gateway_env \<Rightarrow> peer \<Rightarrow> octet list list \<Rightarrow> gateway \<Rightarrow> gateway \<Rightarrow> bool" where
  "taken v p fs g g' \<longleftrightarrow> (\<exists>raws ws. posts (gw_requests g') = posts (gw_requests g) @ raws \<and>
     map rm_Payload raws = map marshal_hex (filter (accepted (ge_zone v)) fs) \<and>
     gw_writes g' = gw_writes g @ ws \<and>
     list_all2 (\<lambda>f w. fst w = p \<and> confirms f (snd w)) (filter (\<lambda>f. accepted (ge_zone v) f \<and> \<not> is_ack f) fs) ws)"

lemma taken_refl: "taken v p [] g g"
  by (simp add: taken_def)

lemma taken_step:
  assumes "taken v p fs g1 g2" "framed f" "reachable_platform v" "take_frame v p transport remote f g = (x, g1)"
  shows "taken v p (f # fs) g g2"
proof -
  obtain raws ws where r: "posts (gw_requests g2) = posts (gw_requests g1) @ raws"
    "map rm_Payload raws = map marshal_hex (filter (accepted (ge_zone v)) fs)" "gw_writes g2 = gw_writes g1 @ ws"
    "list_all2 (\<lambda>f w. fst w = p \<and> confirms f (snd w)) (filter (\<lambda>f. accepted (ge_zone v) f \<and> \<not> is_ack f) fs) ws"
    using assms(1) by (auto simp: taken_def)
  show ?thesis
  proof (cases "accepted (ge_zone v) f")
    case False
    then obtain k where "g1 = g\<lparr>gw_ticks := k\<rparr>"
      using take_rejected [of v f p transport remote g] assms(2, 4) by (metis Pair_inject)
    then show ?thesis using r False by (auto simp: taken_def)
  next
    case True
    obtain s g' raw us where "take_frame v p transport remote f g = ((s, True), g')" and b:
      "posts (gw_requests g') = posts (gw_requests g) @ [raw]" "rm_Payload raw = marshal_hex f"
      "gw_writes g' = gw_writes g @ us" "us = [] \<longleftrightarrow> is_ack f" "\<forall>w \<in> set us. fst w = p \<and> confirms f (snd w)" "length us \<le> 1"
      by (rule take_accepted [OF True assms(2, 3), of p transport remote g]) (rule that)
    with assms(4) have "g' = g1" by simp
    note a = b [unfolded this]
    show ?thesis
    proof (cases us)
      case Nil
      then show ?thesis using r a True unfolding taken_def by (intro exI [of _ "raw # raws"] exI [of _ ws]) simp
    next
      case (Cons w us')
      then show ?thesis using r a True unfolding taken_def by (intro exI [of _ "raw # raws"] exI [of _ "w # ws"]) simp
    qed
  qed
qed

lemma take_all_taken:
  assumes "list_all framed fs" "reachable_platform v"
  shows "taken v (Tcp n) fs g (take_all v n remote fs g)"
  using assms(1)
proof (induction fs arbitrary: g)
  case (Cons f fs)
  obtain x g1 where t: "take_frame v (Tcp n) ''TCP'' remote f g = (x, g1)" by fastforce
  then show ?case using Cons taken_step [OF _ _ assms(2) t] by simp
qed (simp add: taken_refl)

lemma take_all_peers:
  assumes "list_all framed fs" "reachable_platform v"
  shows "map_option se_peer (mget (gw_byDevice (take_all v n remote fs g)) d) =
     (if \<exists>f \<in> set fs. accepted (ge_zone v) f \<and> frame_device f = d then Some (Tcp n)
      else map_option se_peer (mget (gw_byDevice g) d))"
  using assms(1)
proof (induction fs arbitrary: g)
  case (Cons f fs)
  define g1 where "g1 = snd (take_frame v (Tcp n) ''TCP'' remote f g)"
  have f: "framed f" using Cons.prems by simp
  have "map_option se_peer (mget (gw_byDevice g1) d) =
     (if accepted (ge_zone v) f \<and> frame_device f = d then Some (Tcp n) else map_option se_peer (mget (gw_byDevice g) d))"
  proof (cases "accepted (ge_zone v) f")
    case True
    then show ?thesis
      using take_accepted [OF True f assms(2), of "Tcp n" "''TCP''" remote g] unfolding g1_def by (metis snd_conv)
  next
    case False
    then obtain k where "take_frame v (Tcp n) ''TCP'' remote f g = ((None, True), g\<lparr>gw_ticks := k\<rparr>)"
      using take_rejected f by metis
    then show ?thesis using False by (simp add: g1_def)
  qed
  with Cons show ?case by (auto simp: g1_def)
qed simp

lemma handleConnection_stream:
  assumes "list_all (\<lambda>(junk, f). mark \<notin> set junk \<and> framed f) items" "mark \<notin> set rest" "reachable_platform v"
  shows "handleConnection v n remote (stream items @ rest, e) g = take_all v n remote (map snd items) g"
    "list_all framed (map snd items)"
  using connection_stream [OF assms(1, 2) reachable_platformD(1) [OF assms(3)], of n remote e None g] assms(1)
  by (auto simp: handleConnection_def remove_session_def list_all_iff split: prod.splits)


section \<open>A concrete connection\<close>

definition sample_frame :: "octet list" where
  "sample_frame = buildGB26875Frame 7 [1, 2, 3, 4, 5, 6] platform_address 0x07 [] sample_time"

definition sample_gateway_env :: gateway_env where
  "sample_gateway_env = \<lparr>ge_answer = (\<lambda>_ _. Inr NoReply), ge_nano = (\<lambda>n. int n), ge_civil = (\<lambda>_. sample_time),
     ge_write = (\<lambda>_ _. None), ge_zone = (\<lambda>_. 0)\<rparr>"

definition sample_gateway :: gateway where
  "sample_gateway = \<lparr>gw_tenant = ''t'', gw_token = ''k'', gw_devices = [], gw_byDevice = [], gw_next = 0,
     gw_requests = [], gw_writes = [], gw_ticks = 0\<rparr>"

lemma sample_reachable: "reachable_platform sample_gateway_env"
  by (simp add: reachable_platform_def sample_gateway_env_def)

lemma sample_stream: "list_all (\<lambda>(junk, f). mark \<notin> set junk \<and> framed f) [([0], sample_frame)]"
  by (simp add: sample_frame_def framed_build platform_address_def mark_def)

lemma sample_frame_accepted: "accepted (ge_zone sample_gateway_env) sample_frame" "\<not> is_ack sample_frame"
proof -
  show "accepted (ge_zone sample_gateway_env) sample_frame"
    by (simp add: accepted_def frame_event_def sample_frame_def decode_build platform_address_def applyGB26875Data_def)
  show "\<not> is_ack sample_frame"
    by (simp add: is_ack_def sample_frame_def buildGB26875Frame_def frame_body_def put_le16_def
        encodeGB26875Time_def platform_address_def nth_append Let_def)
qed


end
