(* ===== verification/Gb_Steps.thy ===== *)
theory Gb_Steps
  imports Gb_Props
begin

text \<open>
  The connections of the gateway side by side (cmd/gb26875-gateway/main.go): every TCP connection, the
  UDP socket and the control interface are goroutines over one registry of sessions, so that between
  two steps of a connection any step of the others can come. A connection handled without interruption
  is handleConnection; and whatever comes in between, no connection that ends takes a device out of
  the registry.
\<close>

section \<open>A connection in steps\<close>

text \<open>
  Where handleConnection is in its loop: before a frame, or with a frame the platform has taken and
  the bytes that confirm it.
\<close>

datatype stage = Reading | Registering "octet list" "octet list" | Delivering "octet list" "octet list"
  | Confirming "octet list" | Closing

text \<open>
  A connection: its address, what it still receives, its stage, and the variables that the deferred
  removal reads. The device is the variable declared outside the loop; the assignment inside is to the
  loop's own variable of that name, so that no step changes it.
\<close>

record link =
  lk_remote :: string
  lk_input :: conn
  lk_stage :: stage
  lk_device :: string
  lk_session :: "nat option"

definition new_link :: "string \<Rightarrow> conn \<Rightarrow> link" where
  "new_link remote c = \<lparr>lk_remote = remote, lk_input = c, lk_stage = Reading, lk_device = [], lk_session = None\<rparr>"

definition link_read :: "gateway_env \<Rightarrow> link \<Rightarrow> gateway \<Rightarrow> link \<times> gateway" where
  "link_read v k g = (case readFrame (lk_input k) of
     (Inl _, c) \<Rightarrow> (k\<lparr>lk_input := c, lk_stage := Closing\<rparr>, g)
   | (Inr frame, c) \<Rightarrow> (case processFrame v frame ''TCP'' (lk_remote k) g of
       (Inl _, g1) \<Rightarrow> (k\<lparr>lk_input := c\<rparr>, g1)
     | (Inr ack, g1) \<Rightarrow> (k\<lparr>lk_input := c, lk_stage := Registering frame ack\<rparr>, g1)))"

definition link_register :: "nat \<Rightarrow> octet list \<Rightarrow> octet list \<Rightarrow> link \<Rightarrow> gateway \<Rightarrow> link \<times> gateway" where
  "link_register n frame ack k g = (case register_session (frame_device frame) (take 6 (drop 12 frame)) (Tcp n) g of
     (s, g1) \<Rightarrow> (k\<lparr>lk_stage := Delivering frame ack, lk_session := Some s\<rparr>, g1))"

definition link_deliver :: "octet list \<Rightarrow> octet list \<Rightarrow> link \<Rightarrow> gateway \<Rightarrow> link \<times> gateway" where
  "link_deliver frame ack k g = (k\<lparr>lk_stage := (if ack = [] then Reading else Confirming ack)\<rparr>,
     deliver_frame (frame_device frame) (le16 frame 2) frame g)"

definition link_confirm :: "gateway_env \<Rightarrow> nat \<Rightarrow> octet list \<Rightarrow> link \<Rightarrow> gateway \<Rightarrow> link \<times> gateway" where
  "link_confirm v n ack k g = (case write_peer v (Tcp n) ack g of
     (e, g1) \<Rightarrow> (k\<lparr>lk_stage := (if e = None then Reading else Closing)\<rparr>, g1))"

definition link_close :: "link \<Rightarrow> gateway \<Rightarrow> gateway" where
  "link_close k g = remove_session (lk_device k) (lk_session k) g"

section \<open>All of them\<close>

text \<open>
  The gateway with its open connections by number, the datagram the UDP loop is at with its sender, and
  a record of the registrations, the last one first.
\<close>

record gateways =
  gs_gateway :: gateway
  gs_links :: "nat \<Rightarrow> link option"
  gs_accepted :: nat
  gs_udp :: "string \<times> stage"
  gs_registered :: "(string \<times> peer) list"

abbreviation with_link :: "nat \<Rightarrow> link \<times> gateway \<Rightarrow> gateways \<Rightarrow> gateways" where
  "with_link n r x \<equiv> x\<lparr>gs_links := (gs_links x)(n \<mapsto> fst r), gs_gateway := snd r\<rparr>"

inductive gateway_step :: "gateway_env \<Rightarrow> gateways \<Rightarrow> gateways \<Rightarrow> bool" for v where
  connection_accepted: "gateway_step v x (x\<lparr>gs_links := (gs_links x)(gs_accepted x \<mapsto> new_link remote c),
    gs_accepted := Suc (gs_accepted x)\<rparr>)"
| frame_read: "gs_links x n = Some k \<Longrightarrow> lk_stage k = Reading \<Longrightarrow>
    gateway_step v x (with_link n (link_read v k (gs_gateway x)) x)"
| frame_registered: "gs_links x n = Some k \<Longrightarrow> lk_stage k = Registering frame ack \<Longrightarrow>
    gateway_step v x (with_link n (link_register n frame ack k (gs_gateway x))
      (x\<lparr>gs_registered := (frame_device frame, Tcp n) # gs_registered x\<rparr>))"
| frame_delivered: "gs_links x n = Some k \<Longrightarrow> lk_stage k = Delivering frame ack \<Longrightarrow>
    gateway_step v x (with_link n (link_deliver frame ack k (gs_gateway x)) x)"
| frame_confirmed: "gs_links x n = Some k \<Longrightarrow> lk_stage k = Confirming ack \<Longrightarrow>
    gateway_step v x (with_link n (link_confirm v n ack k (gs_gateway x)) x)"
| connection_closed: "gs_links x n = Some k \<Longrightarrow> lk_stage k = Closing \<Longrightarrow>
    gateway_step v x (x\<lparr>gs_links := (gs_links x)(n := None), gs_gateway := link_close k (gs_gateway x)\<rparr>)"
| datagram_read: "gs_udp x = (old, Reading) \<Longrightarrow> processFrame v (take 542 frame) ''UDP'' remote (gs_gateway x) = (r, g) \<Longrightarrow>
    gateway_step v x (x\<lparr>gs_gateway := g,
      gs_udp := (remote, case r of Inl _ \<Rightarrow> Reading | Inr ack \<Rightarrow> Registering (take 542 frame) ack)\<rparr>)"
| datagram_registered: "gs_udp x = (remote, Registering frame ack) \<Longrightarrow>
    register_session (frame_device frame) (take 6 (drop 12 frame)) (Udp remote) (gs_gateway x) = (s, g) \<Longrightarrow>
    gateway_step v x (x\<lparr>gs_gateway := g, gs_udp := (remote, Delivering frame ack),
      gs_registered := (frame_device frame, Udp remote) # gs_registered x\<rparr>)"
| datagram_delivered: "gs_udp x = (remote, Delivering frame ack) \<Longrightarrow>
    gateway_step v x (x\<lparr>gs_gateway := deliver_frame (frame_device frame) (le16 frame 2) frame (gs_gateway x),
      gs_udp := (remote, if ack = [] then Reading else Confirming ack)\<rparr>)"
| datagram_confirmed: "gs_udp x = (remote, Confirming ack) \<Longrightarrow> write_peer v (Udp remote) ack (gs_gateway x) = (e, g) \<Longrightarrow>
    gateway_step v x (x\<lparr>gs_gateway := g, gs_udp := (remote, Reading)\<rparr>)"
| time_asked: "gateway_step v x (x\<lparr>gs_gateway := snd (sync_start v d at (gs_gateway x))\<rparr>)"
| time_answered: "gateway_step v x (x\<lparr>gs_gateway := snd (sync_finish d q (gs_gateway x))\<rparr>)"

inductive gateway_steps :: "gateway_env \<Rightarrow> gateways \<Rightarrow> gateways \<Rightarrow> bool" for v where
  no_step: "gateway_steps v x x"
| more_steps: "gateway_steps v x y \<Longrightarrow> gateway_step v y z \<Longrightarrow> gateway_steps v x z"

text \<open>A gateway that has logged in, before its first connection.\<close>

definition fresh :: "gateway \<Rightarrow> gateways" where
  "fresh g = \<lparr>gs_gateway = g, gs_links = (\<lambda>_. None), gs_accepted = 0, gs_udp = ([], Reading), gs_registered = []\<rparr>"

lemma gateway_steps_trans: "gateway_steps v y z \<Longrightarrow> gateway_steps v x y \<Longrightarrow> gateway_steps v x z"
  by (induction rule: gateway_steps.induct) (auto intro: more_steps)

lemma one_step: "gateway_step v x y \<Longrightarrow> gateway_steps v x y"
  using more_steps no_step by blast

section \<open>A connection without interruption\<close>

text \<open>The steps of one frame are take_frame.\<close>

lemma taken_in_steps:
  assumes k: "gs_links x n = Some k" "lk_stage k = Reading" "readFrame (lk_input k) = (Inr frame, c)"
    and t: "take_frame v (Tcp n) ''TCP'' (lk_remote k) frame (gs_gateway x) = ((s, go), g)"
  shows "\<exists>y l. gateway_steps v x y \<and> gs_links y n = Some l \<and> gs_gateway y = g \<and> lk_input l = c \<and> lk_remote l = lk_remote k \<and>
    lk_stage l = (if go then Reading else Closing) \<and> lk_device l = lk_device k \<and>
    lk_session l = (if s = None then lk_session k else s)"
proof -
  obtain r g1 where p: "processFrame v frame ''TCP'' (lk_remote k) (gs_gateway x) = (r, g1)" by fastforce
  define y1 where "y1 = with_link n (link_read v k (gs_gateway x)) x"
  have s1: "gateway_steps v x y1" unfolding y1_def by (intro one_step frame_read k)
  show ?thesis
  proof (cases r)
    case (Inl e)
    then have "gs_links y1 n = Some (k\<lparr>lk_input := c\<rparr>)" "gs_gateway y1 = g" "s = None" "go"
      using t by (simp_all add: y1_def link_read_def k(3) p take_frame_def)
    then show ?thesis using s1 k(2) by (intro exI [of _ y1] exI [of _ "k\<lparr>lk_input := c\<rparr>"]) simp
  next
    case (Inr ack)
    obtain m g2 where rs: "register_session (frame_device frame) (take 6 (drop 12 frame)) (Tcp n) g1 = (m, g2)" by fastforce
    define g3 where "g3 = deliver_frame (frame_device frame) (le16 frame 2) frame g2"
    define k1 where "k1 = k\<lparr>lk_input := c, lk_stage := Registering frame ack\<rparr>"
    have y1: "gs_links y1 n = Some k1" "gs_gateway y1 = g1" "lk_stage k1 = Registering frame ack"
      by (simp_all add: y1_def k1_def link_read_def k(3) p Inr)
    define y2 where "y2 = with_link n (link_register n frame ack k1 (gs_gateway y1))
      (y1\<lparr>gs_registered := (frame_device frame, Tcp n) # gs_registered y1\<rparr>)"
    define k2 where "k2 = k1\<lparr>lk_stage := Delivering frame ack, lk_session := Some m\<rparr>"
    have y2: "gs_links y2 n = Some k2" "gs_gateway y2 = g2" "lk_stage k2 = Delivering frame ack"
      by (simp_all add: y2_def k2_def link_register_def y1 rs)
    have s2: "gateway_steps v x y2" using more_steps [OF s1 frame_registered [OF y1(1,3)]] by (simp add: y2_def)
    define y3 where "y3 = with_link n (link_deliver frame ack k2 (gs_gateway y2)) y2"
    define k3 where "k3 = k2\<lparr>lk_stage := (if ack = [] then Reading else Confirming ack)\<rparr>"
    have y3: "gs_links y3 n = Some k3" "gs_gateway y3 = g3" by (simp_all add: y3_def k3_def link_deliver_def y2 g3_def)
    have s3: "gateway_steps v x y3" using more_steps [OF s2 frame_delivered [OF y2(1,3)]] by (simp add: y3_def)
    have f: "lk_input k3 = c" "lk_remote k3 = lk_remote k" "lk_device k3 = lk_device k" "lk_session k3 = Some m"
      by (simp_all add: k3_def k2_def k1_def)
    show ?thesis
    proof (cases "ack = []")
      case True
      then have "g = g3" "s = Some m" "go" using t by (simp_all add: take_frame_def p Inr rs g3_def Let_def)
      then show ?thesis using s3 y3 f True by (intro exI [of _ y3] exI [of _ k3]) (simp add: k3_def)
    next
      case False
      obtain e g4 where w: "write_peer v (Tcp n) ack g3 = (e, g4)" by fastforce
      have st: "lk_stage k3 = Confirming ack" using False by (simp add: k3_def)
      define y4 where "y4 = with_link n (link_confirm v n ack k3 (gs_gateway y3)) y3"
      have "gateway_steps v x y4" using more_steps [OF s3 frame_confirmed [OF y3(1) st]] by (simp add: y4_def)
      moreover have "g = g4" "s = Some m" "go = (e = None)"
        using t False w by (simp_all add: take_frame_def p Inr rs g3_def Let_def)
      moreover have "gs_links y4 n = Some (k3\<lparr>lk_stage := (if e = None then Reading else Closing)\<rparr>)" "gs_gateway y4 = g4"
        by (simp_all add: y4_def link_confirm_def y3 w)
      ultimately show ?thesis using f
        by (intro exI [of _ y4] exI [of _ "k3\<lparr>lk_stage := (if e = None then Reading else Closing)\<rparr>"]) simp
    qed
  qed
qed

lemma loop_in_steps:
  assumes "gs_links x n = Some k" "lk_stage k = Reading"
    "connection_loop v n (lk_remote k) (lk_input k) (lk_session k) (gs_gateway x) = (s, g)"
  shows "\<exists>y l. gateway_steps v x y \<and> gs_links y n = Some l \<and> gs_gateway y = g \<and> lk_stage l = Closing \<and>
    lk_device l = lk_device k \<and> lk_session l = s"
  using assms
proof (induction "length (fst (lk_input k))" arbitrary: x k rule: less_induct)
  case less
  note k = less.prems(1,2) and loop = trans [OF connection_loop.simps [symmetric] less.prems(3)]
  obtain r c where r: "readFrame (lk_input k) = (r, c)" by (rule prod.exhaust)
  show ?case
  proof (cases r)
    case (Inl e)
    define l where "l = k\<lparr>lk_input := c, lk_stage := Closing\<rparr>"
    have "with_link n (link_read v k (gs_gateway x)) x = x\<lparr>gs_links := (gs_links x)(n \<mapsto> l)\<rparr>" "s = lk_session k" "g = gs_gateway x"
      using loop Inl by (simp_all add: link_read_def r l_def)
    then show ?thesis using one_step [OF frame_read [OF k, of v]]
      by (intro exI [of _ "x\<lparr>gs_links := (gs_links x)(n \<mapsto> l)\<rparr>"] exI [of _ l]) (simp add: l_def)
  next
    case (Inr frame)
    obtain m go g1 where t: "take_frame v (Tcp n) ''TCP'' (lk_remote k) frame (gs_gateway x) = ((m, go), g1)"
      by (metis prod.collapse)
    obtain y l where y: "gateway_steps v x y" "gs_links y n = Some l" "gs_gateway y = g1" "lk_input l = c"
      "lk_remote l = lk_remote k" "lk_stage l = (if go then Reading else Closing)" "lk_device l = lk_device k"
      "lk_session l = (if m = None then lk_session k else m)"
      using taken_in_steps [OF k r [unfolded Inr] t] by blast
    show ?thesis
    proof (cases go)
      case False
      then show ?thesis using loop y by (intro exI [of _ y] exI [of _ l]) (simp add: r Inr t Let_def)
    next
      case True
      have "length (fst (lk_input l)) < length (fst (lk_input k))" using readFrame_consumes [OF r [unfolded Inr]] by (simp add: y(4))
      moreover have "connection_loop v n (lk_remote l) (lk_input l) (lk_session l) (gs_gateway y) = (s, g)"
        using loop True by (simp add: r Inr t y Let_def)
      ultimately show ?thesis using less.hyps [OF _ y(2)] y(1,6,7) True gateway_steps_trans by metis
    qed
  qed
qed

text \<open>A connection that is accepted and runs to its end with no step in between has handleConnection's effect.\<close>

lemma handled_in_steps:
  assumes "n = gs_accepted x"
  shows "\<exists>y. gateway_steps v x y \<and> gs_gateway y = handleConnection v n remote c (gs_gateway x) \<and> gs_links y n = None"
proof -
  define x1 where "x1 = x\<lparr>gs_links := (gs_links x)(n \<mapsto> new_link remote c), gs_accepted := Suc n\<rparr>"
  have x1: "gateway_steps v x x1" unfolding x1_def assms by (intro one_step connection_accepted)
  obtain s g where l: "connection_loop v n remote c None (gs_gateway x) = (s, g)" by fastforce
  have "gs_links x1 n = Some (new_link remote c)" by (simp add: x1_def)
  from loop_in_steps [OF this, of v s g] l obtain y k where y: "gateway_steps v x1 y" "gs_links y n = Some k"
    "gs_gateway y = g" "lk_stage k = Closing" "lk_device k = []" "lk_session k = s"
    by (auto simp: new_link_def x1_def)
  from connection_closed [OF y(2,4), of v] have "gateway_step v y
      (y\<lparr>gs_links := (gs_links y)(n := None), gs_gateway := handleConnection v n remote c (gs_gateway x)\<rparr>)"
    by (simp add: link_close_def handleConnection_def l y)
  from more_steps [OF gateway_steps_trans [OF y(1) x1] this] show ?thesis by (intro exI conjI) auto
qed

section \<open>The registry\<close>

text \<open>A device keeps its session; its peer is the last one it is registered with.\<close>

definition stays :: "(string \<times> peer) list \<Rightarrow> gateway \<Rightarrow> gateway \<Rightarrow> bool" where
  "stays newer g g' \<longleftrightarrow> (\<forall>d s. mget (gw_byDevice g) d = Some s \<longrightarrow> (\<exists>t. mget (gw_byDevice g') d = Some t \<and>
     se_id t = se_id s \<and> se_peer t = (case map_of newer d of None \<Rightarrow> se_peer s | Some p \<Rightarrow> p)))"

lemma stays_same: "gw_byDevice g' = gw_byDevice g \<Longrightarrow> stays [] g g'"
  by (simp add: stays_def)

lemma stays_trans:
  assumes "stays older g g1" "stays newer g1 g2"
  shows "stays (newer @ older) g g2"
  unfolding stays_def
proof (intro allI impI)
  fix d s
  assume "mget (gw_byDevice g) d = Some s"
  then obtain t where t: "mget (gw_byDevice g1) d = Some t" "se_id t = se_id s"
    "se_peer t = (case map_of older d of None \<Rightarrow> se_peer s | Some p \<Rightarrow> p)"
    using assms(1) unfolding stays_def by blast
  then obtain u where "mget (gw_byDevice g2) d = Some u" "se_id u = se_id t"
    "se_peer u = (case map_of newer d of None \<Rightarrow> se_peer t | Some p \<Rightarrow> p)"
    using assms(2) unfolding stays_def by blast
  then show "\<exists>t. mget (gw_byDevice g2) d = Some t \<and> se_id t = se_id s \<and>
      se_peer t = (case map_of (newer @ older) d of None \<Rightarrow> se_peer s | Some p \<Rightarrow> p)"
    using t by (auto simp: map_add_def split: option.splits)
qed

lemma stays_register: "register_session d source p g = (n, g') \<Longrightarrow> stays [(d, p)] g g'"
  by (auto simp: register_session_def stays_def split: option.splits)

lemma stays_deliver: "stays [] g (deliver_frame d q f g)"
  by (auto simp: deliver_frame_def offer_def stays_def split: option.split)

lemma forward_registry: "gw_byDevice (snd (forward v raw source g)) = gw_byDevice g"
  by (simp add: forward_def do_request_def Let_def split: sum.split)

lemma processFrame_registry:
  assumes "processFrame v f transport remote g = (r, g')"
  shows "gw_byDevice g' = gw_byDevice g"
proof (cases "length f < 18")
  case False
  define raw g0 where "raw = gateway_raw v f transport remote g" and "g0 = g\<lparr>gw_ticks := gw_ticks g + 2\<rparr>"
  obtain e g1 where f: "forward v raw (hex_upper (take 6 (drop 12 f))) g0 = (e, g1)" by fastforce
  then have "gw_byDevice g1 = gw_byDevice g" using forward_registry [of v raw "hex_upper (take 6 (drop 12 f))" g0] by (simp add: g0_def)
  then show ?thesis using assms False f
    by (cases e) (auto simp: processFrame_def raw_def [symmetric] g0_def Let_def split: sum.splits)
qed (use assms in \<open>simp add: processFrame_def\<close>)

lemma stays_sync_start: "stays [] g (snd (sync_start v d at g))"
  by (auto simp: sync_start_def write_peer_def stays_def Let_def split: option.split)

lemma stays_sync_finish: "stays [] g (snd (sync_finish d q g))"
  by (auto simp: sync_finish_def stays_def split: option.split)

lemma nothing_removed: "link_close k g = g" if "lk_device k = []"
  using that by (simp add: link_close_def remove_session_def)

definition shadowed :: "gateways \<Rightarrow> bool" where
  "shadowed x \<longleftrightarrow> (\<forall>n k. gs_links x n = Some k \<longrightarrow> lk_device k = [])"

lemma link_device [simp]:
  "lk_device (fst (link_read v k g)) = lk_device k" "lk_device (fst (link_register n f ack k g)) = lk_device k"
  "lk_device (fst (link_deliver f ack k g)) = lk_device k" "lk_device (fst (link_confirm v n ack k g)) = lk_device k"
  by (simp_all add: link_read_def link_register_def link_deliver_def link_confirm_def split: prod.split sum.split)

lemma step_shadowed: "gateway_step v x y \<Longrightarrow> shadowed x \<Longrightarrow> shadowed y"
  by (induction rule: gateway_step.induct) (auto simp: shadowed_def new_link_def)

lemma steps_shadowed: "gateway_steps v (fresh g) x \<Longrightarrow> shadowed x"
  by (induction "fresh g" x rule: gateway_steps.induct) (auto simp: fresh_def shadowed_def intro: step_shadowed [unfolded shadowed_def, rule_format])

lemma link_stays:
  "stays [] g (snd (link_read v k g))" "stays [(frame_device f, Tcp n)] g (snd (link_register n f ack k g))"
  "stays [] g (snd (link_deliver f ack k g))" "stays [] g (snd (link_confirm v n ack k g))"
  by (auto simp: link_read_def link_register_def link_deliver_def link_confirm_def write_peer_def
      intro: stays_same stays_register stays_deliver dest: processFrame_registry split: prod.split sum.split)

lemma step_stays:
  "gateway_step v x y \<Longrightarrow> shadowed x \<Longrightarrow>
     \<exists>newer. gs_registered y = newer @ gs_registered x \<and> stays newer (gs_gateway x) (gs_gateway y)"
proof (induction rule: gateway_step.induct)
  case (connection_closed x n k)
  then show ?case by (simp add: shadowed_def nothing_removed stays_same)
next
  case (frame_registered x n k frame ack)
  then show ?case by (intro exI [of _ "[(frame_device frame, Tcp n)]"]) (simp add: link_stays)
next
  case (datagram_registered x remote frame ack s g)
  then show ?case by (intro exI [of _ "[(frame_device frame, Udp remote)]"]) (simp add: stays_register)
qed (simp_all add: link_stays stays_same stays_deliver stays_sync_start stays_sync_finish processFrame_registry write_peer_def)

lemma steps_stay:
  "gateway_steps v x y \<Longrightarrow> shadowed x \<Longrightarrow>
     shadowed y \<and> (\<exists>newer. gs_registered y = newer @ gs_registered x \<and> stays newer (gs_gateway x) (gs_gateway y))"
proof (induction rule: gateway_steps.induct)
  case (more_steps x y z)
  then obtain older where o: "gs_registered y = older @ gs_registered x" "stays older (gs_gateway x) (gs_gateway y)" by blast
  obtain newer where "gs_registered z = newer @ gs_registered y" "stays newer (gs_gateway y) (gs_gateway z)"
    using step_stays [OF more_steps.hyps(2)] more_steps by blast
  then have "gs_registered z = (newer @ older) @ gs_registered x" "stays (newer @ older) (gs_gateway x) (gs_gateway z)"
    using o stays_trans by simp_all
  then show ?case using step_shadowed more_steps by blast
qed (simp add: stays_same)

text \<open>
  C37. However the steps of connections, datagrams and time synchronisations interleave, and whichever
  connections end in between, a device that is once registered stays registered, with the same session,
  whose peer is the one its last frame since then was registered with: the removal that
  handleConnection defers takes out nothing, and a device can be registered under a closed connection.
\<close>

theorem closed_connection_stays_registered:
  assumes "gateway_steps v (fresh g) x" "mget (gw_byDevice (gs_gateway x)) d = Some s" "gateway_steps v x y"
  shows "\<exists>newer t. gs_registered y = newer @ gs_registered x \<and> mget (gw_byDevice (gs_gateway y)) d = Some t \<and>
    se_id t = se_id s \<and> se_peer t = (case map_of newer d of None \<Rightarrow> se_peer s | Some p \<Rightarrow> p)"
  using steps_stay [OF assms(3) steps_shadowed [OF assms(1)]] assms(2) unfolding stays_def by blast

theorem closed_connection_stays_registered_witness:
  "\<exists>x t. gateway_steps sample_gateway_env (fresh sample_gateway) x \<and> gs_links x 0 = None \<and>
     mget (gw_byDevice (gs_gateway x)) (frame_device sample_frame) = Some t \<and> se_peer t = Tcp 0"
proof -
  obtain x where x: "gateway_steps sample_gateway_env (fresh sample_gateway) x" "gs_links x 0 = None"
    "gs_gateway x = handleConnection sample_gateway_env 0 ''r'' ([0] @ sample_frame, ErrText ''EOF'') sample_gateway"
    using handled_in_steps [of 0 "fresh sample_gateway" sample_gateway_env "''r''" "([0] @ sample_frame, ErrText ''EOF'')"]
    by (auto simp: fresh_def)
  have h: "handleConnection sample_gateway_env 0 ''r'' ([0] @ sample_frame, ErrText ''EOF'') sample_gateway =
      take_all sample_gateway_env 0 ''r'' [sample_frame] sample_gateway"
    using handleConnection_stream(1) [OF sample_stream _ sample_reachable, of "[]"] by (simp add: stream_def)
  have "list_all framed [sample_frame]" using sample_stream by simp
  from take_all_peers [OF this sample_reachable, of 0 "''r''" sample_gateway "frame_device sample_frame"]
  obtain s where s: "mget (gw_byDevice (gs_gateway x)) (frame_device sample_frame) = Some s" "se_peer s = Tcp 0"
    using sample_frame_accepted(1) unfolding x(3) h by auto
  from closed_connection_stays_registered [OF x(1) s(1) no_step] x s show ?thesis by auto
qed

end
