(* ===== verification/Configurable.thy ===== *)
theory Configurable
  imports Gb26875 Rules
begin

text \<open>
  The two parsers that a protocol package configures without code (internal/parser/configurable.go):
  JSON documents by paths, and hexadecimal frames by fixed fields. What they use of the standard
  library and do not define themselves is the record lib.
\<close>

section \<open>The library\<close>

text \<open>
  json.Unmarshal into a value of type any, strconv.ParseFloat, fmt.Sprint of floats, arrays and
  objects, the product of two float64 values and x * y + z (which Go may fuse), int(x) of a float64
  outside the range of int, and time.Parse of an RFC 3339 time as Unix milliseconds.
\<close>

record lib =
  li_json :: "string \<Rightarrow> any option"
  li_float :: "string \<Rightarrow> 64 word option"
  li_show :: "any \<Rightarrow> string"
  li_mul :: "64 word \<Rightarrow> 64 word \<Rightarrow> 64 word"
  li_muladd :: "64 word \<Rightarrow> 64 word \<Rightarrow> 64 word \<Rightarrow> 64 word"
  li_outside :: "64 word \<Rightarrow> int"
  li_time :: "string \<Rightarrow> int option"

text \<open>fmt.Sprint.\<close>

fun go_sprint :: "lib \<Rightarrow> any \<Rightarrow> string" where
  "go_sprint l ANil = ''<nil>''"
| "go_sprint l (ABool b) = (if b then ''true'' else ''false'')"
| "go_sprint l (AInt n) = decimal n"
| "go_sprint l (AStr s) = s"
| "go_sprint l v = li_show l v"

text \<open>int64(x) of a float64: towards zero.\<close>

definition f64_trunc :: "lib \<Rightarrow> 64 word \<Rightarrow> int" where
  "f64_trunc l w =
     (let e = unat (drop_bit 52 w) mod 2048; m = unat w mod 2 ^ 52 + 2 ^ 52;
          sign = (if 2 ^ 63 \<le> unat w then -1 else 1)
      in if e < 1023 then 0
         else if 1023 + 63 \<le> e then li_outside l w
         else sign * int (if 1075 \<le> e then m * 2 ^ (e - 1075) else m div 2 ^ (1075 - e)))"

text \<open>float64 of a float32 bit pattern; a signalling NaN becomes quiet.\<close>

definition f64_of_f32 :: "32 word \<Rightarrow> 64 word" where
  "f64_of_f32 w =
     (let n = unat w; sign = (if 2 ^ 31 \<le> n then 2 ^ 63 else 0); e = n div 2 ^ 23 mod 256; m = n mod 2 ^ 23
      in word_of_nat (sign +
           (if e = 255 then 2047 * 2 ^ 52 + (if m = 0 then 0 else 2 ^ 51 + m * 2 ^ 29 mod 2 ^ 51)
            else if e \<noteq> 0 then (e + 896) * 2 ^ 52 + m * 2 ^ 29
            else if m = 0 then 0
            else let k = bit_len m - 1 in (k + 874) * 2 ^ 52 + (m - 2 ^ k) * 2 ^ (52 - k))))"

lemma f64_of_f32_examples:
  "f64_of_f32 0x3F800000 = f64_of_int 1" "f64_of_f32 0xC0A00000 = f64_of_int (-5)"
  "f64_of_f32 1 = 0x36A0000000000000" "f64_of_f32 0xFF800000 = 0xFFF0000000000000"
  by (simp_all add: f64_of_f32_def f64_of_int_def bit_len.simps Let_def)

definition f64_one :: "64 word" where
  "f64_one = f64_of_int 1"

section \<open>Configuration values\<close>

definition number :: "lib \<Rightarrow> any \<Rightarrow> 64 word option" where
  "number l v = (case v of AFloat64 w \<Rightarrow> Some w | AInt n \<Rightarrow> Some (f64_of_int n) | AStr s \<Rightarrow> li_float l s | _ \<Rightarrow> None)"

fun configMap :: "anymap \<Rightarrow> string list \<Rightarrow> anymap option" where
  "configMap config [] = None"
| "configMap config (k # ks) = (case mget config k of Some (AObj m) \<Rightarrow> Some m | _ \<Rightarrow> configMap config ks)"

definition firstConfig :: "lib \<Rightarrow> anymap \<Rightarrow> string \<Rightarrow> string" where
  "firstConfig l config k = (case mget config k of
     None \<Rightarrow> [] | Some ANil \<Rightarrow> [] | Some v \<Rightarrow> trim_space (go_sprint l v))"

definition configInt :: "lib \<Rightarrow> anymap \<Rightarrow> string \<Rightarrow> int \<Rightarrow> int" where
  "configInt l config k fallback = (case mget config k of
     None \<Rightarrow> fallback
   | Some (AFloat64 w) \<Rightarrow> f64_trunc l w
   | Some v \<Rightarrow> (case atoi (go_sprint l v) of Some n \<Rightarrow> n | None \<Rightarrow> fallback))"

definition intFrom :: "lib \<Rightarrow> any \<Rightarrow> int" where
  "intFrom l v = (case v of AFloat64 w \<Rightarrow> f64_trunc l w | _ \<Rightarrow> atoi_value (go_sprint l v))"

definition floatFrom :: "lib \<Rightarrow> any \<Rightarrow> 64 word" where
  "floatFrom l v = (case v of AFloat64 w \<Rightarrow> w
     | _ \<Rightarrow> (case li_float l (go_sprint l v) of Some w \<Rightarrow> w | None \<Rightarrow> 0))"

definition any_at :: "anymap \<Rightarrow> string \<Rightarrow> any" where
  "any_at m k = mget_or ANil m k"

section \<open>Paths\<close>

lemma rest_shorter: "c # cs = dropWhile P path \<Longrightarrow> length cs < length path"
  by (metis length_Cons length_dropWhile_le less_eq_Suc_le)

lemma bracket_shorter: "length (trim_prefix (drop (Suc 0) (dropWhile P cs)) p) \<le> length cs"
  using length_dropWhile_le [of P cs] by (auto simp: trim_prefix_def intro: le_trans [OF diff_le_self])

text \<open>The loop of lookupPath from the current value; None is not found.\<close>

function path_walk :: "string \<Rightarrow> any \<Rightarrow> any option" where
  "path_walk path v =
     (if path = [] then Some v
      else let part = takeWhile (\<lambda>c. c \<noteq> CHR ''.'' \<and> c \<noteq> CHR ''['') path;
               rest = dropWhile (\<lambda>c. c \<noteq> CHR ''.'' \<and> c \<noteq> CHR ''['') path
        in case (if part = [] then Some v else case v of AObj m \<Rightarrow> mget m part | _ \<Rightarrow> None) of
             None \<Rightarrow> None
           | Some w \<Rightarrow>
               (case rest of
                  [] \<Rightarrow> Some w
                | c # cs \<Rightarrow>
                    if c = CHR ''.'' then path_walk cs w
                    else if CHR '']'' \<notin> set cs then None
                    else (case (atoi (takeWhile (\<lambda>c. c \<noteq> CHR '']'') cs), w) of
                        (Some i, AArr xs) \<Rightarrow>
                          if i < 0 \<or> int (length xs) \<le> i then None
                          else path_walk (trim_prefix (drop 1 (dropWhile (\<lambda>c. c \<noteq> CHR '']'') cs)) ''.'') (xs ! nat i)
                      | _ \<Rightarrow> None)))"
  by pat_completeness auto
termination
  by (relation "measure (\<lambda>(path, v). length path)")
    (auto dest: rest_shorter intro: le_less_trans [OF bracket_shorter])

declare path_walk.simps [simp del]

definition lookupPath :: "any \<Rightarrow> string \<Rightarrow> any option" where
  "lookupPath root path =
     (let path = trim_space path
      in if path = [] \<or> path = ''$'' then Some root
         else let path = (if has_prefix path ''$.'' then trim_prefix path ''$'' else path)
           in path_walk (trim_prefix path ''.'') root)"

section \<open>Mappings\<close>

text \<open>strconv.ParseBool.\<close>

definition parse_bool :: "string \<Rightarrow> bool option" where
  "parse_bool s = (if s \<in> {''1'', ''t'', ''T'', ''true'', ''TRUE'', ''True''} then Some True
     else if s \<in> {''0'', ''f'', ''F'', ''false'', ''FALSE'', ''False''} then Some False else None)"

definition convertValue :: "lib \<Rightarrow> any \<Rightarrow> string \<Rightarrow> any res" where
  "convertValue l v kind =
     (let failed = Inl (ErrText (''cannot convert '' @ go_sprint l v @ '' to '' @ kind))
      in if kind = [] \<or> kind = ''json'' then Inr v
         else if kind = ''number'' then (case number l v of Some n \<Rightarrow> Inr (AFloat64 n) | None \<Rightarrow> failed)
         else if kind = ''integer'' then (case number l v of Some n \<Rightarrow> Inr (AInt (f64_trunc l n)) | None \<Rightarrow> failed)
         else if kind = ''boolean''
         then (case v of ABool b \<Rightarrow> Inr (ABool b)
               | _ \<Rightarrow> (case parse_bool (go_sprint l v) of Some b \<Rightarrow> Inr (ABool b) | None \<Rightarrow> failed))
         else if kind = ''string'' then Inr (AStr (go_sprint l v))
         else Inl (ErrText (''unsupported mapping type '' @ kind)))"

text \<open>resolveMapping from a path, a type, a scale and a default.\<close>

definition resolve_path :: "lib \<Rightarrow> any \<Rightarrow> string \<Rightarrow> string \<Rightarrow> 64 word \<Rightarrow> any option \<Rightarrow> any option res" where
  "resolve_path l root path kind scale fallback = (case lookupPath root path of
     None \<Rightarrow> Inr fallback
   | Some v \<Rightarrow> bind_res (convertValue l v kind) (\<lambda>converted.
       Inr (Some (if f64_eq scale f64_one then converted
         else (case number l converted of Some n \<Rightarrow> AFloat64 (li_mul l n scale) | None \<Rightarrow> converted)))))"

definition resolveMapping :: "lib \<Rightarrow> any \<Rightarrow> any \<Rightarrow> any option res" where
  "resolveMapping l root specification = (case specification of
     AStr path \<Rightarrow> resolve_path l root path [] f64_one None
   | AObj m \<Rightarrow> resolve_path l root (go_sprint l (any_at m ''path'')) (to_lower (go_sprint l (any_at m ''type'')))
       (case mget m ''scale'' of Some s \<Rightarrow> floatFrom l s | None \<Rightarrow> f64_one) (mget m ''default'')
   | _ \<Rightarrow> Inl (ErrText ''mapping must be a JSON path or object''))"

text \<open>The loop over mappings: each value found is put under its name by f.\<close>

fun resolve_all :: "lib \<Rightarrow> any \<Rightarrow> string \<Rightarrow> (any \<Rightarrow> 'v) \<Rightarrow> anymap \<Rightarrow> 'v gomap \<Rightarrow> 'v gomap res" where
  "resolve_all l root what f [] out = Inr out"
| "resolve_all l root what f ((name, specification) # ms) out = (case resolveMapping l root specification of
     Inl e \<Rightarrow> Inl (ErrWrap (what @ '' '' @ name) e)
   | Inr None \<Rightarrow> resolve_all l root what f ms out
   | Inr (Some v) \<Rightarrow> resolve_all l root what f ms (mput out name (f v)))"

section \<open>The JSON parser\<close>

definition envelope_keys :: "string list" where
  "envelope_keys = [''messageType'', ''event'', ''tags'', ''timestamp'', ''alarm'']"

definition configuredTimestamp :: "lib \<Rightarrow> any \<Rightarrow> string \<Rightarrow> int \<Rightarrow> int" where
  "configuredTimestamp l v unit fallback = (case number l v of
     Some n \<Rightarrow> (if equal_fold unit ''s'' \<or> equal_fold unit ''second'' \<or> equal_fold unit ''seconds''
       then f64_trunc l (li_mul l n (f64_of_int 1000)) else f64_trunc l n)
   | None \<Rightarrow> (case v of AStr s \<Rightarrow> (case li_time l s of Some t \<Rightarrow> t | None \<Rightarrow> fallback) | _ \<Rightarrow> fallback))"

definition config_properties :: "lib \<Rightarrow> anymap \<Rightarrow> anymap \<Rightarrow> anymap res" where
  "config_properties l config root = (case configMap config [''properties'', ''propertyMappings''] of
     Some (m # ms) \<Rightarrow> resolve_all l (AObj root) ''property'' id (m # ms) []
   | _ \<Rightarrow> (case mget root ''properties'' of Some (AObj v) \<Rightarrow> Inr v
       | _ \<Rightarrow> Inr (filter (\<lambda>e. fst e \<notin> set envelope_keys) root)))"

definition config_tags :: "lib \<Rightarrow> anymap \<Rightarrow> anymap \<Rightarrow> string gomap res" where
  "config_tags l config root = (case configMap config [''tags'', ''tagMappings''] of
     Some (m # ms) \<Rightarrow> resolve_all l (AObj root) ''tag'' (go_sprint l) (m # ms) []
   | _ \<Rightarrow> (case mget root ''tags'' of Some (AObj v) \<Rightarrow> Inr (map (\<lambda>e. (fst e, go_sprint l (snd e))) v) | _ \<Rightarrow> Inr []))"

definition config_event :: "lib \<Rightarrow> anymap \<Rightarrow> anymap \<Rightarrow> anymap res" where
  "config_event l config root = (case configMap config [''event'', ''eventMappings''] of
     Some (m # ms) \<Rightarrow> resolve_all l (AObj root) ''event'' id (m # ms) []
   | _ \<Rightarrow> (case mget root ''event'' of Some (AObj v) \<Rightarrow> Inr v | _ \<Rightarrow> Inr []))"

definition config_type :: "lib \<Rightarrow> anymap \<Rightarrow> anymap \<Rightarrow> anymap \<Rightarrow> message_type" where
  "config_type l config root event =
     (if firstConfig l config ''messageType'' \<noteq> [] then to_upper (firstConfig l config ''messageType'')
      else if firstConfig l config ''messageTypePath'' \<noteq> []
      then (case lookupPath (AObj root) (firstConfig l config ''messageTypePath'') of
              Some v \<Rightarrow> to_upper (go_sprint l v) | None \<Rightarrow> PropertyReport)
      else (case mget root ''messageType'' of
              Some (AStr s) \<Rightarrow> to_upper s
            | _ \<Rightarrow> if event \<noteq> [] then EventReport
                else if mget root ''alarm'' = Some (ABool True) then AlarmReport else PropertyReport))"

definition config_time :: "lib \<Rightarrow> anymap \<Rightarrow> anymap \<Rightarrow> int \<Rightarrow> int" where
  "config_time l config root received =
     (let unit = firstConfig l config ''timestampUnit'';
          found = (if firstConfig l config ''timestampPath'' \<noteq> []
            then lookupPath (AObj root) (firstConfig l config ''timestampPath'') else mget root ''timestamp'')
      in case found of Some v \<Rightarrow> configuredTimestamp l v unit received | None \<Rightarrow> received)"

text \<open>
  What every parser copies from the raw message. A json.RawMessage in the field Raw stands for the
  document it holds.
\<close>

definition message_of :: "raw_message \<Rightarrow> message_type \<Rightarrow> anymap \<Rightarrow> anymap \<Rightarrow> string gomap \<Rightarrow> anymap \<Rightarrow> standard_message" where
  "message_of raw kind properties event tags evidence =
     \<lparr>sm_MessageID = ''msg_'' @ trim_prefix (rm_MessageID raw) ''raw_'', sm_RawMessageID = rm_MessageID raw,
      sm_TenantID = rm_TenantID raw, sm_ProductID = rm_ProductID raw, sm_DeviceID = rm_DeviceID raw,
      sm_MessageType = kind, sm_Timestamp = rm_ReceivedAt raw, sm_Properties = properties, sm_Event = event,
      sm_Tags = tags, sm_Raw = evidence, sm_Parser = [], sm_ParserVersion = []\<rparr>"

definition ParseWithConfig_json :: "lib \<Rightarrow> raw_message \<Rightarrow> anymap \<Rightarrow> standard_message res" where
  "ParseWithConfig_json l raw config = (case li_json l (rm_Payload raw) of
     None \<Rightarrow> Inl (ErrText ''invalid JSON'')
   | Some (AObj root) \<Rightarrow>
       bind_res (config_properties l config root) (\<lambda>properties.
       bind_res (config_tags l config root) (\<lambda>tags.
       bind_res (config_event l config root) (\<lambda>event.
         Inr ((message_of raw (config_type l config root event) properties event tags
           [(''payloadFormat'', AStr ''json''), (''payload'', AObj root), (''mappingConfig'', AObj config)])
           \<lparr>sm_Timestamp := config_time l config root (rm_ReceivedAt raw)\<rparr>))))
   | Some _ \<Rightarrow> Inl (ErrText ''configurable JSON parser expects an object payload''))"

definition ConfigurableJSONParser :: "lib \<Rightarrow> parser" where
  "ConfigurableJSONParser l = \<lparr>pa_Name = ''configurable_json_parser'', pa_Version = ''1.0.0'',
     pa_Match = (\<lambda>m. equal_fold (mt_Protocol m) ''config-json'' \<and> equal_fold (mt_PayloadFormat m) ''json''),
     pa_Parse = (\<lambda>raw. ParseWithConfig_json l raw []), pa_ParseWithConfig = Some (ParseWithConfig_json l)\<rparr>"

section \<open>The hexadecimal parser\<close>

text \<open>A field before scaling: Go's uint64, int64, float64 or string.\<close>

datatype scalar = U64 "64 word" | I64 int | F64 "64 word" | Text string

fun scalar_any :: "scalar \<Rightarrow> any" where
  "scalar_any (U64 n) = AInt (uint n)"
| "scalar_any (I64 n) = AInt n"
| "scalar_any (F64 w) = AFloat64 w"
| "scalar_any (Text s) = AStr s"

text \<open>binary.ByteOrder on fields of any width: the value of the bytes, most significant first.\<close>

definition be_value :: "octet list \<Rightarrow> nat" where
  "be_value bs = foldl (\<lambda>a b. 256 * a + unat b) 0 bs"

definition ordered :: "bool \<Rightarrow> octet list \<Rightarrow> octet list" where
  "ordered big bs = (if big then bs else rev bs)"

definition f32_value :: "octet list \<Rightarrow> 64 word" where
  "f32_value bs = f64_of_f32 (word_of_nat (be_value bs))"

definition trim_right :: "char list \<Rightarrow> string \<Rightarrow> string" where
  "trim_right cs s = rev (dropWhile (\<lambda>c. c \<in> set cs) (rev s))"

definition scalar_field :: "string \<Rightarrow> bool \<Rightarrow> octet list \<Rightarrow> scalar res" where
  "scalar_field kind big data =
     (let need = (\<lambda>n x. if length data = n then Inr x else Inl (ErrText (kind @ '' requires length '' @ decimal (int n))));
          n = be_value (ordered big data)
      in if kind = ''uint8'' then need 1 (U64 (word_of_nat n))
         else if kind = ''int8'' then need 1 (I64 (sint (word_of_nat n :: 8 word)))
         else if kind = ''uint16'' then need 2 (U64 (word_of_nat n))
         else if kind = ''int16'' then need 2 (I64 (sint (word_of_nat n :: 16 word)))
         else if kind = ''uint32'' then need 4 (U64 (word_of_nat n))
         else if kind = ''int32'' then need 4 (I64 (sint (word_of_nat n :: 32 word)))
         else if kind = ''float32'' then need 4 (F64 (f32_value (ordered big data)))
         else if kind = ''ascii'' then Inr (Text (trim_right [nul, CHR '' ''] (string_of data)))
         else if kind = ''hex'' then Inr (Text (hex_upper data))
         else Inl (ErrText (''unsupported field type '' @ kind)))"

text \<open>function number has no case for uint64, so that a field of an unsigned type stays as it is.\<close>

fun scalar_number :: "lib \<Rightarrow> scalar \<Rightarrow> 64 word option" where
  "scalar_number l (U64 n) = None"
| "scalar_number l (I64 n) = Some (f64_of_int n)"
| "scalar_number l (F64 w) = Some w"
| "scalar_number l (Text s) = li_float l s"

definition decodeHexField :: "lib \<Rightarrow> octet list \<Rightarrow> anymap \<Rightarrow> any res" where
  "decodeHexField l data spec =
     (let kind = to_lower (go_sprint l (any_at spec ''type'')); kind = (if kind = [] then ''uint16'' else kind)
      in bind_res (scalar_field kind (equal_fold (go_sprint l (any_at spec ''endian'')) ''big'') data) (\<lambda>v.
           let scale = floatFrom l (any_at spec ''scale'')
           in Inr (if f64_eq scale 0 \<or> f64_eq scale f64_one then scalar_any v
                else (case scalar_number l v of Some n \<Rightarrow> AFloat64 (li_mul l n scale) | None \<Rightarrow> scalar_any v))))"

definition hex_text :: "string \<Rightarrow> string" where
  "hex_text payload = filter (\<lambda>c. c \<notin> set [CHR 0x22, CHR '' '', CHR 0x0D, CHR 0x0A, CHR 0x09]) payload"

definition hex_config :: "lib \<Rightarrow> anymap \<Rightarrow> string \<Rightarrow> octet list option" where
  "hex_config l config k = hex_decode (filter (\<lambda>c. c \<noteq> CHR '' '') (firstConfig l config k))"

definition check_start :: "lib \<Rightarrow> anymap \<Rightarrow> octet list \<Rightarrow> unit res" where
  "check_start l config data = must (firstConfig l config ''startHex'' = [] \<or>
     (case hex_config l config ''startHex'' of None \<Rightarrow> False
      | Some p \<Rightarrow> length p \<le> length data \<and> take (length p) data = p))
     (ErrText ''hex payload does not match configured startHex'')"

definition check_end :: "lib \<Rightarrow> anymap \<Rightarrow> octet list \<Rightarrow> unit res" where
  "check_end l config data = must (firstConfig l config ''endHex'' = [] \<or>
     (case hex_config l config ''endHex'' of None \<Rightarrow> False
      | Some p \<Rightarrow> length p \<le> length data \<and> drop (length data - length p) data = p))
     (ErrText ''hex payload does not match configured endHex'')"

text \<open>The checksum; a start offset outside the data makes the slice expression panic.\<close>

definition panic :: error where
  "panic = ErrText ''runtime error: slice bounds out of range''"

definition check_sum :: "lib \<Rightarrow> anymap \<Rightarrow> octet list \<Rightarrow> unit res" where
  "check_sum l config data =
     (if \<not> equal_fold (firstConfig l config ''checksum'') ''sum8'' then Inr ()
      else let tail = (if firstConfig l config ''endHex'' = [] then 0
             else case hex_config l config ''endHex'' of Some p \<Rightarrow> length p | None \<Rightarrow> 0);
               start = (if firstConfig l config ''checksumStartOffset'' = [] then 0
                 else configInt l config ''checksumStartOffset'' 0)
        in if length data < tail + 1 then Inl (ErrText ''hex checksum position is invalid'')
           else let at = length data - tail - 1
             in if start < 0 \<or> int at < start then Inl panic
                else must (data ! at = checksum (drop (nat start) (take at data))) (ErrText ''hex checksum mismatch''))"

fun hex_fields :: "lib \<Rightarrow> octet list \<Rightarrow> any list \<Rightarrow> anymap \<Rightarrow> anymap res" where
  "hex_fields l data [] out = Inr out"
| "hex_fields l data (f # fs) out = (case f of
     AObj field \<Rightarrow>
       (let name = go_sprint l (any_at field ''name''); offset = intFrom l (any_at field ''offset'');
            len = intFrom l (any_at field ''length''); stop = sint (word_of_int (offset + len) :: 64 word)
        in if name = [] \<or> offset < 0 \<or> len \<le> 0 \<or> int (length data) < stop
           then Inl (ErrText ''field has an invalid name, offset or length'')
           else if stop < offset then Inl panic
           else (case decodeHexField l (take (nat len) (drop (nat offset) data)) field of
               Inl e \<Rightarrow> Inl (ErrWrap (''field '' @ name) e)
             | Inr v \<Rightarrow> hex_fields l data fs (mput out name v)))
   | _ \<Rightarrow> Inl (ErrText ''field must be an object''))"

definition ParseWithConfig_hex :: "lib \<Rightarrow> raw_message \<Rightarrow> anymap \<Rightarrow> standard_message res" where
  "ParseWithConfig_hex l raw config =
     bind_res (some_or (hex_decode (hex_text (rm_Payload raw))) (ErrText ''invalid hex payload'')) (\<lambda>data.
     bind_res (check_start l config data) (\<lambda>_.
     bind_res (check_end l config data) (\<lambda>_.
     bind_res (check_sum l config data) (\<lambda>_.
       case mget config ''fields'' of
         Some (AArr fs) \<Rightarrow>
           bind_res (hex_fields l data fs []) (\<lambda>properties.
             Inr (message_of raw
               (if firstConfig l config ''messageType'' = [] then PropertyReport
                else to_upper (firstConfig l config ''messageType''))
               properties [] [] [(''payloadFormat'', AStr ''hex''),
                 (''payload'', AStr (to_upper (hex_text (rm_Payload raw)))), (''mappingConfig'', AObj config)]))
       | _ \<Rightarrow> Inl (ErrText ''configurable hex parser requires a fields array'')))))"

definition ConfigurableHexParser :: "lib \<Rightarrow> parser" where
  "ConfigurableHexParser l = \<lparr>pa_Name = ''configurable_hex_parser'', pa_Version = ''1.0.0'',
     pa_Match = (\<lambda>m. equal_fold (mt_Protocol m) ''config-hex'' \<and> equal_fold (mt_PayloadFormat m) ''hex''),
     pa_Parse = (\<lambda>raw. ParseWithConfig_hex l raw []), pa_ParseWithConfig = Some (ParseWithConfig_hex l)\<rparr>"

end
