(* ===== verification/Modbus_Parse.thy ===== *)
theory Modbus_Parse
  imports Configurable Modbus_Frame Components
begin

text \<open>
  The parsers of Modbus responses (internal/parser/modbus_tcp.go, modbus_rtu.go, modbus_coil.go): the
  point table in the configuration decoded from JSON, the checks of the response, and the values of
  the points whose registers or bits it holds. An index that Go checks at run time is a panic.
\<close>

section \<open>Payload\<close>

definition decodeHexPayload :: "string \<Rightarrow> octet list res" where
  "decodeHexPayload payload =
     (let text = (case unmarshal_text payload of Some s \<Rightarrow> s | None \<Rightarrow> trim_chars [CHR 0x22] payload)
      in some_or (hex_decode (filter (\<lambda>c. c \<notin> set [CHR '' '', CHR 0x0D, CHR 0x0A, CHR 0x09]) (trim_space text)))
           (ErrText ''invalid hex payload''))"

definition metadataInt :: "anymap \<Rightarrow> string \<Rightarrow> int option" where
  "metadataInt m k = (case mget m k of
     Some (AInt n) \<Rightarrow> Some n | Some (AFloat64 w) \<Rightarrow> f64_int w | Some (AStr s) \<Rightarrow> atoi (trim_space s) | _ \<Rightarrow> None)"

section \<open>Points\<close>

text \<open>json.Unmarshal of one field of a ModbusPoint: null leaves it, another type is an error.\<close>

definition json_str :: "string \<Rightarrow> any \<Rightarrow> string option" where
  "json_str old v = (case v of AStr s \<Rightarrow> Some s | ANil \<Rightarrow> Some old | _ \<Rightarrow> None)"

definition json_int :: "int \<Rightarrow> any \<Rightarrow> int option" where
  "json_int old v = (case v of ANil \<Rightarrow> Some old | _ \<Rightarrow> decode_int64 v)"

definition json_float :: "64 word \<Rightarrow> any \<Rightarrow> 64 word option" where
  "json_float old v = (case v of AFloat64 w \<Rightarrow> Some w | AInt n \<Rightarrow> Some (f64_of_int n) | ANil \<Rightarrow> Some old | _ \<Rightarrow> None)"

definition decode_point_field :: "modbus_point \<Rightarrow> string \<times> any \<Rightarrow> modbus_point option" where
  "decode_point_field p e =
     (let k = to_lower (fst e); v = snd e
      in if k = ''identifier'' then map_option (\<lambda>x. p\<lparr>mp_Identifier := x\<rparr>) (json_str (mp_Identifier p) v)
         else if k = ''name'' then map_option (\<lambda>x. p\<lparr>mp_Name := x\<rparr>) (json_str (mp_Name p) v)
         else if k = ''functioncode'' then map_option (\<lambda>x. p\<lparr>mp_FunctionCode := x\<rparr>) (json_int (mp_FunctionCode p) v)
         else if k = ''address'' then map_option (\<lambda>x. p\<lparr>mp_Address := x\<rparr>) (json_int (mp_Address p) v)
         else if k = ''addressnotation'' then map_option (\<lambda>x. p\<lparr>mp_AddressNotation := x\<rparr>) (json_str (mp_AddressNotation p) v)
         else if k = ''datatype'' then map_option (\<lambda>x. p\<lparr>mp_DataType := x\<rparr>) (json_str (mp_DataType p) v)
         else if k = ''registercount'' then map_option (\<lambda>x. p\<lparr>mp_RegisterCount := x\<rparr>) (json_int (mp_RegisterCount p) v)
         else if k = ''byteorder'' then map_option (\<lambda>x. p\<lparr>mp_ByteOrder := x\<rparr>) (json_str (mp_ByteOrder p) v)
         else if k = ''wordorder'' then map_option (\<lambda>x. p\<lparr>mp_WordOrder := x\<rparr>) (json_str (mp_WordOrder p) v)
         else if k = ''bit'' then (case v of ANil \<Rightarrow> Some (p\<lparr>mp_Bit := None\<rparr>)
           | _ \<Rightarrow> map_option (\<lambda>x. p\<lparr>mp_Bit := Some x\<rparr>) (decode_int64 v))
         else if k = ''scale'' then map_option (\<lambda>x. p\<lparr>mp_Scale := x\<rparr>) (json_float (mp_Scale p) v)
         else if k = ''offset'' then map_option (\<lambda>x. p\<lparr>mp_Offset := x\<rparr>) (json_float (mp_Offset p) v)
         else if k = ''unit'' then map_option (\<lambda>x. p\<lparr>mp_Unit := x\<rparr>) (json_str (mp_Unit p) v)
         else if k = ''access'' then map_option (\<lambda>x. p\<lparr>mp_Access := x\<rparr>) (json_str (mp_Access p) v)
         else if k = ''pollintervalsec'' then map_option (\<lambda>x. p\<lparr>mp_PollIntervalSec := x\<rparr>) (json_int (mp_PollIntervalSec p) v)
         else if k = ''deadband'' then map_option (\<lambda>x. p\<lparr>mp_Deadband := x\<rparr>) (json_float (mp_Deadband p) v)
         else if k = ''alarmmapping'' then (case v of ANil \<Rightarrow> Some (p\<lparr>mp_AlarmMapping := []\<rparr>)
           | AObj m \<Rightarrow> Some (p\<lparr>mp_AlarmMapping := fold (\<lambda>e m. mput m (fst e) (json_any (snd e))) m (mp_AlarmMapping p)\<rparr>) | _ \<Rightarrow> None)
         else if k = ''description'' then map_option (\<lambda>x. p\<lparr>mp_Description := x\<rparr>) (json_str (mp_Description p) v)
         else Some p)"

definition zero_point :: modbus_point where
  "zero_point = \<lparr>mp_Identifier = [], mp_Name = [], mp_FunctionCode = 0, mp_Address = 0, mp_AddressNotation = [],
     mp_DataType = [], mp_RegisterCount = 0, mp_ByteOrder = [], mp_WordOrder = [], mp_Bit = None, mp_Scale = 0,
     mp_Offset = 0, mp_Unit = [], mp_Access = [], mp_PollIntervalSec = 0, mp_Deadband = 0, mp_AlarmMapping = [],
     mp_Description = []\<rparr>"

fun decode_point_fields :: "modbus_point \<Rightarrow> anymap \<Rightarrow> modbus_point option" where
  "decode_point_fields p [] = Some p"
| "decode_point_fields p (e # es) =
     (case decode_point_field p e of None \<Rightarrow> None | Some q \<Rightarrow> decode_point_fields q es)"

fun decode_point_list :: "any list \<Rightarrow> modbus_point list option" where
  "decode_point_list [] = Some []"
| "decode_point_list (x # xs) = (case (case x of
       AObj es \<Rightarrow> decode_point_fields zero_point (sort_key fst es) | ANil \<Rightarrow> Some zero_point | _ \<Rightarrow> None) of
     None \<Rightarrow> None
   | Some p \<Rightarrow> (case decode_point_list xs of None \<Rightarrow> None | Some ps \<Rightarrow> Some (p # ps)))"

definition modbusTCPPoints :: "any \<Rightarrow> modbus_point list res" where
  "modbusTCPPoints v =
     (if \<not> json_ok v then Inl (ErrText ''json: unsupported value'')
      else case (case v of AArr xs \<Rightarrow> decode_point_list xs | ANil \<Rightarrow> Some [] | _ \<Rightarrow> None) of
             None \<Rightarrow> Inl (ErrText ''decode Modbus points'')
           | Some [] \<Rightarrow> Inl (ErrText ''modbus tcp parser requires points'')
           | Some ps \<Rightarrow> Inr ps)"

section \<open>Register values\<close>

text \<open>A bool, the uint16 of type bits, or a number or text.\<close>

datatype register_value = RBool bool | RBits "16 word" | RScalar scalar

fun register_any :: "register_value \<Rightarrow> any" where
  "register_any (RBool b) = ABool b"
| "register_any (RBits w) = AInt (uint w)"
| "register_any (RScalar s) = scalar_any s"

fun swap_bytes :: "octet list \<Rightarrow> octet list" where
  "swap_bytes (a # b # bs) = b # a # swap_bytes bs"
| "swap_bytes bs = bs"

definition reorderModbusWords :: "octet list \<Rightarrow> string \<Rightarrow> octet list" where
  "reorderModbusWords d order =
     (let pick = map (\<lambda>i. d ! i)
      in if length d = 4 \<and> order = ''CDAB'' then pick [2, 3, 0, 1]
         else if length d = 4 \<and> order = ''BADC'' then pick [1, 0, 3, 2]
         else if length d = 4 \<and> order = ''DCBA'' then pick [3, 2, 1, 0]
         else if length d = 8 \<and> order = ''GHEFCDAB'' then pick [6, 7, 4, 5, 2, 3, 0, 1]
         else if length d = 8 \<and> order = ''BADCFEHG'' then pick [1, 0, 3, 2, 5, 4, 7, 6]
         else if length d = 8 \<and> order = ''HGFEDCBA'' then pick [7, 6, 5, 4, 3, 2, 1, 0]
         else d)"

definition point_bytes :: "octet list \<Rightarrow> modbus_point \<Rightarrow> octet list" where
  "point_bytes d p = reorderModbusWords (if equal_fold (mp_ByteOrder p) ''little'' then swap_bytes d else d)
     (to_upper (trim_space (mp_WordOrder p)))"

definition register_value :: "octet list \<Rightarrow> modbus_point \<Rightarrow> register_value res" where
  "register_value d p =
     (let bs = point_bytes d p; kind = to_lower (mp_DataType p);
          need = (\<lambda>n x. if n \<le> length bs then Inr x else Inl panic);
          v = (\<lambda>n. be_value (take n bs))
      in if kind = ''bool'' then need 2 (RBool (v 2 \<noteq> 0))
         else if kind = ''bits'' then need 2 (RBits (word_of_nat (v 2)))
         else if kind = ''uint16'' then need 2 (RScalar (U64 (word_of_nat (v 2))))
         else if kind = ''int16'' then need 2 (RScalar (I64 (sint (word_of_nat (v 2) :: 16 word))))
         else if kind = ''uint32'' then need 4 (RScalar (U64 (word_of_nat (v 4))))
         else if kind = ''int32'' then need 4 (RScalar (I64 (sint (word_of_nat (v 4) :: 32 word))))
         else if kind = ''float32'' then need 4 (RScalar (F64 (f32_value (take 4 bs))))
         else if kind = ''uint64'' then need 8 (RScalar (U64 (word_of_nat (v 8))))
         else if kind = ''int64'' then need 8 (RScalar (I64 (sint (word_of_nat (v 8) :: 64 word))))
         else if kind = ''float64'' then need 8 (RScalar (F64 (word_of_nat (v 8))))
         else if kind = ''string'' then Inr (RScalar (Text (trim_right [nul, CHR '' ''] (string_of bs))))
         else Inl (ErrText (''unsupported dataType '' @ mp_DataType p)))"

fun numericUint64 :: "register_value \<Rightarrow> 64 word option" where
  "numericUint64 (RScalar (U64 n)) = Some n"
| "numericUint64 (RScalar (I64 n)) = (if 0 \<le> n then Some (word_of_int n) else None)"
| "numericUint64 _ = None"

fun numericFloat64 :: "register_value \<Rightarrow> 64 word option" where
  "numericFloat64 (RScalar (U64 n)) = Some (f64_of_int (uint n))"
| "numericFloat64 (RScalar (I64 n)) = Some (f64_of_int n)"
| "numericFloat64 (RScalar (F64 w)) = Some w"
| "numericFloat64 _ = None"

definition scaled :: "lib \<Rightarrow> modbus_point \<Rightarrow> 64 word \<Rightarrow> 64 word" where
  "scaled l p n = li_muladd l n (if f64_eq (mp_Scale p) 0 then f64_one else mp_Scale p) (mp_Offset p)"

definition decodeModbusRegisterValue :: "lib \<Rightarrow> octet list \<Rightarrow> modbus_point \<Rightarrow> any res" where
  "decodeModbusRegisterValue l d p = bind_res (register_value d p) (\<lambda>v.
     case mp_Bit p of
       Some b \<Rightarrow> (case numericUint64 v of
           None \<Rightarrow> Inl (ErrText ''bit extraction requires an integer data type'')
         | Some raw \<Rightarrow> Inr (ABool (0 \<le> b \<and> b < 64 \<and> raw AND push_bit (nat b) 1 \<noteq> 0)))
     | None \<Rightarrow> Inr (case numericFloat64 v of Some n \<Rightarrow> AFloat64 (scaled l p n) | None \<Rightarrow> register_any v))"

definition modbusAlarm :: "lib \<Rightarrow> anymap \<Rightarrow> any \<Rightarrow> string option" where
  "modbusAlarm l mapping v =
     (let keys = go_sprint l v # (case v of ABool b \<Rightarrow> [if b then ''1'' else ''0''] | _ \<Rightarrow> [])
      in map_option (\<lambda>k. go_sprint l (any_at mapping k)) (find (\<lambda>k. mget mapping k \<noteq> None) keys))"

section \<open>Modbus TCP\<close>

text \<open>The properties, the event and the type of the message so far.\<close>

type_synonym parsed = "anymap \<times> anymap \<times> message_type"

text \<open>
  The value of one point in a response with n bytes of data, from the index 9 on, that start at an address;
  None when it is not in them. The offset and the length in bytes wrap around as Go's int does; the slice
  panics when it does not begin in the frame or ends before its beginning (it cannot end behind the frame,
  since what was compared with n is where it ends).
\<close>

definition point_value :: "lib \<Rightarrow> octet list \<Rightarrow> int \<Rightarrow> int \<Rightarrow> int \<Rightarrow> modbus_point \<Rightarrow> any option res" where
  "point_value l frame n fc start p =
     (let width = (if fc \<le> 2 \<or> mp_RegisterCount p \<le> 0 then 1 else mp_RegisterCount p)
      in if mp_FunctionCode p \<noteq> fc \<or> mp_Address p < start then Inr None
         else let at = mp_Address p - start
           in if fc \<le> 2
              then if n * 8 \<le> at then Inr None
                else Inr (Some (ABool (frame ! (9 + nat (at div 8)) AND push_bit (nat (at mod 8)) 1 \<noteq> 0)))
              else let off = go_int (at * 2); len = go_int (width * 2); first = go_int (9 + off); last = go_int (first + len)
                in if n < go_int (off + len) then Inr None
                   else if first < 0 \<or> last < first then Inl panic
                   else (case decodeModbusRegisterValue l (take (nat (last - first)) (drop (nat first) frame)) p of
                       Inl e \<Rightarrow> Inl (ErrWrap (''point '' @ mp_Identifier p) e) | Inr v \<Rightarrow> Inr (Some v)))"

definition add_value :: "lib \<Rightarrow> modbus_point \<Rightarrow> any \<Rightarrow> parsed \<Rightarrow> parsed" where
  "add_value l p v r = (case r of (properties, event, kind) \<Rightarrow>
     let properties = mput properties (mp_Identifier p) v
     in case modbusAlarm l (mp_AlarmMapping p) v of
          None \<Rightarrow> (properties, event, kind)
        | Some alarm \<Rightarrow> (properties, mput (mput (mput event ''alarmType'' (AStr alarm)) ''point'' (AStr (mp_Identifier p)))
            ''value'' v, AlarmReport))"

fun parse_points :: "lib \<Rightarrow> octet list \<Rightarrow> int \<Rightarrow> int \<Rightarrow> int \<Rightarrow> modbus_point list \<Rightarrow> parsed \<Rightarrow> parsed res" where
  "parse_points l frame n fc start [] r = Inr r"
| "parse_points l frame n fc start (p # ps) r = (case point_value l frame n fc start p of
     Inl e \<Rightarrow> Inl e
   | Inr None \<Rightarrow> parse_points l frame n fc start ps r
   | Inr (Some v) \<Rightarrow> parse_points l frame n fc start ps (add_value l p v r))"

text \<open>The checks of a response; its function code and byte count.\<close>

definition response_data :: "octet list \<Rightarrow> (int \<times> int) res" where
  "response_data frame =
     (if length frame < 9 then Inl (ErrText ''Modbus TCP response requires at least 9 bytes'')
      else if be16 frame 2 \<noteq> 0 then Inl (ErrText ''invalid Modbus TCP protocol id'')
      else if int (unat (be16 frame 4)) \<noteq> int (length frame) - 6 then Inl (ErrText ''Modbus TCP length mismatch'')
      else let fc = uint (frame ! 7)
        in if frame ! 7 AND 0x80 \<noteq> 0 then Inl (modbus_exception (frame ! 8))
           else if fc < 1 \<or> 4 < fc then Inl (ErrText ''unsupported Modbus function code'')
           else if frame ! 8 = 0 \<or> 9 + unat (frame ! 8) \<noteq> length frame
           then Inl (ErrText ''Modbus byte count does not match response'')
           else Inr (fc, uint (frame ! 8)))"

definition start_address :: "lib \<Rightarrow> raw_message \<Rightarrow> anymap \<Rightarrow> int" where
  "start_address l raw config = (case metadataInt (rm_Metadata raw) ''startAddress'' of
     Some n \<Rightarrow> n | None \<Rightarrow> configInt l config ''startAddress'' (-1))"

definition point_tags :: "raw_message \<Rightarrow> string gomap" where
  "point_tags raw = [(''protocolId'', rm_ProtocolID raw), (''protocolVersion'', rm_ProtocolVersion raw),
     (''pointTableVersion'', rm_PointTableVersion raw)]"

definition ParseWithConfig_tcp :: "lib \<Rightarrow> raw_message \<Rightarrow> anymap \<Rightarrow> standard_message res" where
  "ParseWithConfig_tcp l raw config =
     bind_res (modbusTCPPoints (any_at config ''points'')) (\<lambda>points.
     bind_res (decodeHexPayload (rm_Payload raw)) (\<lambda>frame.
     bind_res (response_data frame) (\<lambda>(fc, n).
     let start = start_address l raw config
     in bind_res (must (0 \<le> start) (ErrText ''raw metadata.startAddress is required'')) (\<lambda>_.
     bind_res (parse_points l frame n fc start points ([], [], PropertyReport)) (\<lambda>(properties, event, kind).
       if properties = [] then Inl (ErrText ''no points matched'')
       else Inr (message_of raw kind properties event (point_tags raw)
         [(''payloadFormat'', AStr ''hex''), (''payload'', AStr (to_upper (trim_chars [CHR 0x22] (rm_Payload raw)))),
          (''metadata'', AObj (rm_Metadata raw))]))))))"

definition ModbusTCPParser :: "lib \<Rightarrow> parser" where
  "ModbusTCPParser l = \<lparr>pa_Name = ''modbus_tcp_parser_v2'', pa_Version = ''2.0.0'', pa_Match = (\<lambda>_. False),
     pa_Parse = (\<lambda>_. Inl (ErrText ''modbus tcp parser requires a versioned point table'')),
     pa_ParseWithConfig = Some (ParseWithConfig_tcp l)\<rparr>"

section \<open>Modbus RTU\<close>

text \<open>json.Marshal of hex.EncodeToString.\<close>

definition marshal_hex_lower :: "octet list \<Rightarrow> string" where
  "marshal_hex_lower xs = CHR 0x22 # to_lower (hex_upper xs) @ [CHR 0x22]"

definition ParseWithConfig_rtu :: "lib \<Rightarrow> raw_message \<Rightarrow> anymap \<Rightarrow> standard_message res" where
  "ParseWithConfig_rtu l raw config =
     bind_res (decodeHexPayload (rm_Payload raw)) (\<lambda>frame.
     bind_res (Validate_rtu frame) (\<lambda>_.
       let pdu = take (length frame - 2) frame; header = [0, 0, 0, 0] @ put_be16 (word_of_nat (length frame - 2))
       in bind_res (ParseWithConfig_tcp l (raw\<lparr>rm_Payload := marshal_hex_lower (header @ pdu)\<rparr>) config) (\<lambda>m.
            Inr (m\<lparr>sm_Raw := mput (mput (sm_Raw m) ''payload'' (AStr (rm_Payload raw))) ''transport'' (AStr ''MODBUS_RTU'')\<rparr>))))"

definition ModbusRTUParser :: "lib \<Rightarrow> parser" where
  "ModbusRTUParser l = \<lparr>pa_Name = ''modbus_rtu_parser_v2'', pa_Version = ''2.0.0'', pa_Match = (\<lambda>_. False),
     pa_Parse = (\<lambda>_. Inl (ErrText ''Modbus RTU requires a versioned point table'')),
     pa_ParseWithConfig = Some (ParseWithConfig_rtu l)\<rparr>"

section \<open>Coils by configured fields\<close>

text \<open>The digits of a coil address after optional letters and white space, as the regular expression finds them.\<close>

definition coil_digits :: "string \<Rightarrow> string option" where
  "coil_digits s =
     (let letter = (\<lambda>c. c \<in> {CHR ''A'' .. CHR ''Z''} \<or> c \<in> {CHR ''a'' .. CHR ''z''});
          space = (\<lambda>c. c \<in> set [CHR '' '', CHR 0x09, CHR 0x0A, CHR 0x0C, CHR 0x0D]);
          d = dropWhile space (dropWhile letter s)
      in if d \<noteq> [] \<and> list_all (\<lambda>c. c \<in> {CHR ''0'' .. CHR ''9''}) d then Some d else None)"

fun coil_address :: "lib \<Rightarrow> anymap \<Rightarrow> string list \<Rightarrow> int \<times> bool" where
  "coil_address l field [] = (0, False)"
| "coil_address l field (k # ks) = (case any_at field k of
     ANil \<Rightarrow> coil_address l field ks
   | AFloat64 w \<Rightarrow> (f64_trunc l w, \<not> f64_less w 0 \<and> f64_int w \<noteq> None)
   | AInt n \<Rightarrow> (n, 0 \<le> n)
   | v \<Rightarrow> (case coil_digits (trim_space (go_sprint l v)) of
       None \<Rightarrow> coil_address l field ks
     | Some d \<Rightarrow> (atoi_value d, atoi d \<noteq> None)))"

definition parseCoilAddress :: "lib \<Rightarrow> anymap \<Rightarrow> int \<times> bool" where
  "parseCoilAddress l field = coil_address l field [''coilAddress'', ''address'', ''modbusAddress'']"

definition modbusCoilFieldAddress :: "lib \<Rightarrow> anymap \<Rightarrow> int" where
  "modbusCoilFieldAddress l field = fst (parseCoilAddress l field)"

definition fieldName :: "lib \<Rightarrow> anymap \<Rightarrow> string" where
  "fieldName l field = trim_space (go_sprint l (any_at field ''name''))"

definition validModbusMessageType :: "message_type \<Rightarrow> bool" where
  "validModbusMessageType v \<longleftrightarrow> v \<in> {PropertyReport, EventReport, StateChange, AlarmReport, CommandReply, LogReport}"

fun modbusCoilFields :: "any \<Rightarrow> anymap list res" where
  "modbusCoilFields (AArr xs) =
     (if list_all (\<lambda>x. case x of AObj _ \<Rightarrow> True | _ \<Rightarrow> False) xs
      then Inr (map (\<lambda>x. case x of AObj m \<Rightarrow> m | _ \<Rightarrow> []) xs) else Inl (ErrText ''field must be an object''))"
| "modbusCoilFields _ = Inl (ErrText ''modbus coil parser requires a fields array'')"

fun check_coil_fields :: "lib \<Rightarrow> int \<Rightarrow> string list \<Rightarrow> anymap list \<Rightarrow> unit res" where
  "check_coil_fields l start seen [] = Inr ()"
| "check_coil_fields l start seen (f # fs) =
     (let name = fieldName l f
      in if name = [] then Inl (ErrText ''field name is required'')
         else if name \<in> set seen then Inl (ErrText (''duplicate Modbus coil field '' @ name))
         else if \<not> snd (parseCoilAddress l f) \<or> fst (parseCoilAddress l f) < start
         then Inl (ErrText ''coilAddress is invalid'') else check_coil_fields l start (name # seen) fs)"

definition validateModbusCoilConfig :: "lib \<Rightarrow> anymap \<Rightarrow> anymap list res" where
  "validateModbusCoilConfig l config =
     (let kind = to_upper (firstConfig l config ''messageType'');
          frame = to_lower (trim_space (firstConfig l config ''frame'')); start = configInt l config ''startAddress'' 0
      in bind_res (must (kind = [] \<or> validModbusMessageType kind) (ErrText (''unsupported messageType '' @ kind))) (\<lambda>_.
         bind_res (must (frame \<in> {[], ''auto'', ''tcp'', ''rtu''}) (ErrText (''unsupported Modbus frame '' @ frame))) (\<lambda>_.
         bind_res (must (0 \<le> start) (ErrText ''modbus coil parser startAddress must not be negative'')) (\<lambda>_.
         bind_res (modbusCoilFields (any_at config ''fields'')) (\<lambda>fs.
         bind_res (check_coil_fields l start [] fs) (\<lambda>_. Inr fs))))))"

text \<open>The indexes of the data, the byte count and the function code.\<close>

definition modbusCoilFrame :: "octet list \<Rightarrow> string \<Rightarrow> (nat \<times> nat \<times> nat) res" where
  "modbusCoilFrame d frame =
     (let frame = (if frame = ''auto'' then if 9 \<le> length d \<and> d ! 2 = 0 \<and> d ! 3 = 0 \<and> d ! 7 \<noteq> 0 then ''tcp'' else ''rtu''
        else frame)
      in if frame = ''tcp''
         then if length d < 9 then Inl (ErrText ''Modbus TCP coil response requires at least 9 bytes'') else Inr (9, 8, 7)
         else if frame = ''rtu''
         then if length d < 4 then Inl (ErrText ''Modbus RTU coil response requires at least 4 bytes'') else Inr (3, 2, 1)
         else Inl (ErrText (''unsupported Modbus frame '' @ frame)))"

fun coil_values :: "lib \<Rightarrow> octet list \<Rightarrow> int \<Rightarrow> anymap list \<Rightarrow> anymap \<Rightarrow> anymap res" where
  "coil_values l d start [] out = Inr out"
| "coil_values l d start (f # fs) out =
     (let at = modbusCoilFieldAddress l f - start
      in if at < 0 then Inl (ErrText (''field '' @ fieldName l f @ '' is before startAddress''))
         else if int (length d) \<le> at div 8 then Inl (ErrText (''field '' @ fieldName l f @ '' is outside the response''))
         else coil_values l d start fs
           (mput out (fieldName l f) (ABool (d ! nat (at div 8) AND push_bit (nat (at mod 8)) 1 \<noteq> 0))))"

definition ParseWithConfig_coil :: "lib \<Rightarrow> raw_message \<Rightarrow> anymap \<Rightarrow> standard_message res" where
  "ParseWithConfig_coil l raw config =
     bind_res (validateModbusCoilConfig l config) (\<lambda>fs.
     bind_res (decodeHexPayload (rm_Payload raw)) (\<lambda>d.
     let f0 = to_lower (trim_space (firstConfig l config ''frame''))
     in bind_res (modbusCoilFrame d (if f0 = [] then ''auto'' else f0)) (\<lambda>(off, countIndex, functionIndex).
     let fc = configInt l config ''functionCode'' 1; n = unat (d ! countIndex)
     in bind_res (must (0 < fc \<and> fc \<le> 255) (ErrText ''modbus coil parser functionCode must be between 1 and 255'')) (\<lambda>_.
        bind_res (must (d ! functionIndex AND 0x80 = 0) (ErrText ''modbus exception response'')) (\<lambda>_.
        bind_res (must (uint (d ! functionIndex) = fc) (ErrText ''unexpected Modbus function code'')) (\<lambda>_.
        bind_res (must (0 < n \<and> off + n \<le> length d) (ErrText ''modbus coil byte count exceeds payload'')) (\<lambda>_.
        bind_res (coil_values l (take n (drop off d)) (configInt l config ''startAddress'' 0) fs []) (\<lambda>properties.
        let kind = to_upper (firstConfig l config ''messageType'')
        in Inr (message_of raw (if kind = [] then PropertyReport else kind) properties [] []
          [(''payloadFormat'', AStr ''hex''), (''payload'', AStr (to_upper (trim_chars [CHR 0x22] (rm_Payload raw)))),
           (''mappingConfig'', AObj config)])))))))))"

definition ModbusCoilParser :: "lib \<Rightarrow> parser" where
  "ModbusCoilParser l = \<lparr>pa_Name = ''modbus_coil_parser'', pa_Version = ''1.0.0'', pa_Match = (\<lambda>_. False),
     pa_Parse = (\<lambda>_. Inl (ErrText ''modbus coil parser requires a mapping configuration'')),
     pa_ParseWithConfig = Some (ParseWithConfig_coil l)\<rparr>"

end
