(* ===== verification/Lease_Service.thy ===== *)
theory Lease_Service
  imports Repo_Inv
begin

text \<open>
  Execution leases as an interface: what AcquireExecutionLease and ReleaseExecutionLease promise to the
  coordinators of the protocol runtimes, the fencing property that follows from those promises alone,
  and the in-memory repository as a provider of the interface.
\<close>

type_synonym 's acquire =
  "string \<Rightarrow> string \<Rightarrow> string \<Rightarrow> string \<Rightarrow> int \<Rightarrow> int \<Rightarrow> 's \<Rightarrow> (execution_lease \<times> bool) res \<times> 's"

type_synonym 's release = "execution_lease \<Rightarrow> 's \<Rightarrow> 's"

text \<open>The rows a grant and a release leave behind.\<close>

definition released_row :: "execution_lease \<Rightarrow> execution_lease \<Rightarrow> execution_lease" where
  "released_row l v = (if le_Owner v = le_Owner l \<and> le_Token v = le_Token l
     then v\<lparr>le_ExpiresAt := 0\<rparr> else v)"

text \<open>
  lookup s tenant resource is the stored lease row. An acquisition answers the row it stored with True,
  or changes nothing. A row that is not expired is only granted to its owner, under its token; an
  expired row is granted under the next token.
\<close>

locale lease_service =
  fixes acquire :: "'s acquire" and release :: "'s release"
    and lookup :: "'s \<Rightarrow> string \<Rightarrow> string \<Rightarrow> execution_lease option" and ok :: "'s \<Rightarrow> bool"
  assumes granted:
      "acquire t res ow ep ttl now s = (Inr (v, True), s') \<Longrightarrow> ok s \<Longrightarrow> nul_free t \<Longrightarrow>
         le_TenantID v = t \<and> le_Resource v = res \<and> le_Owner v = ow \<and> le_ExpiresAt v = now + ttl"
    and granted_lookup:
      "acquire t res ow ep ttl now s = (Inr (v, True), s') \<Longrightarrow> ok s \<Longrightarrow> nul_free t \<Longrightarrow> nul_free t' \<Longrightarrow>
         lookup s' t' res' = (if t' = t \<and> res' = res then Some v else lookup s t' res')"
    and granted_live:
      "acquire t res ow ep ttl now s = (Inr (v, True), s') \<Longrightarrow> ok s \<Longrightarrow> lookup s t res = Some w \<Longrightarrow>
         now < le_ExpiresAt w \<Longrightarrow> le_Owner w = ow \<and> le_Token v = le_Token w"
    and granted_expired:
      "acquire t res ow ep ttl now s = (Inr (v, True), s') \<Longrightarrow> ok s \<Longrightarrow> lookup s t res = Some w \<Longrightarrow>
         le_ExpiresAt w \<le> now \<Longrightarrow> le_Token v = le_Token w + 1"
    and refused:
      "acquire t res ow ep ttl now s = (x, s') \<Longrightarrow> (\<And>v. x \<noteq> Inr (v, True)) \<Longrightarrow> s' = s"
    and released:
      "ok s \<Longrightarrow> nul_free (le_TenantID l) \<Longrightarrow> nul_free t \<Longrightarrow> lookup (release l s) t res =
         (if t = le_TenantID l \<and> res = le_Resource l
          then map_option (released_row l) (lookup s t res) else lookup s t res)"
    and ok_acquire: "ok s \<Longrightarrow> nul_free t \<Longrightarrow> ok (snd (acquire t res ow ep ttl now s))"
    and ok_release: "ok s \<Longrightarrow> ok (release l s)"

section \<open>Histories of grants\<close>

text \<open>The grants of a run, the latest first, and the state it ends in; clocks may be arbitrary.\<close>

inductive lease_history ::
  "'s acquire \<Rightarrow> 's release \<Rightarrow> 's \<Rightarrow> execution_lease list \<Rightarrow> 's \<Rightarrow> bool"
  for acquire release s0 where
  init: "lease_history acquire release s0 [] s0"
| grant: "lease_history acquire release s0 gs s \<Longrightarrow> nul_free t \<Longrightarrow>
    acquire t res ow ep ttl now s = (Inr (v, True), s') \<Longrightarrow>
    lease_history acquire release s0 (v # gs) s'"
| refuse: "lease_history acquire release s0 gs s \<Longrightarrow> nul_free t \<Longrightarrow>
    acquire t res ow ep ttl now s = (x, s') \<Longrightarrow> (\<And>v. x \<noteq> Inr (v, True)) \<Longrightarrow>
    lease_history acquire release s0 gs s'"
| give_back: "lease_history acquire release s0 gs s \<Longrightarrow> nul_free (le_TenantID l) \<Longrightarrow>
    lease_history acquire release s0 gs (release l s)"

definition same_resource :: "execution_lease \<Rightarrow> execution_lease \<Rightarrow> bool" where
  "same_resource u v \<longleftrightarrow> le_TenantID u = le_TenantID v \<and> le_Resource u = le_Resource v"

text \<open>A row w that a grant v may precede: later token, or the same token of the same owner.\<close>

definition not_before :: "execution_lease \<Rightarrow> execution_lease \<Rightarrow> bool" where
  "not_before v w \<longleftrightarrow> le_Token v < le_Token w \<or> le_Token v = le_Token w \<and> le_Owner v = le_Owner w"

lemma not_before_trans: "not_before u v \<Longrightarrow> not_before v w \<Longrightarrow> not_before u w"
  by (auto simp: not_before_def)

lemma not_before_refl [simp]: "not_before v v"
  by (simp add: not_before_def)

lemma not_before_released: "not_before v w \<Longrightarrow> not_before v (released_row l w)"
  by (auto simp: not_before_def released_row_def)

context lease_service
begin

lemma grant_not_before:
  assumes "acquire t res ow ep ttl now s = (Inr (v, True), s')" "ok s" "nul_free t" "lookup s t res = Some w"
  shows "not_before w v"
  using granted [OF assms(1-3)] granted_live [OF assms(1,2,4)] granted_expired [OF assms(1,2,4)]
  by (cases "now < le_ExpiresAt w") (auto simp: not_before_def)

lemma history_inv:
  assumes "lease_history acquire release s0 gs s" "ok s0"
  shows "ok s \<and> (\<forall>v \<in> set gs. nul_free (le_TenantID v) \<and>
      (\<exists>w. lookup s (le_TenantID v) (le_Resource v) = Some w \<and> not_before v w)) \<and>
    sorted_wrt (\<lambda>u v. same_resource u v \<longrightarrow> not_before v u) gs"
  using assms
proof (induction rule: lease_history.induct)
  case init
  then show ?case by simp
next
  case (grant gs s t res ow ep ttl now v s')
  note IH = grant.IH [OF grant.prems]
  have ok: "ok s" using IH by simp
  note g = granted [OF grant.hyps(3) ok grant.hyps(2)]
  have look: "lookup s' (le_TenantID u) (le_Resource u) =
      (if same_resource u v then Some v else lookup s (le_TenantID u) (le_Resource u))"
    if "nul_free (le_TenantID u)" for u
    using granted_lookup [OF grant.hyps(3) ok grant.hyps(2) that] g by (simp add: same_resource_def)
  have older: "not_before u v" if u: "u \<in> set gs" "same_resource u v" for u
  proof -
    obtain w where w: "lookup s (le_TenantID u) (le_Resource u) = Some w" "not_before u w"
      using IH u(1) by blast
    have "lookup s t res = Some w" using w(1) u(2) g by (simp add: same_resource_def)
    then show ?thesis
      using grant_not_before [OF grant.hyps(3) ok grant.hyps(2)] not_before_trans [OF w(2)] by blast
  qed
  have rows: "\<exists>w. lookup s' (le_TenantID u) (le_Resource u) = Some w \<and> not_before u w"
    if u: "u \<in> set gs" for u
  proof (cases "same_resource u v")
    case True
    then show ?thesis using look [of u] older [OF u] IH u by simp
  next
    case False
    then show ?thesis using look [of u] IH u by simp
  qed
  have ok': "ok s'"
    using ok_acquire [OF ok grant.hyps(2), of res ow ep ttl now] grant.hyps(3) by simp
  have v: "nul_free (le_TenantID v)" "lookup s' (le_TenantID v) (le_Resource v) = Some v"
    using g grant.hyps(2) look [of v] by (simp_all add: same_resource_def)
  have sorted: "\<forall>u \<in> set gs. same_resource v u \<longrightarrow> not_before u v"
    using older by (simp add: same_resource_def)
  show ?case
    using ok' v rows sorted IH by simp
next
  case (refuse gs s t res ow ep ttl now x s')
  then show ?case using refused [OF refuse.hyps(3,4)] by simp
next
  case (give_back gs s l)
  note IH = give_back.IH [OF give_back.prems]
  have "\<exists>w. lookup (release l s) (le_TenantID v) (le_Resource v) = Some w \<and> not_before v w"
    if v: "v \<in> set gs" for v
  proof -
    obtain w where w: "lookup s (le_TenantID v) (le_Resource v) = Some w" "not_before v w"
      using IH v by blast
    have n: "ok s" "nul_free (le_TenantID v)" using IH v by blast+
    have "lookup (release l s) (le_TenantID v) (le_Resource v) =
        Some (if le_TenantID v = le_TenantID l \<and> le_Resource v = le_Resource l then released_row l w else w)"
      unfolding released [OF n(1) give_back.hyps(2) n(2)] w(1) by simp
    then show ?thesis using w(2) not_before_released [OF w(2), of l] by simp
  qed
  then show ?case using IH ok_release by simp
qed

lemma token_names_owner:
  assumes h: "lease_history acquire release s0 gs s" "ok s0"
    and u: "u \<in> set gs" "v \<in> set gs" "same_resource u v" "le_Token u = le_Token v"
  shows "le_Owner u = le_Owner v"
proof -
  have s: "sorted_wrt (\<lambda>u v. same_resource u v \<longrightarrow> not_before v u) gs"
    using history_inv [OF h] by simp
  obtain i j where i: "i < length gs" "gs ! i = u" and j: "j < length gs" "gs ! j = v"
    using u by (auto simp: in_set_conv_nth)
  have "same_resource v u" using u(3) by (simp add: same_resource_def)
  then have "not_before u v \<or> not_before v u"
    using sorted_wrt_nth_less [OF s, of i j] sorted_wrt_nth_less [OF s, of j i] i j u(3)
    by (cases "i < j"; cases "j < i") simp_all
  then show ?thesis using u(4) by (auto simp: not_before_def)
qed

end

section \<open>The in-memory repository as a lease service\<close>

definition lease_row :: "repo \<Rightarrow> string \<Rightarrow> string \<Rightarrow> execution_lease option" where
  "lease_row r t res = mget (r_leases r) (key [t, res])"

lemma lease_row_filed:
  assumes "leases_inv (r_leases r)" "nul_free t" "lease_row r t res = Some v"
  shows "le_TenantID v = t" "le_Resource v = res"
  using leases_invD [OF assms(1), of "key [t, res]" v] assms(2,3) key2_inject
  by (auto simp: lease_row_def lease_filed_def nul_free_def split_at_nul)

lemma AcquireExecutionLease_granted:
  assumes "AcquireExecutionLease t res ow ep ttl now r = (Inr (v, True), r')"
  shows "r' = r\<lparr>r_leases := mput (r_leases r) (key [t, res]) v\<rparr>" "le_Owner v = ow"
    "le_ExpiresAt v = now + ttl"
    "mget (r_leases r) (key [t, res]) = None \<Longrightarrow> le_TenantID v = t \<and> le_Resource v = res"
    "mget (r_leases r) (key [t, res]) = Some w \<Longrightarrow> le_TenantID v = le_TenantID w \<and>
       le_Resource v = le_Resource w \<and> (now < le_ExpiresAt w \<longrightarrow> le_Owner w = ow) \<and>
       le_Token v = (if now < le_ExpiresAt w then le_Token w else le_Token w + 1)"
  using assms unfolding AcquireExecutionLease_def Let_def mget_or_def
  by (simp_all split: if_split_asm option.split_asm del: key_simps; fastforce)+

lemma AcquireExecutionLease_refused:
  "AcquireExecutionLease t res ow ep ttl now s = (x, s') \<Longrightarrow> (\<And>v. x \<noteq> Inr (v, True)) \<Longrightarrow> s' = s"
  by (simp add: AcquireExecutionLease_def Let_def split: if_split_asm; blast)

lemma lease_row_mput:
  "nul_free t \<Longrightarrow> nul_free t' \<Longrightarrow> lease_row (r\<lparr>r_leases := mput (r_leases r) (key [t, res]) v\<rparr>) t' res' =
     (if t' = t \<and> res' = res then Some v else lease_row r t' res')"
  by (auto simp: lease_row_def nul_free_def split_at_nul)

lemma memory_granted:
  assumes a: "AcquireExecutionLease t res ow ep ttl now s = (Inr (v, True), s')"
    and inv: "leases_inv (r_leases s)" and t: "nul_free t"
  shows "le_TenantID v = t \<and> le_Resource v = res \<and> le_Owner v = ow \<and> le_ExpiresAt v = now + ttl"
proof (cases "mget (r_leases s) (key [t, res])")
  case None
  then show ?thesis using AcquireExecutionLease_granted(2-4) [OF a] by blast
next
  case (Some w)
  then show ?thesis
    using AcquireExecutionLease_granted(2,3) [OF a] AcquireExecutionLease_granted(5) [OF a Some]
      lease_row_filed [OF inv t, of res w] by (simp add: lease_row_def)
qed

interpretation memory_leases:
  lease_service AcquireExecutionLease ReleaseExecutionLease lease_row "\<lambda>r. leases_inv (r_leases r)"
proof unfold_locales
  show "le_TenantID v = t \<and> le_Resource v = res \<and> le_Owner v = ow \<and> le_ExpiresAt v = now + ttl"
    if "AcquireExecutionLease t res ow ep ttl now s = (Inr (v, True), s')" "leases_inv (r_leases s)"
      "nul_free t" for t res ow ep ttl now s v s'
    by (rule memory_granted [OF that])
  show "lease_row s' t' res' = (if t' = t \<and> res' = res then Some v else lease_row s t' res')"
    if "AcquireExecutionLease t res ow ep ttl now s = (Inr (v, True), s')" "leases_inv (r_leases s)"
      "nul_free t" "nul_free t'" for t res ow ep ttl now s v s' t' res'
    unfolding AcquireExecutionLease_granted(1) [OF that(1)] by (rule lease_row_mput [OF that(3,4)])
  show "le_Owner w = ow \<and> le_Token v = le_Token w"
    if "AcquireExecutionLease t res ow ep ttl now s = (Inr (v, True), s')" "leases_inv (r_leases s)"
      "lease_row s t res = Some w" "now < le_ExpiresAt w" for t res ow ep ttl now s v s' w
    using AcquireExecutionLease_granted(5) [OF that(1), of w] that(3,4) by (simp add: lease_row_def)
  show "le_Token v = le_Token w + 1"
    if "AcquireExecutionLease t res ow ep ttl now s = (Inr (v, True), s')" "leases_inv (r_leases s)"
      "lease_row s t res = Some w" "le_ExpiresAt w \<le> now" for t res ow ep ttl now s v s' w
    using AcquireExecutionLease_granted(5) [OF that(1), of w] that(3,4) by (simp add: lease_row_def)
  show "s' = s" if "AcquireExecutionLease t res ow ep ttl now s = (x, s')" "\<And>v. x \<noteq> Inr (v, True)"
    for t res ow ep ttl now s x s'
    by (rule AcquireExecutionLease_refused [OF that])
  show "lease_row (ReleaseExecutionLease l s) t res = (if t = le_TenantID l \<and> res = le_Resource l
      then map_option (released_row l) (lease_row s t res) else lease_row s t res)"
    if "leases_inv (r_leases s)" "nul_free (le_TenantID l)" "nul_free t" for s l t res
    using that(2,3) lease_row_mput [OF that(2,3), of s "le_Resource l"]
    by (simp add: ReleaseExecutionLease_def Let_def released_row_def lease_row_def
        del: key_simps split: option.split)
  show "leases_inv (r_leases (snd (AcquireExecutionLease t res ow ep ttl now s)))"
    if "leases_inv (r_leases s)" "nul_free t" for s t res ow ep ttl now
    by (rule AcquireExecutionLease_inv [OF that])
  show "leases_inv (r_leases (ReleaseExecutionLease l s))" if "leases_inv (r_leases s)" for s l
    by (rule ReleaseExecutionLease_inv [OF that])
qed

text \<open>
  C28. Lease tokens fence: over any history of acquisitions and releases by any owners, with any clock
  readings, two grants of one resource that carry the same token went to the same owner.
\<close>
theorem lease_token_names_owner:
  assumes "lease_history AcquireExecutionLease ReleaseExecutionLease NewRepository gs r"
    and "u \<in> set gs" "v \<in> set gs" "same_resource u v" "le_Token u = le_Token v"
  shows "le_Owner u = le_Owner v"
  using repo_inv_start by (intro memory_leases.token_names_owner [OF assms(1) _ assms(2-5)])
    (simp add: repo_inv_def)

theorem lease_token_names_owner_witness:
  "\<exists>gs r u v. lease_history AcquireExecutionLease ReleaseExecutionLease NewRepository gs r \<and>
     u \<in> set gs \<and> v \<in> set gs \<and> u \<noteq> v \<and> le_Owner u = le_Owner v"
proof -
  let ?a = "AcquireExecutionLease ''t'' ''profile/p'' ''o1'' ''e''"
  let ?u = "\<lparr>le_TenantID = ''t'', le_Resource = ''profile/p'', le_Owner = ''o1'', le_Endpoint = ''e'',
     le_Token = 1, le_ExpiresAt = 10100\<rparr>"
  let ?v = "?u\<lparr>le_ExpiresAt := 10200\<rparr>"
  obtain r1 where r1: "?a 10000 100 NewRepository = (Inr (?u, True), r1)" "r_leases r1 = mput [] (key [''t'', ''profile/p'']) ?u"
    by (simp add: AcquireExecutionLease_def NewRepository_def mget_or_def zero_execution_lease_def Let_def)
  obtain r2 where r2: "?a 10000 200 r1 = (Inr (?v, True), r2)"
    using r1(2) by (simp add: AcquireExecutionLease_def mget_or_def Let_def)
  have t: "nul_free ''t''" by (simp add: nul_free_def nul_def)
  have h: "lease_history AcquireExecutionLease ReleaseExecutionLease NewRepository [?v, ?u] r2"
    by (rule lease_history.grant [of AcquireExecutionLease, OF _ t r2],
        rule lease_history.grant [of AcquireExecutionLease, OF _ t r1(1)], rule lease_history.init)
  have "le_Owner ?u = le_Owner ?v"
    by (rule lease_token_names_owner [OF h]) (simp_all add: same_resource_def)
  then show ?thesis using h by (intro exI [of _ "[?v, ?u]"] exI [of _ r2] exI [of _ ?u] exI [of _ ?v]) simp
qed

end
