(* ===== verification/Coordinator.thy ===== *)
theory Coordinator
  imports Lease_Service
begin

text \<open>
  The coordinator of the protocol runtimes (internal/protocolruntime/coordinator.go): a process holds a
  session per access profile while it holds the profile's execution lease. Sessions end at a local
  deadline of 8 seconds after the lease was asked for; the lease lasts 10 seconds. Several coordinators
  with different owner names share one lease service; every call may fail before or after it reaches
  the service. Times are milliseconds of one clock.
\<close>

section \<open>State and operations\<close>

record held_execution =
  he_lease :: execution_lease
  he_cancelled :: bool
  he_deadline :: int
  he_touched :: int

text \<open>h.ctx.Err() at a time: the session was cancelled, or the timer that cancels it has fired.\<close>

definition ctx_err :: "int \<Rightarrow> held_execution \<Rightarrow> bool" where
  "ctx_err now h \<longleftrightarrow> he_cancelled h \<or> he_deadline h \<le> now"

definition listenerKey :: "string \<Rightarrow> string \<Rightarrow> string" where
  "listenerKey tenant profile = key [tenant, profile]"

definition profile_resource :: "string \<Rightarrow> string" where
  "profile_resource i = ''profile/'' @ i"

text \<open>How a call to the repository ends: with its answer, with an error before it took effect, or
  with an error after it did.\<close>

datatype reply = Answered | Failed | Lost

text \<open>start is the time the call begins, now the time the lease service handles it.\<close>

definition Claim ::
  "'s acquire \<Rightarrow> string \<Rightarrow> string \<Rightarrow> reply \<Rightarrow> int \<Rightarrow> int \<Rightarrow> string \<Rightarrow> string \<Rightarrow>
     held_execution gomap \<Rightarrow> 's \<Rightarrow> (bool \<times> held_execution gomap) \<times> 's" where
  "Claim acquire owner endpoint reply start now tenant i held s =
     (let k = listenerKey tenant i
      in case (case mget held k of
                 None \<Rightarrow> None | Some h \<Rightarrow> if ctx_err start h then None else Some h) of
           Some h \<Rightarrow> ((True, mput held k (h\<lparr>he_touched := start\<rparr>)), s)
         | None \<Rightarrow>
             if reply = Failed then ((False, held), s)
             else (case acquire tenant (profile_resource i) owner endpoint 10000 now s of
                 (Inr (lease, True), s') \<Rightarrow>
                   if reply = Lost then ((False, held), s')
                   else ((True, mput held k \<lparr>he_lease = lease, he_cancelled = False,
                            he_deadline = start + 8000, he_touched = start\<rparr>), s')
               | (_, s') \<Rightarrow> ((False, held), s')))"

text \<open>One turn of the loop of Run over the held sessions: give an idle or ended session back, renew
  another one. A timer that fires while the renewal is under way leaves the session cancelled.\<close>

definition Renew ::
  "'s acquire \<Rightarrow> 's release \<Rightarrow> string \<Rightarrow> string \<Rightarrow> reply \<Rightarrow> int \<Rightarrow> int \<Rightarrow> string \<Rightarrow>
     held_execution gomap \<Rightarrow> 's \<Rightarrow> held_execution gomap \<times> 's" where
  "Renew acquire release owner endpoint reply start now k held s =
     (case mget held k of
        None \<Rightarrow> (held, s)
      | Some h \<Rightarrow>
          if start - he_touched h > 3000 \<or> ctx_err start h
          then (mdel held k, if reply = Failed then s else release (he_lease h) s)
          else if reply = Failed then (mdel held k, s)
          else (case acquire (le_TenantID (he_lease h)) (le_Resource (he_lease h)) owner endpoint
                  10000 now s of
              (Inr (lease, True), s') \<Rightarrow>
                if reply = Lost \<or> le_Token lease \<noteq> le_Token (he_lease h) then (mdel held k, s')
                else (mput held k (h\<lparr>he_lease := lease, he_cancelled := ctx_err now h,
                        he_deadline := start + 8000\<rparr>), s')
            | (_, s') \<Rightarrow> (mdel held k, s')))"

text \<open>The deferred loop of Run, for one session: cancel it, then release its lease.\<close>

definition Stop ::
  "'s release \<Rightarrow> reply \<Rightarrow> string \<Rightarrow> held_execution gomap \<Rightarrow> 's \<Rightarrow> held_execution gomap \<times> 's" where
  "Stop release reply k held s =
     (case mget held k of
        None \<Rightarrow> (held, s)
      | Some h \<Rightarrow> (mput held k (h\<lparr>he_cancelled := True\<rparr>),
          if reply = Failed then s else release (he_lease h) s))"

text \<open>Validate against the in-memory repository; alive is whether the caller's context is live. None
  is success.\<close>

definition Validate ::
  "string \<Rightarrow> bool \<Rightarrow> int \<Rightarrow> access_profile \<Rightarrow> held_execution gomap \<Rightarrow> repo \<Rightarrow> error option" where
  "Validate owner alive now p held r =
     (if \<not> alive then Some (ErrText ''context canceled'')
      else let token = (case mget held (listenerKey (ap_TenantID p) (ap_ID p)) of
                  None \<Rightarrow> 0 | Some h \<Rightarrow> le_Token (he_lease h))
           in case GetExecutionLease (ap_TenantID p) (profile_resource (ap_ID p)) now r of
                Inl e \<Rightarrow> Some (ErrText ''execution ownership lost'')
              | Inr current \<Rightarrow>
                  if le_Owner current \<noteq> owner \<or> le_Token current \<noteq> token
                  then Some (ErrText ''execution ownership lost'')
                  else (case GetDeviceAccessProfile (ap_TenantID p) (ap_ID p) r of
                      Inl e \<Rightarrow> Some (ErrText ''execution configuration changed'')
                    | Inr profile \<Rightarrow>
                        if Configuration profile \<noteq> Configuration p \<or> \<not> ap_Enabled profile
                        then Some (ErrText ''execution configuration changed'') else None))"

section \<open>Several coordinators and one lease service\<close>

record 's cluster =
  cl_now :: int
  cl_store :: 's
  cl_held :: "string \<Rightarrow> held_execution gomap"

text \<open>
  Steps of the cluster: the clock advances; a coordinator claims, renews or stops a session, with a
  call that began at some earlier time start; a session is cancelled by its parent context; another
  client changes the store.
\<close>

inductive cluster_step ::
  "'s acquire \<Rightarrow> 's release \<Rightarrow> ('s \<Rightarrow> 's \<Rightarrow> bool) \<Rightarrow> 's cluster \<Rightarrow> 's cluster \<Rightarrow> bool"
  for acquire release other where
  clock: "cl_now s \<le> t \<Longrightarrow> cluster_step acquire release other s (s\<lparr>cl_now := t\<rparr>)"
| claim: "start \<le> cl_now s \<Longrightarrow> nul_free t \<Longrightarrow>
    Claim acquire ow ep reply start (cl_now s) t i (cl_held s ow) (cl_store s) = ((b, h), st) \<Longrightarrow>
    cluster_step acquire release other s (s\<lparr>cl_store := st, cl_held := (cl_held s)(ow := h)\<rparr>)"
| renew: "start \<le> cl_now s \<Longrightarrow>
    Renew acquire release ow ep reply start (cl_now s) k (cl_held s ow) (cl_store s) = (h, st) \<Longrightarrow>
    cluster_step acquire release other s (s\<lparr>cl_store := st, cl_held := (cl_held s)(ow := h)\<rparr>)"
| stop: "Stop release reply k (cl_held s ow) (cl_store s) = (h, st) \<Longrightarrow>
    cluster_step acquire release other s (s\<lparr>cl_store := st, cl_held := (cl_held s)(ow := h)\<rparr>)"
| cancel: "mget (cl_held s ow) k = Some e \<Longrightarrow>
    cluster_step acquire release other s
      (s\<lparr>cl_held := (cl_held s)(ow := mput (cl_held s ow) k (e\<lparr>he_cancelled := True\<rparr>))\<rparr>)"
| other_client: "other (cl_store s) st \<Longrightarrow> cluster_step acquire release other s (s\<lparr>cl_store := st\<rparr>)"

inductive cluster_run ::
  "'s acquire \<Rightarrow> 's release \<Rightarrow> ('s \<Rightarrow> 's \<Rightarrow> bool) \<Rightarrow> 's \<Rightarrow> 's cluster \<Rightarrow> bool"
  for acquire release other s0 where
  start: "cluster_run acquire release other s0 \<lparr>cl_now = t, cl_store = s0, cl_held = \<lambda>_. []\<rparr>"
| step: "cluster_run acquire release other s0 s \<Longrightarrow> cluster_step acquire release other s s' \<Longrightarrow>
    cluster_run acquire release other s0 s'"

text \<open>The coordinator named ow has a live session for key k.\<close>

definition live :: "'s cluster \<Rightarrow> string \<Rightarrow> string \<Rightarrow> bool" where
  "live s ow k \<longleftrightarrow> (case mget (cl_held s ow) k of None \<Rightarrow> False | Some h \<Rightarrow> \<not> ctx_err (cl_now s) h)"

section \<open>The invariant\<close>

text \<open>A lease row that protects a session of owner ow under lease l until time d.\<close>

definition protects :: "execution_lease option \<Rightarrow> string \<Rightarrow> execution_lease \<Rightarrow> int \<Rightarrow> bool" where
  "protects row ow l d \<longleftrightarrow> (case row of None \<Rightarrow> False | Some v \<Rightarrow>
     le_Owner v = ow \<and> le_Token v = le_Token l \<and> d < le_ExpiresAt v)"

definition entry_ok ::
  "('s \<Rightarrow> string \<Rightarrow> string \<Rightarrow> execution_lease option) \<Rightarrow> int \<Rightarrow> 's \<Rightarrow> string \<Rightarrow> string \<Rightarrow>
     held_execution \<Rightarrow> bool" where
  "entry_ok lookup now s ow k h \<longleftrightarrow>
     (\<exists>t i. nul_free t \<and> k = listenerKey t i \<and> le_TenantID (he_lease h) = t \<and>
        le_Resource (he_lease h) = profile_resource i) \<and> le_Owner (he_lease h) = ow \<and>
     (\<not> ctx_err now h \<longrightarrow> protects (lookup s (le_TenantID (he_lease h)) (le_Resource (he_lease h)))
        ow (he_lease h) (he_deadline h))"

definition cluster_inv ::
  "('s \<Rightarrow> string \<Rightarrow> string \<Rightarrow> execution_lease option) \<Rightarrow> ('s \<Rightarrow> bool) \<Rightarrow> 's cluster \<Rightarrow> bool" where
  "cluster_inv lookup ok s \<longleftrightarrow> ok (cl_store s) \<and>
     (\<forall>ow k h. mget (cl_held s ow) k = Some h \<longrightarrow> entry_ok lookup (cl_now s) (cl_store s) ow k h)"

lemma entry_ok_same_resource:
  assumes "entry_ok lookup now s ow k h" "entry_ok lookup now' s' ow' k' h'"
    "le_TenantID (he_lease h) = le_TenantID (he_lease h')" "le_Resource (he_lease h) = le_Resource (he_lease h')"
  shows "k = k'"
  using assms by (auto simp: entry_ok_def profile_resource_def)

lemma entry_ok_same_key:
  assumes "entry_ok lookup now s ow k h" "entry_ok lookup now' s' ow' k h'"
  shows "le_TenantID (he_lease h) = le_TenantID (he_lease h') \<and>
    le_Resource (he_lease h) = le_Resource (he_lease h')"
  using assms by (auto simp: entry_ok_def listenerKey_def nul_free_def split_at_nul)

lemma entry_ok_nul_free: "entry_ok lookup now s ow k h \<Longrightarrow> nul_free (le_TenantID (he_lease h))"
  by (auto simp: entry_ok_def)

lemma ctx_err_mono: "\<not> ctx_err t' h \<Longrightarrow> t \<le> t' \<Longrightarrow> \<not> ctx_err t h"
  by (auto simp: ctx_err_def)

text \<open>A session that is over needs no lease.\<close>

lemma entry_ok_ended:
  "entry_ok lookup now s ow k h \<Longrightarrow> he_lease h' = he_lease h \<Longrightarrow> ctx_err now' h' \<Longrightarrow>
     entry_ok lookup now' s' ow k h'"
  by (simp add: entry_ok_def)

text \<open>A change of the store that keeps the rows of live sessions keeps an entry.\<close>

lemma entry_ok_store:
  assumes "entry_ok lookup now s ow k h"
    and "\<not> ctx_err now h \<Longrightarrow> protects (lookup s (le_TenantID (he_lease h)) (le_Resource (he_lease h)))
        ow (he_lease h) (he_deadline h) \<Longrightarrow>
      protects (lookup s' (le_TenantID (he_lease h)) (le_Resource (he_lease h))) ow (he_lease h) (he_deadline h)"
  shows "entry_ok lookup now s' ow k h"
  using assms by (auto simp: entry_ok_def)

context lease_service
begin

text \<open>An acquisition for one resource leaves the rows that protect other sessions alone.\<close>

lemma acquire_keeps:
  assumes a: "acquire t res ow' ep 10000 now s = (x, s')" and ok: "ok s" "nul_free t"
    and n: "nul_free (le_TenantID l)"
    and p: "protects (lookup s (le_TenantID l) (le_Resource l)) ow l d" "now < d"
    and other: "\<not> (ow = ow' \<and> t = le_TenantID l \<and> res = le_Resource l)"
  shows "protects (lookup s' (le_TenantID l) (le_Resource l)) ow l d"
proof (cases "\<exists>v. x = Inr (v, True)")
  case False
  then show ?thesis using refused [OF a] p by blast
next
  case True
  then obtain v where v: "acquire t res ow' ep 10000 now s = (Inr (v, True), s')" using a by blast
  show ?thesis
  proof (cases "t = le_TenantID l \<and> res = le_Resource l")
    case False
    then show ?thesis using granted_lookup [OF v ok n] p by auto
  next
    case True
    obtain w where w: "lookup s t res = Some w" "le_Owner w = ow" "d < le_ExpiresAt w"
      using p True by (auto simp: protects_def split: option.splits)
    then have "ow = ow'" using granted_live [OF v ok(1) w(1)] p(2) by simp
    then show ?thesis using other True by blast
  qed
qed

lemma release_keeps:
  assumes ok: "ok s" "nul_free (le_TenantID l')" and n: "nul_free (le_TenantID l)"
    and p: "protects (lookup s (le_TenantID l) (le_Resource l)) ow l d"
    and other: "\<not> (ow = le_Owner l' \<and> le_TenantID l' = le_TenantID l \<and> le_Resource l' = le_Resource l)"
  shows "protects (lookup (release l' s) (le_TenantID l) (le_Resource l)) ow l d"
  using p other unfolding released [OF ok n]
  by (auto simp: protects_def released_row_def split: option.splits)

text \<open>A step of one coordinator keeps the entries of all: those it did not touch by the lemmas above,
  the one it wrote by assumption.\<close>

lemma cluster_inv_update:
  assumes inv: "cluster_inv lookup ok s" and ok: "ok st"
    and mine: "\<And>k' e. mget h k' = Some e \<Longrightarrow> entry_ok lookup (cl_now s) st ow k' e"
    and others: "\<And>ow' k' e. ow' \<noteq> ow \<Longrightarrow> entry_ok lookup (cl_now s) (cl_store s) ow' k' e \<Longrightarrow>
      entry_ok lookup (cl_now s) st ow' k' e"
  shows "cluster_inv lookup ok (s\<lparr>cl_store := st, cl_held := (cl_held s)(ow := h)\<rparr>)"
  using assms by (auto simp: cluster_inv_def)

lemma others_acquire:
  assumes a: "acquire t res ow ep 10000 now s = (x, s')" and ok: "ok s" "nul_free t"
    and e: "entry_ok lookup now s ow' k' e"
    and other: "\<not> (ow' = ow \<and> t = le_TenantID (he_lease e) \<and> res = le_Resource (he_lease e))"
  shows "entry_ok lookup now s' ow' k' e"
  using e
proof (rule entry_ok_store)
  assume live: "\<not> ctx_err now e"
    and p: "protects (lookup s (le_TenantID (he_lease e)) (le_Resource (he_lease e))) ow' (he_lease e) (he_deadline e)"
  show "protects (lookup s' (le_TenantID (he_lease e)) (le_Resource (he_lease e))) ow' (he_lease e) (he_deadline e)"
    using live by (intro acquire_keeps [OF a ok entry_ok_nul_free [OF e] p _ other]) (simp add: ctx_err_def)
qed

lemma others_release:
  assumes ok: "ok s" "nul_free (le_TenantID l)" and e: "entry_ok lookup now s ow' k' e"
    and other: "\<not> (ow' = le_Owner l \<and> le_TenantID l = le_TenantID (he_lease e) \<and>
      le_Resource l = le_Resource (he_lease e))"
  shows "entry_ok lookup now (release l s) ow' k' e"
  using e by (rule entry_ok_store) (rule release_keeps [OF ok entry_ok_nul_free [OF e] _ other])

lemma Claim_keeps:
  assumes inv: "cluster_inv lookup ok s" and st: "start \<le> cl_now s" and t: "nul_free t"
    and c: "Claim acquire ow ep reply start (cl_now s) t i (cl_held s ow) (cl_store s) = ((b, h), st')"
  shows "cluster_inv lookup ok (s\<lparr>cl_store := st', cl_held := (cl_held s)(ow := h)\<rparr>)"
proof -
  let ?k = "listenerKey t i"
  have ok: "ok (cl_store s)" and entries: "\<And>ow k e. mget (cl_held s ow) k = Some e \<Longrightarrow>
      entry_ok lookup (cl_now s) (cl_store s) ow k e"
    using inv by (simp_all add: cluster_inv_def)
  show ?thesis
  proof (cases "\<exists>e. mget (cl_held s ow) ?k = Some e \<and> \<not> ctx_err start e")
    case True
    then obtain e where e: "mget (cl_held s ow) ?k = Some e" "\<not> ctx_err start e" by blast
    then have "h = mput (cl_held s ow) ?k (e\<lparr>he_touched := start\<rparr>)" "st' = cl_store s"
      using c by (simp_all add: Claim_def Let_def)
    moreover have "entry_ok lookup (cl_now s) (cl_store s) ow ?k (e\<lparr>he_touched := start\<rparr>)"
      using entries [OF e(1)] by (simp add: entry_ok_def ctx_err_def)
    ultimately show ?thesis
      using entries ok by (intro cluster_inv_update [OF inv]) (auto split: if_splits)
  next
    case False
    then have ended: "ctx_err (cl_now s) e" if "mget (cl_held s ow) ?k = Some e" for e
      using that st ctx_err_mono by blast
    obtain x s' where a: "acquire t (profile_resource i) ow ep 10000 (cl_now s) (cl_store s) = (x, s')"
      by fastforce
    have ok': "ok s'" using ok_acquire [OF ok t, of "profile_resource i" ow ep 10000 "cl_now s"] a by simp
    have other: "entry_ok lookup (cl_now s) s' ow' k' e"
      if "ow' \<noteq> ow \<or> k' \<noteq> ?k" "entry_ok lookup (cl_now s) (cl_store s) ow' k' e" for ow' k' e
      using that by (intro others_acquire [OF a ok t]) (auto simp: entry_ok_def profile_resource_def)
    have same: "entry_ok lookup (cl_now s) s' ow ?k e" if "mget (cl_held s ow) ?k = Some e" for e
      by (rule entry_ok_ended [OF entries [OF that] refl ended [OF that]])
    have shape: "h = cl_held s ow \<and> (st' = cl_store s \<or> st' = s') \<or>
        (\<exists>l. x = Inr (l, True) \<and> st' = s' \<and> h = mput (cl_held s ow) ?k \<lparr>he_lease = l, he_cancelled = False,
           he_deadline = start + 8000, he_touched = start\<rparr>)"
      using c False unfolding Claim_def Let_def a
      by (auto split: option.splits if_splits sum.splits prod.splits bool.splits)
    then show ?thesis
    proof (elim disjE exE conjE)
      assume "h = cl_held s ow" "st' = cl_store s"
      then show ?thesis using inv by (simp add: fun_upd_idem)
    next
      assume "h = cl_held s ow" "st' = s'"
      then show ?thesis
        using ok' other same entries by (intro cluster_inv_update [OF inv]) metis+
    next
      fix l
      let ?e = "\<lparr>he_lease = l, he_cancelled = False, he_deadline = start + 8000, he_touched = start\<rparr>"
      assume l: "x = Inr (l, True)" "st' = s'" "h = mput (cl_held s ow) ?k ?e"
      note v = a [unfolded l(1)]
      have "lookup s' t (profile_resource i) = Some l"
        using granted_lookup [OF v ok t t] by simp
      then have "entry_ok lookup (cl_now s) s' ow ?k ?e"
        using granted [OF v ok t] st t by (auto simp: entry_ok_def protects_def)
      then show ?thesis
        using ok' other entries l by (intro cluster_inv_update [OF inv]) (auto split: if_splits)
    qed
  qed
qed

lemma entry_ok_lease:
  assumes "entry_ok lookup now s ow k h"
  obtains t i where "nul_free t" "k = listenerKey t i" "le_TenantID (he_lease h) = t"
    "le_Resource (he_lease h) = profile_resource i" "le_Owner (he_lease h) = ow"
  using assms by (auto simp: entry_ok_def)

lemma Renew_keeps:
  assumes inv: "cluster_inv lookup ok s" and st: "start \<le> cl_now s"
    and c: "Renew acquire release ow ep reply start (cl_now s) k (cl_held s ow) (cl_store s) = (h, st')"
  shows "cluster_inv lookup ok (s\<lparr>cl_store := st', cl_held := (cl_held s)(ow := h)\<rparr>)"
proof (cases "mget (cl_held s ow) k")
  case None
  then show ?thesis using c inv by (auto simp: Renew_def fun_upd_idem cluster_inv_def)
next
  case (Some e)
  have ok: "ok (cl_store s)" and entries: "\<And>ow k e. mget (cl_held s ow) k = Some e \<Longrightarrow>
      entry_ok lookup (cl_now s) (cl_store s) ow k e"
    using inv by (simp_all add: cluster_inv_def)
  let ?l = "he_lease e"
  note own = entries [OF Some]
  obtain t i where t: "nul_free t" "k = listenerKey t i" "le_TenantID ?l = t"
      "le_Resource ?l = profile_resource i" "le_Owner ?l = ow"
    by (rule entry_ok_lease [OF own])
  have n: "nul_free (le_TenantID ?l)" using t by simp
  have rel: "entry_ok lookup (cl_now s) (release ?l (cl_store s)) ow' k' e'"
    if "ow' \<noteq> ow \<or> k' \<noteq> k" "entry_ok lookup (cl_now s) (cl_store s) ow' k' e'" for ow' k' e'
    using that t by (intro others_release [OF ok n]) (auto simp: entry_ok_def profile_resource_def)
  obtain x s' where a: "acquire (le_TenantID ?l) (le_Resource ?l) ow ep 10000 (cl_now s) (cl_store s) = (x, s')"
    by fastforce
  have ok': "ok s'"
    using ok_acquire [OF ok n, of "le_Resource ?l" ow ep 10000 "cl_now s"] a by simp
  have acq: "entry_ok lookup (cl_now s) s' ow' k' e'"
    if "ow' \<noteq> ow \<or> k' \<noteq> k" "entry_ok lookup (cl_now s) (cl_store s) ow' k' e'" for ow' k' e'
    using that t by (intro others_acquire [OF a ok n]) (auto simp: entry_ok_def profile_resource_def)
  let ?h = "\<lambda>l. mput (cl_held s ow) k (e\<lparr>he_lease := l, he_cancelled := ctx_err (cl_now s) e,
      he_deadline := start + 8000\<rparr>)"
  have shape: "h = mdel (cl_held s ow) k \<and> st' \<in> {cl_store s, release ?l (cl_store s), s'} \<or>
      (\<exists>l. x = Inr (l, True) \<and> le_Token l = le_Token ?l \<and> st' = s' \<and> h = ?h l)"
    using c unfolding Renew_def Some option.case a
    by (auto split: if_splits sum.splits prod.splits bool.splits)
  then show ?thesis
  proof (elim disjE exE conjE)
    assume h: "h = mdel (cl_held s ow) k" "st' \<in> {cl_store s, release ?l (cl_store s), s'}"
    have "ok st'" using h(2) ok ok' ok_release by auto
    moreover have "entry_ok lookup (cl_now s) st' ow' k' e'"
      if "ow' \<noteq> ow \<or> k' \<noteq> k" "entry_ok lookup (cl_now s) (cl_store s) ow' k' e'" for ow' k' e'
      using h(2) that rel acq by auto
    ultimately show ?thesis
      using h(1) entries by (intro cluster_inv_update [OF inv]) (auto split: if_splits)
  next
    fix l
    assume l: "x = Inr (l, True)" "le_Token l = le_Token ?l" "st' = s'" "h = ?h l"
    note v = a [unfolded l(1)]
    note g = granted [OF v ok n]
    have row: "lookup s' (le_TenantID ?l) (le_Resource ?l) = Some l"
      using granted_lookup [OF v ok n n] by simp
    have "entry_ok lookup (cl_now s) s' ow k (e\<lparr>he_lease := l, he_cancelled := ctx_err (cl_now s) e,
        he_deadline := start + 8000\<rparr>)"
      using own g row st by (auto simp: entry_ok_def protects_def)
    then show ?thesis
      using ok' acq entries l by (intro cluster_inv_update [OF inv]) (auto split: if_splits)
  qed
qed

lemma Stop_keeps:
  assumes inv: "cluster_inv lookup ok s"
    and c: "Stop release reply k (cl_held s ow) (cl_store s) = (h, st')"
  shows "cluster_inv lookup ok (s\<lparr>cl_store := st', cl_held := (cl_held s)(ow := h)\<rparr>)"
proof (cases "mget (cl_held s ow) k")
  case None
  then show ?thesis using c inv by (auto simp: Stop_def fun_upd_idem cluster_inv_def)
next
  case (Some e)
  have ok: "ok (cl_store s)" and entries: "\<And>ow k e. mget (cl_held s ow) k = Some e \<Longrightarrow>
      entry_ok lookup (cl_now s) (cl_store s) ow k e"
    using inv by (simp_all add: cluster_inv_def)
  obtain t i where t: "nul_free t" "k = listenerKey t i" "le_TenantID (he_lease e) = t"
      "le_Resource (he_lease e) = profile_resource i" "le_Owner (he_lease e) = ow"
    by (rule entry_ok_lease [OF entries [OF Some]])
  have n: "nul_free (le_TenantID (he_lease e))" using t by simp
  have st: "st' = cl_store s \<or> st' = release (he_lease e) (cl_store s)"
    and h: "h = mput (cl_held s ow) k (e\<lparr>he_cancelled := True\<rparr>)"
    using c Some by (auto simp: Stop_def split: if_splits)
  have "entry_ok lookup (cl_now s) (release (he_lease e) (cl_store s)) ow' k' e'"
    if "ow' \<noteq> ow \<or> k' \<noteq> k" "entry_ok lookup (cl_now s) (cl_store s) ow' k' e'" for ow' k' e'
    using that t by (intro others_release [OF ok n]) (auto simp: entry_ok_def profile_resource_def)
  then have rel: "entry_ok lookup (cl_now s) st' ow' k' e'"
    if "ow' \<noteq> ow \<or> k' \<noteq> k" "entry_ok lookup (cl_now s) (cl_store s) ow' k' e'" for ow' k' e'
    using st that by auto
  have ended: "entry_ok lookup (cl_now s) st' ow k (e\<lparr>he_cancelled := True\<rparr>)"
    by (rule entry_ok_ended [OF entries [OF Some]]) (simp_all add: ctx_err_def)
  have "ok st'" using st ok ok_release by auto
  then show ?thesis
    using h rel ended entries by (intro cluster_inv_update [OF inv]) (auto split: if_splits)
qed

text \<open>Other clients leave the lease rows alone.\<close>

definition lease_neutral :: "('s \<Rightarrow> 's \<Rightarrow> bool) \<Rightarrow> bool" where
  "lease_neutral other \<longleftrightarrow> (\<forall>s s'. other s s' \<longrightarrow> ok s \<longrightarrow> ok s' \<and> lookup s' = lookup s)"

lemma cluster_step_keeps:
  assumes "cluster_step acquire release other s s'" "cluster_inv lookup ok s" "lease_neutral other"
  shows "cluster_inv lookup ok s'"
  using assms
proof (cases rule: cluster_step.cases)
  case (clock t)
  then show ?thesis
    using assms(2) ctx_err_mono by (auto simp: cluster_inv_def entry_ok_def)
next
  case (claim start t ow ep reply i b h st)
  then show ?thesis using Claim_keeps [OF assms(2)] by blast
next
  case (renew start ow ep reply k h st)
  then show ?thesis using Renew_keeps [OF assms(2)] by blast
next
  case (stop reply k ow h st)
  then show ?thesis using Stop_keeps [OF assms(2)] by blast
next
  case (cancel ow k e)
  then show ?thesis
    using assms(2) by (auto simp: cluster_inv_def entry_ok_def ctx_err_def split: if_splits)
next
  case (other_client st)
  then have "ok st \<and> lookup st = lookup (cl_store s)"
    using assms(2,3) unfolding lease_neutral_def cluster_inv_def by blast
  then show ?thesis
    using assms(2) other_client by (simp add: cluster_inv_def entry_ok_def)
qed

lemma cluster_run_inv:
  assumes "cluster_run acquire release other s0 s" "ok s0" "lease_neutral other"
  shows "cluster_inv lookup ok s"
  using assms
proof (induction rule: cluster_run.induct)
  case (start t)
  then show ?case by (simp add: cluster_inv_def)
next
  case (step s s')
  then show ?case by (blast intro: cluster_step_keeps)
qed

text \<open>The row of a live session names its owner and outlives it.\<close>

lemma live_protected:
  assumes "cluster_inv lookup ok s" "live s ow (listenerKey t i)" "nul_free t"
  shows "\<exists>v. lookup (cl_store s) t (profile_resource i) = Some v \<and> le_Owner v = ow \<and>
    cl_now s < le_ExpiresAt v"
proof -
  obtain h where h: "mget (cl_held s ow) (listenerKey t i) = Some h" "\<not> ctx_err (cl_now s) h"
    using assms(2) by (auto simp: live_def split: option.splits)
  then have e: "entry_ok lookup (cl_now s) (cl_store s) ow (listenerKey t i) h"
    using assms(1) by (simp add: cluster_inv_def)
  obtain t' i' where "nul_free t'" "listenerKey t i = listenerKey t' i'"
      "le_TenantID (he_lease h) = t'" "le_Resource (he_lease h) = profile_resource i'"
    by (rule entry_ok_lease [OF e])
  then have "le_TenantID (he_lease h) = t" "le_Resource (he_lease h) = profile_resource i"
    using assms(3) by (auto simp: listenerKey_def split_at_nul nul_free_def)
  then show ?thesis
    using e h(2) by (auto simp: entry_ok_def protects_def ctx_err_def split: option.splits)
qed

lemma one_live_session:
  assumes "cluster_run acquire release other s0 s" "ok s0" "lease_neutral other" "nul_free t"
    and "live s ow (listenerKey t i)" "live s ow' (listenerKey t i)"
  shows "ow = ow'"
  using live_protected [OF cluster_run_inv [OF assms(1-3)] assms(5,4)]
    live_protected [OF cluster_run_inv [OF assms(1-3)] assms(6,4)] by auto

end

section \<open>Coordinators over the in-memory repository\<close>

text \<open>Any other call of the repository that leaves the leases alone.\<close>

definition other_call :: "(string \<Rightarrow> string) \<Rightarrow> (string \<Rightarrow> string option) \<Rightarrow> repo \<Rightarrow> repo \<Rightarrow> bool" where
  "other_call sha cp r r' \<longleftrightarrow> (\<exists>c. r' = exec sha cp c r) \<and> r_leases r' = r_leases r"

lemma other_call_neutral: "memory_leases.lease_neutral (other_call sha cp)"
  by (simp add: memory_leases.lease_neutral_def other_call_def lease_row_def fun_eq_iff)

text \<open>
  C4. At most one process runs a profile: whatever calls fail, however long they take and in whatever
  order the coordinators act, two coordinators that both have a live session for one access profile
  are the same coordinator.
\<close>
theorem one_live_session_per_profile:
  assumes run: "cluster_run AcquireExecutionLease ReleaseExecutionLease (other_call sha cp) r0 s"
    and r0: "leases_inv (r_leases r0)" and t: "nul_free t"
    and l: "live s ow (listenerKey t i)" "live s ow' (listenerKey t i)"
  shows "ow = ow'"
  by (rule memory_leases.one_live_session [OF run r0 other_call_neutral t l])

text \<open>A repository with one enabled profile, and the cluster in which o1 has claimed it at time 100.\<close>

definition sample_profile :: access_profile where
  "sample_profile = zero_access_profile\<lparr>ap_TenantID := ''t'', ap_ID := ''p'', ap_Enabled := True\<rparr>"

definition sample_lease :: execution_lease where
  "sample_lease = \<lparr>le_TenantID = ''t'', le_Resource = ''profile/p'', le_Owner = ''o1'',
     le_Endpoint = ''e'', le_Token = 1, le_ExpiresAt = 10100\<rparr>"

definition sample_held :: "held_execution gomap" where
  "sample_held = [(listenerKey ''t'' ''p'', \<lparr>he_lease = sample_lease, he_cancelled = False,
     he_deadline = 8100, he_touched = 100\<rparr>)]"

definition sample_profiles :: repo where
  "sample_profiles = SaveDeviceAccessProfile sample_profile NewRepository"

definition sample_cluster :: "repo cluster" where
  "sample_cluster = \<lparr>cl_now = 100, cl_store = sample_profiles\<lparr>r_leases := [(key [''t'', ''profile/p''],
     sample_lease)]\<rparr>, cl_held = (\<lambda>_. [])(''o1'' := sample_held)\<rparr>"

lemma sample_cluster_run:
  "cluster_run AcquireExecutionLease ReleaseExecutionLease (other_call sha cp) sample_profiles sample_cluster"
proof -
  let ?s = "\<lparr>cl_now = 100, cl_store = sample_profiles, cl_held = \<lambda>_. []\<rparr>"
  have c: "Claim AcquireExecutionLease ''o1'' ''e'' Answered 100 (cl_now ?s) ''t'' ''p'' (cl_held ?s ''o1'')
      (cl_store ?s) = ((True, sample_held), cl_store sample_cluster)"
    by (simp add: Claim_def AcquireExecutionLease_def sample_profiles_def SaveDeviceAccessProfile_def
        NewRepository_def mget_or_def zero_execution_lease_def sample_held_def sample_cluster_def
        sample_lease_def profile_resource_def mput_def Let_def)
  have "cluster_step AcquireExecutionLease ReleaseExecutionLease (other_call sha cp) ?s
      (?s\<lparr>cl_store := cl_store sample_cluster, cl_held := (cl_held ?s)(''o1'' := sample_held)\<rparr>)"
    by (rule cluster_step.claim [OF _ _ c]) (simp_all add: nul_free_def nul_def)
  then show ?thesis
    by (auto intro: cluster_run.step [OF cluster_run.start] simp: sample_cluster_def)
qed

lemma sample_profiles_leases: "leases_inv (r_leases sample_profiles)"
  by (simp add: sample_profiles_def SaveDeviceAccessProfile_def NewRepository_def leases_inv_def)

theorem one_live_session_per_profile_witness:
  "live sample_cluster ''o1'' (listenerKey ''t'' ''p'') \<and> \<not> live sample_cluster ''o2'' (listenerKey ''t'' ''p'')"
proof -
  have t: "nul_free ''t''" by (simp add: nul_free_def nul_def)
  have l: "live sample_cluster ''o1'' (listenerKey ''t'' ''p'')"
    by (simp add: live_def sample_cluster_def sample_held_def mget_def ctx_err_def)
  then show ?thesis
    using one_live_session_per_profile [OF sample_cluster_run sample_profiles_leases t, of "''o1''" "''p''" "''o2''"]
    by auto
qed

text \<open>
  Validate is sound: when it answers no error to a coordinator, no other coordinator has a live
  session for the profile, and the stored profile is enabled and still has the configuration the
  session was started with.
\<close>
theorem Validate_sound:
  assumes run: "cluster_run AcquireExecutionLease ReleaseExecutionLease (other_call sha cp) r0 s"
    and r0: "leases_inv (r_leases r0)" and t: "nul_free (ap_TenantID p)"
    and v: "Validate ow alive (cl_now s) p (cl_held s ow) (cl_store s) = None"
  shows "(\<forall>ow'. live s ow' (listenerKey (ap_TenantID p) (ap_ID p)) \<longrightarrow> ow' = ow) \<and>
    (\<exists>profile. GetDeviceAccessProfile (ap_TenantID p) (ap_ID p) (cl_store s) = Inr profile \<and>
       Configuration profile = Configuration p \<and> ap_Enabled profile)"
proof -
  obtain c where c: "GetExecutionLease (ap_TenantID p) (profile_resource (ap_ID p)) (cl_now s) (cl_store s) = Inr c"
      "le_Owner c = ow"
    and prof: "\<exists>profile. GetDeviceAccessProfile (ap_TenantID p) (ap_ID p) (cl_store s) = Inr profile \<and>
       Configuration profile = Configuration p \<and> ap_Enabled profile"
    using v by (auto simp: Validate_def Let_def split: if_splits sum.splits)
  have row: "lease_row (cl_store s) (ap_TenantID p) (profile_resource (ap_ID p)) = Some c"
    using c(1) by (auto simp: GetExecutionLease_def lease_row_def split: option.splits if_splits)
  have "ow' = ow" if "live s ow' (listenerKey (ap_TenantID p) (ap_ID p))" for ow'
    using memory_leases.live_protected [OF memory_leases.cluster_run_inv [OF run r0 other_call_neutral] that t]
      row c(2) by auto
  with prof show ?thesis by blast
qed

theorem Validate_sound_witness:
  "\<exists>profile. GetDeviceAccessProfile ''t'' ''p'' (cl_store sample_cluster) = Inr profile \<and> ap_Enabled profile"
proof -
  have v: "Validate ''o1'' True (cl_now sample_cluster) sample_profile (cl_held sample_cluster ''o1'')
      (cl_store sample_cluster) = None"
    by (simp add: Validate_def GetExecutionLease_def GetDeviceAccessProfile_def sample_cluster_def
        sample_held_def sample_lease_def sample_profiles_def SaveDeviceAccessProfile_def NewRepository_def
        sample_profile_def zero_access_profile_def clone_profile_def profile_resource_def listenerKey_def
        mget_def mput_def Configuration_def Let_def)
  have t: "nul_free (ap_TenantID sample_profile)"
    by (simp add: sample_profile_def nul_free_def nul_def)
  show ?thesis
    using Validate_sound [OF sample_cluster_run sample_profiles_leases t v]
    by (auto simp: sample_profile_def)
qed

end
