(* ===== verification/Modbus_Collect.thy ===== *)
theory Modbus_Collect
  imports Modbus_Frame Coordinator
begin

text \<open>
  Active collection (internal/protocolruntime/modbus.go): which blocks of a profile are due, the
  policy on target addresses, and the reads of one collection with their retries. What the network
  does is the record network: every step of a collection has a number, and the network says for each
  number whether the step fails and which bytes arrive. The mutual exclusion of reads on one bus and
  the slots that bound concurrent reads belong to other collections; they are the fields nw_busy and
  nw_bus.
\<close>

record network =
  nw_busy :: bool
  nw_bus :: "error option"
  nw_cidr :: "string \<Rightarrow> (string \<Rightarrow> bool) option"
  nw_ip :: "string \<Rightarrow> string option"
  nw_lookup :: "string \<Rightarrow> string list res"
  nw_ctx :: "nat \<Rightarrow> error option"
  nw_dial :: "nat \<Rightarrow> error option"
  nw_deadline :: "nat \<Rightarrow> error option"
  nw_write :: "nat \<Rightarrow> error option"
  nw_recv :: "nat \<Rightarrow> octet list \<times> error"
  nw_now :: "nat \<Rightarrow> int"
  nw_nanos :: "nat \<Rightarrow> int"
  nw_latency :: "nat \<Rightarrow> int"

text \<open>
  A collection in progress: its step number, the bytes its connection holds unread if it has one, and
  the addresses it has dialled.
\<close>

record link =
  ln_step :: nat
  ln_conn :: "octet list option"
  ln_dials :: "string list"

section \<open>Targets\<close>

text \<open>net.JoinHostPort with a port number.\<close>

definition join_host_port :: "string \<Rightarrow> int \<Rightarrow> string" where
  "join_host_port host port =
     (if CHR '':'' \<in> set host then CHR ''['' # host @ '']:'' @ decimal port else host @ '':'' @ decimal port)"

fun parse_cidrs :: "network \<Rightarrow> string list \<Rightarrow> (string \<Rightarrow> bool) list res" where
  "parse_cidrs nw [] = Inr []"
| "parse_cidrs nw (c # cs) =
     (case nw_cidr nw (trim_space c) of
        None \<Rightarrow> Inl (ErrWrap ''invalid configured Modbus CIDR'' (ErrText c))
      | Some p \<Rightarrow> map_sum id (\<lambda>ps. p # ps) (parse_cidrs nw cs))"

definition resolveAllowedTarget :: "network \<Rightarrow> string \<Rightarrow> string list \<Rightarrow> string res" where
  "resolveAllowedTarget nw host0 cidrs =
     (let host = trim_space host0
      in if cidrs = [] then Inr host
         else case parse_cidrs nw cidrs of
             Inl e \<Rightarrow> Inl e
           | Inr nets \<Rightarrow>
               (case (case nw_ip nw host of Some a \<Rightarrow> Inr [a] | None \<Rightarrow> nw_lookup nw host) of
                  Inl e \<Rightarrow> Inl (ErrWrap ''resolve Modbus host'' e)
                | Inr addresses \<Rightarrow>
                    (case find (\<lambda>a. \<exists>p \<in> set nets. p a) addresses of
                       Some a \<Rightarrow> Inr a
                     | None \<Rightarrow> Inl (ErrText (''Modbus host is outside IOT_MODBUS_ALLOWED_CIDRS: '' @ host)))))"

section \<open>One block\<close>

datatype read_error = RE_plain error | RE_read "octet list" "octet list" error

definition count_step :: "link \<Rightarrow> link" where
  "count_step l = l\<lparr>ln_step := Suc (ln_step l)\<rparr>"

text \<open>A connection for the next attempt: the one at hand, or a new one; the error of dialling.\<close>

definition connect :: "network \<Rightarrow> string \<Rightarrow> link \<Rightarrow> error option \<times> link" where
  "connect nw addr l =
     (if ln_conn l \<noteq> None then (None, l)
      else case nw_dial nw (ln_step l) of
          Some e \<Rightarrow> (Some e, count_step (l\<lparr>ln_dials := ln_dials l @ [addr]\<rparr>))
        | None \<Rightarrow> (None, count_step (l\<lparr>ln_dials := ln_dials l @ [addr], ln_conn := Some []\<rparr>)))"

definition receive :: "bool \<Rightarrow> 16 word \<Rightarrow> octet \<Rightarrow> octet \<Rightarrow> conn \<Rightarrow> (octet list \<times> error option) \<times> conn" where
  "receive rtu transaction unit fn c =
     (if rtu then readRTUResponse unit fn c else readResponse transaction unit fn c)"

text \<open>
  Deadline, write and read on the connection; response is the value of the variable before. After an
  error the connection is closed.
\<close>

definition exchange :: "network \<Rightarrow> bool \<Rightarrow> 16 word \<Rightarrow> octet \<Rightarrow> octet \<Rightarrow> octet list \<Rightarrow> link \<Rightarrow>
    (octet list \<times> error option) \<times> link" where
  "exchange nw rtu transaction unit fn response l =
     (let k = ln_step l; held = (case ln_conn l of None \<Rightarrow> [] | Some b \<Rightarrow> b)
      in case nw_deadline nw k of
           Some e \<Rightarrow> ((response, Some e), count_step (l\<lparr>ln_conn := None\<rparr>))
         | None \<Rightarrow>
             (case nw_write nw k of
                Some e \<Rightarrow> ((response, Some e), count_step (l\<lparr>ln_conn := None\<rparr>))
              | None \<Rightarrow>
                  (case receive rtu transaction unit fn (held @ fst (nw_recv nw k), snd (nw_recv nw k)) of
                     ((r, e), c) \<Rightarrow>
                       ((r, e), count_step (l\<lparr>ln_conn := (if e = None then Some (fst c) else None)\<rparr>)))))"

text \<open>The loop over attempts; ctx.Err() ends it with that error alone.\<close>

primrec read_attempts :: "nat \<Rightarrow> network \<Rightarrow> string \<Rightarrow> bool \<Rightarrow> 16 word \<Rightarrow> octet \<Rightarrow> octet \<Rightarrow>
    octet list \<times> error option \<Rightarrow> link \<Rightarrow> (error + octet list \<times> error option) \<times> link" where
  "read_attempts 0 nw addr rtu t u fn re l = (Inr re, l)"
| "read_attempts (Suc n) nw addr rtu t u fn re l =
     (case nw_ctx nw (ln_step l) of
        Some e \<Rightarrow> (Inl e, count_step l)
      | None \<Rightarrow>
          (case connect nw addr (count_step l) of
             (Some e, l1) \<Rightarrow> read_attempts n nw addr rtu t u fn (fst re, Some e) l1
           | (None, l1) \<Rightarrow>
               (case exchange nw rtu t u fn (fst re) l1 of
                  (re2, l2) \<Rightarrow>
                    if nw_deadline nw (ln_step l1) \<noteq> None
                    then read_attempts n nw addr rtu t u fn re2 l2
                    else case nw_ctx nw (ln_step l2) of
                        Some e \<Rightarrow> (Inl e, count_step l2)
                      | None \<Rightarrow>
                          if snd re2 = None then (Inr re2, count_step l2)
                          else read_attempts n nw addr rtu t u fn re2 (count_step l2))))"

definition read_request :: "bool \<Rightarrow> 16 word \<Rightarrow> octet \<Rightarrow> modbus_read_block \<Rightarrow> octet list res" where
  "read_request rtu transaction unit block =
     map_sum id (\<lambda>r. if rtu then AppendCRC (drop 6 r) else r) (buildReadRequest transaction unit block)"

definition read_raw :: "network \<Rightarrow> access_profile \<Rightarrow> protocol_release \<Rightarrow> bool \<Rightarrow> 16 word \<Rightarrow> octet list \<Rightarrow>
    modbus_read_block \<Rightarrow> octet list \<Rightarrow> nat \<Rightarrow> raw_message" where
  "read_raw nw profile release rtu transaction request block response k = zero_raw_message\<lparr>
     rm_MessageID := ''raw_modbus_'' @ decimal (nw_nanos nw k) @ ''_'' @ decimal (uint transaction),
     rm_Source := ''modbus-tcp-collector'', rm_TenantID := ap_TenantID profile,
     rm_ProductID := ap_ProductID profile, rm_DeviceID := ap_DeviceID profile, rm_Protocol := ''modbus-tcp'',
     rm_Transport := (if rtu then ''MODBUS_RTU_TCP'' else ''MODBUS_TCP''), rm_ReceivedAt := nw_now nw k,
     rm_PayloadFormat := ''hex'', rm_Payload := marshal_hex response,
     rm_RemoteAddress := join_host_port (ap_Host profile) (ap_Port profile),
     rm_ProtocolID := pl_ProtocolID release, rm_ProtocolVersion := pl_Version release,
     rm_PointTableVersion := pl_PointTableVersion release, rm_CollectorID := ap_CollectorID profile,
     rm_Metadata := [(''profileId'', AStr (ap_ID profile)), (''blockId'', AStr (mb_ID block)),
       (''functionCode'', AInt (mb_FunctionCode block)), (''startAddress'', AInt (mb_StartAddress block)),
       (''quantity'', AInt (mb_Quantity block)), (''transactionId'', AInt (uint transaction)),
       (''requestHex'', AStr (hex_upper request)), (''latencyMs'', AInt (nw_latency nw k)),
       (''wireFormat'', AStr (ap_WireFormat profile))]\<rparr>"

definition read_block :: "network \<Rightarrow> string \<Rightarrow> access_profile \<Rightarrow> protocol_release \<Rightarrow> bool \<Rightarrow> 16 word \<Rightarrow>
    modbus_read_block \<Rightarrow> link \<Rightarrow> (read_error + raw_message) \<times> link" where
  "read_block nw addr profile release rtu transaction block l =
     (let unit = word_of_int (ap_UnitID profile)
      in case read_request rtu transaction unit block of
           Inl e \<Rightarrow> (Inl (RE_plain e), l)
         | Inr request \<Rightarrow>
             (case read_attempts (nat (max 1 (ap_Retries profile + 1))) nw addr rtu transaction unit
                     (word_of_int (mb_FunctionCode block)) ([], None) l of
                (Inl e, l1) \<Rightarrow> (Inl (RE_plain e), l1)
              | (Inr (response, Some e), l1) \<Rightarrow>
                  (Inl (RE_read request response (ErrWrap (''read block '' @ mb_ID block) e)), l1)
              | (Inr (response, None), l1) \<Rightarrow>
                  (case validateReadByteCount response block rtu of
                     Inl e \<Rightarrow> (Inl (RE_read request response e), l1)
                   | Inr _ \<Rightarrow> (Inr (read_raw nw profile release rtu transaction request block response (ln_step l1)),
                       count_step l1))))"

section \<open>A collection\<close>

fun read_blocks :: "network \<Rightarrow> string \<Rightarrow> access_profile \<Rightarrow> protocol_release \<Rightarrow> bool \<Rightarrow> 16 word \<Rightarrow>
    modbus_read_block list \<Rightarrow> link \<Rightarrow> (read_error + raw_message list) \<times> link" where
  "read_blocks nw addr profile release rtu transaction [] l = (Inr [], l)"
| "read_blocks nw addr profile release rtu transaction (b # bs) l =
     (case read_block nw addr profile release rtu (transaction + 1) b l of
        (Inl e, l1) \<Rightarrow> (Inl e, l1)
      | (Inr raw, l1) \<Rightarrow>
          (case read_blocks nw addr profile release rtu (transaction + 1) bs l1 of
             (Inl e, l2) \<Rightarrow> (Inl e, l2)
           | (Inr raws, l2) \<Rightarrow> (Inr (raw # raws), l2)))"

text \<open>What ReadModbusTCPWithPolicy checks before it opens a connection, and the target it settles on.\<close>

definition read_target :: "network \<Rightarrow> access_profile \<Rightarrow> protocol_release \<Rightarrow> string list \<Rightarrow> string res" where
  "read_target nw profile release cidrs =
     (if ap_EdgeNodeID profile \<noteq> [] \<or> (ap_Network profile \<noteq> [] \<and> ap_Network profile \<noteq> ''tcp'')
      then Inl (ErrText ''remote Edge execution is not supported by the central runtime'')
      else case nw_ctx nw 0 of
          Some e \<Rightarrow> Inl e
        | None \<Rightarrow>
            if nw_busy nw then Inl (ErrText ''Modbus read concurrency limit reached'')
            else let rtu = (ap_WireFormat profile = ''rtu_over_tcp'') in
              if \<not> equal_fold (pl_Transport release) (if rtu then ''MODBUS_RTU'' else ''MODBUS_TCP'')
              then Inl (ErrText (''transport is not MODBUS_TCP: '' @ pl_Transport release))
              else if trim_space (ap_Host profile) = [] then Inl (ErrText ''device host is required'')
              else if ap_Port profile \<le> 0 \<or> 65535 < ap_Port profile then Inl (ErrText ''device port is invalid'')
              else if ap_UnitID profile < 0 \<or> 255 < ap_UnitID profile
              then Inl (ErrText ''unitId must be between 0 and 255'')
              else case resolveAllowedTarget nw (ap_Host profile) cidrs of
                  Inl e \<Rightarrow> Inl e
                | Inr target \<Rightarrow> (case nw_bus nw of Some e \<Rightarrow> Inl e | None \<Rightarrow> Inr target))"

definition ReadModbusTCPWithPolicy :: "network \<Rightarrow> access_profile \<Rightarrow> protocol_release \<Rightarrow> modbus_read_block list \<Rightarrow>
    string list \<Rightarrow> (read_error + raw_message list) \<times> link" where
  "ReadModbusTCPWithPolicy nw profile release blocks cidrs =
     (let l = \<lparr>ln_step = 1, ln_conn = None, ln_dials = []\<rparr>
      in case read_target nw profile release cidrs of
           Inl e \<Rightarrow> (Inl (RE_plain e), l)
         | Inr target \<Rightarrow> read_blocks nw (join_host_port target (ap_Port profile)) profile release
             (ap_WireFormat profile = ''rtu_over_tcp'') 0 blocks l)"

end
