(* ===== verification/Point_Table.thy ===== *)
theory Point_Table
  imports Modbus_Collect Slices
begin

text \<open>
  Modbus point tables (internal/core/point_table.go): the rows of a spreadsheet become points, and the
  points of a table become the blocks that a collection reads. Reading the spreadsheet itself and
  strconv.ParseFloat are parameters. Case mapping is that of ASCII letters. Sums, differences and products
  of addresses and counts wrap around as Go's int does: nothing bounds an accepted address by 65535.
\<close>

section \<open>Cells\<close>

definition pointCell :: "string list \<Rightarrow> nat gomap \<Rightarrow> string \<Rightarrow> string" where
  "pointCell row columns name =
     (case mget columns name of
        None \<Rightarrow> []
      | Some i \<Rightarrow> if i \<ge> length row then [] else trim_space (row ! i))"

text \<open>strings.Map that drops white space, underscores, hyphens and slashes.\<close>

function drop_separators :: "string \<Rightarrow> string" where
  "drop_separators s =
     (case s of
        [] \<Rightarrow> []
      | c # t \<Rightarrow>
          (case find (\<lambda>p. p \<noteq> [] \<and> has_prefix s p) (spaces @ [''_'', ''-'', ''/'']) of
             Some p \<Rightarrow> drop_separators (drop (length p) s)
           | None \<Rightarrow> c # drop_separators t))"
  by pat_completeness auto
termination
  by (relation "measure length") (auto simp: find_Some_iff)

declare drop_separators.simps [simp del]

definition normalizedPointHeader :: "string \<Rightarrow> string" where
  "normalizedPointHeader v = to_lower (drop_separators (trim_space v))"

definition parsePointInt :: "string \<Rightarrow> int" where
  "parsePointInt v = atoi_value (trim_space (trim_prefix (to_upper v) ''FC''))"

definition optionalPointInt :: "string \<Rightarrow> int option res" where
  "optionalPointInt v =
     (if trim_space v = [] then Inr None
      else case atoi (trim_space v) of None \<Rightarrow> Inl (ErrText ''strconv.Atoi'') | Some n \<Rightarrow> Inr (Some n))"

text \<open>The address, its notation and the function code the notation implies.\<close>

definition parseModbusAddress :: "string \<Rightarrow> string \<Rightarrow> int \<Rightarrow> (int \<times> string \<times> int) res" where
  "parseModbusAddress txt notation0 fc =
     (let clean = dropWhile (\<lambda>c. c = CHR '' '')
            (fold (\<lambda>p s. trim_prefix s p) [''HR'', ''IR'', ''COIL'', ''DI''] (trim_space (to_upper txt)));
          n0 = to_lower (trim_space notation0); notation = (if n0 = [] then ''zero_based'' else n0)
      in case atoi clean of
           None \<Rightarrow> Inl (ErrText (''invalid Modbus address '' @ txt))
         | Some n \<Rightarrow>
             if n < 0 then Inl (ErrText (''invalid Modbus address '' @ txt))
             else if 40001 \<le> n \<and> n \<le> 49999
             then (if fc \<noteq> 0 \<and> fc \<noteq> 3 then Inl (ErrText ''4xxxx address conflicts with functionCode'')
                   else Inr (n - 40001, ''4xxxx'', 3))
             else if 30001 \<le> n \<and> n \<le> 39999
             then (if fc \<noteq> 0 \<and> fc \<noteq> 4 then Inl (ErrText ''3xxxx address conflicts with functionCode'')
                   else Inr (n - 30001, ''3xxxx'', 4))
             else if 10001 \<le> n \<and> n \<le> 19999
             then (if fc \<noteq> 0 \<and> fc \<noteq> 2 then Inl (ErrText ''1xxxx address conflicts with functionCode'')
                   else Inr (n - 10001, ''1xxxx'', 2))
             else if notation = ''one_based'' \<and> n = 0 then Inl (ErrText ''one_based address must start at 1'')
             else if notation \<noteq> ''one_based'' \<and> notation \<noteq> ''zero_based''
             then Inl (ErrText (''unsupported addressNotation '' @ notation))
             else if fc = 0 then Inl (ErrText ''functionCode is required for zero/one based addresses'')
             else Inr (if notation = ''one_based'' then n - 1 else n, notation, fc))"

definition pointRegisterCount :: "string \<Rightarrow> string \<Rightarrow> int res" where
  "pointRegisterCount dataType txt =
     (if txt \<noteq> []
      then (case atoi txt of
          None \<Rightarrow> Inl (ErrText ''registerCount must be positive'')
        | Some n \<Rightarrow> if n \<le> 0 then Inl (ErrText ''registerCount must be positive'') else Inr n)
      else if dataType \<in> {''bool'', ''uint16'', ''int16'', ''bits''} then Inr 1
      else if dataType \<in> {''uint32'', ''int32'', ''float32''} then Inr 2
      else if dataType \<in> {''uint64'', ''int64'', ''float64''} then Inr 4
      else if dataType = ''string'' then Inl (ErrText ''string requires registerCount'')
      else Inl (ErrText (''unsupported dataType '' @ dataType)))"

definition pointWidth :: "modbus_point \<Rightarrow> int" where
  "pointWidth p = (if mp_FunctionCode p \<le> 2 then 1 else if 0 < mp_RegisterCount p then mp_RegisterCount p else 1)"

definition point_rune :: "char \<Rightarrow> bool" where
  "point_rune c \<longleftrightarrow> (let n = of_char c :: nat in (97 \<le> n \<and> n \<le> 122) \<or> (48 \<le> n \<and> n \<le> 57) \<or> c = CHR ''_'')"

text \<open>The bytes of one character that is not kept add at most one underscore together.\<close>

definition generatedPointIdentifier :: "string \<Rightarrow> int \<Rightarrow> int \<Rightarrow> string" where
  "generatedPointIdentifier name fc address =
     (let b = foldl (\<lambda>b c. if point_rune c then b @ [c]
            else if b \<noteq> [] \<and> last b \<noteq> CHR ''_'' then b @ ''_'' else b) [] (to_lower name);
          v = trim_chars ''_'' b
      in if v = [] then ''fc'' @ decimal2 fc @ ''_'' @ decimal address else v)"

definition validWordOrder :: "string \<Rightarrow> int \<Rightarrow> bool" where
  "validWordOrder order n =
     (if n \<le> 2 then order \<in> {''ABCD'', ''AB''}
      else if n = 4 then order \<in> {''ABCD'', ''CDAB'', ''BADC'', ''DCBA''}
      else if n = 8 then order \<in> {''ABCDEFGH'', ''GHEFCDAB'', ''BADCFEHG'', ''HGFEDCBA''} else False)"

text \<open>strings.FieldsFunc at semicolons and commas, ASCII and full width.\<close>

definition mapping_separators :: "string list" where
  "mapping_separators = ['';'', bytes [0xEF, 0xBC, 0x9B], '','', bytes [0xEF, 0xBC, 0x8C]]"

function split_fields :: "string \<Rightarrow> string \<Rightarrow> string list" where
  "split_fields cur s =
     (case s of
        [] \<Rightarrow> if cur = [] then [] else [cur]
      | c # t \<Rightarrow>
          (case find (\<lambda>p. p \<noteq> [] \<and> has_prefix s p) mapping_separators of
             Some p \<Rightarrow> (if cur = [] then [] else [cur]) @ split_fields [] (drop (length p) s)
           | None \<Rightarrow> split_fields (cur @ [c]) t))"
  by pat_completeness auto
termination
  by (relation "measure (\<lambda>(cur, s). length s)") (auto simp: find_Some_iff)

declare split_fields.simps [simp del]

definition parseAlarmMapping :: "string \<Rightarrow> anymap res" where
  "parseAlarmMapping v =
     fold (\<lambda>item out. case out of
          Inl e \<Rightarrow> Inl e
        | Inr m \<Rightarrow>
            let it = trim_space item; k = trim_space (takeWhile (\<lambda>c. c \<noteq> CHR ''='') it);
                rest = dropWhile (\<lambda>c. c \<noteq> CHR ''='') it; x = trim_space (drop 1 rest)
            in if rest = [] \<or> k = [] \<or> x = []
               then Inl (ErrText (''alarmMapping '' @ item @ '' must use value=alarmType''))
               else Inr (mput m k (AStr x)))
       (split_fields [] (trim_space v)) (Inr [])"

section \<open>Rows\<close>

definition point_aliases :: "string gomap" where
  "point_aliases = [
     (''identifier'', ''identifier''),
     (bytes [0xE6, 0xA0, 0x87, 0xE8, 0xAF, 0x86], ''identifier''),
     (bytes [0xE5, 0xB1, 0x9E, 0xE6, 0x80, 0xA7, 0xE6, 0xA0, 0x87, 0xE8, 0xAF, 0x86], ''identifier''),
     (bytes [0xE5, 0x8F, 0x98, 0xE9, 0x87, 0x8F, 0xE6, 0xA0, 0x87, 0xE8, 0xAF, 0x86], ''identifier''),
     (''name'', ''name''),
     (bytes [0xE5, 0x90, 0x8D, 0xE7, 0xA7, 0xB0], ''name''),
     (bytes [0xE5, 0x8F, 0x98, 0xE9, 0x87, 0x8F, 0xE5, 0x90, 0x8D, 0xE7, 0xA7, 0xB0], ''name''),
     (bytes [0xE7, 0x82, 0xB9, 0xE4, 0xBD, 0x8D, 0xE5, 0x90, 0x8D, 0xE7, 0xA7, 0xB0], ''name''),
     (''functioncode'', ''functionCode''),
     (bytes [0xE5, 0x8A, 0x9F, 0xE8, 0x83, 0xBD, 0xE7, 0xA0, 0x81], ''functionCode''),
     (''fc'', ''functionCode''),
     (''address'', ''address''),
     (bytes [0xE5, 0x9C, 0xB0, 0xE5, 0x9D, 0x80], ''address''),
     (bytes [0x6D, 0x6F, 0x64, 0x62, 0x75, 0x73, 0xE5, 0x9C, 0xB0, 0xE5, 0x9D, 0x80], ''address''),
     (bytes [0xE5, 0xAF, 0x84, 0xE5, 0xAD, 0x98, 0xE5, 0x99, 0xA8, 0xE5, 0x9C, 0xB0, 0xE5, 0x9D, 0x80], ''address''),
     (bytes [0x70, 0x6C, 0x63, 0xE7, 0xBA, 0xBF, 0xE5, 0x9C, 0x88, 0xE5, 0x9C, 0xB0, 0xE5, 0x9D, 0x80], ''address''),
     (''addressnotation'', ''addressNotation''),
     (bytes [0xE5, 0x9C, 0xB0, 0xE5, 0x9D, 0x80, 0xE6, 0xA0, 0xBC, 0xE5, 0xBC, 0x8F], ''addressNotation''),
     (bytes [0xE5, 0x9C, 0xB0, 0xE5, 0x9D, 0x80, 0xE5, 0x9F, 0xBA, 0xE5, 0x87, 0x86], ''addressNotation''),
     (''datatype'', ''dataType''),
     (bytes [0xE6, 0x95, 0xB0, 0xE6, 0x8D, 0xAE, 0xE7, 0xB1, 0xBB, 0xE5, 0x9E, 0x8B], ''dataType''),
     (bytes [0xE7, 0xB1, 0xBB, 0xE5, 0x9E, 0x8B], ''dataType''),
     (''registercount'', ''registerCount''),
     (bytes [0xE5, 0xAF, 0x84, 0xE5, 0xAD, 0x98, 0xE5, 0x99, 0xA8, 0xE6, 0x95, 0xB0, 0xE9, 0x87, 0x8F], ''registerCount''),
     (bytes [0xE9, 0x95, 0xBF, 0xE5, 0xBA, 0xA6], ''registerCount''),
     (''byteorder'', ''byteOrder''),
     (bytes [0xE5, 0xAD, 0x97, 0xE8, 0x8A, 0x82, 0xE5, 0xBA, 0x8F], ''byteOrder''),
     (bytes [0xE7, 0xAB, 0xAF, 0xE5, 0xBA, 0x8F], ''byteOrder''),
     (''wordorder'', ''wordOrder''),
     (bytes [0xE5, 0xAD, 0x97, 0xE5, 0xBA, 0x8F], ''wordOrder''),
     (''bit'', ''bit''),
     (bytes [0xE4, 0xBD, 0x8D], ''bit''),
     (bytes [0xE4, 0xBD, 0x8D, 0xE7, 0xB4, 0xA2, 0xE5, 0xBC, 0x95], ''bit''),
     (''scale'', ''scale''),
     (bytes [0xE5, 0x80, 0x8D, 0xE7, 0x8E, 0x87], ''scale''),
     (bytes [0xE7, 0xBC, 0xA9, 0xE6, 0x94, 0xBE], ''scale''),
     (''offset'', ''offset''),
     (bytes [0xE5, 0x81, 0x8F, 0xE7, 0xA7, 0xBB], ''offset''),
     (''unit'', ''unit''),
     (bytes [0xE5, 0x8D, 0x95, 0xE4, 0xBD, 0x8D], ''unit''),
     (''access'', ''access''),
     (bytes [0xE8, 0xAF, 0xBB, 0xE5, 0x86, 0x99], ''access''),
     (bytes [0xE8, 0xAE, 0xBF, 0xE9, 0x97, 0xAE, 0xE6, 0x96, 0xB9, 0xE5, 0xBC, 0x8F], ''access''),
     (''pollintervalsec'', ''pollIntervalSec''),
     (bytes [0xE8, 0xBD, 0xAE, 0xE8, 0xAF, 0xA2, 0xE5, 0x91, 0xA8, 0xE6, 0x9C, 0x9F], ''pollIntervalSec''),
     (bytes [0xE9, 0x87, 0x87, 0xE9, 0x9B, 0x86, 0xE5, 0x91, 0xA8, 0xE6, 0x9C, 0x9F], ''pollIntervalSec''),
     (''deadband'', ''deadband''),
     (bytes [0xE6, 0xAD, 0xBB, 0xE5, 0x8C, 0xBA], ''deadband''),
     (''alarmmapping'', ''alarmMapping''),
     (bytes [0xE5, 0x91, 0x8A, 0xE8, 0xAD, 0xA6, 0xE6, 0x98, 0xA0, 0xE5, 0xB0, 0x84], ''alarmMapping''),
     (bytes [0xE6, 0x8A, 0xA5, 0xE8, 0xAD, 0xA6, 0xE6, 0x98, 0xA0, 0xE5, 0xB0, 0x84], ''alarmMapping''),
     (''description'', ''description''),
     (bytes [0xE8, 0xAF, 0xB4, 0xE6, 0x98, 0x8E], ''description''),
     (bytes [0xE5, 0xA4, 0x87, 0xE6, 0xB3, 0xA8], ''description'')]"

definition header_columns :: "string list \<Rightarrow> nat gomap" where
  "header_columns row =
     fold (\<lambda>(i, cell) m. case mget point_aliases (normalizedPointHeader cell) of
          None \<Rightarrow> m | Some name \<Rightarrow> mput m name i) (enumerate 0 row) []"

definition is_header :: "string list \<Rightarrow> bool" where
  "is_header row \<longleftrightarrow> mget (header_columns row) ''address'' \<noteq> None \<and> mget (header_columns row) ''name'' \<noteq> None"

definition row_error :: "int \<Rightarrow> string \<Rightarrow> error" where
  "row_error line txt = ErrText (''row '' @ decimal line @ '': '' @ txt)"

definition row_wrap :: "int \<Rightarrow> 'a res \<Rightarrow> 'a res" where
  "row_wrap line x = map_sum (ErrWrap (''row '' @ decimal line)) id x"

text \<open>A number in a cell: the default for an empty cell, None for text that is not a number.\<close>

definition float_cell :: "(string \<Rightarrow> 64 word option) \<Rightarrow> 64 word \<Rightarrow> string \<Rightarrow> 64 word option" where
  "float_cell parse_float z txt = (if txt = [] then Some z else parse_float txt)"

text \<open>
  One row with a name and an address, up to the check of the byte order. The argument seen has the
  identifiers of the rows before with their lines.
\<close>

definition row_start :: "(string \<Rightarrow> 64 word option) \<Rightarrow> int \<Rightarrow> (string \<Rightarrow> string) \<Rightarrow> int gomap \<Rightarrow> int \<Rightarrow> modbus_point res" where
  "row_start parse_float defaultPoll cell seen line =
     (let err = row_error line; name = cell ''name'';
          fc0 = parsePointInt (cell ''functionCode'')
      in bind_res (must (name \<noteq> [] \<and> cell ''address'' \<noteq> []) (err ''name and address are required'')) (\<lambda>_.
         bind_res (row_wrap line (parseModbusAddress (cell ''address'') (cell ''addressNotation'') fc0)) (\<lambda>(address, notation, inferred).
         let fc = (if fc0 = 0 then inferred else fc0); dt = to_lower (trim_space (cell ''dataType''));
             dataType = (if dt \<noteq> [] then dt else if fc = 1 \<or> fc = 2 then ''bool'' else ''uint16'')
         in bind_res (must (1 \<le> fc \<and> fc \<le> 4) (err ''functionCode must be 01, 02, 03 or 04'')) (\<lambda>_.
         bind_res (row_wrap line (pointRegisterCount dataType (cell ''registerCount''))) (\<lambda>registerCount.
         bind_res (map_sum (\<lambda>_. err ''bit must be between 0 and 15'') id (optionalPointInt (cell ''bit''))) (\<lambda>bit.
         bind_res (must (case bit of None \<Rightarrow> True | Some b \<Rightarrow> 0 \<le> b \<and> b \<le> 15) (err ''bit must be between 0 and 15'')) (\<lambda>_.
         bind_res (some_or (float_cell parse_float (f64_of_int 1) (cell ''scale'')) (err ''invalid scale'')) (\<lambda>scale.
         bind_res (some_or (float_cell parse_float 0 (cell ''offset'')) (err ''invalid offset'')) (\<lambda>offset.
         let pt = cell ''pollIntervalSec'' in
         bind_res (some_or (if pt = [] then Some defaultPoll else atoi pt) (err ''pollIntervalSec must be positive'')) (\<lambda>poll.
         bind_res (must (pt = [] \<or> 0 < poll) (err ''pollIntervalSec must be positive'')) (\<lambda>_.
         let i0 = trim_space (cell ''identifier'');
             identifier = (if i0 = [] then generatedPointIdentifier name fc address else i0);
             b0 = to_lower (trim_space (cell ''byteOrder'')); byteOrder = (if b0 = [] then ''big'' else b0);
             w0 = to_upper (trim_space (cell ''wordOrder'')); wordOrder = (if w0 = [] then ''ABCD'' else w0)
         in bind_res (must (mget seen identifier = None) (err (''duplicate identifier '' @ identifier))) (\<lambda>_.
         bind_res (must (byteOrder = ''big'' \<or> byteOrder = ''little'') (err ''byteOrder must be big or little'')) (\<lambda>_.
         Inr \<lparr>mp_Identifier = identifier, mp_Name = name, mp_FunctionCode = fc, mp_Address = address,
           mp_AddressNotation = notation, mp_DataType = dataType, mp_RegisterCount = registerCount,
           mp_ByteOrder = byteOrder, mp_WordOrder = wordOrder, mp_Bit = bit, mp_Scale = scale, mp_Offset = offset,
           mp_Unit = cell ''unit'', mp_Access = [], mp_PollIntervalSec = poll, mp_Deadband = 0,
           mp_AlarmMapping = [], mp_Description = cell ''description''\<rparr>)))))))))))))"

definition row_finish :: "(string \<Rightarrow> 64 word option) \<Rightarrow> (string \<Rightarrow> string) \<Rightarrow> int \<Rightarrow> modbus_point \<Rightarrow> modbus_point res" where
  "row_finish parse_float cell line p =
     (let err = row_error line; a0 = to_lower (trim_space (cell ''access'')); access = (if a0 = [] then ''read'' else a0)
      in bind_res (must (mp_DataType p = ''string'' \<or> validWordOrder (mp_WordOrder p) (go_int (mp_RegisterCount p * 2)))
           (err ''wordOrder does not match the bytes'')) (\<lambda>_.
         bind_res (must (access = ''read'' \<or> access = ''read_write'') (err ''access must be read or read_write'')) (\<lambda>_.
         bind_res (some_or (float_cell parse_float 0 (cell ''deadband'')) (err ''invalid deadband'')) (\<lambda>deadband.
         bind_res (must (cell ''deadband'' = [] \<or> \<not> f64_less deadband 0) (err ''invalid deadband'')) (\<lambda>_.
         bind_res (row_wrap line (parseAlarmMapping (cell ''alarmMapping''))) (\<lambda>mapping.
         Inr (p\<lparr>mp_Access := access, mp_Deadband := deadband, mp_AlarmMapping := mapping\<rparr>)))))))"

text \<open>The warning about a missing word order, in Chinese.\<close>

definition row_warning :: "(string \<Rightarrow> string) \<Rightarrow> int \<Rightarrow> modbus_point \<Rightarrow> string list" where
  "row_warning cell line p =
     (if 1 < mp_RegisterCount p \<and> cell ''wordOrder'' = []
      then [bytes [0xE7, 0xAC, 0xAC, 0x20] @ decimal line @ bytes [0x20, 0xE8, 0xA1, 0x8C, 0x20] @ mp_Name p @
        bytes [0x20, 0xE6, 0x9C, 0xAA, 0xE5, 0xA1, 0xAB, 0xE5, 0x86, 0x99, 0xE5, 0xAD, 0x97, 0xE5, 0xBA, 0x8F,
          0xEF, 0xBC, 0x8C, 0xE6, 0x9A, 0x82, 0xE6, 0x8C, 0x89, 0x20] @ ''ABCD'']
      else [])"

text \<open>The rows after the header: the warnings so far, and the points or the first error.\<close>

fun point_rows :: "(string \<Rightarrow> 64 word option) \<Rightarrow> int \<Rightarrow> nat gomap \<Rightarrow> int gomap \<Rightarrow> int \<Rightarrow> string list list \<Rightarrow>
    string list \<times> modbus_point list res" where
  "point_rows parse_float defaultPoll columns seen line [] = ([], Inr [])"
| "point_rows parse_float defaultPoll columns seen line (row # rows) =
     (let cell = pointCell row columns
      in if cell ''name'' = [] \<and> cell ''address'' = []
         then point_rows parse_float defaultPoll columns seen (line + 1) rows
         else case row_start parse_float defaultPoll cell seen line of
             Inl e \<Rightarrow> ([], Inl e)
           | Inr p \<Rightarrow>
               (case row_finish parse_float cell line p of
                  Inl e \<Rightarrow> (row_warning cell line p, Inl e)
                | Inr q \<Rightarrow>
                    (case point_rows parse_float defaultPoll columns (mput seen (mp_Identifier q) line) (line + 1) rows of
                       (ws, r) \<Rightarrow> (row_warning cell line p @ ws, map_sum id (\<lambda>ps. q # ps) r))))"

definition normalizeModbusRows :: "(string \<Rightarrow> 64 word option) \<Rightarrow> string list list \<Rightarrow> int \<Rightarrow>
    string list \<times> modbus_point list res" where
  "normalizeModbusRows parse_float rows defaultPoll =
     (case dropWhile (\<lambda>row. \<not> is_header row) rows of
        [] \<Rightarrow> ([], Inl (ErrText ''point table header must contain name and address''))
      | h # body \<Rightarrow>
          (case point_rows parse_float defaultPoll (header_columns h) []
                 (int (length (takeWhile (\<lambda>row. \<not> is_header row) rows)) + 2) body of
             (ws, Inr []) \<Rightarrow> (ws, Inl (ErrText ''point table does not contain any data rows''))
           | r \<Rightarrow> r))"

text \<open>
  ParseModbusPointTable: xlsx and csv read a file into rows, sha is the hexadecimal SHA-256 digest.
\<close>

definition base_of :: "string \<Rightarrow> string" where
  "base_of f = rev (takeWhile (\<lambda>c. c \<noteq> CHR ''/'') (rev f))"

text \<open>filepath.Ext: from the last dot of the last element.\<close>

definition file_ext :: "string \<Rightarrow> string" where
  "file_ext f = (if CHR ''.'' \<in> set (base_of f)
     then CHR ''.'' # rev (takeWhile (\<lambda>c. c \<noteq> CHR ''.'') (rev (base_of f))) else [])"

text \<open>filepath.Base: the last element, trailing slashes left out.\<close>

definition file_base :: "string \<Rightarrow> string" where
  "file_base f = (let g = rev (dropWhile (\<lambda>c. c = CHR ''/'') (rev f))
     in if f = [] then ''.'' else if g = [] then ''/'' else base_of g)"

definition ParseModbusPointTable :: "(string \<Rightarrow> 64 word option) \<Rightarrow> (string \<Rightarrow> string list list res) \<Rightarrow>
    (string \<Rightarrow> string list list res) \<Rightarrow> (string \<Rightarrow> string) \<Rightarrow> string \<Rightarrow> string \<Rightarrow> int \<Rightarrow>
    string list \<times> point_table_release res" where
  "ParseModbusPointTable parse_float xlsx csv sha filename data defaultPoll =
     (let ext = to_lower (file_ext filename)
      in if data = [] then ([], Inl (ErrText ''point table file is empty''))
         else if ext \<noteq> ''.xlsx'' \<and> ext \<noteq> ''.csv'' then ([], Inl (ErrText ''point table must be .xlsx or .csv''))
         else case (if ext = ''.xlsx'' then xlsx data else csv data) of
             Inl e \<Rightarrow> ([], Inl (ErrWrap ''read point table'' e))
           | Inr rows \<Rightarrow>
               (case normalizeModbusRows parse_float rows (if defaultPoll \<le> 0 then 10 else defaultPoll) of
                  (ws, Inl e) \<Rightarrow> (ws, Inl e)
                | (ws, Inr points) \<Rightarrow> (ws, Inr (zero_point_table_release\<lparr>pt_SourceName := file_base filename,
                    pt_SourceSHA256 := sha data, pt_Points := points\<rparr>))))"

section \<open>Blocks\<close>

definition poll_interval :: "modbus_point \<Rightarrow> int" where
  "poll_interval p = (if mp_PollIntervalSec p \<le> 0 then 10 else mp_PollIntervalSec p)"

definition block_group :: "modbus_point \<Rightarrow> string" where
  "block_group p = decimal (mp_FunctionCode p) @ ''/'' @ decimal (poll_interval p)"

text \<open>
  The loop over the points of a group in the order of their addresses: the start and end addresses of
  its blocks. sort.Slice leaves the order of points with one address open; it is that of the input
  here, and the lemmas hold for every order of the input.
\<close>

definition point_end :: "modbus_point \<Rightarrow> int" where
  "point_end p = go_int (mp_Address p + pointWidth p)"

fun merge_points :: "int \<Rightarrow> int \<Rightarrow> int \<Rightarrow> modbus_point list \<Rightarrow> (int \<times> int) list" where
  "merge_points limit start stop [] = [(start, stop)]"
| "merge_points limit start stop (p # ps) =
     (if stop < mp_Address p \<or> limit < go_int (point_end p - start)
      then (start, stop) # merge_points limit (mp_Address p) (point_end p) ps
      else merge_points limit start (max stop (point_end p)) ps)"

definition read_limit :: "int \<Rightarrow> int" where
  "read_limit fc = (if fc \<le> 2 then 2000 else 125)"

text \<open>flush: the block from start to stop in the group of the point p.\<close>

definition flush_block :: "modbus_point \<Rightarrow> int \<times> int \<Rightarrow> modbus_read_block" where
  "flush_block p b = (case b of (start, stop) \<Rightarrow>
     \<lparr>mb_ID = ''fc'' @ decimal2 (mp_FunctionCode p) @ ''_'' @ decimal start @ ''_'' @ decimal (go_int (stop - start)),
       mb_FunctionCode = mp_FunctionCode p, mb_StartAddress = start, mb_Quantity = go_int (stop - start),
       mb_PollIntervalSec = poll_interval p\<rparr>)"

definition group_blocks :: "modbus_point list \<Rightarrow> modbus_read_block list" where
  "group_blocks points =
     (case sort_slice (\<lambda>p q. mp_Address p < mp_Address q) points of
        [] \<Rightarrow> []
      | p # ps \<Rightarrow> map (flush_block p) (merge_points (read_limit (mp_FunctionCode p)) (mp_Address p) (point_end p) ps))"

definition CompileModbusReadBlocks :: "modbus_point list \<Rightarrow> modbus_read_block list res" where
  "CompileModbusReadBlocks points =
     (case find (\<lambda>p. mp_FunctionCode p < 1 \<or> 4 < mp_FunctionCode p) points of
        Some p \<Rightarrow> Inl (ErrText (''point has unsupported function code: '' @ mp_Identifier p))
      | None \<Rightarrow> Inr (concat (map (\<lambda>k. group_blocks (filter (\<lambda>p. block_group p = k) points))
          (sort (remdups (map block_group points))))))"

end
