(* ===== verification/Point_Props.thy ===== *)
theory Point_Props
  imports Point_Table
begin

text \<open>
  Correctness of point tables: what an accepted table guarantees of its points, that the compiled
  blocks cover every point under its function code and interval, and that the blocks of points within
  the protocol's limits can all be requested.
\<close>

section \<open>Decimal texts\<close>

lemma block_group_inject:
  "block_group p = block_group q \<longleftrightarrow> mp_FunctionCode p = mp_FunctionCode q \<and> poll_interval p = poll_interval q"
  by (simp add: block_group_def split_at decimal_no_slash decimal_inject)

section \<open>Merging\<close>

lemma pointWidth_pos: "1 \<le> pointWidth p"
  by (simp add: pointWidth_def)

lemma merge_points_start:
  "\<exists>e. (start, e) \<in> set (merge_points limit start stop ps) \<and> stop \<le> e"
proof (induction ps arbitrary: start stop)
  case (Cons p ps)
  show ?case using Cons [of start "max stop (point_end p)"] by auto
qed simp

lemma merge_points_cover:
  assumes "sorted_wrt (\<lambda>p q. mp_Address p \<le> mp_Address q) ps" "\<forall>p \<in> set ps. start \<le> mp_Address p" "p \<in> set ps"
  shows "\<exists>s e. (s, e) \<in> set (merge_points limit start stop ps) \<and> s \<le> mp_Address p \<and> point_end p \<le> e"
  using assms
proof (induction ps arbitrary: start stop)
  case (Cons q qs)
  consider "p = q" | "p \<in> set qs" using Cons.prems(3) by auto
  then show ?case
  proof cases
    case 1
    then show ?thesis
      using Cons.prems(2) merge_points_start [of "mp_Address q" limit "point_end q" qs]
        merge_points_start [of start limit "max stop (point_end q)" qs] by (auto; fastforce)
  next
    case 2
    have "\<exists>s e. (s, e) \<in> set (merge_points limit (mp_Address q) (point_end q) qs) \<and> s \<le> mp_Address p \<and> point_end p \<le> e"
      "\<exists>s e. (s, e) \<in> set (merge_points limit start (max stop (point_end q)) qs) \<and> s \<le> mp_Address p \<and> point_end p \<le> e"
      using Cons.IH Cons.prems 2 by simp_all
    then show ?thesis by auto
  qed
qed simp

text \<open>The points whose addresses Go's int can hold up to their end.\<close>

definition in_int :: "modbus_point \<Rightarrow> bool" where
  "in_int p \<longleftrightarrow> 0 \<le> mp_Address p \<and> mp_Address p + pointWidth p < 2 ^ 63"

lemma point_end_in_int: "in_int p \<Longrightarrow> point_end p = mp_Address p + pointWidth p"
  using pointWidth_pos [of p] by (simp add: point_end_def in_int_def go_int_id)

lemma merge_points_ends:
  assumes "(s, e) \<in> set (merge_points limit start stop ps)"
  shows "s \<in> insert start (mp_Address ` set ps) \<and> e \<in> insert stop (point_end ` set ps)"
  using assms
  by (induction ps arbitrary: start stop) (fastforce simp: max_def split: if_splits)+

lemma merge_points_bounds:
  assumes "(s, e) \<in> set (merge_points limit start stop ps)" "\<forall>p \<in> set ps. in_int p \<and> pointWidth p \<le> limit"
    "start < stop" "stop - start \<le> limit" "0 \<le> start" "start < 2 ^ 63"
  shows "s < e \<and> e - s \<le> limit"
  using assms
proof (induction ps arbitrary: start stop)
  case (Cons p ps)
  have r: "in_int p" "pointWidth p \<le> limit" using Cons.prems(2) by simp_all
  have w: "mp_Address p < point_end p" "point_end p - mp_Address p \<le> limit" "0 \<le> mp_Address p" "mp_Address p < 2 ^ 63"
    "point_end p < 2 ^ 63"
    using pointWidth_pos [of p] r(2) point_end_in_int [OF r(1)] r(1) by (auto simp: in_int_def)
  have g: "go_int (point_end p - start) = point_end p - start"
    using w Cons.prems(5,6) by (intro go_int_id) linarith+
  show ?case
  proof (cases "stop < mp_Address p \<or> limit < point_end p - start")
    case True
    then consider "s = start" "e = stop" | "(s, e) \<in> set (merge_points limit (mp_Address p) (point_end p) ps)"
      using Cons.prems(1) by (auto simp: g)
    then show ?thesis
    proof cases
      case 1
      then show ?thesis using Cons.prems by simp
    next
      case 2
      then show ?thesis using Cons.IH [OF 2] Cons.prems(2) w by auto
    qed
  next
    case False
    then have "(s, e) \<in> set (merge_points limit start (max stop (point_end p)) ps)" using Cons.prems(1) by (simp add: g)
    from Cons.IH [OF this] show ?thesis using Cons.prems False by (auto simp: max_def split: if_splits)
  qed
qed simp

interpretation by_address: slice_order "\<lambda>p q. mp_Address p < mp_Address q"
  by unfold_locales auto

text \<open>A group of points, in the order of their addresses, and the blocks made of it.\<close>

lemma group_blocks_made:
  assumes "points \<noteq> []"
  obtains q qs where "set points = insert q (set qs)" "sorted_wrt (\<lambda>p q. mp_Address p \<le> mp_Address q) (q # qs)"
    "group_blocks points = map (flush_block q) (merge_points (read_limit (mp_FunctionCode q)) (mp_Address q) (point_end q) qs)"
proof -
  let ?s = "sort_slice (\<lambda>p q. mp_Address p < mp_Address q) points"
  have set: "set ?s = set points" by simp
  then have "?s \<noteq> []" using assms by (metis set_empty)
  then obtain q qs where s: "?s = q # qs" by (cases ?s) auto
  have "sorted_wrt (\<lambda>p q. mp_Address p \<le> mp_Address q) (q # qs)"
    using by_address.sorted_sort_slice [of points] by (simp add: s not_less)
  moreover have "set points = insert q (set qs)" using set by (simp add: s)
  ultimately show thesis using that by (simp add: group_blocks_def s)
qed

lemma flush_block_simps [simp]:
  "mb_FunctionCode (flush_block q (a, e)) = mp_FunctionCode q" "mb_StartAddress (flush_block q (a, e)) = a"
  "mb_Quantity (flush_block q (a, e)) = go_int (e - a)" "mb_PollIntervalSec (flush_block q (a, e)) = poll_interval q"
  by (simp_all add: flush_block_def)

lemma block_difference:
  assumes ae: "(a, e) \<in> set (merge_points l (mp_Address q) (point_end q) qs)" and s: "set points = insert q (set qs)"
    and r: "\<forall>p \<in> set points. in_int p"
  shows "a \<in> mp_Address ` set points" "e \<in> point_end ` set points" "go_int (e - a) = e - a"
proof -
  show m: "a \<in> mp_Address ` set points" "e \<in> point_end ` set points" using merge_points_ends [OF ae] s by auto
  have bounds: "0 \<le> mp_Address p" "mp_Address p < 2 ^ 63" "0 \<le> point_end p" "point_end p < 2 ^ 63" if "p \<in> set points" for p
    using r that pointWidth_pos [of p] point_end_in_int [of p] by (auto simp: in_int_def)
  obtain p1 p2 where "p1 \<in> set points" "a = mp_Address p1" "p2 \<in> set points" "e = point_end p2" using m by blast
  then show "go_int (e - a) = e - a"
    using bounds(1,2) [of p1] bounds(3,4) [of p2] by (intro go_int_id) linarith+
qed

text \<open>A block, by the ends of which it is made.\<close>

lemma group_blocks_elim:
  assumes "b \<in> set (group_blocks points)"
  obtains q qs a e where "set points = insert q (set qs)"
    "(a, e) \<in> set (merge_points (read_limit (mp_FunctionCode q)) (mp_Address q) (point_end q) qs)" "b = flush_block q (a, e)"
proof -
  have "points \<noteq> []" using assms by (auto simp: group_blocks_def sort_slice_def)
  then obtain q qs where "set points = insert q (set qs)"
    "group_blocks points = map (flush_block q) (merge_points (read_limit (mp_FunctionCode q)) (mp_Address q) (point_end q) qs)"
    by (rule group_blocks_made)
  then show thesis using assms that by auto
qed

lemma group_blocks_ends:
  assumes "b \<in> set (group_blocks points)" and r: "\<forall>p \<in> set points. in_int p"
  shows "mb_StartAddress b \<in> mp_Address ` set points" "mb_StartAddress b + mb_Quantity b \<in> point_end ` set points"
  using assms(1)
  by (rule group_blocks_elim; use block_difference [OF _ _ r] in simp)+

lemma group_blocks_cover:
  assumes p: "p \<in> set points" and r: "\<forall>p \<in> set points. in_int p"
  shows "\<exists>b \<in> set (group_blocks points). mb_StartAddress b \<le> mp_Address p \<and>
    point_end p \<le> mb_StartAddress b + mb_Quantity b"
proof -
  have "points \<noteq> []" using p by auto
  then obtain q qs where s: "set points = insert q (set qs)" "sorted_wrt (\<lambda>p q. mp_Address p \<le> mp_Address q) (q # qs)"
    "group_blocks points = map (flush_block q) (merge_points (read_limit (mp_FunctionCode q)) (mp_Address q) (point_end q) qs)"
    by (rule group_blocks_made)
  have "\<exists>a e. (a, e) \<in> set (merge_points (read_limit (mp_FunctionCode q)) (mp_Address q) (point_end q) qs) \<and>
      a \<le> mp_Address p \<and> point_end p \<le> e"
  proof (cases "p = q")
    case True
    then show ?thesis using merge_points_start by blast
  next
    case False
    then show ?thesis using merge_points_cover [of qs "mp_Address q" p] s(1,2) p by simp
  qed
  then obtain a e where ae: "(a, e) \<in> set (merge_points (read_limit (mp_FunctionCode q)) (mp_Address q) (point_end q) qs)"
    "a \<le> mp_Address p" "point_end p \<le> e" by blast
  then have "flush_block q (a, e) \<in> set (group_blocks points)" by (simp add: s(3))
  then show ?thesis using ae(2,3) block_difference(3) [OF ae(1) s(1) r] by (intro bexI [of _ "flush_block q (a, e)"]) simp_all
qed

lemma group_blocks_of:
  assumes "b \<in> set (group_blocks points)" "\<forall>p \<in> set points. mp_FunctionCode p = fc \<and> poll_interval p = i"
  shows "mb_FunctionCode b = fc" "mb_PollIntervalSec b = i"
  using assms(1) by (rule group_blocks_elim; use assms(2) in simp)+

text \<open>A block holds the point at its start.\<close>

lemma merge_points_first:
  assumes "(s, e) \<in> set (merge_points limit start stop ps)" "mp_Address q = start" "point_end q \<le> stop"
  shows "\<exists>p \<in> insert q (set ps). mp_Address p = s \<and> point_end p \<le> e"
  using assms
proof (induction ps arbitrary: start stop q)
  case (Cons p ps)
  from Cons.prems(1) consider "s = start" "e = stop" | "(s, e) \<in> set (merge_points limit (mp_Address p) (point_end p) ps)"
    | "(s, e) \<in> set (merge_points limit start (max stop (point_end p)) ps)" by (auto split: if_splits)
  then show ?case
  proof cases
    case 1
    then show ?thesis using Cons.prems by auto
  next
    case 2
    from Cons.IH [OF this refl order_refl] show ?thesis by auto
  next
    case 3
    have "point_end q \<le> max stop (point_end p)" using Cons.prems(3) by simp
    from Cons.IH [OF 3 Cons.prems(2) this] show ?thesis by auto
  qed
qed auto

lemma group_blocks_first:
  assumes b: "b \<in> set (group_blocks points)" and r: "\<forall>p \<in> set points. in_int p"
  shows "\<exists>p \<in> set points. mp_Address p = mb_StartAddress b \<and> point_end p \<le> mb_StartAddress b + mb_Quantity b"
proof -
  obtain q qs a e where s: "set points = insert q (set qs)" and b: "b = flush_block q (a, e)"
    and ae: "(a, e) \<in> set (merge_points (read_limit (mp_FunctionCode q)) (mp_Address q) (point_end q) qs)"
    by (rule group_blocks_elim [OF b])
  show ?thesis using merge_points_first [OF ae refl order_refl] block_difference(3) [OF ae s r] by (simp add: b s)
qed

lemma group_blocks_bounds:
  assumes b: "b \<in> set (group_blocks points)" and fc: "\<forall>p \<in> set points. mp_FunctionCode p = fc"
    and w: "\<forall>p \<in> set points. in_int p \<and> pointWidth p \<le> read_limit fc"
  shows "0 < mb_Quantity b" "mb_Quantity b \<le> read_limit fc"
proof -
  obtain q qs a e where s: "set points = insert q (set qs)" and b: "b = flush_block q (a, e)"
    and ae: "(a, e) \<in> set (merge_points (read_limit (mp_FunctionCode q)) (mp_Address q) (point_end q) qs)"
    by (rule group_blocks_elim [OF b])
  have q: "in_int q" "pointWidth q \<le> read_limit fc" "mp_FunctionCode q = fc" using w fc s by simp_all
  have "\<forall>p \<in> set points. in_int p" using w by simp
  note d = block_difference(3) [OF ae s this]
  have "a < e \<and> e - a \<le> read_limit fc"
    using q point_end_in_int [OF q(1)] pointWidth_pos [of q] w s
    by (intro merge_points_bounds [OF ae [unfolded q(3)]]) (auto simp: in_int_def)
  then show "0 < mb_Quantity b" "mb_Quantity b \<le> read_limit fc" by (simp_all add: b d)
qed

section \<open>Compiled blocks\<close>

lemma compiled:
  assumes "CompileModbusReadBlocks points = Inr blocks"
  shows "p \<in> set points \<Longrightarrow> 1 \<le> mp_FunctionCode p \<and> mp_FunctionCode p \<le> 4"
    and "b \<in> set blocks \<longleftrightarrow> (\<exists>q \<in> set points. b \<in> set (group_blocks (filter (\<lambda>p. block_group p = block_group q) points)))"
  using assms by (auto simp: CompileModbusReadBlocks_def find_None_iff not_less split: option.splits)

lemma compiled_cover:
  assumes c: "CompileModbusReadBlocks points = Inr blocks" and p: "p \<in> set points" and r: "\<forall>q \<in> set points. in_int q"
  shows "\<exists>b. b \<in> set blocks \<and> mb_FunctionCode b = mp_FunctionCode p \<and> mb_PollIntervalSec b = poll_interval p \<and>
    mb_StartAddress b \<le> mp_Address p \<and> point_end p \<le> mb_StartAddress b + mb_Quantity b"
proof -
  let ?g = "filter (\<lambda>q. block_group q = block_group p) points"
  have g: "\<forall>q \<in> set ?g. mp_FunctionCode q = mp_FunctionCode p \<and> poll_interval q = poll_interval p"
    by (simp add: block_group_inject)
  obtain b where b: "b \<in> set (group_blocks ?g)" "mb_StartAddress b \<le> mp_Address p"
    "point_end p \<le> mb_StartAddress b + mb_Quantity b"
    using group_blocks_cover [of p ?g] p r by auto
  moreover have "b \<in> set blocks" using b(1) compiled(2) [OF c] p by blast
  ultimately show ?thesis using group_blocks_of [OF b(1) g] by blast
qed

text \<open>Every block has a point, of its function code, that lies inside it.\<close>

lemma compiled_first:
  assumes c: "CompileModbusReadBlocks points = Inr blocks" and b: "b \<in> set blocks" and r: "\<forall>q \<in> set points. in_int q"
  shows "\<exists>p \<in> set points. mp_FunctionCode p = mb_FunctionCode b \<and> mp_Address p = mb_StartAddress b \<and>
    point_end p \<le> mb_StartAddress b + mb_Quantity b"
proof -
  obtain q where q: "q \<in> set points"
    "b \<in> set (group_blocks (filter (\<lambda>p. block_group p = block_group q) points))" (is "b \<in> set (group_blocks ?g)")
    using compiled(2) [OF c] b by blast
  have g: "\<forall>p \<in> set ?g. mp_FunctionCode p = mp_FunctionCode q \<and> poll_interval p = poll_interval q"
    by (simp add: block_group_inject)
  have "\<forall>p \<in> set ?g. in_int p" using r by simp
  from group_blocks_first [OF q(2) this] group_blocks_of [OF q(2) g] g show ?thesis by auto
qed

text \<open>
  C32. The blocks compiled from a point table cover it: every point lies inside a block that is read
  with its function code and at its interval. Assumed is that no point's address or end exceeds Go's int
  of 64 bits; beyond it the sums wrap around and a point can be left out (wrapped_blocks).
\<close>
theorem compiled_blocks_cover:
  assumes "CompileModbusReadBlocks points = Inr blocks" "p \<in> set points"
    and "\<forall>q \<in> set points. 0 \<le> mp_Address q \<and> mp_Address q + pointWidth q < 2 ^ 63"
  shows "\<exists>b. b \<in> set blocks \<and> mb_FunctionCode b = mp_FunctionCode p \<and> mb_PollIntervalSec b = poll_interval p \<and>
    mb_StartAddress b \<le> mp_Address p \<and> mp_Address p + pointWidth p \<le> mb_StartAddress b + mb_Quantity b"
proof -
  have r: "\<forall>q \<in> set points. in_int q" using assms(3) by (simp add: in_int_def)
  then have "point_end p = mp_Address p + pointWidth p" using assms(2) by (simp add: point_end_in_int)
  then show ?thesis using compiled_cover [OF assms(1,2) r] by simp
qed

definition sample_point :: "string \<Rightarrow> int \<Rightarrow> int \<Rightarrow> modbus_point" where
  "sample_point i address n = \<lparr>mp_Identifier = i, mp_Name = i, mp_FunctionCode = 3, mp_Address = address,
     mp_AddressNotation = ''zero_based'', mp_DataType = ''uint16'', mp_RegisterCount = n,
     mp_ByteOrder = ''big'', mp_WordOrder = ''ABCD'', mp_Bit = None, mp_Scale = f64_of_int 1, mp_Offset = 0,
     mp_Unit = [], mp_Access = ''read'', mp_PollIntervalSec = 10, mp_Deadband = 0, mp_AlarmMapping = [],
     mp_Description = []\<rparr>"

definition sample_points :: "modbus_point list" where
  "sample_points = [sample_point ''b'' 2 2, sample_point ''a'' 0 1, sample_point ''c'' 1 1]"

lemma sample_compiled: "\<exists>blocks. CompileModbusReadBlocks sample_points = Inr blocks"
  by (simp add: CompileModbusReadBlocks_def sample_points_def sample_point_def)

theorem compiled_blocks_cover_witness:
  "\<exists>blocks b. CompileModbusReadBlocks sample_points = Inr blocks \<and> b \<in> set blocks \<and>
     mb_StartAddress b \<le> 2 \<and> 4 \<le> mb_StartAddress b + mb_Quantity b"
proof -
  obtain blocks where c: "CompileModbusReadBlocks sample_points = Inr blocks" using sample_compiled by blast
  have "sample_point ''b'' 2 2 \<in> set sample_points" by (simp add: sample_points_def)
  from compiled_blocks_cover [OF c this] show ?thesis
    using c by (auto simp: sample_points_def sample_point_def pointWidth_def)
qed

text \<open>Two registers at the end of Go's int compile into one block of one register.\<close>

lemma wrapped_blocks:
  "\<exists>b. CompileModbusReadBlocks [sample_point ''a'' 9223372036854775806 1, sample_point ''b'' 9223372036854775807 1] = Inr [b] \<and>
     mb_StartAddress b = 9223372036854775806 \<and> mb_Quantity b = 1"
proof -
  have "go_int 9223372036854775807 = 9223372036854775807" "go_int 9223372036854775808 = - 9223372036854775808"
    "go_int (- 18446744073709551614) = 2" "go_int 1 = 1"
    by (simp_all add: go_int_def signed_take_bit_eq_if_positive signed_take_bit_eq_if_negative)
  then show ?thesis
    by (simp add: CompileModbusReadBlocks_def group_blocks_def sort_slice_def sample_point_def block_group_def
        poll_interval_def point_end_def pointWidth_def read_limit_def)
qed

lemma compiled_requested:
  assumes c: "CompileModbusReadBlocks points = Inr blocks" and b: "b \<in> set blocks"
    and fits: "\<forall>p \<in> set points. 0 \<le> mp_Address p \<and> mp_Address p + pointWidth p \<le> 65536 \<and> pointWidth p \<le> read_limit (mp_FunctionCode p)"
  shows "\<exists>r. buildReadRequest t u b = Inr r"
proof -
  obtain q where q: "q \<in> set points"
    "b \<in> set (group_blocks (filter (\<lambda>p. block_group p = block_group q) points))" (is "b \<in> set (group_blocks ?g)")
    using compiled(2) [OF c] b by blast
  have g: "\<forall>p \<in> set ?g. mp_FunctionCode p = mp_FunctionCode q \<and> poll_interval p = poll_interval q"
    by (simp add: block_group_inject)
  then have fc: "\<forall>p \<in> set ?g. mp_FunctionCode p = mp_FunctionCode q" by blast
  have i: "\<forall>p \<in> set points. in_int p" using fits by (auto simp: in_int_def)
  have w: "\<forall>p \<in> set ?g. in_int p \<and> pointWidth p \<le> read_limit (mp_FunctionCode q)" using fits fc i by fastforce
  note b4 = group_blocks_bounds [OF q(2) fc w]
  have "\<forall>p \<in> set ?g. in_int p" using i by simp
  from group_blocks_ends [OF q(2) this] have "0 \<le> mb_StartAddress b" "mb_StartAddress b + mb_Quantity b \<le> 65536"
    using fits i point_end_in_int by auto
  moreover have "mb_FunctionCode b = mp_FunctionCode q" using group_blocks_of [OF q(2) g] by simp
  moreover have "1 \<le> mp_FunctionCode q \<and> mp_FunctionCode q \<le> 4" using compiled(1) [OF c q(1)] .
  ultimately show ?thesis using b4(1,2) by (auto simp: buildReadRequest_def Let_def read_limit_def)
qed

text \<open>
  Every block compiled from points whose addresses and lengths are within the protocol's limits
  can be requested: at most 125 registers or 2000 bits, inside the address space.
\<close>
theorem compiled_blocks_can_be_requested:
  assumes "CompileModbusReadBlocks points = Inr blocks" "b \<in> set blocks"
    and "\<forall>p \<in> set points. 0 \<le> mp_Address p \<and> mp_Address p + pointWidth p \<le> 65536 \<and>
      pointWidth p \<le> read_limit (mp_FunctionCode p)"
  shows "\<exists>r. buildReadRequest t u b = Inr r \<and> length r = 12"
proof -
  obtain r where "buildReadRequest t u b = Inr r"
    using compiled_requested [OF assms(1,2)] assms(3) by blast
  then show ?thesis by (auto simp: buildReadRequest_def Let_def split: if_splits)
qed

theorem compiled_blocks_can_be_requested_witness:
  "\<exists>blocks b r. CompileModbusReadBlocks sample_points = Inr blocks \<and> b \<in> set blocks \<and>
     buildReadRequest 1 1 b = Inr r \<and> length r = 12"
proof -
  obtain blocks where c: "CompileModbusReadBlocks sample_points = Inr blocks" using sample_compiled by blast
  have "sample_point ''b'' 2 2 \<in> set sample_points" by (simp add: sample_points_def)
  then obtain b where "b \<in> set blocks"
    using compiled_cover [OF c] by (auto simp: sample_points_def sample_point_def in_int_def pointWidth_def)
  from compiled_blocks_can_be_requested [OF c this, of 1 1] show ?thesis
    using c \<open>b \<in> set blocks\<close> by (auto simp: sample_points_def sample_point_def pointWidth_def read_limit_def)
qed

section \<open>Accepted tables\<close>

definition point_valid :: "modbus_point \<Rightarrow> bool" where
  "point_valid p \<longleftrightarrow> 1 \<le> mp_FunctionCode p \<and> mp_FunctionCode p \<le> 4 \<and> 0 \<le> mp_Address p \<and>
     1 \<le> mp_RegisterCount p \<and> (mp_Bit p = None \<or> 0 \<le> the (mp_Bit p) \<and> the (mp_Bit p) \<le> 15) \<and>
     0 < mp_PollIntervalSec p \<and> mp_ByteOrder p \<in> {''big'', ''little''} \<and>
     (mp_DataType p = ''string'' \<or> validWordOrder (mp_WordOrder p) (go_int (mp_RegisterCount p * 2))) \<and>
     mp_Access p \<in> {''read'', ''read_write''} \<and> \<not> f64_less (mp_Deadband p) 0"

lemma parseModbusAddress_Inr:
  "parseModbusAddress txt notation fc = Inr (a, n, fc') \<Longrightarrow> 0 \<le> a"
  by (auto simp: parseModbusAddress_def Let_def split: option.splits if_splits)

lemma pointRegisterCount_Inr: "pointRegisterCount dt txt = Inr n \<Longrightarrow> 1 \<le> n"
  by (auto simp: pointRegisterCount_def split: option.splits if_splits)

lemma row_wrap_Inr [res_simps]: "row_wrap line x = Inr y \<longleftrightarrow> x = Inr y"
  by (cases x) (simp_all add: row_wrap_def)

lemma map_sum_Inr [res_simps]: "map_sum f id x = Inr y \<longleftrightarrow> x = Inr y"
  by (cases x) simp_all

lemma map_sum_id_Inr: "map_sum id g x = Inr y \<longleftrightarrow> (\<exists>z. x = Inr z \<and> y = g z)"
  by (cases x) auto

lemma row_start_Inr:
  assumes "row_start pf d cell seen line = Inr p"
  obtains a n k fc dt tx rc bit pt poll i bo where
    "parseModbusAddress (cell ''address'') (cell ''addressNotation'') (parsePointInt (cell ''functionCode'')) = Inr (a, n, k)"
    "1 \<le> fc \<and> fc \<le> 4" "pointRegisterCount dt tx = Inr rc" "case bit of None \<Rightarrow> True | Some b \<Rightarrow> 0 \<le> b \<and> b \<le> 15"
    "(if pt = [] then Some d else atoi pt) = Some poll" "pt = [] \<or> 0 < poll" "mget seen i = None"
    "bo = ''big'' \<or> bo = ''little''" "mp_FunctionCode p = fc" "mp_Address p = a" "mp_RegisterCount p = rc"
    "mp_Bit p = bit" "mp_PollIntervalSec p = poll" "mp_ByteOrder p = bo" "mp_Identifier p = i"
  using assms unfolding row_start_def Let_def
  apply (simp only: res_simps split_paired_Ex prod.case)
  apply (elim exE conjE)
  apply (drule sum.inject(2) [THEN iffD1])
  apply (drule sym [of _ p])
  apply (rule that)
                apply (assumption | rule conjI)+
         apply (simp_all only: modbus_point.simps)
  done

lemma row_finish_Inr:
  assumes "row_finish pf cell line p = Inr q"
  obtains a w m where "q = p\<lparr>mp_Access := a, mp_Deadband := w, mp_AlarmMapping := m\<rparr>"
    "a = ''read'' \<or> a = ''read_write''" "\<not> f64_less w 0"
    "mp_DataType p = ''string'' \<or> validWordOrder (mp_WordOrder p) (go_int (mp_RegisterCount p * 2))"
proof -
  have z: "\<not> f64_less 0 0" by (simp add: f64_less_def)
  show thesis
    using assms unfolding row_finish_def Let_def
    apply (simp only: res_simps)
    apply (elim exE conjE)
    apply (drule sum.inject(2) [THEN iffD1])
    apply (rule that)
       apply (erule sym)
      apply assumption
     apply (use z in \<open>auto simp: float_cell_def split: if_splits\<close>)
    done
qed

lemma row_valid:
  assumes "row_start pf d cell seen line = Inr p" "row_finish pf cell line p = Inr q" "0 < d"
  shows "point_valid q" "mget seen (mp_Identifier q) = None"
proof -
  show "point_valid q"
    by (rule row_start_Inr [OF assms(1)], rule row_finish_Inr [OF assms(2)])
      (use \<open>0 < d\<close> in \<open>auto simp: point_valid_def dest: parseModbusAddress_Inr pointRegisterCount_Inr
        split: if_splits option.splits\<close>)
  show "mget seen (mp_Identifier q) = None"
    by (rule row_start_Inr [OF assms(1)], rule row_finish_Inr [OF assms(2)]) simp
qed

lemma point_rows_valid:
  assumes "point_rows pf d columns seen line rows = (ws, Inr points)" "0 < d"
  shows "(\<forall>p \<in> set points. point_valid p \<and> mget seen (mp_Identifier p) = None) \<and> distinct (map mp_Identifier points)"
  using assms
proof (induction pf d columns seen line rows arbitrary: ws points rule: point_rows.induct)
  case (2 pf d columns seen line row rows)
  let ?cell = "pointCell row columns"
  show ?case
  proof (cases "?cell ''name'' = [] \<and> ?cell ''address'' = []")
    case True
    then show ?thesis using 2 by simp
  next
    case False
    obtain p q ws2 ps where r: "row_start pf d ?cell seen line = Inr p" "row_finish pf ?cell line p = Inr q"
      "point_rows pf d columns (mput seen (mp_Identifier q) line) (line + 1) rows = (ws2, Inr ps)" "points = q # ps"
      using "2.prems"(1) False by (auto simp: map_sum_id_Inr Let_def split: sum.splits prod.splits)
    have "(\<forall>p \<in> set ps. point_valid p \<and> mget (mput seen (mp_Identifier q) line) (mp_Identifier p) = None) \<and>
        distinct (map mp_Identifier ps)"
      using "2.IH"(2) [OF refl _ r(1,2,3) "2.prems"(2)] False by blast
    then show ?thesis using row_valid [OF r(1,2) "2.prems"(2)] r(4) by (auto split: if_splits)
  qed
qed simp

lemma normalized_valid:
  assumes "normalizeModbusRows pf rows d = (ws, Inr points)" "0 < d"
  shows "points \<noteq> []" "\<forall>p \<in> set points. point_valid p" "distinct (map mp_Identifier points)"
proof -
  obtain h body where r: "dropWhile (\<lambda>row. \<not> is_header row) rows = h # body"
    using assms(1) by (auto simp: normalizeModbusRows_def split: list.splits)
  obtain columns line where "point_rows pf d columns [] line body = (ws, Inr points)" and n: "points \<noteq> []"
    using assms(1) by (auto simp: normalizeModbusRows_def r split: list.splits sum.splits prod.splits)
  from point_rows_valid [OF this(1) assms(2)] n
  show "points \<noteq> []" "\<forall>p \<in> set points. point_valid p" "distinct (map mp_Identifier points)" by auto
qed

text \<open>
  C33. The points of an accepted table have distinct identifiers, a readable function code, an address
  that is not negative, at least one register, a bit index from 0 to 15, a positive interval, a byte
  order, a word order that fits their length in bytes as Go's int of 64 bits gives it (exactly for fewer
  than 2^62 registers), and a threshold that is not negative; they can be compiled into blocks.
\<close>
theorem point_table_valid:
  assumes "ParseModbusPointTable pf xlsx csv sha filename data d = (ws, Inr table)"
  shows "distinct (map mp_Identifier (pt_Points table)) \<and> (\<forall>p. p \<in> set (pt_Points table) \<longrightarrow> point_valid p) \<and>
    (\<exists>blocks. CompileModbusReadBlocks (pt_Points table) = Inr blocks)"
proof -
  obtain rows ws2 points where
    n: "normalizeModbusRows pf rows (if d \<le> 0 then 10 else d) = (ws2, Inr points)" and t: "pt_Points table = points"
    using assms by (auto simp: ParseModbusPointTable_def Let_def split: if_splits sum.splits prod.splits)
  have "0 < (if d \<le> 0 then 10 else d)" by simp
  note v = normalized_valid [OF n this]
  then have "find (\<lambda>p. mp_FunctionCode p < 1 \<or> 4 < mp_FunctionCode p) points = None"
    by (auto simp: find_None_iff point_valid_def)
  then show ?thesis using v by (simp add: t CompileModbusReadBlocks_def)
qed

text \<open>A table of two rows, as the reader of CSV files delivers it.\<close>

definition sample_rows :: "string list list" where
  "sample_rows = [[''name'', ''address''], [''temp'', ''40001''], [''hum'', ''40003'']]"

lemma drop_separators_letters:
  "\<forall>c \<in> set s. visible c \<and> c \<notin> set ''_-/'' \<Longrightarrow> drop_separators s = s"
proof (induction s)
  case Nil
  then show ?case by (subst drop_separators.simps) simp
next
  case (Cons c s)
  have v: "visible c" "c \<notin> set ''_-/''" using Cons.prems by auto
  have one: "has_prefix (c # s) [d] \<longleftrightarrow> c = d" for d by (auto simp: has_prefix_def)
  have "find (\<lambda>p. p \<noteq> [] \<and> has_prefix (c # s) p) (spaces @ [''_'', ''-'', ''/'']) = None"
    using no_space(1) [OF v(1), of s] v(2) by (auto simp: find_None_iff one)
  then show ?case using Cons by (subst drop_separators.simps) simp
qed

lemma sample_header:
  "normalizedPointHeader ''name'' = ''name''" "normalizedPointHeader ''address'' = ''address''"
proof -
  have "trim_space ''name'' = ''name''" "trim_space ''address'' = ''address''" by (simp_all add: visible_simps)
  moreover have "drop_separators ''name'' = ''name''" "drop_separators ''address'' = ''address''"
    by (rule drop_separators_letters; simp add: visible_def)+
  ultimately show "normalizedPointHeader ''name'' = ''name''" "normalizedPointHeader ''address'' = ''address''"
    by (simp_all add: normalizedPointHeader_def to_lower_def lower_char_def)
qed

definition sample_layout :: "nat gomap" where
  "sample_layout = [(''name'', 0), (''address'', 1)]"

lemma sample_columns: "header_columns [''name'', ''address''] = sample_layout"
proof -
  have "mget point_aliases ''name'' = Some ''name''" "mget point_aliases ''address'' = Some ''address''"
    by (simp_all add: point_aliases_def mget_def bytes_def)
  then show ?thesis by (simp add: header_columns_def sample_header mput_def sample_layout_def)
qed

abbreviation sample_cell :: "string list \<Rightarrow> string \<Rightarrow> string" where
  "sample_cell row \<equiv> pointCell row sample_layout"

lemma sample_address: "parseModbusAddress ''40001'' [] 0 = Inr (0, ''4xxxx'', 3)"
  "parseModbusAddress ''40003'' [] 0 = Inr (2, ''4xxxx'', 3)"
proof -
  have "to_upper ''40001'' = ''40001''" "to_upper ''40003'' = ''40003''"
    by (simp_all add: to_upper_def upper_char_def)
  then show "parseModbusAddress ''40001'' [] 0 = Inr (0, ''4xxxx'', 3)"
    "parseModbusAddress ''40003'' [] 0 = Inr (2, ''4xxxx'', 3)"
    by (simp_all add: parseModbusAddress_def visible_simps trim_prefix_def has_prefix_def atoi_def digit_of_def
        Let_def)
qed


lemma sample_cells:
  "sample_cell [''temp'', ''40001''] ''name'' = ''temp''" "sample_cell [''temp'', ''40001''] ''address'' = ''40001''"
  "sample_cell [''hum'', ''40003''] ''name'' = ''hum''" "sample_cell [''hum'', ''40003''] ''address'' = ''40003''"
  "c \<noteq> ''name'' \<Longrightarrow> c \<noteq> ''address'' \<Longrightarrow> sample_cell row c = []"
  by (simp_all add: pointCell_def sample_layout_def mget_def visible_simps)

lemma sample_empty_cells: "parsePointInt [] = 0" "to_lower [] = []" "to_upper [] = []" "parseAlarmMapping [] = Inr []"
  by (simp_all add: parsePointInt_def atoi_value_def to_lower_def to_upper_def trim_prefix_def has_prefix_def
      parseAlarmMapping_def split_fields.simps)

lemma sample_identifiers:
  "generatedPointIdentifier ''temp'' 3 0 = ''temp''" "generatedPointIdentifier ''hum'' 3 2 = ''hum''"
  by (simp_all add: generatedPointIdentifier_def point_rune_def trim_chars_def to_lower_def lower_char_def Let_def)

lemma sample_identifier: "mp_Identifier (sample_point i a n) = i"
  by (simp add: sample_point_def)

lemma sample_start:
  "row_start (\<lambda>_. None) 10 (sample_cell [''temp'', ''40001'']) [] 2 =
     Inr ((sample_point ''temp'' 0 1)\<lparr>mp_AddressNotation := ''4xxxx'', mp_Access := []\<rparr>)"
  "row_start (\<lambda>_. None) 10 (sample_cell [''hum'', ''40003'']) [(''temp'', 2)] 3 =
     Inr ((sample_point ''hum'' 2 1)\<lparr>mp_AddressNotation := ''4xxxx'', mp_Access := []\<rparr>)"
  by (simp_all add: row_start_def sample_cells sample_empty_cells sample_identifiers sample_address Let_def must_def
      row_wrap_def pointRegisterCount_def optionalPointInt_def some_or_def float_cell_def sample_point_def mget_def)

lemma sample_finish:
  assumes "c \<in> {[''temp'', ''40001''], [''hum'', ''40003'']}"
  shows "row_finish (\<lambda>_. None) (sample_cell c) line ((sample_point i a 1)\<lparr>mp_AddressNotation := n, mp_Access := []\<rparr>) =
     Inr ((sample_point i a 1)\<lparr>mp_AddressNotation := n\<rparr>)"
  using assms
  by (auto simp: row_finish_def sample_cells sample_empty_cells Let_def must_def row_wrap_def some_or_def
      float_cell_def validWordOrder_def sample_point_def go_int_id)

lemma sample_accepted: "\<exists>ws points. normalizeModbusRows (\<lambda>_. None) sample_rows 10 = (ws, Inr points)"
proof -
  have seen: "mput [] ''temp'' 2 = [(''temp'', 2 :: int)]" by (simp add: mput_def)
  have rows: "\<exists>ws points. point_rows (\<lambda>_. None) 10 sample_layout [] 2 [[''temp'', ''40001''], [''hum'', ''40003'']] = (ws, Inr points) \<and>
      points \<noteq> []"
    by (simp add: sample_cells sample_start sample_finish sample_identifier seen Let_def)
  have "is_header [''name'', ''address'']" by (simp add: is_header_def sample_columns sample_layout_def mget_def)
  then have "dropWhile (\<lambda>row. \<not> is_header row) sample_rows = [''name'', ''address''] # [[''temp'', ''40001''], [''hum'', ''40003'']]"
    "takeWhile (\<lambda>row. \<not> is_header row) sample_rows = []" by (simp_all add: sample_rows_def)
  then show ?thesis using rows
    by (auto simp: normalizeModbusRows_def sample_columns split: list.splits sum.splits prod.splits)
qed

theorem point_table_valid_witness:
  "\<exists>ws table. ParseModbusPointTable (\<lambda>_. None) (\<lambda>_. Inl ErrNotFound) (\<lambda>_. Inr sample_rows) id ''p.csv'' ''x'' 0 =
     (ws, Inr table) \<and> distinct (map mp_Identifier (pt_Points table)) \<and>
     (\<exists>blocks. CompileModbusReadBlocks (pt_Points table) = Inr blocks)"
proof -
  let ?r = "ParseModbusPointTable (\<lambda>_. None) (\<lambda>_. Inl ErrNotFound) (\<lambda>_. Inr sample_rows) id ''p.csv'' ''x'' 0"
  have "to_lower (file_ext ''p.csv'') = ''.csv''" by (simp add: file_ext_def base_of_def to_lower_def lower_char_def)
  then obtain ws table where r: "?r = (ws, Inr table)"
    using sample_accepted by (auto simp: ParseModbusPointTable_def)
  show ?thesis using point_table_valid [OF r] r by blast
qed

end
