(* ===== verification/Collect_Props.thy ===== *)
theory Collect_Props
  imports Point_Props
begin

text \<open>
  Correctness of active collection: what a finished collection returns answers its blocks, it dials
  addresses of the configured networks only and a bounded number of times, whatever the network does;
  and a point longer than a request can carry stops the collection of its whole profile.
\<close>

section \<open>Attempts\<close>

lemma exchange_error: "nw_deadline nw (ln_step l) \<noteq> None \<Longrightarrow> snd (fst (exchange nw rtu t u fn r l)) \<noteq> None"
  by (auto simp: exchange_def Let_def)

lemma exchange_None:
  "exchange nw rtu t u fn r l = ((x, None), l') \<Longrightarrow> \<exists>c c'. receive rtu t u fn c = ((x, None), c')"
  unfolding exchange_def Let_def
  by (auto simp del: split_paired_Ex split: option.splits prod.splits)

lemma read_attempts_Inr:
  "read_attempts n nw addr rtu t u fn re l = (Inr (x, None), l') \<Longrightarrow>
     (n = 0 \<and> re = (x, None)) \<or> (\<exists>c c'. receive rtu t u fn c = ((x, None), c'))"
proof (induction n arbitrary: re l)
  case (Suc n)
  obtain d l1 where d: "connect nw addr (count_step l) = (d, l1)" by (cases "connect nw addr (count_step l)")
  obtain y e l2 where x: "exchange nw rtu t u fn (fst re) l1 = ((y, e), l2)"
    by (cases "exchange nw rtu t u fn (fst re) l1") auto
  have dl: "e \<noteq> None" if "nw_deadline nw (ln_step l1) \<noteq> None"
    using exchange_error [OF that, of rtu t u fn "fst re"] by (simp add: x)
  show ?case
  proof (cases d)
    case (Some er)
    then have "read_attempts n nw addr rtu t u fn (fst re, Some er) l1 = (Inr (x, None), l')"
      using Suc.prems d by (simp split: option.splits)
    from Suc.IH [OF this] show ?thesis by simp
  next
    case None
    then consider
        "e \<noteq> None" "\<exists>l3. read_attempts n nw addr rtu t u fn (y, e) l3 = (Inr (x, None), l')"
      | "e = None" "y = x"
      using Suc.prems d x dl by (auto split: option.splits if_splits)
    then show ?thesis
    proof cases
      case 1
      then show ?thesis using Suc.IH by (metis prod.inject)
    next
      case 2
      then show ?thesis using exchange_None x by blast
    qed
  qed
qed simp

definition within :: "string \<Rightarrow> nat \<Rightarrow> link \<Rightarrow> link \<Rightarrow> bool" where
  "within addr n l l' \<longleftrightarrow> (\<exists>k. k \<le> n \<and> ln_dials l' = ln_dials l @ replicate k addr)"

lemma within_refl [simp]: "within addr n l l"
  by (auto simp: within_def intro: exI [of _ 0])

lemma within_trans: "within addr m l l1 \<Longrightarrow> within addr n l1 l2 \<Longrightarrow> within addr (m + n) l l2"
  unfolding within_def by (metis add_mono append.assoc replicate_add)

lemma within_same: "ln_dials l' = ln_dials l \<Longrightarrow> within addr n l l'"
  by (auto simp: within_def intro: exI [of _ 0])

lemma dials_simps [simp]: "ln_dials (count_step l) = ln_dials l"
  by (simp add: count_step_def)

lemma within_connect: "within addr 1 l (snd (connect nw addr l))"
  by (auto simp: within_def connect_def intro: exI [of _ 0] exI [of _ 1] split: option.split)

lemma exchange_dials [simp]: "ln_dials (snd (exchange nw rtu t u fn r l)) = ln_dials l"
  by (simp add: exchange_def Let_def split: option.split prod.split)

lemma within_attempts: "within addr n l (snd (read_attempts n nw addr rtu t u fn re l))"
proof (induction n arbitrary: re l)
  case (Suc n)
  obtain d l1 where d: "connect nw addr (count_step l) = (d, l1)" by (cases "connect nw addr (count_step l)")
  obtain y l2 where x: "exchange nw rtu t u fn (fst re) l1 = (y, l2)" by (cases "exchange nw rtu t u fn (fst re) l1")
  have l1: "within addr 1 l l1"
    using within_connect [of addr "count_step l" nw] by (simp add: d within_def)
  have l2: "ln_dials l2 = ln_dials l1" using exchange_dials [of nw rtu t u fn "fst re" l1] by (simp add: x)
  have step: "within addr (Suc n) l l'" if "within addr n l3 l'" "ln_dials l3 = ln_dials l1" for l3 l'
    using within_trans [OF l1, of n l'] that by (simp add: within_def)
  show ?case
  proof (cases d)
    case (Some e)
    then show ?thesis using d step [OF Suc.IH refl] by (simp add: within_same split: option.split)
  next
    case None
    then show ?thesis
      using d x l2 step [OF Suc.IH] step [OF within_same] by (auto simp: within_same split: option.split)
  qed
qed simp

section \<open>Blocks\<close>

lemma read_block_Inr:
  assumes "read_block nw addr pr rel rtu t b l = (Inr raw, l')"
  obtains request response c c' k where
    "read_request rtu t (word_of_int (ap_UnitID pr)) b = Inr request"
    "receive rtu t (word_of_int (ap_UnitID pr)) (word_of_int (mb_FunctionCode b)) c = ((response, None), c')"
    "validateReadByteCount response b rtu = Inr ()" "raw = read_raw nw pr rel rtu t request b response k"
proof -
  let ?u = "word_of_int (ap_UnitID pr)" and ?n = "nat (max 1 (ap_Retries pr + 1))"
  obtain request where r: "read_request rtu t ?u b = Inr request"
    using assms by (auto simp: read_block_def Let_def split: sum.splits)
  then obtain response l1 where a: "read_attempts ?n nw addr rtu t ?u (word_of_int (mb_FunctionCode b)) ([], None) l =
      (Inr (response, None), l1)" and v: "validateReadByteCount response b rtu = Inr ()"
    and raw: "raw = read_raw nw pr rel rtu t request b response (ln_step l1)"
    using assms by (auto simp: read_block_def Let_def split: sum.splits prod.splits option.splits)
  have "?n \<noteq> 0" by simp
  with read_attempts_Inr [OF a] that r v raw show thesis by blast
qed

lemma within_block: "within addr (nat (max 1 (ap_Retries pr + 1))) l (snd (read_block nw addr pr rel rtu t b l))"
proof -
  let ?u = "word_of_int (ap_UnitID pr)" and ?n = "nat (max 1 (ap_Retries pr + 1))"
  obtain re l1 where a: "read_attempts ?n nw addr rtu t ?u (word_of_int (mb_FunctionCode b)) ([], None) l = (re, l1)"
    by (cases "read_attempts ?n nw addr rtu t ?u (word_of_int (mb_FunctionCode b)) ([], None) l")
  have "within addr ?n l l1" using within_attempts [of addr ?n l nw rtu t ?u] a by (metis snd_conv)
  then show ?thesis
    by (auto simp: read_block_def a Let_def within_def split: sum.split prod.split option.split)
qed

lemma within_blocks:
  "within addr (length bs * nat (max 1 (ap_Retries pr + 1))) l (snd (read_blocks nw addr pr rel rtu t bs l))"
proof (induction bs arbitrary: t l)
  case (Cons b bs)
  let ?n = "nat (max 1 (ap_Retries pr + 1))"
  obtain r l1 where r: "read_block nw addr pr rel rtu (t + 1) b l = (r, l1)"
    by (cases "read_block nw addr pr rel rtu (t + 1) b l")
  have b: "within addr ?n l l1" using within_block [of addr pr l nw rel rtu "t + 1" b] by (simp add: r)
  show ?case
  proof (cases r)
    case (Inl e)
    then show ?thesis using b within_trans [OF b within_refl] by (simp add: r)
  next
    case (Inr raw)
    obtain x l2 where x: "read_blocks nw addr pr rel rtu (t + 1) bs l1 = (x, l2)"
      by (cases "read_blocks nw addr pr rel rtu (t + 1) bs l1")
    have "within addr (?n + length bs * ?n) l l2"
      using within_trans [OF b Cons.IH [of l1 "t + 1"]] by (simp add: x)
    then show ?thesis by (auto simp: r Inr x split: sum.split)
  qed
qed simp

lemma read_blocks_Inr:
  "read_blocks nw addr pr rel rtu t bs l = (Inr raws, l') \<Longrightarrow>
     list_all2 (\<lambda>b raw. \<exists>t l l'. read_block nw addr pr rel rtu t b l = (Inr raw, l')) bs raws"
proof (induction bs arbitrary: t l raws l')
  case (Cons b bs)
  then show ?case by (auto split: prod.splits sum.splits) 
qed simp

section \<open>Collections\<close>

text \<open>A response with the bytes a block asks for.\<close>

definition answers :: "bool \<Rightarrow> modbus_read_block \<Rightarrow> octet \<Rightarrow> octet list \<Rightarrow> octet list \<Rightarrow> bool" where
  "answers rtu b u data response \<longleftrightarrow> int (length data) = expected_bytes b \<and>
     (if rtu then response = rtu_frame u (word_of_int (mb_FunctionCode b)) data
      else \<exists>t. response = tcp_frame t u ([word_of_int (mb_FunctionCode b), word_of_nat (length data)] @ data))"

lemma be16_tcp: "tcp_frame t u (f # n # data) ! 8 = n" "length (tcp_frame t u (f # n # data)) = length data + 9"
  by (simp_all add: tcp_frame_def put_be16_def numeral_eq_Suc)

lemma response_answers:
  assumes r: "receive rtu t u (word_of_int (mb_FunctionCode b)) c = ((response, None), c')"
    and v: "validateReadByteCount response b rtu = Inr ()" and q: "0 < mb_Quantity b"
  shows "\<exists>data. answers rtu b u data response"
proof (cases rtu)
  case True
  then obtain data where d: "length data \<le> 250" "response = rtu_frame u (word_of_int (mb_FunctionCode b)) data"
    using r by (auto simp: receive_def readRTUResponse_iff)
  have "int (length data) = expected_bytes b"
    using v d(1) True by (auto simp: validateReadByteCount_def Let_def d(2) rtu_frame_def unat8 split: if_splits)
  then show ?thesis using d True by (auto simp: answers_def)
next
  case False
  then obtain pdu where p: "2 \<le> length pdu" "length pdu \<le> 253" "response = tcp_frame t u pdu"
    "pdu ! 0 = word_of_int (mb_FunctionCode b)"
    using r by (auto simp: receive_def readResponse_iff)
  then obtain n data where pdu: "pdu = word_of_int (mb_FunctionCode b) # n # data"
    by (cases pdu; cases "tl pdu") auto
  have e: "int (unat n) = expected_bytes b" "int (length data) = expected_bytes b"
    using v False by (auto simp: validateReadByteCount_def Let_def p(3) pdu be16_tcp split: if_splits)
  then have "unat n = length data" by linarith
  moreover have "n = word_of_nat (unat n)" by simp
  ultimately have "n = word_of_nat (length data)" by metis
  then show ?thesis using e p(3) False by (auto simp: answers_def pdu)
qed

lemma read_request_Inr: "read_request rtu t u b = Inr r \<Longrightarrow> 0 < mb_Quantity b \<and> mb_Quantity b \<le> read_limit (mb_FunctionCode b) \<and>
    1 \<le> mb_FunctionCode b \<and> mb_FunctionCode b \<le> 4 \<and> 0 \<le> mb_StartAddress b \<and> mb_StartAddress b + mb_Quantity b \<le> 65536"
  by (auto simp: read_request_def buildReadRequest_def read_limit_def Let_def map_sum_id_Inr split: if_splits)

lemma list_all2_left: "list_all2 P xs ys \<Longrightarrow> x \<in> set xs \<Longrightarrow> \<exists>y. P x y"
  by (induction xs ys rule: list_all2_induct) auto

lemma collection_Inr:
  assumes "ReadModbusTCPWithPolicy nw pr rel blocks cidrs = (Inr raws, l')"
  shows "\<exists>addr t l. read_blocks nw addr pr rel (ap_WireFormat pr = ''rtu_over_tcp'') t blocks l = (Inr raws, l')"
  using assms by (auto simp: ReadModbusTCPWithPolicy_def Let_def split: sum.splits)

text \<open>What one raw message of a collection holds for its block.\<close>

definition collected :: "access_profile \<Rightarrow> modbus_read_block \<Rightarrow> raw_message \<Rightarrow> bool" where
  "collected pr b raw \<longleftrightarrow> (\<exists>data response. rm_Payload raw = marshal_hex response \<and>
       answers (ap_WireFormat pr = ''rtu_over_tcp'') b (word_of_int (ap_UnitID pr)) data response) \<and>
     rm_DeviceID raw = ap_DeviceID pr \<and> mget (rm_Metadata raw) ''startAddress'' = Some (AInt (mb_StartAddress b)) \<and>
     0 < mb_Quantity b \<and> mb_Quantity b \<le> read_limit (mb_FunctionCode b) \<and>
     1 \<le> mb_FunctionCode b \<and> mb_FunctionCode b \<le> 4 \<and> 0 \<le> mb_StartAddress b \<and> mb_StartAddress b + mb_Quantity b \<le> 65536"

lemma collection_collects:
  assumes "ReadModbusTCPWithPolicy nw pr rel blocks cidrs = (Inr raws, l')"
  shows "list_all2 (collected pr) blocks raws"
proof -
  let ?rtu = "ap_WireFormat pr = ''rtu_over_tcp''"
  have one: "collected pr b raw" if "\<exists>t l l'. read_block nw addr pr rel ?rtu t b l = (Inr raw, l')" for addr b raw
  proof -
    obtain t l l2 where r: "read_block nw addr pr rel ?rtu t b l = (Inr raw, l2)" using \<open>\<exists>t l l'. _\<close> by blast
    obtain request response c c' k where x: "read_request ?rtu t (word_of_int (ap_UnitID pr)) b = Inr request"
      "receive ?rtu t (word_of_int (ap_UnitID pr)) (word_of_int (mb_FunctionCode b)) c = ((response, None), c')"
      "validateReadByteCount response b ?rtu = Inr ()" "raw = read_raw nw pr rel ?rtu t request b response k"
      by (rule read_block_Inr [OF r])
    have q: "0 < mb_Quantity b" using read_request_Inr [OF x(1)] by simp
    from response_answers [OF x(2,3) this] read_request_Inr [OF x(1)] show ?thesis
      by (auto simp: x(4) read_raw_def mget_def collected_def)
  qed
  obtain addr t l where "read_blocks nw addr pr rel ?rtu t blocks l = (Inr raws, l')"
    using collection_Inr [OF assms] by blast
  from read_blocks_Inr [OF this] show ?thesis by (rule list_all2_mono) (rule one)
qed

text \<open>
  C17. A collection that succeeds has one raw message per block, in the order of the blocks, whose
  payload is a response with the unit and function code asked for and exactly the bytes of the block's
  quantity, and whose metadata name the block; whatever responses were lost, damaged or late on the
  way.
\<close>
theorem collected_responses_answer_blocks:
  assumes "ReadModbusTCPWithPolicy nw pr rel blocks cidrs = (Inr raws, l')"
  shows "list_all2 (\<lambda>b raw. (\<exists>data response. rm_Payload raw = marshal_hex response \<and>
        answers (ap_WireFormat pr = ''rtu_over_tcp'') b (word_of_int (ap_UnitID pr)) data response) \<and>
      rm_DeviceID raw = ap_DeviceID pr \<and> mget (rm_Metadata raw) ''startAddress'' = Some (AInt (mb_StartAddress b)))
    blocks raws"
  using collection_collects [OF assms] by (rule list_all2_mono) (auto simp: collected_def)

lemma parse_cidrs_set:
  "parse_cidrs nw cs = Inr ps \<Longrightarrow> p \<in> set ps \<Longrightarrow> \<exists>c \<in> set cs. nw_cidr nw (trim_space c) = Some p"
proof (induction cs arbitrary: ps)
  case (Cons c cs)
  then show ?case by (cases "nw_cidr nw (trim_space c)") (auto simp: map_sum_id_Inr)
qed simp

text \<open>
  C31. With a policy of networks, a collection dials one address only, which lies inside one of them,
  and at most once per block and attempt.
\<close>
theorem dials_within_policy:
  assumes "cidrs \<noteq> []"
  shows "\<exists>target k. ln_dials (snd (ReadModbusTCPWithPolicy nw pr rel blocks cidrs)) =
      replicate k (join_host_port target (ap_Port pr)) \<and> k \<le> length blocks * nat (max 1 (ap_Retries pr + 1)) \<and>
      (k = 0 \<or> (\<exists>c p. c \<in> set cidrs \<and> nw_cidr nw (trim_space c) = Some p \<and> p target))"
proof (cases "read_target nw pr rel cidrs")
  case (Inl e)
  then show ?thesis by (auto simp: ReadModbusTCPWithPolicy_def)
next
  case (Inr target)
  have "resolveAllowedTarget nw (ap_Host pr) cidrs = Inr target"
    using Inr by (auto simp: read_target_def Let_def split: if_splits option.splits sum.splits)
  then obtain ps p where "parse_cidrs nw cidrs = Inr ps" "p \<in> set ps" "p target"
    using assms by (auto simp: resolveAllowedTarget_def Let_def find_Some_iff split: sum.splits option.splits)
  then have policy: "\<exists>c p. c \<in> set cidrs \<and> nw_cidr nw (trim_space c) = Some p \<and> p target"
    using parse_cidrs_set by blast
  obtain k where "k \<le> length blocks * nat (max 1 (ap_Retries pr + 1))"
    "ln_dials (snd (ReadModbusTCPWithPolicy nw pr rel blocks cidrs)) = replicate k (join_host_port target (ap_Port pr))"
    using within_blocks [of "join_host_port target (ap_Port pr)" blocks pr
        "\<lparr>ln_step = 1, ln_conn = None, ln_dials = []\<rparr>" nw rel "ap_WireFormat pr = ''rtu_over_tcp''" 0]
    by (auto simp: ReadModbusTCPWithPolicy_def Inr within_def)
  then show ?thesis using policy by blast
qed

text \<open>
  A point of more registers than one request can read compiles, where no address wraps around, into a
  block that can never be requested: with it in the table, every collection of all blocks ends in an error.
\<close>
theorem oversized_point_stops_collection:
  assumes c: "CompileModbusReadBlocks points = Inr blocks" and p: "p \<in> set points"
    and r: "\<forall>q \<in> set points. in_int q" and big: "read_limit (mp_FunctionCode p) < pointWidth p"
  shows "\<exists>e. fst (ReadModbusTCPWithPolicy nw pr rel blocks cidrs) = Inl e"
proof -
  obtain b where b: "b \<in> set blocks" "mb_FunctionCode b = mp_FunctionCode p"
    "mb_StartAddress b \<le> mp_Address p" "point_end p \<le> mb_StartAddress b + mb_Quantity b"
    using compiled_cover [OF c p r] by blast
  then have big2: "\<not> mb_Quantity b \<le> read_limit (mb_FunctionCode b)" using big r p by (simp add: point_end_in_int)
  show ?thesis
  proof (cases "fst (ReadModbusTCPWithPolicy nw pr rel blocks cidrs)")
    case (Inr raws)
    then obtain l' where "ReadModbusTCPWithPolicy nw pr rel blocks cidrs = (Inr raws, l')"
      by (metis prod.collapse)
    then obtain addr t l where r: "read_blocks nw addr pr rel (ap_WireFormat pr = ''rtu_over_tcp'') t blocks l = (Inr raws, l')"
      using collection_Inr by blast
    obtain raw t l l2 where "read_block nw addr pr rel (ap_WireFormat pr = ''rtu_over_tcp'') t b l = (Inr raw, l2)"
      using list_all2_left [OF read_blocks_Inr [OF r] b(1)] by blast
    then obtain request where
      "read_request (ap_WireFormat pr = ''rtu_over_tcp'') t (word_of_int (ap_UnitID pr)) b = Inr request"
      by (rule read_block_Inr)
    then show ?thesis using read_request_Inr big2 by blast
  qed simp
qed

text \<open>A device with one unit that answers a request for one register with the value 7.\<close>

definition sample_access :: access_profile where
  "sample_access = zero_access_profile\<lparr>ap_DeviceID := ''d'', ap_Host := ''h'', ap_Port := 502, ap_UnitID := 1,
     ap_ID := ''a''\<rparr>"

definition sample_release :: protocol_release where
  "sample_release = zero_protocol_release\<lparr>pl_Transport := ''MODBUS_TCP''\<rparr>"

definition sample_block :: modbus_read_block where
  "sample_block = \<lparr>mb_ID = ''fc03_0_1'', mb_FunctionCode = 3, mb_StartAddress = 0, mb_Quantity = 1, mb_PollIntervalSec = 10\<rparr>"

definition sample_network :: network where
  "sample_network = \<lparr>nw_busy = False, nw_bus = None, nw_cidr = (\<lambda>c. Some (\<lambda>a. a = c)), nw_ip = Some,
     nw_lookup = (\<lambda>_. Inr []), nw_ctx = (\<lambda>_. None), nw_dial = (\<lambda>_. None), nw_deadline = (\<lambda>_. None),
     nw_write = (\<lambda>_. None), nw_recv = (\<lambda>_. (tcp_frame 1 1 [3, 2, 0, 7], ErrText ''EOF'')), nw_now = (\<lambda>_. 0),
     nw_nanos = (\<lambda>_. 0), nw_latency = (\<lambda>_. 0)\<rparr>"

lemma sample_target: "read_target sample_network sample_access sample_release [''h''] = Inr ''h''"
  by (simp add: read_target_def resolveAllowedTarget_def sample_network_def sample_access_def sample_release_def
      zero_access_profile_def equal_fold_def visible_simps Let_def)

lemma sample_collected:
  "\<exists>raws l. ReadModbusTCPWithPolicy sample_network sample_access sample_release [sample_block] [''h''] = (Inr raws, l)"
proof -
  have r: "readResponse 1 1 3 (tcp_frame 1 1 [3, 2, 0, 7], e) = ((tcp_frame 1 1 [3, 2, 0, 7], None), ([], e))" for e
    unfolding readResponse_iff by (rule exI [of _ "[3, 2, 0, 7]"]) simp
  have v: "validateReadByteCount (tcp_frame 1 1 [3, 2, 0, 7]) sample_block False = Inr ()"
    by (simp add: validateReadByteCount_def be16_tcp sample_block_def expected_bytes_def Let_def)
  have q: "\<exists>q. read_request False 1 1 sample_block = Inr q"
    by (simp add: read_request_def buildReadRequest_def sample_block_def Let_def)
  have f: "mb_FunctionCode sample_block = 3" by (simp add: sample_block_def)
  have a: "\<exists>l. read_attempts (Suc 0) sample_network addr False 1 1 3 ([], None)
      \<lparr>ln_step = Suc 0, ln_conn = None, ln_dials = []\<rparr> = (Inr (tcp_frame 1 1 [3, 2, 0, 7], None), l)" for addr
    by (simp add: sample_network_def connect_def exchange_def receive_def r count_step_def)
  have b: "\<exists>raw l. read_block sample_network addr sample_access sample_release False 1 sample_block
      \<lparr>ln_step = 1, ln_conn = None, ln_dials = []\<rparr> = (Inr raw, l)" for addr
    using q a [of addr] v
    by (auto simp: read_block_def sample_access_def zero_access_profile_def f Let_def simp del: read_attempts.simps)
  have "\<exists>raws l. read_blocks sample_network addr sample_access sample_release False 0 [sample_block]
      \<lparr>ln_step = 1, ln_conn = None, ln_dials = []\<rparr> = (Inr raws, l)" for addr
    using b [of addr] by auto
  then show ?thesis
    using sample_target by (simp add: ReadModbusTCPWithPolicy_def sample_access_def zero_access_profile_def)
qed

theorem collected_responses_answer_blocks_witness:
  "\<exists>raw data response. rm_Payload raw = marshal_hex response \<and> answers False sample_block 1 data response \<and>
     (\<exists>l. ReadModbusTCPWithPolicy sample_network sample_access sample_release [sample_block] [''h''] = (Inr [raw], l))"
proof -
  obtain raws l where r:
    "ReadModbusTCPWithPolicy sample_network sample_access sample_release [sample_block] [''h''] = (Inr raws, l)"
    using sample_collected by blast
  from collected_responses_answer_blocks [OF r] r show ?thesis
    by (auto simp: list_all2_Cons1 sample_access_def zero_access_profile_def)
qed

theorem dials_within_policy_witness:
  "\<exists>target k. ln_dials (snd (ReadModbusTCPWithPolicy sample_network sample_access sample_release [sample_block] [''h''])) =
     replicate k (join_host_port target 502) \<and> k \<le> 1 \<and> (k = 0 \<or> target = ''h'')"
  using dials_within_policy [of "[''h'']" sample_network sample_access sample_release "[sample_block]"]
  by (auto simp: sample_access_def zero_access_profile_def sample_network_def visible_simps)

theorem oversized_point_stops_collection_witness:
  "\<exists>blocks e. CompileModbusReadBlocks [sample_point ''a'' 0 126] = Inr blocks \<and>
     fst (ReadModbusTCPWithPolicy sample_network sample_access sample_release blocks []) = Inl e"
proof -
  obtain blocks where c: "CompileModbusReadBlocks [sample_point ''a'' 0 126] = Inr blocks"
    by (simp add: CompileModbusReadBlocks_def sample_point_def)
  then show ?thesis
    using oversized_point_stops_collection [OF c, of "sample_point ''a'' 0 126"]
    by (simp add: sample_point_def read_limit_def pointWidth_def in_int_def)
qed

end
