(* ===== verification/Config_Props.thy ===== *)
theory Config_Props
  imports Configurable
begin

text \<open>
  The path language of the configured JSON parser against a reference that selects members and
  elements one by one, and what the configured hexadecimal parser makes of scaled and untyped fields.
\<close>

section \<open>Paths\<close>

datatype selector = Member string | Element nat

fun select :: "selector list \<Rightarrow> any \<Rightarrow> any option" where
  "select [] v = Some v"
| "select (Member s # ss) v = (case v of AObj m \<Rightarrow> (case mget m s of Some w \<Rightarrow> select ss w | None \<Rightarrow> None) | _ \<Rightarrow> None)"
| "select (Element i # ss) v = (case v of AArr xs \<Rightarrow> if i < length xs then select ss (xs ! i) else None | _ \<Rightarrow> None)"

fun render :: "selector list \<Rightarrow> string" where
  "render [] = []"
| "render (Member s # ss) = CHR ''.'' # s @ render ss"
| "render (Element i # ss) = CHR ''['' # nat_digits i @ CHR '']'' # render ss"

definition delimiter :: "char \<Rightarrow> bool" where
  "delimiter c \<longleftrightarrow> c = CHR ''.'' \<or> c = CHR ''[''"

fun selector_ok :: "selector \<Rightarrow> bool" where
  "selector_ok (Member s) = (s \<noteq> [] \<and> list_all (\<lambda>c. visible c \<and> \<not> delimiter c) s)"
| "selector_ok (Element i) = (i < 2 ^ 63)"

lemma member_split:
  assumes "list_all (\<lambda>c. visible c \<and> \<not> delimiter c) s" "rest = [] \<or> delimiter (hd rest)"
  shows "takeWhile (\<lambda>c. c \<noteq> CHR ''.'' \<and> c \<noteq> CHR ''['') (s @ rest) = s"
    "dropWhile (\<lambda>c. c \<noteq> CHR ''.'' \<and> c \<noteq> CHR ''['') (s @ rest) = rest"
proof -
  have "list_all (\<lambda>c. c \<noteq> CHR ''.'' \<and> c \<noteq> CHR ''['') s"
    using assms(1) by (auto simp: list_all_iff delimiter_def)
  moreover have "takeWhile (\<lambda>c. c \<noteq> CHR ''.'' \<and> c \<noteq> CHR ''['') rest = []"
    "dropWhile (\<lambda>c. c \<noteq> CHR ''.'' \<and> c \<noteq> CHR ''['') rest = rest"
    using assms(2) by (cases rest; auto simp: delimiter_def)+
  ultimately show "takeWhile (\<lambda>c. c \<noteq> CHR ''.'' \<and> c \<noteq> CHR ''['') (s @ rest) = s"
    "dropWhile (\<lambda>c. c \<noteq> CHR ''.'' \<and> c \<noteq> CHR ''['') (s @ rest) = rest"
    by (simp_all add: list_all_iff takeWhile_append dropWhile_append)
qed

lemma render_start: "render ss = [] \<or> delimiter (hd (render ss))"
  by (cases ss rule: render.cases) (simp_all add: delimiter_def)

lemma path_walk_element:
  assumes "i < 2 ^ 63"
  shows "path_walk (CHR ''['' # nat_digits i @ CHR '']'' # rest) v =
     (case v of AArr xs \<Rightarrow> if i < length xs then path_walk (trim_prefix rest ''.'') (xs ! i) else None | _ \<Rightarrow> None)"
proof -
  have "CHR '']'' \<notin> set (nat_digits i)" using nat_digits_chars [of "CHR '']''" i] by auto
  then have "takeWhile (\<lambda>c. c \<noteq> CHR '']'') (nat_digits i @ CHR '']'' # rest) = nat_digits i"
    "dropWhile (\<lambda>c. c \<noteq> CHR '']'') (nat_digits i @ CHR '']'' # rest) = CHR '']'' # rest"
    by (auto simp: takeWhile_append dropWhile_append)
  then show ?thesis
    by (subst path_walk.simps) (simp add: atoi_nat_digits [OF assms] split: any.splits)
qed

lemma path_walk_Nil: "path_walk [] v = Some v"
  by (subst path_walk.simps) simp

text \<open>What path_walk does after a member name; it is what it does with the rest of the path.\<close>

lemma path_walk_rest:
  "path_walk (CHR ''['' # cs) w = (if CHR '']'' \<notin> set cs then None
     else (case (atoi (takeWhile (\<lambda>c. c \<noteq> CHR '']'') cs), w) of
         (Some i, AArr xs) \<Rightarrow>
           if i < 0 \<or> int (length xs) \<le> i then None
           else path_walk (trim_prefix (drop 1 (dropWhile (\<lambda>c. c \<noteq> CHR '']'') cs)) ''.'') (xs ! nat i)
       | _ \<Rightarrow> None))"
  by (subst path_walk.simps) simp

lemma path_walk_member:
  assumes "selector_ok (Member s)"
  shows "path_walk (s @ render ss) v =
     (case v of AObj m \<Rightarrow> (case mget m s of Some w \<Rightarrow> path_walk (trim_prefix (render ss) ''.'') w | None \<Rightarrow> None) | _ \<Rightarrow> None)"
proof -
  have s: "s \<noteq> []" "list_all (\<lambda>c. visible c \<and> \<not> delimiter c) s" using assms by simp_all
  have e: "path_walk (s @ render ss) v =
     (case (case v of AObj m \<Rightarrow> mget m s | _ \<Rightarrow> None) of None \<Rightarrow> None | Some w \<Rightarrow> path_walk (trim_prefix (render ss) ''.'') w)"
    using render_start [of ss] s(1)
    by (subst path_walk.simps, unfold Let_def member_split [OF s(2) render_start [of ss]])
      (auto simp: path_walk_Nil path_walk_rest trim_prefix_def [of "_ # _"] trim_prefix_def [of "[]"] has_prefix_def
        delimiter_def split: option.split list.split)
  show ?thesis unfolding e by (cases v) (simp_all split: option.split)
qed

lemma path_walk_render:
  "list_all selector_ok ss \<Longrightarrow> path_walk (trim_prefix (render ss) ''.'') v = select ss v"
proof (induction ss arbitrary: v)
  case Nil
  then show ?case by (simp add: trim_prefix_def path_walk_Nil)
next
  case (Cons x ss)
  then show ?case
    by (cases x) (auto simp: trim_prefix_def [of "_ # _"] has_prefix_def path_walk_member path_walk_element split: any.splits option.splits)
qed

lemma render_last: "list_all selector_ok ss \<Longrightarrow> ss \<noteq> [] \<Longrightarrow> visible (last (render ss))"
proof (induction ss)
  case (Cons x ss)
  show ?case
  proof (cases "ss = []")
    case True
    then show ?thesis using Cons.prems by (cases x) (auto simp: list_all_iff visible_def)
  next
    case False
    then have "render ss \<noteq> []" by (cases ss rule: render.cases) auto
    with False Cons show ?thesis by (cases x) auto
  qed
qed simp

text \<open>
  C38. A path of member names and element numbers, written as the configuration writes it, finds
  exactly the value that choosing those members and elements one after another finds.
\<close>

theorem lookupPath_selects:
  assumes "list_all selector_ok (Member s # ss)"
  shows "lookupPath root (CHR ''$'' # render (Member s # ss)) = select (Member s # ss) root"
proof -
  have "visible (last (CHR ''$'' # render (Member s # ss)))" using render_last [OF assms] by simp
  then have "trim_space (CHR ''$'' # render (Member s # ss)) = CHR ''$'' # render (Member s # ss)"
    by (intro trim_space_visible) (auto simp: visible_def)
  then show ?thesis
    using path_walk_render [OF assms, of root] by (simp add: lookupPath_def trim_prefix_def has_prefix_def Let_def)
qed

theorem lookupPath_selects_witness:
  "lookupPath (AObj [(''events'', AArr [AObj [(''code'', AInt 7)]])]) ''$.events[0].code'' = Some (AInt 7)"
proof -
  have "nat_digits 0 = ''0''" by (subst nat_digits.simps) (simp add: char_of_def bit_Suc_0_iff)
  then show ?thesis
    using lookupPath_selects [of "''events''" "[Element 0, Member ''code'']" "AObj [(''events'', AArr [AObj [(''code'', AInt 7)]])]"]
    by (simp add: visible_def delimiter_def mget_def)
qed

section \<open>Fields\<close>

text \<open>
  The scale of a field of an unsigned integer type is ignored: the property is the integer itself,
  while a signed field of the same configuration is multiplied.
\<close>

theorem unsigned_field_is_not_scaled:
  assumes "to_lower (go_sprint l (any_at spec ''type'')) \<in> {''uint8'', ''uint16'', ''uint32''}"
    "decodeHexField l data spec = Inr v"
  shows "v = AInt (int (be_value (ordered (equal_fold (go_sprint l (any_at spec ''endian'')) ''big'') data)))"
proof -
  define bs where "bs = ordered (equal_fold (go_sprint l (any_at spec ''endian'')) ''big'') data"
  have bound: "foldl (\<lambda>a b. 256 * a + unat b) a xs < (a + 1) * 256 ^ length xs" for a and xs :: "octet list"
  proof (induction xs arbitrary: a)
    case (Cons x xs)
    have "256 * a + unat x + 1 \<le> (a + 1) * 256" using octet_bound [of x] by simp
    then have "(256 * a + unat x + 1) * 256 ^ length xs \<le> (a + 1) * 256 * 256 ^ length xs" by (rule mult_le_mono1)
    from less_le_trans [OF Cons this] show ?case by (simp only: foldl_Cons list.size power_Suc mult.assoc add_Suc_right add_0_right)
  qed simp
  have n: "be_value bs < 256 ^ length data"
    using bound [of 0 bs] by (simp add: be_value_def bs_def ordered_def split: if_splits)
  then show ?thesis
    using assms unfolding bs_def [symmetric]
    by (auto simp: decodeHexField_def scalar_field_def res_simps bs_def [symmetric] Let_def take_bit_nat_eq_self
        unsigned_of_nat split: if_splits)
qed

definition sample_lib :: lib where
  "sample_lib = \<lparr>li_json = (\<lambda>_. None), li_float = (\<lambda>_. None), li_show = (\<lambda>_. []), li_mul = (\<lambda>a b. a),
     li_muladd = (\<lambda>a b c. a), li_outside = (\<lambda>_. 0), li_time = (\<lambda>_. None)\<rparr>"

definition sample_field :: anymap where
  "sample_field = [(''type'', AStr ''uint8''), (''scale'', AFloat64 0x3FB999999999999A)]"

lemma sample_field_any: "any_at sample_field ''type'' = AStr ''uint8''" "any_at sample_field ''endian'' = ANil"
  by (simp_all add: sample_field_def any_at_def mget_or_def mget_def)

lemma sample_field_type: "to_lower (go_sprint sample_lib (any_at sample_field ''type'')) = ''uint8''"
  by (simp add: sample_field_any to_lower_def lower_char_def)

theorem unsigned_field_is_not_scaled_witness:
  "decodeHexField sample_lib [200] sample_field = Inr (AInt 200)"
proof -
  obtain v where v: "decodeHexField sample_lib [200] sample_field = Inr v"
    by (simp add: decodeHexField_def sample_field_type scalar_field_def Let_def split del: if_split)
  have "v = AInt 200"
    using unsigned_field_is_not_scaled [OF _ v] sample_field_type
    by (simp add: be_value_def ordered_def)
  with v show ?thesis by simp
qed

text \<open>A field without a type is refused: its type is the text of nil, not empty.\<close>

lemma untyped_field_is_refused:
  "mget spec ''type'' = None \<Longrightarrow> decodeHexField l data spec = Inl (ErrText ''unsupported field type <nil>'')"
  by (simp add: decodeHexField_def any_at_def mget_or_def to_lower_def lower_char_def scalar_field_def bind_res_def Let_def)

lemma untyped_mapping_is_refused:
  assumes "mget m ''type'' = None" "lookupPath root (go_sprint l (any_at m ''path'')) = Some v"
  shows "resolveMapping l root (AObj m) = Inl (ErrText ''unsupported mapping type <nil>'')"
  using assms by (simp add: resolveMapping_def any_at_def mget_or_def to_lower_def lower_char_def resolve_path_def
      convertValue_def bind_res_def Let_def)

end
