(* ===== verification/Modbus_Values.thy ===== *)
theory Modbus_Values
  imports Modbus_Parse Collect_Props Config_Props
begin

text \<open>
  From the wire to properties: a response the collector has accepted is one the parser accepts, and
  every point of the table that lies in the block becomes the property its registers or bit hold.
\<close>

section \<open>Frames the collector accepts\<close>

lemma decode_marshal_hex [simp]: "decodeHexPayload (marshal_hex xs) = Inr xs"
proof -
  have p: "plain_char c \<Longrightarrow> c \<noteq> CHR '' '' \<and> c \<noteq> CHR 0x0D \<and> c \<noteq> CHR 0x0A \<and> c \<noteq> CHR 0x09" for c
    by (auto simp: plain_char_def)
  then have "filter (\<lambda>c. c \<notin> set [CHR '' '', CHR 0x0D, CHR 0x0A, CHR 0x09]) (hex_upper xs) = hex_upper xs"
    using hex_upper_plain [of _ xs] by (fastforce simp: filter_id_conv)
  moreover have "visible c" if "c \<in> set (hex_upper xs)" for c
    using hex_upper_plain [OF that] by (auto simp: plain_char_def visible_def)
  then have "trim_space (hex_upper xs) = hex_upper xs"
    by (cases "hex_upper xs") (simp_all add: trim_space_visible)
  ultimately show ?thesis by (simp add: decodeHexPayload_def some_or_def)
qed

text \<open>The RTU parser hands the PDU on as a JSON string of small hexadecimal digits.\<close>

lemma lower_hex_chars:
  assumes "c \<in> set (to_lower (hex_upper xs))"
  shows "visible c \<and> c \<noteq> CHR 0x22 \<and> c \<noteq> CHR 0x5C"
proof -
  obtain d where "plain_char d" "c = lower_char d" using assms hex_upper_plain by (auto simp: to_lower_def)
  then have "(48 \<le> (of_char c :: nat) \<and> of_char c \<le> (57 :: nat)) \<or> (97 \<le> (of_char c :: nat) \<and> of_char c \<le> (102 :: nat))"
    by (auto simp: plain_char_def lower_char_def Let_def)
  then show ?thesis by (auto simp: visible_def)
qed

lemma visible_chars:
  "\<forall>c \<in> set s. visible c \<and> c \<noteq> CHR 0x22 \<and> c \<noteq> CHR 0x5C \<Longrightarrow> json_chars (s @ CHR 0x22 # t) = Some (s, t)"
  by (induction s) (auto simp: json_chars.simps(2) visible_def)

lemma digit_value_lower_upper: "n < 16 \<Longrightarrow> digit_value (lower_char (upper_char (digit_char n))) = Some n"
  by (auto simp: digit_value_def upper_char_def lower_char_def digit_char_def Let_def)

lemma hex_decode_lower: "hex_decode (to_lower (hex_upper xs)) = Some xs"
proof (induction xs)
  case (Cons b xs)
  have "unat b div 16 < 16" "16 * (unat b div 16) + unat b mod 16 = unat b"
    using octet_bound [of b] by simp_all
  with Cons show ?case
    by (simp add: hex_upper_def hex2_def to_lower_def digit_value_lower_upper del: of_nat_mult of_nat_add)
qed (simp add: hex_upper_def to_lower_def)

lemma decode_marshal_lower: "decodeHexPayload (marshal_hex_lower xs) = Inr xs"
proof -
  let ?s = "to_lower (hex_upper xs)"
  have c: "\<forall>c \<in> set ?s. visible c \<and> c \<noteq> CHR 0x22 \<and> c \<noteq> CHR 0x5C" using lower_hex_chars by blast
  have "unmarshal_text (marshal_hex_lower xs) = Some ?s"
    using visible_chars [OF c, of "[]"] by (simp add: unmarshal_text_def marshal_hex_lower_def json_space_def Let_def)
  moreover have "visible c \<Longrightarrow> c \<notin> set [CHR '' '', CHR 0x0D, CHR 0x0A, CHR 0x09]" for c
    by (auto simp: visible_def)
  then have "filter (\<lambda>c. c \<notin> set [CHR '' '', CHR 0x0D, CHR 0x0A, CHR 0x09]) ?s = ?s"
    using c by (auto simp: filter_id_conv)
  moreover have "trim_space ?s = ?s" using c by (cases ?s) (simp_all add: trim_space_visible)
  ultimately show ?thesis by (simp add: decodeHexPayload_def some_or_def hex_decode_lower)
qed

text \<open>The PDU of the code and the data of a read response.\<close>

lemma response_data_tcp:
  assumes "1 \<le> fc" "fc \<le> 4" "0 < length data" "length data \<le> 250"
  shows "response_data (tcp_frame t u ([word_of_int fc, word_of_nat (length data)] @ data)) = Inr (fc, int (length data))"
proof -
  let ?f = "tcp_frame t u ([word_of_int fc, word_of_nat (length data)] @ data)"
  have fc: "fc = 1 \<or> fc = 2 \<or> fc = 3 \<or> fc = 4" using assms(1, 2) by auto
  then have c: "uint (word_of_int fc :: octet) = fc" "(word_of_int fc :: octet) AND 0x80 = 0" by auto
  have n: "unat (word_of_nat (length data) :: octet) = length data" using assms(4) by (intro unat8) simp
  then have i: "uint (word_of_nat (length data) :: octet) = int (length data)" by (metis of_nat_unat)
  have n0: "(word_of_nat (length data) :: octet) \<noteq> 0" using n assms(3) by (metis less_irrefl unsigned_0)
  have l: "unat (word_of_nat (length data + 3) :: 16 word) = length data + 3" using assms(4) by (intro unat16) simp
  have f: "length ?f = length data + 9" "be16 ?f 2 = 0" "be16 ?f 4 = word_of_nat (length data + 3)"
    "?f ! 7 = word_of_int fc" "?f ! 8 = word_of_nat (length data)" "drop 9 ?f = data"
    by (simp_all add: tcp_frame_def put_be16_def be16_def nth_append numeral_eq_Suc add.commute)
  show ?thesis unfolding response_data_def f Let_def c n l i using assms n0 by simp
qed

lemma expected_bytes_bounds:
  assumes "0 < mb_Quantity b" "mb_Quantity b \<le> read_limit (mb_FunctionCode b)"
  shows "0 < expected_bytes b" "expected_bytes b \<le> 250"
  using assms by (auto simp: expected_bytes_def read_limit_def go_div_nonneg split: if_splits)

section \<open>Points that can be decoded\<close>

text \<open>Enough registers for the type, and a bit only of an unsigned integer.\<close>

definition decodable :: "modbus_point \<Rightarrow> bool" where
  "decodable p \<longleftrightarrow> (let kind = to_lower (mp_DataType p); n = mp_RegisterCount p in
     (kind \<in> {''uint16'', ''uint32'', ''uint64''} \<or> mp_Bit p = None) \<and>
     (kind = ''string'' \<or>
      kind \<in> {''bool'', ''bits'', ''uint16'', ''int16''} \<and> 1 \<le> n \<or>
      kind \<in> {''uint32'', ''int32'', ''float32''} \<and> 2 \<le> n \<or>
      kind \<in> {''uint64'', ''int64'', ''float64''} \<and> 4 \<le> n))"

lemma length_swap_bytes [simp]: "length (swap_bytes d) = length d"
  by (induction d rule: swap_bytes.induct) auto

lemma length_point_bytes [simp]: "length (point_bytes d p) = length d"
  by (simp add: point_bytes_def reorderModbusWords_def Let_def)

lemma decodable_cases:
  assumes "decodable p"
  obtains (unsigned) k where "(to_lower (mp_DataType p), k) \<in> set [(''uint16'', 1), (''uint32'', 2), (''uint64'', 4)]" "int k \<le> mp_RegisterCount p"
  | (whole) k where "(to_lower (mp_DataType p), k) \<in> set [(''bool'', 1), (''bits'', 1), (''int16'', 1), (''int32'', 2), (''float32'', 2), (''int64'', 4), (''float64'', 4), (''string'', 0)]"
      "int k \<le> mp_RegisterCount p \<or> k = 0" "mp_Bit p = None"
  using assms unfolding decodable_def Let_def by (elim conjE disjE insertE emptyE) simp_all

lemma register_value_unsigned:
  assumes "(to_lower (mp_DataType p), k) \<in> set [(''uint16'', 1), (''uint32'', 2), (''uint64'', 4)]" "2 * k \<le> length d"
  shows "\<exists>n. register_value d p = Inr (RScalar (U64 n))"
  using assms unfolding register_value_def Let_def list.set by (elim insertE emptyE) simp_all

lemma register_value_whole:
  assumes "(to_lower (mp_DataType p), k) \<in> set [(''bool'', 1), (''bits'', 1), (''int16'', 1), (''int32'', 2), (''float32'', 2), (''int64'', 4), (''float64'', 4), (''string'', 0)]"
    "2 * k \<le> length d"
  shows "\<exists>v. register_value d p = Inr v"
  using assms unfolding register_value_def Let_def list.set by (elim insertE emptyE) simp_all

lemma decodable_value:
  assumes "decodable p" "nat (mp_RegisterCount p * 2) \<le> length d"
  obtains v where "decodeModbusRegisterValue l d p = Inr v"
  using assms(1)
proof (cases rule: decodable_cases)
  case (unsigned k)
  have "2 * k \<le> length d" using unsigned(2) assms(2) by linarith
  then obtain n where "register_value d p = Inr (RScalar (U64 n))" using register_value_unsigned [OF unsigned(1)] by blast
  then show ?thesis using that by (cases "mp_Bit p") (auto simp: decodeModbusRegisterValue_def)
next
  case (whole k)
  have "2 * k \<le> length d" using whole(2) assms(2) by linarith
  then obtain v where "register_value d p = Inr v" using register_value_whole [OF whole(1)] by blast
  then show ?thesis using that whole(3) by (auto simp: decodeModbusRegisterValue_def)
qed

section \<open>The points of a response\<close>

text \<open>What a point of the table reads in the data of a response that starts at an address.\<close>

definition in_response :: "octet list \<Rightarrow> int \<Rightarrow> int \<Rightarrow> modbus_point \<Rightarrow> bool" where
  "in_response d fc start p \<longleftrightarrow> mp_FunctionCode p = fc \<and> start \<le> mp_Address p \<and>
     (if fc \<le> 2 then mp_Address p - start < 8 * int (length d)
      else 2 * (mp_Address p - start + pointWidth p) \<le> int (length d))"

definition held_value :: "lib \<Rightarrow> octet list \<Rightarrow> int \<Rightarrow> modbus_point \<Rightarrow> any \<Rightarrow> bool" where
  "held_value l d start p v \<longleftrightarrow>
     (let at = nat (mp_Address p - start)
      in if mp_FunctionCode p \<le> 2 then v = ABool (d ! (at div 8) AND push_bit (at mod 8) 1 \<noteq> 0)
         else decodeModbusRegisterValue l (take (2 * nat (pointWidth p)) (drop (2 * at) d)) p = Inr v)"

text \<open>An address that a request can name, up to the end of the point.\<close>

definition addressable :: "modbus_point \<Rightarrow> bool" where
  "addressable p \<longleftrightarrow> 0 \<le> mp_Address p \<and> mp_Address p + pointWidth p \<le> 65536"

lemma pointWidth_parsed:
  "mp_FunctionCode p = fc \<Longrightarrow> (if fc \<le> 2 \<or> mp_RegisterCount p \<le> 0 then 1 else mp_RegisterCount p) = pointWidth p"
  by (simp add: pointWidth_def)

text \<open>In this range no product wraps around.\<close>

lemma point_value_registers:
  assumes "addressable p" "0 \<le> start" "start \<le> mp_Address p" "mp_FunctionCode p = fc" "2 < fc"
  shows "point_value l frame n fc start p = (let at = mp_Address p - start
     in if n < 2 * (at + pointWidth p) then Inr None
        else (case decodeModbusRegisterValue l (take (nat (2 * pointWidth p)) (drop (nat (9 + 2 * at)) frame)) p of
            Inl e \<Rightarrow> Inl (ErrWrap (''point '' @ mp_Identifier p) e) | Inr v \<Rightarrow> Inr (Some v)))"
proof -
  define at where "at = mp_Address p - start"
  have b: "0 \<le> at" "1 \<le> pointWidth p" "at + pointWidth p \<le> 65536"
    using assms(1-3) pointWidth_pos [of p] by (simp_all add: at_def addressable_def)
  then have g: "go_int (at * 2) = at * 2" "go_int (pointWidth p * 2) = pointWidth p * 2" "go_int (9 + at * 2) = 9 + at * 2"
    "go_int (9 + at * 2 + pointWidth p * 2) = 9 + at * 2 + pointWidth p * 2"
    "go_int (at * 2 + pointWidth p * 2) = at * 2 + pointWidth p * 2"
    by (simp_all add: go_int_id)
  have c: "(mp_FunctionCode p \<noteq> fc \<or> mp_Address p < start) = False" "(fc \<le> 2) = False"
    "(9 + 2 * at < 0 \<or> 9 + 2 * at + pointWidth p * 2 < 9 + 2 * at) = False"
    "9 + 2 * at + pointWidth p * 2 - (9 + 2 * at) = 2 * pointWidth p" "9 + at * 2 = 9 + 2 * at"
    "at * 2 + pointWidth p * 2 = 2 * (at + pointWidth p)"
    using assms(3-5) b by auto
  show ?thesis
    unfolding point_value_def pointWidth_parsed [OF assms(4)] Let_def at_def [symmetric]
    unfolding g unfolding c if_False ..
qed

lemma point_value_bit:
  assumes "start \<le> mp_Address p" "mp_FunctionCode p = fc" "fc \<le> 2"
  shows "point_value l frame n fc start p = (let at = mp_Address p - start
     in if n * 8 \<le> at then Inr None
        else Inr (Some (ABool (frame ! (9 + nat (at div 8)) AND push_bit (nat (at mod 8)) 1 \<noteq> 0))))"
  using assms by (simp add: point_value_def Let_def)

lemma point_value_in:
  assumes i: "in_response d fc start p" and v: "mp_FunctionCode p \<le> 2 \<or> decodable p" and a: "addressable p" "0 \<le> start"
    and h: "length h = 9"
  shows "\<exists>v. point_value l (h @ d) (int (length d)) fc start p = Inr (Some v) \<and> held_value l d start p v"
proof (cases "fc \<le> 2")
  case True
  then have "start \<le> mp_Address p" "mp_FunctionCode p = fc" "mp_Address p - start < 8 * int (length d)"
    using i by (simp_all add: in_response_def)
  then show ?thesis using True h
    by (simp add: point_value_bit held_value_def nat_div_distrib nat_mod_distrib nth_append Let_def)
next
  case False
  define at where "at = nat (mp_Address p - start)"
  define w where "w = nat (pointWidth p)"
  have k: "mp_FunctionCode p = fc" "start \<le> mp_Address p" "2 * (mp_Address p - start + pointWidth p) \<le> int (length d)"
    using i False by (simp_all add: in_response_def)
  have n: "nat (2 * pointWidth p) = 2 * w" "nat (9 + 2 * (mp_Address p - start)) = 9 + 2 * at" "2 * at + 2 * w \<le> length d"
    using k(2,3) pointWidth_pos [of p] by (simp_all add: at_def w_def)
  have f: "(int (length d) < 2 * (mp_Address p - start + pointWidth p)) = False" "2 < fc" "drop (9 + 2 * at) (h @ d) = drop (2 * at) d"
    using False k(3) h by simp_all
  have part: "point_value l (h @ d) (int (length d)) fc start p =
      (case decodeModbusRegisterValue l (take (2 * w) (drop (2 * at) d)) p of
         Inl e \<Rightarrow> Inl (ErrWrap (''point '' @ mp_Identifier p) e) | Inr v \<Rightarrow> Inr (Some v))"
    unfolding point_value_registers [OF a k(2,1) f(2)] Let_def f(1) if_False n f(3) ..
  have "mp_RegisterCount p \<le> pointWidth p" using False k(1) by (simp add: pointWidth_def)
  then have "nat (mp_RegisterCount p * 2) \<le> length (take (2 * w) (drop (2 * at) d))" using n(3) by (simp add: w_def)
  with v False k(1) obtain x where "decodeModbusRegisterValue l (take (2 * w) (drop (2 * at) d)) p = Inr x"
    using decodable_value by metis
  then show ?thesis using False k(1) by (simp add: part held_value_def at_def w_def Let_def)
qed

lemma point_value_out:
  assumes "\<not> in_response d fc start p" "addressable p" "0 \<le> start"
  shows "point_value l frame (int (length d)) fc start p = Inr None"
proof (cases "mp_FunctionCode p = fc \<and> start \<le> mp_Address p")
  case True
  then show ?thesis using assms
    by (cases "fc \<le> 2") (auto simp: point_value_bit point_value_registers in_response_def Let_def)
next
  case False
  then show ?thesis by (auto simp: point_value_def Let_def)
qed

lemma add_value_mget: "mget (fst (add_value l p v r)) k = (if k = mp_Identifier p then Some v else mget (fst r) k)"
  by (simp add: add_value_def Let_def split: prod.splits option.splits)

lemma parse_points_holds:
  assumes "\<forall>p \<in> set ps. (mp_FunctionCode p \<le> 2 \<or> decodable p) \<and> addressable p" "distinct (map mp_Identifier ps)"
    "0 \<le> start" "length h = 9"
  shows "\<exists>r'. parse_points l (h @ d) (int (length d)) fc start ps r = Inr r' \<and>
     (\<forall>p \<in> set ps. in_response d fc start p \<longrightarrow> (\<exists>v. mget (fst r') (mp_Identifier p) = Some v \<and> held_value l d start p v)) \<and>
     (\<forall>k. k \<notin> set (map mp_Identifier (filter (in_response d fc start) ps)) \<longrightarrow> mget (fst r') k = mget (fst r) k)"
  using assms(1,2)
proof (induction ps arbitrary: r)
  case (Cons p ps)
  have p: "mp_FunctionCode p \<le> 2 \<or> decodable p" "addressable p" using Cons.prems(1) by simp_all
  show ?case
  proof (cases "in_response d fc start p")
    case True
    then obtain v where v: "point_value l (h @ d) (int (length d)) fc start p = Inr (Some v)" "held_value l d start p v"
      using point_value_in [OF True p assms(3,4)] by blast
    obtain r' where r: "parse_points l (h @ d) (int (length d)) fc start ps (add_value l p v r) = Inr r'"
      "\<forall>q \<in> set ps. in_response d fc start q \<longrightarrow> (\<exists>v. mget (fst r') (mp_Identifier q) = Some v \<and> held_value l d start q v)"
      "\<forall>k. k \<notin> set (map mp_Identifier (filter (in_response d fc start) ps)) \<longrightarrow> mget (fst r') k = mget (fst (add_value l p v r)) k"
      using Cons.IH [of "add_value l p v r"] Cons.prems by auto
    have "mp_Identifier p \<notin> set (map mp_Identifier (filter (in_response d fc start) ps))" using Cons.prems(2) by auto
    then have "mget (fst r') (mp_Identifier p) = Some v" using r(3) by (simp add: add_value_mget)
    with r v True show ?thesis by (intro exI [of _ r']) (auto simp: add_value_mget)
  next
    case False
    obtain r' where r: "parse_points l (h @ d) (int (length d)) fc start ps r = Inr r'"
      "\<forall>q \<in> set ps. in_response d fc start q \<longrightarrow> (\<exists>v. mget (fst r') (mp_Identifier q) = Some v \<and> held_value l d start q v)"
      "\<forall>k. k \<notin> set (map mp_Identifier (filter (in_response d fc start) ps)) \<longrightarrow> mget (fst r') k = mget (fst r) k"
      using Cons.IH [of r] Cons.prems by auto
    with False point_value_out [OF False p(2) assms(3), of l "h @ d"] show ?thesis by (intro exI [of _ r']) auto
  qed
qed simp

text \<open>The properties of a message are the values of the points in the response, and nothing else.\<close>

definition exactly_held :: "lib \<Rightarrow> octet list \<Rightarrow> int \<Rightarrow> int \<Rightarrow> modbus_point list \<Rightarrow> anymap \<Rightarrow> bool" where
  "exactly_held l d fc start points properties \<longleftrightarrow> (\<forall>k v. mget properties k = Some v \<longleftrightarrow>
     (\<exists>p \<in> set points. mp_Identifier p = k \<and> in_response d fc start p \<and> held_value l d start p v))"

lemma held_value_unique: "held_value l d start p v \<Longrightarrow> held_value l d start p w \<Longrightarrow> v = w"
  by (simp add: held_value_def Let_def split: if_splits)

lemma exactly_heldI:
  assumes "\<forall>p \<in> set ps. in_response d fc start p \<longrightarrow> (\<exists>v. mget m (mp_Identifier p) = Some v \<and> held_value l d start p v)"
    "\<forall>k. k \<notin> set (map mp_Identifier (filter (in_response d fc start) ps)) \<longrightarrow> mget m k = None"
  shows "exactly_held l d fc start ps m"
  unfolding exactly_held_def
proof (intro allI iffI)
  fix k v
  assume k: "mget m k = Some v"
  then have "k \<in> set (map mp_Identifier (filter (in_response d fc start) ps))" using assms(2) by fastforce
  then obtain p where "p \<in> set ps" "mp_Identifier p = k" "in_response d fc start p" by auto
  then show "\<exists>p \<in> set ps. mp_Identifier p = k \<and> in_response d fc start p \<and> held_value l d start p v"
    using assms(1) k by fastforce
next
  fix k v
  assume "\<exists>p \<in> set ps. mp_Identifier p = k \<and> in_response d fc start p \<and> held_value l d start p v"
  then show "mget m k = Some v" using assms(1) held_value_unique by blast
qed

text \<open>The parser bound to the wire format of the access profile.\<close>

definition parse_collected :: "lib \<Rightarrow> access_profile \<Rightarrow> raw_message \<Rightarrow> anymap \<Rightarrow> standard_message res" where
  "parse_collected l pr raw config =
     (if ap_WireFormat pr = ''rtu_over_tcp'' then ParseWithConfig_rtu l raw config else ParseWithConfig_tcp l raw config)"

lemma parse_tcp_holds:
  assumes "decodeHexPayload (rm_Payload raw) = Inr (tcp_frame t u ([word_of_int fc, word_of_nat (length d)] @ d))"
    "1 \<le> fc" "fc \<le> 4" "0 < length d" "length d \<le> 250"
    "mget (rm_Metadata raw) ''startAddress'' = Some (AInt start)" "0 \<le> start"
    "modbusTCPPoints (any_at config ''points'') = Inr points"
    "\<forall>p \<in> set points. (mp_FunctionCode p \<le> 2 \<or> decodable p) \<and> addressable p"
    "distinct (map mp_Identifier points)" "\<exists>p \<in> set points. in_response d fc start p"
  obtains m where "ParseWithConfig_tcp l raw config = Inr m" "exactly_held l d fc start points (sm_Properties m)"
    "sm_DeviceID m = rm_DeviceID raw"
proof -
  let ?f = "tcp_frame t u ([word_of_int fc, word_of_nat (length d)] @ d)"
  define h where "h = put_be16 t @ [0, 0] @ put_be16 (word_of_nat (length d + 3)) @ [u, word_of_int fc, word_of_nat (length d)]"
  have f: "?f = h @ d" "length h = 9" by (simp_all add: h_def tcp_frame_def put_be16_def add.commute)
  obtain r' where r: "parse_points l ?f (int (length d)) fc start points ([], [], PropertyReport) = Inr r'"
    "\<forall>p \<in> set points. in_response d fc start p \<longrightarrow> (\<exists>v. mget (fst r') (mp_Identifier p) = Some v \<and> held_value l d start p v)"
    "\<forall>k. k \<notin> set (map mp_Identifier (filter (in_response d fc start) points)) \<longrightarrow> mget (fst r') k = mget [] k"
    using parse_points_holds [OF assms(9, 10, 7) f(2), of l d fc "([], [], PropertyReport)"] unfolding f(1) fst_conv by blast
  have x: "exactly_held l d fc start points (fst r')" by (rule exactly_heldI [OF r(2)]) (use r(3) in \<open>simp add: mget_def\<close>)
  obtain properties event kind where e: "r' = (properties, event, kind)" by (cases r')
  have s: "start_address l raw config = start" by (simp add: start_address_def metadataInt_def assms(6))
  have "properties \<noteq> []" using r(2) assms(11) e by (auto simp: mget_def)
  then have "\<exists>m. ParseWithConfig_tcp l raw config = Inr m \<and> sm_Properties m = properties \<and> sm_DeviceID m = rm_DeviceID raw"
    unfolding ParseWithConfig_tcp_def assms(1, 8) bind_res_simps response_data_tcp [OF assms(2-5)] prod.case Let_def s
    using assms(7) r(1) by (simp add: e must_def message_of_def)
  then show ?thesis using that x e by auto
qed

lemma parse_rtu_as_tcp:
  assumes "rm_Payload raw = marshal_hex (rtu_frame u f d)" "length d \<le> 250" "0 < length d"
  shows "ParseWithConfig_rtu l raw config =
     bind_res (ParseWithConfig_tcp l (raw\<lparr>rm_Payload := marshal_hex_lower (tcp_frame 0 u ([f, word_of_nat (length d)] @ d))\<rparr>) config)
       (\<lambda>m. Inr (m\<lparr>sm_Raw := mput (mput (sm_Raw m) ''payload'' (AStr (rm_Payload raw))) ''transport'' (AStr ''MODBUS_RTU'')\<rparr>))"
proof -
  let ?d = "[u, f, word_of_nat (length d)] @ d"
  have v: "Validate_rtu (rtu_frame u f d) = Inr ()"
    using assms(2) unfolding Validate_rtu_iff rtu_frame_def by (intro exI [of _ ?d]) simp
  have t: "take (length (rtu_frame u f d) - 2) (rtu_frame u f d) = ?d" "length (rtu_frame u f d) - 2 = length ?d"
    by (simp_all add: rtu_frame_def AppendCRC_def Let_def)
  have "put_be16 (0 :: 16 word) = [0, 0]" by (simp add: put_be16_def high8_def low8_def)
  then have "[0, 0, 0, 0] @ put_be16 (word_of_nat (length ?d)) @ ?d = tcp_frame 0 u ([f, word_of_nat (length d)] @ d)"
    by (simp add: tcp_frame_def add.commute)
  then show ?thesis
    unfolding ParseWithConfig_rtu_def assms(1) decode_marshal_hex bind_res_simps v Let_def
    unfolding t(1) unfolding t(2) by simp
qed

text \<open>Both wire formats.\<close>

lemma parse_collected_holds:
  assumes c: "collected pr b raw" and points: "modbusTCPPoints (any_at config ''points'') = Inr points"
    "\<forall>p \<in> set points. (mp_FunctionCode p \<le> 2 \<or> decodable p) \<and> addressable p" "distinct (map mp_Identifier points)"
    and some: "\<And>d. int (length d) = expected_bytes b \<Longrightarrow> \<exists>p \<in> set points. in_response d (mb_FunctionCode b) (mb_StartAddress b) p"
  obtains m d response where "rm_Payload raw = marshal_hex response"
    "answers (ap_WireFormat pr = ''rtu_over_tcp'') b (word_of_int (ap_UnitID pr)) d response"
    "parse_collected l pr raw config = Inr m" "sm_DeviceID m = ap_DeviceID pr"
    "exactly_held l d (mb_FunctionCode b) (mb_StartAddress b) points (sm_Properties m)"
proof -
  let ?u = "word_of_int (ap_UnitID pr)" and ?f = "word_of_int (mb_FunctionCode b)"
  obtain d response where c: "rm_Payload raw = marshal_hex response"
    "answers (ap_WireFormat pr = ''rtu_over_tcp'') b ?u d response"
    "rm_DeviceID raw = ap_DeviceID pr" "mget (rm_Metadata raw) ''startAddress'' = Some (AInt (mb_StartAddress b))"
    "0 < mb_Quantity b" "mb_Quantity b \<le> read_limit (mb_FunctionCode b)" "1 \<le> mb_FunctionCode b"
    "mb_FunctionCode b \<le> 4" "0 \<le> mb_StartAddress b"
    using assms(1) by (auto simp: collected_def)
  have len: "int (length d) = expected_bytes b" using c(2) by (simp add: answers_def)
  then have bounds: "0 < length d" "length d \<le> 250" using expected_bytes_bounds [OF c(5, 6)] by linarith+
  show ?thesis
  proof (cases "ap_WireFormat pr = ''rtu_over_tcp''")
    case False
    then obtain t where "response = tcp_frame t ?u ([?f, word_of_nat (length d)] @ d)" using c(2) by (auto simp: answers_def)
    then have "decodeHexPayload (rm_Payload raw) = Inr (tcp_frame t ?u ([?f, word_of_nat (length d)] @ d))" by (simp add: c(1))
    from parse_tcp_holds [OF this c(7, 8) bounds c(4, 9) points some [OF len]] that [OF c(1,2)] c(3) False
    show ?thesis unfolding parse_collected_def by metis
  next
    case True
    let ?t = "tcp_frame 0 ?u ([?f, word_of_nat (length d)] @ d)"
    have "rm_Payload raw = marshal_hex (rtu_frame ?u ?f d)" using c(1, 2) True by (simp add: answers_def)
    note rtu = parse_rtu_as_tcp [OF this bounds(2, 1), of l config]
    define raw2 where "raw2 = raw\<lparr>rm_Payload := marshal_hex_lower ?t\<rparr>"
    have r2: "decodeHexPayload (rm_Payload raw2) = Inr ?t" "rm_DeviceID raw2 = rm_DeviceID raw"
      "mget (rm_Metadata raw2) ''startAddress'' = Some (AInt (mb_StartAddress b))"
      by (simp_all add: raw2_def decode_marshal_lower c(4))
    obtain m where "ParseWithConfig_tcp l raw2 config = Inr m"
      "exactly_held l d (mb_FunctionCode b) (mb_StartAddress b) points (sm_Properties m)" "sm_DeviceID m = rm_DeviceID raw2"
      by (rule parse_tcp_holds [OF r2(1) c(7, 8) bounds r2(3) c(9) points some [OF len]])
    note m = this [unfolded r2(2), unfolded raw2_def]
    define m2 where "m2 = m\<lparr>sm_Raw := mput (mput (sm_Raw m) ''payload'' (AStr (rm_Payload raw))) ''transport'' (AStr ''MODBUS_RTU'')\<rparr>"
    have "parse_collected l pr raw config = Inr m2" using True m(1) by (simp add: parse_collected_def rtu m2_def)
    moreover have "sm_DeviceID m2 = ap_DeviceID pr" "sm_Properties m2 = sm_Properties m" using m(3) c(3) by (simp_all add: m2_def)
    ultimately show ?thesis using that [OF c(1,2), of m2] m(2) by simp
  qed
qed

text \<open>A block that asks for a point, with its function code.\<close>

definition covers :: "modbus_read_block \<Rightarrow> modbus_point \<Rightarrow> bool" where
  "covers b p \<longleftrightarrow> mb_FunctionCode b = mp_FunctionCode p \<and> mb_StartAddress b \<le> mp_Address p \<and>
     mp_Address p + pointWidth p \<le> mb_StartAddress b + mb_Quantity b"

lemma covers_in_response:
  "covers b p \<Longrightarrow> int (length d) = expected_bytes b \<Longrightarrow> 0 < mb_Quantity b \<Longrightarrow>
     in_response d (mb_FunctionCode b) (mb_StartAddress b) p"
  unfolding covers_def in_response_def
  by (auto simp: expected_bytes_def pointWidth_def go_div_nonneg split: if_splits)

text \<open>
  C39. A collection of all blocks compiled from a point table turns the table into properties. Every point
  is asked for by one of the blocks; and every raw message of the collection is one that the parser of the
  wire format accepts: its standard message is of the profile's device, and its properties are exactly the
  points that the response to the block holds, every point the block asks for among them, each with the
  value that its registers or bit have there. Assumed of the table the parser is configured with: it is
  the compiled one, the identifiers are distinct, no address exceeds Go's int of 64 bits, and every
  register point can be decoded (its type is known and no longer than its registers, and only an
  unsigned number has a bit index); an accepted table can have points that cannot.
\<close>

theorem collected_points_become_properties:
  assumes "ReadModbusTCPWithPolicy nw pr rel blocks cidrs = (Inr raws, l')" "CompileModbusReadBlocks points = Inr blocks"
    "modbusTCPPoints (any_at config ''points'') = Inr points" "\<forall>p \<in> set points. mp_FunctionCode p \<le> 2 \<or> decodable p"
    "distinct (map mp_Identifier points)" "\<forall>p \<in> set points. 0 \<le> mp_Address p \<and> mp_Address p + pointWidth p < 2 ^ 63"
  shows "length raws = length blocks \<and> (\<forall>p \<in> set points. \<exists>b \<in> set blocks. covers b p) \<and>
    (\<forall>(b, raw) \<in> set (zip blocks raws). \<exists>m d response. rm_Payload raw = marshal_hex response \<and>
       answers (ap_WireFormat pr = ''rtu_over_tcp'') b (word_of_int (ap_UnitID pr)) d response \<and>
       parse_collected l pr raw config = Inr m \<and> sm_DeviceID m = ap_DeviceID pr \<and>
       (\<forall>p \<in> set points. covers b p \<longrightarrow> in_response d (mb_FunctionCode b) (mb_StartAddress b) p) \<and>
       (\<forall>k v. mget (sm_Properties m) k = Some v \<longleftrightarrow> (\<exists>p \<in> set points. mp_Identifier p = k \<and>
          in_response d (mb_FunctionCode b) (mb_StartAddress b) p \<and> held_value l d (mb_StartAddress b) p v)))"
proof -
  have int: "\<forall>p \<in> set points. in_int p" using assms(6) by (simp add: in_int_def)
  have all: "list_all2 (collected pr) blocks raws" using collection_collects [OF assms(1)] .
  have covered: "\<exists>b \<in> set blocks. covers b p" if "p \<in> set points" for p
    using compiled_cover [OF assms(2) that int] int that by (auto simp: covers_def point_end_in_int)
  have ok: "\<forall>p \<in> set points. (mp_FunctionCode p \<le> 2 \<or> decodable p) \<and> addressable p"
    using covered list_all2_left [OF all] assms(4,6) by (fastforce simp: covers_def collected_def addressable_def)
  have one: "\<exists>m d response. rm_Payload raw = marshal_hex response \<and>
       answers (ap_WireFormat pr = ''rtu_over_tcp'') b (word_of_int (ap_UnitID pr)) d response \<and>
       parse_collected l pr raw config = Inr m \<and> sm_DeviceID m = ap_DeviceID pr \<and>
       (\<forall>p \<in> set points. covers b p \<longrightarrow> in_response d (mb_FunctionCode b) (mb_StartAddress b) p) \<and>
       exactly_held l d (mb_FunctionCode b) (mb_StartAddress b) points (sm_Properties m)"
    if z: "(b, raw) \<in> set (zip blocks raws)" for b raw
  proof -
    have c: "collected pr b raw" "0 < mb_Quantity b" using all z by (auto simp: list_all2_iff collected_def)
    obtain p where p: "p \<in> set points" "covers b p"
      using compiled_first [OF assms(2) set_zip_leftD [OF z] int] int by (auto simp: covers_def point_end_in_int)
    have "\<exists>p \<in> set points. in_response d (mb_FunctionCode b) (mb_StartAddress b) p"
      if "int (length d) = expected_bytes b" for d
      using covers_in_response [OF p(2) that c(2)] p(1) by blast
    from parse_collected_holds [OF c(1) assms(3) ok assms(5) this, of l] show ?thesis
      using covers_in_response [OF _ _ c(2)] unfolding answers_def by metis
  qed
  show ?thesis using list_all2_lengthD [OF all] covered one unfolding exactly_held_def by auto
qed

section \<open>A concrete collection\<close>

definition register_point :: modbus_point where
  "register_point = zero_point\<lparr>mp_Identifier := ''a'', mp_FunctionCode := 3, mp_DataType := ''uint16'', mp_RegisterCount := 1\<rparr>"

definition point_config :: anymap where
  "point_config = [(''points'', AArr [AObj [(''dataType'', AStr ''uint16''), (''functionCode'', AInt 3),
     (''identifier'', AStr ''a''), (''registerCount'', AInt 1)]])]"

lemma point_keys: "to_lower ''dataType'' = ''datatype''" "to_lower ''functionCode'' = ''functioncode''"
    "to_lower ''identifier'' = ''identifier''" "to_lower ''registerCount'' = ''registercount''"
  by (simp_all add: to_lower_def lower_char_def char_of_eq_iff)

lemma register_point_config: "modbusTCPPoints (any_at point_config ''points'') = Inr [register_point]"
proof -
  have "sort_key fst [(''dataType'', AStr ''uint16''), (''functionCode'', AInt 3), (''identifier'', AStr ''a''), (''registerCount'', AInt 1)] =
      [(''dataType'', AStr ''uint16''), (''functionCode'', AInt 3), (''identifier'', AStr ''a''), (''registerCount'', AInt 1)]"
    by simp
  then show ?thesis
    by (simp add: modbusTCPPoints_def point_config_def any_at_def mget_or_def mget_def decode_point_field_def point_keys
        json_str_def json_int_def register_point_def)
qed

lemma one_digit: "nat_digits 0 = ''0''" "nat_digits 1 = ''1''" "nat_digits 3 = ''3''"
proof -
  have "nat_digits (of_char c - 48) = [c]" if "48 \<le> (of_char c :: nat)" "of_char c < (58 :: nat)" for c
    using that by (subst nat_digits.simps) simp
  from this [of "CHR ''0''"] this [of "CHR ''1''"] this [of "CHR ''3''"]
  show "nat_digits 0 = ''0''" "nat_digits 1 = ''1''" "nat_digits 3 = ''3''" by simp_all
qed

lemma register_point_compiled: "CompileModbusReadBlocks [register_point] = Inr [sample_block]"
  by (simp add: CompileModbusReadBlocks_def group_blocks_def flush_block_def go_int_id register_point_def zero_point_def sample_block_def
      point_end_def pointWidth_def poll_interval_def decimal2_def decimal_def one_digit [simplified] Let_def)

lemma register_point_decodable: "decodable register_point"
  by (simp add: decodable_def register_point_def zero_point_def to_lower_def lower_char_def)

theorem collected_points_become_properties_witness:
  "\<exists>raws l raw m v. ReadModbusTCPWithPolicy sample_network sample_access sample_release [sample_block] [''h''] = (Inr raws, l) \<and>
     raw \<in> set raws \<and> parse_collected sample_lib sample_access raw point_config = Inr m \<and> mget (sm_Properties m) ''a'' = Some v"
proof -
  obtain raws l where r:
    "ReadModbusTCPWithPolicy sample_network sample_access sample_release [sample_block] [''h''] = (Inr raws, l)"
    using sample_collected by blast
  have p: "mp_Identifier register_point = ''a''" "mp_Address register_point = 0" "pointWidth register_point = 1"
    "covers sample_block register_point"
    by (simp_all add: register_point_def zero_point_def pointWidth_def covers_def sample_block_def)
  note c = collected_points_become_properties [OF r register_point_compiled register_point_config, of sample_lib]
  then obtain raw where raw: "raws = [raw]" using register_point_decodable p by (auto simp: length_Suc_conv)
  from c p register_point_decodable obtain m d response where
    a: "answers (ap_WireFormat sample_access = ''rtu_over_tcp'') sample_block (word_of_int (ap_UnitID sample_access)) d response"
      "parse_collected sample_lib sample_access raw point_config = Inr m"
      "\<forall>v. held_value sample_lib d (mb_StartAddress sample_block) register_point v \<longrightarrow> mget (sm_Properties m) ''a'' = Some v"
    unfolding raw by auto
  have "length d = 2" using a(1) by (simp add: answers_def expected_bytes_def sample_block_def)
  then obtain v where "held_value sample_lib d (mb_StartAddress sample_block) register_point v"
    using decodable_value [OF register_point_decodable, of "take 2 d" sample_lib] 
    by (auto simp: held_value_def register_point_def zero_point_def sample_block_def pointWidth_def)
  then show ?thesis using r a raw by auto
qed

end
