(* ===== verification/External.thy ===== *)
theory External
  imports Configurable Components
begin

text \<open>
  Protocol packages run as processes of their own (internal/parser/external.go): the artifact a
  configuration names, its path under the data directory, the checks before it is run, and the
  message its decode operation returns. The file system and the process are the record process.
\<close>

section \<open>The environment\<close>

text \<open>
  The working directory, os.Stat (whether a directory, and the size), the digest of a file in hexadecimal,
  and a run of a program under a time limit in milliseconds with an input: whether the limit passed, the
  error of the run, the pieces written to standard output and the text on standard error.
\<close>

record run_outcome =
  ro_timeout :: bool
  ro_error :: "error option"
  ro_output :: "octet list list"
  ro_stderr :: string

record process =
  px_cwd :: string
  px_stat :: "string \<Rightarrow> (bool \<times> int) res"
  px_hash :: "string \<Rightarrow> string res"
  px_run :: "string \<Rightarrow> int \<Rightarrow> string \<Rightarrow> run_outcome"

section \<open>Paths\<close>

text \<open>
  Package filepath of Unix: Clean, which resolves the elements . and .. from left to right, Join, Abs and
  Rel. A path is rooted when it begins with a slash; stack holds the cleaned elements, the last first.
\<close>

fun clean_parts :: "bool \<Rightarrow> string list \<Rightarrow> string list \<Rightarrow> string list" where
  "clean_parts rooted stack [] = rev stack"
| "clean_parts rooted stack (p # ps) =
     (if p = [] \<or> p = ''.'' then clean_parts rooted stack ps
      else if p = ''..'' then
        (case stack of
           [] \<Rightarrow> clean_parts rooted (if rooted then [] else [''..'']) ps
         | q # qs \<Rightarrow> if q = ''..'' then clean_parts rooted (''..'' # stack) ps else clean_parts rooted qs ps)
      else clean_parts rooted (p # stack) ps)"

definition path_abs :: "string \<Rightarrow> bool" where
  "path_abs p \<longleftrightarrow> has_prefix p ''/''"

definition path_parts :: "string \<Rightarrow> string list" where
  "path_parts p = clean_parts (path_abs p) [] (split_char (CHR ''/'') p)"

definition path_text :: "bool \<Rightarrow> string list \<Rightarrow> string" where
  "path_text rooted ps =
     (if rooted then CHR ''/'' # go_join ''/'' ps else if ps = [] then ''.'' else go_join ''/'' ps)"

definition path_clean :: "string \<Rightarrow> string" where
  "path_clean p = path_text (path_abs p) (path_parts p)"

definition path_join :: "string \<Rightarrow> string \<Rightarrow> string" where
  "path_join a b = (if a = [] then if b = [] then [] else path_clean b
     else if b = [] then path_clean a else path_clean (a @ ''/'' @ b))"

definition path_absolute :: "string \<Rightarrow> string \<Rightarrow> string" where
  "path_absolute cwd p = (if path_abs p then path_clean p else path_join cwd p)"

text \<open>Rel of two absolute paths: up from the one to what they share, and down to the other.\<close>

fun rel_parts :: "string list \<Rightarrow> string list \<Rightarrow> string list" where
  "rel_parts (b # bs) (t # ts) = (if b = t then rel_parts bs ts else map (\<lambda>_. ''..'') (b # bs) @ t # ts)"
| "rel_parts bs ts = map (\<lambda>_. ''..'') bs @ ts"

definition path_rel :: "string \<Rightarrow> string \<Rightarrow> string" where
  "path_rel base target = path_text False (rel_parts (path_parts base) (path_parts target))"

text \<open>The test that a path leads out of its directory.\<close>

definition leads_out :: "string \<Rightarrow> bool" where
  "leads_out p \<longleftrightarrow> p = ''..'' \<or> has_prefix p ''../''"

section \<open>Artifacts\<close>

definition externalArtifact :: "lib \<Rightarrow> anymap \<Rightarrow> anymap res" where
  "externalArtifact l config = (case mget config ''artifact'' of
     Some (AObj artifact) \<Rightarrow>
       if trim_space (go_sprint l (any_at artifact ''path'')) = []
       then Inl (ErrText ''go protocol parser artifact.path is required'') else Inr artifact
   | _ \<Rightarrow> Inl (ErrText ''go protocol parser artifact.path is required''))"

definition artifactPath :: "process \<Rightarrow> string \<Rightarrow> anymap \<Rightarrow> string res" where
  "artifactPath px root artifact = (case mget artifact ''path'' of
     Some (AStr rel0) \<Rightarrow>
       if trim_space rel0 = [] then Inl (ErrText ''go protocol parser artifact.path is required'')
       else let rel = path_clean rel0
         in if path_abs rel \<or> rel = ''.'' \<or> leads_out rel
            then Inl (ErrText ''go protocol parser artifact.path must stay under the data directory'')
            else if trim_space root = []
            then Inl (ErrText ''go protocol parser data directory is not configured'')
            else let base = path_absolute (px_cwd px) root;
                     path = path_absolute (px_cwd px) (path_join base rel)
              in if leads_out (path_rel base path)
                 then Inl (ErrText ''go protocol parser artifact.path must stay under the data directory'')
                 else Inr path
   | _ \<Rightarrow> Inl (ErrText ''go protocol parser artifact.path is required''))"

definition maxExternalArtifact :: int where
  "maxExternalArtifact = 64 * 1024 * 1024"

definition verifyExternalArtifact :: "process \<Rightarrow> string \<Rightarrow> anymap \<Rightarrow> unit res" where
  "verifyExternalArtifact px path artifact = (case px_stat px path of
     Inl e \<Rightarrow> Inl (ErrWrap ''stat protocol artifact'' e)
   | Inr (dir, n) \<Rightarrow>
       if dir then Inl (ErrText ''protocol artifact must be an executable file'')
       else if n \<le> 0 \<or> maxExternalArtifact < n then Inl (ErrText ''protocol artifact size'')
       else (case mget artifact ''sha256'' of
           Some (AStr expected) \<Rightarrow>
             if trim_space expected = [] then Inr ()
             else (case px_hash px path of
                 Inl e \<Rightarrow> Inl (ErrWrap ''hash protocol artifact'' e)
               | Inr actual \<Rightarrow> if equal_fold actual (trim_space expected) then Inr ()
                   else Inl (ErrText ''protocol artifact checksum mismatch''))
         | _ \<Rightarrow> Inr ()))"

definition externalTimeout :: "lib \<Rightarrow> anymap \<Rightarrow> int" where
  "externalTimeout l config =
     (let ms = (case any_at config ''timeoutMs'' of
          AFloat64 w \<Rightarrow> f64_trunc l w | AInt n \<Rightarrow> n | AStr s \<Rightarrow> atoi_value (trim_space s) | _ \<Rightarrow> 0)
      in if ms \<le> 0 then 5000 else min ms 10000)"

section \<open>Bounded output\<close>

record bounded_buffer =
  bb_limit :: int
  bb_data :: "octet list"
  bb_truncated :: bool

text \<open>Write: the number of bytes taken, whether an error ends the copying, and the buffer.\<close>

definition bounded_write :: "octet list \<Rightarrow> bounded_buffer \<Rightarrow> (nat \<times> error option) \<times> bounded_buffer" where
  "bounded_write p b =
     (let remaining = bb_limit b - int (length (bb_data b)); over = Some (ErrText ''output limit exceeded'')
      in if remaining \<le> 0 then ((0, over), b\<lparr>bb_truncated := True\<rparr>)
         else if remaining < int (length p)
         then ((nat remaining, over), b\<lparr>bb_data := bb_data b @ take (nat remaining) p, bb_truncated := True\<rparr>)
         else ((length p, None), b\<lparr>bb_data := bb_data b @ p\<rparr>))"

fun bounded_copy :: "octet list list \<Rightarrow> bounded_buffer \<Rightarrow> bounded_buffer" where
  "bounded_copy [] b = b"
| "bounded_copy (p # ps) b = (case bounded_write p b of
     ((_, None), b1) \<Rightarrow> bounded_copy ps b1 | ((_, Some _), b1) \<Rightarrow> b1)"

definition maxExternalOutput :: int where
  "maxExternalOutput = 1024 * 1024"

definition captured :: "octet list list \<Rightarrow> bounded_buffer" where
  "captured ps = bounded_copy ps \<lparr>bb_limit = maxExternalOutput, bb_data = [], bb_truncated = False\<rparr>"

section \<open>Running a package\<close>

text \<open>Invoke; the input is json.Marshal of the request.\<close>

definition Invoke :: "lib \<Rightarrow> process \<Rightarrow> string \<Rightarrow> anymap \<Rightarrow> string res \<Rightarrow> octet list res" where
  "Invoke l px root config input =
     bind_res (externalArtifact l config) (\<lambda>artifact.
     bind_res (artifactPath px root artifact) (\<lambda>path.
     bind_res (verifyExternalArtifact px path artifact) (\<lambda>_.
     case input of
       Inl e \<Rightarrow> Inl (ErrWrap ''marshal external parser input'' e)
     | Inr text \<Rightarrow>
         let out = px_run px path (externalTimeout l config) (text @ [CHR 0x0A]); got = captured (ro_output out)
         in if ro_timeout out then Inl (ErrText ''external parser timed out'')
            else if ro_error out \<noteq> None then Inl (ErrWrap ''external parser failed'' (the (ro_error out)))
            else if bb_truncated got then Inl (ErrText ''external parser output exceeds limit'')
            else Inr (bb_data got))))"

text \<open>A request to a package; json.Marshal omits empty values.\<close>

record worker_request =
  wq_DeviceID :: string
  wq_Version :: int
  wq_Operation :: string
  wq_Raw :: "raw_message option"
  wq_Data :: string
  wq_State :: "any option"
  wq_Command :: anymap
  wq_Now :: int

definition zero_worker_request :: worker_request where
  "zero_worker_request = \<lparr>wq_DeviceID = [], wq_Version = 0, wq_Operation = [], wq_Raw = None, wq_Data = [],
     wq_State = None, wq_Command = [], wq_Now = 0\<rparr>"

section \<open>The parser\<close>

text \<open>
  json.Unmarshal of the output into its envelope, standardMessage and error, is the argument envelope,
  json.Marshal of a request the argument marshal.
\<close>

definition decodeExternalMessage ::
  "(octet list \<Rightarrow> (standard_message option \<times> string) option) \<Rightarrow> octet list \<Rightarrow> standard_message res" where
  "decodeExternalMessage envelope output = (case envelope output of
     None \<Rightarrow> Inl (ErrText ''decode external parser output'')
   | Some (message, err) \<Rightarrow>
       if err \<noteq> [] then Inl (ErrText (''external parser returned error: '' @ err))
       else (case message of
           None \<Rightarrow> Inl (ErrText ''external parser output standardMessage is required'')
         | Some m \<Rightarrow> if sm_MessageType m = [] then Inl (ErrText ''external parser output messageType is required'')
             else Inr m))"

definition decode_request :: "raw_message \<Rightarrow> worker_request" where
  "decode_request raw = zero_worker_request\<lparr>wq_Version := 2, wq_Operation := ''decode'', wq_Raw := Some raw,
     wq_State := Some (any_at (rm_Metadata raw) ''protocolState''), wq_Now := rm_ReceivedAt raw\<rparr>"

definition message_kinds :: "message_type set" where
  "message_kinds = {PropertyReport, EventReport, StateChange, AlarmReport, CommandReply, LogReport}"

text \<open>What the platform sets in a message of a package: its identity is that of the raw message.\<close>

definition adopted :: "raw_message \<Rightarrow> standard_message \<Rightarrow> standard_message" where
  "adopted raw m = m\<lparr>sm_MessageID := (if sm_MessageID m = [] then ''msg_'' @ trim_prefix (rm_MessageID raw) ''raw_''
       else sm_MessageID m),
     sm_RawMessageID := rm_MessageID raw, sm_TenantID := rm_TenantID raw, sm_ProductID := rm_ProductID raw,
     sm_DeviceID := rm_DeviceID raw,
     sm_Timestamp := (if sm_Timestamp m = 0 then rm_ReceivedAt raw else sm_Timestamp m)\<rparr>"

definition ParseWithContext :: "lib \<Rightarrow> process \<Rightarrow> (octet list \<Rightarrow> (standard_message option \<times> string) option) \<Rightarrow>
    (worker_request \<Rightarrow> string res) \<Rightarrow> string \<Rightarrow> raw_message \<Rightarrow> anymap \<Rightarrow> standard_message res" where
  "ParseWithContext l px envelope marshal root raw config =
     bind_res (externalArtifact l config) (\<lambda>artifact.
     if any_at artifact ''runtime'' \<noteq> AStr ''go-protocol-v2''
     then Inl (ErrText ''protocol runtime must be go-protocol-v2'')
     else bind_res (Invoke l px root config (marshal (decode_request raw))) (\<lambda>output.
       bind_res (decodeExternalMessage envelope output) (\<lambda>m.
       if sm_MessageType m \<notin> message_kinds
       then Inl (ErrText (''unsupported external parser messageType '' @ sm_MessageType m))
       else bind_res (MessageComponents (adopted raw m)) (\<lambda>_. Inr (adopted raw m)))))"

definition ExternalParser :: "lib \<Rightarrow> process \<Rightarrow> (octet list \<Rightarrow> (standard_message option \<times> string) option) \<Rightarrow>
    (worker_request \<Rightarrow> string res) \<Rightarrow> string \<Rightarrow> parser" where
  "ExternalParser l px envelope marshal root = \<lparr>pa_Name = ''go_protocol_parser'', pa_Version = ''1.0.0'',
     pa_Match = (\<lambda>_. False), pa_Parse = (\<lambda>_. Inl (ErrText ''go protocol parser requires an uploaded artifact'')),
     pa_ParseWithConfig = Some (ParseWithContext l px envelope marshal root)\<rparr>"

end
