(* ===== verification/External_Props.thy ===== *)
theory External_Props
  imports External
begin

text \<open>
  What a protocol package can do: the program that is run lies under the data directory, and the
  message it returns carries the identity of the raw message, whatever the package writes.
\<close>

section \<open>Clean paths\<close>

text \<open>An element of a clean path, and one that does not lead up.\<close>

definition element :: "string \<Rightarrow> bool" where
  "element p \<longleftrightarrow> p \<noteq> [] \<and> p \<noteq> ''.'' \<and> CHR ''/'' \<notin> set p"

definition down :: "string list \<Rightarrow> bool" where
  "down ps \<longleftrightarrow> list_all (\<lambda>p. element p \<and> p \<noteq> ''..'') ps"

lemma down_simps [simp]: "down []" "down (p # ps) \<longleftrightarrow> element p \<and> p \<noteq> ''..'' \<and> down ps"
  "down (ps @ qs) \<longleftrightarrow> down ps \<and> down qs" "down (rev ps) \<longleftrightarrow> down ps"
  by (auto simp: down_def list_all_iff)

text \<open>The ways an element is taken.\<close>

lemma clean_skip: "p = [] \<or> p = ''.'' \<Longrightarrow> clean_parts r st (p # ps) = clean_parts r st ps"
  by simp

lemma clean_push: "p \<noteq> [] \<Longrightarrow> p \<noteq> ''.'' \<Longrightarrow> p \<noteq> ''..'' \<Longrightarrow> clean_parts r st (p # ps) = clean_parts r (p # st) ps"
  by simp

lemma clean_up: "clean_parts r st (''..'' # ps) = clean_parts r
    (case st of [] \<Rightarrow> if r then [] else [''..''] | q # qs \<Rightarrow> if q = ''..'' then ''..'' # st else qs) ps"
  by (cases st) simp_all

lemma clean_parts_append:
  "clean_parts r st (xs @ ys) = clean_parts r (rev (clean_parts r st xs)) ys"
proof (induction xs arbitrary: st)
  case (Cons p ps)
  consider "p = [] \<or> p = ''.''" | "p = ''..''" | "p \<noteq> []" "p \<noteq> ''.''" "p \<noteq> ''..''" by blast
  then show ?case
  proof cases
    case 1
    show ?thesis unfolding append_Cons clean_skip [OF 1] by (rule Cons.IH)
  next
    case 2
    show ?thesis unfolding append_Cons 2 clean_up by (rule Cons.IH)
  next
    case 3
    show ?thesis unfolding append_Cons clean_push [OF 3] by (rule Cons.IH)
  qed
qed simp

lemma clean_parts_down: "down ps \<Longrightarrow> clean_parts r st ps = rev st @ ps"
proof (induction ps arbitrary: st)
  case (Cons p ps)
  then have "p \<noteq> []" "p \<noteq> ''.''" "p \<noteq> ''..''" "down ps" unfolding down_simps element_def by iprover+
  then show ?case unfolding clean_push [OF \<open>p \<noteq> []\<close> \<open>p \<noteq> ''.''\<close> \<open>p \<noteq> ''..''\<close>] using Cons.IH [of "p # st"] by simp
qed simp

lemma rooted_clean:
  "list_all (\<lambda>p. CHR ''/'' \<notin> set p) ps \<Longrightarrow> down st \<Longrightarrow> down (clean_parts True st ps)"
proof (induction ps arbitrary: st)
  case (Cons p ps)
  have l: "CHR ''/'' \<notin> set p" "list_all (\<lambda>p. CHR ''/'' \<notin> set p) ps" using Cons.prems(1) by simp_all
  consider "p = [] \<or> p = ''.''" | "p = ''..''" | "p \<noteq> []" "p \<noteq> ''.''" "p \<noteq> ''..''" by blast
  then show ?case
  proof cases
    case 1
    show ?thesis unfolding clean_skip [OF 1] by (rule Cons.IH [OF l(2) Cons.prems(2)])
  next
    case 2
    have "down (case st of [] \<Rightarrow> if True then [] else [''..''] | q # qs \<Rightarrow> if q = ''..'' then ''..'' # st else qs)"
      using Cons.prems(2) by (cases st) simp_all
    then show ?thesis unfolding 2 clean_up by (rule Cons.IH [OF l(2)])
  next
    case 3
    then have "down (p # st)" using Cons.prems(2) l(1) by (simp only: down_simps element_def simp_thms)
    then show ?thesis unfolding clean_push [OF 3] by (rule Cons.IH [OF l(2)])
  qed
qed simp

text \<open>The elements of a relative clean path: some that lead up, then none.\<close>

lemma relative_clean:
  assumes "list_all (\<lambda>p. CHR ''/'' \<notin> set p) ps" "st = rev (replicate n ''..'' @ qs)" "down qs"
  shows "\<exists>n qs. clean_parts False st ps = replicate n ''..'' @ qs \<and> down qs"
  using assms
proof (induction ps arbitrary: st n qs)
  case Nil
  then show ?case by (intro exI [of _ n] exI [of _ qs]) simp
next
  case (Cons p ps)
  have l: "CHR ''/'' \<notin> set p" "list_all (\<lambda>p. CHR ''/'' \<notin> set p) ps" using Cons.prems(1) by simp_all
  consider "p = [] \<or> p = ''.''" | "p = ''..''" | "p \<noteq> []" "p \<noteq> ''.''" "p \<noteq> ''..''" by blast
  then show ?case
  proof cases
    case 1
    show ?thesis unfolding clean_skip [OF 1] by (rule Cons.IH [OF l(2) Cons.prems(2, 3)])
  next
    case 2
    define st' where "st' = (case st of [] \<Rightarrow> if False then [] else [''..''] | q # qs \<Rightarrow> if q = ''..'' then ''..'' # st else qs)"
    have "\<exists>m rs. st' = rev (replicate m ''..'' @ rs) \<and> down rs"
    proof (cases qs rule: rev_cases)
      case Nil
      then have "st = replicate n ''..''" using Cons.prems(2) by simp
      then have "st' = replicate (Suc n) ''..''" by (cases n) (simp_all add: st'_def)
      then show ?thesis by (intro exI [of _ "Suc n"] exI [of _ "[]"]) (simp add: replicate_append_same)
    next
      case (snoc rs r)
      then have "st = r # rev (replicate n ''..'' @ rs)" "r \<noteq> ''..''" "down rs" using Cons.prems(2, 3) by simp_all
      then have "st' = rev (replicate n ''..'' @ rs)" by (simp add: st'_def)
      then show ?thesis using \<open>down rs\<close> by blast
    qed
    then show ?thesis unfolding 2 clean_up st'_def [symmetric] using Cons.IH [OF l(2)] by blast
  next
    case 3
    have "p # st = rev (replicate n ''..'' @ (qs @ [p]))" using Cons.prems(2) by simp
    moreover have "down (qs @ [p])" using 3 l(1) Cons.prems(3) by (simp only: down_simps element_def simp_thms)
    ultimately show ?thesis unfolding clean_push [OF 3] by (rule Cons.IH [OF l(2)])
  qed
qed

lemma split_slash_free: "list_all (\<lambda>p. CHR ''/'' \<notin> set p) (split_char (CHR ''/'') s)"
  using split_char_free by (fastforce simp: list_all_iff)

lemma split_go_join:
  "ps \<noteq> [] \<Longrightarrow> list_all (\<lambda>p. c \<notin> set p) ps \<Longrightarrow> split_char c (go_join [c] ps) = ps"
proof (induction ps)
  case (Cons p ps)
  then show ?case
  proof (cases ps)
    case (Cons q qs)
    have "split_char c (go_join [c] (p # ps)) = split_char c (p @ c # go_join [c] ps)" by (simp add: Cons)
    also have "\<dots> = split_char c p @ split_char c (go_join [c] ps)" by (rule split_char_append)
    finally show ?thesis using Cons.IH Cons.prems Cons by (simp add: split_char_plain)
  qed (simp add: split_char_plain)
qed simp

lemma down_free: "down ps \<Longrightarrow> list_all (\<lambda>p. CHR ''/'' \<notin> set p) ps"
  by (induction ps) (simp_all add: element_def)

lemma path_abs_simps [simp]: "path_abs (c # s) \<longleftrightarrow> c = CHR ''/''" "\<not> path_abs []"
  by (auto simp: path_abs_def has_prefix_def)

lemma path_abs_cases: "path_abs p \<Longrightarrow> \<exists>q. p = CHR ''/'' # q"
  by (cases p) simp_all

lemma parts_text_rooted [simp]: "down ps \<Longrightarrow> path_parts (path_text True ps) = ps"
  by (cases "ps = []") (simp_all add: path_parts_def path_text_def split_go_join down_free clean_parts_down)

lemma abs_text_rooted [simp]: "path_abs (path_text True ps)"
  by (simp add: path_text_def)

lemma parts_rooted: "path_abs p \<Longrightarrow> down (path_parts p)"
  by (simp add: path_parts_def rooted_clean split_slash_free)

lemma abs_clean [simp]: "path_abs p \<Longrightarrow> path_abs (path_clean p)"
  by (simp add: path_clean_def)

lemma parts_clean [simp]: "path_abs p \<Longrightarrow> path_parts (path_clean p) = path_parts p"
  by (simp add: path_clean_def parts_rooted)

lemma path_abs_append [simp]: "a \<noteq> [] \<Longrightarrow> path_abs (a @ b) = path_abs a"
  by (cases a) simp_all

lemma parts_append:
  "path_abs a \<Longrightarrow> path_parts (a @ CHR ''/'' # b) = clean_parts True (rev (path_parts a)) (split_char (CHR ''/'') b)"
  by (auto simp: path_parts_def split_char_append clean_parts_append dest!: path_abs_cases)

text \<open>A relative path that is clean and does not lead out goes down.\<close>

lemma relative_down:
  assumes "rel = path_clean r" "\<not> path_abs rel" "rel \<noteq> ''.''" "\<not> leads_out rel"
  obtains ps where "down ps" "ps \<noteq> []" "rel = go_join ''/'' ps"
proof -
  have a: "\<not> path_abs r" using assms(1, 2) by auto
  obtain n qs where p: "path_parts r = replicate n ''..'' @ qs" "down qs"
    using relative_clean [OF split_slash_free, of "[]" 0 "[]" r] a by (auto simp: path_parts_def)
  have r: "rel = (if path_parts r = [] then ''.'' else go_join ''/'' (path_parts r))"
    using assms(1) a by (simp add: path_clean_def path_text_def)
  have "n = 0"
  proof (rule ccontr)
    assume "n \<noteq> 0"
    then obtain m where "n = Suc m" using not0_implies_Suc by blast
    then have c: "path_parts r = ''..'' # replicate m ''..'' @ qs" using p(1) by simp
    then have "leads_out rel"
      by (cases "replicate m ''..'' @ qs") (simp_all add: r leads_out_def has_prefix_def)
    then show False using assms(4) by simp
  qed
  then show ?thesis using that [of qs] p r assms(3) by (auto split: if_splits)
qed

lemma go_join_not_Nil: "down ps \<Longrightarrow> ps \<noteq> [] \<Longrightarrow> go_join s ps \<noteq> []"
  by (induction s ps rule: go_join.induct) (simp_all add: element_def)

lemma join_down:
  assumes "path_abs base" "down ps" "ps \<noteq> []"
  shows "path_join base (go_join ''/'' ps) = path_text True (path_parts base @ ps)"
proof -
  have "base \<noteq> []" using assms(1) by auto
  then have "path_join base (go_join ''/'' ps) = path_text True (path_parts (base @ CHR ''/'' # go_join ''/'' ps))"
    using go_join_not_Nil [OF assms(2, 3)] assms(1) by (simp add: path_join_def path_clean_def)
  then show ?thesis
    using assms parts_rooted [OF assms(1)]
    by (simp add: parts_append split_go_join down_free clean_parts_down)
qed

lemma path_absolute_abs: "path_abs cwd \<Longrightarrow> path_abs (path_absolute cwd p)"
  by (auto simp: path_absolute_def path_join_def dest!: path_abs_cases)

lemma artifactPath_below:
  assumes "artifactPath px root artifact = Inr path" "path_abs (px_cwd px)"
  obtains name rest where "mget artifact ''path'' = Some (AStr name)" "path_clean name = go_join ''/'' rest"
    "down rest" "rest \<noteq> []" "path = path_text True (path_parts (path_absolute (px_cwd px) root) @ rest)"
proof -
  obtain rel0 where p: "mget artifact ''path'' = Some (AStr rel0)"
    using assms(1) by (auto simp: artifactPath_def split: option.splits any.splits)
  define rel where "rel = path_clean rel0"
  define base where "base = path_absolute (px_cwd px) root"
  have g: "\<not> (path_abs rel \<or> rel = ''.'' \<or> leads_out rel)" "path = path_absolute (px_cwd px) (path_join base rel)"
    using assms(1) p by (auto simp: artifactPath_def rel_def base_def Let_def split: if_splits)
  obtain ps where ps: "down ps" "ps \<noteq> []" "rel = go_join ''/'' ps"
    using relative_down [OF rel_def] g(1) by blast
  have b: "path_abs base" using path_absolute_abs [OF assms(2)] by (simp add: base_def)
  have "path = path_text True (path_parts base @ ps)"
    using parts_rooted [OF b] ps(1) by (simp add: g(2) ps(3) join_down [OF b ps(1, 2)] path_absolute_def path_clean_def)
  then show ?thesis using that ps p by (simp add: base_def rel_def)
qed

text \<open>What verifyExternalArtifact has seen of the file.\<close>

definition verified :: "process \<Rightarrow> string \<Rightarrow> anymap \<Rightarrow> bool" where
  "verified px path artifact \<longleftrightarrow>
     (\<exists>n. px_stat px path = Inr (False, n) \<and> 0 < n \<and> n \<le> maxExternalArtifact) \<and>
     (\<forall>expected. mget artifact ''sha256'' = Some (AStr expected) \<longrightarrow> trim_space expected \<noteq> [] \<longrightarrow>
        (\<exists>actual. px_hash px path = Inr actual \<and> equal_fold actual (trim_space expected)))"

lemma verifyExternalArtifact_verified: "verifyExternalArtifact px path artifact = Inr () \<Longrightarrow> verified px path artifact"
  unfolding verifyExternalArtifact_def verified_def
  by (cases "px_stat px path"; cases "px_hash px path")
    (auto simp: maxExternalArtifact_def split: if_splits option.splits any.splits)

lemma bounded_copy_length:
  "int (length (bb_data b)) \<le> bb_limit b \<Longrightarrow> int (length (bb_data (bounded_copy ps b))) \<le> bb_limit b"
proof (induction ps b rule: bounded_copy.induct)
  case (2 p ps b)
  have "int (length (bb_data (snd (bounded_write p b)))) \<le> bb_limit b" "bb_limit (snd (bounded_write p b)) = bb_limit b"
    using 2(2) by (auto simp: bounded_write_def Let_def)
  then show ?case using 2(1) by (auto split: prod.splits option.splits)
qed simp

text \<open>What a successful Invoke has run: the artifact of the configuration, verified.\<close>

definition artifact_run :: "lib \<Rightarrow> process \<Rightarrow> string \<Rightarrow> anymap \<Rightarrow> string \<Rightarrow> octet list \<Rightarrow> bool" where
  "artifact_run l px root config body out \<longleftrightarrow> (\<exists>artifact name rest path.
     mget config ''artifact'' = Some (AObj artifact) \<and> mget artifact ''path'' = Some (AStr name) \<and>
     path_clean name = go_join ''/'' rest \<and> down rest \<and> rest \<noteq> [] \<and>
     path = path_text True (path_parts (path_absolute (px_cwd px) root) @ rest) \<and> verified px path artifact \<and>
     (let r = px_run px path (externalTimeout l config) body
      in \<not> ro_timeout r \<and> ro_error r = None \<and> out = bb_data (captured (ro_output r)) \<and>
         \<not> bb_truncated (captured (ro_output r))))"

lemma Invoke_runs:
  assumes "Invoke l px root config input = Inr out" "path_abs (px_cwd px)"
  shows "\<exists>request. input = Inr request \<and> artifact_run l px root config (request @ [CHR 0x0A]) out"
    "int (length out) \<le> maxExternalOutput"
proof -
  obtain artifact path request where a: "externalArtifact l config = Inr artifact"
    "artifactPath px root artifact = Inr path" "verifyExternalArtifact px path artifact = Inr ()" "input = Inr request"
    and r: "\<not> ro_timeout (px_run px path (externalTimeout l config) (request @ [CHR 0x0A]))"
    "ro_error (px_run px path (externalTimeout l config) (request @ [CHR 0x0A])) = None"
    "\<not> bb_truncated (captured (ro_output (px_run px path (externalTimeout l config) (request @ [CHR 0x0A]))))"
    "out = bb_data (captured (ro_output (px_run px path (externalTimeout l config) (request @ [CHR 0x0A]))))"
    using assms(1) by (auto simp: Invoke_def Let_def bind_res_def split: sum.splits if_splits)
  have c: "mget config ''artifact'' = Some (AObj artifact)"
    using a(1) by (auto simp: externalArtifact_def split: option.splits any.splits if_splits)
  obtain name rest where p: "mget artifact ''path'' = Some (AStr name)" "path_clean name = go_join ''/'' rest"
    "down rest" "rest \<noteq> []" "path = path_text True (path_parts (path_absolute (px_cwd px) root) @ rest)"
    by (rule artifactPath_below [OF a(2) assms(2)])
  have "verified px path artifact" by (rule verifyExternalArtifact_verified [OF a(3)])
  then show "\<exists>request. input = Inr request \<and> artifact_run l px root config (request @ [CHR 0x0A]) out"
    using c p r a(4) unfolding artifact_run_def Let_def by blast
  show "int (length out) \<le> maxExternalOutput"
    unfolding r(4) captured_def
    using bounded_copy_length [of "\<lparr>bb_limit = maxExternalOutput, bb_data = [], bb_truncated = False\<rparr>"]
    by (simp add: maxExternalOutput_def)
qed

text \<open>
  C16. A protocol package cannot speak for another device or run from elsewhere: the message of a
  successful parse has the tenant, product and device of the raw message, one of the six types and
  valid component states, and it is the decoded output of one run, without error and within the
  configured limit of at most ten seconds and a mebibyte, of the configuration's artifact: its runtime is
  go-protocol-v2, its path is the cleaned name below the data directory and none of its elements leads
  up, the file there is not a directory and has between one byte and 64 mebibytes, and when the artifact names
  a checksum the file's SHA-256 is the one named. The run is given the decode request of the raw message.
\<close>

theorem package_is_confined:
  assumes "ParseWithContext l px envelope marshal root raw config = Inr m" "path_abs (px_cwd px)"
  shows "sm_TenantID m = rm_TenantID raw \<and> sm_ProductID m = rm_ProductID raw \<and> sm_DeviceID m = rm_DeviceID raw \<and>
    sm_RawMessageID m = rm_MessageID raw \<and> sm_MessageType m \<in> message_kinds \<and> (\<exists>cs. MessageComponents m = Inr cs) \<and>
    (\<exists>artifact. mget config ''artifact'' = Some (AObj artifact) \<and> any_at artifact ''runtime'' = AStr ''go-protocol-v2'') \<and>
    (\<exists>request out. marshal (decode_request raw) = Inr request \<and> externalTimeout l config \<le> 10000 \<and>
       int (length out) \<le> maxExternalOutput \<and> artifact_run l px root config (request @ [CHR 0x0A]) out \<and>
       map_sum id (adopted raw) (decodeExternalMessage envelope out) = Inr m)"
proof -
  obtain artifact out m0 where o: "Invoke l px root config (marshal (decode_request raw)) = Inr out"
    "decodeExternalMessage envelope out = Inr m0" "sm_MessageType m0 \<in> message_kinds"
    "\<exists>cs. MessageComponents (adopted raw m0) = Inr cs" "m = adopted raw m0"
    "externalArtifact l config = Inr artifact" "any_at artifact ''runtime'' = AStr ''go-protocol-v2''"
    using assms(1) by (auto simp: ParseWithContext_def bind_res_def split: sum.splits if_splits)
  have "mget config ''artifact'' = Some (AObj artifact)"
    using o(6) by (auto simp: externalArtifact_def split: option.splits any.splits if_splits)
  moreover have "externalTimeout l config \<le> 10000" by (simp add: externalTimeout_def Let_def)
  moreover have "sm_TenantID m = rm_TenantID raw" "sm_ProductID m = rm_ProductID raw" "sm_DeviceID m = rm_DeviceID raw"
    "sm_RawMessageID m = rm_MessageID raw" "sm_MessageType m \<in> message_kinds"
    using o(3) by (simp_all add: o(5) adopted_def)
  moreover have "map_sum id (adopted raw) (decodeExternalMessage envelope out) = Inr m" by (simp add: o(2, 5))
  ultimately show ?thesis using Invoke_runs [OF o(1) assms(2)] o(4, 5, 7) by blast
qed

text \<open>A package artifact p in the data directory d that prints one message of another tenant.\<close>

definition sample_package_lib :: lib where
  "sample_package_lib = \<lparr>li_json = \<lambda>_. None, li_float = \<lambda>_. None, li_show = \<lambda>_. [], li_mul = \<lambda>a b. a,
     li_muladd = \<lambda>a b c. a, li_outside = \<lambda>_. 0, li_time = \<lambda>_. None\<rparr>"

definition sample_process :: process where
  "sample_process = \<lparr>px_cwd = ''/w'', px_stat = \<lambda>_. Inr (False, 10), px_hash = \<lambda>_. Inr ''12'',
     px_run = \<lambda>path limit input. \<lparr>ro_timeout = False, ro_error = None, ro_output = [[1], [2, 3]], ro_stderr = []\<rparr>\<rparr>"

definition sample_envelope_of :: "octet list \<Rightarrow> (standard_message option \<times> string) option" where
  "sample_envelope_of out = Some (Some (zero_standard_message\<lparr>sm_TenantID := ''other'', sm_MessageType := PropertyReport\<rparr>), [])"

definition sample_package_config :: anymap where
  "sample_package_config = [(''artifact'', AObj [(''path'', AStr ''p''), (''runtime'', AStr ''go-protocol-v2''),
     (''sha256'', AStr ''12'')])]"

lemma package_is_confined_witness:
  "\<exists>m. ParseWithContext sample_package_lib sample_process sample_envelope_of (\<lambda>_. Inr ''q'') ''d''
      (zero_raw_message\<lparr>rm_TenantID := ''t''\<rparr>) sample_package_config = Inr m \<and> sm_TenantID m = ''t''"
proof -
  let ?raw = "zero_raw_message\<lparr>rm_TenantID := ''t''\<rparr>"
  have v: "trim_space ''p'' = ''p''" "trim_space ''d'' = ''d''" "trim_space ''12'' = ''12''" by (simp_all add: trim_space_visible visible_def)
  have c: "path_clean ''p'' = ''p''" "\<not> path_abs ''p''" "\<not> leads_out ''p''"
    by (simp_all add: path_clean_def path_parts_def path_abs_def has_prefix_def path_text_def leads_out_def)
  have "path_rel (path_absolute ''/w'' ''d'') (path_absolute ''/w'' (path_join (path_absolute ''/w'' ''d'') ''p'')) = ''p''"
    by (simp add: path_rel_def path_absolute_def path_join_def path_clean_def path_parts_def path_abs_def has_prefix_def path_text_def)
  then have p: "\<exists>path. artifactPath sample_process ''d'' [(''path'', AStr ''p''), (''runtime'', AStr ''go-protocol-v2''), (''sha256'', AStr ''12'')] =
      Inr path"
    using v c by (simp add: artifactPath_def mget_def sample_process_def Let_def)
  then obtain path where path: "artifactPath sample_process ''d'' [(''path'', AStr ''p''), (''runtime'', AStr ''go-protocol-v2''), (''sha256'', AStr ''12'')] =
      Inr path" ..
  have sample_run: "px_stat sample_process f = Inr (False, 10)" "px_hash sample_process f = Inr ''12''"
    "equal_fold ''12'' ''12''"
    "px_run sample_process f n i = \<lparr>ro_timeout = False, ro_error = None, ro_output = [[1], [2, 3]], ro_stderr = []\<rparr>" for f n i
    by (simp_all add: sample_process_def equal_fold_def to_lower_def)
  have o: "captured [[1], [2, 3]] = \<lparr>bb_limit = maxExternalOutput, bb_data = [1, 2, 3], bb_truncated = False\<rparr>"
    by (simp add: captured_def bounded_write_def maxExternalOutput_def)
  have "\<exists>m. ParseWithContext sample_package_lib sample_process sample_envelope_of (\<lambda>_. Inr ''q'') ''d'' ?raw
      sample_package_config = Inr m"
    by (simp add: ParseWithContext_def Invoke_def externalArtifact_def sample_package_config_def mget_def any_at_def mget_or_def
        v path verifyExternalArtifact_def maxExternalArtifact_def sample_run Let_def o decodeExternalMessage_def sample_envelope_of_def
        message_kinds_def MessageComponents_def adopted_def zero_standard_message_def PropertyReport_def)
  then obtain m where m: "ParseWithContext sample_package_lib sample_process sample_envelope_of (\<lambda>_. Inr ''q'') ''d'' ?raw
      sample_package_config = Inr m" ..
  have "path_abs (px_cwd sample_process)" by (simp add: sample_process_def)
  then show ?thesis using package_is_confined [OF m] m by simp
qed

end
