(* ===== verification/Worker.thy ===== *)
theory Worker
  imports External Repo_Devices
begin

text \<open>
  Operations of uploaded Go packages (internal/protocolworker): requests and responses, the checks of a
  response for its operation, and the samples a package has to pass before it is published.
\<close>

section \<open>Operations\<close>

record child_frame =
  cf_Identity :: child_identity
  cf_Payload :: string

record worker_response =
  wp_Children :: "child_frame list"
  wp_Error :: string
  wp_Consumed :: int
  wp_NeedMore :: bool
  wp_DeviceID :: string
  wp_DeviceName :: string
  wp_Reply :: string
  wp_State :: string
  wp_CorrelationID :: string
  wp_StandardMessage :: "standard_message option"

definition zero_worker_response :: worker_response where
  "zero_worker_response = \<lparr>wp_Children = [], wp_Error = [], wp_Consumed = 0, wp_NeedMore = False,
     wp_DeviceID = [], wp_DeviceName = [], wp_Reply = [], wp_State = [], wp_CorrelationID = [],
     wp_StandardMessage = None\<rparr>"

definition HasCapability :: "protocol_release \<Rightarrow> string \<Rightarrow> bool" where
  "HasCapability release capability \<longleftrightarrow> capability \<in> set (pl_Capabilities release)"

definition MaxFrameBytes :: int where "MaxFrameBytes = 65536"
definition MaxStateBytes :: int where "MaxStateBytes = 65536"

text \<open>hex.DecodeString within the limit of a frame.\<close>

definition hex_frame :: "string \<Rightarrow> bool" where
  "hex_frame s \<longleftrightarrow> (case hex_decode s of None \<Rightarrow> False | Some d \<Rightarrow> int (length d) \<le> MaxFrameBytes)"

definition child_bad :: "string \<Rightarrow> bool \<Rightarrow> child_frame \<Rightarrow> bool" where
  "child_bad operation incomplete child \<longleftrightarrow> operation \<noteq> ''ingress'' \<or> incomplete \<or>
     \<not> ValidProtocolDeviceID (ci_Address (cf_Identity child)) \<or>
     \<not> ValidProtocolDeviceID (ci_Type (cf_Identity child)) \<or> 256 < length (ci_Name (cf_Identity child))"

fun check_children :: "string \<Rightarrow> bool \<Rightarrow> child_frame list \<Rightarrow> unit res" where
  "check_children operation incomplete [] = Inr ()"
| "check_children operation incomplete (child # cs) =
     (if child_bad operation incomplete child then Inl (ErrText ''invalid child observation'')
      else if \<not> hex_frame (cf_Payload child) then Inl (ErrText ''invalid child payload'')
      else check_children operation incomplete cs)"

definition validateResponse :: "string \<Rightarrow> nat \<Rightarrow> worker_response \<Rightarrow> unit res" where
  "validateResponse operation n p =
     (if wp_Error p \<noteq> [] then Inl (ErrText (wp_Error p))
      else if MaxStateBytes < int (length (wp_State p)) \<or> 128 < length (wp_CorrelationID p) \<or> 256 < length (wp_DeviceName p)
      then Inl (ErrText ''protocol result field exceeds its limit'')
      else if wp_Reply p \<noteq> [] \<and> \<not> hex_frame (wp_Reply p) then Inl (ErrText ''protocol reply must be hexadecimal'')
      else if 256 < length (wp_Children p) then Inl (ErrText ''too many child observations'')
      else bind_res (check_children operation (wp_NeedMore p) (wp_Children p)) (\<lambda>_.
        if operation = ''ingress'' then
          (if wp_NeedMore p then
             (if wp_Consumed p \<noteq> 0 \<or> wp_Reply p \<noteq> [] \<or> wp_DeviceID p \<noteq> []
              then Inl (ErrText ''an incomplete frame must not consume, identify or reply'') else Inr ())
           else if wp_Consumed p \<le> 0 \<or> int n < wp_Consumed p \<or> \<not> ValidProtocolDeviceID (wp_DeviceID p)
           then Inl (ErrText ''protocol ingress result needs a frame length and a device'') else Inr ())
        else if operation = ''encode'' then
          (if wp_Reply p = [] then Inl (ErrText ''protocol encode returned no data'') else Inr ())
        else if operation = ''decode'' then
          (if wp_StandardMessage p = None then Inl (ErrText ''protocol decode returned no message'') else Inr ())
        else Inl (ErrText ''unsupported protocol operation'')))"

text \<open>
  Call; invoke is Invoke of the package under the configuration of the release followed by json.Unmarshal
  of its output. A state is a RawMessage, held as the value it denotes with its length in bytes.
\<close>

definition Call :: "(anymap \<Rightarrow> worker_request \<Rightarrow> worker_response res) \<Rightarrow> int \<Rightarrow> protocol_release \<Rightarrow> worker_request \<Rightarrow>
    worker_response res" where
  "Call invoke state_bytes release q =
     (if pl_ParserType release \<noteq> ''go_protocol_parser'' \<or> any_at (pl_Artifact release) ''runtime'' \<noteq> AStr ''go-protocol-v2''
      then Inl (ErrText ''operation requires a go-protocol-v2 package'')
      else if \<not> HasCapability release (wq_Operation q)
      then Inl (ErrText (''protocol package does not declare '' @ wq_Operation q))
      else if MaxStateBytes < state_bytes then Inl (ErrText ''protocol session state exceeds 64 KiB'')
      else let q1 = q\<lparr>wq_Version := 2\<rparr>;
               d = (if wq_Operation q = ''ingress'' then hex_decode (wq_Data q) else Some [])
        in if wq_Operation q = ''ingress'' \<and> (d = None \<or> d = Some [] \<or> \<not> hex_frame (wq_Data q))
           then Inl (ErrText ''ingress buffer must be 1 byte to 64 KiB of hexadecimal data'')
           else bind_res (invoke (pl_Config release) q1) (\<lambda>p.
             bind_res (validateResponse (wq_Operation q) (length (the d)) p) (\<lambda>_. Inr p)))"

text \<open>What a caller may rely on.\<close>

lemma Call_ingress:
  assumes "Call invoke n release q = Inr p" "wq_Operation q = ''ingress''" "hex_decode (wq_Data q) = Some d"
  shows "\<not> wp_NeedMore p \<Longrightarrow> 0 < wp_Consumed p \<and> wp_Consumed p \<le> int (length d) \<and> ValidProtocolDeviceID (wp_DeviceID p)"
    and "wp_NeedMore p \<Longrightarrow> wp_Consumed p = 0 \<and> wp_Reply p = [] \<and> wp_DeviceID p = []"
    and "wp_Reply p \<noteq> [] \<Longrightarrow> hex_frame (wp_Reply p)"
  using assms by (auto simp: Call_def validateResponse_def bind_res_def Let_def split: sum.splits if_splits)

section \<open>Samples\<close>

record sample_manifest =
  sf_ID :: string
  sf_Runtime :: string
  sf_Transport :: string
  sf_PayloadFormat :: string
  sf_Capabilities :: "string list"

record sample_case =
  sc_Name :: string
  sc_Input :: raw_message
  sc_ExpectedMessageType :: message_type
  sc_ExpectedProperties :: anymap
  sc_ExpectedEvent :: anymap
  sc_ExpectedTags :: "string gomap"
  sc_ExpectedEventType :: string
  sc_ExpectedTimestamp :: int

text \<open>The input of a case, its missing fields from the manifest.\<close>

definition case_input :: "sample_manifest \<Rightarrow> nat \<Rightarrow> raw_message \<Rightarrow> raw_message" where
  "case_input mf index raw =
     (let pick = (\<lambda>old new. if old = [] then new else old)
      in raw\<lparr>rm_MessageID := pick (rm_MessageID raw) (''raw_package_test_'' @ decimal (int index + 1)),
           rm_TenantID := pick (rm_TenantID raw) ''package-test'', rm_ProductID := pick (rm_ProductID raw) ''package-test'',
           rm_DeviceID := pick (rm_DeviceID raw) ''package-test'', rm_Protocol := pick (rm_Protocol raw) (sf_ID mf),
           rm_Transport := pick (rm_Transport raw) (sf_Transport mf),
           rm_PayloadFormat := pick (rm_PayloadFormat raw) (sf_PayloadFormat mf)\<rparr>)"

text \<open>reflect.DeepEqual of decoded JSON values: objects regardless of order; a NaN equals nothing.\<close>

fun any_sort :: "any \<Rightarrow> any" where
  "any_sort (AArr xs) = AArr (map any_sort xs)"
| "any_sort (AObj es) = AObj (sort_key fst (map (\<lambda>e. (fst e, any_sort (snd e))) es))"
| "any_sort v = v"

fun has_nan :: "any \<Rightarrow> bool" where
  "has_nan (AFloat64 w) = f64_nan w"
| "has_nan (AArr xs) = list_ex has_nan xs"
| "has_nan (AObj es) = list_ex (\<lambda>e. has_nan (snd e)) es"
| "has_nan v = False"

definition deep_equal :: "any \<Rightarrow> any \<Rightarrow> bool" where
  "deep_equal a b \<longleftrightarrow> \<not> has_nan a \<and> any_sort a = any_sort b"

definition case_passes :: "sample_case \<Rightarrow> standard_message \<Rightarrow> bool" where
  "case_passes c m \<longleftrightarrow>
     (sc_ExpectedMessageType c \<noteq> [] \<longrightarrow> sm_MessageType m = sc_ExpectedMessageType c) \<and>
     (sc_ExpectedTimestamp c \<noteq> 0 \<longrightarrow> sm_Timestamp m = sc_ExpectedTimestamp c) \<and>
     (sc_ExpectedEventType c \<noteq> [] \<longrightarrow> any_at (sm_Event m) ''type'' = AStr (sc_ExpectedEventType c)) \<and>
     list_all (\<lambda>e. case mget (sm_Event m) (fst e) of None \<Rightarrow> False | Some v \<Rightarrow> deep_equal v (snd e)) (sc_ExpectedEvent c) \<and>
     list_all (\<lambda>e. mget (sm_Tags m) (fst e) = Some (snd e)) (sc_ExpectedTags c) \<and>
     list_all (\<lambda>e. case mget (sm_Properties m) (fst e) of None \<Rightarrow> False | Some v \<Rightarrow> deep_equal v (snd e)) (sc_ExpectedProperties c)"

text \<open>
  The loop over cases: the error of the context before a case, parse is ParseWithContext of the artifact.
  The result is the number of cases before an error, and the error.
\<close>

fun run_cases :: "(nat \<Rightarrow> error option) \<Rightarrow> (raw_message \<Rightarrow> standard_message res) \<Rightarrow> sample_manifest \<Rightarrow> nat \<Rightarrow>
    sample_case list \<Rightarrow> nat \<times> error option" where
  "run_cases ctx parse mf index [] = (index, None)"
| "run_cases ctx parse mf index (c # cs) = (case ctx index of
     Some e \<Rightarrow> (index, Some (ErrWrap ''protocol sample validation canceled or exceeded 60 seconds'' e))
   | None \<Rightarrow> (case parse (case_input mf index (sc_Input c)) of
       Inl e \<Rightarrow> (index, Some (ErrWrap (''protocol package case failed: '' @ sc_Name c) e))
     | Inr m \<Rightarrow> if case_passes c m then run_cases ctx parse mf (Suc index) cs
         else (index, Some (ErrText (''protocol package case mismatch: '' @ sc_Name c)))))"

record operation_case =
  oc_Name :: string
  oc_Request :: worker_request
  oc_Expected :: anymap

text \<open>protocolSubset.\<close>

fun subset_of :: "any \<Rightarrow> any \<Rightarrow> bool" where
  "subset_of actual (AObj wanted) =
     (case actual of AObj values \<Rightarrow> list_all (\<lambda>e. subset_of (any_at values (fst e)) (snd e)) wanted | _ \<Rightarrow> False)"
| "subset_of actual expected = deep_equal actual expected"

text \<open>
  json.Marshal and json.Unmarshal of a response is the argument encoded; the four fields that may be
  omitted are set again.
\<close>

definition response_map :: "(worker_response \<Rightarrow> anymap) \<Rightarrow> worker_response \<Rightarrow> anymap" where
  "response_map encoded p = mput (mput (mput (mput (encoded p) ''consumed'' (AFloat64 (f64_of_int (wp_Consumed p))))
     ''needMore'' (ABool (wp_NeedMore p))) ''reply'' (AStr (wp_Reply p))) ''deviceId'' (AStr (wp_DeviceID p))"

fun run_operations :: "(worker_request \<Rightarrow> worker_response res) \<Rightarrow> (worker_response \<Rightarrow> anymap) \<Rightarrow> nat \<Rightarrow> string list \<Rightarrow>
    operation_case list \<Rightarrow> (nat \<times> error option) \<times> string list" where
  "run_operations call encoded index required [] = ((index, None), required)"
| "run_operations call encoded index required (c # cs) =
     (if oc_Expected c = [] then ((index, Some (ErrText (''operation sample without expectation: '' @ oc_Name c))), required)
      else (case call (oc_Request c) of
          Inl e \<Rightarrow> ((index, Some (ErrWrap (''operation sample failed: '' @ oc_Name c) e)), required)
        | Inr p \<Rightarrow>
            if \<not> subset_of (AObj (response_map encoded p)) (AObj (oc_Expected c))
            then ((index, Some (ErrText (''operation sample mismatch: '' @ oc_Name c))), required)
            else run_operations call encoded (Suc index)
              (if wq_Operation (oc_Request c) \<noteq> ''ingress'' \<or> \<not> wp_NeedMore p
               then filter (\<lambda>r. r \<noteq> wq_Operation (oc_Request c)) required else required) cs))"

text \<open>A sample file: absent or empty, or its length in bytes and the cases json.Unmarshal finds.\<close>

type_synonym 'c sample_file = "(int \<times> 'c list option) option"

definition validateProtocolOperationCases :: "(worker_request \<Rightarrow> worker_response res) \<Rightarrow> (worker_response \<Rightarrow> anymap) \<Rightarrow>
    operation_case sample_file \<Rightarrow> sample_manifest \<Rightarrow> nat \<times> error option" where
  "validateProtocolOperationCases call encoded file mf =
     (let required = remdups (filter (\<lambda>c. c \<noteq> ''decode'') (sf_Capabilities mf))
      in if sf_Runtime mf \<noteq> ''go-protocol-v2'' then (0, None)
         else case file of
           None \<Rightarrow> if required = [] then (0, None) else (0, Some (ErrText ''samples/operations.json is required''))
         | Some (n, cases) \<Rightarrow>
             (case cases of
                None \<Rightarrow> (0, Some (ErrText ''samples/operations.json is required''))
              | Some cs \<Rightarrow>
                  if 1048576 < n \<or> cs = [] \<or> 100 < length cs then (0, Some (ErrText ''samples/operations.json is required''))
                  else (case run_operations call encoded 0 required cs of
                      ((i, Some e), _) \<Rightarrow> (i, Some e)
                    | ((i, None), rest) \<Rightarrow>
                        if rest \<noteq> [] then (length cs, Some (ErrText ''operation samples must cover every capability''))
                        else (length cs, None))))"

definition ValidateSamples :: "(nat \<Rightarrow> error option) \<Rightarrow> (raw_message \<Rightarrow> standard_message res) \<Rightarrow>
    (worker_request \<Rightarrow> worker_response res) \<Rightarrow> (worker_response \<Rightarrow> anymap) \<Rightarrow> sample_case sample_file \<Rightarrow>
    operation_case sample_file \<Rightarrow> sample_manifest \<Rightarrow> bool \<Rightarrow> nat \<times> error option" where
  "ValidateSamples ctx parse call encoded file operations mf required = (case file of
     None \<Rightarrow> (0, if required then Some (ErrText ''samples/cases.json is required'') else None)
   | Some (n, cases) \<Rightarrow>
       (case cases of
          None \<Rightarrow> (0, Some (ErrText ''samples/cases.json must contain 1 to 100 valid test cases''))
        | Some cs \<Rightarrow>
            if 1048576 < n \<or> cs = [] \<or> 100 < length cs
            then (0, Some (ErrText ''samples/cases.json must contain 1 to 100 valid test cases''))
            else (case run_cases ctx parse mf 0 cs of
                (i, Some e) \<Rightarrow> (i, Some e)
              | (_, None) \<Rightarrow> (case validateProtocolOperationCases call encoded operations mf of
                    (i, e) \<Rightarrow> (length cs + i, e)))))"

text \<open>A package that passes has answered every case, and every declared operation, as its samples say.\<close>

lemma run_cases_passes:
  "run_cases ctx parse mf i cs = (n, None) \<Longrightarrow> k < length cs \<Longrightarrow>
     \<exists>m. parse (case_input mf (i + k) (sc_Input (cs ! k))) = Inr m \<and> case_passes (cs ! k) m"
proof (induction cs arbitrary: i k)
  case (Cons c cs)
  then show ?case using Cons.IH [of "Suc i" "k - 1"]
    by (cases k) (auto split: option.splits sum.splits if_splits)
qed simp

lemma run_operations_covers:
  "run_operations call encoded i required cs = ((n, None), rest) \<Longrightarrow> op \<in> set required \<Longrightarrow> op \<notin> set rest \<Longrightarrow>
     \<exists>c \<in> set cs. \<exists>p. wq_Operation (oc_Request c) = op \<and> call (oc_Request c) = Inr p \<and>
       (op = ''ingress'' \<longrightarrow> \<not> wp_NeedMore p) \<and> subset_of (AObj (response_map encoded p)) (AObj (oc_Expected c))"
proof (induction cs arbitrary: i required)
  case (Cons c cs)
  obtain p where p: "call (oc_Request c) = Inr p" "subset_of (AObj (response_map encoded p)) (AObj (oc_Expected c))"
    using Cons.prems(1) by (auto split: sum.splits if_splits simp del: subset_of.simps)
  let ?req = "if wq_Operation (oc_Request c) \<noteq> ''ingress'' \<or> \<not> wp_NeedMore p
    then filter (\<lambda>r. r \<noteq> wq_Operation (oc_Request c)) required else required"
  have r: "run_operations call encoded (Suc i) ?req cs = ((n, None), rest)"
    using Cons.prems(1) p by (auto split: if_splits simp del: subset_of.simps)
  show ?case
  proof (cases "op \<in> set ?req")
    case True
    then obtain d q where "d \<in> set cs" "wq_Operation (oc_Request d) = op" "call (oc_Request d) = Inr q"
      "op = ''ingress'' \<longrightarrow> \<not> wp_NeedMore q" "subset_of (AObj (response_map encoded q)) (AObj (oc_Expected d))"
      using Cons.IH [OF r True Cons.prems(3)] by blast
    then show ?thesis by (intro bexI [of _ d] exI [of _ q]) (simp_all del: subset_of.simps)
  next
    case False
    then have "wq_Operation (oc_Request c) = op" "op = ''ingress'' \<longrightarrow> \<not> wp_NeedMore p"
      using Cons.prems(2) by (auto split: if_splits)
    then show ?thesis using p by (intro bexI [of _ c] exI [of _ p]) (simp_all del: subset_of.simps)
  qed
qed (auto)

end
