(* ===== verification/Listeners.thy ===== *)
theory Listeners
  imports Worker Modbus_Collect Engine_Ingest
begin

text \<open>
  The TCP and UDP listeners of protocol packages (internal/protocolruntime/listeners.go, children.go,
  dial.go, status.go, connections.go): sessions that pass the bytes of a device to its package, hand
  complete frames to the engine, answer them, and carry commands. Host and session pointers are
  numbers of their allocation; what goroutines do under one lock is one definition. A frame holds its
  session's lock in two parts, before and after the engine has taken it, between which other
  sessions act.
\<close>

section \<open>State\<close>

text \<open>
  How far close() of a session has come: not begun, its connection shut, marked closed under the session's
  lock, removed from the maps of its host, reported.
\<close>

datatype close_stage = Live | Shut | Marked | Unlinked | Gone

text \<open>A frame the engine has taken, while its session is locked.\<close>

record accepted_frame =
  ac_profile :: access_profile
  ac_device :: managed_device
  ac_response :: worker_response
  ac_reply :: "octet list"
  ac_raw :: raw_message

text \<open>
  ss_stream: a TCP connection rather than a UDP peer. ss_pending maps a correlation identifier to the number
  of the command that waits for it. ss_buffer, ss_reading and ss_ended are the variables of receiveTCP: the
  bytes not yet taken, whether it is at its Read, and whether it has returned.
\<close>

record listener_session =
  ss_host :: nat
  ss_remote :: string
  ss_stream :: bool
  ss_stage :: close_stage
  ss_deviceID :: string
  ss_state :: string
  ss_release :: protocol_release
  ss_partial :: bool
  ss_frameStarted :: int
  ss_lastSeen :: int
  ss_pending :: "nat gomap"
  ss_commandBusy :: bool
  ss_commandChild :: "managed_device option"
  ss_childRelease :: protocol_release
  ss_buffer :: "octet list"
  ss_reading :: bool
  ss_ended :: bool
  ss_packets :: "octet list list"
  ss_frame :: "accepted_frame option"

datatype host_kind = Dials | Accepts | Datagrams

record protocol_listener =
  ho_profile :: access_profile
  ho_kind :: host_kind
  ho_live :: bool
  ho_sessions :: "nat gomap"
  ho_identified :: "nat gomap"
  ho_lastAcceptedAt :: int
  ho_lastError :: string

text \<open>A command that has been sent and waits: its session, correlation identifier and result.\<close>

record command_call =
  cc_session :: nat
  cc_id :: string
  cc_result :: "anymap res option"
  cc_expired :: bool

text \<open>What a run has done that can be seen from outside, the latest first.\<close>

datatype listener_event =
    Received nat "octet list"
  | Ingested nat raw_message
  | Replied nat "octet list" string
  | Dispatched nat nat "octet list"
  | Acknowledged nat string
  | Reported string bool

text \<open>ls_closing lists the sessions that some goroutine is about to close.\<close>

record listeners =
  ls_engine :: engine
  ls_hosts :: "nat gomap"
  ls_host :: "nat \<Rightarrow> protocol_listener option"
  ls_session :: "nat \<Rightarrow> listener_session option"
  ls_call :: "nat \<Rightarrow> command_call option"
  ls_next :: nat
  ls_failures :: "string gomap"
  ls_counts :: "int gomap"
  ls_closing :: "nat list"
  ls_log :: "listener_event list"

definition NewListeners :: "engine \<Rightarrow> listeners" where
  "NewListeners e = \<lparr>ls_engine = e, ls_hosts = [], ls_host = \<lambda>_. None, ls_session = \<lambda>_. None, ls_call = \<lambda>_. None,
     ls_next = 0, ls_failures = [], ls_counts = [], ls_closing = [], ls_log = []\<rparr>"

text \<open>
  The environment of one step: that of the engine, the clock after the package has answered, whether the
  wait for one of the 32 worker slots ended, protocolworker.Call, json.Valid with the value of a valid
  text, json.Marshal of query parameters, Claim and Validate of the coordinator if there is one, the
  registrar of an edge node, the result of writing to the peer, and of opening a socket.
\<close>

record listen_env =
  lv_env :: env
  lv_later :: int
  lv_slot :: "error option"
  lv_call :: "protocol_release \<Rightarrow> worker_request \<Rightarrow> worker_response res"
  lv_json :: "string \<Rightarrow> any option"
  lv_marshal :: "anymap \<Rightarrow> string option"
  lv_claim :: "access_profile \<Rightarrow> bool"
  lv_validate :: "access_profile \<Rightarrow> repo \<Rightarrow> error option"
  lv_registrar :: "(access_profile \<Rightarrow> string \<Rightarrow> string \<Rightarrow> managed_device res) option"
  lv_write :: "octet list \<Rightarrow> error option"
  lv_listen :: "access_profile \<Rightarrow> error option"

definition repo_of :: "listeners \<Rightarrow> repo" where
  "repo_of ls = e_repo (ls_engine ls)"

definition put_session :: "nat \<Rightarrow> listener_session \<Rightarrow> listeners \<Rightarrow> listeners" where
  "put_session i s ls = ls\<lparr>ls_session := (ls_session ls)(i := Some s)\<rparr>"

definition put_host :: "nat \<Rightarrow> protocol_listener \<Rightarrow> listeners \<Rightarrow> listeners" where
  "put_host i h ls = ls\<lparr>ls_host := (ls_host ls)(i := Some h)\<rparr>"

definition put_call :: "nat \<Rightarrow> command_call \<Rightarrow> listeners \<Rightarrow> listeners" where
  "put_call i c ls = ls\<lparr>ls_call := (ls_call ls)(i := Some c)\<rparr>"

definition log_event :: "listener_event \<Rightarrow> listeners \<Rightarrow> listeners" where
  "log_event x ls = ls\<lparr>ls_log := x # ls_log ls\<rparr>"

text \<open>A procedure of the engine, run by a listener.\<close>

definition run_engine :: "'a proc \<Rightarrow> listeners \<Rightarrow> 'a res \<times> listeners" where
  "run_engine m ls = (fst (m (ls_engine ls)), ls\<lparr>ls_engine := snd (m (ls_engine ls))\<rparr>)"

section \<open>Connections as the engine sees them\<close>

definition report :: "listen_env \<Rightarrow> access_profile \<Rightarrow> string \<Rightarrow> bool \<Rightarrow> listeners \<Rightarrow> listeners" where
  "report v p device connected ls =
     snd (run_engine (ReportConnection (lv_env v) (ap_TenantID p) (ap_ProductID p) device connected (lv_later v))
       (log_event (Reported (key [ap_TenantID p, device]) connected) ls))"

definition reportConnection :: "listen_env \<Rightarrow> access_profile \<Rightarrow> string \<Rightarrow> bool \<Rightarrow> listeners \<Rightarrow> listeners" where
  "reportConnection v p device connected ls =
     (let k = key [ap_TenantID p, device]; n = mget_or 0 (ls_counts ls) k
      in if connected then
           let ls1 = ls\<lparr>ls_counts := mput (ls_counts ls) k (n + 1)\<rparr>
           in if n > 0 then ls1 else report v p device True ls1
         else if n \<le> 0 then ls
         else if n > 1 then ls\<lparr>ls_counts := mput (ls_counts ls) k (n - 1)\<rparr>
         else report v p device False (ls\<lparr>ls_counts := mdel (ls_counts ls) k\<rparr>))"

section \<open>Closing a session\<close>

definition close_begin :: "nat \<Rightarrow> listeners \<Rightarrow> listeners" where
  "close_begin i ls = (case ls_session ls i of
     Some s \<Rightarrow> if ss_stage s = Live then put_session i (s\<lparr>ss_stage := Shut\<rparr>) ls else ls
   | None \<Rightarrow> ls)"

text \<open>A result is put into the channel of a command, which holds one.\<close>

definition resolve_call :: "nat \<Rightarrow> anymap res \<Rightarrow> listeners \<Rightarrow> listeners" where
  "resolve_call c x ls = (case ls_call ls c of
     Some call \<Rightarrow> if cc_result call = None then put_call c (call\<lparr>cc_result := Some x\<rparr>) ls else ls
   | None \<Rightarrow> ls)"

definition close_mark :: "nat \<Rightarrow> listeners \<Rightarrow> listeners" where
  "close_mark i ls = (case ls_session ls i of
     Some s \<Rightarrow> fold (\<lambda>e. resolve_call (snd e) (Inl (ErrText ''device session closed''))) (ss_pending s)
       (put_session i (s\<lparr>ss_stage := Marked, ss_pending := []\<rparr>) ls)
   | None \<Rightarrow> ls)"

definition drop_entry :: "string \<Rightarrow> nat \<Rightarrow> nat gomap \<Rightarrow> nat gomap" where
  "drop_entry k i m = (if mget m k = Some i then mdel m k else m)"

definition close_unlink :: "nat \<Rightarrow> listeners \<Rightarrow> listeners" where
  "close_unlink i ls = (case ls_session ls i of
     Some s \<Rightarrow>
       (case ls_host ls (ss_host s) of
          Some h \<Rightarrow> put_host (ss_host s) (h\<lparr>ho_identified := drop_entry (ss_deviceID s) i (ho_identified h),
              ho_sessions := drop_entry (ss_remote s) i (ho_sessions h)\<rparr>)
            (put_session i (s\<lparr>ss_stage := Unlinked\<rparr>) ls)
        | None \<Rightarrow> put_session i (s\<lparr>ss_stage := Unlinked\<rparr>) ls)
   | None \<Rightarrow> ls)"

definition close_report :: "listen_env \<Rightarrow> nat \<Rightarrow> listeners \<Rightarrow> listeners" where
  "close_report v i ls = (case ls_session ls i of
     Some s \<Rightarrow>
       let ls1 = put_session i (s\<lparr>ss_stage := Gone\<rparr>) ls
       in if ss_deviceID s = [] then ls1
          else (case ls_host ls (ss_host s) of
              Some h \<Rightarrow> reportConnection v (ho_profile h) (ss_deviceID s) False ls1 | None \<Rightarrow> ls1)
   | None \<Rightarrow> ls)"

section \<open>Devices and releases\<close>

definition listener_release :: "access_profile \<Rightarrow> repo \<Rightarrow> protocol_release res" where
  "listener_release p r = (case GetProductProtocolBinding (ap_TenantID p) (ap_ProductID p) r of
     Inl e \<Rightarrow> Inl (ErrWrap ''product binding'' e)
   | Inr b \<Rightarrow> (case GetProtocolRelease (ap_TenantID p) (pb_ProtocolID b) (pb_Version b) r of
       Inl e \<Rightarrow> Inl e
     | Inr rel \<Rightarrow>
         if pl_Status rel \<noteq> ''PUBLISHED'' then Inl (ErrText ''listener protocol release is not published'')
         else if pl_ParserType rel \<noteq> ''go_protocol_parser'' \<or>
           any_at (pl_Artifact rel) ''runtime'' \<noteq> AStr ''go-protocol-v2'' \<or> \<not> HasCapability rel ''ingress''
         then Inl (ErrText ''listener requires a complete Go protocol package'')
         else if \<not> equal_fold (pl_Transport rel) (ap_Network p) \<and> pl_Transport rel \<noteq> ''TCP_UDP''
         then Inl (ErrText ''listener network does not match bound protocol transport'')
         else Inr rel))"

definition listener_device :: "listen_env \<Rightarrow> access_profile \<Rightarrow> string \<Rightarrow> string \<Rightarrow> listeners \<Rightarrow>
    managed_device res \<times> listeners" where
  "listener_device v p i name ls =
     (let r = repo_of ls
      in if \<not> ValidProtocolDeviceID i then (Inl (ErrText ''protocol returned invalid device id''), ls)
         else if ap_DeviceID p \<noteq> [] \<and> ap_DeviceID p \<noteq> i
         then (Inl (ErrText ''protocol device does not match access profile''), ls)
         else if (case GetDeviceAccessProfile (ap_TenantID p) (ap_ID p) r of Inl _ \<Rightarrow> True
           | Inr current \<Rightarrow> \<not> ap_Enabled current \<or> Configuration current \<noteq> Configuration p)
         then (Inl (ErrText ''protocol access profile is disabled or changed''), ls)
         else if (case GetProduct (ap_TenantID p) (ap_ProductID p) r of Inl _ \<Rightarrow> True | Inr q \<Rightarrow> pr_Status q \<noteq> ''ENABLED'')
         then (Inl (ErrText ''protocol product is disabled or unavailable''), ls)
         else (case GetManagedDevice (ap_TenantID p) i r of
             Inr d \<Rightarrow>
               if md_GatewayID d \<noteq> [] \<or> md_TenantID d \<noteq> ap_TenantID p \<or> md_ProductID d \<noteq> ap_ProductID p \<or>
                 equal_fold (md_Status d) ''DISABLED''
               then (Inl (ErrText ''protocol device is disabled or belongs to another product''), ls) else (Inr d, ls)
           | Inl e \<Rightarrow>
               if \<not> ap_AutoRegister p then (Inl (ErrWrap ''protocol device is not registered'' e), ls)
               else (case (case lv_registrar v of None \<Rightarrow> Inr name
                     | Some f \<Rightarrow> (case f p i name of Inl e \<Rightarrow> Inl e
                         | Inr d \<Rightarrow> if md_ID d \<noteq> i \<or> RegisteredProtocolDevice d p \<noteq> None
                             then Inl ErrProtocolRegistration else Inr (md_Name d))) of
                   Inl e \<Rightarrow> (Inl e, ls)
                 | Inr n \<Rightarrow>
                     (case run_engine (call_repo (RegisterProtocolDevice (v_sha (lv_env v)) p i n (v_now (lv_env v)))) ls of
                        (Inr (d, _, None), ls1) \<Rightarrow> (Inr d, ls1)
                      | (Inr (d, _, Some e), ls1) \<Rightarrow> (Inl e, ls1)
                      | (Inl e, ls1) \<Rightarrow> (Inl e, ls1)))))"

definition selectRelease :: "access_profile \<Rightarrow> repo \<Rightarrow> listener_session \<Rightarrow> listener_session res" where
  "selectRelease p r s =
     (if pl_Version (ss_release s) \<noteq> [] \<and> (ss_partial s \<or> ss_pending s \<noteq> []) then Inr s
      else bind_res (listener_release p r) (\<lambda>rel. Inr (s\<lparr>ss_release := rel,
        ss_state := (if pl_ProtocolID (ss_release s) \<noteq> pl_ProtocolID rel \<or> pl_Version (ss_release s) \<noteq> pl_Version rel
          then [] else ss_state s)\<rparr>)))"

definition session_invoke :: "listen_env \<Rightarrow> access_profile \<Rightarrow> worker_request \<Rightarrow> listener_session \<Rightarrow> worker_response res" where
  "session_invoke v p q s = (case lv_slot v of
     Some e \<Rightarrow> Inl e
   | None \<Rightarrow>
       let pick = (\<lambda>a b. if a = [] then b else a);
           q1 = q\<lparr>wq_Version := 2, wq_DeviceID := pick (pick (wq_DeviceID q) (ss_deviceID s)) (ap_DeviceID p),
             wq_State := (if ss_state s = [] then None else lv_json v (ss_state s)),
             wq_Now := (if wq_Now q = 0 then v_now (lv_env v) else wq_Now q)\<rparr>
       in bind_res (lv_call v (ss_release s) q1) (\<lambda>x.
          if wp_Error x \<noteq> [] then Inl (ErrText (wp_Error x))
          else if 65536 < length (wp_State x) \<or> (wp_State x \<noteq> [] \<and> lv_json v (wp_State x) = None)
          then Inl (ErrText ''protocol state is invalid or too large'')
          else if 131072 < length (wp_Reply x) then Inl (ErrText ''protocol reply is too large'') else Inr x))"

section \<open>Children\<close>

text \<open>The product a profile maps a child type to, the last one if there are several.\<close>

definition child_product :: "access_profile \<Rightarrow> string \<Rightarrow> string" where
  "child_product p t = foldl (\<lambda>acc b. if cb_Type b = t then cb_ProductID b else acc) [] (ap_ChildProducts p)"

definition child_raw :: "access_profile \<Rightarrow> managed_device \<Rightarrow> raw_message \<Rightarrow> nat \<Rightarrow> string \<Rightarrow> managed_device \<Rightarrow>
    protocol_release \<Rightarrow> child_frame \<Rightarrow> raw_message" where
  "child_raw p parent source index product1 d rel child = zero_raw_message\<lparr>
     rm_MessageID := rm_MessageID source @ ''_child_'' @ decimal (int index), rm_TenantID := ap_TenantID p,
     rm_ProductID := product1, rm_DeviceID := md_ID d, rm_DeviceName := md_Name d, rm_GatewayID := md_ID parent,
     rm_Protocol := pl_ProtocolID rel, rm_ProtocolID := pl_ProtocolID rel, rm_ProtocolVersion := pl_Version rel,
     rm_PointTableVersion := pl_PointTableVersion rel, rm_Source := ''go-protocol-child'',
     rm_Transport := rm_Transport source, rm_PayloadFormat := ''hex'',
     rm_Payload := CHR 0x22 # to_upper (cf_Payload child) @ [CHR 0x22], rm_ReceivedAt := rm_ReceivedAt source,
     rm_RemoteAddress := rm_RemoteAddress source,
     rm_Metadata := [(''parentRawMessageId'', AStr (rm_MessageID source)),
       (''parentProtocolId'', AStr (rm_ProtocolID source)), (''parentProtocolVersion'', AStr (rm_ProtocolVersion source)),
       (''childAddress'', AStr (ci_Address (cf_Identity child))), (''childType'', AStr (ci_Type (cf_Identity child))),
       (''profileId'', AStr (ap_ID p))]\<rparr>"

text \<open>The release a child's frame is decoded with: the one of the command under way if it is for that child.\<close>

definition child_release :: "listener_session \<Rightarrow> string \<Rightarrow> child_frame \<Rightarrow> protocol_release \<Rightarrow> protocol_release" where
  "child_release s product1 child rel = (case ss_commandChild s of
     Some d \<Rightarrow> if ss_pending s \<noteq> [] \<and> ci_Address (cf_Identity child) = mget_or [] (md_Tags d) ''childAddress'' \<and>
         product1 = md_ProductID d then ss_childRelease s else rel
   | None \<Rightarrow> rel)"

text \<open>The body of the loop of ingestChildren, up to the registration of the child.\<close>

definition child_binding :: "listener_session \<Rightarrow> access_profile \<Rightarrow> child_frame \<Rightarrow> repo \<Rightarrow>
    (string \<times> protocol_release \<times> octet list) res" where
  "child_binding s p child r =
     (let product1 = child_product p (ci_Type (cf_Identity child))
      in if product1 = [] then Inl (ErrText (''child type is not configured: '' @ ci_Type (cf_Identity child)))
         else bind_res (GetProductProtocolBinding (ap_TenantID p) product1 r) (\<lambda>b.
           bind_res (GetProtocolRelease (ap_TenantID p) (pb_ProtocolID b) (pb_Version b) r) (\<lambda>rel0.
           let rel = child_release s product1 child rel0
           in if pl_Status rel \<noteq> ''PUBLISHED'' \<or> \<not> equal_fold (pl_PayloadFormat rel) ''hex''
              then Inl (ErrText ''children need a published HEX protocol'')
              else case hex_decode (cf_Payload child) of
                  None \<Rightarrow> Inl (ErrText ''invalid child payload'')
                | Some d \<Rightarrow> if MaxFrameBytes < int (length d) then Inl (ErrText ''invalid child payload'')
                    else Inr (product1, rel, d))))"

fun ingest_children :: "listen_env \<Rightarrow> nat \<Rightarrow> listener_session \<Rightarrow> access_profile \<Rightarrow> managed_device \<Rightarrow> raw_message \<Rightarrow> nat \<Rightarrow>
    child_frame list \<Rightarrow> listeners \<Rightarrow> unit res \<times> listeners" where
  "ingest_children v i s p parent source index [] ls = (Inr (), ls)"
| "ingest_children v i s p parent source index (child # cs) ls = (case child_binding s p child (repo_of ls) of
     Inl e \<Rightarrow> (Inl e, ls)
   | Inr (product1, rel, d) \<Rightarrow>
       (case run_engine (call_repo (RegisterProtocolChild (v_sha (lv_env v)) p (md_ID parent) (cf_Identity child)
           (v_now (lv_env v)))) ls of
          (Inl e, ls1) \<Rightarrow> (Inl e, ls1)
        | (Inr (dev, _, Some e), ls1) \<Rightarrow> (Inl e, ls1)
        | (Inr (dev, _, None), ls1) \<Rightarrow>
            if d = [] then ingest_children v i s p parent source (Suc index) cs ls1
            else (case run_engine (IngestRaw (lv_env v) (child_raw p parent source index product1 dev rel child)) ls1 of
                (Inl e, ls2) \<Rightarrow> (Inl e, ls2)
              | (Inr _, ls2) \<Rightarrow> ingest_children v i s p parent source (Suc index) cs ls2)))"

definition ingestChildren :: "listen_env \<Rightarrow> nat \<Rightarrow> listener_session \<Rightarrow> access_profile \<Rightarrow> managed_device \<Rightarrow> raw_message \<Rightarrow>
    child_frame list \<Rightarrow> listeners \<Rightarrow> unit res \<times> listeners" where
  "ingestChildren v i s p parent source children ls =
     (if 256 < length children then (Inl (ErrText ''too many child observations''), ls)
      else ingest_children v i s p parent source 0 children ls)"

section \<open>Frames\<close>

definition child_any :: "child_frame \<Rightarrow> any" where
  "child_any c = AObj ([(''address'', AStr (ci_Address (cf_Identity c))), (''type'', AStr (ci_Type (cf_Identity c)))] @
     (if ci_Name (cf_Identity c) = [] then [] else [(''name'', AStr (ci_Name (cf_Identity c)))]) @
     (if cf_Payload c = [] then [] else [(''payload'', AStr (cf_Payload c))]))"

text \<open>The raw message of a frame; the state of the session goes with it as the value it denotes.\<close>

definition frame_raw :: "listen_env \<Rightarrow> access_profile \<Rightarrow> listener_session \<Rightarrow> managed_device \<Rightarrow> octet list \<Rightarrow>
    child_frame list \<Rightarrow> raw_message" where
  "frame_raw v p s d bytes1 children = zero_raw_message\<lparr>
     rm_Source := ''go-protocol-'' @ ap_Network p @ ''-listener'', rm_TenantID := ap_TenantID p,
     rm_ProductID := ap_ProductID p, rm_DeviceID := md_ID d, rm_DeviceName := md_Name d,
     rm_Protocol := pl_ProtocolID (ss_release s), rm_Transport := to_upper (ap_Network p), rm_PayloadFormat := ''hex'',
     rm_Payload := marshal_hex bytes1, rm_RemoteAddress := ss_remote s, rm_ProtocolID := pl_ProtocolID (ss_release s),
     rm_ProtocolVersion := pl_Version (ss_release s), rm_PointTableVersion := pl_PointTableVersion (ss_release s),
     rm_CollectorID := ap_CollectorID p, rm_ReceivedAt := v_now (lv_env v),
     rm_Metadata := [(''profileId'', AStr (ap_ID p))] @
       (if ss_state s = [] then [] else [(''protocolState'', case lv_json v (ss_state s) of Some x \<Rightarrow> x | None \<Rightarrow> ANil)]) @
       (if children = [] then [] else [(''children'', AArr (map child_any children))])\<rparr>"

text \<open>From a complete frame to its ingestion; s is the session with the release of this frame.\<close>

definition frame_ingest :: "listen_env \<Rightarrow> nat \<Rightarrow> listener_session \<Rightarrow> access_profile \<Rightarrow> octet list \<Rightarrow> worker_response \<Rightarrow>
    octet list \<Rightarrow> listeners \<Rightarrow> accepted_frame option res \<times> listeners" where
  "frame_ingest v i s p d x reply1 ls =
     (let pick = (\<lambda>a b. if a = [] then b else a);
          dev = pick (pick (trim_space (wp_DeviceID x)) (ss_deviceID s)) (ap_DeviceID p)
      in if ss_deviceID s \<noteq> [] \<and> dev \<noteq> ss_deviceID s
         then (Inl (ErrText ''protocol session device identity changed''), ls)
         else if wp_Children x \<noteq> [] \<and> ss_deviceID s = []
         then (Inl (ErrText ''children before the registration of the device''), ls)
         else (case listener_device v p dev (wp_DeviceName x) ls of
             (Inl e, ls1) \<Rightarrow> (Inl e, ls1)
           | (Inr device, ls1) \<Rightarrow>
               let raw = Normalize (lv_env v) (frame_raw v p s device (take (nat (wp_Consumed x)) d) (wp_Children x))
               in case lv_validate v p (repo_of ls1) of
                    Some e \<Rightarrow> (Inl e, ls1)
                  | None \<Rightarrow>
                      (case run_engine (IngestRaw (lv_env v) raw) ls1 of
                         (Inl e, ls2) \<Rightarrow> (Inl (ErrWrap ''ingest protocol frame'' e), ls2)
                       | (Inr _, ls2) \<Rightarrow>
                           (case ingestChildren v i s p device raw (wp_Children x) (log_event (Ingested i raw) ls2) of
                              (Inl e, ls3) \<Rightarrow> (Inl e, ls3)
                            | (Inr _, ls3) \<Rightarrow>
                                let a = \<lparr>ac_profile = p, ac_device = device, ac_response = x, ac_reply = reply1, ac_raw = raw\<rparr>
                                in (Inr (Some a), put_session i (s\<lparr>ss_frame := Some a\<rparr>) ls3)))))"

text \<open>
  frame up to the ingestion: an error, None when more bytes are needed, or the frame, which leaves the
  session locked.
\<close>

definition frame_accept :: "listen_env \<Rightarrow> nat \<Rightarrow> octet list \<Rightarrow> bool \<Rightarrow> listeners \<Rightarrow>
    accepted_frame option res \<times> listeners" where
  "frame_accept v i d datagram ls = (case ls_session ls i of
     None \<Rightarrow> (Inl (ErrText ''listener stopped''), ls)
   | Some s \<Rightarrow> (case ls_host ls (ss_host s) of
       None \<Rightarrow> (Inl (ErrText ''listener stopped''), ls)
     | Some h \<Rightarrow>
         let p = ho_profile h
         in if ss_stage s \<notin> {Live, Shut} \<or> \<not> ho_live h then (Inl (ErrText ''listener stopped''), ls)
            else if ss_deviceID s \<noteq> [] \<and> mget (ho_identified h) (ss_deviceID s) \<noteq> Some i
            then (Inl (ErrText ''device reconnected on another session''), ls)
            else (case selectRelease p (repo_of ls) s of
                Inl e \<Rightarrow> (Inl e, ls)
              | Inr s1 \<Rightarrow>
                  let ls1 = put_session i s1 ls
                  in case session_invoke v p (zero_worker_request\<lparr>wq_Operation := ''ingress'',
                         wq_Data := to_lower (hex_upper d), wq_Now := v_now (lv_env v)\<rparr>) s1 of
                       Inl e \<Rightarrow> (Inl e, ls1)
                     | Inr x \<Rightarrow>
                         if wp_NeedMore x then
                           (if datagram \<or> wp_Consumed x \<noteq> 0 \<or> 65536 \<le> length d
                            then (Inl (ErrText ''invalid incomplete protocol frame''), ls1)
                            else (Inr None, put_session i (s1\<lparr>ss_partial := True,
                              ss_frameStarted := (if ss_partial s1 then ss_frameStarted s1 else lv_later v)\<rparr>) ls1))
                         else if wp_Consumed x \<le> 0 \<or> int (length d) < wp_Consumed x \<or>
                           (datagram \<and> wp_Consumed x \<noteq> int (length d))
                         then (Inl (ErrText ''invalid protocol consumed length''), ls1)
                         else (case hex_decode (wp_Reply x) of
                             None \<Rightarrow> (Inl (ErrText ''invalid protocol reply hex''), ls1)
                           | Some reply1 \<Rightarrow> frame_ingest v i s1 p d x reply1 ls1))))"

text \<open>Whether a frame with its children answers the command under way.\<close>

definition answers_command :: "listener_session \<Rightarrow> worker_response \<Rightarrow> bool" where
  "answers_command s x \<longleftrightarrow> (case ss_commandChild s of
     None \<Rightarrow> True
   | Some d \<Rightarrow> list_ex (\<lambda>c. ci_Address (cf_Identity c) = mget_or [] (md_Tags d) ''childAddress'' \<and>
       ci_Type (cf_Identity c) = mget_or [] (md_Tags d) ''childType'') (wp_Children x))"

definition frame_deliver :: "nat \<Rightarrow> accepted_frame \<Rightarrow> listeners \<Rightarrow> listeners" where
  "frame_deliver i a ls = (case ls_session ls i of
     None \<Rightarrow> ls
   | Some s \<Rightarrow>
       let x = ac_response a; k = wp_CorrelationID x
       in case mget (ss_pending s) k of
            None \<Rightarrow> ls
          | Some c \<Rightarrow>
              if k = [] \<or> \<not> answers_command s x then ls
              else resolve_call c (Inr [(''status'', AStr ''acknowledged''), (''correlationId'', AStr k),
                  (''rawMessageId'', AStr (rm_MessageID (ac_raw a))), (''protocolId'', AStr (pl_ProtocolID (ss_release s))),
                  (''protocolVersion'', AStr (pl_Version (ss_release s)))])
                (log_event (Acknowledged c (rm_MessageID (ac_raw a)))
                  (put_session i (s\<lparr>ss_pending := mdel (ss_pending s) k\<rparr>) ls)))"

text \<open>The rest of frame: the session takes the identity, the previous one of the device is to be closed, the reply is
  written and a waiting command gets its answer.\<close>

definition frame_register :: "listen_env \<Rightarrow> nat \<Rightarrow> accepted_frame \<Rightarrow> listeners \<Rightarrow> listeners" where
  "frame_register v i a ls = (case ls_session ls i of
     None \<Rightarrow> ls
   | Some s \<Rightarrow> (case ls_host ls (ss_host s) of
       None \<Rightarrow> ls
     | Some h \<Rightarrow>
         let dev = md_ID (ac_device a); previous = mget (ho_identified h) dev;
             ls1 = (if ss_deviceID s = [] then reportConnection v (ac_profile a) dev True ls else ls);
             s1 = s\<lparr>ss_partial := False, ss_deviceID := dev, ss_lastSeen := lv_later v,
               ss_state := wp_State (ac_response a)\<rparr>;
             h1 = h\<lparr>ho_identified := mput (ho_identified h) dev i, ho_lastError := [],
               ho_lastAcceptedAt := max (ho_lastAcceptedAt h) (lv_later v)\<rparr>;
             ls2 = put_host (ss_host s) h1 (put_session i s1 ls1)
         in case previous of
              Some j \<Rightarrow> if j \<noteq> i then ls2\<lparr>ls_closing := j # ls_closing ls2\<rparr> else ls2
            | None \<Rightarrow> ls2))"

definition frame_commit :: "listen_env \<Rightarrow> nat \<Rightarrow> listeners \<Rightarrow> nat res \<times> listeners" where
  "frame_commit v i ls = (case ls_session ls i of
     None \<Rightarrow> (Inl (ErrText ''listener stopped''), ls)
   | Some s \<Rightarrow> (case ss_frame s of
       None \<Rightarrow> (Inl (ErrText ''no frame''), ls)
     | Some a \<Rightarrow>
         let ls1 = frame_register v i a ls; n = nat (wp_Consumed (ac_response a))
         in if ac_reply a = [] then (Inr n, frame_deliver i a ls1)
            else let ls2 = log_event (Replied i (ac_reply a) (rm_MessageID (ac_raw a))) ls1
              in case lv_write v (ac_reply a) of
                   Some e \<Rightarrow> (Inl e, ls2)
                 | None \<Rightarrow> (Inr n, frame_deliver i a ls2)))"

end
