(* ===== verification/Listener_Hosts.thy ===== *)
theory Listener_Hosts
  imports Listeners
begin

text \<open>
  Commands to the device of a session, the loops that read its bytes, and the hosts: which listeners run,
  what they accept, and when they stop (internal/protocolruntime/listeners.go, children.go, dial.go,
  status.go).
\<close>

section \<open>Commands\<close>

definition hex_nonempty :: "string \<Rightarrow> bool" where
  "hex_nonempty t \<longleftrightarrow> (case hex_decode t of Some (b # bs) \<Rightarrow> True | _ \<Rightarrow> False)"

text \<open>The release of the product of a child that may be controlled over a profile.\<close>

definition command_release :: "access_profile \<Rightarrow> managed_device \<Rightarrow> repo \<Rightarrow> protocol_release res" where
  "command_release p child r =
     (let tags = (\<lambda>k. mget_or [] (md_Tags child) k)
      in if md_Status child \<noteq> ''ENABLED'' \<or> md_DeviceRole child \<noteq> ''CHILD'' \<or> tags ''connectorProfileId'' \<noteq> ap_ID p
         then Inl (ErrText ''child cannot be controlled or belongs elsewhere'')
         else if \<not> list_ex (\<lambda>b. cb_Type b = tags ''childType'' \<and> cb_ProductID b = md_ProductID child) (ap_ChildProducts p)
         then Inl (ErrText ''child product mapping has changed'')
         else if (case GetProduct (ap_TenantID p) (md_ProductID child) r of Inl _ \<Rightarrow> True | Inr q \<Rightarrow> pr_Status q \<noteq> ''ENABLED'')
         then Inl (ErrText ''child product is unavailable'')
         else bind_res (GetProductProtocolBinding (ap_TenantID p) (md_ProductID child) r) (\<lambda>b.
           bind_res (GetProtocolRelease (ap_TenantID p) (pb_ProtocolID b) (pb_Version b) r) (\<lambda>rel.
           if pl_Status rel \<noteq> ''PUBLISHED'' \<or> \<not> HasCapability rel ''encode''
           then Inl (ErrText ''child protocol does not support commands'') else Inr rel)))"

definition encode_request :: "anymap \<Rightarrow> worker_request" where
  "encode_request command = zero_worker_request\<lparr>wq_Operation := ''encode'', wq_Command := command\<rparr>"

definition encodeCommand :: "listen_env \<Rightarrow> access_profile \<Rightarrow> managed_device option \<Rightarrow> anymap \<Rightarrow> repo \<Rightarrow> listener_session \<Rightarrow>
    worker_response res \<times> listener_session" where
  "encodeCommand v p child command r s = (case child of
     None \<Rightarrow> (session_invoke v p (encode_request command) s, s)
   | Some c \<Rightarrow>
       (case command_release p c r of
          Inl e \<Rightarrow> (Inl e, s)
        | Inr rel \<Rightarrow>
            (case session_invoke v p ((encode_request command)\<lparr>wq_DeviceID := md_ID c\<rparr>)
                (s\<lparr>ss_release := rel, ss_state := []\<rparr>) of
               Inl e \<Rightarrow> (Inl e, s)
             | Inr inner \<Rightarrow>
                 if wp_State inner \<notin> {[], ''null'', ''{}''}
                 then (Inl (ErrText ''child sessions keep no state of their own''), s)
                 else if \<not> hex_nonempty (wp_Reply inner) then (Inl (ErrText ''invalid child command''), s)
                 else (case session_invoke v p (encode_request [(''type'', AStr ''child''),
                       (''address'', AStr (mget_or [] (md_Tags c) ''childAddress'')),
                       (''childType'', AStr (mget_or [] (md_Tags c) ''childType'')), (''payload'', AStr (wp_Reply inner)),
                       (''correlationId'', AStr (wp_CorrelationID inner))]) s of
                     Inl e \<Rightarrow> (Inl e, s)
                   | Inr outer \<Rightarrow> (Inr outer, s\<lparr>ss_commandChild := Some c, ss_childRelease := rel\<rparr>)))))"

text \<open>A sent command: an answer at once, or the number under which it waits.\<close>

datatype command_outcome = Sent anymap | Waits nat

definition idle_command :: "listener_session \<Rightarrow> listener_session" where
  "idle_command s = s\<lparr>ss_commandBusy := False, ss_commandChild := None, ss_childRelease := zero_protocol_release\<rparr>"

text \<open>The session Command acts on: the identified one of the device, or the first of the host that fits.\<close>

definition command_fits :: "protocol_listener \<Rightarrow> string \<Rightarrow> listener_session \<Rightarrow> bool" where
  "command_fits h device s \<longleftrightarrow> ss_stage s \<in> {Live, Shut} \<and> device \<noteq> [] \<and>
     (ss_deviceID s = device \<or> ss_deviceID s = [] \<and> ap_ConnectionMode (ho_profile h) = ''dial'' \<and>
       ap_DeviceID (ho_profile h) = device)"

definition command_session :: "protocol_listener \<Rightarrow> string \<Rightarrow> listeners \<Rightarrow> nat option" where
  "command_session h device ls =
     find (\<lambda>i. case ls_session ls i of Some s \<Rightarrow> command_fits h device s | None \<Rightarrow> False)
       (case mget (ho_identified h) device of Some i \<Rightarrow> [i] | None \<Rightarrow> mvals (ho_sessions h))"

text \<open>The part of Command under the session's lock, once the command is encoded; busy is set, and cleared on an error.\<close>

definition command_write :: "listen_env \<Rightarrow> nat \<Rightarrow> listener_session \<Rightarrow> string \<Rightarrow> anymap \<Rightarrow> worker_response \<Rightarrow> listeners \<Rightarrow>
    command_outcome res \<times> listeners" where
  "command_write v i s requested command x ls =
     (let refuse = (\<lambda>t. (Inl (ErrText t), put_session i (idle_command s) ls)); k = wp_CorrelationID x
      in case hex_decode (wp_Reply x) of
           None \<Rightarrow> refuse ''protocol command bytes are empty or invalid''
         | Some wire \<Rightarrow>
             if wire = [] \<or> (\<not> ss_stream s \<and> 65507 < length wire)
             then refuse ''protocol command bytes are empty or invalid''
             else if any_at command ''_scheduled'' = ABool True \<and> k = []
             then refuse ''scheduled query requires response correlation''
             else if 256 < length k then refuse ''protocol command correlation id is too long''
             else if k \<noteq> [] \<and> mget (ss_pending s) k \<noteq> None then refuse ''duplicate protocol command correlation id''
             else let c = ls_next ls; ls1 = log_event (Dispatched c i wire) (ls\<lparr>ls_next := Suc c\<rparr>)
               in case lv_write v wire of
                    Some e \<Rightarrow> (Inl e, close_begin i (put_session i (idle_command s) ls1))
                  | None \<Rightarrow>
                      let s1 = s\<lparr>ss_state := wp_State x\<rparr>
                      in if k = []
                         then (Inr (Sent [(''status'', AStr ''sent''), (''protocolId'', AStr (pl_ProtocolID (ss_release s))),
                             (''protocolVersion'', AStr (pl_Version (ss_release s))), (''deviceId'', AStr requested)]),
                           put_session i (idle_command s1) ls1)
                         else (Inr (Waits c), put_session i (s1\<lparr>ss_pending := mput (ss_pending s) k c\<rparr>)
                           (put_call c \<lparr>cc_session = i, cc_id = k, cc_result = None, cc_expired = False\<rparr> ls1)))"

text \<open>Command up to its wait, on the session found for it.\<close>

definition command_on :: "listen_env \<Rightarrow> nat \<Rightarrow> listener_session \<Rightarrow> protocol_listener \<Rightarrow> string \<Rightarrow> string \<Rightarrow> managed_device option \<Rightarrow>
    anymap \<Rightarrow> listeners \<Rightarrow> command_outcome res \<times> listeners" where
  "command_on v i s h requested device child command ls =
     (let p = ho_profile h
      in if ss_partial s then (Inl (ErrText ''device is receiving an incomplete frame; retry command''), ls)
         else (case listener_device v p device [] ls of
             (Inl e, ls1) \<Rightarrow> (Inl e, ls1)
           | (Inr _, ls1) \<Rightarrow>
               (case selectRelease p (repo_of ls1) s of
                  Inl e \<Rightarrow> (Inl e, ls1)
                | Inr s1 \<Rightarrow>
                    let ls2 = put_session i s1 ls1
                    in if ss_commandBusy s1 \<or> ss_pending s1 \<noteq> []
                       then (Inl (ErrText ''device query is in progress; wait for its response''), ls2)
                       else (case lv_validate v p (repo_of ls2) of
                           Some e \<Rightarrow> (Inl e, ls2)
                         | None \<Rightarrow>
                             (case encodeCommand v p child command (repo_of ls2) (s1\<lparr>ss_commandBusy := True\<rparr>) of
                                (Inl e, s2) \<Rightarrow> (Inl e, put_session i (idle_command s2) ls2)
                              | (Inr x, s2) \<Rightarrow> command_write v i s2 requested command x ls2)))))"

text \<open>The gateway of a child, if the device is one.\<close>

definition command_target :: "string \<Rightarrow> string \<Rightarrow> repo \<Rightarrow> string \<times> managed_device option" where
  "command_target tenant device r = (case GetManagedDevice tenant device r of
     Inr d \<Rightarrow> if md_GatewayID d \<noteq> [] then (md_GatewayID d, Some d) else (device, None)
   | Inl _ \<Rightarrow> (device, None))"

definition Command :: "listen_env \<Rightarrow> string \<Rightarrow> string \<Rightarrow> string \<Rightarrow> anymap \<Rightarrow> listeners \<Rightarrow> command_outcome res \<times> listeners" where
  "Command v tenant profile requested command ls =
     (case mget (ls_hosts ls) (listenerKey tenant profile) of
        None \<Rightarrow> (Inl (ErrText ''protocol listener is not running''), ls)
      | Some hid \<Rightarrow> (case ls_host ls hid of
          None \<Rightarrow> (Inl (ErrText ''protocol listener is not running''), ls)
        | Some h \<Rightarrow>
            (case command_target tenant requested (repo_of ls) of
               (device, child) \<Rightarrow>
                 (case command_session h device ls of
                    None \<Rightarrow> (Inl (ErrText ''device has no online protocol session''), ls)
                  | Some i \<Rightarrow> (case ls_session ls i of
                      None \<Rightarrow> (Inl (ErrText ''device has no online protocol session''), ls)
                    | Some s \<Rightarrow> command_on v i s h requested device child command ls)))))"

text \<open>The wait ends by its timer, which closes the session; then Command takes its entry back and returns.\<close>

definition command_expire :: "nat \<Rightarrow> listeners \<Rightarrow> listeners" where
  "command_expire c ls = (case ls_call ls c of
     Some call \<Rightarrow> close_begin (cc_session call) (put_call c (call\<lparr>cc_expired := True\<rparr>) ls)
   | None \<Rightarrow> ls)"

definition command_finish :: "nat \<Rightarrow> listeners \<Rightarrow> anymap res \<times> listeners" where
  "command_finish c ls = (case ls_call ls c of
     None \<Rightarrow> (Inl (ErrText ''no command''), ls)
   | Some call \<Rightarrow>
       let answer = (if cc_expired call then Inl (ErrText ''wait protocol command reply'')
             else case cc_result call of Some x \<Rightarrow> x | None \<Rightarrow> Inl (ErrText ''no result''));
           ls1 = ls\<lparr>ls_call := (ls_call ls)(c := None)\<rparr>
       in case ls_session ls (cc_session call) of
            None \<Rightarrow> (answer, ls1)
          | Some s \<Rightarrow> (answer, put_session (cc_session call)
              ((idle_command s)\<lparr>ss_pending := drop_entry (cc_id call) c (ss_pending s)\<rparr>) ls1))"

text \<open>One tick of poll: the queries that are due, with their commands, and when they were last sent.\<close>

definition query_command :: "protocol_query \<Rightarrow> anymap" where
  "query_command q = mput (mput (fold (\<lambda>e m. mput m (fst e) (snd e)) (pq_Params q) []) ''type'' (AStr (pq_Type q)))
     ''_scheduled'' (ABool True)"

fun poll_tick :: "int \<Rightarrow> protocol_query list \<Rightarrow> int gomap \<Rightarrow> anymap list \<times> int gomap" where
  "poll_tick now [] last1 = ([], last1)"
| "poll_tick now (q # qs) last1 =
     (case mget last1 (pq_Type q) of
        Some t \<Rightarrow> if now - t < pq_IntervalSec q * 1000 then poll_tick now qs last1
          else map_prod (\<lambda>cs. query_command q # cs) id (poll_tick now qs (mput last1 (pq_Type q) now))
      | None \<Rightarrow> map_prod (\<lambda>cs. query_command q # cs) id (poll_tick now qs (mput last1 (pq_Type q) now)))"

section \<open>Reading\<close>

definition new_listener_session :: "nat \<Rightarrow> string \<Rightarrow> bool \<Rightarrow> int \<Rightarrow> listener_session" where
  "new_listener_session hid remote stream now = \<lparr>ss_host = hid, ss_remote = remote, ss_stream = stream, ss_stage = Live,
     ss_deviceID = [], ss_state = [], ss_release = zero_protocol_release, ss_partial = False, ss_frameStarted = 0,
     ss_lastSeen = now, ss_pending = [], ss_commandBusy = False, ss_commandChild = None,
     ss_childRelease = zero_protocol_release, ss_buffer = [], ss_reading = True, ss_ended = False, ss_packets = [], ss_frame = None\<rparr>"

text \<open>The deadline of the next read of a TCP session.\<close>

definition read_deadline :: "int \<Rightarrow> access_profile \<Rightarrow> listener_session \<Rightarrow> int" where
  "read_deadline now p s =
     (if ss_partial s then ss_frameStarted s + 30000
      else now + foldl (\<lambda>m q. max m (pq_IntervalSec q * 1000 + 120000)) 120000 (ap_Queries p))"

text \<open>Read returns some bytes, at most 16384 and never more than fit.\<close>

definition read_fits :: "listener_session \<Rightarrow> octet list \<Rightarrow> bool" where
  "read_fits s d \<longleftrightarrow> ss_stream s \<and> ss_reading s \<and> d \<noteq> [] \<and> length d \<le> 16384 \<and> length (ss_buffer s) + length d \<le> 65536"

definition tcp_read :: "nat \<Rightarrow> octet list \<Rightarrow> listeners \<Rightarrow> listeners" where
  "tcp_read i d ls = (case ls_session ls i of
     Some s \<Rightarrow> put_session i (s\<lparr>ss_buffer := ss_buffer s @ d, ss_reading := False\<rparr>) (log_event (Received i d) ls)
   | None \<Rightarrow> ls)"

text \<open>Read ends with an error: receiveTCP returns, and its deferred close begins.\<close>

definition tcp_end :: "nat \<Rightarrow> listeners \<Rightarrow> listeners" where
  "tcp_end i ls = (case ls_session ls i of
     Some s \<Rightarrow> close_begin i (put_session i (s\<lparr>ss_reading := False, ss_ended := True\<rparr>) ls) | None \<Rightarrow> ls)"

definition host_error :: "nat \<Rightarrow> error \<Rightarrow> listeners \<Rightarrow> listeners" where
  "host_error hid e ls = (case ls_host ls hid of
     Some h \<Rightarrow> put_host hid (h\<lparr>ho_lastError := take 512 (error_text e)\<rparr>) ls | None \<Rightarrow> ls)"

text \<open>
  After frame the lock is free. An error ends receiveTCP, whose deferred close begins; a datagram is dropped
  with a warning.
\<close>

definition frame_failed :: "nat \<Rightarrow> error \<Rightarrow> listeners \<Rightarrow> listeners" where
  "frame_failed i e ls = (case ls_session ls i of
     Some s \<Rightarrow> if ss_stream s
       then close_begin i (host_error (ss_host s) e
         (put_session i (s\<lparr>ss_frame := None, ss_reading := False, ss_ended := True\<rparr>) ls))
       else put_session i (s\<lparr>ss_frame := None, ss_packets := tl (ss_packets s)\<rparr>) ls
   | None \<Rightarrow> ls)"

definition frame_input :: "listener_session \<Rightarrow> octet list" where
  "frame_input s = (if ss_stream s then ss_buffer s else hd (ss_packets s))"

text \<open>A turn of the inner loop of receiveTCP, or of processUDP, up to the ingestion.\<close>

definition frame_start :: "listen_env \<Rightarrow> nat \<Rightarrow> listeners \<Rightarrow> listeners" where
  "frame_start v i ls = (case ls_session ls i of
     None \<Rightarrow> ls
   | Some s \<Rightarrow> (case frame_accept v i (frame_input s) (\<not> ss_stream s) ls of
       (Inl e, ls1) \<Rightarrow> frame_failed i e ls1
     | (Inr None, ls1) \<Rightarrow> (case ls_session ls1 i of
           Some s1 \<Rightarrow> put_session i (s1\<lparr>ss_reading := True\<rparr>) ls1 | None \<Rightarrow> ls1)
     | (Inr (Some a), ls1) \<Rightarrow> ls1))"

text \<open>The rest of the turn: the bytes of the frame leave the buffer, and the loop reads again when it is empty.\<close>

definition frame_take :: "nat \<Rightarrow> listener_session \<Rightarrow> listener_session" where
  "frame_take n s =
     (if ss_stream s
      then s\<lparr>ss_frame := None, ss_buffer := drop n (ss_buffer s), ss_reading := (drop n (ss_buffer s) = [])\<rparr>
      else s\<lparr>ss_frame := None, ss_packets := tl (ss_packets s)\<rparr>)"

definition frame_end :: "listen_env \<Rightarrow> nat \<Rightarrow> listeners \<Rightarrow> listeners" where
  "frame_end v i ls = (case frame_commit v i ls of
     (Inl e, ls1) \<Rightarrow> frame_failed i e ls1
   | (Inr n, ls1) \<Rightarrow> (case ls_session ls1 i of Some s \<Rightarrow> put_session i (frame_take n s) ls1 | None \<Rightarrow> ls1))"

section \<open>Hosts\<close>

definition add_session :: "nat \<Rightarrow> string \<Rightarrow> bool \<Rightarrow> int \<Rightarrow> protocol_listener \<Rightarrow> listeners \<Rightarrow> listeners" where
  "add_session hid remote stream now h ls =
     (let i = ls_next ls
      in put_host hid (h\<lparr>ho_sessions := mput (ho_sessions h) remote i\<rparr>)
           (put_session i (new_listener_session hid remote stream now) (ls\<lparr>ls_next := Suc i\<rparr>)))"

definition listenerMaxSessions :: nat where
  "listenerMaxSessions = 128"

text \<open>A turn of accept: a connection too many is closed at once.\<close>

definition accept_connection :: "listen_env \<Rightarrow> nat \<Rightarrow> string \<Rightarrow> listeners \<Rightarrow> listeners" where
  "accept_connection v hid remote ls = (case ls_host ls hid of
     None \<Rightarrow> ls
   | Some h \<Rightarrow>
       if ho_kind h \<noteq> Accepts \<or> listenerMaxSessions \<le> length (ho_sessions h) \<or> \<not> ho_live h then ls
       else add_session hid remote True (v_now (lv_env v)) h ls)"

text \<open>A turn of dial: the target within the allowed networks and the outcome of dialling, then the back-off.\<close>

definition dial_turn :: "listen_env \<Rightarrow> network \<Rightarrow> string list \<Rightarrow> nat \<Rightarrow> nat \<Rightarrow> string \<Rightarrow> listeners \<Rightarrow> string option \<times> listeners" where
  "dial_turn v nw cidrs n hid remote ls = (case ls_host ls hid of
     None \<Rightarrow> (None, ls)
   | Some h \<Rightarrow>
       if ho_kind h \<noteq> Dials \<or> \<not> ho_live h then (None, ls)
       else (case resolveAllowedTarget nw (ap_Host (ho_profile h)) cidrs of
           Inl e \<Rightarrow> (None, host_error hid e ls)
         | Inr target \<Rightarrow>
             let address = join_host_port target (ap_Port (ho_profile h))
             in case nw_dial nw n of
                  Some e \<Rightarrow> (Some address, host_error hid e ls)
                | None \<Rightarrow> (Some address,
                    add_session hid remote True (v_now (lv_env v)) (h\<lparr>ho_lastError := []\<rparr>) ls)))"

definition next_backoff :: "bool \<Rightarrow> int \<Rightarrow> int" where
  "next_backoff connected ms = min 30000 (2 * (if connected then 1000 else ms))"

text \<open>A datagram goes to the session of its sender, whose channel holds sixteen.\<close>

definition offer_packet :: "octet list \<Rightarrow> listener_session \<Rightarrow> listener_session" where
  "offer_packet d s = (if length (ss_packets s) < 16 then s\<lparr>ss_packets := ss_packets s @ [d]\<rparr> else s)"

definition receive_datagram :: "listen_env \<Rightarrow> nat \<Rightarrow> string \<Rightarrow> octet list \<Rightarrow> listeners \<Rightarrow> listeners" where
  "receive_datagram v hid remote d ls = (case ls_host ls hid of
     None \<Rightarrow> ls
   | Some h \<Rightarrow>
       if ho_kind h \<noteq> Datagrams \<or> d = [] then ls
       else let ls1 = (if mget (ho_sessions h) remote = None \<and> length (ho_sessions h) < listenerMaxSessions
              then add_session hid remote False (v_now (lv_env v)) h ls else ls)
         in case ls_host ls1 hid of
              None \<Rightarrow> ls1
            | Some h1 \<Rightarrow> (case mget (ho_sessions h1) remote of
                None \<Rightarrow> ls1
              | Some i \<Rightarrow> (case ls_session ls1 i of
                  Some s \<Rightarrow> put_session i (offer_packet d s) ls1 | None \<Rightarrow> ls1)))"

text \<open>Sessions that are to be closed by the goroutine at work.\<close>

definition close_all :: "nat list \<Rightarrow> listeners \<Rightarrow> listeners" where
  "close_all is ls = ls\<lparr>ls_closing := is @ ls_closing ls\<rparr>"

definition expireUDP :: "listen_env \<Rightarrow> nat \<Rightarrow> listeners \<Rightarrow> listeners" where
  "expireUDP v hid ls = (case ls_host ls hid of
     None \<Rightarrow> ls
   | Some h \<Rightarrow> close_all (filter (\<lambda>i. case ls_session ls i of
         Some s \<Rightarrow> v_now (lv_env v) - ss_lastSeen s > 120000 \<and> ss_pending s = [] | None \<Rightarrow> False) (mvals (ho_sessions h))) ls)"

definition stop_host :: "nat \<Rightarrow> listeners \<Rightarrow> listeners" where
  "stop_host hid ls = (case ls_host ls hid of
     None \<Rightarrow> ls
   | Some h \<Rightarrow> close_all (mvals (ho_sessions h)) (put_host hid (h\<lparr>ho_live := False\<rparr>) ls))"

section \<open>Which listeners run\<close>

text \<open>ValidateProtocolAccess of package model.\<close>

fun check_queries :: "listen_env \<Rightarrow> string list \<Rightarrow> protocol_query list \<Rightarrow> unit res" where
  "check_queries v seen [] = Inr ()"
| "check_queries v seen (q # qs) =
     (if \<not> ValidProtocolDeviceID (pq_Type q) \<or> pq_IntervalSec q < 1 \<or> 86400 < pq_IntervalSec q \<or> pq_Type q \<in> set seen
      then Inl (ErrText ''query types must be unique, intervals 1 to 86400 seconds'')
      else (case lv_marshal v (pq_Params q) of
          None \<Rightarrow> Inl (ErrText ''invalid query parameters'')
        | Some t \<Rightarrow> if 4096 < length t then Inl (ErrText ''query parameters exceed 4 KiB'')
            else check_queries v (pq_Type q # seen) qs))"

fun check_child_products :: "string \<Rightarrow> string list \<Rightarrow> child_product_binding list \<Rightarrow> unit res" where
  "check_child_products product1 seen [] = Inr ()"
| "check_child_products product1 seen (b # bs) =
     (if \<not> ValidProtocolDeviceID (cb_Type b) \<or> \<not> ValidProtocolDeviceID (cb_ProductID b) \<or> cb_ProductID b = product1 \<or>
        cb_Type b \<in> set seen
      then Inl (ErrText ''child types must be unique and name other products'')
      else check_child_products product1 (cb_Type b # seen) bs)"

definition ValidateProtocolAccess :: "listen_env \<Rightarrow> access_profile \<Rightarrow> unit res" where
  "ValidateProtocolAccess v p =
     (if ap_ConnectionMode p \<notin> {[], ''listen'', ''dial''} then Inl (ErrText ''connection mode must be listen or dial'')
      else if ap_ConnectionMode p = ''dial'' \<and>
        (ap_Mode p \<noteq> ''listener'' \<or> ap_Network p \<noteq> ''tcp'' \<or> ap_DeviceID p = [] \<or> ap_Host p = [])
      then Inl (ErrText ''dialling needs a device and a target'')
      else if ap_WireFormat p \<notin> {[], ''modbus_tcp'', ''rtu_over_tcp''} then Inl (ErrText ''unsupported Modbus wire format'')
      else if ap_WireFormat p \<noteq> [] \<and> ap_Mode p \<noteq> ''poll'' then Inl (ErrText ''wire formats are for polling'')
      else if 32 < length (ap_Queries p) \<or> 64 < length (ap_ChildProducts p) then Inl (ErrText ''too many queries or children'')
      else if (ap_Queries p \<noteq> [] \<or> ap_ChildProducts p \<noteq> []) \<and> ap_Mode p \<noteq> ''listener''
      then Inl (ErrText ''queries and children need a listener'')
      else if ap_Queries p \<noteq> [] \<and> ap_Network p \<noteq> ''tcp'' then Inl (ErrText ''queries need TCP'')
      else bind_res (check_queries v [] (ap_Queries p)) (\<lambda>_.
        check_child_products (ap_ProductID p) [] (ap_ChildProducts p)))"

text \<open>A profile this process is to run; its network in small letters.\<close>

definition listener_wanted :: "listen_env \<Rightarrow> access_profile \<Rightarrow> bool" where
  "listener_wanted v p \<longleftrightarrow> ap_Enabled p \<and> ap_EdgeNodeID p = [] \<and> equal_fold (ap_Mode p) ''listener'' \<and> lv_claim v p"

definition lower_network :: "access_profile \<Rightarrow> access_profile" where
  "lower_network p = p\<lparr>ap_Network := to_lower (trim_space (ap_Network p))\<rparr>"

text \<open>What a running host keeps when its profile is edited.\<close>

definition same_socket :: "access_profile \<Rightarrow> access_profile \<Rightarrow> bool" where
  "same_socket p q \<longleftrightarrow> ap_ConnectionMode p = ap_ConnectionMode q \<and> ap_Host p = ap_Host q \<and> ap_Port p = ap_Port q \<and>
     ap_Network p = ap_Network q \<and> ap_ProductID p = ap_ProductID q \<and> ap_DeviceID p = ap_DeviceID q"

definition host_kind_of :: "access_profile \<Rightarrow> host_kind" where
  "host_kind_of p = (if ap_ConnectionMode p = ''dial'' then Dials else if ap_Network p = ''tcp'' then Accepts else Datagrams)"

definition fail_host :: "string \<Rightarrow> error \<Rightarrow> listeners \<Rightarrow> listeners" where
  "fail_host k e ls = ls\<lparr>ls_failures := mput (ls_failures ls) k (error_text e)\<rparr>"

definition open_host :: "listen_env \<Rightarrow> string \<Rightarrow> access_profile \<Rightarrow> listeners \<Rightarrow> listeners" where
  "open_host v k p ls =
     (if ValidateProtocolAccess v p \<noteq> Inr () \<or> ap_TenantID p = [] \<or> ap_ProductID p = [] \<or> ap_Port p < 1 \<or> 65535 < ap_Port p \<or>
        (ap_Network p \<noteq> ''tcp'' \<and> ap_Network p \<noteq> ''udp'') then ls
      else (case listener_release p (repo_of ls) of
          Inl e \<Rightarrow> fail_host k e ls
        | Inr _ \<Rightarrow>
            (case (if ap_ConnectionMode p = ''dial'' then None else lv_listen v p) of
               Some e \<Rightarrow> fail_host k e ls
             | None \<Rightarrow> let hid = ls_next ls
                 in put_host hid \<lparr>ho_profile = p, ho_kind = host_kind_of p, ho_live = True, ho_sessions = [], ho_identified = [],
                      ho_lastAcceptedAt = 0, ho_lastError = []\<rparr>
                    (ls\<lparr>ls_next := Suc hid, ls_hosts := mput (ls_hosts ls) k hid, ls_failures := mdel (ls_failures ls) k\<rparr>))))"

definition reconcile_profile :: "listen_env \<Rightarrow> access_profile \<Rightarrow> listeners \<Rightarrow> listeners" where
  "reconcile_profile v p ls =
     (let k = listenerKey (ap_TenantID p) (ap_ID p)
      in case mget (ls_hosts ls) k of
           None \<Rightarrow> open_host v k p ls
         | Some hid \<Rightarrow>
             (case ls_host ls hid of
                None \<Rightarrow> open_host v k p (ls\<lparr>ls_hosts := mdel (ls_hosts ls) k\<rparr>)
              | Some h \<Rightarrow>
                  if ho_live h \<and> same_socket (ho_profile h) p then put_host hid (h\<lparr>ho_profile := p\<rparr>) ls
                  else open_host v k p ((stop_host hid ls)\<lparr>ls_hosts := mdel (ls_hosts ls) k\<rparr>)))"

fun reconcile_profiles :: "listen_env \<Rightarrow> access_profile list \<Rightarrow> string list \<Rightarrow> listeners \<Rightarrow> string list \<times> listeners" where
  "reconcile_profiles v [] wanted ls = (wanted, ls)"
| "reconcile_profiles v (p # ps) wanted ls =
     (if listener_wanted v p
      then reconcile_profiles v ps (listenerKey (ap_TenantID p) (ap_ID p) # wanted) (reconcile_profile v (lower_network p) ls)
      else reconcile_profiles v ps wanted ls)"

definition reconcile :: "listen_env \<Rightarrow> listeners \<Rightarrow> listeners" where
  "reconcile v ls = (case reconcile_profiles v (ListDeviceAccessProfiles [] (repo_of ls)) [] ls of
     (wanted, ls1) \<Rightarrow>
       (fold stop_host (map snd (filter (\<lambda>e. fst e \<notin> set wanted) (ls_hosts ls1))) ls1)
         \<lparr>ls_hosts := filter (\<lambda>e. fst e \<in> set wanted) (ls_hosts ls1),
          ls_failures := filter (\<lambda>e. fst e \<in> set wanted) (ls_failures ls1)\<rparr>)"

definition stop_listeners :: "listeners \<Rightarrow> listeners" where
  "stop_listeners ls = (fold stop_host (mvals (ls_hosts ls)) ls)\<lparr>ls_hosts := []\<rparr>"

section \<open>Status\<close>

definition Status :: "string \<Rightarrow> string \<Rightarrow> listeners \<Rightarrow> string \<times> string \<times> int" where
  "Status tenant profile ls =
     (let k = listenerKey tenant profile
      in case mget (ls_hosts ls) k of
           None \<Rightarrow> (case mget_or [] (ls_failures ls) k of [] \<Rightarrow> (''PENDING'', [], 0) | f \<Rightarrow> (''ERROR'', f, 0))
         | Some hid \<Rightarrow> (case ls_host ls hid of
             None \<Rightarrow> (''PENDING'', [], 0)
           | Some h \<Rightarrow> (case listener_release (ho_profile h) (repo_of ls) of
               Inl e \<Rightarrow> (''ERROR'', error_text e, 0)
             | Inr _ \<Rightarrow>
                 if ap_ConnectionMode (ho_profile h) = ''dial''
                 then (if ho_sessions h = [] then (''CONNECTING'', ho_lastError h, ho_lastAcceptedAt h)
                   else (''CONNECTED'', [], ho_lastAcceptedAt h))
                 else (''LISTENING'', ho_lastError h, ho_lastAcceptedAt h))))"

definition session_any :: "listener_session \<Rightarrow> anymap" where
  "session_any s = [(''deviceId'', AStr (ss_deviceID s)), (''remoteAddress'', AStr (ss_remote s)),
     (''lastSeenAt'', AInt (ss_lastSeen s)), (''protocolId'', AStr (pl_ProtocolID (ss_release s))),
     (''protocolVersion'', AStr (pl_Version (ss_release s)))]"

definition Sessions :: "string \<Rightarrow> string \<Rightarrow> listeners \<Rightarrow> anymap list" where
  "Sessions tenant profile ls = (case mget (ls_hosts ls) (listenerKey tenant profile) of
     None \<Rightarrow> []
   | Some hid \<Rightarrow> (case ls_host ls hid of
       None \<Rightarrow> []
     | Some h \<Rightarrow> List.map_filter (\<lambda>i. case ls_session ls i of
           Some s \<Rightarrow> if ss_stage s \<in> {Live, Shut} then Some (session_any s) else None | None \<Rightarrow> None) (mvals (ho_sessions h))))"

end
