(* ===== verification/Listener_Moves.thy ===== *)
theory Listener_Moves
  imports Listener_Hosts Engine_Handlers
begin

text \<open>
  The small moves that every step of the listeners is made of, and the invariant they keep: the maps of
  the hosts agree with the sessions, every number is allocated once, the engine's repository is in
  order, and the connection counts are exact. Properties of the listeners are shown move by move.
\<close>

section \<open>Moves\<close>

text \<open>What most updates of a session leave alone; its connection may be shut.\<close>

definition calm :: "listener_session \<Rightarrow> listener_session \<Rightarrow> bool" where
  "calm s t \<longleftrightarrow> ss_host t = ss_host s \<and> ss_remote t = ss_remote s \<and> ss_stream t = ss_stream s \<and>
     ss_deviceID t = ss_deviceID s \<and> ss_pending t = ss_pending s \<and> ss_frame t = ss_frame s \<and>
     ss_buffer t = ss_buffer s \<and> ss_ended t = ss_ended s \<and>
     (ss_stage t = ss_stage s \<or> ss_stage s = Live \<and> ss_stage t = Shut)"

definition open_stage :: "listener_session \<Rightarrow> bool" where
  "open_stage s \<longleftrightarrow> ss_stage s = Live \<or> ss_stage s = Shut"

text \<open>The frame a session may be given: what its bytes and its identity require.\<close>

definition frame_fits :: "listener_session \<Rightarrow> protocol_listener \<Rightarrow> accepted_frame \<Rightarrow> bool" where
  "frame_fits s h a \<longleftrightarrow> ap_TenantID (ac_profile a) = ap_TenantID (ho_profile h) \<and> md_ID (ac_device a) \<noteq> [] \<and>
     (ss_deviceID s \<noteq> [] \<longrightarrow> md_ID (ac_device a) = ss_deviceID s) \<and>
     (ss_stream s \<longrightarrow> rm_Payload (ac_raw a) = marshal_hex (take (nat (wp_Consumed (ac_response a))) (ss_buffer s)) \<and>
        0 < wp_Consumed (ac_response a) \<and> wp_Consumed (ac_response a) \<le> int (length (ss_buffer s)))"

definition connection_key :: "protocol_listener \<Rightarrow> string \<Rightarrow> string" where
  "connection_key h d = key [ap_TenantID (ho_profile h), d]"

definition count_up :: "string \<Rightarrow> engine \<Rightarrow> listeners \<Rightarrow> listeners" where
  "count_up k e ls = (let n = mget_or 0 (ls_counts ls) k in ls\<lparr>ls_engine := e, ls_counts := mput (ls_counts ls) k (n + 1),
     ls_log := (if n > 0 then ls_log ls else Reported k True # ls_log ls)\<rparr>)"

definition count_down :: "string \<Rightarrow> engine \<Rightarrow> listeners \<Rightarrow> listeners" where
  "count_down k e ls = (let n = mget_or 0 (ls_counts ls) k
     in if n \<le> 0 then ls\<lparr>ls_engine := e\<rparr>
        else if n > 1 then ls\<lparr>ls_engine := e, ls_counts := mput (ls_counts ls) k (n - 1)\<rparr>
        else ls\<lparr>ls_engine := e, ls_counts := mdel (ls_counts ls) k, ls_log := Reported k False # ls_log ls\<rparr>)"

inductive move :: "listeners \<Rightarrow> listeners \<Rightarrow> bool" where
  engine: "engine_inv (e_repo e) \<Longrightarrow> move ls (ls\<lparr>ls_engine := e\<rparr>)"
| admin: "move ls (ls\<lparr>ls_failures := f, ls_closing := c\<rparr>)"
| calls: "(\<And>i. ls_next ls \<le> i \<Longrightarrow> cs i = None) \<Longrightarrow> move ls (ls\<lparr>ls_call := cs\<rparr>)"
| unhost: "(\<And>k hid. mget m k = Some hid \<Longrightarrow> mget (ls_hosts ls) k = Some hid) \<Longrightarrow> move ls (ls\<lparr>ls_hosts := m\<rparr>)"
| open_one: "ho_sessions h = [] \<Longrightarrow> ho_identified h = [] \<Longrightarrow> nul_free (ap_TenantID (ho_profile h)) \<Longrightarrow>
    k = listenerKey (ap_TenantID (ho_profile h)) (ap_ID (ho_profile h)) \<Longrightarrow>
    move ls (put_host (ls_next ls) h (ls\<lparr>ls_next := Suc (ls_next ls), ls_hosts := mput (ls_hosts ls) k (ls_next ls)\<rparr>))"
| host: "ls_host ls hid = Some h \<Longrightarrow> ho_sessions g = ho_sessions h \<Longrightarrow> ho_identified g = ho_identified h \<Longrightarrow>
    ho_kind g = ho_kind h \<Longrightarrow> ap_TenantID (ho_profile g) = ap_TenantID (ho_profile h) \<Longrightarrow>
    ap_ID (ho_profile g) = ap_ID (ho_profile h) \<Longrightarrow> move ls (put_host hid g ls)"
| session: "ls_session ls i = Some s \<Longrightarrow> calm s t \<Longrightarrow> move ls (put_session i t ls)"
| arrive: "ls_session ls i = Some s \<Longrightarrow> ss_stream s \<Longrightarrow> \<not> ss_ended s \<Longrightarrow> ss_frame s = None \<Longrightarrow>
    move ls (put_session i (s\<lparr>ss_buffer := ss_buffer s @ d\<rparr>) (log_event (Received i d) ls))"
| ingest: "ls_session ls i = Some s \<Longrightarrow> ss_frame s = None \<Longrightarrow> open_stage s \<Longrightarrow> \<not> ss_ended s \<Longrightarrow>
    ls_host ls (ss_host s) = Some h \<Longrightarrow> frame_fits s h a \<Longrightarrow>
    move ls (put_session i (s\<lparr>ss_frame := Some a\<rparr>) (log_event (Ingested i (ac_raw a)) ls))"
| identify: "ls_session ls i = Some s \<Longrightarrow> ss_frame s = Some a \<Longrightarrow> open_stage s \<Longrightarrow> ss_deviceID s = [] \<Longrightarrow>
    ls_host ls (ss_host s) = Some h \<Longrightarrow> engine_inv (e_repo e) \<Longrightarrow>
    move ls (put_session i (s\<lparr>ss_deviceID := md_ID (ac_device a)\<rparr>) (count_up (connection_key h (md_ID (ac_device a))) e ls))"
| claim: "ls_session ls i = Some s \<Longrightarrow> open_stage s \<Longrightarrow> ss_deviceID s \<noteq> [] \<Longrightarrow> ls_host ls (ss_host s) = Some h \<Longrightarrow>
    move ls (put_host (ss_host s) (h\<lparr>ho_identified := mput (ho_identified h) (ss_deviceID s) i\<rparr>) ls)"
| answer: "ls_session ls i = Some s \<Longrightarrow> ss_frame s = Some a \<Longrightarrow>
    move ls (log_event (Replied i b (rm_MessageID (ac_raw a))) ls)"
| acknowledge: "ls_session ls i = Some s \<Longrightarrow> ss_frame s = Some a \<Longrightarrow> mget (ss_pending s) k = Some c \<Longrightarrow>
    move ls (log_event (Acknowledged c (rm_MessageID (ac_raw a))) (put_session i (s\<lparr>ss_pending := mdel (ss_pending s) k\<rparr>) ls))"
| consume: "ls_session ls i = Some s \<Longrightarrow> ss_frame s = Some a \<Longrightarrow>
    move ls (put_session i (s\<lparr>ss_frame := None, ss_buffer := (if ss_stream s
      then drop (nat (wp_Consumed (ac_response a))) (ss_buffer s) else ss_buffer s)\<rparr>) ls)"
| drop_frame: "ls_session ls i = Some s \<Longrightarrow> move ls (put_session i (s\<lparr>ss_frame := None, ss_ended := ss_stream s \<or> ss_ended s\<rparr>) ls)"
| dispatch: "move ls (log_event (Dispatched (ls_next ls) i w) (ls\<lparr>ls_next := Suc (ls_next ls)\<rparr>))"
| await: "ls_session ls i = Some s \<Longrightarrow> ss_frame s = None \<Longrightarrow> open_stage s \<Longrightarrow>
    move ls (put_session i (s\<lparr>ss_pending := mput (ss_pending s) k (ls_next ls)\<rparr>)
      (log_event (Dispatched (ls_next ls) i w) (ls\<lparr>ls_next := Suc (ls_next ls)\<rparr>)))"
| forget: "ls_session ls i = Some s \<Longrightarrow> (\<And>k c. mget m k = Some c \<Longrightarrow> mget (ss_pending s) k = Some c) \<Longrightarrow>
    move ls (put_session i (s\<lparr>ss_pending := m\<rparr>) ls)"
| mark: "ls_session ls i = Some s \<Longrightarrow> ss_stage s = Shut \<Longrightarrow> ss_frame s = None \<Longrightarrow>
    move ls (put_session i (s\<lparr>ss_stage := Marked\<rparr>) ls)"
| unlink: "ls_session ls i = Some s \<Longrightarrow> ss_stage s = Marked \<Longrightarrow> move ls (close_unlink i ls)"
| leave: "ls_session ls i = Some s \<Longrightarrow> ss_stage s = Unlinked \<Longrightarrow> ls_host ls (ss_host s) = Some h \<Longrightarrow>
    engine_inv (e_repo e) \<Longrightarrow> move ls (put_session i (s\<lparr>ss_stage := Gone\<rparr>)
      (if ss_deviceID s = [] then ls else count_down (connection_key h (ss_deviceID s)) e ls))"
| add: "ls_host ls hid = Some h \<Longrightarrow> (ho_kind h \<noteq> Dials \<Longrightarrow> length (ho_sessions h) < listenerMaxSessions) \<Longrightarrow>
    move ls (add_session hid remote stream now h ls)"

section \<open>The invariant\<close>

text \<open>The sessions of a host: its maps name open ones, under their remote address and device.\<close>

definition linked :: "listeners \<Rightarrow> nat \<Rightarrow> nat \<Rightarrow> (listener_session \<Rightarrow> string) \<Rightarrow> string \<Rightarrow> bool" where
  "linked ls hid i f k \<longleftrightarrow> (\<exists>s. ls_session ls i = Some s \<and> ss_host s = hid \<and> f s = k \<and> ss_stage s \<in> {Live, Shut, Marked})"

definition host_ok :: "listeners \<Rightarrow> nat \<Rightarrow> protocol_listener \<Rightarrow> bool" where
  "host_ok ls hid h \<longleftrightarrow> nul_free (ap_TenantID (ho_profile h)) \<and>
     (\<forall>k i. mget (ho_sessions h) k = Some i \<longrightarrow> linked ls hid i ss_remote k) \<and>
     (\<forall>k i. mget (ho_identified h) k = Some i \<longrightarrow> k \<noteq> [] \<and> linked ls hid i ss_deviceID k) \<and>
     (ho_kind h \<noteq> Dials \<longrightarrow> length (ho_sessions h) \<le> listenerMaxSessions)"

definition session_ok :: "listeners \<Rightarrow> listener_session \<Rightarrow> bool" where
  "session_ok ls s \<longleftrightarrow> (\<exists>h. ls_host ls (ss_host s) = Some h \<and>
     (\<forall>a. ss_frame s = Some a \<longrightarrow> frame_fits s h a \<and> open_stage s))"

definition listeners_inv :: "listeners \<Rightarrow> bool" where
  "listeners_inv ls \<longleftrightarrow> engine_inv (repo_of ls) \<and>
     (\<forall>i. ls_next ls \<le> i \<longrightarrow> ls_session ls i = None \<and> ls_host ls i = None \<and> ls_call ls i = None) \<and>
     (\<forall>k hid. mget (ls_hosts ls) k = Some hid \<longrightarrow> (\<exists>h. ls_host ls hid = Some h \<and>
        k = listenerKey (ap_TenantID (ho_profile h)) (ap_ID (ho_profile h)))) \<and>
     (\<forall>hid h. ls_host ls hid = Some h \<longrightarrow> host_ok ls hid h) \<and>
     (\<forall>i s. ls_session ls i = Some s \<longrightarrow> session_ok ls s)"

lemma listeners_invD:
  assumes "listeners_inv ls"
  shows "engine_inv (repo_of ls)"
    "ls_next ls \<le> i \<Longrightarrow> ls_session ls i = None \<and> ls_host ls i = None \<and> ls_call ls i = None"
    "mget (ls_hosts ls) k = Some hid \<Longrightarrow> \<exists>h. ls_host ls hid = Some h \<and>
        k = listenerKey (ap_TenantID (ho_profile h)) (ap_ID (ho_profile h))"
    "ls_host ls hid = Some h \<Longrightarrow> host_ok ls hid h"
    "ls_session ls i = Some s \<Longrightarrow> session_ok ls s"
  using assms unfolding listeners_inv_def by blast+

lemma put_simps [simp]:
  "ls_session (put_session i s ls) = (ls_session ls)(i := Some s)" "ls_host (put_session i s ls) = ls_host ls"
  "ls_next (put_session i s ls) = ls_next ls" "ls_call (put_session i s ls) = ls_call ls"
  "ls_hosts (put_session i s ls) = ls_hosts ls" "repo_of (put_session i s ls) = repo_of ls"
  "ls_counts (put_session i s ls) = ls_counts ls" "ls_log (put_session i s ls) = ls_log ls"
  "ls_host (put_host i h ls) = (ls_host ls)(i := Some h)" "ls_session (put_host i h ls) = ls_session ls"
  "ls_next (put_host i h ls) = ls_next ls" "ls_call (put_host i h ls) = ls_call ls"
  "ls_hosts (put_host i h ls) = ls_hosts ls" "repo_of (put_host i h ls) = repo_of ls"
  "ls_counts (put_host i h ls) = ls_counts ls" "ls_log (put_host i h ls) = ls_log ls"
  "ls_host (log_event x ls) = ls_host ls" "ls_session (log_event x ls) = ls_session ls"
  "ls_next (log_event x ls) = ls_next ls" "ls_call (log_event x ls) = ls_call ls"
  "ls_hosts (log_event x ls) = ls_hosts ls" "repo_of (log_event x ls) = repo_of ls"
  "ls_counts (log_event x ls) = ls_counts ls" "ls_log (log_event x ls) = x # ls_log ls"
  "ls_host (count_up k e ls) = ls_host ls" "ls_session (count_up k e ls) = ls_session ls"
  "ls_next (count_up k e ls) = ls_next ls" "ls_call (count_up k e ls) = ls_call ls"
  "ls_hosts (count_up k e ls) = ls_hosts ls" "repo_of (count_up k e ls) = e_repo e"
  "ls_host (count_down k e ls) = ls_host ls" "ls_session (count_down k e ls) = ls_session ls"
  "ls_next (count_down k e ls) = ls_next ls" "ls_call (count_down k e ls) = ls_call ls"
  "ls_hosts (count_down k e ls) = ls_hosts ls" "repo_of (count_down k e ls) = e_repo e"
  by (simp_all add: put_session_def put_host_def log_event_def repo_of_def count_up_def count_down_def Let_def)

lemma repo_of_update [simp]:
  "repo_of (ls\<lparr>ls_next := n\<rparr>) = repo_of ls" "repo_of (ls\<lparr>ls_hosts := m\<rparr>) = repo_of ls"
  "repo_of (ls\<lparr>ls_call := cs\<rparr>) = repo_of ls" "repo_of (ls\<lparr>ls_closing := c\<rparr>) = repo_of ls"
  "repo_of (ls\<lparr>ls_failures := f\<rparr>) = repo_of ls" "repo_of (ls\<lparr>ls_engine := e\<rparr>) = e_repo e"
  by (simp_all add: repo_of_def)

lemma calm_facts:
  assumes "calm s t"
  shows "ss_host t = ss_host s" "ss_remote t = ss_remote s" "ss_deviceID t = ss_deviceID s" "ss_frame t = ss_frame s"
    "ss_stage t \<in> {Live, Shut, Marked} \<or> ss_stage s \<notin> {Live, Shut, Marked}" "open_stage s \<Longrightarrow> open_stage t"
    "frame_fits s h a \<Longrightarrow> frame_fits t h a"
  using assms by (auto simp: calm_def open_stage_def frame_fits_def)

text \<open>The invariant depends on sessions only through what calm keeps and the frames they fit.\<close>

lemma linked_put:
  assumes "ls_session ls i = Some s" "ss_host t = ss_host s" "f t = f s" "ss_stage t \<in> {Live, Shut, Marked} \<or> ss_stage s \<notin> {Live, Shut, Marked}"
    "ls_session ls2 = (ls_session ls)(i := Some t)"
  shows "linked ls hid j f k \<Longrightarrow> linked ls2 hid j f k"
  using assms by (auto simp: linked_def)

lemma inv_put_session:
  assumes inv: "listeners_inv ls" and s: "ls_session ls i = Some s"
    and t: "ss_host t = ss_host s" "ss_remote t = ss_remote s" "ss_deviceID t = ss_deviceID s \<or> ss_deviceID s = []"
      "ss_stage t \<in> {Live, Shut, Marked} \<or> ss_stage s \<notin> {Live, Shut, Marked}"
    and a: "\<And>h a. ls_host ls (ss_host s) = Some h \<Longrightarrow> ss_frame t = Some a \<Longrightarrow> frame_fits t h a \<and> open_stage t"
  shows "listeners_inv (put_session i t ls)"
proof -
  let ?ls = "put_session i t ls"
  have linked: "linked ls hid j ss_remote k \<Longrightarrow> linked ?ls hid j ss_remote k" for hid j k
    by (rule linked_put [OF s t(1) t(2) t(4)]) simp_all
  have device: "k \<noteq> [] \<Longrightarrow> linked ls hid j ss_deviceID k \<Longrightarrow> linked ?ls hid j ss_deviceID k" for hid j k
    using s t by (auto simp: linked_def)
  have "host_ok ?ls hid h" if "ls_host ls hid = Some h" for hid h
    using listeners_invD(4) [OF inv that] linked device unfolding host_ok_def by blast
  moreover have "session_ok ?ls u" if "ls_session ?ls j = Some u" for j u
  proof (cases "j = i")
    case True
    then show ?thesis using that listeners_invD(5) [OF inv s] a t(1) by (auto simp: session_ok_def)
  next
    case False
    then show ?thesis using that listeners_invD(5) [OF inv, of j u] by (simp add: session_ok_def)
  qed
  moreover have "ls_session ?ls j = None" if "ls_next ls \<le> j" for j
    using listeners_invD(2) [OF inv that] s by auto
  ultimately show ?thesis using inv unfolding listeners_inv_def by (auto simp del: fun_upd_apply)
qed

lemma inv_same:
  assumes "listeners_inv ls" "ls_session ls2 = ls_session ls" "ls_host ls2 = ls_host ls" "ls_next ls \<le> ls_next ls2"
    "\<And>k hid. mget (ls_hosts ls2) k = Some hid \<Longrightarrow> mget (ls_hosts ls) k = Some hid"
    "\<And>i. ls_next ls2 \<le> i \<Longrightarrow> ls_call ls2 i = None" "engine_inv (repo_of ls2)"
  shows "listeners_inv ls2"
proof -
  have "host_ok ls2 = host_ok ls" "session_ok ls2 = session_ok ls"
    using assms(2, 3) by (simp_all add: host_ok_def session_ok_def linked_def fun_eq_iff)
  moreover have "ls_session ls2 i = None \<and> ls_host ls2 i = None" if "ls_next ls2 \<le> i" for i
    using listeners_invD(2) [OF assms(1), of i] that assms(2-4) by simp
  ultimately show ?thesis unfolding listeners_inv_def
    using listeners_invD(3-5) [OF assms(1)] assms(2, 3, 5-7) by simp
qed

lemma inv_put_host:
  assumes inv: "listeners_inv ls" and h: "ls_host ls hid = Some h"
    and g: "ap_TenantID (ho_profile g) = ap_TenantID (ho_profile h)" "ap_ID (ho_profile g) = ap_ID (ho_profile h)"
    and ok: "host_ok ls hid g"
  shows "listeners_inv (put_host hid g ls)"
proof -
  let ?ls = "put_host hid g ls"
  have linked: "linked ?ls = linked ls" by (simp add: linked_def fun_eq_iff)
  have "host_ok ?ls j u" if "ls_host ?ls j = Some u" for j u
    using that ok listeners_invD(4) [OF inv, of j u] by (auto simp: host_ok_def linked split: if_splits)
  moreover have "session_ok ?ls s" if "ls_session ls j = Some s" for j s
    using listeners_invD(5) [OF inv that] h g(1) by (auto simp: session_ok_def frame_fits_def)
  moreover have "\<exists>u. ls_host ?ls j = Some u \<and> k = listenerKey (ap_TenantID (ho_profile u)) (ap_ID (ho_profile u))"
    if "mget (ls_hosts ls) k = Some j" for j k
    using listeners_invD(3) [OF inv that] h g by auto
  moreover have "ls_host ?ls j = None" if "ls_next ls \<le> j" for j
    using listeners_invD(2) [OF inv that] h by auto
  ultimately show ?thesis using inv unfolding listeners_inv_def by (auto simp del: fun_upd_apply)
qed

lemma inv_open:
  assumes inv: "listeners_inv ls" and h: "ho_sessions h = []" "ho_identified h = []" "nul_free (ap_TenantID (ho_profile h))"
    and k: "k = listenerKey (ap_TenantID (ho_profile h)) (ap_ID (ho_profile h))"
  shows "listeners_inv (put_host (ls_next ls) h (ls\<lparr>ls_next := Suc (ls_next ls), ls_hosts := mput (ls_hosts ls) k (ls_next ls)\<rparr>))"
    (is "listeners_inv ?ls")
proof -
  have new: "ls_host ls (ls_next ls) = None" using listeners_invD(2) [OF inv, of "ls_next ls"] by simp
  have "linked ?ls = linked ls" by (simp add: linked_def fun_eq_iff)
  then have "host_ok ?ls j u" if "ls_host ?ls j = Some u" for j u
    using that h listeners_invD(4) [OF inv, of j u] by (auto simp: host_ok_def split: if_splits)
  moreover have "session_ok ?ls s" if "ls_session ls j = Some s" for j s
    using listeners_invD(5) [OF inv that] new by (auto simp: session_ok_def)
  moreover have "\<exists>u. ls_host ?ls j = Some u \<and> k' = listenerKey (ap_TenantID (ho_profile u)) (ap_ID (ho_profile u))"
    if "mget (ls_hosts ?ls) k' = Some j" for j k'
    using that listeners_invD(3) [OF inv, of k' j] k new by (auto split: if_splits)
  moreover have "ls_session ?ls j = None \<and> ls_host ?ls j = None \<and> ls_call ?ls j = None" if "ls_next ?ls \<le> j" for j
    using listeners_invD(2) [OF inv, of j] that by simp
  moreover have "engine_inv (repo_of ?ls)" using listeners_invD(1) [OF inv] by simp
  ultimately show ?thesis unfolding listeners_inv_def by (auto simp del: fun_upd_apply)
qed

lemma inv_add:
  assumes inv: "listeners_inv ls" and h: "ls_host ls hid = Some h"
    and n: "ho_kind h \<noteq> Dials \<Longrightarrow> length (ho_sessions h) < listenerMaxSessions"
  shows "listeners_inv (add_session hid remote stream now h ls)"
proof -
  let ?s = "new_listener_session hid remote stream now"
  let ?ls1 = "put_session (ls_next ls) ?s (ls\<lparr>ls_next := Suc (ls_next ls)\<rparr>)"
  have new: "ls_session ls (ls_next ls) = None" using listeners_invD(2) [OF inv, of "ls_next ls"] by simp
  have linked: "linked ls j i f k \<Longrightarrow> linked ?ls1 j i f k" for j i f k
    using new by (auto simp: linked_def)
  have "host_ok ?ls1 j u" if "ls_host ls j = Some u" for j u
    using listeners_invD(4) [OF inv that] linked unfolding host_ok_def by blast
  moreover have "session_ok ?ls1 u" if "ls_session ?ls1 j = Some u" for j u
  proof (cases "j = ls_next ls")
    case True
    then have "u = ?s" using that by simp
    then show ?thesis using h by (simp add: session_ok_def new_listener_session_def)
  next
    case False
    then show ?thesis using that listeners_invD(5) [OF inv, of j u] by (simp add: session_ok_def)
  qed
  moreover have "ls_session ?ls1 j = None \<and> ls_host ?ls1 j = None \<and> ls_call ?ls1 j = None" if "ls_next ?ls1 \<le> j" for j
    using listeners_invD(2) [OF inv, of j] that by simp
  moreover have "engine_inv (repo_of ?ls1)" using listeners_invD(1) [OF inv] by simp
  ultimately have inv1: "listeners_inv ?ls1" using inv unfolding listeners_inv_def by (auto simp del: fun_upd_apply)
  have ok: "host_ok ?ls1 hid h" by (rule listeners_invD(4) [OF inv1]) (simp add: h)
  have new: "linked ?ls1 hid (ls_next ls) ss_remote remote" by (auto simp: linked_def new_listener_session_def)
  have "length (mput (ho_sessions h) remote i) \<le> Suc (length (ho_sessions h))" for i
  proof -
    have "length (AList.update remote i m) \<le> Suc (length m)" for m by (induction m) auto
    then show ?thesis by (simp add: mput_def)
  qed
  then have "ho_kind h \<noteq> Dials \<longrightarrow> length (mput (ho_sessions h) remote (ls_next ls)) \<le> listenerMaxSessions"
    using n by (meson Suc_leI le_trans)
  moreover have "linked ?ls1 hid i ss_remote k" if "mget (mput (ho_sessions h) remote (ls_next ls)) k = Some i" for k i
    using that ok new unfolding host_ok_def by (auto split: if_splits)
  ultimately have "host_ok ?ls1 hid (h\<lparr>ho_sessions := mput (ho_sessions h) remote (ls_next ls)\<rparr>)"
    using ok unfolding host_ok_def by simp
  then show ?thesis using inv_put_host [OF inv1, of hid h] h by (simp add: add_session_def Let_def)
qed

lemma drop_entry_Some: "mget (drop_entry k j m) k' = Some x \<longleftrightarrow> mget m k' = Some x \<and> \<not> (k' = k \<and> x = j)"
  by (auto simp: drop_entry_def)

lemma length_drop_entry: "length (drop_entry k j m) \<le> length m"
proof -
  have "length (AList.delete k m) \<le> length m" by (induction m) auto
  then show ?thesis by (simp add: drop_entry_def mdel_def)
qed

lemma linked_other:
  assumes "ls_session ls2 = (ls_session ls)(i := x)" "j \<noteq> i"
  shows "linked ls2 hid j f k = linked ls hid j f k"
  using assms by (simp add: linked_def)

lemma inv_unlink:
  assumes inv: "listeners_inv ls" and s: "ls_session ls i = Some s" "ss_stage s = Marked"
  shows "listeners_inv (close_unlink i ls)"
proof -
  let ?t = "s\<lparr>ss_stage := Unlinked\<rparr>"
  obtain h where h: "ls_host ls (ss_host s) = Some h" and f: "ss_frame s = None"
    using listeners_invD(5) [OF inv s(1)] s(2) by (cases "ss_frame s") (auto simp: session_ok_def open_stage_def)
  define g where "g = h\<lparr>ho_identified := drop_entry (ss_deviceID s) i (ho_identified h),
    ho_sessions := drop_entry (ss_remote s) i (ho_sessions h)\<rparr>"
  let ?ls = "put_host (ss_host s) g (put_session i ?t ls)"
  have other: "j \<noteq> i \<Longrightarrow> linked ?ls hid j f k = linked ls hid j f k" for j hid f k
    by (rule linked_other) simp_all
  have self: "linked ls hid i f k \<Longrightarrow> hid = ss_host s \<and> k = f s" for hid f k
    using s(1) by (simp add: linked_def)
  have hosts: "host_ok ?ls hid u" if u: "ls_host ?ls hid = Some u" for hid u
  proof (cases "hid = ss_host s")
    case True
    have ok: "host_ok ls (ss_host s) h" by (rule listeners_invD(4) [OF inv h])
    have "linked ?ls hid j ss_remote k" if e: "mget (ho_sessions g) k = Some j" for k j
    proof -
      have e: "mget (ho_sessions h) k = Some j" "\<not> (k = ss_remote s \<and> j = i)" using e by (simp_all add: g_def drop_entry_Some)
      then have l: "linked ls hid j ss_remote k" using ok True unfolding host_ok_def by blast
      then show ?thesis using self [of hid ss_remote k] e(2) other [of j] by (cases "j = i") auto
    qed
    moreover have "k \<noteq> [] \<and> linked ?ls hid j ss_deviceID k" if e: "mget (ho_identified g) k = Some j" for k j
    proof -
      have e: "mget (ho_identified h) k = Some j" "\<not> (k = ss_deviceID s \<and> j = i)" using e by (simp_all add: g_def drop_entry_Some)
      then have l: "k \<noteq> []" "linked ls hid j ss_deviceID k" using ok True unfolding host_ok_def by blast+
      then show ?thesis using self [of hid ss_deviceID k] e(2) other [of j] by (cases "j = i") auto
    qed
    moreover have "ho_kind h \<noteq> Dials \<longrightarrow> length (ho_sessions g) \<le> listenerMaxSessions"
    proof
      assume "ho_kind h \<noteq> Dials"
      then have "length (ho_sessions h) \<le> listenerMaxSessions" using ok unfolding host_ok_def by blast
      then show "length (ho_sessions g) \<le> listenerMaxSessions"
        using length_drop_entry [of "ss_remote s" i "ho_sessions h"] by (simp add: g_def)
    qed
    moreover have "u = g" using u True by simp
    ultimately show ?thesis using ok unfolding host_ok_def by (simp add: g_def)
  next
    case False
    then have ok: "host_ok ls hid u" using u by (intro listeners_invD(4) [OF inv]) simp
    have "linked ls hid j f k \<Longrightarrow> linked ?ls hid j f k" for j f k
      using self [of hid f k] False other [of j hid f k] by (cases "j = i") auto
    then show ?thesis using ok unfolding host_ok_def by blast
  qed
  moreover have "session_ok ?ls u" if u: "ls_session ?ls j = Some u" for j u
  proof (cases "j = i")
    case True
    then have "u = ?t" using u by simp
    then show ?thesis using f by (simp add: session_ok_def)
  next
    case False
    then have "session_ok ls u" using u by (intro listeners_invD(5) [OF inv]) simp
    then show ?thesis using h by (cases "ss_host u = ss_host s") (auto simp: session_ok_def frame_fits_def g_def)
  qed
  moreover have "\<exists>u. ls_host ?ls hid = Some u \<and> k = listenerKey (ap_TenantID (ho_profile u)) (ap_ID (ho_profile u))"
    if "mget (ls_hosts ls) k = Some hid" for hid k
    using listeners_invD(3) [OF inv that] h by (auto simp: g_def)
  moreover have "ls_session ?ls j = None \<and> ls_host ?ls j = None \<and> ls_call ?ls j = None" if "ls_next ls \<le> j" for j
    using listeners_invD(2) [OF inv that] s h by auto
  ultimately have "listeners_inv ?ls" using listeners_invD(1) [OF inv] unfolding listeners_inv_def by simp
  then show ?thesis using s h by (simp add: close_unlink_def g_def)
qed

lemma inv_kept:
  assumes "listeners_inv ls"
  shows "listeners_inv (log_event x ls)" "engine_inv (e_repo e) \<Longrightarrow> listeners_inv (ls\<lparr>ls_engine := e\<rparr>)"
    "listeners_inv (ls\<lparr>ls_next := Suc (ls_next ls)\<rparr>)" "listeners_inv (ls\<lparr>ls_failures := f, ls_closing := c\<rparr>)"
    "(\<And>i. ls_next ls \<le> i \<Longrightarrow> cs i = None) \<Longrightarrow> listeners_inv (ls\<lparr>ls_call := cs\<rparr>)"
    "(\<And>k hid. mget m k = Some hid \<Longrightarrow> mget (ls_hosts ls) k = Some hid) \<Longrightarrow> listeners_inv (ls\<lparr>ls_hosts := m\<rparr>)"
    "engine_inv (e_repo e) \<Longrightarrow> listeners_inv (count_up k e ls)" "engine_inv (e_repo e) \<Longrightarrow> listeners_inv (count_down k e ls)"
  by (rule inv_same [OF assms]; use listeners_invD(1, 2) [OF assms] in simp)+

lemma move_keeps_inv:
  assumes "move ls ls2" "listeners_inv ls"
  shows "listeners_inv ls2"
  using assms
proof (cases rule: move.cases)
  case (session i s t)
  note c = calm_facts [OF session(3)]
  show ?thesis unfolding session(1)
  proof (rule inv_put_session [OF assms(2) session(2)])
    fix h a assume "ls_host ls (ss_host s) = Some h" "ss_frame t = Some a"
    then show "frame_fits t h a \<and> open_stage t"
      using listeners_invD(5) [OF assms(2) session(2)] c by (auto simp: session_ok_def)
  qed (use c in blast)+
next
  case (host hid h g)
  have "host_ok ls hid g" using listeners_invD(4) [OF assms(2) host(2)] host by (simp add: host_ok_def)
  then show ?thesis unfolding host(1) by (intro inv_put_host [OF assms(2) host(2)]) (simp_all add: host)
next
  case (arrive i s d)
  show ?thesis unfolding arrive(1)
    by (rule inv_put_session [OF inv_kept(1) [OF assms(2)], where s = s]) (use arrive in auto)
next
  case (ingest i s h a)
  show ?thesis unfolding ingest(1)
    by (rule inv_put_session [OF inv_kept(1) [OF assms(2)], where s = s])
      (use ingest in \<open>auto simp: open_stage_def frame_fits_def\<close>)
next
  case (identify i s a h e)
  have "frame_fits s h a" using listeners_invD(5) [OF assms(2) identify(2)] identify by (auto simp: session_ok_def)
  then show ?thesis unfolding identify(1) using identify
    by (intro inv_put_session [OF inv_kept(7) [OF assms(2) identify(7)], where s = s])
      (auto simp: open_stage_def frame_fits_def)
next
  case (claim i s h)
  have "linked ls (ss_host s) i ss_deviceID (ss_deviceID s)" using claim by (auto simp: linked_def open_stage_def)
  then have "host_ok ls (ss_host s) (h\<lparr>ho_identified := mput (ho_identified h) (ss_deviceID s) i\<rparr>)"
    using listeners_invD(4) [OF assms(2) claim(5)] claim(4) by (auto simp: host_ok_def)
  then show ?thesis unfolding claim(1) by (intro inv_put_host [OF assms(2) claim(5)]) simp_all
next
  case (acknowledge i s a k c)
  show ?thesis unfolding acknowledge(1)
    by (rule inv_kept(1), rule inv_put_session [OF assms(2) acknowledge(2)])
      (use listeners_invD(5) [OF assms(2) acknowledge(2)] in \<open>auto simp: session_ok_def frame_fits_def open_stage_def\<close>)
next
  case (consume i s a)
  show ?thesis unfolding consume(1)
    by (rule inv_put_session [OF assms(2) consume(2)])
      (use listeners_invD(5) [OF assms(2) consume(2)] consume in \<open>auto simp: session_ok_def open_stage_def\<close>)
next
  case (drop_frame i s)
  show ?thesis unfolding drop_frame(1) by (rule inv_put_session [OF assms(2) drop_frame(2)]) auto
next
  case (dispatch i w)
  show ?thesis unfolding dispatch by (intro inv_kept(1) inv_kept(3) assms(2))
next
  case (await i s k w)
  show ?thesis unfolding await(1)
    by (rule inv_put_session [OF inv_kept(1) [OF inv_kept(3) [OF assms(2)]], where s = s]) (use await in auto)
next
  case (forget i s m)
  show ?thesis unfolding forget(1)
    by (rule inv_put_session [OF assms(2) forget(2)])
      (use listeners_invD(5) [OF assms(2) forget(2)] in \<open>auto simp: session_ok_def frame_fits_def open_stage_def\<close>)
next
  case (mark i s)
  show ?thesis unfolding mark(1) by (rule inv_put_session [OF assms(2) mark(2)]) (use mark in auto)
next
  case (leave i s h e)
  have "ss_frame s = None" using listeners_invD(5) [OF assms(2) leave(2)] leave(3) by (auto simp: session_ok_def open_stage_def)
  then show ?thesis unfolding leave(1) using leave assms(2)
    by (intro inv_put_session [where s = s]) (auto intro: inv_kept(8))
qed (use assms(2) in \<open>simp_all add: inv_open inv_add inv_unlink inv_kept\<close>)

end
