(* ===== verification/Listener_Steps.thy ===== *)
theory Listener_Steps
  imports Listener_Moves "HOL-Library.Transitive_Closure_Table"
begin

text \<open>
  The steps of the listeners, as the goroutines of reconcile, accept, dial, receiveTCP, receiveUDP,
  processUDP, close, Command and poll make them in any interleaving, and how each is composed of moves.
\<close>

section \<open>Steps\<close>

text \<open>
  A step that takes the lock of a session happens while no frame holds it; a step of receiveTCP happens
  where that loop stands. The engine may be used by other parts of the program at any time.
\<close>

inductive listen_step :: "listeners \<Rightarrow> listeners \<Rightarrow> bool" where
  reconcile: "listen_step ls (reconcile v ls)"
| stop: "listen_step ls (stop_listeners ls)"
| cancelled: "listen_step ls (stop_host hid ls)"
| accept: "listen_step ls (accept_connection v hid remote ls)"
| dial: "listen_step ls (snd (dial_turn v nw cidrs n hid remote ls))"
| datagram: "listen_step ls (receive_datagram v hid remote d ls)"
| expire: "listen_step ls (expireUDP v hid ls)"
| peer_done: "ls_session ls i = Some s \<Longrightarrow> \<not> ss_stream s \<Longrightarrow> ls_host ls (ss_host s) = Some h \<Longrightarrow> \<not> ho_live h \<Longrightarrow>
    listen_step ls (close_begin i ls)"
| read: "ls_session ls i = Some s \<Longrightarrow> read_fits s d \<Longrightarrow> \<not> ss_ended s \<Longrightarrow> ss_frame s = None \<Longrightarrow>
    listen_step ls (tcp_read i d ls)"
| read_end: "ls_session ls i = Some s \<Longrightarrow> ss_stream s \<Longrightarrow> ss_reading s \<Longrightarrow> ss_frame s = None \<Longrightarrow> listen_step ls (tcp_end i ls)"
| frame_start: "ls_session ls i = Some s \<Longrightarrow> ss_frame s = None \<Longrightarrow> \<not> ss_ended s \<Longrightarrow>
    (if ss_stream s then \<not> ss_reading s \<and> ss_buffer s \<noteq> [] else ss_packets s \<noteq> []) \<Longrightarrow>
    listen_step ls (frame_start v i ls)"
| frame_end: "ls_session ls i = Some s \<Longrightarrow> ss_frame s \<noteq> None \<Longrightarrow> listen_step ls (frame_end v i ls)"
| close: "i \<in> set (ls_closing ls) \<Longrightarrow> listen_step ls (close_begin i (ls\<lparr>ls_closing := remove1 i (ls_closing ls)\<rparr>))"
| mark: "ls_session ls i = Some s \<Longrightarrow> ss_stage s = Shut \<Longrightarrow> ss_frame s = None \<Longrightarrow> listen_step ls (close_mark i ls)"
| unlink: "ls_session ls i = Some s \<Longrightarrow> ss_stage s = Marked \<Longrightarrow> listen_step ls (close_unlink i ls)"
| left: "ls_session ls i = Some s \<Longrightarrow> ss_stage s = Unlinked \<Longrightarrow> listen_step ls (close_report v i ls)"
| command: "(\<And>hid h device child i s. mget (ls_hosts ls) (listenerKey tenant profile) = Some hid \<Longrightarrow>
      ls_host ls hid = Some h \<Longrightarrow> command_target tenant requested (repo_of ls) = (device, child) \<Longrightarrow>
      command_session h device ls = Some i \<Longrightarrow> ls_session ls i = Some s \<Longrightarrow> ss_frame s = None) \<Longrightarrow>
    listen_step ls (snd (Command v tenant profile requested cmd ls))"
| command_expire: "listen_step ls (command_expire c ls)"
| command_finish: "listen_step ls (snd (command_finish c ls))"
| engine: "engine_inv (e_repo e) \<Longrightarrow> listen_step ls (ls\<lparr>ls_engine := e\<rparr>)"

section \<open>Sequences of moves\<close>

definition moves :: "listeners \<Rightarrow> listeners \<Rightarrow> bool" where
  "moves ls ls2 \<longleftrightarrow> (listeners_inv ls \<longrightarrow> move\<^sup>*\<^sup>* ls ls2)"

lemma rtrancl_moves_inv: "move\<^sup>*\<^sup>* ls ls2 \<Longrightarrow> listeners_inv ls \<Longrightarrow> listeners_inv ls2"
  by (induction rule: rtranclp_induct) (auto intro: move_keeps_inv)

lemma moves_refl [simp, intro]: "moves ls ls"
  by (simp add: moves_def)

lemma moves_trans: "moves a b \<Longrightarrow> moves b c \<Longrightarrow> moves a c"
  unfolding moves_def using rtrancl_moves_inv by (blast intro: rtranclp_trans)

lemma moves_inv: "moves a b \<Longrightarrow> listeners_inv a \<Longrightarrow> listeners_inv b"
  unfolding moves_def using rtrancl_moves_inv by blast

lemma moves_one: "(listeners_inv a \<Longrightarrow> move a b) \<Longrightarrow> moves a b"
  by (auto simp: moves_def)

lemma moves_under: "(listeners_inv a \<Longrightarrow> moves a b) \<Longrightarrow> moves a b"
  by (auto simp: moves_def)

lemma moves_then: "moves a b \<Longrightarrow> (listeners_inv b \<Longrightarrow> move b c) \<Longrightarrow> moves a c"
  by (rule moves_trans [of a b]) (auto intro: moves_one)

text \<open>The engine's repository stays in order, and nothing else changes.\<close>

definition engine_moved :: "listeners \<Rightarrow> listeners \<Rightarrow> bool" where
  "engine_moved ls ls2 \<longleftrightarrow> (\<exists>e. ls2 = ls\<lparr>ls_engine := e\<rparr>) \<and> (engine_inv (repo_of ls) \<longrightarrow> engine_inv (repo_of ls2))"

lemma engine_moved_refl [simp, intro]: "engine_moved ls ls"
  unfolding engine_moved_def by (intro conjI exI [of _ "ls_engine ls"]) simp_all

lemma engine_moved_trans: "engine_moved a b \<Longrightarrow> engine_moved b c \<Longrightarrow> engine_moved a c"
  by (auto simp: engine_moved_def)

lemma engine_moved_moves: "engine_moved a b \<Longrightarrow> moves a b"
  by (rule moves_one) (auto simp: engine_moved_def intro!: move.engine dest: listeners_invD(1))

lemma engine_moved_same:
  assumes "engine_moved a b"
  shows "ls_session b = ls_session a" "ls_host b = ls_host a" "ls_log b = ls_log a" "ls_counts b = ls_counts a"
    "ls_next b = ls_next a" "ls_call b = ls_call a"
  using assms by (auto simp: engine_moved_def)

lemma run_engine_moved:
  assumes "run_engine m ls = (x, ls2)" "unlocked v m"
  shows "engine_moved ls ls2"
  using assms blind_calls.safe_keeps [OF assms(2), of "ls_engine ls"]
  by (auto simp: engine_moved_def run_engine_def repo_of_def)

lemma run_call_moved:
  assumes "run_engine (call_repo f) ls = (x, ls2)" "\<And>r. engine_inv r \<Longrightarrow> engine_inv (snd (f r))"
  shows "engine_moved ls ls2"
  using assms by (auto simp: engine_moved_def run_engine_def repo_of_def call_repo_def)

lemma register_keeps:
  "engine_inv r \<Longrightarrow> engine_inv (snd (RegisterProtocolDevice sha p i n now r))"
  "engine_inv r \<Longrightarrow> engine_inv (snd (RegisterProtocolChild sha p t c now r))"
  using guard_keeps_engine_inv [of r "Devices (C_RegisterProtocolDevice p i n now)" sha "\<lambda>_. None"]
    guard_keeps_engine_inv [of r "Devices (C_RegisterProtocolChild p t c now)" sha "\<lambda>_. None"]
  by (simp_all add: guard_def call_ok_def)

section \<open>What the engine is asked to do\<close>

lemma new_device_id: "ProtocolRegistrationDevice sha p c q i n now = Inr d \<Longrightarrow> md_ID d = i"
  by (auto simp: ProtocolRegistrationDevice_def Let_def split: if_splits)

lemma registered_id:
  assumes inv: "engine_inv r" and d: "fst (RegisterProtocolDevice sha p i n now r) = (d, b, None)"
  shows "md_ID d = i"
proof -
  define current where "current = mget_or zero_access_profile (r_accessProfiles r) (key [ap_TenantID p, ap_ID p])"
  have dev: "devices_inv (r_devices r)" and prof: "profiles_inv (r_accessProfiles r)"
    using inv by (simp_all add: engine_inv_def repo_inv_def)
  have t: "nul_free (ap_TenantID current)" unfolding current_def by (rule profiles_inv_tenant [OF prof])
  obtain q e where e: "ProtocolRegistrationDevice sha p current q i n now = Inr e"
    using d unfolding RegisterProtocolDevice_def Let_def current_def [symmetric] by (auto split: sum.splits)
  show ?thesis
  proof (cases "mget (r_devices r) (key [ap_TenantID current, i])")
    case None
    then show ?thesis using d e unfolding RegisterProtocolDevice_def Let_def current_def [symmetric]
      by (auto split: sum.splits if_splits dest: new_device_id)
  next
    case (Some f)
    then have "d = f" using d e unfolding RegisterProtocolDevice_def Let_def current_def [symmetric]
      by (auto split: sum.splits if_splits)
    then show ?thesis using devices_invD(2, 3) [OF dev Some] key2_inject [OF t] by metis
  qed
qed

text \<open>A device is known, or registered by one call of the repository.\<close>

lemma listener_device_cases:
  assumes "listener_device v p i name ls = (x, ls2)"
  shows "ls2 = ls \<and> (\<forall>d. x = Inr d \<longrightarrow> i \<noteq> [] \<and> GetManagedDevice (ap_TenantID p) i (repo_of ls) = Inr d) \<or>
    (\<exists>n y. run_engine (call_repo (RegisterProtocolDevice (v_sha (lv_env v)) p i n (v_now (lv_env v)))) ls = (y, ls2) \<and>
      (\<forall>d. x = Inr d \<longrightarrow> i \<noteq> [] \<and> (\<exists>b. y = Inr (d, b, None))))" (is ?P)
proof -
  let ?reg = "\<lambda>n. run_engine (call_repo (RegisterProtocolDevice (v_sha (lv_env v)) p i n (v_now (lv_env v)))) ls"
  have reg: ?P if n: "(case ?reg n of (Inr (d, _, None), ls1) \<Rightarrow> (Inr d, ls1)
      | (Inr (d, _, Some e), ls1) \<Rightarrow> (Inl e, ls1) | (Inl e, ls1) \<Rightarrow> (Inl e, ls1)) = (x, ls2)" "i \<noteq> []" for n
  proof -
    obtain y ls1 where y: "?reg n = (y, ls1)" by fastforce
    then have "ls1 = ls2" "\<forall>d. x = Inr d \<longrightarrow> (\<exists>b. y = Inr (d, b, None))"
      using n(1) by (auto split: sum.splits prod.splits option.splits)
    then show ?thesis using y n(2) by blast
  qed
  have i: "ValidProtocolDeviceID i \<Longrightarrow> i \<noteq> []" by (auto simp: ValidProtocolDeviceID_def)
  show ?thesis
    using assms i reg unfolding listener_device_def Let_def
    by (auto split: sum.splits if_splits option.splits simp del: split_paired_Ex)
qed

lemma listener_device_moved:
  assumes "listener_device v p i name ls = (x, ls2)"
  shows "engine_moved ls ls2"
  using listener_device_cases [OF assms]
proof (elim disjE exE conjE)
  fix n y
  assume "run_engine (call_repo (RegisterProtocolDevice (v_sha (lv_env v)) p i n (v_now (lv_env v)))) ls = (y, ls2)"
  then show ?thesis by (rule run_call_moved) (rule register_keeps)
qed simp

lemma listener_device_id:
  assumes "listener_device v p i name ls = (Inr d, ls2)" "engine_inv (repo_of ls)" "nul_free (ap_TenantID p)"
  shows "md_ID d = i \<and> i \<noteq> []"
  using listener_device_cases [OF assms(1)]
proof (elim disjE exE conjE)
  assume "\<forall>e. Inr d = Inr e \<longrightarrow> i \<noteq> [] \<and> GetManagedDevice (ap_TenantID p) i (repo_of ls) = Inr e"
  then have e: "i \<noteq> []" "mget (r_devices (repo_of ls)) (key [ap_TenantID p, i]) = Some d"
    by (auto simp: GetManagedDevice_def found_def split: option.splits)
  have "devices_inv (r_devices (repo_of ls))" using assms(2) by (simp add: engine_inv_def repo_inv_def)
  then show ?thesis using devices_invD(2, 3) [OF _ e(2)] key2_inject [OF assms(3)] e(1) by metis
next
  fix n y
  assume y: "run_engine (call_repo (RegisterProtocolDevice (v_sha (lv_env v)) p i n (v_now (lv_env v)))) ls = (y, ls2)"
    and d: "\<forall>e. Inr d = Inr e \<longrightarrow> i \<noteq> [] \<and> (\<exists>b. y = Inr (e, b, None))"
  then obtain b where b: "i \<noteq> []" "y = Inr (d, b, None)" by blast
  then have "fst (RegisterProtocolDevice (v_sha (lv_env v)) p i n (v_now (lv_env v)) (repo_of ls)) = (d, b, None)"
    using y by (simp add: run_engine_def call_repo_def repo_of_def)
  then show ?thesis using registered_id [OF assms(2)] b(1) by blast
qed

lemma ingest_moved:
  assumes "run_engine (IngestRaw v raw) ls = (x, ls2)" "nul_free (rm_TenantID raw)"
  shows "engine_moved ls ls2"
  by (rule run_engine_moved [OF assms(1) unlocked_IngestRaw [OF assms(2)]])

lemma ingest_children_moved:
  "ingest_children v i s p parent source index cs ls = (x, ls2) \<Longrightarrow> nul_free (ap_TenantID p) \<Longrightarrow> engine_moved ls ls2"
proof (induction cs arbitrary: index ls)
  case (Cons child cs)
  note 2 = Cons.IH Cons.prems
  show ?case
  proof (cases "child_binding s p child (repo_of ls)")
    case (Inl e)
    then show ?thesis using 2(2) by simp
  next
    case (Inr b)
    obtain product1 rel d where b: "b = (product1, rel, d)" by (cases b)
    obtain y ls1 where y: "run_engine (call_repo (RegisterProtocolChild (v_sha (lv_env v)) p (md_ID parent) (cf_Identity child)
           (v_now (lv_env v)))) ls = (y, ls1)" by fastforce
    have m: "engine_moved ls ls1" by (rule run_call_moved [OF y register_keeps(2)])
    show ?thesis
    proof (cases "\<exists>dev new. y = Inr (dev, new, None)")
      case False
      then have "ls2 = ls1" using 2(2) Inr b y by (auto split: sum.splits prod.splits option.splits)
      then show ?thesis using m by simp
    next
      case True
      then obtain dev new where yr: "y = Inr (dev, new, None)" by blast
      show ?thesis
      proof (cases "d = []")
        case True
        then have "ingest_children v i s p parent source (Suc index) cs ls1 = (x, ls2)" using 2(2) Inr b y yr by simp
        then have "engine_moved ls1 ls2" using 2(1) 2(3) by blast
        then show ?thesis by (rule engine_moved_trans [OF m])
      next
        case False
        obtain z ls3 where z: "run_engine (IngestRaw (lv_env v) (child_raw p parent source index product1 dev rel child)) ls1 = (z, ls3)"
          by fastforce
        have m3: "engine_moved ls ls3"
          by (rule engine_moved_trans [OF m ingest_moved [OF z]]) (simp add: child_raw_def 2(3))
        show ?thesis
        proof (cases z)
          case (Inl e)
          then have "ls2 = ls3" using 2(2) Inr b y yr z False by simp
          then show ?thesis using m3 by simp
        next
          case zr: (Inr u)
          then have "ingest_children v i s p parent source (Suc index) cs ls3 = (x, ls2)" using 2(2) Inr b y yr z False by simp
          then have "engine_moved ls3 ls2" using 2(1) 2(3) by blast
          then show ?thesis by (rule engine_moved_trans [OF m3])
        qed
      qed
    qed
  qed
qed simp

lemma ingestChildren_moved:
  "ingestChildren v i s p parent source cs ls = (x, ls2) \<Longrightarrow> nul_free (ap_TenantID p) \<Longrightarrow> engine_moved ls ls2"
  by (auto simp: ingestChildren_def split: if_splits intro: ingest_children_moved)

section \<open>The operations as moves\<close>

lemma moves_session: "ls_session ls i = Some s \<Longrightarrow> calm s t \<Longrightarrow> moves ls (put_session i t ls)"
  by (rule moves_one) (rule move.session)

lemma moves_host:
  "ls_host ls hid = Some h \<Longrightarrow> ho_sessions g = ho_sessions h \<Longrightarrow> ho_identified g = ho_identified h \<Longrightarrow>
    ho_kind g = ho_kind h \<Longrightarrow> ap_TenantID (ho_profile g) = ap_TenantID (ho_profile h) \<Longrightarrow>
    ap_ID (ho_profile g) = ap_ID (ho_profile h) \<Longrightarrow> moves ls (put_host hid g ls)"
  by (rule moves_one) (rule move.host)

lemma moves_closing: "moves ls (ls\<lparr>ls_closing := c\<rparr>)" and moves_failures: "moves ls (ls\<lparr>ls_failures := f\<rparr>)"
  using move.admin [of ls c "ls_failures ls"] move.admin [of ls "ls_closing ls" f] by (simp_all add: moves_one)

lemma moves_calls: "(\<And>i. ls_next ls \<le> i \<Longrightarrow> cs i = None) \<Longrightarrow> moves ls (ls\<lparr>ls_call := cs\<rparr>)"
  by (rule moves_one) (rule move.calls)

lemma moves_close_begin: "moves ls (close_begin i ls)"
  by (auto simp: close_begin_def calm_def split: option.split intro!: moves_session)

lemma moves_resolve_call: "moves ls (resolve_call c x ls)"
proof (rule moves_under)
  assume inv: "listeners_inv ls"
  have "(if i = c then y else ls_call ls i) = None" if "ls_call ls c = Some call" "ls_next ls \<le> i" for i y call
    using listeners_invD(2) [OF inv, of i] that by auto
  then show ?thesis
    by (auto simp: resolve_call_def put_call_def split: option.split intro!: moves_calls)
qed

lemma moves_fold: "(\<And>x ls. moves ls (f x ls)) \<Longrightarrow> moves ls (fold f xs ls)"
  by (induction xs arbitrary: ls) (auto intro: moves_trans)

lemma put_session_twice [simp]: "put_session i t (put_session i s ls) = put_session i t ls"
  and put_host_twice [simp]: "put_host i g (put_host i h ls) = put_host i g ls"
  by (simp_all add: put_session_def put_host_def)

lemma moves_close_mark:
  assumes "ls_session ls i = Some s" "ss_stage s = Shut" "ss_frame s = None"
  shows "moves ls (close_mark i ls)"
proof -
  have "moves ls (put_session i (s\<lparr>ss_pending := []\<rparr>) ls)"
    by (rule moves_one, rule move.forget [OF assms(1)]) simp
  then have "moves ls (put_session i (s\<lparr>ss_stage := Marked, ss_pending := []\<rparr>) ls)"
  proof (rule moves_then)
    have "s\<lparr>ss_stage := Marked, ss_pending := []\<rparr> = s\<lparr>ss_pending := [], ss_stage := Marked\<rparr>" by simp
    then show "move (put_session i (s\<lparr>ss_pending := []\<rparr>) ls) (put_session i (s\<lparr>ss_stage := Marked, ss_pending := []\<rparr>) ls)"
      using move.mark [of "put_session i (s\<lparr>ss_pending := []\<rparr>) ls" i "s\<lparr>ss_pending := []\<rparr>"] assms by (simp only:) simp
  qed
  then show ?thesis
    unfolding close_mark_def using assms(1)
    by (auto intro!: moves_trans [OF _ moves_fold] moves_resolve_call)
qed

text \<open>A report counts one connection more or less; the engine runs when the count leaves or reaches zero.\<close>

lemma report_moved:
  obtains e where "report v p d b ls = ls\<lparr>ls_engine := e, ls_log := Reported (key [ap_TenantID p, d]) b # ls_log ls\<rparr>"
    "engine_inv (repo_of ls) \<Longrightarrow> engine_inv (e_repo e)"
proof -
  let ?ls = "log_event (Reported (key [ap_TenantID p, d]) b) ls"
  let ?m = "ReportConnection (lv_env v) (ap_TenantID p) (ap_ProductID p) d b (lv_later v)"
  have "engine_moved ?ls (report v p d b ls)"
    unfolding report_def by (rule run_engine_moved [OF surjective_pairing unlocked_ReportConnection])
  then obtain e where e: "report v p d b ls = ?ls\<lparr>ls_engine := e\<rparr>"
    "engine_inv (repo_of ?ls) \<Longrightarrow> engine_inv (repo_of (report v p d b ls))" unfolding engine_moved_def by blast
  show ?thesis
  proof
    show "report v p d b ls = ls\<lparr>ls_engine := e, ls_log := Reported (key [ap_TenantID p, d]) b # ls_log ls\<rparr>"
      by (simp add: e(1) log_event_def)
  qed (use e in simp)
qed

lemma report_up:
  obtains e where "reportConnection v p d True ls = count_up (key [ap_TenantID p, d]) e ls"
    "engine_inv (repo_of ls) \<Longrightarrow> engine_inv (e_repo e)"
proof (cases "mget_or 0 (ls_counts ls) (key [ap_TenantID p, d]) > 0")
  case True
  show ?thesis
    by (rule that [of "ls_engine ls"]) (use True in \<open>simp_all add: reportConnection_def count_up_def Let_def repo_of_def\<close>)
next
  case False
  let ?k = "key [ap_TenantID p, d]"
  let ?ls = "ls\<lparr>ls_counts := mput (ls_counts ls) ?k (mget_or 0 (ls_counts ls) ?k + 1)\<rparr>"
  obtain e where e: "report v p d True ?ls = ?ls\<lparr>ls_engine := e, ls_log := Reported ?k True # ls_log ?ls\<rparr>"
    "engine_inv (repo_of ?ls) \<Longrightarrow> engine_inv (e_repo e)" using report_moved [of v p d True ?ls] by blast
  have "reportConnection v p d True ls = report v p d True ?ls"
    using False by (simp add: reportConnection_def Let_def)
  then show ?thesis
    by (intro that [of e]) (use False e in \<open>simp_all add: count_up_def Let_def repo_of_def\<close>)
qed

lemma report_down:
  obtains e where "reportConnection v p d False ls = count_down (key [ap_TenantID p, d]) e ls"
    "engine_inv (repo_of ls) \<Longrightarrow> engine_inv (e_repo e)"
proof (cases "mget_or 0 (ls_counts ls) (key [ap_TenantID p, d]) = 1")
  case False
  show ?thesis
    by (rule that [of "ls_engine ls"]) (use False in \<open>auto simp: reportConnection_def count_down_def Let_def repo_of_def\<close>)
next
  case True
  let ?k = "key [ap_TenantID p, d]"
  let ?ls = "ls\<lparr>ls_counts := mdel (ls_counts ls) ?k\<rparr>"
  obtain e where e: "report v p d False ?ls = ?ls\<lparr>ls_engine := e, ls_log := Reported ?k False # ls_log ?ls\<rparr>"
    "engine_inv (repo_of ?ls) \<Longrightarrow> engine_inv (e_repo e)" using report_moved [of v p d False ?ls] by blast
  have "reportConnection v p d False ls = report v p d False ?ls"
    using True by (simp add: reportConnection_def Let_def)
  then show ?thesis
    by (intro that [of e]) (use True e in \<open>simp_all add: count_down_def Let_def repo_of_def\<close>)
qed

lemma count_put:
  "count_up k e (put_session i s ls) = put_session i s (count_up k e ls)"
  "count_down k e (put_session i s ls) = put_session i s (count_down k e ls)"
  by (simp_all add: count_up_def count_down_def put_session_def Let_def)

lemma moves_close_report:
  assumes s: "ls_session ls i = Some s" "ss_stage s = Unlinked"
  shows "moves ls (close_report v i ls)"
proof (rule moves_one)
  assume inv: "listeners_inv ls"
  obtain h where h: "ls_host ls (ss_host s) = Some h"
    using listeners_invD(5) [OF inv s(1)] by (auto simp: session_ok_def)
  let ?t = "s\<lparr>ss_stage := Gone\<rparr>"
  obtain e where e: "reportConnection v (ho_profile h) (ss_deviceID s) False (put_session i ?t ls) =
      count_down (connection_key h (ss_deviceID s)) e (put_session i ?t ls)" "engine_inv (e_repo e)"
    by (rule report_down [of v "ho_profile h" "ss_deviceID s" "put_session i ?t ls", folded connection_key_def])
      (use listeners_invD(1) [OF inv] in simp)
  have "close_report v i ls = put_session i ?t
      (if ss_deviceID s = [] then ls else count_down (connection_key h (ss_deviceID s)) e ls)"
    using s h e(1) by (simp add: close_report_def Let_def count_put)
  then show "move ls (close_report v i ls)" using move.leave [OF s h e(2)] by simp
qed

end
