(* ===== verification/Listener_Frames.thy ===== *)
theory Listener_Frames
  imports Listener_Steps
begin

text \<open>
  The steps of frames, hosts and commands as sequences of moves, and so the invariant of every state the
  listeners reach.
\<close>

section \<open>Frames\<close>

lemma engine_moved_put:
  assumes "engine_moved a b"
  shows "engine_moved (put_session i t a) (put_session i t b)"
proof -
  obtain e where e: "b = a\<lparr>ls_engine := e\<rparr>" using assms by (auto simp: engine_moved_def)
  then have "put_session i t b = put_session i t a\<lparr>ls_engine := e\<rparr>" by (simp add: put_session_def)
  then have "\<exists>e. put_session i t b = put_session i t a\<lparr>ls_engine := e\<rparr>" ..
  moreover have "engine_inv (repo_of a) \<longrightarrow> engine_inv (repo_of b)" using assms by (simp add: engine_moved_def)
  ultimately show ?thesis unfolding engine_moved_def put_simps(6) by blast
qed

lemma moves_host_error: "moves ls (host_error hid e ls)"
  by (auto simp: host_error_def split: option.split intro!: moves_host)

lemma moves_frame_failed: "moves ls (frame_failed i e ls)"
proof (cases "ls_session ls i")
  case (Some s)
  let ?t = "s\<lparr>ss_frame := None, ss_ended := ss_stream s \<or> ss_ended s\<rparr>"
  have d: "moves ls (put_session i ?t ls)" by (rule moves_one) (rule move.drop_frame [OF Some])
  show ?thesis
  proof (cases "ss_stream s")
    case True
    let ?u = "s\<lparr>ss_frame := None, ss_reading := False, ss_ended := True\<rparr>"
    have "calm ?t ?u" using True by (simp add: calm_def)
    then have "moves (put_session i ?t ls) (put_session i ?u (put_session i ?t ls))" by (intro moves_session) simp_all
    then have "moves ls (put_session i ?u ls)" using moves_trans [OF d] by simp
    then show ?thesis
      using Some True moves_trans [OF moves_trans [OF _ moves_host_error] moves_close_begin]
      by (simp add: frame_failed_def)
  next
    case False
    let ?u = "s\<lparr>ss_frame := None, ss_packets := tl (ss_packets s)\<rparr>"
    have "calm ?t ?u" using False by (simp add: calm_def)
    then have "moves (put_session i ?t ls) (put_session i ?u (put_session i ?t ls))" by (intro moves_session) simp_all
    then show ?thesis using moves_trans [OF d] Some False by (simp add: frame_failed_def)
  qed
qed (simp add: frame_failed_def)

lemma frame_failed_frame:
  "ls_session ls i = Some s \<Longrightarrow> frame_failed i e (put_session i (s\<lparr>ss_frame := Some a\<rparr>) ls) = frame_failed i e ls"
  by (simp add: frame_failed_def)

lemma raw_normal:
  "rm_Payload (Normalize w (frame_raw v p s d bytes1 cs)) = marshal_hex bytes1"
  "rm_TenantID (Normalize w (frame_raw v p s d bytes1 cs)) = ap_TenantID p"
  by (simp_all add: Normalize_def frame_raw_def Let_def)

text \<open>An ingested frame is held by its session, or would have been but for an error among its children.\<close>

lemma frame_ingest_moves:
  assumes inv: "listeners_inv ls" and s: "ls_session ls i = Some s" "ss_frame s = None" "open_stage s" "\<not> ss_ended s"
    and h: "ls_host ls (ss_host s) = Some h" and d: "ss_stream s \<longrightarrow> d = ss_buffer s"
    and n: "0 < wp_Consumed x" "wp_Consumed x \<le> int (length d)"
    and f: "frame_ingest v i s (ho_profile h) d x reply1 ls = (y, ls2)"
  shows "(case y of Inl e \<Rightarrow> moves ls ls2 \<or> ls_session ls2 i = Some s \<and> (\<exists>a. moves ls (put_session i (s\<lparr>ss_frame := Some a\<rparr>) ls2))
    | Inr z \<Rightarrow> z \<noteq> None \<and> moves ls ls2)"
proof -
  let ?p = "ho_profile h"
  define dev where "dev = (let pick = (\<lambda>a b. if a = [] then b else a)
    in pick (pick (trim_space (wp_DeviceID x)) (ss_deviceID s)) (ap_DeviceID ?p))"
  have t: "nul_free (ap_TenantID ?p)" using listeners_invD(4) [OF inv h] by (simp add: host_ok_def)
  note fd = f [unfolded frame_ingest_def Let_def, folded dev_def [unfolded Let_def]]
  show ?thesis
  proof (cases "ss_deviceID s \<noteq> [] \<and> dev \<noteq> ss_deviceID s \<or> wp_Children x \<noteq> [] \<and> ss_deviceID s = []")
    case True
    then show ?thesis using fd by (auto split: if_splits)
  next
    case False
    then have same: "ss_deviceID s \<noteq> [] \<longrightarrow> dev = ss_deviceID s" by blast
    have g: "\<not> (ss_deviceID s \<noteq> [] \<and> dev \<noteq> ss_deviceID s)" "\<not> (wp_Children x \<noteq> [] \<and> ss_deviceID s = [])"
      using False by blast+
    obtain r ls1 where r: "listener_device v ?p dev (wp_DeviceName x) ls = (r, ls1)" by fastforce
    have m1: "engine_moved ls ls1" by (rule listener_device_moved [OF r])
    note f1 = fd [unfolded if_not_P [OF g(1)] if_not_P [OF g(2)] r prod.case]
    show ?thesis
    proof (cases r)
      case (Inl e)
      then show ?thesis using f1 engine_moved_moves [OF m1] by auto
    next
      case (Inr device)
      have id: "md_ID device = dev" "dev \<noteq> []"
        using listener_device_id [OF r [unfolded Inr] listeners_invD(1) [OF inv] t] by blast+
      define raw where "raw = Normalize (lv_env v) (frame_raw v ?p s device (take (nat (wp_Consumed x)) d) (wp_Children x))"
      define a where "a = \<lparr>ac_profile = ?p, ac_device = device, ac_response = x, ac_reply = reply1, ac_raw = raw\<rparr>"
      note f2 = f1 [unfolded Inr sum.case, folded raw_def]
      show ?thesis
      proof (cases "lv_validate v ?p (repo_of ls1)")
        case (Some e)
        then show ?thesis using f2 engine_moved_moves [OF m1] by auto
      next
        case None
        obtain q ls3 where q: "run_engine (IngestRaw (lv_env v) raw) ls1 = (q, ls3)" by fastforce
        have m3: "engine_moved ls ls3"
          by (rule engine_moved_trans [OF m1 ingest_moved [OF q]]) (simp add: raw_def raw_normal t)
        note f3 = f2 [unfolded None option.case q prod.case]
        show ?thesis
        proof (cases q)
          case (Inl e)
          then show ?thesis using f3 engine_moved_moves [OF m3] by auto
        next
          case qr: (Inr u)
          let ?log = "log_event (Ingested i raw) ls3"
          obtain c ls4 where c: "ingestChildren v i s ?p device raw (wp_Children x) ?log = (c, ls4)" by fastforce
          have m4: "engine_moved ?log ls4" by (rule ingestChildren_moved [OF c t])
          have fits: "frame_fits s h a"
            using same id n d by (auto simp: frame_fits_def a_def raw_def raw_normal)
          have "ls_session ls3 i = Some s" "ls_host ls3 (ss_host s) = Some h"
            using engine_moved_same [OF m3] s h by simp_all
          then have "move ls3 (put_session i (s\<lparr>ss_frame := Some a\<rparr>) ?log)"
            using move.ingest [of ls3 i s h a] s(2-4) fits by (simp add: a_def)
          then have "moves ls (put_session i (s\<lparr>ss_frame := Some a\<rparr>) ?log)"
            by (intro moves_then [OF engine_moved_moves [OF m3]])
          then have m: "moves ls (put_session i (s\<lparr>ss_frame := Some a\<rparr>) ls4)"
            by (rule moves_trans) (rule engine_moved_moves [OF engine_moved_put [OF m4]])
          have s4: "ls_session ls4 i = Some s" using engine_moved_same(1) [OF m4] engine_moved_same(1) [OF m3] s(1) by simp
          note f4 = f3 [unfolded qr sum.case c prod.case]
          show ?thesis
          proof (cases c)
            case (Inl e)
            then have "y = Inl e" "ls2 = ls4" using f4 by auto
            then show ?thesis using m s4 by auto
          next
            case cr: (Inr w)
            then have "y = Inr (Some a)" "ls2 = put_session i (s\<lparr>ss_frame := Some a\<rparr>) ls4"
              using f4 by (auto simp: a_def)
            then show ?thesis using m by simp
          qed
        qed
      qed
    qed
  qed
qed

lemma selectRelease_calm: "selectRelease p r s = Inr t \<Longrightarrow> calm s t \<and> ss_stage t = ss_stage s"
  by (auto simp: selectRelease_def bind_res_def calm_def split: if_splits sum.splits)

text \<open>What frame_accept leaves: moves, but for a frame whose children failed, which frame_failed drops.\<close>

definition frame_left :: "nat \<Rightarrow> listeners \<Rightarrow> accepted_frame option res \<Rightarrow> listeners \<Rightarrow> bool" where
  "frame_left i ls y ls2 \<longleftrightarrow> (case y of
     Inl e \<Rightarrow> moves ls ls2 \<or> (\<exists>s a. ls_session ls2 i = Some s \<and> moves ls (put_session i (s\<lparr>ss_frame := Some a\<rparr>) ls2))
   | Inr z \<Rightarrow> moves ls ls2)"

lemma frame_accept_left:
  assumes inv: "listeners_inv ls" and s: "ls_session ls i = Some s" "ss_frame s = None" "\<not> ss_ended s"
    and d: "ss_stream s \<longrightarrow> d = ss_buffer s" and f: "frame_accept v i d datagram ls = (y, ls2)"
  shows "frame_left i ls y ls2"
proof -
  obtain h where h: "ls_host ls (ss_host s) = Some h"
    using listeners_invD(5) [OF inv s(1)] by (auto simp: session_ok_def)
  let ?p = "ho_profile h"
  note f1 = f [unfolded frame_accept_def s(1) h option.case Let_def]
  show ?thesis
  proof (cases "(ss_stage s \<notin> {Live, Shut} \<or> \<not> ho_live h) \<or> (ss_deviceID s \<noteq> [] \<and> mget (ho_identified h) (ss_deviceID s) \<noteq> Some i)")
    case True
    then have "ls2 = ls" using f1 by (auto split: if_splits)
    then show ?thesis using True f1 by (auto simp: frame_left_def split: if_splits sum.split)
  next
    case False
    then have g: "\<not> (ss_stage s \<notin> {Live, Shut} \<or> \<not> ho_live h)"
      "\<not> (ss_deviceID s \<noteq> [] \<and> mget (ho_identified h) (ss_deviceID s) \<noteq> Some i)" by blast+
    note f2 = f1 [unfolded if_not_P [OF g(1)] if_not_P [OF g(2)]]
    show ?thesis
    proof (cases "selectRelease ?p (repo_of ls) s")
      case (Inl e)
      then show ?thesis using f2 by (auto simp: frame_left_def)
    next
      case (Inr t)
      let ?ls = "put_session i t ls"
      have c: "calm s t" "ss_stage t = ss_stage s" using selectRelease_calm [OF Inr] by auto
      have m: "moves ls ?ls" by (rule moves_session [OF s(1) c(1)])
      have inv1: "listeners_inv ?ls" by (rule moves_inv [OF m inv])
      have t: "ls_session ?ls i = Some t" "ss_frame t = None" "open_stage t" "\<not> ss_ended t" "ls_host ?ls (ss_host t) = Some h"
        "ss_stream t \<longrightarrow> d = ss_buffer t" "ss_stream t = ss_stream s"
        using c g(1) s h d by (auto simp: calm_def open_stage_def)
      note f3 = f2 [unfolded Inr sum.case]
      show ?thesis
      proof (cases "session_invoke v ?p (zero_worker_request\<lparr>wq_Operation := ''ingress'',
          wq_Data := to_lower (hex_upper d), wq_Now := v_now (lv_env v)\<rparr>) t")
        case (Inl e)
        then show ?thesis using f3 m by (auto simp: frame_left_def)
      next
        case ir: (Inr x)
        note f4 = f3 [unfolded ir sum.case]
        show ?thesis
        proof (cases "wp_NeedMore x")
          case True
          let ?u = "t\<lparr>ss_partial := True, ss_frameStarted := (if ss_partial t then ss_frameStarted t else lv_later v)\<rparr>"
          have "moves ?ls (put_session i ?u ?ls)" by (rule moves_session [OF t(1)]) (simp add: calm_def)
          then have "moves ls (put_session i ?u ls)" using moves_trans [OF m] by simp
          then show ?thesis using f4 True m by (auto simp: frame_left_def split: if_splits)
        next
          case False
          show ?thesis
          proof (cases "wp_Consumed x \<le> 0 \<or> int (length d) < wp_Consumed x \<or> (datagram \<and> wp_Consumed x \<noteq> int (length d))")
            case True
            then show ?thesis using f4 False m by (auto simp: frame_left_def)
          next
            case n: False
            note f5 = f4 [unfolded if_not_P [OF False] if_not_P [OF n]]
            show ?thesis
            proof (cases "hex_decode (wp_Reply x)")
              case None
              then show ?thesis using f5 m by (auto simp: frame_left_def)
            next
              case (Some b)
              have "frame_ingest v i t ?p d x b ?ls = (y, ls2)" using f5 Some by simp
              then show ?thesis
                using frame_ingest_moves [OF inv1 t(1-6), of x v b y ls2] n m
                by (auto simp: frame_left_def split: sum.splits intro: moves_trans)
            qed
          qed
        qed
      qed
    qed
  qed
qed

lemma moves_frame_start:
  assumes s: "ls_session ls i = Some s" "ss_frame s = None" "\<not> ss_ended s"
  shows "moves ls (frame_start v i ls)"
proof (rule moves_under)
  assume inv: "listeners_inv ls"
  obtain y ls2 where y: "frame_accept v i (frame_input s) (\<not> ss_stream s) ls = (y, ls2)" by fastforce
  have left: "frame_left i ls y ls2"
    by (rule frame_accept_left [OF inv s _ y]) (simp add: frame_input_def)
  show ?thesis
  proof (cases y)
    case (Inl e)
    then consider "moves ls ls2" | t a where "ls_session ls2 i = Some t" "moves ls (put_session i (t\<lparr>ss_frame := Some a\<rparr>) ls2)"
      using left by (auto simp: frame_left_def)
    then have "moves ls (frame_failed i e ls2)"
    proof cases
      case 2
      then show ?thesis using moves_trans [OF 2(2) moves_frame_failed [of _ i e]] frame_failed_frame [OF 2(1)] by simp
    qed (rule moves_trans [OF _ moves_frame_failed])
    then show ?thesis using Inl s(1) y by (simp add: frame_start_def)
  next
    case (Inr z)
    then have m: "moves ls ls2" using left by (simp add: frame_left_def)
    have "moves ls (put_session i (t\<lparr>ss_reading := True\<rparr>) ls2)" if "ls_session ls2 i = Some t" for t
      by (rule moves_trans [OF m moves_session [OF that]]) (simp add: calm_def)
    then show ?thesis using m Inr s(1) y by (auto simp: frame_start_def split: option.split)
  qed
qed

text \<open>The second part of a frame keeps it in its session until its bytes are taken.\<close>

definition holds :: "nat \<Rightarrow> accepted_frame \<Rightarrow> listeners \<Rightarrow> bool" where
  "holds i a ls \<longleftrightarrow> (\<exists>s. ls_session ls i = Some s \<and> ss_frame s = Some a)"

lemma report_same [simp]:
  "ls_session (reportConnection v p d True ls) = ls_session ls" "ls_host (reportConnection v p d True ls) = ls_host ls"
proof -
  obtain e where e: "reportConnection v p d True ls = count_up (key [ap_TenantID p, d]) e ls"
    using report_up [of v p d ls] by blast
  show "ls_session (reportConnection v p d True ls) = ls_session ls" "ls_host (reportConnection v p d True ls) = ls_host ls"
    unfolding e by simp_all
qed

lemma register_eq:
  assumes "ls_session ls i = Some s" "ls_host ls (ss_host s) = Some h"
  shows "\<exists>c. frame_register v i a ls = (put_host (ss_host s) (h\<lparr>ho_identified := mput (ho_identified h) (md_ID (ac_device a)) i,
      ho_lastError := [], ho_lastAcceptedAt := max (ho_lastAcceptedAt h) (lv_later v)\<rparr>)
    (put_session i (s\<lparr>ss_partial := False, ss_deviceID := md_ID (ac_device a), ss_lastSeen := lv_later v,
        ss_state := wp_State (ac_response a)\<rparr>)
      (if ss_deviceID s = [] then reportConnection v (ac_profile a) (md_ID (ac_device a)) True ls else ls)))\<lparr>ls_closing := c\<rparr>"
    (is "\<exists>c. _ = ?ls\<lparr>ls_closing := c\<rparr>")
proof (cases "\<exists>j. mget (ho_identified h) (md_ID (ac_device a)) = Some j \<and> j \<noteq> i")
  case True
  then obtain j where "mget (ho_identified h) (md_ID (ac_device a)) = Some j" "j \<noteq> i" by blast
  then have "frame_register v i a ls = ?ls\<lparr>ls_closing := j # ls_closing ?ls\<rparr>"
    using assms by (simp add: frame_register_def Let_def)
  then show ?thesis ..
next
  case False
  then have "frame_register v i a ls = ?ls" using assms by (auto simp: frame_register_def Let_def split: option.split)
  then have "frame_register v i a ls = ?ls\<lparr>ls_closing := ls_closing ?ls\<rparr>" by simp
  then show ?thesis ..
qed

lemma register_moves:
  assumes s: "ls_session ls i = Some s" "ss_frame s = Some a"
  shows "moves ls (frame_register v i a ls)" "holds i a (frame_register v i a ls)"
proof -
  define dev where "dev = md_ID (ac_device a)"
  define s1 where "s1 = s\<lparr>ss_partial := False, ss_deviceID := dev, ss_lastSeen := lv_later v, ss_state := wp_State (ac_response a)\<rparr>"
  define ls1 where "ls1 = (if ss_deviceID s = [] then reportConnection v (ac_profile a) dev True ls else ls)"
  have mv: "moves ls (frame_register v i a ls)"
  proof (rule moves_under)
    assume inv: "listeners_inv ls"
    obtain h where h: "ls_host ls (ss_host s) = Some h" and fits: "frame_fits s h a" and open1: "open_stage s"
      using listeners_invD(5) [OF inv s(1)] s(2) by (auto simp: session_ok_def)
    have t: "ap_TenantID (ac_profile a) = ap_TenantID (ho_profile h)" "dev \<noteq> []" "ss_deviceID s \<noteq> [] \<Longrightarrow> dev = ss_deviceID s"
      using fits by (simp_all add: frame_fits_def dev_def)
    define h1 where "h1 = h\<lparr>ho_identified := mput (ho_identified h) dev i, ho_lastError := [],
      ho_lastAcceptedAt := max (ho_lastAcceptedAt h) (lv_later v)\<rparr>"
    have m1: "moves ls (put_session i s1 ls1)" and h1': "ls_host ls1 = ls_host ls"
    proof -
      show "moves ls (put_session i s1 ls1)"
      proof (cases "ss_deviceID s = []")
        case True
        obtain e where e: "ls1 = count_up (connection_key h dev) e ls" "engine_inv (e_repo e)"
        proof -
          obtain e where "reportConnection v (ac_profile a) dev True ls = count_up (connection_key h dev) e ls" "engine_inv (e_repo e)"
            using report_up [of v "ac_profile a" dev ls] listeners_invD(1) [OF inv] unfolding connection_key_def t(1) by blast
          then show ?thesis using that True by (simp add: ls1_def)
        qed
        let ?t = "s\<lparr>ss_deviceID := dev\<rparr>"
        have "moves ls (put_session i ?t ls1)"
          unfolding e(1) dev_def by (rule moves_one) (rule move.identify [OF s open1 True h e(2)])
        moreover have "moves (put_session i ?t ls1) (put_session i s1 (put_session i ?t ls1))"
          by (rule moves_session [where s = ?t]) (simp_all add: calm_def s1_def)
        ultimately show ?thesis using moves_trans by fastforce
      next
        case False
        then show ?thesis using moves_session [OF s(1), of s1] t(3) by (simp add: ls1_def calm_def s1_def)
      qed
      show "ls_host ls1 = ls_host ls" by (simp add: ls1_def)
    qed
    let ?g = "h\<lparr>ho_identified := mput (ho_identified h) dev i\<rparr>"
    have "move (put_session i s1 ls1) (put_host (ss_host s) ?g (put_session i s1 ls1))"
      using move.claim [of "put_session i s1 ls1" i s1 h] open1 t(2) h h1' by (simp add: s1_def open_stage_def)
    then have m2: "moves ls (put_host (ss_host s) ?g (put_session i s1 ls1))" by (rule moves_then [OF m1])
    have "moves (put_host (ss_host s) ?g (put_session i s1 ls1)) (put_host (ss_host s) h1 (put_host (ss_host s) ?g (put_session i s1 ls1)))"
      by (rule moves_host [where h = ?g]) (simp_all add: h1_def)
    then have m3: "moves ls (put_host (ss_host s) h1 (put_session i s1 ls1))" using moves_trans [OF m2] by simp
    obtain c where "frame_register v i a ls = (put_host (ss_host s) h1 (put_session i s1 ls1))\<lparr>ls_closing := c\<rparr>"
      using register_eq [OF s(1) h, of v a] unfolding dev_def h1_def s1_def ls1_def by blast
    then show "moves ls (frame_register v i a ls)" using moves_trans [OF m3 moves_closing] by simp
  qed
  then show "moves ls (frame_register v i a ls)" .
  show "holds i a (frame_register v i a ls)"
  proof (cases "ls_host ls (ss_host s)")
    case None
    then show ?thesis using s by (simp add: frame_register_def holds_def)
  next
    case (Some h)
    then show ?thesis using register_eq [OF s(1) Some, of v a] s(2) by (auto simp: holds_def)
  qed
qed

lemma deliver_moves:
  assumes "holds i a ls"
  shows "moves ls (frame_deliver i a ls)" "holds i a (frame_deliver i a ls)"
proof -
  obtain s where s: "ls_session ls i = Some s" "ss_frame s = Some a" using assms by (auto simp: holds_def)
  let ?k = "wp_CorrelationID (ac_response a)"
  have m: "moves ls (log_event (Acknowledged c (rm_MessageID (ac_raw a))) (put_session i (s\<lparr>ss_pending := mdel (ss_pending s) ?k\<rparr>) ls))"
    if "mget (ss_pending s) ?k = Some c" for c
    by (rule moves_one) (rule move.acknowledge [OF s that])
  have r: "ls_session (resolve_call c x ls) = ls_session ls" for c x ls
    by (simp add: resolve_call_def put_call_def split: option.split)
  show "moves ls (frame_deliver i a ls)"
    using s(1) moves_trans [OF m moves_resolve_call] by (auto simp: frame_deliver_def Let_def split: option.split)
  show "holds i a (frame_deliver i a ls)"
    using s by (auto simp: frame_deliver_def Let_def holds_def r split: option.split)
qed

lemma moves_take:
  assumes s: "ls_session ls i = Some s" "ss_frame s = Some a"
  shows "moves ls (put_session i (frame_take (nat (wp_Consumed (ac_response a))) s) ls)"
proof -
  let ?n = "nat (wp_Consumed (ac_response a))"
  let ?t = "s\<lparr>ss_frame := None, ss_buffer := (if ss_stream s then drop ?n (ss_buffer s) else ss_buffer s)\<rparr>"
  have "moves ls (put_session i ?t ls)" by (rule moves_one) (rule move.consume [OF s])
  moreover have "moves (put_session i ?t ls) (put_session i (frame_take ?n s) (put_session i ?t ls))"
    by (rule moves_session [where s = ?t]) (simp_all add: calm_def frame_take_def)
  ultimately show ?thesis using moves_trans by fastforce
qed

lemma moves_frame_end:
  assumes s: "ls_session ls i = Some s" "ss_frame s \<noteq> None"
  shows "moves ls (frame_end v i ls)"
proof -
  obtain a where a: "ss_frame s = Some a" using s(2) by blast
  let ?ls1 = "frame_register v i a ls"
  have m1: "moves ls ?ls1" and h1: "holds i a ?ls1" by (rule register_moves [OF s(1) a])+
  let ?ls2 = "if ac_reply a = [] then ?ls1 else log_event (Replied i (ac_reply a) (rm_MessageID (ac_raw a))) ?ls1"
  have m2: "moves ls ?ls2" and h2: "holds i a ?ls2"
    using m1 h1 moves_then [OF m1] move.answer [of ?ls1 i _ a] by (auto simp: holds_def)
  show ?thesis
  proof (cases "ac_reply a \<noteq> [] \<and> lv_write v (ac_reply a) \<noteq> None")
    case True
    then show ?thesis
      using s(1) a moves_trans [OF m2 moves_frame_failed] by (auto simp: frame_end_def frame_commit_def Let_def)
  next
    case False
    let ?ls3 = "frame_deliver i a ?ls2"
    have m3: "moves ls ?ls3" by (rule moves_trans [OF m2 deliver_moves(1) [OF h2]])
    obtain t where t: "ls_session ?ls3 i = Some t" "ss_frame t = Some a"
      using deliver_moves(2) [OF h2] unfolding holds_def by blast
    have "frame_end v i ls = put_session i (frame_take (nat (wp_Consumed (ac_response a))) t) ?ls3"
      using s(1) a False t(1) by (auto simp: frame_end_def frame_commit_def Let_def split: option.split)
    then show ?thesis using moves_trans [OF m3 moves_take [OF t]] by simp
  qed
qed

end
