(* ===== verification/Listener_Runs.thy ===== *)
theory Listener_Runs
  imports Listener_Frames
begin

text \<open>
  Hosts and commands as sequences of moves, and runs of the listeners: every step of a run is composed of
  moves, so what moves keep holds of every state reached.
\<close>

section \<open>Hosts\<close>

lemma add_put [simp]: "add_session hid r b n g (put_host hid h ls) = add_session hid r b n g ls"
  by (simp add: add_session_def put_host_def put_session_def Let_def)

lemma moves_add:
  "ls_host ls hid = Some h \<Longrightarrow> (ho_kind h \<noteq> Dials \<Longrightarrow> length (ho_sessions h) < listenerMaxSessions) \<Longrightarrow>
    moves ls (add_session hid remote stream now h ls)"
  by (rule moves_one) (rule move.add)

lemma moves_accept: "moves ls (accept_connection v hid remote ls)"
  by (auto simp: accept_connection_def split: option.split intro!: moves_add)

lemma moves_dial: "moves ls (snd (dial_turn v nw cidrs n hid remote ls))"
proof (cases "ls_host ls hid")
  case (Some h)
  let ?g = "h\<lparr>ho_lastError := []\<rparr>"
  have "moves ls (add_session hid remote True (v_now (lv_env v)) ?g ls)" if "ho_kind h = Dials"
  proof (rule moves_trans)
    show "moves ls (put_host hid ?g ls)" by (rule moves_host [OF Some]) simp_all
    have "moves (put_host hid ?g ls) (add_session hid remote True (v_now (lv_env v)) ?g (put_host hid ?g ls))"
      by (rule moves_add) (simp_all add: that)
    then show "moves (put_host hid ?g ls) (add_session hid remote True (v_now (lv_env v)) ?g ls)" by simp
  qed
  then show ?thesis using Some
    by (auto simp: dial_turn_def Let_def moves_host_error split: sum.split option.split)
qed (simp add: dial_turn_def)

lemma moves_datagram: "moves ls (receive_datagram v hid remote d ls)"
proof (cases "ls_host ls hid")
  case (Some h)
  define ls1 where "ls1 = (if mget (ho_sessions h) remote = None \<and> length (ho_sessions h) < listenerMaxSessions
    then add_session hid remote False (v_now (lv_env v)) h ls else ls)"
  have m: "moves ls ls1" using Some by (auto simp: ls1_def intro: moves_add)
  have "moves ls (put_session i (offer_packet d s) ls1)" if "ls_session ls1 i = Some s" for i s
    by (rule moves_trans [OF m moves_session [OF that]]) (simp add: calm_def offer_packet_def)
  then show ?thesis using Some m
    by (auto simp: receive_datagram_def Let_def ls1_def [symmetric] split: option.split)
qed (simp add: receive_datagram_def)

lemma moves_close_all: "moves ls (close_all is ls)"
  by (simp add: close_all_def moves_closing)

lemma moves_expire: "moves ls (expireUDP v hid ls)"
  by (auto simp: expireUDP_def moves_close_all split: option.split)

lemma moves_stop_host: "moves ls (stop_host hid ls)"
proof (cases "ls_host ls hid")
  case (Some h)
  have "moves ls (put_host hid (h\<lparr>ho_live := False\<rparr>) ls)" by (rule moves_host [OF Some]) simp_all
  then show ?thesis using moves_trans [OF _ moves_close_all] Some by (simp add: stop_host_def)
qed (simp add: stop_host_def)

lemma stop_host_hosts: "ls_hosts (stop_host hid ls) = ls_hosts ls"
  by (simp add: stop_host_def close_all_def split: option.split)

lemma stop_hosts_hosts: "ls_hosts (fold stop_host xs ls) = ls_hosts ls"
  by (induction xs arbitrary: ls) (simp_all add: stop_host_hosts)

lemma moves_unhost:
  "(\<And>k hid. mget m k = Some hid \<Longrightarrow> mget (ls_hosts ls) k = Some hid) \<Longrightarrow> moves ls (ls\<lparr>ls_hosts := m\<rparr>)"
  by (rule moves_one) (rule move.unhost)

lemma mget_filter_key: "mget (filter (\<lambda>e. P (fst e)) m) k = (if P k then mget m k else None)"
  by (induction m) (auto simp: mget_def)

lemma moves_stop: "moves ls (stop_listeners ls)"
proof -
  have "moves ls (fold stop_host (mvals (ls_hosts ls)) ls)" by (rule moves_fold) (rule moves_stop_host)
  then show ?thesis unfolding stop_listeners_def by (rule moves_trans) (rule moves_unhost, simp)
qed

section \<open>Reconciliation\<close>

lemma moves_open_host:
  assumes p: "nul_free (ap_TenantID p)" and k: "k = listenerKey (ap_TenantID p) (ap_ID p)"
  shows "moves ls (open_host v k p ls)"
proof -
  define h where "h = \<lparr>ho_profile = p, ho_kind = host_kind_of p, ho_live = True, ho_sessions = [], ho_identified = [],
    ho_lastAcceptedAt = 0, ho_lastError = []\<rparr>"
  let ?ls = "put_host (ls_next ls) h (ls\<lparr>ls_next := Suc (ls_next ls), ls_hosts := mput (ls_hosts ls) k (ls_next ls)\<rparr>)"
  have m: "moves ls ?ls" by (rule moves_one, rule move.open_one) (simp_all add: h_def p k)
  have e: "put_host (ls_next ls) h (ls\<lparr>ls_next := Suc (ls_next ls), ls_hosts := mput (ls_hosts ls) k (ls_next ls),
      ls_failures := f\<rparr>) = ?ls\<lparr>ls_failures := f\<rparr>" for f
    by (simp add: put_host_def)
  have "moves ls (?ls\<lparr>ls_failures := f\<rparr>)" for f by (rule moves_trans [OF m moves_failures])
  moreover have "moves ls (fail_host k x ls)" for x by (simp add: fail_host_def moves_failures)
  ultimately show ?thesis
    by (auto simp: open_host_def Let_def e h_def [symmetric] split: sum.split option.split)
qed

lemma moves_reconcile_profile:
  assumes p: "nul_free (ap_TenantID p)"
  shows "moves ls (reconcile_profile v p ls)"
proof (rule moves_under)
  assume inv: "listeners_inv ls"
  define k where "k = listenerKey (ap_TenantID p) (ap_ID p)"
  note op = moves_open_host [OF p k_def]
  have del: "moves ls' (ls'\<lparr>ls_hosts := mdel (ls_hosts ls') k\<rparr>)" for ls'
    by (rule moves_unhost) (simp split: if_splits)
  show "moves ls (reconcile_profile v p ls)"
  proof (cases "mget (ls_hosts ls) k")
    case None
    then show ?thesis using op by (simp add: reconcile_profile_def Let_def k_def [symmetric])
  next
    case (Some hid)
    obtain h where h: "ls_host ls hid = Some h" and kh: "k = listenerKey (ap_TenantID (ho_profile h)) (ap_ID (ho_profile h))"
      using listeners_invD(3) [OF inv Some] by blast
    have t: "nul_free (ap_TenantID (ho_profile h))" using listeners_invD(4) [OF inv h] by (simp add: host_ok_def)
    then have "ap_TenantID p = ap_TenantID (ho_profile h)" "ap_ID p = ap_ID (ho_profile h)"
      using key2_inject [OF p t] kh by (simp_all add: k_def listenerKey_def)
    then have "moves ls (put_host hid (h\<lparr>ho_profile := p\<rparr>) ls)" by (intro moves_host [OF h]) simp_all
    moreover have "moves ls (open_host v k p ((stop_host hid ls)\<lparr>ls_hosts := mdel (ls_hosts ls) k\<rparr>))"
    proof (rule moves_trans [OF moves_trans [OF moves_stop_host]])
      show "moves (stop_host hid ls) ((stop_host hid ls)\<lparr>ls_hosts := mdel (ls_hosts ls) k\<rparr>)"
        using del [of "stop_host hid ls"] by (simp add: stop_host_hosts)
    qed (rule op)
    ultimately show ?thesis using Some h by (simp add: reconcile_profile_def Let_def k_def [symmetric])
  qed
qed

lemma moves_reconcile_profiles:
  "(\<forall>p \<in> set ps. nul_free (ap_TenantID p)) \<Longrightarrow> moves ls (snd (reconcile_profiles v ps w ls))"
proof (induction ps arbitrary: w ls)
  case (Cons p ps)
  have "moves ls (reconcile_profile v (lower_network p) ls)"
    by (rule moves_reconcile_profile) (simp add: lower_network_def Cons.prems)
  then show ?case using Cons moves_trans by (auto simp: Cons.IH)
qed simp

lemma listed_tenants:
  assumes "engine_inv r" "p \<in> set (ListDeviceAccessProfiles t r)"
  shows "nul_free (ap_TenantID p)"
proof -
  have "profiles_inv (r_accessProfiles r)" using assms(1) by (simp add: engine_inv_def repo_inv_def)
  then show ?thesis
    using assms(2) clone_profile_tenant
    by (auto simp: ListDeviceAccessProfiles_def mfilter_def mvals_def profiles_inv_def mall_def)
qed

lemma moves_reconcile: "moves ls (reconcile v ls)"
proof (rule moves_under)
  assume inv: "listeners_inv ls"
  obtain w ls1 where w: "reconcile_profiles v (ListDeviceAccessProfiles [] (repo_of ls)) [] ls = (w, ls1)" by fastforce
  have m: "moves ls ls1"
    using moves_reconcile_profiles [of "ListDeviceAccessProfiles [] (repo_of ls)" ls v "[]"]
      listed_tenants [OF listeners_invD(1) [OF inv]] w by simp
  let ?ls2 = "fold stop_host (map snd (filter (\<lambda>e. fst e \<notin> set w) (ls_hosts ls1))) ls1"
  let ?m = "filter (\<lambda>e. fst e \<in> set w) (ls_hosts ls1)"
  have "moves ls ?ls2" by (rule moves_trans [OF m moves_fold]) (rule moves_stop_host)
  then have "moves ls (?ls2\<lparr>ls_hosts := ?m\<rparr>)"
    by (rule moves_trans) (rule moves_unhost, simp add: mget_filter_key [of "\<lambda>k. k \<in> set w"] stop_hosts_hosts split: if_splits)
  then have "moves ls (?ls2\<lparr>ls_hosts := ?m, ls_failures := filter (\<lambda>e. fst e \<in> set w) (ls_failures ls1)\<rparr>)"
    by (rule moves_trans) (rule moves_failures)
  then show "moves ls (reconcile v ls)" by (simp add: reconcile_def w)
qed

section \<open>Commands\<close>

lemma encodeCommand_calm:
  "encodeCommand v p child cmd r s = (x, t) \<Longrightarrow> calm s t \<and> ss_stage t = ss_stage s"
  by (auto simp: encodeCommand_def calm_def split: option.splits sum.splits if_splits)

lemma calm_trans: "calm s t \<Longrightarrow> calm t u \<Longrightarrow> calm s u"
  by (auto simp: calm_def)

lemma calm_idle: "calm s t \<Longrightarrow> calm s (idle_command t)"
  by (auto simp: calm_def idle_command_def)

lemma put_order:
  "log_event x (put_session i s ls) = put_session i s (log_event x ls)"
  "put_session i s (ls\<lparr>ls_next := n\<rparr>) = (put_session i s ls)\<lparr>ls_next := n\<rparr>"
  "log_event x (ls\<lparr>ls_next := n\<rparr>) = (log_event x ls)\<lparr>ls_next := n\<rparr>"
  "put_session i s (put_call c y ls) = put_call c y (put_session i s ls)"
  by (simp_all add: log_event_def put_session_def put_call_def)

lemma moves_command_write:
  assumes s: "ls_session ls i = Some s" "ss_frame s = None" "open_stage s" and c: "calm s t"
  shows "moves ls (snd (command_write v i t requested cmd x ls))"
proof -
  have idle: "moves ls (put_session i (idle_command t) ls)" by (rule moves_session [OF s(1) calm_idle [OF c]])
  let ?c = "ls_next ls" and ?k = "wp_CorrelationID x"
  let ?d = "\<lambda>w. log_event (Dispatched ?c i w) (ls\<lparr>ls_next := Suc ?c\<rparr>)"
  have sent: "moves ls (put_session i (idle_command u) (?d w))" if "calm s u" for u w
  proof (rule moves_trans)
    show "moves ls (?d w)" by (rule moves_one) (rule move.dispatch)
    show "moves (?d w) (put_session i (idle_command u) (?d w))"
      by (rule moves_session [where s = s]) (simp_all add: s(1) calm_idle that)
  qed
  have u: "calm s (t\<lparr>ss_state := wp_State x\<rparr>)" using c by (auto simp: calm_def)
  have wait: "moves ls (put_session i (t\<lparr>ss_state := wp_State x, ss_pending := mput (ss_pending t) ?k ?c\<rparr>) (put_call ?c y (?d w)))" for w y
  proof -
    let ?u = "t\<lparr>ss_state := wp_State x\<rparr>"
    let ?ls = "put_session i ?u ls"
    have "moves ls ?ls" by (rule moves_session [OF s(1) u])
    moreover have "move ?ls (put_session i (?u\<lparr>ss_pending := mput (ss_pending ?u) ?k (ls_next ?ls)\<rparr>)
        (log_event (Dispatched (ls_next ?ls) i w) (?ls\<lparr>ls_next := Suc (ls_next ?ls)\<rparr>)))" (is "move _ ?b")
      using calm_facts [OF u] s by (intro move.await) simp_all
    ultimately have m: "moves ls ?b" by (rule moves_then)
    have b: "?b = put_session i (t\<lparr>ss_state := wp_State x, ss_pending := mput (ss_pending t) ?k ?c\<rparr>) (?d w)"
      by (simp add: put_session_def log_event_def)
    have "moves ?b (?b\<lparr>ls_call := (ls_call ?b)(?c := Some y)\<rparr>)"
    proof (rule moves_under, rule moves_calls)
      fix j assume "listeners_inv ?b" "ls_next ?b \<le> j"
      then show "((ls_call ?b)(?c := Some y)) j = None"
        using listeners_invD(2) [of ?b j] by simp
    qed
    then have "moves ls (put_call ?c y ?b)" using moves_trans [OF m] by (simp add: put_call_def)
    then show ?thesis unfolding b put_order(4) .
  qed
  show ?thesis
    using idle sent [OF c] sent [OF u] wait moves_trans [OF sent [OF c] moves_close_begin]
    by (auto simp: command_write_def Let_def split: option.split)
qed

lemma moves_command_on:
  assumes s: "ls_session ls i = Some s" "ss_frame s = None" "open_stage s"
  shows "moves ls (snd (command_on v i s h requested device child cmd ls))"
proof -
  let ?p = "ho_profile h"
  obtain r ls1 where r: "listener_device v ?p device [] ls = (r, ls1)" by fastforce
  have m1: "moves ls ls1" by (rule engine_moved_moves [OF listener_device_moved [OF r]])
  have s1: "ls_session ls1 i = Some s" using engine_moved_same(1) [OF listener_device_moved [OF r]] s(1) by simp
  have sel: "moves ls (put_session i t ls1)" if "selectRelease ?p (repo_of ls1) s = Inr t" for t
    using moves_trans [OF m1 moves_session [OF s1]] selectRelease_calm [OF that] by blast
  have enc: "moves ls (put_session i (idle_command u) (put_session i t ls1))"
    "moves ls (snd (command_write v i u requested cmd x (put_session i t ls1)))"
    if t: "selectRelease ?p (repo_of ls1) s = Inr t"
      and u: "encodeCommand v ?p child cmd r' (t\<lparr>ss_commandBusy := True\<rparr>) = (y, u)" for t u y r' x
  proof -
    have c: "calm s t" "ss_stage t = ss_stage s" using selectRelease_calm [OF t] by auto
    have u: "calm t u" using encodeCommand_calm [OF u] by (auto simp: calm_def)
    show "moves ls (put_session i (idle_command u) (put_session i t ls1))"
      by (rule moves_trans [OF sel [OF t] moves_session [where s = t]]) (simp_all add: calm_idle u)
    show "moves ls (snd (command_write v i u requested cmd x (put_session i t ls1)))"
      by (rule moves_trans [OF sel [OF t] moves_command_write [where s = t]])
        (use c u s calm_facts [OF c(1)] in \<open>simp_all add: open_stage_def\<close>)
  qed
  show ?thesis
    using r m1 sel enc
    by (auto simp: command_on_def Let_def split: sum.split option.split prod.split)
qed

lemma command_session_fits:
  "command_session h device ls = Some i \<Longrightarrow> ls_session ls i = Some s \<Longrightarrow> open_stage s"
  by (auto simp: command_session_def command_fits_def open_stage_def find_Some_iff split: option.splits)

lemma moves_command_expire: "moves ls (command_expire c ls)"
proof (cases "ls_call ls c")
  case (Some call)
  have "moves ls (put_call c (call\<lparr>cc_expired := True\<rparr>) ls)" unfolding put_call_def
  proof (rule moves_under, rule moves_calls)
    fix j assume "listeners_inv ls" "ls_next ls \<le> j"
    then show "((ls_call ls)(c := Some (call\<lparr>cc_expired := True\<rparr>))) j = None"
      using listeners_invD(2) [of ls j] Some by auto
  qed
  then show ?thesis using Some moves_trans [OF _ moves_close_begin] by (simp add: command_expire_def)
qed (simp add: command_expire_def)

lemma moves_command_finish: "moves ls (snd (command_finish c ls))"
proof (cases "ls_call ls c")
  case (Some call)
  let ?ls = "ls\<lparr>ls_call := (ls_call ls)(c := None)\<rparr>"
  have m: "moves ls ?ls"
    by (rule moves_under, rule moves_calls) (use listeners_invD(2) in auto)
  have "moves ls (put_session (cc_session call) ((idle_command s)\<lparr>ss_pending := drop_entry (cc_id call) c (ss_pending s)\<rparr>) ?ls)"
    if s: "ls_session ls (cc_session call) = Some s" for s
  proof -
    let ?i = "cc_session call" and ?m = "drop_entry (cc_id call) c (ss_pending s)"
    have "moves ls (put_session ?i (s\<lparr>ss_pending := ?m\<rparr>) ?ls)"
      by (rule moves_trans [OF m], rule moves_one, rule move.forget) (use s in \<open>auto simp: drop_entry_Some\<close>)
    moreover have "moves (put_session ?i (s\<lparr>ss_pending := ?m\<rparr>) ?ls)
        (put_session ?i ((idle_command s)\<lparr>ss_pending := ?m\<rparr>) (put_session ?i (s\<lparr>ss_pending := ?m\<rparr>) ?ls))"
      by (rule moves_session [where s = "s\<lparr>ss_pending := ?m\<rparr>"]) (simp_all add: calm_def idle_command_def)
    ultimately show ?thesis using moves_trans by fastforce
  qed
  then show ?thesis using Some m by (auto simp: command_finish_def Let_def split: option.split)
qed (simp add: command_finish_def)

section \<open>Runs\<close>

theorem step_moves: "listen_step ls ls2 \<Longrightarrow> moves ls ls2"
proof (induction rule: listen_step.induct)
  case (read ls i s d)
  let ?b = "put_session i (s\<lparr>ss_buffer := ss_buffer s @ d\<rparr>) (log_event (Received i d) ls)"
  have "moves ls ?b"
    using read by (intro moves_one move.arrive) (simp_all add: read_fits_def)
  moreover have "moves ?b (put_session i (s\<lparr>ss_buffer := ss_buffer s @ d, ss_reading := False\<rparr>) ?b)"
    by (rule moves_session [where s = "s\<lparr>ss_buffer := ss_buffer s @ d\<rparr>"]) (simp_all add: calm_def)
  ultimately have "moves ls (put_session i (s\<lparr>ss_buffer := ss_buffer s @ d, ss_reading := False\<rparr>) (log_event (Received i d) ls))"
    using moves_trans by fastforce
  then show ?case using read(1) by (simp add: tcp_read_def)
next
  case (read_end ls i s)
  let ?t = "s\<lparr>ss_frame := None, ss_ended := ss_stream s \<or> ss_ended s\<rparr>"
  let ?u = "s\<lparr>ss_reading := False, ss_ended := True\<rparr>"
  have "moves ls (put_session i ?t ls)" by (rule moves_one) (rule move.drop_frame [OF read_end(1)])
  moreover have "moves (put_session i ?t ls) (put_session i ?u (put_session i ?t ls))"
    by (rule moves_session [where s = ?t]) (use read_end in \<open>simp_all add: calm_def\<close>)
  ultimately have "moves ls (put_session i ?u ls)" using moves_trans by fastforce
  then show ?case using read_end(1) moves_trans [OF _ moves_close_begin] by (simp add: tcp_end_def)
next
  case (command ls tenant profile requested v cmd)
  show ?case
  proof (cases "snd (Command v tenant profile requested cmd ls) = ls")
    case False
    then obtain hid h device child i s where c: "mget (ls_hosts ls) (listenerKey tenant profile) = Some hid"
      "ls_host ls hid = Some h" "command_target tenant requested (repo_of ls) = (device, child)"
      "command_session h device ls = Some i" "ls_session ls i = Some s"
      by (auto simp: Command_def split: option.splits prod.splits)
    then have "moves ls (snd (command_on v i s h requested device child cmd ls))"
      using command [OF c] by (intro moves_command_on) (simp_all add: command_session_fits)
    then show ?thesis using c by (simp add: Command_def)
  qed simp
next
  case (close i ls)
  then show ?case by (intro moves_trans [OF moves_closing moves_close_begin])
next
  case (unlink ls i s)
  then show ?case by (intro moves_one move.unlink)
next
  case (engine e ls)
  then show ?case by (intro moves_one move.engine)
qed (auto intro: moves_reconcile moves_stop moves_stop_host moves_accept moves_dial moves_datagram moves_expire
  moves_close_begin moves_frame_start moves_frame_end moves_close_mark moves_close_report moves_command_expire
  moves_command_finish)

text \<open>A state that a run from a new Listeners over an engine in order reaches.\<close>

inductive listeners_reach :: "listeners \<Rightarrow> bool" where
  new: "engine_inv (e_repo e) \<Longrightarrow> listeners_reach (NewListeners e)"
| step: "listeners_reach ls \<Longrightarrow> listen_step ls ls2 \<Longrightarrow> listeners_reach ls2"

lemma new_inv: "engine_inv (e_repo e) \<Longrightarrow> listeners_inv (NewListeners e)"
  by (simp add: listeners_inv_def NewListeners_def repo_of_def)

lemma reach_inv: "listeners_reach ls \<Longrightarrow> listeners_inv ls"
  by (induction rule: listeners_reach.induct) (auto intro: new_inv moves_inv step_moves)

text \<open>What holds at the start and is kept by each move of a state in order holds of every reachable state.\<close>

lemma reach_invariant:
  assumes "listeners_reach ls" and new: "\<And>e. P (NewListeners e)"
    and kept: "\<And>a b. listeners_inv a \<Longrightarrow> P a \<Longrightarrow> move a b \<Longrightarrow> P b"
  shows "P ls"
  using assms(1)
proof (induction rule: listeners_reach.induct)
  case (step ls ls2)
  have "move\<^sup>*\<^sup>* ls ls2"
    using step_moves [OF step.hyps(2)] reach_inv [OF step.hyps(1)] by (simp add: moves_def)
  then have "listeners_inv ls2 \<and> P ls2"
  proof (induction rule: rtranclp_induct)
    case base
    then show ?case using reach_inv step by blast
  next
    case (step a b)
    then show ?case using kept move_keeps_inv by blast
  qed
  then show ?case ..
qed (rule new)

end
