(* ===== verification/Listener_Logs.thy ===== *)
theory Listener_Logs
  imports Listener_Runs
begin

text \<open>
  What a run of the listeners has done: connection reports, replies, answers to commands and the bytes of
  each session, as invariants of its log.
\<close>

section \<open>Connection reports\<close>

text \<open>The key under which a session counts, while it is identified and has not been reported closed.\<close>

definition session_key :: "listeners \<Rightarrow> nat \<Rightarrow> string option" where
  "session_key ls i = (case ls_session ls i of
     Some s \<Rightarrow> if ss_stage s = Gone \<or> ss_deviceID s = [] then None
       else map_option (\<lambda>h. connection_key h (ss_deviceID s)) (ls_host ls (ss_host s))
   | None \<Rightarrow> None)"

definition connected :: "listeners \<Rightarrow> string \<Rightarrow> nat set" where
  "connected ls k = {i. session_key ls i = Some k}"

fun last_report :: "string \<Rightarrow> listener_event list \<Rightarrow> bool" where
  "last_report k [] = False"
| "last_report k (Reported k' b # xs) = (if k' = k then b else last_report k xs)"
| "last_report k (_ # xs) = last_report k xs"

definition counts_ok :: "listeners \<Rightarrow> bool" where
  "counts_ok ls \<longleftrightarrow> (\<forall>k. mget_or 0 (ls_counts ls) k = int (card (connected ls k)) \<and>
     last_report k (ls_log ls) = (connected ls k \<noteq> {}))"

lemma connected_finite: "listeners_inv ls \<Longrightarrow> finite (connected ls k)"
proof -
  assume inv: "listeners_inv ls"
  have "connected ls k \<subseteq> {..< ls_next ls}"
  proof
    fix i assume "i \<in> connected ls k"
    then have "ls_session ls i \<noteq> None" by (auto simp: connected_def session_key_def split: option.splits)
    then show "i \<in> {..< ls_next ls}" using listeners_invD(2) [OF inv, of i] by (cases "ls_next ls \<le> i") auto
  qed
  then show ?thesis using finite_subset by blast
qed

lemma counts_same:
  "counts_ok a \<Longrightarrow> session_key b = session_key a \<Longrightarrow> ls_counts b = ls_counts a \<Longrightarrow>
    (\<And>k. last_report k (ls_log b) = last_report k (ls_log a)) \<Longrightarrow> counts_ok b"
  by (simp add: counts_ok_def connected_def)

lemma key_put_session:
  assumes "ls_session ls i = Some s" "ss_host t = ss_host s" "ss_deviceID t = ss_deviceID s" "ss_stage t = Gone \<longleftrightarrow> ss_stage s = Gone"
  shows "session_key (put_session i t ls) = session_key ls"
  using assms by (auto simp: session_key_def fun_eq_iff split: option.split)

lemma key_put_host:
  assumes "ls_host ls hid = Some h" "ap_TenantID (ho_profile g) = ap_TenantID (ho_profile h)"
  shows "session_key (put_host hid g ls) = session_key ls"
  using assms by (auto simp: session_key_def connection_key_def fun_eq_iff split: option.split)

lemma key_plain [simp]:
  "session_key (log_event x ls) = session_key ls" "session_key (ls\<lparr>ls_engine := e\<rparr>) = session_key ls"
  "session_key (ls\<lparr>ls_next := n\<rparr>) = session_key ls" "session_key (ls\<lparr>ls_failures := f, ls_closing := c\<rparr>) = session_key ls"
  "session_key (ls\<lparr>ls_call := cs\<rparr>) = session_key ls" "session_key (ls\<lparr>ls_hosts := m\<rparr>) = session_key ls"
  "session_key (count_up k e ls) = session_key ls" "session_key (count_down k e ls) = session_key ls"
  by (auto simp: session_key_def fun_eq_iff split: option.split)

lemma key_add:
  assumes inv: "listeners_inv ls" and h: "ls_host ls hid = Some h"
  shows "session_key (add_session hid remote stream now h ls) = session_key ls"
proof -
  have new: "ls_session ls (ls_next ls) = None" using listeners_invD(2) [OF inv, of "ls_next ls"] by simp
  let ?ls = "put_session (ls_next ls) (new_listener_session hid remote stream now) (ls\<lparr>ls_next := Suc (ls_next ls)\<rparr>)"
  have "session_key ?ls = session_key ls"
    using new by (auto simp: session_key_def new_listener_session_def fun_eq_iff split: option.split)
  moreover have "session_key (add_session hid remote stream now h ls) = session_key ?ls"
    unfolding add_session_def Let_def by (rule key_put_host [where h = h]) (simp_all add: h)
  ultimately show ?thesis by simp
qed

lemma key_open:
  assumes inv: "listeners_inv ls"
  shows "session_key (put_host (ls_next ls) h (ls\<lparr>ls_next := n, ls_hosts := m\<rparr>)) = session_key ls"
proof
  fix i
  show "session_key (put_host (ls_next ls) h (ls\<lparr>ls_next := n, ls_hosts := m\<rparr>)) i = session_key ls i"
  proof (cases "ls_session ls i")
    case (Some s)
    have "ls_host ls (ls_next ls) = None" using listeners_invD(2) [OF inv, of "ls_next ls"] by simp
    moreover have "ls_host ls (ss_host s) \<noteq> None" using listeners_invD(5) [OF inv Some] by (auto simp: session_ok_def)
    ultimately have "ss_host s \<noteq> ls_next ls" by auto
    then show ?thesis using Some by (simp add: session_key_def)
  qed (simp add: session_key_def)
qed

lemma key_unlink:
  assumes "ls_session ls i = Some s" "ss_stage s = Marked"
  shows "session_key (close_unlink i ls) = session_key ls"
proof (cases "ls_host ls (ss_host s)")
  case None
  then show ?thesis using assms by (simp add: close_unlink_def key_put_session)
next
  case (Some h)
  then show ?thesis using assms
    by (simp add: close_unlink_def key_put_session key_put_host [where h = h])
qed

lemma counts_up:
  assumes inv: "listeners_inv ls" and ok: "counts_ok ls" and i: "session_key ls i = None"
    and b: "session_key b = (session_key ls)(i := Some k)" "ls_counts b = mput (ls_counts ls) k (mget_or 0 (ls_counts ls) k + 1)"
      "ls_log b = (if mget_or 0 (ls_counts ls) k > 0 then ls_log ls else Reported k True # ls_log ls)"
  shows "counts_ok b"
proof -
  have c: "connected b k' = (if k' = k then insert i (connected ls k) else connected ls k')" for k'
    using i by (auto simp: connected_def b(1))
  have "i \<notin> connected ls k" using i by (simp add: connected_def)
  then have "int (card (connected b k)) = int (card (connected ls k)) + 1"
    using connected_finite [OF inv] by (simp add: c)
  then show ?thesis using ok unfolding counts_ok_def
    by (auto simp: c b(2, 3) mget_or_def)
qed

lemma counts_down:
  assumes inv: "listeners_inv ls" and ok: "counts_ok ls" and i: "session_key ls i = Some k"
    and b: "session_key b = (session_key ls)(i := None)" "ls_counts b = ls_counts (count_down k e ls)"
      "ls_log b = ls_log (count_down k e ls)"
  shows "counts_ok b"
proof -
  have c: "connected b k' = (if k' = k then connected ls k - {i} else connected ls k')" for k'
    using i by (auto simp: connected_def b(1))
  have i: "i \<in> connected ls k" using i by (simp add: connected_def)
  have n: "mget_or 0 (ls_counts ls) k = int (card (connected ls k))" using ok by (simp add: counts_ok_def)
  have card: "card (connected ls k) = Suc (card (connected b k))"
    using card.remove [OF connected_finite [OF inv] i] by (simp add: c)
  have fin: "finite (connected b k)" using connected_finite [OF inv, of k] by (simp add: c)
  show ?thesis
  proof (cases "card (connected b k) = 0")
    case True
    then have "connected b k = {}" using fin by simp
    then show ?thesis using ok n card True c unfolding counts_ok_def
      by (auto simp: b(2, 3) count_down_def Let_def mget_or_def)
  next
    case False
    then have "connected b k \<noteq> {}" "connected ls k \<noteq> {}" using i by auto
    then show ?thesis using ok n card False c unfolding counts_ok_def
      by (auto simp: b(2, 3) count_down_def Let_def mget_or_def)
  qed
qed

lemma move_keeps_counts:
  assumes inv: "listeners_inv a" and ok: "counts_ok a" and m: "move a b"
  shows "counts_ok b"
  using m
proof (cases rule: move.cases)
  case (identify i s f h e)
  let ?k = "connection_key h (md_ID (ac_device f))"
  have "md_ID (ac_device f) \<noteq> []"
    using listeners_invD(5) [OF inv identify(2)] identify(3, 6) by (auto simp: session_ok_def frame_fits_def)
  then have "session_key a i = None" "session_key b = (session_key a)(i := Some ?k)"
    using identify by (auto simp: session_key_def fun_eq_iff open_stage_def split: option.split)
  then show ?thesis
    by (rule counts_up [OF inv ok]) (simp_all add: identify(1) count_up_def Let_def put_session_def)
next
  case (leave i s h e)
  show ?thesis
  proof (cases "ss_deviceID s = []")
    case True
    have "session_key b = session_key a" using leave True by (auto simp: session_key_def fun_eq_iff split: option.split)
    then show ?thesis by (rule counts_same [OF ok]) (simp_all add: leave(1) True)
  next
    case False
    let ?k = "connection_key h (ss_deviceID s)"
    have "session_key a i = Some ?k" "session_key b = (session_key a)(i := None)"
      using leave False by (auto simp: session_key_def fun_eq_iff split: option.split)
    then show ?thesis
      by (rule counts_down [OF inv ok]) (simp_all add: leave(1) False)
  qed
next
  case (session i s t)
  have "session_key b = session_key a" unfolding session(1)
    by (rule key_put_session [OF session(2)]) (use session(3) in \<open>auto simp: calm_def\<close>)
  then show ?thesis by (rule counts_same [OF ok]) (simp_all add: session(1))
next
  case (host hid h g)
  have "session_key b = session_key a" unfolding host(1) by (rule key_put_host [OF host(2)]) (rule host(6))
  then show ?thesis by (rule counts_same [OF ok]) (simp_all add: host(1))
next
  case (claim i s h)
  have "session_key b = session_key a" unfolding claim(1) by (rule key_put_host [OF claim(5)]) simp
  then show ?thesis by (rule counts_same [OF ok]) (simp_all add: claim(1))
next
  case (unlink i s)
  show ?thesis
    by (rule counts_same [OF ok]) (use unlink in \<open>simp_all add: key_unlink\<close>, simp_all add: close_unlink_def split: option.split)
next
  case (add hid h remote stream now)
  show ?thesis
    by (rule counts_same [OF ok]) (use add in \<open>simp_all add: key_add [OF inv]\<close>, simp_all add: add_session_def Let_def)
next
  case (open_one h k)
  show ?thesis by (rule counts_same [OF ok]) (simp_all add: open_one key_open [OF inv])
qed (auto intro!: counts_same [OF ok] simp: key_put_session)

section \<open>Replies and answers\<close>

text \<open>An event of the log is justified by what comes before it, which is the rest of the list.\<close>

definition justified :: "listener_event \<Rightarrow> listener_event list \<Rightarrow> bool" where
  "justified x xs \<longleftrightarrow> (case x of
     Replied i b m \<Rightarrow> (\<exists>raw. Ingested i raw \<in> set xs \<and> rm_MessageID raw = m)
   | Acknowledged c m \<Rightarrow> (\<forall>m'. Acknowledged c m' \<notin> set xs) \<and>
       (\<exists>i w raw ys zs. xs = ys @ Ingested i raw # zs \<and> rm_MessageID raw = m \<and> Dispatched c i w \<in> set zs)
   | _ \<Rightarrow> True)"

fun log_ok :: "listener_event list \<Rightarrow> bool" where
  "log_ok [] = True"
| "log_ok (x # xs) \<longleftrightarrow> justified x xs \<and> log_ok xs"

lemma log_okD: "log_ok (xs @ x # ys) \<Longrightarrow> justified x ys"
  by (induction xs) auto

definition neutral :: "listener_event \<Rightarrow> bool" where
  "neutral x \<longleftrightarrow> (case x of Replied _ _ _ \<Rightarrow> False | Acknowledged _ _ \<Rightarrow> False | _ \<Rightarrow> True)"

lemma neutral_simps [simp]:
  "neutral (Received i d)" "neutral (Ingested i r)" "neutral (Dispatched c i w)" "neutral (Reported k b)"
  "\<not> neutral (Replied i d m)" "\<not> neutral (Acknowledged c m)"
  by (simp_all add: neutral_def)

lemma neutral_justified [simp]: "neutral x \<Longrightarrow> justified x xs"
  by (cases x) (simp_all add: justified_def)

text \<open>A waiting command was sent over the session, is not answered, and waits there only.\<close>

definition waits_ok :: "listeners \<Rightarrow> bool" where
  "waits_ok ls \<longleftrightarrow>
     (\<forall>i s k c. ls_session ls i = Some s \<longrightarrow> mget (ss_pending s) k = Some c \<longrightarrow>
        (\<exists>w. Dispatched c i w \<in> set (ls_log ls)) \<and> c < ls_next ls \<and> (\<forall>m. Acknowledged c m \<notin> set (ls_log ls))) \<and>
     (\<forall>i s k j t k' c. ls_session ls i = Some s \<longrightarrow> ls_session ls j = Some t \<longrightarrow>
        mget (ss_pending s) k = Some c \<longrightarrow> mget (ss_pending t) k' = Some c \<longrightarrow> i = j \<and> k = k') \<and>
     (\<forall>c m. Acknowledged c m \<in> set (ls_log ls) \<longrightarrow> c < ls_next ls)"

lemma waits_okD:
  assumes "waits_ok ls" "ls_session ls i = Some s" "mget (ss_pending s) k = Some c"
  shows "\<exists>w. Dispatched c i w \<in> set (ls_log ls)" "c < ls_next ls" "Acknowledged c m \<notin> set (ls_log ls)"
    "ls_session ls j = Some t \<Longrightarrow> mget (ss_pending t) k' = Some c \<Longrightarrow> i = j \<and> k = k'"
  using assms unfolding waits_ok_def by blast+

text \<open>The frame a session holds was ingested after the commands were sent that wait there.\<close>

definition frame_ok :: "listeners \<Rightarrow> nat \<Rightarrow> listener_session \<Rightarrow> bool" where
  "frame_ok ls i s \<longleftrightarrow> (\<forall>a. ss_frame s = Some a \<longrightarrow> (\<exists>xs ys. ls_log ls = xs @ Ingested i (ac_raw a) # ys \<and>
     (\<forall>k c. mget (ss_pending s) k = Some c \<longrightarrow> (\<exists>w. Dispatched c i w \<in> set ys))))"

definition frames_ok :: "listeners \<Rightarrow> bool" where
  "frames_ok ls \<longleftrightarrow> log_ok (ls_log ls) \<and> waits_ok ls \<and> (\<forall>i s. ls_session ls i = Some s \<longrightarrow> frame_ok ls i s)"

lemma waits_transfer:
  assumes waits: "waits_ok a"
    and prior: "\<And>i t k c. ls_session b i = Some t \<Longrightarrow> mget (ss_pending t) k = Some c \<Longrightarrow>
      \<exists>s. ls_session a i = Some s \<and> mget (ss_pending s) k = Some c"
    and l: "set (ls_log a) \<subseteq> set (ls_log b)" "\<And>c m. Acknowledged c m \<in> set (ls_log b) \<longleftrightarrow> Acknowledged c m \<in> set (ls_log a)"
    and n: "ls_next a \<le> ls_next b"
  shows "waits_ok b"
  unfolding waits_ok_def
proof (intro conjI allI impI)
  fix i t k c assume "ls_session b i = Some t" "mget (ss_pending t) k = Some c"
  then obtain s where s: "ls_session a i = Some s" "mget (ss_pending s) k = Some c" using prior by blast
  note w = waits_okD [OF waits s]
  show "\<exists>w. Dispatched c i w \<in> set (ls_log b)" "c < ls_next b" using l(1) n w(1, 2) by auto
  fix m show "Acknowledged c m \<notin> set (ls_log b)" using w(3) l(2) by blast
next
  fix i t k j u k' c
  assume "ls_session b i = Some t" "ls_session b j = Some u" "mget (ss_pending t) k = Some c" "mget (ss_pending u) k' = Some c"
  then have "i = j \<and> k = k'" using prior [of i t k c] prior [of j u k' c] waits_okD(4) [OF waits] by blast
  then show "i = j" "k = k'" by simp_all
next
  fix c m assume "Acknowledged c m \<in> set (ls_log b)"
  then show "c < ls_next b" using waits l(2) n unfolding waits_ok_def by fastforce
qed

text \<open>Sessions may lose their frame and waiting commands, and the log may grow by other events.\<close>

definition less_session :: "listener_session \<Rightarrow> listener_session option \<Rightarrow> bool" where
  "less_session t x \<longleftrightarrow> (case x of
     Some s \<Rightarrow> (ss_frame t = None \<or> ss_frame t = ss_frame s) \<and>
       (\<forall>k c. mget (ss_pending t) k = Some c \<longrightarrow> mget (ss_pending s) k = Some c)
   | None \<Rightarrow> ss_frame t = None \<and> ss_pending t = [])"

lemma frames_kept:
  assumes ok: "frames_ok a" and s: "\<And>i t. ls_session b i = Some t \<Longrightarrow> less_session t (ls_session a i)"
    and l: "ls_log b = es @ ls_log a" "list_all neutral es" and n: "ls_next a \<le> ls_next b"
  shows "frames_ok b"
proof -
  have log: "log_ok (es @ ls_log a)" if "list_all neutral es" for es
    using that ok by (induction es) (auto simp: frames_ok_def)
  have prior: "\<exists>s. ls_session a i = Some s \<and> mget (ss_pending s) k = Some c"
    if "ls_session b i = Some t" "mget (ss_pending t) k = Some c" for i t k c
    using s [OF that(1)] that(2) by (auto simp: less_session_def split: option.splits)
  have same: "Acknowledged c m \<in> set (ls_log b) \<longleftrightarrow> Acknowledged c m \<in> set (ls_log a)" for c m
    using l by (auto simp: list_all_iff)
  have "waits_ok a" using ok by (simp add: frames_ok_def)
  then have "waits_ok b" by (rule waits_transfer [OF _ prior]) (use l n same in auto)
  moreover have "frame_ok b i t" if t: "ls_session b i = Some t" for i t
    unfolding frame_ok_def
  proof (intro allI impI)
    fix f assume f: "ss_frame t = Some f"
    then obtain u where u: "ls_session a i = Some u" "ss_frame u = Some f"
      and p: "\<And>k c. mget (ss_pending t) k = Some c \<Longrightarrow> mget (ss_pending u) k = Some c"
      using s [OF t] by (auto simp: less_session_def split: option.splits)
    then obtain xs ys where xs: "ls_log a = xs @ Ingested i (ac_raw f) # ys"
      "\<And>k c. mget (ss_pending u) k = Some c \<Longrightarrow> \<exists>w. Dispatched c i w \<in> set ys"
      using ok unfolding frames_ok_def frame_ok_def by metis
    have "ls_log b = (es @ xs) @ Ingested i (ac_raw f) # ys" using l(1) xs(1) by simp
    then show "\<exists>xs ys. ls_log b = xs @ Ingested i (ac_raw f) # ys \<and>
        (\<forall>k c. mget (ss_pending t) k = Some c \<longrightarrow> (\<exists>w. Dispatched c i w \<in> set ys))"
      using xs(2) p by blast
  qed
  ultimately show ?thesis using log [OF l(2)] l(1) by (simp add: frames_ok_def)
qed

lemma less_refl [simp]: "less_session s (Some s)"
  by (simp add: less_session_def)

text \<open>A frame is ingested, answered, and answers a command that waits; a command is sent.\<close>

lemma frames_ingest:
  assumes ok: "frames_ok a" and s: "ls_session a i = Some s"
  shows "frames_ok (put_session i (s\<lparr>ss_frame := Some f\<rparr>) (log_event (Ingested i (ac_raw f)) a))" (is "frames_ok ?b")
proof -
  let ?c = "put_session i (s\<lparr>ss_frame := None\<rparr>) (log_event (Ingested i (ac_raw f)) a)"
  have c: "frames_ok ?c"
    by (rule frames_kept [OF ok, of _ "[Ingested i (ac_raw f)]"]) (use s in \<open>auto simp: less_session_def split: option.split if_splits\<close>)
  have "waits_ok a" using ok by (simp add: frames_ok_def)
  then have "waits_ok ?b" by (rule waits_transfer) (use s in \<open>auto split: if_splits\<close>)
  moreover have "frame_ok ?b j t" if t: "ls_session ?b j = Some t" for j t
  proof (cases "j = i")
    case True
    then have e: "t = s\<lparr>ss_frame := Some f\<rparr>" using t by simp
    have "waits_ok a" using ok by (simp add: frames_ok_def)
    note w = waits_okD(1) [OF this s]
    show ?thesis unfolding frame_ok_def
    proof (intro allI impI)
      fix g assume "ss_frame t = Some g"
      then have "ls_log ?b = [] @ Ingested j (ac_raw g) # ls_log a" using e True by simp
      moreover have "\<forall>k c. mget (ss_pending t) k = Some c \<longrightarrow> (\<exists>w. Dispatched c j w \<in> set (ls_log a))"
        using w e True by simp
      ultimately show "\<exists>xs ys. ls_log ?b = xs @ Ingested j (ac_raw g) # ys \<and>
          (\<forall>k c. mget (ss_pending t) k = Some c \<longrightarrow> (\<exists>w. Dispatched c j w \<in> set ys))" by blast
    qed
  next
    case False
    then have "ls_session ?c j = Some t" using t by simp
    then show ?thesis using c by (auto simp: frames_ok_def frame_ok_def)
  qed
  ultimately show ?thesis using c by (simp add: frames_ok_def)
qed

lemma frames_answer:
  assumes ok: "frames_ok a" and s: "ls_session a i = Some s" "ss_frame s = Some f"
  shows "frames_ok (log_event (Replied i d (rm_MessageID (ac_raw f))) a)" (is "frames_ok ?b")
proof -
  have f: "frame_ok a i s" using ok s by (simp add: frames_ok_def)
  then have "Ingested i (ac_raw f) \<in> set (ls_log a)" using s(2) by (auto simp: frame_ok_def)
  then have "log_ok (ls_log ?b)" using ok by (auto simp: frames_ok_def justified_def)
  moreover have "waits_ok ?b" using ok by (auto simp: frames_ok_def waits_ok_def)
  moreover have "frame_ok ?b j t" if "ls_session a j = Some t" for j t
  proof -
    have "frame_ok a j t" using ok that by (simp add: frames_ok_def)
    then show ?thesis unfolding frame_ok_def
      by (metis append_Cons put_simps(24))
  qed
  ultimately show ?thesis by (simp add: frames_ok_def)
qed

lemma frames_acknowledge:
  assumes ok: "frames_ok a" and s: "ls_session a i = Some s" "ss_frame s = Some f" "mget (ss_pending s) k = Some c"
  shows "frames_ok (log_event (Acknowledged c (rm_MessageID (ac_raw f))) (put_session i (s\<lparr>ss_pending := mdel (ss_pending s) k\<rparr>) a))"
    (is "frames_ok ?b")
proof -
  let ?t = "s\<lparr>ss_pending := mdel (ss_pending s) k\<rparr>"
  have waits: "waits_ok a" using ok by (simp add: frames_ok_def)
  have c: "frames_ok (put_session i ?t a)" (is "frames_ok ?c")
    by (rule frames_kept [OF ok, of _ "[]"]) (use s in \<open>auto simp: less_session_def split: option.split if_splits\<close>)
  have wc: "waits_ok ?c" using c by (simp add: frames_ok_def)
  have "frame_ok a i s" using ok s by (simp add: frames_ok_def)
  then obtain xs ys w where "ls_log a = xs @ Ingested i (ac_raw f) # ys" "Dispatched c i w \<in> set ys"
    using s(2, 3) unfolding frame_ok_def by blast
  then have "\<exists>i w raw ys zs. ls_log a = ys @ Ingested i raw # zs \<and> rm_MessageID raw = rm_MessageID (ac_raw f) \<and>
      Dispatched c i w \<in> set zs" by blast
  then have "justified (Acknowledged c (rm_MessageID (ac_raw f))) (ls_log a)"
    using waits_okD(3) [OF waits s(1, 3)] by (simp add: justified_def)
  then have "log_ok (ls_log ?b)" using ok by (simp add: frames_ok_def)
  moreover have "waits_ok ?b" unfolding waits_ok_def
  proof (intro conjI allI impI)
    fix j t k' e assume t: "ls_session ?b j = Some t" "mget (ss_pending t) k' = Some e"
    then have tc: "ls_session ?c j = Some t" by simp
    note w = waits_okD [OF wc tc t(2)]
    show "\<exists>w. Dispatched e j w \<in> set (ls_log ?b)" "e < ls_next ?b" using w(1, 2) by auto
    have "e \<noteq> c"
    proof
      assume e: "e = c"
      obtain u where u: "ls_session a j = Some u" "mget (ss_pending u) k' = Some c"
        using t e s(1) by (auto split: if_splits)
      then have "j = i \<and> k' = k" using waits_okD(4) [OF waits u s(1, 3)] by simp
      then show False using t s(1) by auto
    qed
    fix m show "Acknowledged e m \<notin> set (ls_log ?b)" using w(3) \<open>e \<noteq> c\<close> by simp
  next
    fix j t k' j2 t2 k2 e
    assume "ls_session ?b j = Some t" "ls_session ?b j2 = Some t2" "mget (ss_pending t) k' = Some e" "mget (ss_pending t2) k2 = Some e"
    then have "j = j2 \<and> k' = k2" using waits_okD(4) [OF wc, of j t k' e j2 t2 k2] by simp
    then show "j = j2" "k' = k2" by simp_all
  next
    fix e m assume "Acknowledged e m \<in> set (ls_log ?b)"
    then show "e < ls_next ?b" using waits waits_okD(2) [OF waits s(1, 3)] unfolding waits_ok_def by fastforce
  qed
  moreover have "frame_ok ?b j t" if "ls_session ?b j = Some t" for j t
  proof -
    have "frame_ok ?c j t" using c that by (simp add: frames_ok_def)
    then show ?thesis unfolding frame_ok_def put_simps by (metis append_Cons)
  qed
  ultimately show ?thesis by (simp add: frames_ok_def)
qed

lemma frames_await:
  assumes ok: "frames_ok a" and s: "ls_session a i = Some s" "ss_frame s = None"
  shows "frames_ok (put_session i (s\<lparr>ss_pending := mput (ss_pending s) k (ls_next a)\<rparr>)
    (log_event (Dispatched (ls_next a) i w) (a\<lparr>ls_next := Suc (ls_next a)\<rparr>)))" (is "frames_ok ?b")
proof -
  let ?c = "log_event (Dispatched (ls_next a) i w) (a\<lparr>ls_next := Suc (ls_next a)\<rparr>)"
  have c: "frames_ok ?c" by (rule frames_kept [OF ok, of _ "[Dispatched (ls_next a) i w]"]) simp_all
  have wa: "waits_ok a" and wc: "waits_ok ?c" using ok c by (simp_all add: frames_ok_def)
  have old: "e = ls_next a \<and> j = i \<and> k' = k \<or> (\<exists>u. ls_session a j = Some u \<and> mget (ss_pending u) k' = Some e \<and> e < ls_next a)"
    if "ls_session ?b j = Some t" "mget (ss_pending t) k' = Some e" for j t k' e
  proof (cases "j = i \<and> k' = k")
    case True
    then show ?thesis using that by auto
  next
    case False
    then have "\<exists>u. ls_session a j = Some u \<and> mget (ss_pending u) k' = Some e" using that s(1) by (auto split: if_splits)
    then show ?thesis using waits_okD(2) [OF wa] by blast
  qed
  have "waits_ok ?b" unfolding waits_ok_def
  proof (intro conjI allI impI)
    fix j t k' e assume t: "ls_session ?b j = Some t" "mget (ss_pending t) k' = Some e"
    have fresh: "Acknowledged (ls_next a) m \<notin> set (ls_log a)" for m using wa unfolding waits_ok_def by blast
    from old [OF t] show "\<exists>w. Dispatched e j w \<in> set (ls_log ?b)" using waits_okD(1) [OF wa] by fastforce
    from old [OF t] show "e < ls_next ?b" by auto
    fix m from old [OF t] show "Acknowledged e m \<notin> set (ls_log ?b)" using waits_okD(3) [OF wa] fresh by auto
  next
    fix j t k' j2 t2 k2 e
    assume t: "ls_session ?b j = Some t" "ls_session ?b j2 = Some t2" "mget (ss_pending t) k' = Some e" "mget (ss_pending t2) k2 = Some e"
    have "j = j2 \<and> k' = k2"
      using old [OF t(1, 3)] old [OF t(2, 4)] waits_okD(4) [OF wa] by (metis less_irrefl)
    then show "j = j2" "k' = k2" by simp_all
  next
    fix e m assume "Acknowledged e m \<in> set (ls_log ?b)"
    then show "e < ls_next ?b" using wc unfolding waits_ok_def by fastforce
  qed
  moreover have "frame_ok ?b j t" if t: "ls_session ?b j = Some t" for j t
  proof (cases "j = i")
    case True
    then show ?thesis using t s(2) by (auto simp: frame_ok_def)
  next
    case False
    then have "ls_session ?c j = Some t" using t by simp
    then show ?thesis using c by (auto simp: frames_ok_def frame_ok_def)
  qed
  ultimately show ?thesis using c by (simp add: frames_ok_def)
qed

lemma frames_put:
  assumes "frames_ok a" "ls_session a i = Some s" "less_session t (Some s)" "ls_session b = (ls_session a)(i := Some t)"
    "ls_log b = es @ ls_log a" "list_all neutral es" "ls_next a \<le> ls_next b"
  shows "frames_ok b"
  using assms by (intro frames_kept [OF assms(1), of b es]) (auto split: if_splits)

lemma less_calm: "calm s t \<Longrightarrow> less_session t (Some s)"
  by (simp add: calm_def less_session_def)

lemma less_new: "ls_session a i = None \<Longrightarrow> ((ls_session a)(i := Some (new_listener_session hid r b n))) j = Some u \<Longrightarrow>
    less_session u (ls_session a j)"
  by (auto simp: less_session_def new_listener_session_def split: if_splits)

lemma unlink_same:
  "ls_log (close_unlink i ls) = ls_log ls" "ls_next (close_unlink i ls) = ls_next ls" "ls_counts (close_unlink i ls) = ls_counts ls"
  "ls_session ls i = Some s \<Longrightarrow> ls_session (close_unlink i ls) = (ls_session ls)(i := Some (s\<lparr>ss_stage := Unlinked\<rparr>))"
  by (simp_all add: close_unlink_def split: option.split)

lemma count_log:
  "ls_log (count_up k e ls) = (if mget_or 0 (ls_counts ls) k > 0 then [] else [Reported k True]) @ ls_log ls"
  "ls_log (count_down k e ls) = (if mget_or 0 (ls_counts ls) k = 1 then [Reported k False] else []) @ ls_log ls"
  by (simp_all add: count_up_def count_down_def Let_def)

lemma move_keeps_frames:
  assumes inv: "listeners_inv a" and ok: "frames_ok a" and m: "move a b"
  shows "frames_ok b"
  using m
proof (cases rule: move.cases)
  case (ingest i s h f)
  show ?thesis unfolding ingest(1) by (rule frames_ingest [OF ok ingest(2)])
next
  case (answer i s f d)
  show ?thesis unfolding answer(1) by (rule frames_answer [OF ok answer(2, 3)])
next
  case (acknowledge i s f k c)
  show ?thesis unfolding acknowledge(1) by (rule frames_acknowledge [OF ok acknowledge(2-4)])
next
  case (await i s k w)
  show ?thesis unfolding await(1) by (rule frames_await [OF ok await(2, 3)])
next
  case (session i s t)
  show ?thesis by (rule frames_put [OF ok session(2) less_calm [OF session(3)], of _ "[]"]) (simp_all add: session(1))
next
  case (arrive i s d)
  show ?thesis by (rule frames_put [OF ok arrive(2), of _ _ "[Received i d]"]) (simp_all add: arrive(1) less_session_def)
next
  case (identify i s f h e)
  show ?thesis
    by (rule frames_put [OF ok identify(2), of _ _ "if mget_or 0 (ls_counts a) (connection_key h (md_ID (ac_device f))) > 0 then []
        else [Reported (connection_key h (md_ID (ac_device f))) True]"])
      (simp_all add: identify(1) less_session_def count_log)
next
  case (leave i s h e)
  show ?thesis
    by (rule frames_put [OF ok leave(2), of _ _ "if ss_deviceID s \<noteq> [] \<and> mget_or 0 (ls_counts a) (connection_key h (ss_deviceID s)) = 1
        then [Reported (connection_key h (ss_deviceID s)) False] else []"])
      (simp_all add: leave(1) less_session_def count_log)
next
  case (dispatch i w)
  show ?thesis by (rule frames_kept [OF ok, of _ "[Dispatched (ls_next a) i w]"]) (simp_all add: dispatch)
next
  case (unlink i s)
  show ?thesis
    by (rule frames_put [OF ok unlink(2), of _ _ "[]"]) (simp_all add: unlink(1) unlink_same unlink(2) less_session_def)
next
  case (add hid h remote stream now)
  have "ls_session a (ls_next a) = None" using listeners_invD(2) [OF inv, of "ls_next a"] by simp
  then show ?thesis
    by (intro frames_kept [OF ok, of _ "[]"]) (use add in \<open>simp_all add: add_session_def Let_def less_new\<close>)
next
  case (consume i s f)
  show ?thesis by (rule frames_put [OF ok consume(2), of _ _ "[]"]) (simp_all add: consume(1) less_session_def)
next
  case (drop_frame i s)
  show ?thesis by (rule frames_put [OF ok drop_frame(2), of _ _ "[]"]) (simp_all add: drop_frame(1) less_session_def)
next
  case (forget i s m)
  show ?thesis by (rule frames_put [OF ok forget(2), of _ _ "[]"]) (simp_all add: forget(1) forget(3) less_session_def)
next
  case (mark i s)
  show ?thesis by (rule frames_put [OF ok mark(2), of _ _ "[]"]) (simp_all add: mark(1) less_session_def)
qed (auto intro!: frames_kept [OF ok, of _ "[]"])

end
