(* ===== verification/Listener_Bytes.thy ===== *)
theory Listener_Bytes
  imports Listener_Logs
begin

text \<open>
  The bytes of a TCP session: what it received is what it handed to the engine, frame by frame, and then
  what is left in its buffer.
\<close>

section \<open>Received and ingested\<close>

fun received :: "nat \<Rightarrow> listener_event list \<Rightarrow> octet list" where
  "received i [] = []"
| "received i (Received j d # xs) = (if j = i then received i xs @ d else received i xs)"
| "received i (_ # xs) = received i xs"

fun ingested :: "nat \<Rightarrow> listener_event list \<Rightarrow> raw_message list" where
  "ingested i [] = []"
| "ingested i (Ingested j r # xs) = (if j = i then ingested i xs @ [r] else ingested i xs)"
| "ingested i (_ # xs) = ingested i xs"

text \<open>What follows the last frame of a session: its buffer, or the rest of it while the frame is held.\<close>

definition unread :: "listener_session \<Rightarrow> octet list" where
  "unread s = (case ss_frame s of None \<Rightarrow> ss_buffer s
     | Some a \<Rightarrow> drop (nat (wp_Consumed (ac_response a))) (ss_buffer s))"

definition split_into :: "octet list \<Rightarrow> raw_message list \<Rightarrow> octet list \<Rightarrow> bool" where
  "split_into d raws rest \<longleftrightarrow> (\<exists>bs. map rm_Payload raws = map marshal_hex bs \<and> [] \<notin> set bs \<and> d = concat bs @ rest)"

definition session_bytes :: "nat \<Rightarrow> listener_session \<Rightarrow> listener_event list \<Rightarrow> bool" where
  "session_bytes i s log1 \<longleftrightarrow> (\<exists>rest. split_into (received i log1) (ingested i log1) rest \<and> (\<not> ss_ended s \<longrightarrow> rest = unread s))"

definition bytes_ok :: "listeners \<Rightarrow> bool" where
  "bytes_ok ls \<longleftrightarrow> (\<forall>i. case ls_session ls i of
     None \<Rightarrow> received i (ls_log ls) = [] \<and> ingested i (ls_log ls) = []
   | Some s \<Rightarrow> ss_stream s \<longrightarrow> session_bytes i s (ls_log ls))"

section \<open>Moves\<close>

text \<open>A session that keeps what it has not read, or has ended, or is new.\<close>

definition same_bytes :: "listener_session \<Rightarrow> listener_session option \<Rightarrow> bool" where
  "same_bytes t x \<longleftrightarrow> (case x of
     Some s \<Rightarrow> ss_stream t \<longrightarrow> ss_stream s \<and> (\<not> ss_ended t \<longrightarrow> \<not> ss_ended s \<and> unread t = unread s)
   | None \<Rightarrow> unread t = [])"

lemma split_Nil: "split_into [] [] []"
  by (simp add: split_into_def)

lemma bytes_kept:
  assumes ok: "bytes_ok a" and s: "\<And>i t. ls_session b i = Some t \<Longrightarrow> same_bytes t (ls_session a i)"
    and n: "\<And>i. ls_session b i = None \<Longrightarrow> ls_session a i = None"
    and l: "\<And>i. received i (ls_log b) = received i (ls_log a)" "\<And>i. ingested i (ls_log b) = ingested i (ls_log a)"
  shows "bytes_ok b"
  unfolding bytes_ok_def
proof
  fix i
  have old: "case ls_session a i of None \<Rightarrow> received i (ls_log a) = [] \<and> ingested i (ls_log a) = []
      | Some s \<Rightarrow> ss_stream s \<longrightarrow> session_bytes i s (ls_log a)" using ok unfolding bytes_ok_def by blast
  show "case ls_session b i of None \<Rightarrow> received i (ls_log b) = [] \<and> ingested i (ls_log b) = []
      | Some s \<Rightarrow> ss_stream s \<longrightarrow> session_bytes i s (ls_log b)"
  proof (cases "ls_session b i")
    case None
    then show ?thesis using old n [OF None] l by simp
  next
    case (Some t)
    note t = s [OF Some]
    show ?thesis
    proof (cases "ls_session a i")
      case None
      then show ?thesis using old t Some l split_Nil by (auto simp: same_bytes_def session_bytes_def)
    next
      case sa: (Some s)
      then show ?thesis using old t Some l by (auto simp: same_bytes_def session_bytes_def)
    qed
  qed
qed

lemma bytes_put:
  assumes "bytes_ok a" "ls_session a i = Some s" "same_bytes t (Some s)" "ls_session b = (ls_session a)(i := Some t)"
    "\<And>i. received i (ls_log b) = received i (ls_log a)" "\<And>i. ingested i (ls_log b) = ingested i (ls_log a)"
  shows "bytes_ok b"
  using assms by (intro bytes_kept [OF assms(1), of b]) (auto simp: same_bytes_def split: if_splits)

lemma same_refl [simp]: "same_bytes s (Some s)"
  by (simp add: same_bytes_def)

lemma bytes_other:
  assumes "bytes_ok a" "ls_session a i = Some s" "ls_session b = (ls_session a)(i := Some t)"
    "ss_stream t \<Longrightarrow> session_bytes i t (ls_log b)"
    "\<And>j. j \<noteq> i \<Longrightarrow> received j (ls_log b) = received j (ls_log a)" "\<And>j. j \<noteq> i \<Longrightarrow> ingested j (ls_log b) = ingested j (ls_log a)"
  shows "bytes_ok b"
  unfolding bytes_ok_def
proof
  fix j
  show "case ls_session b j of None \<Rightarrow> received j (ls_log b) = [] \<and> ingested j (ls_log b) = []
      | Some s \<Rightarrow> ss_stream s \<longrightarrow> session_bytes j s (ls_log b)"
  proof (cases "j = i")
    case False
    then show ?thesis using assms(1) [unfolded bytes_ok_def, rule_format, of j] assms(3, 5, 6)
      by (simp add: session_bytes_def split: option.splits)
  qed (use assms(3, 4) in simp)
qed

lemma split_append: "split_into d raws rest \<Longrightarrow> split_into (d @ e) raws (rest @ e)"
  by (auto simp: split_into_def)

lemma split_take:
  assumes "split_into d raws rest" "rm_Payload raw = marshal_hex (take n rest)" "0 < n" "n \<le> length rest"
  shows "split_into d (raws @ [raw]) (drop n rest)"
proof -
  obtain bs where "map rm_Payload raws = map marshal_hex bs" "[] \<notin> set bs" "d = concat bs @ rest"
    using assms(1) by (auto simp: split_into_def)
  then have "map rm_Payload (raws @ [raw]) = map marshal_hex (bs @ [take n rest]) \<and> [] \<notin> set (bs @ [take n rest]) \<and>
      d = concat (bs @ [take n rest]) @ drop n rest"
    using assms(2-4) by auto
  then show ?thesis unfolding split_into_def by blast
qed

lemma count_bytes:
  "received i (ls_log (count_up k e ls)) = received i (ls_log ls)" "ingested i (ls_log (count_up k e ls)) = ingested i (ls_log ls)"
  "received i (ls_log (count_down k e ls)) = received i (ls_log ls)" "ingested i (ls_log (count_down k e ls)) = ingested i (ls_log ls)"
  by (simp_all add: count_up_def count_down_def Let_def)

lemma move_keeps_bytes:
  assumes inv: "listeners_inv a" and ok: "bytes_ok a" and m: "move a b"
  shows "bytes_ok b"
  using m
proof (cases rule: move.cases)
  case (arrive i s d)
  have "session_bytes i s (ls_log a)" using ok arrive(2, 3) unfolding bytes_ok_def by (auto dest: spec [of _ i])
  then have "split_into (received i (ls_log a)) (ingested i (ls_log a)) (ss_buffer s)"
    using arrive(4, 5) by (auto simp: session_bytes_def unread_def)
  then have "session_bytes i (s\<lparr>ss_buffer := ss_buffer s @ d\<rparr>) (ls_log b)"
    using split_append [of _ _ "ss_buffer s" d] arrive(5) by (auto simp: session_bytes_def arrive(1) unread_def split: option.split)
  then show ?thesis by (intro bytes_other [OF ok arrive(2)]) (simp_all add: arrive(1))
next
  case (ingest i s h f)
  have "session_bytes i (s\<lparr>ss_frame := Some f\<rparr>) (ls_log b)" if st: "ss_stream s"
  proof -
    let ?n = "nat (wp_Consumed (ac_response f))"
    have "session_bytes i s (ls_log a)" using ok ingest(2) st unfolding bytes_ok_def by (auto dest: spec [of _ i])
    then have "split_into (received i (ls_log a)) (ingested i (ls_log a)) (ss_buffer s)"
      using ingest(3, 5) by (auto simp: session_bytes_def unread_def)
    moreover have "rm_Payload (ac_raw f) = marshal_hex (take ?n (ss_buffer s))" "0 < ?n" "?n \<le> length (ss_buffer s)"
      using ingest(7) st by (auto simp: frame_fits_def)
    ultimately have "split_into (received i (ls_log a)) (ingested i (ls_log a) @ [ac_raw f]) (drop ?n (ss_buffer s))"
      by (rule split_take)
    then show ?thesis by (auto simp: session_bytes_def ingest(1) unread_def split: option.split)
  qed
  then show ?thesis
    by (intro bytes_other [OF ok ingest(2), of b "s\<lparr>ss_frame := Some f\<rparr>"]) (simp_all add: ingest(1))
next
  case (session i s t)
  show ?thesis
    by (rule bytes_put [OF ok session(2), of t]) (use session(3) in \<open>simp_all add: session(1) same_bytes_def unread_def calm_def split: option.split\<close>)
next
  case (identify i s f h e)
  show ?thesis by (rule bytes_put [OF ok identify(2)]) (simp_all add: identify(1) same_bytes_def unread_def count_bytes split: option.split)
next
  case (leave i s h e)
  show ?thesis by (rule bytes_put [OF ok leave(2)]) (simp_all add: leave(1) same_bytes_def unread_def count_bytes split: option.split)
next
  case (acknowledge i s f k c)
  show ?thesis by (rule bytes_put [OF ok acknowledge(2)]) (simp_all add: acknowledge(1) same_bytes_def unread_def split: option.split)
next
  case (consume i s f)
  show ?thesis by (rule bytes_put [OF ok consume(2)]) (simp_all add: consume(1) consume(3) same_bytes_def unread_def split: option.split)
next
  case (drop_frame i s)
  show ?thesis by (rule bytes_put [OF ok drop_frame(2)]) (simp_all add: drop_frame(1) same_bytes_def)
next
  case (await i s k w)
  show ?thesis by (rule bytes_put [OF ok await(2)]) (simp_all add: await(1) same_bytes_def unread_def split: option.split)
next
  case (forget i s m)
  show ?thesis by (rule bytes_put [OF ok forget(2)]) (simp_all add: forget(1) same_bytes_def unread_def split: option.split)
next
  case (mark i s)
  show ?thesis by (rule bytes_put [OF ok mark(2)]) (simp_all add: mark(1) same_bytes_def unread_def split: option.split)
next
  case (unlink i s)
  show ?thesis
    by (rule bytes_put [OF ok unlink(2)]) (simp_all add: unlink(1) unlink_same unlink(2) same_bytes_def unread_def split: option.split)
next
  case (add hid h remote stream now)
  have "ls_session a (ls_next a) = None" using listeners_invD(2) [OF inv, of "ls_next a"] by simp
  then show ?thesis
    by (intro bytes_kept [OF ok])
      (use add in \<open>auto simp: add_session_def Let_def new_listener_session_def same_bytes_def unread_def split: if_splits\<close>)
qed (auto intro!: bytes_kept [OF ok] split: if_splits)

end
