(* ===== verification/Listener_Sample.thy ===== *)
theory Listener_Sample
  imports Listener_Bytes
begin

text \<open>
  A run of the listeners: a listener dials its device, a command is sent to it, and the frame that answers
  the command arrives, is ingested and confirmed. It is an instance of what is proved about every run.
\<close>

section \<open>The engine and the environment\<close>

definition run_profile :: access_profile where
  "run_profile = zero_access_profile\<lparr>ap_ConnectionMode := ''dial'', ap_Mode := ''listener'', ap_Network := ''tcp'',
     ap_ID := ''a'', ap_TenantID := ''t'', ap_DeviceID := ''d'', ap_ProductID := ''p'', ap_Host := ''h'', ap_Port := 7,
     ap_Enabled := True\<rparr>"

definition run_device :: managed_device where
  "run_device = zero_managed_device\<lparr>md_ID := ''d'', md_TenantID := ''t'', md_ProductID := ''p'', md_Status := ''ENABLED''\<rparr>"

definition run_release :: protocol_release where
  "run_release = zero_protocol_release\<lparr>pl_TenantID := ''t'', pl_ProtocolID := ''x'', pl_Version := ''1'', pl_Transport := ''tcp'',
     pl_ParserType := ''go_protocol_parser'', pl_Status := ''PUBLISHED'', pl_Capabilities := [''ingress'', ''encode''],
     pl_Artifact := [(''runtime'', AStr ''go-protocol-v2'')]\<rparr>"

text \<open>The archive already holds the frame, so that ingesting it again is accepted at once.\<close>

definition run_repo :: repo where
  "run_repo = NewRepository\<lparr>r_products := [(key [''t'', ''p''], zero_product\<lparr>pr_ID := ''p'', pr_TenantID := ''t'', pr_Status := ''ENABLED''\<rparr>)],
     r_protocolBindings := [(key [''t'', ''p''], zero_product_binding\<lparr>pb_TenantID := ''t'', pb_ProductID := ''p'',
       pb_ProtocolID := ''x'', pb_Version := ''1''\<rparr>)],
     r_protocolReleases := [(key [''t'', ''x'', ''1''], run_release)],
     r_accessProfiles := [(key [''t'', ''a''], run_profile)], r_devices := [(key [''t'', ''d''], run_device)],
     r_raw := [(key [''t'', ''raw_s''], zero_raw_index\<lparr>ri_TenantID := ''t'', ri_MessageID := ''raw_s'', ri_DeviceID := ''d'',
       ri_ProductID := ''p'', ri_PayloadHash := ''s'', ri_PublishedAt := 1\<rparr>)]\<rparr>"

definition run_engine_start :: engine where
  "run_engine_start = \<lparr>e_repo = run_repo, e_click = NewRepository, e_last = [], e_out = [], e_calls = 0\<rparr>"

definition run_env :: env where
  "run_env = \<lparr>v_now = 5, v_nanos = ''0'', v_rnd = (\<lambda>n. []), v_bus = (\<lambda>_. None), v_mqtt = (\<lambda>_. None), v_visit = (\<lambda>_ _. 0),
     v_matcher = \<lparr>mt_sprint = (\<lambda>_. []), mt_parse_float = (\<lambda>_. None), mt_gengine = (\<lambda>_ _. None)\<rparr>,
     v_sha = (\<lambda>_. ''s''), v_cp = Some, v_object = (\<lambda>_. None), v_parsers = NewRegistry [],
     v_postgres = True, v_clickhouse = False, v_legacy = None, v_interval = 60\<rparr>"

text \<open>The package encodes the command as 41 and takes each byte as a frame of the device, confirmed with 42.\<close>

definition run_call :: "protocol_release \<Rightarrow> worker_request \<Rightarrow> worker_response res" where
  "run_call rel q = Inr (if wq_Operation q = ''ingress''
     then zero_worker_response\<lparr>wp_Consumed := 1, wp_DeviceID := ''d'', wp_Reply := ''42'', wp_CorrelationID := ''c''\<rparr>
     else zero_worker_response\<lparr>wp_Reply := ''41'', wp_CorrelationID := ''c''\<rparr>)"

definition run_listen :: listen_env where
  "run_listen = \<lparr>lv_env = run_env, lv_later = 6, lv_slot = None, lv_call = run_call, lv_json = (\<lambda>_. None),
     lv_marshal = (\<lambda>_. Some []), lv_claim = (\<lambda>_. True), lv_validate = (\<lambda>_ _. None), lv_registrar = None,
     lv_write = (\<lambda>_. None), lv_listen = (\<lambda>_. None)\<rparr>"

definition run_network :: network where
  "run_network = \<lparr>nw_busy = False, nw_bus = None, nw_cidr = (\<lambda>_. None), nw_ip = Some, nw_lookup = (\<lambda>_. Inr []),
     nw_ctx = (\<lambda>_. None), nw_dial = (\<lambda>_. None), nw_deadline = (\<lambda>_. None), nw_write = (\<lambda>_. None),
     nw_recv = (\<lambda>_. ([], ErrText ''EOF'')), nw_now = (\<lambda>_. 0), nw_nanos = (\<lambda>_. 0), nw_latency = (\<lambda>_. 0)\<rparr>"

lemma run_repo_inv: "engine_inv run_repo"
proof -
  have d: "devices_inv (r_devices run_repo)"
    by (simp add: devices_inv_def store_inv_def no_clash_def run_repo_def NewRepository_def run_device_def zero_managed_device_def
        device_filed_def nul_free_def nul_def mwf_def mall_def)
  have p: "profiles_inv (r_accessProfiles run_repo)"
    by (simp add: profiles_inv_def run_repo_def NewRepository_def mwf_def mall_def run_profile_def zero_access_profile_def
        nul_free_def nul_def)
  have "r_leases run_repo = r_leases NewRepository" "r_protocolMarket run_repo = r_protocolMarket NewRepository"
    "claims_inv run_repo = claims_inv NewRepository" "cameras_inv run_repo = cameras_inv NewRepository"
    "r_alarms run_repo = r_alarms NewRepository" "component_link run_repo = component_link NewRepository"
    "rules_inv run_repo = rules_inv NewRepository"
    by (simp_all add: run_repo_def claims_inv_def cameras_inv_def component_link_def rules_inv_def)
  then show ?thesis using engine_inv_start d p by (simp add: engine_inv_def repo_inv_def)
qed

section \<open>The run\<close>

lemma run_clones:
  "clone_release run_release = run_release" "clone_profile run_profile = run_profile"
  "clone_product (zero_product\<lparr>pr_ID := i, pr_TenantID := t, pr_Status := s\<rparr>) = zero_product\<lparr>pr_ID := i, pr_TenantID := t, pr_Status := s\<rparr>"
  by (simp_all add: clone_release_def run_release_def zero_protocol_release_def json_map_ok_def json_map_def
      clone_profile_def run_profile_def zero_access_profile_def clone_product_def zero_product_def)

lemma run_release_found:
  "GetProductProtocolBinding ''t'' ''p'' run_repo = Inr (zero_product_binding\<lparr>pb_TenantID := ''t'', pb_ProductID := ''p'',
       pb_ProtocolID := ''x'', pb_Version := ''1''\<rparr>)"
  "GetProtocolRelease ''t'' ''x'' ''1'' run_repo = Inr run_release"
  "GetDeviceAccessProfile ''t'' ''a'' run_repo = Inr run_profile"
  "GetManagedDevice ''t'' ''d'' run_repo = Inr run_device"
  "GetProduct ''t'' ''p'' run_repo = Inr (zero_product\<lparr>pr_ID := ''p'', pr_TenantID := ''t'', pr_Status := ''ENABLED''\<rparr>)"
  by (simp_all add: GetProductProtocolBinding_def GetProtocolRelease_def GetDeviceAccessProfile_def GetManagedDevice_def
      GetProduct_def found_def run_repo_def mget_def run_clones)

lemma run_words: "trim_space ''tcp'' = ''tcp''" "to_lower ''tcp'' = ''tcp''" "trim_space ''h'' = ''h''" "trim_space ''d'' = ''d''"
  "equal_fold ''listener'' ''listener''" "equal_fold ''tcp'' ''tcp''" "\<not> equal_fold ''ENABLED'' ''DISABLED''"
  by (simp_all add: visible_simps to_lower_def lower_char_def equal_fold_def)

lemma run_profile_fields [simp]:
  "ap_ConnectionMode run_profile = ''dial''" "ap_Mode run_profile = ''listener''" "ap_Network run_profile = ''tcp''"
  "ap_ID run_profile = ''a''" "ap_TenantID run_profile = ''t''" "ap_DeviceID run_profile = ''d''" "ap_ProductID run_profile = ''p''"
  "ap_Host run_profile = ''h''" "ap_Port run_profile = 7" "ap_Enabled run_profile" "ap_EdgeNodeID run_profile = []"
  "ap_Queries run_profile = []" "ap_ChildProducts run_profile = []" "ap_WireFormat run_profile = []"
  "ap_AutoRegister run_profile = False" "ap_CollectorID run_profile = []"
  by (simp_all add: run_profile_def zero_access_profile_def)

lemma run_listen_fields [simp]:
  "lv_env run_listen = run_env" "lv_slot run_listen = None" "lv_call run_listen = run_call" "lv_claim run_listen = (\<lambda>_. True)"
  "lv_validate run_listen = (\<lambda>_ _. None)" "lv_registrar run_listen = None" "lv_write run_listen = (\<lambda>_. None)" "lv_later run_listen = 6"
  "lv_json run_listen = (\<lambda>_. None)"
  by (simp_all add: run_listen_def)

lemma run_setup:
  "ListDeviceAccessProfiles [] run_repo = [run_profile]" "listener_wanted run_listen run_profile" "lower_network run_profile = run_profile"
  "ValidateProtocolAccess run_listen run_profile = Inr ()" "listener_release run_profile run_repo = Inr run_release"
  "listenerKey ''t'' ''a'' = key [''t'', ''a'']"
proof -
  show "ListDeviceAccessProfiles [] run_repo = [run_profile]"
    by (simp add: ListDeviceAccessProfiles_def run_repo_def mfilter_def mvals_def run_clones)
  show "listener_wanted run_listen run_profile" by (simp add: listener_wanted_def run_words)
  show "lower_network run_profile = run_profile"
    by (simp add: lower_network_def run_words)
  show "ValidateProtocolAccess run_listen run_profile = Inr ()" by (simp add: ValidateProtocolAccess_def bind_res_def)
  show "listener_release run_profile run_repo = Inr run_release"
    by (simp add: listener_release_def run_release_found run_release_def zero_protocol_release_def zero_product_binding_def
        any_at_def mget_or_def mget_def HasCapability_def run_words)
  show "listenerKey ''t'' ''a'' = key [''t'', ''a'']" by (simp add: listenerKey_def)
qed

definition run_host :: protocol_listener where
  "run_host = \<lparr>ho_profile = run_profile, ho_kind = Dials, ho_live = True, ho_sessions = [], ho_identified = [],
     ho_lastAcceptedAt = 0, ho_lastError = []\<rparr>"

definition run1 :: listeners where
  "run1 = put_host 0 run_host ((NewListeners run_engine_start)\<lparr>ls_next := 1, ls_hosts := [(key [''t'', ''a''], 0)]\<rparr>)"

lemma run_repo_of [simp]: "repo_of (NewListeners run_engine_start) = run_repo"
  by (simp add: repo_of_def NewListeners_def run_engine_start_def)

lemma run_reconcile: "reconcile run_listen (NewListeners run_engine_start) = run1"
proof -
  have o: "open_host run_listen (key [''t'', ''a'']) run_profile (NewListeners run_engine_start) = run1"
    by (simp add: open_host_def run_setup NewListeners_def mput_def mdel_def run1_def run_host_def host_kind_of_def Let_def
        repo_of_def run_engine_start_def)
  have "reconcile_profile run_listen run_profile (NewListeners run_engine_start) = run1"
    using o by (simp add: reconcile_profile_def run_setup(6) Let_def) (simp add: NewListeners_def)
  then have "reconcile_profiles run_listen [run_profile] [] (NewListeners run_engine_start) = ([key [''t'', ''a'']], run1)"
    by (simp add: run_setup)
  then show ?thesis by (simp add: reconcile_def run_setup(1)) (simp add: run1_def NewListeners_def put_host_def)
qed

text \<open>A reachable state with the session 1 and its log.\<close>

definition run_host2 :: protocol_listener where
  "run_host2 = run_host\<lparr>ho_sessions := [(''r'', 1)]\<rparr>"

definition run_state :: "listeners \<Rightarrow> listener_session \<Rightarrow> listener_event list \<Rightarrow> bool" where
  "run_state ls s log1 \<longleftrightarrow> listeners_reach ls \<and> ls_session ls 1 = Some s \<and> ls_host ls 0 = Some run_host2 \<and>
     ls_hosts ls = [(key [''t'', ''a''], 0)] \<and> ls_engine ls = run_engine_start \<and> ls_log ls = log1 \<and> ls_counts ls = []"

definition run_session :: listener_session where
  "run_session = new_listener_session 0 ''r'' True 5"

lemma run_dialled: "\<exists>ls. run_state ls run_session [] \<and> ls_next ls = 2"
proof -
  let ?ls = "snd (dial_turn run_listen run_network [] 0 0 ''r'' run1)"
  have "listeners_reach run1"
    using listeners_reach.step [OF listeners_reach.new listen_step.reconcile, of run_engine_start run_listen] run_repo_inv
    unfolding run_reconcile by (simp add: run_engine_start_def)
  then have "listeners_reach ?ls" by (rule listeners_reach.step) (rule listen_step.dial)
  moreover have "?ls = add_session 0 ''r'' True 5 run_host run1"
    by (simp add: dial_turn_def run1_def run_host_def resolveAllowedTarget_def run_network_def Let_def run_env_def)
  ultimately show ?thesis
    by (intro exI [of _ ?ls]) (simp add: run_state_def add_session_def Let_def run1_def NewListeners_def run_host2_def run_session_def
        mput_def run_host_def put_session_def put_host_def)
qed

lemma run_known: "repo_of ls = run_repo \<Longrightarrow> listener_device run_listen run_profile ''d'' name ls = (Inr run_device, ls)"
proof -
  have "contains ''d'' p \<longleftrightarrow> p = [] \<or> p = ''d''" for p by (cases p) (auto simp: has_prefix_def)
  moreover have "\<not> (p = [] \<or> p = ''d'')" if "p \<in> set control_or_space" for p
    using that by (auto simp: control_or_space_def spaces_def bytes_def char_of_eq_iff take_bit_eq_mod)
  ultimately have "ValidProtocolDeviceID ''d''"
    by (auto simp: ValidProtocolDeviceID_def run_words list_ex_iff simp del: contains.simps)
  then show "repo_of ls = run_repo \<Longrightarrow> ?thesis"
    by (simp add: listener_device_def Let_def run_release_found run_device_def zero_managed_device_def run_words)
qed

lemma run_selected:
  "selectRelease run_profile run_repo run_session = Inr (run_session\<lparr>ss_release := run_release\<rparr>)"
  by (simp add: selectRelease_def bind_res_def run_setup run_session_def new_listener_session_def zero_protocol_release_def)

lemma run_session_fields [simp]:
  "ss_commandBusy run_session = False" "ss_pending run_session = []" "ss_state run_session = []" "ss_stream run_session"
  "ss_partial run_session = False" "ss_deviceID run_session = []" "ss_frame run_session = None" "ss_buffer run_session = []"
  "ss_stage run_session = Live" "ss_host run_session = 0" "ss_reading run_session" "ss_ended run_session = False"
  "ss_commandChild run_session = None" "ss_remote run_session = ''r''"
  by (simp_all add: run_session_def new_listener_session_def)

lemma run_host_fields [simp]:
  "ho_profile run_host2 = run_profile" "ho_live run_host2" "ho_sessions run_host2 = [(''r'', 1)]" "ho_identified run_host2 = []"
  "ho_kind run_host2 = Dials" "ho_lastAcceptedAt run_host2 = 0"
  by (simp_all add: run_host2_def run_host_def)

lemma run_invoke:
  "session_invoke run_listen p q s = Inr (if wq_Operation q = ''ingress''
     then zero_worker_response\<lparr>wp_Consumed := 1, wp_DeviceID := ''d'', wp_Reply := ''42'', wp_CorrelationID := ''c''\<rparr>
     else zero_worker_response\<lparr>wp_Reply := ''41'', wp_CorrelationID := ''c''\<rparr>)"
  by (simp add: session_invoke_def Let_def bind_res_def run_call_def zero_worker_response_def)

lemma run_hex: "hex_decode ''41'' = Some [65]" "hex_decode ''42'' = Some [66]"
  by code_simp+

definition run_waiting :: listener_session where
  "run_waiting = run_session\<lparr>ss_release := run_release, ss_commandBusy := True, ss_state := [], ss_pending := [(''c'', 2)]\<rparr>"

lemma run_commanded:
  assumes s: "run_state ls run_session []" and n: "ls_next ls = 2"
  shows "\<exists>ls. run_state ls run_waiting [Dispatched 2 1 [65]]"
proof -
  let ?ls = "snd (Command run_listen ''t'' ''a'' ''d'' [] ls)"
  have ls: "listeners_reach ls" "ls_session ls 1 = Some run_session" "ls_host ls 0 = Some run_host2"
    "ls_hosts ls = [(key [''t'', ''a''], 0)]" "ls_engine ls = run_engine_start" "ls_log ls = []" "ls_counts ls = []"
    using s by (simp_all add: run_state_def)
  have r: "repo_of ls = run_repo" by (simp add: repo_of_def ls run_engine_start_def)
  have c: "command_session run_host2 ''d'' ls = Some 1"
    by (simp add: command_session_def run_host2_def run_host_def mvals_def ls command_fits_def run_session_def new_listener_session_def del: One_nat_def)
  have t: "command_target ''t'' ''d'' (repo_of ls) = (''d'', None)"
    by (simp add: command_target_def r run_release_found run_device_def zero_managed_device_def)
  have e: "?ls = snd (command_on run_listen 1 run_session run_host2 ''d'' ''d'' None [] ls)"
    using c t by (simp add: Command_def ls run_setup(6) mget_def del: One_nat_def)
  have w: "?ls = put_session 1 run_waiting (put_call 2 \<lparr>cc_session = 1, cc_id = ''c'', cc_result = None, cc_expired = False\<rparr>
      (log_event (Dispatched 2 1 [65]) ((put_session 1 (run_session\<lparr>ss_release := run_release\<rparr>) ls)\<lparr>ls_next := 3\<rparr>)))"
    unfolding e
    by (simp add: command_on_def Let_def r run_known run_selected encodeCommand_def run_invoke encode_request_def
        zero_worker_request_def zero_worker_response_def command_write_def run_hex any_at_def mget_or_def mput_def n run_waiting_def
        del: One_nat_def hex_decode.simps)
  have "listeners_reach ?ls"
    by (rule listeners_reach.step [OF ls(1) listen_step.command]) (use c t ls in \<open>auto simp: run_setup(6) mget_def\<close>)
  then show ?thesis
    by (intro exI [of _ ?ls]) (simp add: run_state_def w ls put_call_def put_session_def log_event_def)
qed

definition run_got :: listener_session where
  "run_got = run_waiting\<lparr>ss_buffer := [7], ss_reading := False\<rparr>"

lemma run_received:
  assumes s: "run_state ls run_waiting xs"
  shows "\<exists>ls. run_state ls run_got (Received 1 [7] # xs)"
proof -
  have ls: "listeners_reach ls" "ls_session ls 1 = Some run_waiting" using s by (simp_all add: run_state_def)
  have "listeners_reach (tcp_read 1 [7] ls)"
    by (rule listeners_reach.step [OF ls(1) listen_step.read [OF ls(2)]]) (simp_all add: read_fits_def run_waiting_def)
  moreover have "tcp_read 1 [7] ls = put_session 1 run_got (log_event (Received 1 [7]) ls)"
    using ls(2) by (simp add: tcp_read_def run_got_def run_waiting_def del: One_nat_def)
  ultimately show ?thesis using s
    by (intro exI [of _ "tcp_read 1 [7] ls"]) (simp add: run_state_def put_session_def log_event_def)
qed

lemma run_got_fields [simp]:
  "ss_commandBusy run_got" "ss_pending run_got = [(''c'', 2)]" "ss_state run_got = []" "ss_stream run_got"
  "ss_partial run_got = False" "ss_deviceID run_got = []" "ss_frame run_got = None" "ss_buffer run_got = [7]"
  "ss_stage run_got = Live" "ss_host run_got = 0" "\<not> ss_reading run_got" "ss_ended run_got = False"
  "ss_commandChild run_got = None" "ss_remote run_got = ''r''" "ss_release run_got = run_release"
  by (simp_all add: run_got_def run_waiting_def)

definition run_raw :: raw_message where
  "run_raw = Normalize run_env (frame_raw run_listen run_profile run_got run_device [7] [])"

lemma run_raw_fields:
  "rm_MessageID run_raw = ''raw_s''" "rm_TenantID run_raw = ''t''" "rm_DeviceID run_raw = ''d''" "rm_ProductID run_raw = ''p''"
  "rm_ProtocolID run_raw = ''x''" "rm_ProtocolVersion run_raw = ''1''" "rm_GatewayID run_raw = []" "rm_Payload run_raw = marshal_hex [7]"
  "Normalize run_env run_raw = run_raw"
  by (simp_all add: run_raw_def frame_raw_def Normalize_def Let_def run_env_def zero_raw_message_def run_device_def
      zero_managed_device_def run_release_def zero_protocol_release_def)

lemma run_ingest:
  assumes "ls_engine ls = run_engine_start"
  shows "\<exists>x. run_engine (IngestRaw run_env run_raw) ls = (Inr x, ls)"
proof -
  have b: "bind_protocol run_raw r = run_raw" for r by (simp add: bind_protocol_def run_raw_fields)
  have v: "ValidateRaw run_raw = None"
    by (simp add: ValidateRaw_def run_raw_fields visible_simps marshal_hex_def)
  have i: "GetRawIndex ''t'' ''raw_s'' run_repo = Inr (zero_raw_index\<lparr>ri_TenantID := ''t'', ri_MessageID := ''raw_s'',
      ri_DeviceID := ''d'', ri_ProductID := ''p'', ri_PayloadHash := ''s'', ri_PublishedAt := 1\<rparr>)" (is "_ = Inr ?idx")
    by (simp add: GetRawIndex_def found_def run_repo_def mget_def)
  have n: "index_conflict run_env ?idx run_raw = False"
    by (simp add: index_conflict_def PayloadHash_def run_raw_fields run_env_def)
  have "IngestRaw run_env run_raw run_engine_start = (Inr (?idx, False), run_engine_start)"
    by (simp add: IngestRaw_def proc_defs run_raw_fields b v ensureGatewayChild_def check_child_def run_engine_start_def i
        ingest_again_def n)
  then show ?thesis using assms by (intro exI [of _ "(?idx, False)"]) (simp add: run_engine_def)
qed

text \<open>The frame is ingested, and then confirmed and handed to the waiting command.\<close>

definition run_frame :: accepted_frame where
  "run_frame = \<lparr>ac_profile = run_profile, ac_device = run_device,
     ac_response = zero_worker_response\<lparr>wp_Consumed := 1, wp_DeviceID := ''d'', wp_Reply := ''42'', wp_CorrelationID := ''c''\<rparr>,
     ac_reply = [66], ac_raw = run_raw\<rparr>"

lemma run_accepted:
  assumes s: "run_state ls run_got xs"
  shows "\<exists>ls. run_state ls (run_got\<lparr>ss_frame := Some run_frame\<rparr>) (Ingested 1 run_raw # xs)"
proof -
  have ls: "listeners_reach ls" "ls_session ls 1 = Some run_got" "ls_host ls 0 = Some run_host2" "ls_engine ls = run_engine_start"
    using s by (simp_all add: run_state_def)
  have r: "repo_of ls = run_repo" by (simp add: repo_of_def ls run_engine_start_def)
  have sel: "selectRelease run_profile run_repo run_got = Inr run_got"
    by (simp add: selectRelease_def run_release_def zero_protocol_release_def)
  have p: "put_session 1 run_got ls = ls"
    using ls(2) by (simp add: put_session_def fun_upd_idem)
  obtain x where x: "run_engine (IngestRaw run_env run_raw) ls = (Inr x, ls)" using run_ingest [OF ls(4)] by blast
  let ?resp = "zero_worker_response\<lparr>wp_Consumed := 1, wp_DeviceID := ''d'', wp_Reply := ''42'', wp_CorrelationID := ''c''\<rparr>"
  have i: "frame_ingest run_listen 1 run_got run_profile [7] ?resp [66] ls =
      (Inr (Some run_frame), put_session 1 (run_got\<lparr>ss_frame := Some run_frame\<rparr>) (log_event (Ingested 1 run_raw) ls))"
    by (simp add: frame_ingest_def Let_def run_words zero_worker_response_def run_known r x ingestChildren_def run_raw_def [symmetric]
        run_frame_def del: One_nat_def)
  have "frame_accept run_listen 1 [7] False ls =
      (Inr (Some run_frame), put_session 1 (run_got\<lparr>ss_frame := Some run_frame\<rparr>) (log_event (Ingested 1 run_raw) ls))"
    using i by (simp add: frame_accept_def ls(2, 3) Let_def r sel p run_invoke zero_worker_request_def zero_worker_response_def
        run_hex del: One_nat_def hex_decode.simps)
  then have e: "frame_start run_listen 1 ls = put_session 1 (run_got\<lparr>ss_frame := Some run_frame\<rparr>) (log_event (Ingested 1 run_raw) ls)"
    by (simp add: frame_start_def ls(2) frame_input_def del: One_nat_def)
  have "listeners_reach (frame_start run_listen 1 ls)"
    by (rule listeners_reach.step [OF ls(1) listen_step.frame_start [OF ls(2)]]) simp_all
  then show ?thesis using s
    by (intro exI [of _ "frame_start run_listen 1 ls"]) (simp add: run_state_def e put_session_def log_event_def del: One_nat_def)
qed

lemma run_replied:
  assumes s: "run_state ls (run_got\<lparr>ss_frame := Some run_frame\<rparr>) xs"
  shows "\<exists>ls h s. listeners_reach ls \<and> ls_session ls 1 = Some s \<and> ss_stream s \<and> ls_host ls 0 = Some h \<and>
    ap_TenantID (ho_profile h) = ''t'' \<and> ss_host s = 0 \<and> ss_deviceID s = ''d'' \<and> ss_stage s = Live \<and>
    ss_frame s = None \<and> \<not> ss_ended s \<and> ss_buffer s = [] \<and>
    mget (ho_sessions h) ''r'' = Some 1 \<and> mget (ho_identified h) ''d'' = Some 1 \<and>
    ls_log ls = [Acknowledged 2 ''raw_s'', Replied 1 [66] ''raw_s'', Reported (key [''t'', ''d'']) True] @ xs"
proof -
  let ?s = "run_got\<lparr>ss_frame := Some run_frame\<rparr>" and ?k = "key [''t'', ''d'']"
  have ls: "listeners_reach ls" "ls_session ls 1 = Some ?s" "ls_host ls 0 = Some run_host2" "ls_log ls = xs" "ls_counts ls = []"
    using s by (simp_all add: run_state_def)
  obtain e where e: "reportConnection run_listen run_profile ''d'' True ls = count_up (key [ap_TenantID run_profile, ''d'']) e ls"
    using report_up [of run_listen run_profile "''d''" ls] by blast
  have x: "md_ID run_device = ''d''" by (simp add: run_device_def)
  have f: "ls_session (resolve_call c y l) = ls_session l" "ls_host (resolve_call c y l) = ls_host l"
    "ls_log (resolve_call c y l) = ls_log l" for c y l
    by (simp_all add: resolve_call_def put_call_def split: option.split)
  have "listeners_reach (frame_end run_listen 1 ls)"
    by (rule listeners_reach.step [OF ls(1) listen_step.frame_end [OF ls(2)]]) simp
  moreover
  note d = frame_commit_def ls Let_def run_frame_def frame_register_def e x count_up_def mget_or_def
    frame_deliver_def mget_def answers_command_def zero_worker_response_def f log_event_def
    put_session_def put_host_def run_raw_fields mput_def mdel_def
  have "fst (frame_commit run_listen 1 ls) = Inr 1"
    "ls_session (snd (frame_commit run_listen 1 ls)) 1 = Some (?s\<lparr>ss_partial := False, ss_deviceID := ''d'',
      ss_lastSeen := 6, ss_state := [], ss_pending := []\<rparr>)"
    "ls_host (snd (frame_commit run_listen 1 ls)) 0 =
      Some (run_host2\<lparr>ho_identified := [(''d'', 1)], ho_lastError := [], ho_lastAcceptedAt := 6\<rparr>)"
    "ls_log (snd (frame_commit run_listen 1 ls)) = [Acknowledged 2 ''raw_s'', Replied 1 [66] ''raw_s'', Reported ?k True] @ xs"
    by (simp_all add: d del: One_nat_def)
  moreover obtain n ls1 where "frame_commit run_listen 1 ls = (n, ls1)" by fastforce
  ultimately show ?thesis
    by (intro exI [of _ "frame_end run_listen 1 ls"]) (simp add: frame_end_def frame_take_def put_session_def mget_def del: One_nat_def)
qed

text \<open>The whole run: what the properties of the listeners are tried on.\<close>

lemma run_end:
  "\<exists>ls h s. listeners_reach ls \<and> ls_session ls 1 = Some s \<and> ss_stream s \<and> ls_host ls 0 = Some h \<and>
    ap_TenantID (ho_profile h) = ''t'' \<and> ss_host s = 0 \<and> ss_deviceID s = ''d'' \<and> ss_stage s = Live \<and>
    ss_frame s = None \<and> \<not> ss_ended s \<and> ss_buffer s = [] \<and>
    mget (ho_sessions h) ''r'' = Some 1 \<and> mget (ho_identified h) ''d'' = Some 1 \<and>
    ls_log ls = [Acknowledged 2 ''raw_s'', Replied 1 [66] ''raw_s'', Reported (key [''t'', ''d'']) True, Ingested 1 run_raw,
      Received 1 [7], Dispatched 2 1 [65]]"
proof -
  obtain a where "run_state a run_session []" "ls_next a = 2" using run_dialled by blast
  then obtain b where "run_state b run_waiting [Dispatched 2 1 [65]]" using run_commanded by blast
  then obtain c where "run_state c run_got [Received 1 [7], Dispatched 2 1 [65]]" using run_received by blast
  then obtain d where "run_state d (run_got\<lparr>ss_frame := Some run_frame\<rparr>)
    [Ingested 1 run_raw, Received 1 [7], Dispatched 2 1 [65]]" using run_accepted by blast
  then show ?thesis using run_replied by fastforce
qed

end
