(* ===== verification/Listener_Life.thy ===== *)
theory Listener_Life
  imports Listener_Runs
begin

text \<open>
  The life of a session: its closing only advances, and its host, its peer and, once it has one, its
  identity stay what they are. The stages of a closing are ordered by how far it has come.
\<close>

section \<open>The order of the stages\<close>

fun stage_number :: "close_stage \<Rightarrow> nat" where
  "stage_number Live = 0" | "stage_number Shut = 1" | "stage_number Marked = 2" | "stage_number Unlinked = 3" | "stage_number Gone = 4"

instantiation close_stage :: linorder
begin

definition less_eq_close_stage :: "close_stage \<Rightarrow> close_stage \<Rightarrow> bool" where
  "less_eq_close_stage a b \<longleftrightarrow> stage_number a \<le> stage_number b"

definition less_close_stage :: "close_stage \<Rightarrow> close_stage \<Rightarrow> bool" where
  "less_close_stage a b \<longleftrightarrow> stage_number a < stage_number b"

instance
proof
  show "a = b" if "a \<le> b" "b \<le> a" for a b :: close_stage
    using that by (cases a; cases b) (simp_all add: less_eq_close_stage_def)
qed (auto simp: less_eq_close_stage_def less_close_stage_def)

end

lemma stage_order [simp]: "Live \<le> a" "Shut \<le> Marked" "Marked \<le> Unlinked" "a \<le> Gone"
  by (cases a; simp add: less_eq_close_stage_def)+

section \<open>What a session keeps\<close>

definition later_session :: "listener_session \<Rightarrow> listener_session \<Rightarrow> bool" where
  "later_session s t \<longleftrightarrow> ss_stage s \<le> ss_stage t \<and> ss_host t = ss_host s \<and> ss_remote t = ss_remote s \<and>
     ss_stream t = ss_stream s \<and> (ss_deviceID s = [] \<or> ss_deviceID t = ss_deviceID s)"

lemma later_refl [simp]: "later_session s s"
  by (simp add: later_session_def)

lemma later_trans: "later_session s t \<Longrightarrow> later_session t u \<Longrightarrow> later_session s u"
  by (auto simp: later_session_def intro: order_trans)

definition sessions_live :: "listeners \<Rightarrow> listeners \<Rightarrow> bool" where
  "sessions_live a b \<longleftrightarrow> (\<forall>i s. ls_session a i = Some s \<longrightarrow> (\<exists>t. ls_session b i = Some t \<and> later_session s t))"

lemma sessions_live_refl: "sessions_live a a"
  by (simp add: sessions_live_def)

lemma sessions_live_trans: "sessions_live a b \<Longrightarrow> sessions_live b c \<Longrightarrow> sessions_live a c"
  unfolding sessions_live_def by (meson later_trans)

lemma sessions_live_put:
  "ls_session a i = Some s \<Longrightarrow> later_session s t \<Longrightarrow> ls_session b = (ls_session a)(i \<mapsto> t) \<Longrightarrow> sessions_live a b"
  by (auto simp: sessions_live_def)

lemma sessions_live_same: "ls_session b = ls_session a \<Longrightarrow> sessions_live a b"
  by (simp add: sessions_live_def)

lemma later_calm: "calm s t \<Longrightarrow> later_session s t"
  by (auto simp: calm_def later_session_def)

lemma move_sessions_live:
  assumes "move a b" "listeners_inv a"
  shows "sessions_live a b"
  using assms
proof (induction rule: move.induct)
  case (session ls i s t)
  then show ?case by (intro sessions_live_put [of ls i s t]) (simp_all add: later_calm)
next
  case (unlink ls i s)
  then show ?case
    by (intro sessions_live_put [of ls i s "s\<lparr>ss_stage := Unlinked\<rparr>"])
      (auto simp: close_unlink_def later_session_def split: option.split)
next
  case (add ls hid h remote stream now)
  then have "ls_session ls (ls_next ls) = None" using listeners_invD(2) by blast
  then show ?case by (auto simp: sessions_live_def add_session_def Let_def)
next
  case (leave ls i s h e)
  then show ?case
    by (intro sessions_live_put [of ls i s "s\<lparr>ss_stage := Gone\<rparr>"]) (auto simp: count_down_def Let_def later_session_def)
next
  case (identify ls i s a h e)
  then show ?case
    by (intro sessions_live_put [of ls i s "s\<lparr>ss_deviceID := md_ID (ac_device a)\<rparr>"])
      (auto simp: count_up_def Let_def later_session_def)
next
  case (mark ls i s)
  then show ?case
    by (intro sessions_live_put [of ls i s "s\<lparr>ss_stage := Marked\<rparr>"]) (auto simp: later_session_def)
qed (auto simp: sessions_live_def later_session_def)

lemma moves_sessions_live: "move\<^sup>*\<^sup>* a b \<Longrightarrow> listeners_inv a \<Longrightarrow> sessions_live a b"
proof (induction rule: rtranclp_induct)
  case (step b c)
  then show ?case using move_sessions_live rtrancl_moves_inv sessions_live_trans by blast
qed (rule sessions_live_refl)

lemma steps_sessions_live:
  assumes "listen_step\<^sup>*\<^sup>* a b" "listeners_reach a"
  shows "listeners_reach b \<and> sessions_live a b"
  using assms
proof (induction rule: rtranclp_induct)
  case (step b c)
  have "sessions_live b c"
    using step step_moves [of b c] reach_inv moves_sessions_live unfolding moves_def by blast
  then show ?case using step sessions_live_trans listeners_reach.step by blast
qed (simp add: sessions_live_refl)

end
