(* ===== verification/Listener_Props.thy ===== *)
theory Listener_Props
  imports Listener_Sample Listener_Life
begin

text \<open>What holds of every run of the listeners.\<close>

section \<open>Every run\<close>

lemma new_ok: "counts_ok (NewListeners e)" "frames_ok (NewListeners e)" "bytes_ok (NewListeners e)"
  by (simp_all add: counts_ok_def connected_def session_key_def frames_ok_def waits_ok_def bytes_ok_def
      NewListeners_def mget_or_def)

lemma reach_counts: "listeners_reach ls \<Longrightarrow> counts_ok ls"
  by (rule reach_invariant [where P = counts_ok, OF _ new_ok(1) move_keeps_counts])

lemma reach_frames: "listeners_reach ls \<Longrightarrow> frames_ok ls"
  by (rule reach_invariant [where P = frames_ok, OF _ new_ok(2) move_keeps_frames])

lemma reach_bytes: "listeners_reach ls \<Longrightarrow> bytes_ok ls"
  by (rule reach_invariant [where P = bytes_ok, OF _ new_ok(3) move_keeps_bytes])

lemma session_key_Some:
  "session_key ls i = Some k \<longleftrightarrow> (\<exists>s h. ls_session ls i = Some s \<and> ss_stage s \<noteq> Gone \<and> ss_deviceID s \<noteq> [] \<and>
      ls_host ls (ss_host s) = Some h \<and> connection_key h (ss_deviceID s) = k)"
  by (cases "ls_session ls i") (auto simp: session_key_def)

lemma hosts_inv_remote:
  "listeners_reach ls \<Longrightarrow> ls_host ls hid = Some h \<Longrightarrow> mget (ho_sessions h) r = Some i \<Longrightarrow>
    \<exists>s. ls_session ls i = Some s \<and> ss_remote s = r"
  using listeners_invD(4) [OF reach_inv] unfolding host_ok_def linked_def by blast

section \<open>Properties\<close>

text \<open>
  C5. A device is reported connected exactly while a session has its identity: in every reachable state
  the last report of a device says connected if and only if some session of its tenant that is identified
  as the device has not been reported closed, however many sessions it has and in whatever order they
  are opened and closed.
\<close>

theorem connection_reports_exact:
  assumes "listeners_reach ls" "nul_free t" "d \<noteq> []"
  shows "last_report (key [t, d]) (ls_log ls) \<longleftrightarrow>
    (\<exists>i s h. ls_session ls i = Some s \<and> ss_stage s \<noteq> Gone \<and> ss_deviceID s = d \<and>
       ls_host ls (ss_host s) = Some h \<and> ap_TenantID (ho_profile h) = t)"
proof -
  have inv: "listeners_inv ls" by (rule reach_inv [OF assms(1)])
  have "counts_ok ls" by (rule reach_counts [OF assms(1)])
  then have "last_report (key [t, d]) (ls_log ls) \<longleftrightarrow> (\<exists>i. session_key ls i = Some (key [t, d]))"
    by (auto simp: counts_ok_def connected_def)
  also have "\<dots> \<longleftrightarrow> (\<exists>i s h. ls_session ls i = Some s \<and> ss_stage s \<noteq> Gone \<and> ss_deviceID s = d \<and>
       ls_host ls (ss_host s) = Some h \<and> ap_TenantID (ho_profile h) = t)"
  proof -
    have "connection_key h d' = key [t, d] \<longleftrightarrow> ap_TenantID (ho_profile h) = t \<and> d' = d" if "ls_host ls hid = Some h" for hid h d'
      using listeners_invD(4) [OF inv that] key2_inject [OF _ assms(2)] unfolding connection_key_def host_ok_def by blast
    then show ?thesis unfolding session_key_Some using assms(3) by metis
  qed
  finally show ?thesis .
qed

lemma connection_reports_exact_witness:
  "\<exists>ls. listeners_reach ls \<and> ls_log ls \<noteq> [] \<and> last_report (key [''t'', ''d'']) (ls_log ls)"
proof -
  obtain ls h s where r: "listeners_reach ls" "ls_session ls 1 = Some s" "ls_host ls 0 = Some h"
    "ap_TenantID (ho_profile h) = ''t''" "ss_host s = 0" "ss_deviceID s = ''d''" "ss_stage s = Live" "ls_log ls \<noteq> []"
    using run_end by force
  have "last_report (key [''t'', ''d'']) (ls_log ls)"
    using connection_reports_exact [OF r(1), of "''t''" "''d''"] r by (fastforce simp: nul_free_def nul_def)
  then show ?thesis using r(1, 8) by blast
qed

text \<open>
  C6. A command gets at most one answer, and only from a frame that was taken after the command was sent:
  before an answer the session has sent the command and then a frame of that session was ingested, whose
  message the answer names.
\<close>

theorem command_answered_once:
  assumes "listeners_reach ls" "ls_log ls = xs @ Acknowledged c m # ys"
  shows "(\<forall>m'. Acknowledged c m' \<notin> set ys) \<and>
    (\<exists>i w raw us zs. ys = us @ Ingested i raw # zs \<and> rm_MessageID raw = m \<and> Dispatched c i w \<in> set zs)"
proof -
  have "log_ok (xs @ Acknowledged c m # ys)"
    using reach_frames [OF assms(1)] unfolding frames_ok_def assms(2) by blast
  then show ?thesis using log_okD [of xs "Acknowledged c m" ys] by (simp add: justified_def)
qed

lemma command_answered_once_witness:
  "\<exists>ls i w raw us zs. listeners_reach ls \<and> hd (ls_log ls) = Acknowledged 2 ''raw_s'' \<and>
     tl (ls_log ls) = us @ Ingested i raw # zs \<and> rm_MessageID raw = ''raw_s'' \<and> Dispatched 2 i w \<in> set zs"
proof -
  obtain ls ys where r: "listeners_reach ls" "ls_log ls = [] @ Acknowledged 2 ''raw_s'' # ys" using run_end by force
  then show ?thesis using command_answered_once [OF r] by (intro exI [of _ ls]) simp
qed

text \<open>
  C14. A frame is confirmed to its device only after the engine has taken it: before a reply over a session
  a frame of that session was ingested, under the message identifier the reply confirms.
\<close>

theorem reply_follows_ingestion:
  assumes "listeners_reach ls" "ls_log ls = xs @ Replied i b m # ys"
  shows "\<exists>raw. Ingested i raw \<in> set ys \<and> rm_MessageID raw = m"
proof -
  have "log_ok (xs @ Replied i b m # ys)"
    using reach_frames [OF assms(1)] unfolding frames_ok_def assms(2) by blast
  then show ?thesis using log_okD [of xs "Replied i b m" ys] by (simp add: justified_def)
qed

lemma reply_follows_ingestion_witness:
  "\<exists>ls ys raw. listeners_reach ls \<and> tl (ls_log ls) = Replied 1 [66] ''raw_s'' # ys \<and> Ingested 1 raw \<in> set ys \<and>
     rm_MessageID raw = ''raw_s''"
proof -
  obtain ls a ys where r: "listeners_reach ls" "ls_log ls = [a] @ Replied 1 [66] ''raw_s'' # ys" using run_end by force
  then show ?thesis using reply_follows_ingestion [OF r] by (intro exI [of _ ls]) simp
qed

text \<open>
  C15. No byte of a TCP session is lost, repeated or reordered on the way to the engine: the payloads it has
  ingested are, in order, the non-empty frames of a prefix of the bytes received, and while the session
  reads between two frames the rest is its buffer.
\<close>

theorem session_bytes_are_ingested:
  assumes "listeners_reach ls" "ls_session ls i = Some s" "ss_stream s"
  shows "\<exists>bs rest. map rm_Payload (ingested i (ls_log ls)) = map marshal_hex bs \<and> [] \<notin> set bs \<and>
    received i (ls_log ls) = concat bs @ rest \<and> (\<not> ss_ended s \<and> ss_frame s = None \<longrightarrow> rest = ss_buffer s)"
proof -
  have "session_bytes i s (ls_log ls)"
    using reach_bytes [OF assms(1)] assms(2, 3) unfolding bytes_ok_def by (auto dest: spec [of _ i])
  then obtain rest where r: "split_into (received i (ls_log ls)) (ingested i (ls_log ls)) rest"
    "\<not> ss_ended s \<Longrightarrow> rest = unread s" unfolding session_bytes_def by blast
  have "\<not> ss_ended s \<and> ss_frame s = None \<longrightarrow> rest = ss_buffer s" using r(2) by (auto simp: unread_def)
  then show ?thesis using r(1) unfolding split_into_def by blast
qed

lemma session_bytes_are_ingested_witness:
  "\<exists>ls bs. listeners_reach ls \<and> map rm_Payload (ingested 1 (ls_log ls)) = map marshal_hex bs \<and> [] \<notin> set bs \<and>
     concat bs = [7] \<and> received 1 (ls_log ls) = [7]"
proof -
  obtain ls s where r: "listeners_reach ls" "ls_session ls 1 = Some s" "ss_stream s" "\<not> ss_ended s" "ss_frame s = None"
    "ss_buffer s = []" "ls_log ls = [Acknowledged 2 ''raw_s'', Replied 1 [66] ''raw_s'', Reported (key [''t'', ''d'']) True,
      Ingested 1 run_raw, Received 1 [7], Dispatched 2 1 [65]]" using run_end by force
  have "received 1 (ls_log ls) = [7]" by (simp add: r(7))
  then show ?thesis using session_bytes_are_ingested [OF r(1-3)] r(1, 4-6) by (intro exI [of _ ls]) force
qed

text \<open>
  C40. The maps of a host are exact enough to route by: in every reachable state an entry of its sessions
  or of its identified devices names an existing session of that host, under its remote address or its
  device, that has not been taken out by its closing; and a host that accepts has at most 128 sessions.
\<close>

theorem hosts_list_open_sessions:
  assumes "listeners_reach ls" "ls_host ls hid = Some h"
  shows "(mget (ho_sessions h) r = Some i \<longrightarrow>
      (\<exists>s. ls_session ls i = Some s \<and> ss_host s = hid \<and> ss_remote s = r \<and> ss_stage s \<in> {Live, Shut, Marked})) \<and>
    (mget (ho_identified h) d = Some i \<longrightarrow> d \<noteq> [] \<and>
      (\<exists>s. ls_session ls i = Some s \<and> ss_host s = hid \<and> ss_deviceID s = d \<and> ss_stage s \<in> {Live, Shut, Marked})) \<and>
    (ho_kind h \<noteq> Dials \<longrightarrow> length (ho_sessions h) \<le> 128)"
proof -
  have "host_ok ls hid h" by (rule listeners_invD(4) [OF reach_inv [OF assms(1)] assms(2)])
  then show ?thesis unfolding host_ok_def linked_def listenerMaxSessions_def by blast
qed

lemma hosts_list_open_sessions_witness:
  "\<exists>ls h s. listeners_reach ls \<and> ls_host ls 0 = Some h \<and> mget (ho_identified h) ''d'' = Some 1 \<and>
     ls_session ls 1 = Some s \<and> ss_host s = 0 \<and> ss_deviceID s = ''d'' \<and> ss_stage s \<in> {Live, Shut, Marked}"
proof -
  obtain ls h where r: "listeners_reach ls" "ls_host ls 0 = Some h" "mget (ho_identified h) ''d'' = Some 1" using run_end by force
  then show ?thesis using hosts_list_open_sessions [OF r(1, 2), of "''r''" 1 "''d''"] by blast
qed

text \<open>
  A session never comes back and never changes its identity: whatever steps follow, its closing has come at
  least as far, it belongs to the same host and peer, and the device it was identified as is still its device.
\<close>

theorem session_only_advances:
  assumes "listeners_reach a" "listen_step\<^sup>*\<^sup>* a b" "ls_session a i = Some s"
  shows "\<exists>t. ls_session b i = Some t \<and> ss_stage s \<le> ss_stage t \<and> ss_host t = ss_host s \<and> ss_remote t = ss_remote s \<and>
    ss_stream t = ss_stream s \<and> (ss_deviceID s = [] \<or> ss_deviceID t = ss_deviceID s)"
  using steps_sessions_live [OF assms(2, 1)] assms(3) unfolding sessions_live_def later_session_def by blast

lemma session_only_advances_witness:
  "\<exists>ls t. listeners_reach ls \<and> ls_session (stop_listeners ls) 1 = Some t \<and> Live \<le> ss_stage t \<and> ss_deviceID t = ''d'' \<and>
     ss_remote t = ''r''"
proof -
  obtain ls s h where r: "listeners_reach ls" "ls_session ls 1 = Some s" "ls_host ls 0 = Some h" "ss_deviceID s = ''d''" "ss_host s = 0"
    "mget (ho_sessions h) ''r'' = Some 1" using run_end by force
  have w: "ss_remote s = ''r''" using hosts_inv_remote [OF r(1, 3, 6)] r(2) by auto
  have "listen_step\<^sup>*\<^sup>* ls (stop_listeners ls)" by (blast intro: listen_step.stop)
  then obtain t where "ls_session (stop_listeners ls) 1 = Some t" "ss_stage s \<le> ss_stage t" "ss_remote t = ''r''" "ss_deviceID t = ''d''"
    using session_only_advances [OF r(1) _ r(2), of "stop_listeners ls"] r(4) w by auto
  then show ?thesis using r(1) by (intro exI [of _ ls]) simp
qed

end
