(* ===== verification/Standard_Parser.thy ===== *)
theory Standard_Parser
  imports Engine_Ingest Configurable
begin

text \<open>
  The parser of the platform's own JSON messages (internal/parser/standard.go) and StandardRaw of
  internal/onboarding/service.go, which turns the body of an authenticated request into a raw message.
\<close>

section \<open>Bodies\<close>

definition StandardProtocolID :: string where
  "StandardProtocolID = ''iot-standard''"

text \<open>The struct the body is decoded into; a nil pointer is None, a nil map the empty one.\<close>

record standard_body =
  bo_Version :: string
  bo_Event :: string
  bo_Online :: "bool option"
  bo_CommandID :: string
  bo_Success :: "bool option"
  bo_ID :: string
  bo_Timestamp :: int
  bo_Data :: anymap

text \<open>
  What a Decoder of package encoding/json reads: an opening brace or bracket, a closing one, a string, and
  any other scalar. sj_tokens gives the tokens Token returns one after another, and whether they end with
  io.EOF rather than a syntax error; sj_body and sj_object are json.Unmarshal into the struct and into a map.
\<close>

datatype json_token = OpenObject | OpenArray | Closing | TextToken string | ScalarToken

record standard_json =
  sj_tokens :: "string \<Rightarrow> json_token list \<times> bool"
  sj_body :: "string \<Rightarrow> standard_body res"
  sj_object :: "string \<Rightarrow> anymap res"

section \<open>The check of the text\<close>

fun member_key :: "json_token \<Rightarrow> string option" where
  "member_key (TextToken k) = Some k"
| "member_key _ = None"

text \<open>
  Where the function value of validateStandardJSON stands: before a value at a depth, in the loop over the
  members of an object with the keys seen so far, or in the loop over the elements of an array.
\<close>

datatype reading = Value nat | Members nat "string list" | Elements nat

text \<open>
  From there to the end of the value, on the tokens left: an error, or the tokens after it. Of two steps in a
  row at least one reads a token, so that twice their number of steps is enough.
\<close>

primrec check_tokens :: "nat \<Rightarrow> reading \<Rightarrow> json_token list \<Rightarrow> json_token list res" where
  "check_tokens 0 m ts = Inl (ErrText ''EOF'')"
| "check_tokens (Suc n) m ts = (case m of
     Value depth \<Rightarrow>
       if 16 < depth then Inl (ErrText ''JSON nesting exceeds 16 levels'')
       else (case ts of
           [] \<Rightarrow> Inl (ErrText ''EOF'')
         | t # us \<Rightarrow>
             if t = OpenObject then check_tokens n (Members depth []) us
             else if t = OpenArray then check_tokens n (Elements depth) us
             else if t = Closing then Inl (ErrText ''invalid JSON delimiter'') else Inr us)
   | Members depth seen \<Rightarrow>
       (case ts of
          [] \<Rightarrow> Inl (ErrText ''EOF'')
        | t # us \<Rightarrow>
            if t = Closing then Inr us
            else (case member_key t of
                None \<Rightarrow> Inl (ErrText ''duplicate or invalid JSON key'')
              | Some k \<Rightarrow>
                  if k \<in> set seen then Inl (ErrText ''duplicate or invalid JSON key'')
                  else bind_res (check_tokens n (Value (Suc depth)) us) (check_tokens n (Members depth (k # seen)))))
   | Elements depth \<Rightarrow>
       (case ts of
          [] \<Rightarrow> Inl (ErrText ''EOF'')
        | t # us \<Rightarrow>
            if t = Closing then Inr us
            else bind_res (check_tokens n (Value (Suc depth)) ts) (check_tokens n (Elements depth))))"

definition validateStandardJSON :: "standard_json \<Rightarrow> string \<Rightarrow> unit res" where
  "validateStandardJSON j data = (case sj_tokens j data of
     (ts, complete) \<Rightarrow>
       bind_res (check_tokens (2 * length ts + 2) (Value 0) ts) (\<lambda>us.
         if us = [] \<and> complete then Inr () else Inl (ErrText ''unexpected trailing JSON'')))"

section \<open>The parser\<close>

definition standard_state :: "standard_body \<Rightarrow> anymap res" where
  "standard_state b = (case bo_Online b of
     None \<Rightarrow> Inr (bo_Data b)
   | Some online \<Rightarrow>
       let status = AStr (if online then ''CONNECTED'' else ''DISCONNECTED'')
       in case mget (bo_Data b) ''connectionStatus'' of
            Some old \<Rightarrow> if old \<noteq> status then Inl (ErrText ''online conflicts with connectionStatus'')
              else Inr (mput (bo_Data b) ''connectionStatus'' status)
          | None \<Rightarrow> Inr (mput (bo_Data b) ''connectionStatus'' status))"

definition standard_event :: "standard_body \<Rightarrow> anymap res" where
  "standard_event b =
     (if bo_Version b = ''1.0'' \<and> bo_Event b = [] then Inl (ErrText ''event identifier is required'')
      else Inr (if bo_Event b \<noteq> [] then mput (bo_Data b) ''event'' (AStr (bo_Event b)) else bo_Data b))"

definition standard_reply :: "standard_body \<Rightarrow> anymap res" where
  "standard_reply b =
     bind_res (if bo_CommandID b = [] then Inr (bo_Data b)
       else if mget (bo_Data b) ''commandId'' \<notin> {None, Some (AStr (bo_CommandID b))}
       then Inl (ErrText ''conflicting commandId'') else Inr (mput (bo_Data b) ''commandId'' (AStr (bo_CommandID b)))) (\<lambda>d.
     case bo_Success b of
       None \<Rightarrow> Inr d
     | Some s \<Rightarrow> if mget d ''success'' \<notin> {None, Some (ABool s)} then Inl (ErrText ''conflicting success'')
         else Inr (mput d ''success'' (ABool s)))"

definition standard_data :: "string \<Rightarrow> standard_body \<Rightarrow> anymap res" where
  "standard_data kind b =
     (if kind = ''state'' then standard_state b else if kind = ''event'' then standard_event b
      else if kind = ''command-reply'' then standard_reply b else Inr (bo_Data b))"

text \<open>The second switch over the kind: the type of the message and where its data goes.\<close>

definition standard_kind :: "string \<Rightarrow> anymap \<Rightarrow> standard_message \<Rightarrow> standard_message res" where
  "standard_kind kind d m =
     (if kind = ''property'' then Inr (m\<lparr>sm_MessageType := PropertyReport, sm_Properties := d\<rparr>)
      else if kind = ''command-reply'' then
        (case mget d ''commandId'' of
           Some (AStr i) \<Rightarrow>
             if i = [] \<or> 128 < length i then Inl (ErrText ''commandId is required'')
             else (case mget d ''success'' of
                 Some (ABool _) \<Rightarrow> Inr (m\<lparr>sm_MessageType := CommandReply, sm_Event := d\<rparr>)
               | _ \<Rightarrow> Inl (ErrText ''success must be boolean''))
         | _ \<Rightarrow> Inl (ErrText ''commandId is required''))
      else if kind = ''event'' then Inr (m\<lparr>sm_MessageType := EventReport, sm_Event := d\<rparr>)
      else if kind = ''state'' then
        (if mget d ''connectionStatus'' \<in> {None, Some (AStr ''CONNECTED''), Some (AStr ''DISCONNECTED''), Some (AStr ''UNKNOWN'')}
         then Inr (m\<lparr>sm_MessageType := StateChange, sm_Properties := d\<rparr>)
         else Inl (ErrText ''connectionStatus must be CONNECTED, DISCONNECTED or UNKNOWN''))
      else Inl (ErrText ''message kind must be property, event, state or command-reply''))"

definition StandardParser_Parse :: "standard_json \<Rightarrow> raw_message \<Rightarrow> standard_message res" where
  "StandardParser_Parse j raw =
     (if 65536 < length (rm_Payload raw) then Inl (ErrText ''payload exceeds 64 KiB'')
      else bind_res (validateStandardJSON j (rm_Payload raw)) (\<lambda>_.
      bind_res (sj_body j (rm_Payload raw)) (\<lambda>b.
      if bo_Version b \<noteq> [] \<and> bo_Version b \<noteq> ''1.0'' then Inl (ErrText ''unsupported standard message version'')
      else if bo_ID b = [] \<or> 128 < length (bo_ID b) \<or> bo_Timestamp b \<le> 0 \<or> 253402300799999 < bo_Timestamp b
      then Inl (ErrText ''id and valid positive millisecond timestamp are required'')
      else if 0 < rm_ReceivedAt raw \<and> rm_ReceivedAt raw + 300000 < bo_Timestamp b
      then Inl (ErrText ''device timestamp is more than 5 minutes in the future'')
      else let kind = mget_or [] (rm_Headers raw) ''messageKind''
        in bind_res (standard_data kind b) (\<lambda>d.
        if d = [] then Inl (ErrText ''non-empty data object is required'')
        else bind_res (standard_kind kind d (zero_standard_message\<lparr>sm_MessageID := ''msg_'' @ rm_MessageID raw,
            sm_RawMessageID := rm_MessageID raw, sm_TenantID := rm_TenantID raw, sm_ProductID := rm_ProductID raw,
            sm_DeviceID := rm_DeviceID raw, sm_Timestamp := bo_Timestamp b, sm_Parser := StandardParserName,
            sm_ParserVersion := ''1.0.0''\<rparr>)) (\<lambda>m.
        bind_res (sj_object j (rm_Payload raw)) (\<lambda>o1.
        let m1 = m\<lparr>sm_Raw := o1, sm_Tags := [(''protocolId'', rm_ProtocolID raw), (''protocolVersion'', rm_ProtocolVersion raw)]\<rparr>
        in bind_res (MessageComponents m1) (\<lambda>_. Inr m1)))))))"

definition StandardParser :: "standard_json \<Rightarrow> parser" where
  "StandardParser j = \<lparr>pa_Name = StandardParserName, pa_Version = ''1.0.0'',
     pa_Match = (\<lambda>m. mt_Protocol m = StandardProtocolID), pa_Parse = StandardParser_Parse j, pa_ParseWithConfig = None\<rparr>"

section \<open>Raw messages of authenticated requests\<close>

text \<open>The pattern segment: a letter or digit and up to 127 letters, digits, dots, underscores and hyphens.\<close>

definition segment_start :: "char \<Rightarrow> bool" where
  "segment_start c \<longleftrightarrow> (let n = of_char c :: nat in 48 \<le> n \<and> n \<le> 57 \<or> 65 \<le> n \<and> n \<le> 90 \<or> 97 \<le> n \<and> n \<le> 122)"

definition segment :: "string \<Rightarrow> bool" where
  "segment s \<longleftrightarrow> (case s of
     [] \<Rightarrow> False
   | c # cs \<Rightarrow> segment_start c \<and> length cs \<le> 127 \<and>
       list_all (\<lambda>x. segment_start x \<or> x = CHR ''.'' \<or> x = CHR ''_'' \<or> x = CHR ''-'') cs)"

definition ErrInvalidIngress :: "string \<Rightarrow> error" where
  "ErrInvalidIngress t = ErrText (''invalid ingress message: '' @ t)"

text \<open>
  The message, also when there is an error. The second decoding of the body, into a struct of the
  identifier and the time only, gives the fields that the parser has read.
\<close>

definition StandardRaw :: "env \<Rightarrow> standard_json \<Rightarrow> string \<Rightarrow> string \<Rightarrow> string \<Rightarrow> string \<Rightarrow> string \<Rightarrow> string \<Rightarrow>
    raw_message \<times> error option" where
  "StandardRaw v j tenant product1 device kind transport payload =
     (let r = zero_raw_message\<lparr>rm_TenantID := tenant, rm_ProductID := product1, rm_DeviceID := device,
            rm_Protocol := StandardProtocolID, rm_ProtocolID := StandardProtocolID, rm_ProtocolVersion := ''1.0.0'',
            rm_Transport := transport, rm_Source := ''standard-'' @ to_lower transport, rm_PayloadFormat := ''json'',
            rm_Payload := payload, rm_Headers := [(''messageKind'', kind)]\<rparr>
      in if \<not> segment tenant \<or> \<not> segment product1 \<or> \<not> segment device \<or> 65536 < length payload
         then (r, Some (ErrInvalidIngress ''invalid identity or payload exceeds 64 KiB''))
         else let r1 = Normalize v r in
           case StandardParser_Parse j r1 of
             Inl e \<Rightarrow> (r1, Some (ErrInvalidIngress (error_text e)))
           | Inr _ \<Rightarrow>
               let b = (case sj_body j payload of Inl _ \<Rightarrow> ([], 0) | Inr b \<Rightarrow> (bo_ID b, bo_Timestamp b))
               in (r1\<lparr>rm_Metadata := [(''clientMessageId'', AStr (fst b)), (''deviceTimestamp'', AInt (snd b))],
                    rm_MessageID := ''raw_std_'' @ take 32 (v_sha v (key [tenant, product1, device, kind, fst b]))\<rparr>, None))"

section \<open>What a parsed message is\<close>

lemma choiceE: "(if c then x else z) = Inr y \<Longrightarrow> (c \<Longrightarrow> x = Inr y \<Longrightarrow> P) \<Longrightarrow> (\<not> c \<Longrightarrow> z = Inr y \<Longrightarrow> P) \<Longrightarrow> P"
  by (cases c) simp_all

lemma standard_kind_shape:
  assumes "standard_kind kind d m = Inr n"
  shows "\<exists>t \<in> {PropertyReport, CommandReply, EventReport, StateChange}.
    n = m\<lparr>sm_MessageType := t, sm_Properties := d\<rparr> \<or> n = m\<lparr>sm_MessageType := t, sm_Event := d\<rparr>"
  using assms unfolding standard_kind_def
  apply (elim choiceE)
  subgoal by (simp only: sum.inject) blast
  subgoal 
   apply (cases "mget d ''commandId''"; simp only: option.case sum.distinct)
   subgoal for a
    apply (cases a; simp only: any.case sum.distinct)
    apply (elim choiceE; (simp only: sum.distinct)?)
    apply (cases "mget d ''success''"; simp only: option.case sum.distinct)
    subgoal for x b
     apply (cases b; simp only: any.case sum.distinct sum.inject)
     by blast
    done
   done
  subgoal by (simp only: sum.inject) blast
  subgoal by (simp only: sum.inject) blast
  subgoal by (simp only: sum.distinct)
  subgoal by (simp only: sum.distinct)
  done

lemma standard_kind_identity:
  assumes "standard_kind kind d m = Inr n"
  shows "sm_TenantID n = sm_TenantID m" "sm_ProductID n = sm_ProductID m" "sm_DeviceID n = sm_DeviceID m"
    "sm_MessageID n = sm_MessageID m" "sm_RawMessageID n = sm_RawMessageID m" "sm_Timestamp n = sm_Timestamp m"
    "sm_MessageType n \<in> {PropertyReport, CommandReply, EventReport, StateChange}"
  using standard_kind_shape [OF assms] by auto

lemma bind_resE: "bind_res x f = Inr y \<Longrightarrow> (\<And>a. x = Inr a \<Longrightarrow> f a = Inr y \<Longrightarrow> P) \<Longrightarrow> P"
  by (cases x) (auto simp: bind_res_def)

lemma refusedE: "(if c then Inl e else x) = Inr y \<Longrightarrow> (\<not> c \<Longrightarrow> x = Inr y \<Longrightarrow> P) \<Longrightarrow> P"
  by (cases c) simp_all

text \<open>The steps allowed are enough: with more of them the answer is the same.\<close>

definition steps_needed :: "reading \<Rightarrow> json_token list \<Rightarrow> nat" where
  "steps_needed m ts = 2 * length ts + (case m of Value _ \<Rightarrow> 1 | _ \<Rightarrow> 2)"

lemma check_tokens_length: "check_tokens n m ts = Inr us \<Longrightarrow> length us < length ts"
proof (induction n arbitrary: m ts us)
  case (Suc n)
  have l: "length vs < length ws" if b: "bind_res (check_tokens n (Value d) ws) (check_tokens n m') = Inr vs" for d ws m' vs
    using b by (rule bind_resE) (use Suc.IH less_trans in blast)
  show ?case
  proof (cases ts)
    case Nil
    then show ?thesis using Suc.prems by (simp split: reading.splits if_splits)
  next
    case (Cons t ws)
    note p = Suc.prems [unfolded Cons]
    show ?thesis unfolding Cons
    proof (cases m)
      case (Value d)
      then show "length us < length (t # ws)" using p by (auto split: if_splits dest: Suc.IH)
    next
      case (Members d seen)
      then show "length us < length (t # ws)" using p by (auto split: if_splits option.splits dest: l)
    next
      case (Elements d)
      then show "length us < length (t # ws)" using p by (auto split: if_splits dest: l)
    qed
  qed
qed simp

lemma check_tokens_enough:
  "steps_needed m ts \<le> n \<Longrightarrow> n \<le> k \<Longrightarrow> check_tokens k m ts = check_tokens n m ts"
proof (induction n arbitrary: k m ts)
  case 0
  then show ?case by (simp add: steps_needed_def split: reading.splits)
next
  case (Suc n)
  then obtain k' where k: "k = Suc k'" "n \<le> k'" by (cases k) auto
  have e: "check_tokens k' m' us = check_tokens n m' us" if "steps_needed m' us \<le> n" for m' us
    using Suc.IH that k(2) by blast
  have b: "bind_res (check_tokens k' (Value d) us) (check_tokens k' m') = bind_res (check_tokens n (Value d) us) (check_tokens n m')"
    if "2 * length us + 1 \<le> n" "\<And>d. m' \<noteq> Value d" for d us m'
  proof (cases "check_tokens n (Value d) us")
    case (Inr vs)
    have "check_tokens k' m' vs = check_tokens n m' vs"
      using that check_tokens_length [OF Inr] by (intro e) (cases m'; simp add: steps_needed_def)
    then show ?thesis using e [of "Value d" us] that(1) Inr by (simp add: steps_needed_def bind_res_def)
  next
    case (Inl x)
    then show ?thesis using e [of "Value d" us] that(1) by (simp add: steps_needed_def bind_res_def)
  qed
  show ?case
    using Suc.prems(1) unfolding k(1)
    by (cases m; cases ts) (auto simp: steps_needed_def intro!: e b split: option.split)
qed

lemma StandardParser_ParseE:
  assumes "StandardParser_Parse j raw = Inr m"
  obtains b d n o1 where "validateStandardJSON j (rm_Payload raw) = Inr ()" "sj_body j (rm_Payload raw) = Inr b"
    "\<not> (bo_ID b = [] \<or> 128 < length (bo_ID b) \<or> bo_Timestamp b \<le> 0 \<or> 253402300799999 < bo_Timestamp b)"
    "\<not> (0 < rm_ReceivedAt raw \<and> rm_ReceivedAt raw + 300000 < bo_Timestamp b)"
    "standard_data (mget_or [] (rm_Headers raw) ''messageKind'') b = Inr d" "d \<noteq> []"
    "standard_kind (mget_or [] (rm_Headers raw) ''messageKind'') d (zero_standard_message\<lparr>sm_MessageID := ''msg_'' @ rm_MessageID raw,
        sm_RawMessageID := rm_MessageID raw, sm_TenantID := rm_TenantID raw, sm_ProductID := rm_ProductID raw,
        sm_DeviceID := rm_DeviceID raw, sm_Timestamp := bo_Timestamp b, sm_Parser := StandardParserName,
        sm_ParserVersion := ''1.0.0''\<rparr>) = Inr n"
    "m = n\<lparr>sm_Raw := o1, sm_Tags := [(''protocolId'', rm_ProtocolID raw), (''protocolVersion'', rm_ProtocolVersion raw)]\<rparr>"
    "\<exists>cs. MessageComponents m = Inr cs"
  using assms unfolding StandardParser_Parse_def Let_def
  by (elim refusedE bind_resE) (rule that, simp, assumption+, auto)

end
