(* ===== verification/Onboarding.thy ===== *)
theory Onboarding
  imports Standard_Parser Listener_Hosts Point_Table
begin

text \<open>
  The onboarding service (internal/onboarding): authentication and rate limiting of devices, the plan of
  a new device, the proof of its test, its creation, credentials, and commands over MQTT. The functions
  it is given (the broker's administration, the publisher, the status of listeners) and cryptography are
  the record onboard_env; the clock of one call is read once. Error texts in Chinese are given in English.
\<close>

section \<open>Requests and state\<close>

text \<open>Type connector.Type is a string; Describe knows six of its values.\<close>

definition MQTT :: string where "MQTT = ''MQTT''"
definition HTTP :: string where "HTTP = ''HTTP''"
definition TCP :: string where "TCP = ''TCP''"
definition UDP :: string where "UDP = ''UDP''"
definition ModbusTCP :: string where "ModbusTCP = ''MODBUS_TCP''"
definition ModbusRTUTCP :: string where "ModbusRTUTCP = ''MODBUS_RTU_TCP''"

definition supported_types :: "string list" where
  "supported_types = [MQTT, HTTP, ModbusTCP, ModbusRTUTCP, TCP, UDP]"

record poll_point =
  po_Identifier :: string
  po_Address :: string
  po_Scale :: "64 word"
  po_Offset :: "64 word"

record onboard_request =
  rq_ReadPoints :: "poll_point list"
  rq_ExistingProfileID :: string
  rq_ProductName :: string
  rq_TestToken :: string
  rq_ProductID :: string
  rq_DeviceID :: string
  rq_Name :: string
  rq_Type :: string
  rq_Profile :: access_profile
  rq_ProtocolID :: string
  rq_ProtocolVersion :: string
  rq_PollIntervalSec :: int
  rq_PointTableCSV :: string
  rq_Payload :: string
  rq_MessageKind :: string

record device_credential =
  dk_AccessKey :: string
  dk_Secret :: string

definition zero_credential :: device_credential where
  "zero_credential = \<lparr>dk_AccessKey = [], dk_Secret = []\<rparr>"

record connector_instance =
  ci_Kind :: string
  ci_DeviceID :: string
  ci_Profile :: "access_profile option"

record onboard_result =
  on_Reused :: bool
  on_Device :: managed_device
  on_Credential :: device_credential
  on_ClientID :: string
  on_Username :: string
  on_Connector :: connector_instance

record bucket =
  bk_At :: int
  bk_Count :: int

text \<open>
  The environment of a call: that of the listeners with the clock, SHA-256 and the package worker;
  crypto/rand of 40 bytes; HMAC with the service's key over json.Marshal of what is sealed, and json.Marshal
  of a request; the readers of point tables; net.ParseIP; and the functions the service is given, None
  where they are nil.
\<close>

type_synonym sealed = "string \<times> onboard_request \<times> protocol_release \<times> anymap option \<times> string"

record onboard_env =
  oe_listen :: listen_env
  oe_json :: standard_json
  oe_rand :: "octet list res"
  oe_seal :: "sealed \<Rightarrow> string"
  oe_request_json :: "onboard_request \<Rightarrow> string res"
  oe_parse_float :: "string \<Rightarrow> 64 word option"
  oe_csv :: "string \<Rightarrow> string list list res"
  oe_points_any :: "modbus_point list \<Rightarrow> any"
  oe_blocks_any :: "modbus_read_block list \<Rightarrow> any"
  oe_ip :: "string \<Rightarrow> bool"
  oe_command_json :: "anymap \<Rightarrow> string res"
  oe_publish :: "(string \<Rightarrow> string \<Rightarrow> error option) option"
  oe_revoke :: "(string \<Rightarrow> error option) option"

abbreviation oe_env :: "onboard_env \<Rightarrow> env" where
  "oe_env v \<equiv> lv_env (oe_listen v)"

abbreviation oe_now :: "onboard_env \<Rightarrow> int" where
  "oe_now v \<equiv> v_now (oe_env v)"

abbreviation Hash :: "onboard_env \<Rightarrow> string \<Rightarrow> string" where
  "Hash v \<equiv> v_sha (oe_env v)"

section \<open>Devices\<close>

definition UsesPlatformCredentials :: "managed_device \<Rightarrow> product \<Rightarrow> bool" where
  "UsesPlatformCredentials d p \<longleftrightarrow>
     \<not> (md_DeviceRole d = ''CHILD'' \<or> md_GatewayID d \<noteq> []) \<and>
     (let c = mget_or [] (md_Tags d) ''connector''; transport = (if c = [] then pr_Transport p else c)
      in to_upper transport \<notin> {''TCP'', ''UDP'', ''TCP_UDP'', ''TCP_CHILD'', ''MODBUS_TCP'', ''MODBUS_RTU_TCP'', ''MODBUS_RTU''})"

definition device_Public :: "managed_device \<Rightarrow> product \<Rightarrow> managed_device" where
  "device_Public d p = (if \<not> UsesPlatformCredentials d p
     then d\<lparr>md_AccessKey := [], md_SecretHash := [], md_SecretHint := []\<rparr> else d)"

definition Credential :: "onboard_env \<Rightarrow> device_credential res" where
  "Credential v = (case oe_rand v of
     Inl e \<Rightarrow> Inl e
   | Inr b \<Rightarrow> Inr \<lparr>dk_AccessKey = ''dk_'' @ to_lower (hex_upper (take 8 b)), dk_Secret = ''ds_'' @ to_lower (hex_upper (drop 8 b))\<rparr>)"

definition ErrAuth :: error where
  "ErrAuth = ErrText ''invalid or disabled device credential''"

definition ErrRate :: error where
  "ErrRate = ErrText ''device rate limit exceeded''"

definition Authenticate :: "onboard_env \<Rightarrow> string \<Rightarrow> string \<Rightarrow> repo \<Rightarrow> managed_device res" where
  "Authenticate v k secret r = (case GetManagedDeviceByAccessKey k r of
     Inl e \<Rightarrow> Inl ErrAuth
   | Inr d \<Rightarrow>
       if secret = [] \<or> md_Status d \<noteq> ''ENABLED'' \<or> md_SecretHash d \<noteq> Hash v secret then Inl ErrAuth
       else (case GetProduct (md_TenantID d) (md_ProductID d) r of
           Inl e \<Rightarrow> Inl ErrAuth
         | Inr p \<Rightarrow> if UsesPlatformCredentials d p then Inr d else Inl ErrAuth))"

section \<open>The rate limit\<close>

definition zero_bucket :: bucket where
  "zero_bucket = \<lparr>bk_At = 0, bk_Count = 0\<rparr>"

text \<open>
  Times in nanoseconds since the zero time, which a new bucket has. The map is swept when it is full.
\<close>

definition sweep_rates :: "int \<Rightarrow> bucket gomap \<Rightarrow> bucket gomap" where
  "sweep_rates now m = filter (\<lambda>e. now - bk_At (snd e) \<le> 60000000000) m"

definition Allow :: "int \<Rightarrow> string \<Rightarrow> bucket gomap \<Rightarrow> bool \<times> bucket gomap" where
  "Allow now k m =
     (let b0 = mget_or zero_bucket m k;
          b = (if now - bk_At b0 \<ge> 1000000000 then \<lparr>bk_At = now, bk_Count = 0\<rparr> else b0)
      in if bk_Count b \<ge> 20 then (False, m)
         else let full = length m \<ge> 10000; m1 = (if full then sweep_rates now m else m)
           in if full \<and> mget m1 k = None \<and> length m1 \<ge> 10000 then (False, m1)
              else (True, mput m1 k (b\<lparr>bk_Count := bk_Count b + 1\<rparr>)))"

text \<open>A request over HTTP or MQTT; rate is the clock of Allow.\<close>

definition PrepareStandard :: "onboard_env \<Rightarrow> int \<Rightarrow> string \<Rightarrow> string \<Rightarrow> string \<Rightarrow> string \<Rightarrow> string \<Rightarrow> string \<Rightarrow> repo \<Rightarrow>
    bucket gomap \<Rightarrow> raw_message res \<times> bucket gomap" where
  "PrepareStandard v rate tenant product1 device kind transport payload r m = (case GetManagedDevice tenant device r of
     Inl e \<Rightarrow> (Inl ErrAuth, m)
   | Inr d \<Rightarrow>
       if md_Status d \<noteq> ''ENABLED'' \<or> md_SecretHash d = [] \<or> md_ProductID d \<noteq> product1 then (Inl ErrAuth, m)
       else if mget_or [] (md_Tags d) ''connector'' \<notin> {MQTT, HTTP} then (Inl ErrAuth, m)
       else (case GetProduct tenant product1 r of
           Inl e \<Rightarrow> (Inl ErrAuth, m)
         | Inr p \<Rightarrow>
             if pr_Status p \<noteq> ''ENABLED'' \<or> \<not> UsesPlatformCredentials d p then (Inl ErrAuth, m)
             else (case Allow rate (key [tenant, device]) m of
                 (False, m1) \<Rightarrow> (Inl ErrRate, m1)
               | (True, m1) \<Rightarrow> (case StandardRaw (oe_env v) (oe_json v) tenant product1 device kind transport payload of
                     (raw, None) \<Rightarrow> (Inr raw, m1)
                   | (raw, Some e) \<Rightarrow> (Inl e, m1)))))"

section \<open>The plan of a device\<close>

definition fail :: "string \<Rightarrow> 'a res" where
  "fail t = Inl (ErrText t)"

definition ValidateChildProducts :: "access_profile \<Rightarrow> protocol_release \<Rightarrow> repo \<Rightarrow> error option" where
  "ValidateChildProducts p parent r =
     (if ap_Queries p \<noteq> [] \<and> \<not> HasCapability parent ''encode'' then Some (ErrText ''queries need a protocol that encodes'')
      else case find (\<lambda>e. e \<noteq> None) (map (\<lambda>b. case GetProduct (ap_TenantID p) (cb_ProductID b) r of
             Inl _ \<Rightarrow> Some (ErrText ''child product does not exist or is not enabled'')
           | Inr product1 \<Rightarrow>
               if pr_Status product1 \<noteq> ''ENABLED'' then Some (ErrText ''child product does not exist or is not enabled'')
               else (case GetProductProtocolBinding (ap_TenantID p) (pr_ID product1) r of
                   Inl _ \<Rightarrow> Some (ErrText ''child product has no protocol'')
                 | Inr x \<Rightarrow> (case GetProtocolRelease (ap_TenantID p) (pb_ProtocolID x) (pb_Version x) r of
                       Inl _ \<Rightarrow> Some (ErrText ''child product needs a published HEX protocol'')
                     | Inr rel \<Rightarrow> if pl_Status rel \<noteq> ''PUBLISHED'' \<or> pl_PayloadFormat rel \<noteq> ''hex''
                         then Some (ErrText ''child product needs a published HEX protocol'') else None))) (ap_ChildProducts p)) of
           None \<Rightarrow> None | Some e \<Rightarrow> e)"

definition modbus_type :: "string \<Rightarrow> bool" where
  "modbus_type t \<longleftrightarrow> t = ModbusTCP \<or> t = ModbusRTUTCP"

text \<open>The product of the request: a new one, to be saved, or an existing one.\<close>

definition plan_product :: "onboard_env \<Rightarrow> string \<Rightarrow> onboard_request \<Rightarrow> repo \<Rightarrow> product option res" where
  "plan_product v tenant q r =
     (if rq_ProductName q \<noteq> [] then
        (if \<not> segment (rq_ProductID q) \<or> 256 < length (rq_ProductName q) then fail ''invalid identifier or name of the new product''
         else Inr (Some (zero_product\<lparr>pr_ID := rq_ProductID q, pr_TenantID := tenant, pr_Name := rq_ProductName q,
           pr_Status := ''ENABLED'', pr_Category := ''sensor'', pr_CreatedAt := oe_now v, pr_UpdatedAt := oe_now v\<rparr>)))
      else case GetProduct tenant (rq_ProductID q) r of
          Inl _ \<Rightarrow> fail ''select an enabled product''
        | Inr p \<Rightarrow> if pr_Status p = ''ENABLED'' then Inr None else fail ''select an enabled product'')"

text \<open>A release for a point table given as text.\<close>

definition plan_points :: "onboard_env \<Rightarrow> string \<Rightarrow> onboard_request \<Rightarrow> (protocol_release \<times> point_table_release option) res" where
  "plan_points v tenant q =
     (let interval = (if rq_PollIntervalSec q = 0 then 10 else rq_PollIntervalSec q)
      in if interval < 1 \<or> 3600 < interval then fail ''the interval must be between 1 and 3600 seconds''
         else bind_res (snd (ParseModbusPointTable (oe_parse_float v) (\<lambda>_. Inr []) (oe_csv v) (Hash v) ''points.csv''
             (rq_PointTableCSV q) interval)) (\<lambda>table.
           bind_res (CompileModbusReadBlocks (pt_Points table)) (\<lambda>blocks.
           let version = take 16 (Hash v (key [decimal interval, rq_PointTableCSV q]));
               rtu = (rq_Type q = ModbusRTUTCP);
               version1 = (if rtu then ''rtu-'' @ version else version);
               protocol = ''onboard-'' @ take 20 (Hash v (tenant @ ''/'' @ rq_ProductID q))
           in Inr (zero_protocol_release\<lparr>pl_TenantID := tenant, pl_ProtocolID := protocol, pl_Version := version1,
                pl_Transport := (if rtu then ''MODBUS_RTU'' else ''MODBUS_TCP''), pl_PayloadFormat := ''hex'',
                pl_ParserType := (if rtu then ''modbus_rtu_parser_v2'' else ''modbus_tcp_parser_v2''), pl_Status := ''PUBLISHED'',
                pl_CreatedAt := oe_now v, pl_PublishedAt := oe_now v,
                pl_Config := [(''points'', oe_points_any v (pt_Points table)), (''blocks'', oe_blocks_any v blocks)],
                pl_PointTableVersion := version1\<rparr>,
              Some (table\<lparr>pt_TenantID := tenant, pt_ProtocolID := protocol, pt_Version := version1,
                pt_CreatedAt := oe_now v\<rparr>)))))"

definition plan_release :: "onboard_env \<Rightarrow> string \<Rightarrow> onboard_request \<Rightarrow> repo \<Rightarrow>
    (protocol_release \<times> point_table_release option) res" where
  "plan_release v tenant q r =
     (let bound = GetProductProtocolBinding tenant (rq_ProductID q) r
      in if rq_ProtocolID q \<noteq> [] \<and> (case bound of Inl _ \<Rightarrow> False
           | Inr b \<Rightarrow> rq_ProtocolID q \<noteq> pb_ProtocolID b \<or> rq_ProtocolVersion q \<noteq> pb_Version b)
         then fail ''the protocol differs from the one the product is bound to''
         else case (case bound of Inl _ \<Rightarrow> (rq_ProtocolID q, rq_ProtocolVersion q) | Inr b \<Rightarrow> (pb_ProtocolID b, pb_Version b)) of
           (protocol, version) \<Rightarrow>
             if protocol \<noteq> [] then
               (case GetProtocolRelease tenant protocol version r of
                  Inl _ \<Rightarrow> fail ''select a published and compatible protocol''
                | Inr rel \<Rightarrow> if pl_Status rel = ''PUBLISHED'' then Inr (rel, None)
                    else fail ''select a published and compatible protocol'')
             else if modbus_type (rq_Type q) then plan_points v tenant q
             else fail ''the product is not bound to a protocol'')"

definition plan_profile :: "onboard_env \<Rightarrow> string \<Rightarrow> onboard_request \<Rightarrow> protocol_release \<Rightarrow> repo \<Rightarrow> access_profile res" where
  "plan_profile v tenant q rel r =
     (let p0 = rq_Profile q;
          p = p0\<lparr>ap_TenantID := tenant, ap_ProductID := rq_ProductID q, ap_DeviceID := rq_DeviceID q,
            ap_ID := ''onboard-'' @ take 24 (Hash v (tenant @ ''/'' @ rq_DeviceID q)), ap_ProtocolID := pl_ProtocolID rel,
            ap_ProtocolVersion := pl_Version rel, ap_PointTableVersion := pl_PointTableVersion rel, ap_Enabled := True,
            ap_CreatedAt := oe_now v, ap_UpdatedAt := oe_now v, ap_RuntimeStatus := ''PENDING'', ap_LastError := [],
            ap_LastSuccessAt := 0, ap_LastErrorAt := 0, ap_TimeoutMs := (if ap_TimeoutMs p0 = 0 then 3000 else ap_TimeoutMs p0)\<rparr>
      in if ap_TimeoutMs p < 1 \<or> 10000 < ap_TimeoutMs p \<or> ap_Retries p < 0 \<or> 3 < ap_Retries p \<or> ap_Port p < 1 \<or> 65535 < ap_Port p
         then fail ''invalid port, timeout or retries''
         else bind_res (if modbus_type (rq_Type q) then
             (let rtu = (rq_Type q = ModbusRTUTCP);
                  p1 = p\<lparr>ap_Mode := ''poll'', ap_Network := ''tcp'', ap_WireFormat := (if rtu then ''rtu_over_tcp'' else ap_WireFormat p)\<rparr>
              in if ap_Host p1 = [] \<or> ap_UnitID p1 < 0 \<or> 255 < ap_UnitID p1 \<or>
                   pl_Transport rel \<noteq> (if rtu then ''MODBUS_RTU'' else ''MODBUS_TCP'')
                 then fail ''invalid Modbus address, unit or protocol'' else Inr p1)
           else
             (let p1 = p\<lparr>ap_Mode := ''listener'', ap_Network := to_lower (rq_Type q),
                    ap_DeviceID := (if ap_ConnectionMode p \<noteq> ''dial'' then [] else ap_DeviceID p)\<rparr>
              in if (ap_ConnectionMode p1 \<noteq> ''dial'' \<and> \<not> oe_ip v (ap_Host p1)) \<or> pl_ParserType rel \<noteq> ''go_protocol_parser'' \<or>
                   any_at (pl_Artifact rel) ''runtime'' \<noteq> AStr ''go-protocol-v2'' \<or> \<not> HasCapability rel ''ingress'' \<or>
                   (pl_Transport rel \<noteq> rq_Type q \<and> pl_Transport rel \<noteq> ''TCP_UDP'')
                 then fail ''listening address or protocol not compatible'' else Inr p1)) (\<lambda>p1.
           case ValidateProtocolAccess (oe_listen v) p1 of
             Inl e \<Rightarrow> fail (error_text e)
           | Inr _ \<Rightarrow> (case ValidateChildProducts p1 rel r of Some e \<Rightarrow> fail (error_text e) | None \<Rightarrow> Inr p1)))"

text \<open>The profile that is stored: the new one, or an existing listener of the product.\<close>

definition plan_reuse :: "string \<Rightarrow> onboard_request \<Rightarrow> protocol_release \<Rightarrow> access_profile \<Rightarrow> repo \<Rightarrow> (access_profile \<times> bool) res" where
  "plan_reuse tenant q rel p r =
     (if rq_ExistingProfileID q = [] then Inr (p, False)
      else case GetDeviceAccessProfile tenant (rq_ExistingProfileID q) r of
          Inl _ \<Rightarrow> fail ''the listener is not available or belongs to another product''
        | Inr old \<Rightarrow>
            if \<not> ap_Enabled old \<or> ap_ConnectionMode old = ''dial'' \<or> ap_EdgeNodeID old \<noteq> [] \<or> ap_Mode old \<noteq> ''listener'' \<or>
              ap_Network old \<noteq> ap_Network p \<or> ap_ProductID old \<noteq> rq_ProductID q \<or> modbus_type (rq_Type q) \<or> ap_ConnectionMode p = ''dial''
            then fail ''the listener is not available or belongs to another product''
            else Inr (old\<lparr>ap_ProtocolID := pl_ProtocolID rel, ap_ProtocolVersion := pl_Version rel\<rparr>, True))"

text \<open>The binding a product without one gets, unless an existing product already has devices.\<close>

definition plan_binding :: "onboard_env \<Rightarrow> string \<Rightarrow> onboard_request \<Rightarrow> protocol_release \<Rightarrow> bool \<Rightarrow> repo \<Rightarrow> product_binding option res" where
  "plan_binding v tenant q rel new_product r = (case GetProductProtocolBinding tenant (rq_ProductID q) r of
     Inr _ \<Rightarrow> Inr None
   | Inl _ \<Rightarrow>
       if \<not> new_product \<and> list_ex (\<lambda>d. md_ProductID d = rq_ProductID q) (ListManagedDevices tenant r)
       then fail ''the product has devices with an older configuration''
       else Inr (Some (zero_product_binding\<lparr>pb_TenantID := tenant, pb_ProductID := rq_ProductID q,
         pb_ProtocolID := pl_ProtocolID rel, pb_Version := pl_Version rel, pb_UpdatedAt := oe_now v\<rparr>)))"

definition standard_release :: "onboard_env \<Rightarrow> string \<Rightarrow> protocol_release" where
  "standard_release v tenant = zero_protocol_release\<lparr>pl_TenantID := tenant, pl_ProtocolID := StandardProtocolID,
     pl_Version := ''1.0.0'', pl_Transport := ''MQTT_HTTP'', pl_PayloadFormat := ''json'', pl_ParserType := StandardParserName,
     pl_Status := ''PUBLISHED'', pl_CreatedAt := oe_now v, pl_PublishedAt := oe_now v\<rparr>"

definition plan_device :: "onboard_env \<Rightarrow> string \<Rightarrow> onboard_request \<Rightarrow> managed_device" where
  "plan_device v tenant q = zero_managed_device\<lparr>md_ID := rq_DeviceID q, md_TenantID := tenant, md_ProductID := rq_ProductID q,
     md_Name := rq_Name q, md_Status := ''ENABLED'', md_DeviceRole := ''DIRECT'', md_RegistrationSource := ''ONBOARDING'',
     md_Tags := [(''connector'', rq_Type q)], md_CreatedAt := oe_now v, md_UpdatedAt := oe_now v\<rparr>"

definition described_product :: "onboard_request \<Rightarrow> protocol_release \<Rightarrow> product \<Rightarrow> product" where
  "described_product q rel p = p\<lparr>pr_Transport := rq_Type q, pr_PayloadFormat := pl_PayloadFormat rel,
     pr_ProtocolPackageID := pl_ProtocolID rel @ ''@'' @ pl_Version rel\<rparr>"

definition plan :: "onboard_env \<Rightarrow> string \<Rightarrow> onboard_request \<Rightarrow> repo \<Rightarrow> (onboarding_bundle \<times> protocol_release) res" where
  "plan v tenant q r =
     (if \<not> segment tenant \<or> \<not> segment (rq_DeviceID q) \<or> trim_space (rq_Name q) = [] \<or> 256 < length (rq_Name q)
      then fail ''invalid device identifier or name''
      else if ap_EdgeNodeID (rq_Profile q) \<noteq> [] then fail ''edge nodes have been removed''
      else bind_res (plan_product v tenant q r) (\<lambda>product1.
        let described = (\<lambda>rel. map_option (described_product q rel) product1)
        in if rq_Type q \<in> {MQTT, HTTP} then
             (let rel = standard_release v tenant
              in Inr (\<lparr>ob_Product = described rel, ob_ReuseProfile = False, ob_Device = plan_device v tenant q, ob_Profile = None,
                   ob_Release = Some rel, ob_PointTable = None, ob_Binding = None\<rparr>, rel))
           else if rq_Type q \<in> {ModbusTCP, ModbusRTUTCP, TCP, UDP} then
             bind_res (plan_release v tenant q r) (\<lambda>(rel, table).
             bind_res (plan_profile v tenant q rel r) (\<lambda>p.
             bind_res (plan_reuse tenant q rel p r) (\<lambda>(profile, reused).
             bind_res (plan_binding v tenant q rel (product1 \<noteq> None) r) (\<lambda>binding.
             let d = plan_device v tenant q
             in Inr (\<lparr>ob_Product = described rel, ob_ReuseProfile = reused,
                  ob_Device = d\<lparr>md_Tags := mput (md_Tags d) ''connectorProfileId'' (ap_ID profile)\<rparr>,
                  ob_Profile = Some profile, ob_Release = Some rel, ob_PointTable = table, ob_Binding = binding\<rparr>, rel)))))
           else fail ''the way of access is not open''))"

section \<open>Creation\<close>

definition sealed_transport :: "access_profile \<Rightarrow> anymap" where
  "sealed_transport p = [(''id'', AStr (ap_ID p)), (''host'', AStr (ap_Host p)), (''port'', AInt (ap_Port p)),
     (''network'', AStr (ap_Network p)), (''timeoutMs'', AInt (ap_TimeoutMs p)), (''unitId'', AInt (ap_UnitID p)),
     (''autoRegister'', ABool (ap_AutoRegister p)), (''collectorId'', AStr (ap_CollectorID p))]"

text \<open>The proof of a test: what must be the same when the device is created.\<close>

definition proof_of :: "onboard_env \<Rightarrow> string \<Rightarrow> onboard_request \<Rightarrow> protocol_release \<Rightarrow> access_profile option \<Rightarrow> string \<Rightarrow> string" where
  "proof_of v tenant q rel profile expiry = oe_seal v (tenant, q\<lparr>rq_TestToken := []\<rparr>, rel\<lparr>pl_CreatedAt := 0, pl_PublishedAt := 0\<rparr>,
     map_option sealed_transport profile, expiry)"

definition request_digest :: "onboard_env \<Rightarrow> onboard_request \<Rightarrow> string res" where
  "request_digest v q = bind_res (oe_request_json v (q\<lparr>rq_TestToken := []\<rparr>)) (\<lambda>t. Inr (Hash v t))"

text \<open>The function recover: the device a former request has created.\<close>

definition recover_device :: "string \<Rightarrow> onboard_request \<Rightarrow> string \<Rightarrow> repo \<Rightarrow> onboard_result res" where
  "recover_device tenant q digest r = (case GetManagedDevice tenant (rq_DeviceID q) r of
     Inl e \<Rightarrow> Inl e
   | Inr d \<Rightarrow>
       if mget_or [] (md_Tags d) ''onboardingRequestHash'' \<noteq> digest then fail ''the device exists with another request''
       else let profile_id = mget_or [] (md_Tags d) ''connectorProfileId''
         in bind_res (if profile_id = [] then Inr None
              else bind_res (GetDeviceAccessProfile tenant profile_id r) (\<lambda>p. Inr (Some p))) (\<lambda>profile.
            let name = (if UsesPlatformCredentials d zero_product then md_AccessKey d else [])
            in Inr \<lparr>on_Reused = True, on_Device = device_Public d zero_product, on_Credential = zero_credential,
                 on_ClientID = (if UsesPlatformCredentials d zero_product then ''device-'' @ md_AccessKey d else []), on_Username = name,
                 on_Connector = \<lparr>ci_Kind = mget_or [] (md_Tags d) ''connector'', ci_DeviceID = md_ID d, ci_Profile = profile\<rparr>\<rparr>))"

text \<open>The token of a test: its expiry in seconds and the proof, with one dot between them.\<close>

definition token_valid :: "onboard_env \<Rightarrow> string \<Rightarrow> onboard_request \<Rightarrow> protocol_release \<Rightarrow> access_profile option \<Rightarrow> bool" where
  "token_valid v tenant q rel profile \<longleftrightarrow> (case split_char (CHR ''.'') (rq_TestToken q) of
     [expiry, mac] \<Rightarrow> (case atoi expiry of
         None \<Rightarrow> False
       | Some t \<Rightarrow> oe_now v div 1000 \<le> t \<and> mac = proof_of v tenant q rel profile expiry)
   | _ \<Rightarrow> False)"

definition sealed_device :: "onboard_env \<Rightarrow> string \<Rightarrow> onboard_request \<Rightarrow> string \<Rightarrow> managed_device \<Rightarrow>
    (device_credential \<times> managed_device) res" where
  "sealed_device v tenant q digest d =
     bind_res (if UsesPlatformCredentials d zero_product
       then bind_res (Credential v) (\<lambda>c. Inr (c, d\<lparr>md_AccessKey := dk_AccessKey c, md_SecretHash := Hash v (dk_Secret c)\<rparr>))
       else Inr (zero_credential, d\<lparr>md_AccessKey := ProtocolDeviceAccessKey (v_sha (oe_env v)) tenant (rq_DeviceID q)\<rparr>)) (\<lambda>(c, d1).
     Inr (c, d1\<lparr>md_Tags := mput (md_Tags d1) ''onboardingRequestHash'' digest\<rparr>))"

definition Create :: "onboard_env \<Rightarrow> string \<Rightarrow> onboard_request \<Rightarrow> repo \<Rightarrow> onboard_result res \<times> repo" where
  "Create v tenant q r = (case request_digest v q of
     Inl e \<Rightarrow> (Inl e, r)
   | Inr digest \<Rightarrow>
       (case GetManagedDevice tenant (rq_DeviceID q) r of
          Inr _ \<Rightarrow> (recover_device tenant q digest r, r)
        | Inl _ \<Rightarrow>
            (case plan v tenant q r of
               Inl e \<Rightarrow> (Inl e, r)
             | Inr (b, rel) \<Rightarrow>
                 if length (split_char (CHR ''.'') (rq_TestToken q)) \<noteq> 2 then (fail ''test the access first'', r)
                 else if \<not> token_valid v tenant q rel (ob_Profile b)
                 then (fail ''the configuration has changed or the test has expired'', r)
                 else (case sealed_device v tenant q digest (ob_Device b) of
                     Inl e \<Rightarrow> (Inl e, r)
                   | Inr (c, d) \<Rightarrow>
                       (case SaveOnboarding (b\<lparr>ob_Device := d\<rparr>) r of
                          (Some e, r1) \<Rightarrow>
                            (case recover_device tenant q digest r1 of Inr x \<Rightarrow> (Inr x, r1) | Inl _ \<Rightarrow> (Inl e, r1))
                        | (None, r1) \<Rightarrow>
                            (Inr \<lparr>on_Reused = False, on_Device = device_Public d zero_product, on_Credential = c,
                               on_ClientID = (if dk_AccessKey c \<noteq> [] then ''device-'' @ dk_AccessKey c else []),
                               on_Username = dk_AccessKey c,
                               on_Connector = \<lparr>ci_Kind = rq_Type q, ci_DeviceID = rq_DeviceID q, ci_Profile = ob_Profile b\<rparr>\<rparr>, r1))))))"

section \<open>Thing models\<close>

definition data_types :: "string list" where
  "data_types = [''string'', ''number'', ''integer'', ''boolean'', ''object'', ''array'']"

fun thing_fields :: "string list \<Rightarrow> thing_field list \<Rightarrow> error option" where
  "thing_fields seen [] = None"
| "thing_fields seen (f # fs) =
     (if \<not> segment (tf_Identifier f) \<or> tf_Identifier f \<in> set seen then Some (ErrText ''invalid or duplicate field identifier'')
      else if tf_DataType f \<notin> set data_types then Some (ErrText (''unsupported dataType for '' @ tf_Identifier f))
      else thing_fields (tf_Identifier f # seen) fs)"

definition check_thing_fields :: "thing_field list \<Rightarrow> error option" where
  "check_thing_fields fs = (if 256 < length fs then Some (ErrText ''too many fields'') else thing_fields [] fs)"

fun thing_operations :: "string list \<Rightarrow> thing_operation list \<Rightarrow> error option" where
  "thing_operations seen [] = None"
| "thing_operations seen (p # ps) =
     (if \<not> segment (to_Identifier p) \<or> to_Identifier p \<in> set seen then Some (ErrText ''invalid or duplicate operation identifier'')
      else case check_thing_fields (to_Fields p) of Some e \<Rightarrow> Some e | None \<Rightarrow> thing_operations (to_Identifier p # seen) ps)"

definition check_thing_operations :: "thing_operation list \<Rightarrow> error option" where
  "check_thing_operations ps = (if 128 < length ps then Some (ErrText ''too many operations'') else thing_operations [] ps)"

definition ValidateThingModel :: "thing_model option \<Rightarrow> error option" where
  "ValidateThingModel m = (case m of
     None \<Rightarrow> None
   | Some t \<Rightarrow> (case check_thing_fields (tm_Properties t) of
       Some e \<Rightarrow> Some e
     | None \<Rightarrow> (case check_thing_operations (tm_Events t) of
         Some e \<Rightarrow> Some e | None \<Rightarrow> check_thing_operations (tm_Commands t))))"

section \<open>Credentials\<close>

definition ErrCredentialUnsupported :: error where
  "ErrCredentialUnsupported = ErrText ''the device needs no platform credential''"

definition revoke :: "onboard_env \<Rightarrow> credential_revocation \<Rightarrow> repo \<Rightarrow> credential_revocation \<times> repo" where
  "revoke v x r =
     (if cr_Status x = ''REVOKED'' then (x, r)
      else let x1 = (case oe_revoke v of
               None \<Rightarrow> x\<lparr>cr_LastError := ''broker administration is not configured''\<rparr>
             | Some f \<Rightarrow> (case f (cr_Username x) of
                 None \<Rightarrow> x\<lparr>cr_Status := ''REVOKED'', cr_LastError := []\<rparr>
               | Some _ \<Rightarrow> x\<lparr>cr_LastError := ''broker revocation failed; retry pending''\<rparr>));
             x2 = x1\<lparr>cr_UpdatedAt := oe_now v\<rparr>
        in case UpdateCredentialRevocation x2 r of
             Inr r1 \<Rightarrow> (x2, r1)
           | Inl _ \<Rightarrow> (x2\<lparr>cr_Status := ''PENDING'', cr_LastError := ''revocation status could not be persisted''\<rparr>, r))"

definition ChangeCredential :: "onboard_env \<Rightarrow> string \<Rightarrow> string \<Rightarrow> bool \<Rightarrow> repo \<Rightarrow>
    (device_credential \<times> credential_revocation) res \<times> repo" where
  "ChangeCredential v t i rotating r = (case GetManagedDevice t i r of
     Inl e \<Rightarrow> (Inl e, r)
   | Inr d \<Rightarrow> (case GetProduct t (md_ProductID d) r of
       Inl e \<Rightarrow> (Inl e, r)
     | Inr p \<Rightarrow>
         if \<not> UsesPlatformCredentials d p then (Inl ErrCredentialUnsupported, r)
         else (case (if rotating then Credential v else Inr zero_credential) of
             Inl e \<Rightarrow> (Inl e, r)
           | Inr c \<Rightarrow>
               (case ChangeDeviceCredential t i (dk_AccessKey c) (if rotating then Hash v (dk_Secret c) else []) (oe_now v) r of
                  (Inl e, r1) \<Rightarrow> (Inl e, r1)
                | (Inr (_, x), r1) \<Rightarrow> (case revoke v x r1 of (x1, r2) \<Rightarrow> (Inr (c, x1), r2))))))"

text \<open>A turn of RetryRevocations.\<close>

definition retry_turn :: "onboard_env \<Rightarrow> repo \<Rightarrow> repo" where
  "retry_turn v r = (if oe_revoke v = None then r
     else fold (\<lambda>x s. snd (revoke v x s)) (ListCredentialRevocations [] [] True r) r)"

section \<open>Commands\<close>

definition ObservedOutcome :: "int \<Rightarrow> device_command \<Rightarrow> device_command" where
  "ObservedOutcome now c =
     (if dc_Status c = ''QUEUED'' then c\<lparr>dc_Status := ''UNKNOWN'', dc_LastError := ''the executor has been removed''\<rparr>
      else if dc_Status c \<in> {''SENT'', ''DISPATCHING''} \<and> 0 < dc_CreatedAt c \<and> 30000 \<le> now - dc_CreatedAt c
      then c\<lparr>dc_Status := ''UNKNOWN'', dc_LastError := ''no result within 30 seconds''\<rparr> else c)"

text \<open>
  A number is an integer if float64(int64(n)) is n; outside the range of int64 the conversion gives the
  least int64, as on amd64.
\<close>

definition value_has_type :: "string \<Rightarrow> any \<Rightarrow> bool" where
  "value_has_type t x = (case x of
     AStr _ \<Rightarrow> t = ''string''
   | ABool _ \<Rightarrow> t = ''boolean''
   | AFloat64 w \<Rightarrow> t = ''number'' \<or> (t = ''integer'' \<and> (f64_int w \<noteq> None \<or> w = 0xC3E0000000000000))
   | AObj _ \<Rightarrow> t = ''object''
   | AArr _ \<Rightarrow> t = ''array''
   | _ \<Rightarrow> False)"

fun command_fields :: "anymap \<Rightarrow> thing_field list \<Rightarrow> error option" where
  "command_fields data [] = None"
| "command_fields data (f # fs) = (case mget data (tf_Identifier f) of
     None \<Rightarrow> if tf_Required f then Some (ErrText (tf_Identifier f @ '' is required'')) else command_fields data fs
   | Some x \<Rightarrow> if value_has_type (tf_DataType f) x then command_fields data fs
       else Some (ErrText (''invalid '' @ tf_Identifier f)))"

text \<open>The check against the thing model; of several commands of one name the last counts.\<close>

definition command_defined :: "product \<Rightarrow> device_command \<Rightarrow> error option" where
  "command_defined p q = (case pr_ThingModel p of
     None \<Rightarrow> None
   | Some t \<Rightarrow>
       if tm_Commands t = [] then None
       else case find (\<lambda>op. to_Identifier op = dc_Type q) (rev (tm_Commands t)) of
           None \<Rightarrow> Some (ErrText ''command is not defined in product thing model'')
         | Some op \<Rightarrow> command_fields (dc_Data q) (to_Fields op))"

text \<open>A command that is to be published: its record, topic and payload.\<close>

record dispatch =
  di_command :: device_command
  di_topic :: string
  di_payload :: string

text \<open>
  SendCommand up to the creation of the record: an answer, or a command that this call has to publish.
  given tells whether the request has a data object at all.
\<close>

definition command_begin :: "onboard_env \<Rightarrow> string \<Rightarrow> string \<Rightarrow> device_command \<Rightarrow> bool \<Rightarrow> repo \<Rightarrow>
    (device_command res + dispatch) \<times> repo" where
  "command_begin v t d q given r =
     (let refuse = (\<lambda>x. (Inl (fail x), r)) in
      if \<not> dc_Confirmed q then refuse ''manual command confirmation is required''
      else if \<not> segment (dc_ID q) \<or> \<not> segment (dc_Type q) \<or> \<not> given then refuse ''valid command id, type and data object are required''
      else case GetManagedDevice t d r of
          Inl _ \<Rightarrow> refuse ''enabled standard MQTT device required''
        | Inr device \<Rightarrow>
            if md_Status device \<noteq> ''ENABLED'' \<or> md_SecretHash device = [] \<or> mget_or [] (md_Tags device) ''connector'' \<noteq> ''MQTT''
            then refuse ''enabled standard MQTT device required''
            else (case GetProduct t (md_ProductID device) r of
                Inl _ \<Rightarrow> refuse ''product disabled''
              | Inr p \<Rightarrow>
                  if pr_Status p \<noteq> ''ENABLED'' then refuse ''product disabled''
                  else (case command_defined p q of
                      Some e \<Rightarrow> (Inl (Inl e), r)
                    | None \<Rightarrow>
                        if oe_publish v = None then refuse ''MQTT publisher is unavailable''
                        else let now = oe_now v;
                            q1 = zero_device_command\<lparr>dc_ID := dc_ID q, dc_TenantID := t, dc_DeviceID := d,
                              dc_ProductID := md_ProductID device, dc_Type := dc_Type q, dc_Data := dc_Data q,
                              dc_Status := ''DISPATCHING'', dc_CreatedAt := now, dc_UpdatedAt := now\<rparr>
                          in (case oe_command_json v [(''id'', AStr (dc_ID q)), (''version'', AStr ''1.0''), (''timestamp'', AInt now),
                                (''command'', AStr (dc_Type q)), (''params'', AObj (dc_Data q)), (''type'', AStr (dc_Type q)),
                                (''data'', AObj (dc_Data q))] of
                              Inl _ \<Rightarrow> refuse ''command exceeds 64 KiB or contains invalid JSON''
                            | Inr payload \<Rightarrow>
                                if 65536 < length payload then refuse ''command exceeds 64 KiB or contains invalid JSON''
                                else (case CreateDeviceCommand q1 r of
                                    ((saved, True), r1) \<Rightarrow>
                                      (Inr \<lparr>di_command = q1, di_topic = ''/iot/down/'' @ t @ ''/'' @ md_ProductID device @ ''/'' @ d @ ''/command'',
                                         di_payload = payload\<rparr>, r1)
                                  | ((saved, False), r1) \<Rightarrow>
                                      if dc_Status saved = ''QUEUED'' \<or> dc_DeviceID saved \<noteq> d \<or> dc_Type saved \<noteq> dc_Type q1 \<or>
                                        \<not> deep_equal (AObj (dc_Data saved)) (AObj (dc_Data q1))
                                      then (Inl (fail ''command id is already used by a different request''), r1)
                                      else (Inl (Inr (ObservedOutcome now saved)), r1))))))"

text \<open>The rest: the publication, whose outcome is stored.\<close>

definition command_end :: "onboard_env \<Rightarrow> error option \<Rightarrow> dispatch \<Rightarrow> repo \<Rightarrow> device_command res \<times> repo" where
  "command_end v published x r =
     (let q = di_command x;
          status = (if published = None then ''SENT'' else ''UNKNOWN'');
          message = (if published = None then [] else ''publish outcome unknown; inspect device before sending a new command'')
      in case UpdateDeviceCommandDispatch (dc_TenantID q) (dc_ID q) status message (oe_now v) r of
           Inl e \<Rightarrow> (Inl e, r)
         | Inr r1 \<Rightarrow> (Inr (q\<lparr>dc_Status := status, dc_LastError := message\<rparr>), r1))"

definition SendCommand :: "onboard_env \<Rightarrow> string \<Rightarrow> string \<Rightarrow> device_command \<Rightarrow> bool \<Rightarrow> repo \<Rightarrow> device_command res \<times> repo" where
  "SendCommand v t d q given r = (case command_begin v t d q given r of
     (Inl x, r1) \<Rightarrow> (x, r1)
   | (Inr x, r1) \<Rightarrow> (case oe_publish v of
         None \<Rightarrow> (fail ''MQTT publisher is unavailable'', r1)
       | Some f \<Rightarrow> command_end v (f (di_topic x) (di_payload x)) x r1))"

end
