(* ===== verification/Onboard_Limits.thy ===== *)
theory Onboard_Limits
  imports Onboarding Repo_Props
begin

text \<open>
  The rate limit of devices (Allow of internal/onboarding/service.go) over any history of requests.
\<close>

section \<open>The rate limit\<close>

definition second :: int where "second = 1000000000"

text \<open>
  The requests that were let through, the latest first, each with the start of the bucket it was counted in,
  and the map; the calls come latest first too.
\<close>

fun allow_run :: "(int \<times> string) list \<Rightarrow> (string \<times> int \<times> int) list \<times> bucket gomap" where
  "allow_run [] = ([], [])"
| "allow_run ((now, k) # cs) = (case allow_run cs of
     (log, m) \<Rightarrow> (case Allow now k m of
         (True, m1) \<Rightarrow> ((k, now, bk_At (mget_or zero_bucket m1 k)) # log, m1)
       | (False, m1) \<Rightarrow> (log, m1)))"

definition in_window :: "string \<Rightarrow> int \<Rightarrow> string \<times> int \<times> int \<Rightarrow> bool" where
  "in_window k s e \<longleftrightarrow> fst e = k \<and> snd (snd e) = s"

text \<open>
  What the map means for the requests let through so far: a bucket counts those since its start, no bucket
  has more than twenty, and the buckets of a key start a second or more apart.
\<close>

definition windows_ok :: "int \<Rightarrow> (string \<times> int \<times> int) list \<Rightarrow> bucket gomap \<Rightarrow> bool" where
  "windows_ok now log m \<longleftrightarrow> mwf m \<and> length m \<le> 10000 \<and>
     (\<forall>k b. mget m k = Some b \<longrightarrow> bk_At b \<le> now \<and> bk_Count b \<le> 20 \<and>
        int (length (filter (in_window k (bk_At b)) log)) = bk_Count b) \<and>
     (\<forall>(k, t, s) \<in> set log. s \<le> t \<and> t < s + second \<and> t \<le> now \<and> length (filter (in_window k s) log) \<le> 20 \<and>
        (case mget m k of None \<Rightarrow> s + second \<le> now | Some b \<Rightarrow> s = bk_At b \<or> s + second \<le> bk_At b)) \<and>
     (\<forall>(k, t, s) \<in> set log. \<forall>(k', t', s') \<in> set log. k = k' \<longrightarrow> s = s' \<or> s + second \<le> s' \<or> s' + second \<le> s)"

lemma sweep_mget: "mwf m \<Longrightarrow> mget (sweep_rates now m) k = (case mget m k of
    Some b \<Rightarrow> if now - bk_At b \<le> 60000000000 then Some b else None | None \<Rightarrow> None)"
proof (induction m)
  case (Cons e m)
  then show ?case
    by (cases e) (auto simp: sweep_rates_def mget_def mwf_def map_of_eq_None_iff split: option.splits dest: map_of_SomeD)
qed (simp add: sweep_rates_def)

lemma sweep_simps: "mwf m \<Longrightarrow> mwf (sweep_rates now m)" "length (sweep_rates now m) \<le> length m"
  by (auto simp: sweep_rates_def mwf_def distinct_map inj_on_filter_key_eq intro: distinct_filter inj_on_subset)

lemma mput_length: "length (mput m k v) = (if mget m k = None then Suc (length m) else length m)"
  by (induction m) (auto simp: mput_def mget_def)

lemma windows_okD:
  assumes "windows_ok now log m"
  shows "mwf m" "length m \<le> 10000"
    "mget m k = Some b \<Longrightarrow> bk_At b \<le> now \<and> bk_Count b \<le> 20 \<and> int (length (filter (in_window k (bk_At b)) log)) = bk_Count b"
    "(k, t, s) \<in> set log \<Longrightarrow> s \<le> t \<and> t < s + second \<and> t \<le> now \<and> length (filter (in_window k s) log) \<le> 20"
    "(k, t, s) \<in> set log \<Longrightarrow> mget m k = None \<Longrightarrow> s + second \<le> now"
    "(k, t, s) \<in> set log \<Longrightarrow> mget m k = Some b \<Longrightarrow> s = bk_At b \<or> s + second \<le> bk_At b"
    "(k, t, s) \<in> set log \<Longrightarrow> (k, t', s') \<in> set log \<Longrightarrow> s = s' \<or> s + second \<le> s' \<or> s' + second \<le> s"
  using assms unfolding windows_ok_def by (fastforce split: option.splits)+

lemma windows_okI:
  assumes "mwf m" "length m \<le> 10000"
    "\<And>k b. mget m k = Some b \<Longrightarrow> bk_At b \<le> now \<and> bk_Count b \<le> 20 \<and> int (length (filter (in_window k (bk_At b)) log)) = bk_Count b"
    "\<And>k t s. (k, t, s) \<in> set log \<Longrightarrow> s \<le> t \<and> t < s + second \<and> t \<le> now \<and> length (filter (in_window k s) log) \<le> 20"
    "\<And>k t s. (k, t, s) \<in> set log \<Longrightarrow> mget m k = None \<Longrightarrow> s + second \<le> now"
    "\<And>k t s b. (k, t, s) \<in> set log \<Longrightarrow> mget m k = Some b \<Longrightarrow> s = bk_At b \<or> s + second \<le> bk_At b"
    "\<And>k t s t' s'. (k, t, s) \<in> set log \<Longrightarrow> (k, t', s') \<in> set log \<Longrightarrow> s = s' \<or> s + second \<le> s' \<or> s' + second \<le> s"
  shows "windows_ok now log m"
proof -
  have "s \<le> t \<and> t < s + second \<and> t \<le> now \<and> length (filter (in_window k s) log) \<le> 20 \<and>
      (case mget m k of None \<Rightarrow> s + second \<le> now | Some b \<Rightarrow> s = bk_At b \<or> s + second \<le> bk_At b)"
    if "(k, t, s) \<in> set log" for k t s
    using that assms(4-6) by (cases "mget m k") auto
  then show ?thesis unfolding windows_ok_def using assms(1-3, 7) by blast
qed

lemma windows_ok_later: "windows_ok now log m \<Longrightarrow> now \<le> later \<Longrightarrow> windows_ok later log m"
  by (rule windows_okI) (fastforce dest: windows_okD)+

lemma windows_ok_sweep:
  assumes "windows_ok now log m"
  shows "windows_ok now log (sweep_rates now m)"
proof (rule windows_okI)
  show "mwf (sweep_rates now m)" "length (sweep_rates now m) \<le> 10000"
    using windows_okD(1, 2) [OF assms] sweep_simps [where m = m and now = now] by auto
  show "s + second \<le> now" if "(k, t, s) \<in> set log" "mget (sweep_rates now m) k = None" for k t s
    using that windows_okD(5, 6) [OF assms that(1)] sweep_mget [OF windows_okD(1) [OF assms]]
    by (auto simp: second_def split: option.splits if_splits)
qed (use windows_okD [OF assms] sweep_mget [OF windows_okD(1) [OF assms]] in \<open>auto split: option.splits if_splits\<close>)

lemma windows_ok_continue:
  assumes ok: "windows_ok now log m" and b: "mget m k = Some b" "now < bk_At b + second" "bk_Count b < 20"
  shows "windows_ok now ((k, now, bk_At b) # log) (mput m k (b\<lparr>bk_Count := bk_Count b + 1\<rparr>))"
proof (rule windows_okI)
  show "length (mput m k (b\<lparr>bk_Count := bk_Count b + 1\<rparr>)) \<le> 10000"
    using windows_okD(2) [OF ok] b(1) by (simp add: mput_length)
  have n: "length (filter (in_window k' s') ((k, now, bk_At b) # log)) =
      (if k' = k \<and> s' = bk_At b then 1 else 0) + length (filter (in_window k' s') log)" for k' s'
    by (auto simp: in_window_def)
  show "bk_At c \<le> now \<and> bk_Count c \<le> 20 \<and>
      int (length (filter (in_window k' (bk_At c)) ((k, now, bk_At b) # log))) = bk_Count c"
    if "mget (mput m k (b\<lparr>bk_Count := bk_Count b + 1\<rparr>)) k' = Some c" for k' c
  proof (cases "k' = k")
    case True
    then show ?thesis unfolding n using that windows_okD(3) [OF ok b(1)] b(3) by auto
  next
    case False
    then show ?thesis unfolding n using that windows_okD(3) [OF ok, of k' c] by simp
  qed
  show "s \<le> t \<and> t < s + second \<and> t \<le> now \<and> length (filter (in_window k' s) ((k, now, bk_At b) # log)) \<le> 20"
    if "(k', t, s) \<in> set ((k, now, bk_At b) # log)" for k' t s
  proof (cases "k' = k \<and> s = bk_At b")
    case True
    then show ?thesis unfolding n using that windows_okD(3) [OF ok b(1)] windows_okD(4) [OF ok, of k' t s] b(2, 3) by auto
  next
    case False
    then show ?thesis unfolding n using that windows_okD(4) [OF ok, of k' t s] by auto
  qed
  show "s = s' \<or> s + second \<le> s' \<or> s' + second \<le> s"
    if "(k', t, s) \<in> set ((k, now, bk_At b) # log)" "(k', t', s') \<in> set ((k, now, bk_At b) # log)" for k' t s t' s'
  proof (cases "(k', t, s) \<in> set log \<and> (k', t', s') \<in> set log")
    case True
    then show ?thesis using windows_okD(7) [OF ok] by blast
  next
    case False
    then show ?thesis using that windows_okD(6) [OF ok _ b(1)] by auto
  qed
  show "s = bk_At c \<or> s + second \<le> bk_At c" if "(k', t, s) \<in> set ((k, now, bk_At b) # log)"
    "mget (mput m k (b\<lparr>bk_Count := bk_Count b + 1\<rparr>)) k' = Some c" for k' t s c
    using that windows_okD(6) [OF ok, of k' t s] b(1) by (auto split: if_splits)
qed (use windows_okD(1, 5) [OF ok] b in \<open>auto split: if_splits\<close>)

lemma windows_ok_fresh:
  assumes ok: "windows_ok now log m" and old: "\<And>b. mget m k = Some b \<Longrightarrow> bk_At b + second \<le> now"
    and room: "mget m k = None \<Longrightarrow> length m < 10000"
  shows "windows_ok now ((k, now, now) # log) (mput m k \<lparr>bk_At = now, bk_Count = 1\<rparr>)"
proof -
  have past: "s + second \<le> now" if "(k, t, s) \<in> set log" for t s
    using windows_okD(5, 6) [OF ok that] old by (cases "mget m k") (auto simp: second_def)
  then have none: "filter (in_window k now) log = []"
  proof (intro filter_False ballI notI)
    fix e
    assume e: "e \<in> set log" "in_window k now e"
    then have "(k, fst (snd e), now) \<in> set log" by (cases e) (auto simp: in_window_def)
    then show False using past by (fastforce simp: second_def)
  qed
  show ?thesis
  proof (rule windows_okI)
    show "length (mput m k \<lparr>bk_At = now, bk_Count = 1\<rparr>) \<le> 10000"
      using windows_okD(2) [OF ok] room by (auto simp: mput_length)
    show "bk_At c \<le> now \<and> bk_Count c \<le> 20 \<and> int (length (filter (in_window k' (bk_At c)) ((k, now, now) # log))) = bk_Count c"
      if "mget (mput m k \<lparr>bk_At = now, bk_Count = 1\<rparr>) k' = Some c" for k' c
      using that windows_okD(3) [OF ok, of k'] none by (auto simp: in_window_def split: if_splits)
    show "s \<le> t \<and> t < s + second \<and> t \<le> now \<and> length (filter (in_window k' s) ((k, now, now) # log)) \<le> 20"
      if "(k', t, s) \<in> set ((k, now, now) # log)" for k' t s
      using that none windows_okD(4) [OF ok, of k' t s] past by (fastforce simp: in_window_def second_def)
    show "s = s' \<or> s + second \<le> s' \<or> s' + second \<le> s"
      if "(k', t, s) \<in> set ((k, now, now) # log)" "(k', t', s') \<in> set ((k, now, now) # log)" for k' t s t' s'
      using that windows_okD(7) [OF ok, of k' t s t' s'] past by auto
    show "s = bk_At c \<or> s + second \<le> bk_At c" if "(k', t, s) \<in> set ((k, now, now) # log)"
      "mget (mput m k \<lparr>bk_At = now, bk_Count = 1\<rparr>) k' = Some c" for k' t s c
      using that windows_okD(6) [OF ok, of k' t s] past by (auto split: if_splits)
  qed (use windows_okD(1, 5) [OF ok] in \<open>auto split: if_splits\<close>)
qed

lemma Allow_windows:
  assumes ok: "windows_ok now log m" and now: "second \<le> now"
  shows "case Allow now k m of (True, m1) \<Rightarrow> windows_ok now ((k, now, bk_At (mget_or zero_bucket m1 k)) # log) m1
    | (False, m1) \<Rightarrow> windows_ok now log m1"
proof -
  let ?m = "if length m \<ge> 10000 then sweep_rates now m else m" and ?b = "mget_or zero_bucket m k"
  have w: "windows_ok now log ?m" using ok windows_ok_sweep by simp
  note g = sweep_mget [OF windows_okD(1) [OF ok], of now k]
  show ?thesis
  proof (cases "now - bk_At ?b \<ge> second")
    case True
    have old: "bk_At b + second \<le> now" if "mget ?m k = Some b" for b
      using that g True by (auto simp: mget_or_def split: option.splits if_splits)
    have len: "length ?m < 10000" if "\<not> (length m \<ge> 10000 \<and> mget ?m k = None \<and> length ?m \<ge> 10000)" "mget ?m k = None"
      using that by auto
    show ?thesis
    proof (cases "length m \<ge> 10000 \<and> mget ?m k = None \<and> length ?m \<ge> 10000")
      case True
      have "Allow now k m = (False, ?m)"
        using True \<open>now - bk_At ?b \<ge> second\<close> unfolding second_def by (auto simp: Allow_def Let_def)
      then show ?thesis using w by simp
    next
      case False
      have "Allow now k m = (True, mput ?m k \<lparr>bk_At = now, bk_Count = 1\<rparr>)"
        using False \<open>now - bk_At ?b \<ge> second\<close> unfolding second_def by (simp add: Allow_def Let_def)
      then show ?thesis using windows_ok_fresh [OF w old len [OF False]] by (simp add: mget_or_def)
    qed
  next
    case False
    then have b: "mget m k = Some ?b" using now by (cases "mget m k") (auto simp: mget_or_def zero_bucket_def)
    then have b2: "mget ?m k = Some ?b" using g False by (auto simp: second_def)
    show ?thesis
    proof (cases "bk_Count ?b \<ge> 20")
      case True
      then have "Allow now k m = (False, m)" using False unfolding second_def by (simp add: Allow_def Let_def)
      then show ?thesis using ok by simp
    next
      case few: False
      have "Allow now k m = (True, mput ?m k (?b\<lparr>bk_Count := bk_Count ?b + 1\<rparr>))"
        using False few b2 unfolding second_def by (simp add: Allow_def Let_def)
      then show ?thesis using windows_ok_continue [OF w b2] False few by (simp add: mget_or_def [of _ "mput _ _ _"])
    qed
  qed
qed

text \<open>Times that do not go back, the latest first, from a second after the zero time on.\<close>

definition clock_ok :: "(int \<times> string) list \<Rightarrow> bool" where
  "clock_ok cs \<longleftrightarrow> sorted_wrt (\<lambda>a b. fst b \<le> fst a) cs \<and> (\<forall>c \<in> set cs. second \<le> fst c)"

lemma allow_run_windows:
  "clock_ok cs \<Longrightarrow> \<exists>now. windows_ok now (fst (allow_run cs)) (snd (allow_run cs)) \<and> (cs = [] \<or> now = fst (hd cs))"
proof (induction cs)
  case Nil
  then show ?case by (intro exI [of _ 0]) (simp add: windows_ok_def)
next
  case (Cons c cs)
  obtain t k where c: "c = (t, k)" by (cases c)
  obtain log m where r: "allow_run cs = (log, m)" by fastforce
  from Cons obtain now where o: "windows_ok now log m" "cs = [] \<or> now = fst (hd cs)" by (auto simp: clock_ok_def r)
  have "windows_ok t log m"
  proof (cases cs)
    case Nil
    then show ?thesis using r by (simp add: windows_ok_def)
  next
    case (Cons a as)
    then show ?thesis using windows_ok_later [OF o(1)] o(2) \<open>clock_ok (c # cs)\<close> by (simp add: c clock_ok_def)
  qed
  then show ?case
    using Allow_windows [of t log m k] Cons.prems
    by (intro exI [of _ t]) (auto simp: c r clock_ok_def split: prod.splits bool.splits)
qed

lemma filter_two_length:
  "(\<And>e. e \<in> set xs \<Longrightarrow> P e \<Longrightarrow> Q e \<or> R e) \<Longrightarrow> length (filter P xs) \<le> length (filter Q xs) + length (filter R xs)"
  by (induction xs) fastforce+

definition let_through :: "string \<Rightarrow> int \<Rightarrow> string \<times> int \<times> int \<Rightarrow> bool" where
  "let_through k a e \<longleftrightarrow> fst e = k \<and> a \<le> fst (snd e) \<and> fst (snd e) < a + second"

text \<open>A second meets two buckets of a key at most.\<close>

lemma two_windows:
  assumes ok: "windows_ok now log m"
  shows "\<exists>s1 s2. \<forall>e \<in> set log. let_through k a e \<longrightarrow> in_window k s1 e \<or> in_window k s2 e"
proof (cases "\<exists>e \<in> set log. let_through k a e")
  case True
  define S where "S = (\<lambda>e. snd (snd e)) ` {e \<in> set log. let_through k a e}"
  have S: "finite S" "S \<noteq> {}" using True by (auto simp: S_def)
  have entry: "\<exists>t. (k, t, s) \<in> set log \<and> a \<le> t \<and> t < a + second" if "s \<in> S" for s
    using that by (auto simp: S_def let_through_def)
  obtain t0 where t0: "(k, t0, Min S) \<in> set log" "a \<le> t0" "t0 < a + second" using entry Min_in [OF S] by blast
  have same: "s = s'" if s: "s \<in> S" "s' \<in> S" "s \<noteq> Min S" "s' \<noteq> Min S" for s s'
  proof -
    obtain t t' where t: "(k, t, s) \<in> set log" "t < a + second" "(k, t', s') \<in> set log" "t' < a + second"
      using entry [OF s(1)] entry [OF s(2)] by blast
    have "Min S + second \<le> s" "Min S + second \<le> s'"
      using windows_okD(7) [OF ok t0(1) t(1)] windows_okD(7) [OF ok t0(1) t(3)] Min_le [OF S(1) s(1)] Min_le [OF S(1) s(2)] s(3, 4)
      by (auto simp: second_def)
    then show ?thesis
      using windows_okD(4) [OF ok t0(1)] windows_okD(4) [OF ok t(1)] windows_okD(4) [OF ok t(3)] windows_okD(7) [OF ok t(1) t(3)]
        t0 t by auto
  qed
  obtain s2 where "\<forall>s \<in> S. s = Min S \<or> s = s2" using same by blast
  moreover have "snd (snd e) \<in> S" if "e \<in> set log" "let_through k a e" for e
    using that unfolding S_def by blast
  moreover have "fst e = k" if "let_through k a e" for e using that by (simp add: let_through_def)
  ultimately show ?thesis unfolding in_window_def by blast
qed auto

text \<open>
  C21. The rate limit bounds every device and the memory of the limiter: over any history of requests, at
  most 40 requests of a key are let through within any second, and the map never has more than 10000 keys.
\<close>

theorem rate_limit:
  assumes "clock_ok cs"
  shows "length (filter (let_through k a) (fst (allow_run cs))) \<le> 40 \<and> length (snd (allow_run cs)) \<le> 10000"
proof -
  obtain now where ok: "windows_ok now (fst (allow_run cs)) (snd (allow_run cs))" using allow_run_windows [OF assms] by blast
  obtain s1 s2 where "\<forall>e \<in> set (fst (allow_run cs)). let_through k a e \<longrightarrow> in_window k s1 e \<or> in_window k s2 e"
    using two_windows [OF ok] by blast
  then have le: "length (filter (let_through k a) (fst (allow_run cs))) \<le>
      length (filter (in_window k s1) (fst (allow_run cs))) + length (filter (in_window k s2) (fst (allow_run cs)))"
    by (intro filter_two_length) blast
  have "length (filter (in_window k s) (fst (allow_run cs))) \<le> 20" for s
  proof (cases "filter (in_window k s) (fst (allow_run cs))")
    case (Cons e es)
    then have "e \<in> set (filter (in_window k s) (fst (allow_run cs)))" by (simp only: list.set_intros)
    then have "e \<in> set (fst (allow_run cs)) \<and> in_window k s e" by (simp only: set_filter mem_Collect_eq)
    then have "(k, fst (snd e), s) \<in> set (fst (allow_run cs))" by (cases e) (auto simp: in_window_def)
    then show ?thesis using windows_okD(4) [OF ok] by blast
  qed simp
  from this [of s1] this [of s2] show ?thesis using le windows_okD(2) [OF ok] by linarith
qed

lemma rate_limit_witness:
  "length (filter (let_through ''d'' second) (fst (allow_run [(second + 1, ''d''), (second, ''d'')]))) \<le> 40 \<and>
   fst (allow_run [(second + 1, ''d''), (second, ''d'')]) = [(''d'', second + 1, second), (''d'', second, second)]"
proof -
  have "fst (allow_run [(second + 1, ''d''), (second, ''d'')]) = [(''d'', second + 1, second), (''d'', second, second)]"
    by (simp add: Allow_def Let_def mget_or_def zero_bucket_def second_def mput_length)
  then show ?thesis
    using rate_limit [of "[(second + 1, ''d''), (second, ''d'')]" "''d''" second] by (simp add: clock_ok_def)
qed

end
