(* ===== verification/Onboard_Sample.thy ===== *)
theory Onboard_Sample
  imports Onboarding Repo_Props
begin

text \<open>A service, a request for an MQTT device of a new product, and the repository after it.\<close>

definition sample_service :: onboard_env where
  "sample_service = \<lparr>oe_listen = \<lparr>lv_env = \<lparr>v_now = 5, v_nanos = ''0'', v_rnd = (\<lambda>n. []), v_bus = (\<lambda>_. None), v_mqtt = (\<lambda>_. None), v_visit = (\<lambda>_ _. 0),
       v_matcher = \<lparr>mt_sprint = (\<lambda>_. []), mt_parse_float = (\<lambda>_. None), mt_gengine = (\<lambda>_ _. None)\<rparr>,
       v_sha = (\<lambda>s. CHR ''h'' # s), v_cp = Some, v_object = (\<lambda>_. None), v_parsers = NewRegistry [],
       v_postgres = True, v_clickhouse = False, v_legacy = None, v_interval = 60\<rparr>,
       lv_later = 6, lv_slot = None, lv_call = (\<lambda>_ _. Inl ErrNotFound), lv_json = (\<lambda>_. None),
       lv_marshal = (\<lambda>_. Some []), lv_claim = (\<lambda>_. True), lv_validate = (\<lambda>_ _. None), lv_registrar = None,
       lv_write = (\<lambda>_. None), lv_listen = (\<lambda>_. None)\<rparr>,
     oe_json = \<lparr>sj_tokens = (\<lambda>_. ([], True)), sj_body = (\<lambda>_. Inl ErrNotFound), sj_object = (\<lambda>_. Inl ErrNotFound)\<rparr>,
     oe_rand = Inr (replicate 40 7), oe_seal = (\<lambda>_. ''mac''), oe_request_json = (\<lambda>q. Inr (rq_Name q)),
     oe_parse_float = (\<lambda>_. None), oe_csv = (\<lambda>_. Inr []), oe_points_any = (\<lambda>_. ANil), oe_blocks_any = (\<lambda>_. ANil),
     oe_ip = (\<lambda>_. True), oe_command_json = (\<lambda>_. Inr ''{}''), oe_publish = Some (\<lambda>_ _. None), oe_revoke = None\<rparr>"

definition sample_request :: onboard_request where
  "sample_request = \<lparr>rq_ReadPoints = [], rq_ExistingProfileID = [], rq_ProductName = ''p'', rq_TestToken = ''9.mac'',
     rq_ProductID = ''p'', rq_DeviceID = ''d'', rq_Name = ''n'', rq_Type = MQTT, rq_Profile = zero_access_profile,
     rq_ProtocolID = [], rq_ProtocolVersion = [], rq_PollIntervalSec = 0, rq_PointTableCSV = [], rq_Payload = [],
     rq_MessageKind = []\<rparr>"

lemma sample_service_fields [simp]:
  "oe_now sample_service = 5" "Hash sample_service s = CHR ''h'' # s" "oe_rand sample_service = Inr (replicate 40 7)"
  "oe_seal sample_service x = ''mac''" "oe_request_json sample_service q = Inr (rq_Name q)"
  "oe_publish sample_service = Some (\<lambda>_ _. None)" "oe_command_json sample_service m = Inr ''{}''" "oe_revoke sample_service = None"
  by (simp_all add: sample_service_def)

definition sample_credential :: device_credential where
  "sample_credential = \<lparr>dk_AccessKey = ''dk_'' @ to_lower (hex_upper (take 8 (replicate 40 7))),
     dk_Secret = ''ds_'' @ to_lower (hex_upper (drop 8 (replicate 40 7)))\<rparr>"

lemma sample_Credential: "Credential sample_service = Inr sample_credential"
  by (simp add: Credential_def sample_credential_def)

definition sample_onboarded :: managed_device where
  "sample_onboarded = (plan_device sample_service ''t'' sample_request)\<lparr>md_AccessKey := dk_AccessKey sample_credential,
     md_SecretHash := CHR ''h'' # dk_Secret sample_credential,
     md_Tags := [(''connector'', MQTT), (''onboardingRequestHash'', ''hn'')]\<rparr>"

definition sample_planned :: onboarding_bundle where
  "sample_planned = \<lparr>ob_Product = Some (described_product sample_request (standard_release sample_service ''t'')
       (zero_product\<lparr>pr_ID := ''p'', pr_TenantID := ''t'', pr_Name := ''p'', pr_Status := ''ENABLED'', pr_Category := ''sensor'',
         pr_CreatedAt := 5, pr_UpdatedAt := 5\<rparr>)),
     ob_ReuseProfile = False, ob_Device = plan_device sample_service ''t'' sample_request, ob_Profile = None,
     ob_Release = Some (standard_release sample_service ''t''), ob_PointTable = None, ob_Binding = None\<rparr>"

definition sample_after :: repo where
  "sample_after = snd (SaveOnboarding (sample_planned\<lparr>ob_Device := sample_onboarded\<rparr>) NewRepository)"

lemma sample_segments: "segment ''t''" "segment ''d''" "segment ''p''" "segment ''c''" "segment ''on''"
  by (simp_all add: segment_def segment_start_def Let_def)

lemma sample_plan:
  "plan sample_service ''t'' sample_request NewRepository = Inr (sample_planned, standard_release sample_service ''t'')"
  by (simp add: plan_def sample_segments sample_request_def visible_simps zero_access_profile_def plan_product_def Let_def
      bind_res_def sample_planned_def)

lemma sample_created:
  "Create sample_service ''t'' sample_request NewRepository =
     (Inr \<lparr>on_Reused = False, on_Device = device_Public sample_onboarded zero_product, on_Credential = sample_credential,
        on_ClientID = ''device-'' @ dk_AccessKey sample_credential, on_Username = dk_AccessKey sample_credential,
        on_Connector = \<lparr>ci_Kind = MQTT, ci_DeviceID = ''d'', ci_Profile = None\<rparr>\<rparr>, sample_after)"
proof -
  have s: "SaveOnboarding (sample_planned\<lparr>ob_Device := sample_onboarded\<rparr>) NewRepository = (None, sample_after)"
    unfolding sample_after_def
    by (simp add: SaveOnboarding_def onboarding_error_def sample_planned_def sample_onboarded_def plan_device_def sample_request_def
        NewRepository_def zero_managed_device_def mvals_def Let_def)
  have t: "token_valid sample_service ''t'' sample_request rel None" for rel
    by (simp add: token_valid_def sample_request_def atoi_def digit_of_def proof_of_def)
  have u: "UsesPlatformCredentials (plan_device sample_service ''t'' sample_request) zero_product"
    by (simp add: UsesPlatformCredentials_def plan_device_def sample_request_def zero_managed_device_def mget_or_def mget_def MQTT_def
        to_upper_def upper_char_def)
  have d: "sealed_device sample_service ''t'' sample_request ''hn'' (plan_device sample_service ''t'' sample_request) =
      Inr (sample_credential, sample_onboarded)"
    by (simp add: sealed_device_def u sample_Credential bind_res_def sample_onboarded_def)
      (simp add: plan_device_def mput_def sample_request_def)
  have g: "GetManagedDevice ''t'' ''d'' NewRepository = Inl ErrNotFound"
    by (simp add: GetManagedDevice_def NewRepository_def)
  have q: "request_digest sample_service sample_request = Inr ''hn''"
    by (simp add: request_digest_def bind_res_def sample_request_def)
  have f: "length (split_char CHR ''.'' (rq_TestToken sample_request)) = 2" by (simp add: sample_request_def)
  have k: "dk_AccessKey sample_credential \<noteq> []" by (simp add: sample_credential_def)
  have b: "ob_Profile sample_planned = None" "ob_Device sample_planned = plan_device sample_service ''t'' sample_request"
    "rq_Type sample_request = MQTT" "rq_DeviceID sample_request = ''d''"
    by (simp_all add: sample_planned_def sample_request_def)
  show ?thesis
    using k by (simp add: Create_def q g sample_plan f t d b s)
qed

lemma sample_after_devices:
  "r_devices sample_after = [(key [''t'', ''d''], sample_onboarded)]" "reachable id Some sample_after"
proof -
  let ?b = "sample_planned\<lparr>ob_Device := sample_onboarded\<rparr>"
  have e: "onboarding_error ?b NewRepository = None"
    by (simp add: onboarding_error_def sample_planned_def sample_onboarded_def plan_device_def sample_request_def
        NewRepository_def zero_managed_device_def mvals_def Let_def)
  have d: "md_TenantID sample_onboarded = ''t''" "md_ID sample_onboarded = ''d''"
    by (simp_all add: sample_onboarded_def plan_device_def sample_request_def)
  have "r_devices sample_after = mput [] (key [''t'', ''d'']) sample_onboarded"
    unfolding sample_after_def using e
    by (simp add: SaveOnboarding_def Let_def d) (simp add: sample_planned_def NewRepository_def d)
  then show "r_devices sample_after = [(key [''t'', ''d''], sample_onboarded)]" by (simp add: mput_def)
  have "call_ok (Devices (C_SaveOnboarding ?b))"
    by (simp add: call_ok_def d nul_free_def nul_def) (simp add: sample_planned_def)
  from reachable.call [OF reachable.start this, of id Some] show "reachable id Some sample_after"
    by (simp add: sample_after_def)
qed

definition sample_product :: product where
  "sample_product = described_product sample_request (standard_release sample_service ''t'')
     (zero_product\<lparr>pr_ID := ''p'', pr_TenantID := ''t'', pr_Name := ''p'', pr_Status := ''ENABLED'', pr_Category := ''sensor'',
       pr_CreatedAt := 5, pr_UpdatedAt := 5\<rparr>)"

lemma sample_after_product:
  "GetProduct ''t'' ''p'' sample_after = Inr sample_product"
proof -
  have e: "onboarding_error (sample_planned\<lparr>ob_Device := sample_onboarded\<rparr>) NewRepository = None"
    by (simp add: onboarding_error_def sample_planned_def sample_onboarded_def plan_device_def sample_request_def
        NewRepository_def zero_managed_device_def mvals_def Let_def)
  have d: "md_TenantID sample_onboarded = ''t''" "md_ProductID sample_onboarded = ''p''"
    by (simp_all add: sample_onboarded_def plan_device_def sample_request_def)
  have c: "clone_product sample_product = sample_product"
    by (simp add: clone_product_def sample_product_def described_product_def zero_product_def json_map_def json_map_ok_def)
  have "r_products sample_after = mput [] (key [''t'', ''p'']) sample_product"
    unfolding sample_after_def using e
    by (simp add: SaveOnboarding_def Let_def d)
      (simp add: sample_planned_def NewRepository_def c d onboard_product_def onboard_release_def Let_def flip: sample_product_def)
  then show "GetProduct ''t'' ''p'' sample_after = Inr sample_product"
    by (simp add: GetProduct_def mput_def mget_def c)
qed

end
