(* ===== verification/Onboard_Commands.thy ===== *)
theory Onboard_Commands
  imports Onboard_Sample
begin

text \<open>
  The commands the onboarding service publishes, over any interleaving of calls of SendCommand with each
  other and with every other call of the repository, while the process lives. The repository is the one in
  memory (internal/app/app.go), whose records are gone with the process.
\<close>

section \<open>Runs\<close>

text \<open>
  The repository, the commands whose record is created but that are not published yet, all that were
  published, and those whose outcome is not stored yet.
\<close>

record command_run =
  cu_repo :: repo
  cu_begun :: "dispatch list"
  cu_published :: "dispatch list"
  cu_waiting :: "dispatch list"

definition dispatch_key :: "dispatch \<Rightarrow> string" where
  "dispatch_key x = key [dc_TenantID (di_command x), dc_ID (di_command x)]"

inductive command_step :: "command_run \<Rightarrow> command_run \<Rightarrow> bool" where
  begin_new: "command_begin v t d q given (cu_repo s) = (Inr x, r) \<Longrightarrow>
    command_step s (s\<lparr>cu_repo := r, cu_begun := x # cu_begun s\<rparr>)"
| begin_answer: "command_begin v t d q given (cu_repo s) = (Inl y, r) \<Longrightarrow> command_step s (s\<lparr>cu_repo := r\<rparr>)"
| publish: "x \<in> set (cu_begun s) \<Longrightarrow> command_step s (s\<lparr>cu_begun := remove1 x (cu_begun s),
    cu_published := x # cu_published s, cu_waiting := x # cu_waiting s\<rparr>)"
| finish: "x \<in> set (cu_waiting s) \<Longrightarrow> command_step s (s\<lparr>cu_waiting := remove1 x (cu_waiting s),
    cu_repo := snd (command_end v published x (cu_repo s))\<rparr>)"
| other: "command_step s (s\<lparr>cu_repo := exec sha cp c (cu_repo s)\<rparr>)"

definition new_run :: "repo \<Rightarrow> command_run" where
  "new_run r = \<lparr>cu_repo = r, cu_begun = [], cu_published = [], cu_waiting = []\<rparr>"

section \<open>Records stay\<close>

lemma exec_device_command_stays:
  assumes "mget (r_commands r) k \<noteq> None"
  shows "mget (r_commands (exec_device sha c r)) k \<noteq> None"
  using assms
  by (cases c; simp add: device_defs kept_def Let_def split: option.split sum.split; auto)

lemma exec_command_stays:
  "mget (r_commands r) k \<noteq> None \<Longrightarrow> mget (r_commands (exec sha cp c r)) k \<noteq> None"
  using exec_device_command_stays [of r k sha] by (cases c) simp_all

lemma command_end_stays:
  "mget (r_commands r) k \<noteq> None \<Longrightarrow> mget (r_commands (snd (command_end v published x r))) k \<noteq> None"
  by (auto simp: command_end_def UpdateDeviceCommandDispatch_def Let_def split: option.split)

lemma command_begin_new:
  assumes "command_begin v t d q given r = (Inr x, r1)"
  shows "mget (r_commands r) (dispatch_key x) = None"
    "r_commands r1 = mput (r_commands r) (dispatch_key x) (clone_command (di_command x))"
    "dc_TenantID (di_command x) = t" "dc_DeviceID (di_command x) = d" "dc_ID (di_command x) = dc_ID q"
  using assms
  by (auto simp: command_begin_def CreateDeviceCommand_def Let_def dispatch_key_def
      split: if_splits sum.splits option.splits prod.splits bool.splits)

lemma command_begin_answer:
  assumes "command_begin v t d q given r = (Inl y, r1)"
  shows "r1 = r"
  using assms
  by (auto simp: command_begin_def CreateDeviceCommand_def Let_def split: if_splits sum.splits option.splits prod.splits bool.splits)

section \<open>The invariant\<close>

definition run_ok :: "command_run \<Rightarrow> bool" where
  "run_ok s \<longleftrightarrow> distinct (map dispatch_key (cu_begun s @ cu_published s)) \<and>
     (\<forall>x \<in> set (cu_begun s @ cu_published s). mget (r_commands (cu_repo s)) (dispatch_key x) \<noteq> None)"

lemma run_ok_new: "run_ok (new_run r)"
  by (simp add: run_ok_def new_run_def)

lemma step_run_ok: "command_step s s2 \<Longrightarrow> run_ok s \<Longrightarrow> run_ok s2"
proof (induction rule: command_step.induct)
  case (begin_new v t d q given s x r)
  note b = command_begin_new [OF begin_new(1)]
  have "dispatch_key x \<notin> dispatch_key ` set (cu_begun s @ cu_published s)"
    using begin_new(2) b(1) unfolding run_ok_def image_iff by (metis option.distinct(1))
  then show ?case using begin_new(2) b(2) by (auto simp: run_ok_def)
next
  case (begin_answer v t d q given s y r)
  then show ?case using command_begin_answer [OF begin_answer(1)] by simp
next
  case (publish x s)
  let ?old = "cu_begun s @ cu_published s" and ?new = "remove1 x (cu_begun s) @ x # cu_published s"
  have m: "mset ?new = mset ?old" using publish(1) by simp
  then have "distinct (map dispatch_key ?new) = distinct (map dispatch_key ?old)"
    by (intro mset_eq_imp_distinct_iff) (metis mset_map)
  moreover have "set ?new = set ?old" by (rule mset_eq_setD [OF m])
  ultimately show ?case using publish(2) unfolding run_ok_def by simp
next
  case (finish x s v published)
  then show ?case using command_end_stays by (auto simp: run_ok_def simp del: not_None_eq)
next
  case (other s sha cp c)
  then show ?case using exec_command_stays by (auto simp: run_ok_def simp del: not_None_eq)
qed

lemma reach_run_ok: "command_step\<^sup>*\<^sup>* (new_run r) s \<Longrightarrow> run_ok s"
  by (induction rule: rtranclp_induct) (use run_ok_new step_run_ok in blast)+

text \<open>
  C9. While the process lives, a command is published at most once: whatever requests are repeated, in
  whatever order the calls of the service, replies and other operations of the repository come, and however
  many calls of SendCommand stop before or after their publication, no two publications have the tenant and
  identifier of one command, and a command that was published keeps its record, so that a later request with
  its identifier is answered from it.
\<close>

theorem command_published_once:
  assumes "command_step\<^sup>*\<^sup>* (new_run r) s"
  shows "distinct (map dispatch_key (cu_published s)) \<and>
    (\<forall>x \<in> set (cu_published s). mget (r_commands (cu_repo s)) (dispatch_key x) \<noteq> None) \<and>
    (command_begin v t d q given (cu_repo s) = (Inr y, r1) \<longrightarrow> dispatch_key y \<notin> dispatch_key ` set (cu_published s))"
proof -
  have ok: "run_ok s" by (rule reach_run_ok [OF assms])
  have "dispatch_key y \<notin> dispatch_key ` set (cu_published s)" if "command_begin v t d q given (cu_repo s) = (Inr y, r1)"
    using ok command_begin_new(1) [OF that] unfolding run_ok_def image_iff by (metis option.distinct(1) set_append Un_iff)
  then show ?thesis using ok by (auto simp: run_ok_def)
qed

section \<open>A run\<close>

definition sample_asked :: device_command where
  "sample_asked = zero_device_command\<lparr>dc_ID := ''c'', dc_Type := ''on'', dc_Confirmed := True\<rparr>"

definition sample_begun :: "(device_command res + dispatch) \<times> repo" where
  "sample_begun = command_begin sample_service ''t'' ''d'' sample_asked True sample_after"

lemma sample_begin: "\<exists>x r. sample_begun = (Inr x, r) \<and> dispatch_key x = key [''t'', ''c'']"
proof -
  have d: "GetManagedDevice ''t'' ''d'' sample_after = Inr sample_onboarded"
    by (simp add: GetManagedDevice_def sample_after_devices mget_def)
  have f: "md_ProductID sample_onboarded = ''p''" "md_Status sample_onboarded = ''ENABLED''" "md_SecretHash sample_onboarded \<noteq> []"
    "mget_or [] (md_Tags sample_onboarded) ''connector'' = ''MQTT''"
    by (simp_all add: sample_onboarded_def plan_device_def sample_request_def mget_or_def mget_def MQTT_def)
  have p: "pr_Status sample_product = ''ENABLED''" "command_defined sample_product sample_asked = None"
    by (simp_all add: sample_product_def described_product_def command_defined_def zero_product_def sample_asked_def)
  have a: "dc_Confirmed sample_asked" "dc_ID sample_asked = ''c''" "dc_Type sample_asked = ''on''"
    by (simp_all add: sample_asked_def)
  have c: "r_commands sample_after = []"
    unfolding sample_after_def by (simp add: SaveOnboarding_def Let_def onboard_release_def onboard_product_def NewRepository_def sample_planned_def split: option.split)
  show ?thesis
    by (simp add: sample_begun_def command_begin_def a sample_segments d f sample_after_product p Let_def
        CreateDeviceCommand_def c mget_def dispatch_key_def)
qed

text \<open>A run in which the command is recorded and then published.\<close>

lemma command_published_once_witness:
  "\<exists>(s::command_run) x. cu_published s = [x] \<and> dispatch_key x = key [''t'', ''c''] \<and>
     mget (r_commands (cu_repo s)) (dispatch_key x) \<noteq> None"
proof -
  obtain x r where b: "command_begin sample_service ''t'' ''d'' sample_asked True sample_after = (Inr x, r)"
    and k: "dispatch_key x = key [''t'', ''c'']"
    using sample_begin unfolding sample_begun_def by blast
  let ?s = "new_run sample_after"
  have "command_step ?s (?s\<lparr>cu_repo := r, cu_begun := x # cu_begun ?s\<rparr>)"
    using b by (intro begin_new) (simp add: new_run_def)
  moreover have "command_step (?s\<lparr>cu_repo := r, cu_begun := [x]\<rparr>)
      \<lparr>cu_repo = r, cu_begun = [], cu_published = [x], cu_waiting = [x]\<rparr>"
    using publish [of x "?s\<lparr>cu_repo := r, cu_begun := [x]\<rparr>"] by (simp add: new_run_def)
  ultimately have "command_step\<^sup>*\<^sup>* ?s \<lparr>cu_repo = r, cu_begun = [], cu_published = [x], cu_waiting = [x]\<rparr>"
    by (simp add: new_run_def)
  from command_published_once [OF this, THEN conjunct2, THEN conjunct1]
  have "mget (r_commands r) (dispatch_key x) \<noteq> None" by (simp del: not_None_eq)
  then show ?thesis
    using k by (intro exI [of _ "\<lparr>cu_repo = r, cu_begun = [], cu_published = [x], cu_waiting = [x]\<rparr>"] exI [of _ x])
      (simp del: not_None_eq)
qed

end
