(* ===== verification/Onboard_Test.thy ===== *)
theory Onboard_Test
  imports Onboarding
begin

text \<open>
  The test of an access before a device is created (internal/onboarding/service.go Test and probe, with
  internal/connector): the plan is made, the target is read, bound or checked, the sample is parsed, and a
  success gets a token. Nothing is written: the repository is an argument only.
\<close>

section \<open>Connectors\<close>

record capabilities =
  ca_Preview :: bool
  ca_ReadOnce :: bool
  ca_Listener :: bool
  ca_DeviceCredential :: bool
  ca_Command :: bool

record description =
  ds_Type :: string
  ds_Supported :: bool
  ds_Capabilities :: capabilities

definition no_capabilities :: capabilities where
  "no_capabilities = \<lparr>ca_Preview = False, ca_ReadOnce = False, ca_Listener = False, ca_DeviceCredential = False, ca_Command = False\<rparr>"

definition connector_Types :: "description list" where
  "connector_Types = (let c = no_capabilities\<lparr>ca_Preview := True\<rparr> in
     [\<lparr>ds_Type = MQTT, ds_Supported = True, ds_Capabilities = c\<lparr>ca_DeviceCredential := True, ca_Command := True\<rparr>\<rparr>,
      \<lparr>ds_Type = HTTP, ds_Supported = True, ds_Capabilities = c\<lparr>ca_DeviceCredential := True\<rparr>\<rparr>,
      \<lparr>ds_Type = ModbusTCP, ds_Supported = True, ds_Capabilities = c\<lparr>ca_ReadOnce := True\<rparr>\<rparr>,
      \<lparr>ds_Type = ModbusRTUTCP, ds_Supported = True, ds_Capabilities = c\<lparr>ca_ReadOnce := True\<rparr>\<rparr>,
      \<lparr>ds_Type = TCP, ds_Supported = True, ds_Capabilities = c\<lparr>ca_Listener := True, ca_Command := True\<rparr>\<rparr>,
      \<lparr>ds_Type = UDP, ds_Supported = True, ds_Capabilities = c\<lparr>ca_Listener := True, ca_Command := True\<rparr>\<rparr>])"

definition Describe :: "string \<Rightarrow> description" where
  "Describe kind = (case find (\<lambda>d. ds_Type d = kind) connector_Types of
     Some d \<Rightarrow> d | None \<Rightarrow> \<lparr>ds_Type = kind, ds_Supported = False, ds_Capabilities = no_capabilities\<rparr>)"

record test_result =
  tr_Source :: string
  tr_TestToken :: string
  tr_ExceptionCode :: int
  tr_Success :: bool
  tr_Stage :: string
  tr_Message :: string
  tr_LatencyMs :: int
  tr_ErrorCode :: string
  tr_DeviceID :: string
  tr_RawRequest :: string
  tr_RawResponse :: string
  tr_Raw :: "raw_message list"
  tr_Parsed :: any
  tr_StandardMessages :: "standard_message list"
  tr_ProtocolID :: string
  tr_ProtocolVersion :: string
  tr_Parser :: string
  tr_PointTable :: any
  tr_Mapping :: any

definition zero_test_result :: test_result where
  "zero_test_result = \<lparr>tr_Source = [], tr_TestToken = [], tr_ExceptionCode = 0, tr_Success = False, tr_Stage = [],
     tr_Message = [], tr_LatencyMs = 0, tr_ErrorCode = [], tr_DeviceID = [], tr_RawRequest = [], tr_RawResponse = [],
     tr_Raw = [], tr_Parsed = ANil, tr_StandardMessages = [], tr_ProtocolID = [], tr_ProtocolVersion = [], tr_Parser = [],
     tr_PointTable = ANil, tr_Mapping = ANil\<rparr>"

text \<open>
  What else a test meets: whether its context has ended and all eight slots are taken; MQTTHealth and
  ListenerStatus, None where nil; the network of a read; the answers of dialling and of binding a socket; the
  decoding of the blocks of a release; and, of an error, its kind as package connector tells it with errors.Is
  and errors.As, whether it is a net.Error, and the code of a Modbus exception.
\<close>

datatype error_kind = AuthenticationError | TimeoutError | CanceledError | OtherError

record test_env =
  te_ctx :: "error option"
  te_full :: bool
  te_health :: "error option option"
  te_status :: "(string \<Rightarrow> string \<Rightarrow> string \<times> string \<times> int) option"
  te_network :: network
  te_cidrs :: "string list"
  te_dial :: "string \<Rightarrow> int \<Rightarrow> error option"
  te_bind :: "string \<Rightarrow> string \<Rightarrow> error option"
  te_blocks :: "any \<Rightarrow> modbus_read_block list"
  te_kind :: "error \<Rightarrow> error_kind"
  te_net :: "error \<Rightarrow> bool"
  te_exception :: "error \<Rightarrow> int option"
  te_elapsed :: int

definition ErrUnsupported :: error where
  "ErrUnsupported = ErrText ''connector capability is unsupported''"

definition ErrorCode :: "test_env \<Rightarrow> error \<Rightarrow> string \<Rightarrow> string" where
  "ErrorCode t e fallback = (case te_kind t e of
     AuthenticationError \<Rightarrow> ''AUTH_FAILED'' | TimeoutError \<Rightarrow> ''TIMEOUT'' | CanceledError \<Rightarrow> ''CANCELED'' | OtherError \<Rightarrow> fallback)"

section \<open>The probe\<close>

record probe_request =
  pe_Reuse :: bool
  pe_Type :: string
  pe_Profile :: access_profile
  pe_Release :: protocol_release
  pe_Raw :: raw_message

text \<open>The function finish: with an error the result of a failed stage.\<close>

definition failed_stage :: "test_env \<Rightarrow> test_result \<Rightarrow> error \<Rightarrow> string \<Rightarrow> test_result" where
  "failed_stage t r e code = r\<lparr>tr_LatencyMs := te_elapsed t, tr_ErrorCode := ErrorCode t e code, tr_Message := error_text e\<rparr>"

definition probe_read :: "onboard_env \<Rightarrow> test_env \<Rightarrow> probe_request \<Rightarrow> test_result \<Rightarrow> test_result + (raw_message list \<times> test_result)" where
  "probe_read v t q r0 =
     (let r = r0\<lparr>tr_Stage := ''read'', tr_Source := ''network-read''\<rparr>; blocks = te_blocks t (any_at (pl_Config (pe_Release q)) ''blocks'')
      in if blocks = [] then Inl (failed_stage t r (ErrText ''the protocol has no read plan'') ''PROTOCOL_ERROR'')
         else (case fst (ReadModbusTCPWithPolicy (te_network t) (pe_Profile q) (pe_Release q) blocks (te_cidrs t)) of
             Inl x \<Rightarrow>
               let e = (case x of RE_plain e \<Rightarrow> e | RE_read _ _ e \<Rightarrow> e);
                   r1 = (case x of RE_plain _ \<Rightarrow> r | RE_read request response _ \<Rightarrow>
                     r\<lparr>tr_RawRequest := hex_upper request, tr_RawResponse := hex_upper response\<rparr>);
                   code1 = (case x of RE_plain _ \<Rightarrow> ''NETWORK_ERROR''
                     | RE_read _ _ _ \<Rightarrow> if te_net t e then ''NETWORK_ERROR'' else ''PROTOCOL_ERROR'')
               in (case te_exception t e of
                     None \<Rightarrow> Inl (failed_stage t r1 e code1)
                   | Some c \<Rightarrow> Inl (failed_stage t (r1\<lparr>tr_ExceptionCode := c\<rparr>) e ''PROTOCOL_ERROR''))
           | Inr [] \<Rightarrow> Inl (failed_stage t r (ErrText ''the device answered nothing'') ''PROTOCOL_ERROR'')
           | Inr (raw # raws) \<Rightarrow> Inr (raw # raws,
               r\<lparr>tr_RawRequest := mt_sprint (v_matcher (oe_env v)) (any_at (rm_Metadata raw) ''requestHex''), tr_RawResponse := rm_Payload raw\<rparr>)))"

text \<open>The target of a dialled device is connected to once, the address of a listener bound once.\<close>

definition probe_socket :: "test_env \<Rightarrow> probe_request \<Rightarrow> error option" where
  "probe_socket t q =
     (let p = pe_Profile q
      in if ap_ConnectionMode p = ''dial'' then
           (case resolveAllowedTarget (te_network t) (ap_Host p) (te_cidrs t) of
              Inl e \<Rightarrow> Some e | Inr target \<Rightarrow> te_dial t (join_host_port target (ap_Port p)) (ap_TimeoutMs p))
         else if pe_Reuse q then
           (case te_status t of
              None \<Rightarrow> Some (ErrText ''the listener runtime is not started'')
            | Some f \<Rightarrow> (case f (ap_TenantID p) (ap_ID p) of
                (status, message, _) \<Rightarrow> if status \<noteq> ''LISTENING'' then Some (ErrText (''listener '' @ status @ '': '' @ message)) else None))
         else te_bind t (if pe_Type q = TCP then ''tcp'' else ''udp'') (join_host_port (ap_Host p) (ap_Port p)))"

definition probe_frame :: "onboard_env \<Rightarrow> test_env \<Rightarrow> probe_request \<Rightarrow> test_result \<Rightarrow> test_result + (raw_message list \<times> test_result)" where
  "probe_frame v t q r0 =
     (let r = r0\<lparr>tr_Stage := (if ap_ConnectionMode (pe_Profile q) = ''dial'' then ''tcp-connect'' else ''listener-check'')\<rparr>;
          stop = (\<lambda>x code. Inl (failed_stage t r x code))
      in case probe_socket t q of
           Some e \<Rightarrow> stop e ''NETWORK_ERROR''
         | None \<Rightarrow> (case unmarshal_text (rm_Payload (pe_Raw q)) of
             None \<Rightarrow> stop (ErrText ''the sample must be a HEX text'') ''PROTOCOL_ERROR''
           | Some frame \<Rightarrow> (case lv_call (oe_listen v) (pe_Release q) (zero_worker_request\<lparr>wq_Operation := ''ingress'', wq_Data := frame,
                 wq_Now := oe_now v, wq_Raw := Some (pe_Raw q)\<rparr>) of
               Inl e \<Rightarrow> stop e ''PROTOCOL_ERROR''
             | Inr x \<Rightarrow>
                 if wp_NeedMore x then stop (ErrText ''the sample is not a complete frame'') ''PROTOCOL_ERROR''
                 else if wp_DeviceID x \<noteq> rm_DeviceID (pe_Raw q)
                 then stop (ErrText (''the frame is of device '' @ wp_DeviceID x)) ''DEVICE_IDENTIFY_FAILED''
                 else (case hex_decode frame of
                     None \<Rightarrow> stop (ErrText ''encoding/hex: invalid byte'') ''PROTOCOL_ERROR''
                   | Some d \<Rightarrow> if wp_Consumed x \<noteq> int (length d)
                       then stop (ErrText ''the sample must be exactly one frame'') ''PROTOCOL_ERROR''
                       else Inr ([pe_Raw q], r\<lparr>tr_RawResponse := wp_Reply x\<rparr>)))))"

text \<open>The raw messages are parsed one after another; the result so far is kept when one fails.\<close>

fun probe_parse :: "onboard_env \<Rightarrow> protocol_release \<Rightarrow> raw_message list \<Rightarrow> test_result \<Rightarrow> error option \<times> test_result" where
  "probe_parse v rel [] r = (None, r)"
| "probe_parse v rel (raw # raws) r = (case ParseWithConfig (v_parsers (oe_env v)) (pl_ParserType rel) (pl_Config rel) raw of
     Inl e \<Rightarrow> (Some e, r)
   | Inr m \<Rightarrow> probe_parse v rel raws (r\<lparr>tr_StandardMessages := tr_StandardMessages r @ [m], tr_DeviceID := sm_DeviceID m\<rparr>))"

definition parsed_any :: "standard_message \<Rightarrow> any" where
  "parsed_any m = AObj [(''properties'', AObj (sm_Properties m)), (''event'', AObj (sm_Event m)),
     (''tags'', AObj (map (\<lambda>e. (fst e, AStr (snd e))) (sm_Tags m)))]"

definition mapping_any :: "standard_message \<Rightarrow> any" where
  "mapping_any m = AObj [(''messageType'', AStr (sm_MessageType m)), (''properties'', AObj (sm_Properties m)),
     (''event'', AObj (sm_Event m)), (''alarm'', ABool (sm_MessageType m = AlarmReport))]"

definition success_message :: "probe_request \<Rightarrow> string" where
  "success_message q =
     (if pe_Type q = MQTT then ''MQTT healthy, sample parsed''
      else if modbus_type (pe_Type q) then ''device read and parsed''
      else if pe_Type q \<in> {TCP, UDP} then
        (if ap_ConnectionMode (pe_Profile q) = ''dial'' then ''target connected, sample parsed'' else ''port can be bound, sample parsed'')
      else ''sample parsed'')"

definition probe :: "onboard_env \<Rightarrow> test_env \<Rightarrow> probe_request \<Rightarrow> test_result" where
  "probe v t q =
     (let rel = pe_Release q;
          r = zero_test_result\<lparr>tr_Source := ''sample'', tr_Stage := ''sample'', tr_ProtocolID := pl_ProtocolID rel,
            tr_ProtocolVersion := pl_Version rel, tr_Parser := pl_ParserType rel, tr_PointTable := any_at (pl_Config rel) ''points''\<rparr>
      in case (if modbus_type (pe_Type q) then probe_read v t q r
               else if pe_Type q \<in> {TCP, UDP} then probe_frame v t q r else Inr ([pe_Raw q], r)) of
           Inl r1 \<Rightarrow> r1
         | Inr (raws, r1) \<Rightarrow>
             (case probe_parse v rel raws (r1\<lparr>tr_Raw := raws, tr_Stage := ''parse''\<rparr>) of
                (Some e, r2) \<Rightarrow> failed_stage t r2 e ''PARSE_FAILED''
              | (None, r2) \<Rightarrow> r2\<lparr>tr_Parsed := AArr (map parsed_any (tr_StandardMessages r2)),
                  tr_Mapping := AArr (map mapping_any (tr_StandardMessages r2)), tr_Success := True, tr_Stage := ''preview'',
                  tr_Message := success_message q, tr_LatencyMs := te_elapsed t, tr_ErrorCode := ''SUCCESS''\<rparr>))"

section \<open>The test\<close>

text \<open>The deferred function: a missing result becomes one of a failed validation, missing fields those of the request.\<close>

definition complete_result :: "test_env \<Rightarrow> onboard_request \<Rightarrow> test_result option \<Rightarrow> error option \<Rightarrow> test_result" where
  "complete_result t q x err =
     (let r = (case (x, err) of
            (Some r, _) \<Rightarrow> r
          | (None, Some e) \<Rightarrow> zero_test_result\<lparr>tr_Stage := ''validate'', tr_Message := error_text e,
              tr_ErrorCode := ErrorCode t e ''PROTOCOL_ERROR''\<rparr>
          | (None, None) \<Rightarrow> zero_test_result\<lparr>tr_Stage := ''validate'', tr_Message := ''validation failed'', tr_ErrorCode := ''PROTOCOL_ERROR''\<rparr>);
          pick = (\<lambda>a b. if a = [] then b else a)
      in r\<lparr>tr_LatencyMs := te_elapsed t, tr_DeviceID := pick (tr_DeviceID r) (rq_DeviceID q),
           tr_ProtocolID := pick (tr_ProtocolID r) (rq_ProtocolID q),
           tr_ProtocolVersion := pick (tr_ProtocolVersion r) (rq_ProtocolVersion q)\<rparr>)"

definition test_raw :: "onboard_env \<Rightarrow> string \<Rightarrow> onboard_request \<Rightarrow> protocol_release \<Rightarrow> raw_message" where
  "test_raw v tenant q rel = Normalize (oe_env v) (zero_raw_message\<lparr>rm_TenantID := tenant, rm_ProductID := rq_ProductID q,
     rm_DeviceID := rq_DeviceID q, rm_Protocol := pl_ProtocolID rel, rm_Transport := rq_Type q, rm_ProtocolID := pl_ProtocolID rel,
     rm_ProtocolVersion := pl_Version rel, rm_PayloadFormat := pl_PayloadFormat rel, rm_Payload := rq_Payload q,
     rm_ReceivedAt := oe_now v\<rparr>)"

definition unhealthy :: "test_env \<Rightarrow> onboard_request \<Rightarrow> (string \<times> string) option" where
  "unhealthy t q =
     (if rq_Type q \<noteq> MQTT then None
      else case te_health t of
          None \<Rightarrow> Some (''NETWORK_ERROR'', ''the MQTT connection is not started'')
        | Some (Some e) \<Rightarrow> Some (ErrorCode t e ''NETWORK_ERROR'', error_text e)
        | Some None \<Rightarrow> None)"

definition test_token :: "onboard_env \<Rightarrow> string \<Rightarrow> onboard_request \<Rightarrow> protocol_release \<Rightarrow> access_profile option \<Rightarrow> string" where
  "test_token v tenant q rel profile =
     (let expiry = decimal ((oe_now v + 600000) div 1000) in expiry @ ''.'' @ proof_of v tenant q rel profile expiry)"

definition test_stages :: "onboard_env \<Rightarrow> test_env \<Rightarrow> string \<Rightarrow> onboard_request \<Rightarrow> repo \<Rightarrow> test_result option \<times> error option" where
  "test_stages v t tenant q r =
     (let stage = (\<lambda>s code message. zero_test_result\<lparr>tr_Stage := s, tr_ErrorCode := code, tr_Message := message\<rparr>)
      in if \<not> ds_Supported (Describe (rq_Type q)) then (Some (stage ''unsupported'' ''UNSUPPORTED'' ''not implemented''), Some ErrUnsupported)
         else case te_ctx t of
             Some e \<Rightarrow> (None, Some e)
           | None \<Rightarrow>
               if te_full t then (Some (stage ''busy'' ''BUSY'' ''too many tests''), None)
               else (case plan v tenant q r of
                   Inl e \<Rightarrow> (None, Some e)
                 | Inr (b, rel) \<Rightarrow>
                     let known = (\<lambda>x. x\<lparr>tr_ProtocolID := pl_ProtocolID rel, tr_ProtocolVersion := pl_Version rel,
                           tr_Parser := pl_ParserType rel\<rparr>)
                     in (case unhealthy t q of
                           Some (code, message) \<Rightarrow> (Some (known (stage ''broker'' code message)), None)
                         | None \<Rightarrow>
                             (case (if rq_Type q \<in> {MQTT, HTTP}
                                    then StandardRaw (oe_env v) (oe_json v) tenant (rq_ProductID q) (rq_DeviceID q) (rq_MessageKind q)
                                      (rq_Type q) (rq_Payload q)
                                    else (test_raw v tenant q rel, None)) of
                                (raw, Some e) \<Rightarrow> (Some ((known (stage ''parse'' ''PARSE_FAILED'' (error_text e)))\<lparr>tr_Raw := [raw]\<rparr>), None)
                              | (raw, None) \<Rightarrow>
                                  let x = probe v t \<lparr>pe_Reuse = ob_ReuseProfile b, pe_Type = rq_Type q,
                                      pe_Profile = (case ob_Profile b of None \<Rightarrow> zero_access_profile | Some p \<Rightarrow> p),
                                      pe_Release = rel, pe_Raw = raw\<rparr>
                                  in (Some (if tr_Success x then x\<lparr>tr_TestToken := test_token v tenant q rel (ob_Profile b)\<rparr> else x), None)))))"

definition Test :: "onboard_env \<Rightarrow> test_env \<Rightarrow> string \<Rightarrow> onboard_request \<Rightarrow> repo \<Rightarrow> test_result \<times> error option" where
  "Test v t tenant q r = (case test_stages v t tenant q r of (x, err) \<Rightarrow> (complete_result t q x err, err))"

end
