(* ===== verification/Onboard_Create.thy ===== *)
theory Onboard_Create
  imports Onboard_Test Onboard_Sample
begin

text \<open>
  What creating a device rests on: a test that has not expired, for the same configuration; that a
  created device is found again by the same request; and that nothing is stored otherwise.
\<close>

section \<open>Plans\<close>

lemma bind_res_value [simp]: "bind_res (Inr x) f = f x"
  by (simp add: bind_res_def)

lemma plan_shape:
  assumes "plan v tenant q r = Inr (b, rel)"
  shows "ob_Release b = Some rel" "md_ID (ob_Device b) = rq_DeviceID q" "md_TenantID (ob_Device b) = tenant"
    "mget_or [] (md_Tags (ob_Device b)) ''connector'' = rq_Type q" "segment tenant" "segment (rq_DeviceID q)"
    "md_GatewayID (ob_Device b) = []" "md_DeviceRole (ob_Device b) = ''DIRECT''"
    "mget_or [] (md_Tags (ob_Device b)) ''connectorProfileId'' = (case ob_Profile b of None \<Rightarrow> [] | Some p \<Rightarrow> ap_ID p)"
  using assms unfolding plan_def fail_def
  by (auto elim!: refusedE bind_resE choiceE simp: Let_def plan_device_def zero_managed_device_def mget_or_def mget_def mput_def
      simp del: One_nat_def split: prod.splits)

lemma split_char_one: "split_char c s = [a] \<Longrightarrow> s = a"
proof (induction s arbitrary: a)
  case (Cons x xs)
  then show ?case by (cases "split_char c xs") (auto split: if_splits)
qed simp

lemma split_char_two: "split_char c s = [a, b] \<Longrightarrow> s = a @ c # b"
proof (induction s arbitrary: a)
  case (Cons x xs)
  then show ?case by (cases "split_char c xs") (auto split: if_splits dest: split_char_one)
qed simp

lemma token_validD:
  assumes "token_valid v tenant q rel profile"
  shows "\<exists>expiry t. rq_TestToken q = expiry @ CHR ''.'' # proof_of v tenant q rel profile expiry \<and> atoi expiry = Some t \<and>
    oe_now v div 1000 \<le> t"
  using assms unfolding token_valid_def by (fastforce dest: split_char_two split: list.splits option.splits)

text \<open>SaveOnboarding of a planned bundle: stored, or refused with nothing changed.\<close>

lemma planned_save:
  assumes "ob_Release b = Some rel"
  shows "(\<exists>e. onboarding_error b r = Some e \<and> SaveOnboarding b r = (Some (ErrText e), r)) \<or>
    (onboarding_error b r = None \<and> fst (SaveOnboarding b r) = None)"
  using assms by (cases "onboarding_error b r") (auto simp: SaveOnboarding_def Let_def split: option.splits)

lemma Create_cases:
  assumes "Create v tenant q r = (x, r1)"
  obtains (kept) "r1 = r" "\<And>y. x = Inr y \<Longrightarrow> on_Reused y"
  | (stored) digest b rel c d where "request_digest v q = Inr digest" "GetManagedDevice tenant (rq_DeviceID q) r = Inl ErrNotFound"
      "plan v tenant q r = Inr (b, rel)" "token_valid v tenant q rel (ob_Profile b)"
      "sealed_device v tenant q digest (ob_Device b) = Inr (c, d)" "SaveOnboarding (b\<lparr>ob_Device := d\<rparr>) r = (None, r1)"
      "x = Inr \<lparr>on_Reused = False, on_Device = device_Public d zero_product, on_Credential = c,
         on_ClientID = (if dk_AccessKey c \<noteq> [] then ''device-'' @ dk_AccessKey c else []), on_Username = dk_AccessKey c,
         on_Connector = \<lparr>ci_Kind = rq_Type q, ci_DeviceID = rq_DeviceID q, ci_Profile = ob_Profile b\<rparr>\<rparr>"
proof -
  have rec: "on_Reused y" if "recover_device tenant q g s = Inr y" for g s y
    using that by (auto simp: recover_device_def Let_def fail_def elim!: bind_resE split: sum.splits if_splits)
  show thesis
  proof (cases "request_digest v q")
    case (Inl e)
    then show thesis by (intro kept) (use assms in \<open>auto simp: Create_def\<close>)
  next
    case d: (Inr digest)
    show thesis
    proof (cases "GetManagedDevice tenant (rq_DeviceID q) r")
      case (Inr dev)
      then show thesis by (intro kept) (use assms rec d in \<open>auto simp: Create_def\<close>)
    next
      case n: (Inl e)
      then have e: "GetManagedDevice tenant (rq_DeviceID q) r = Inl ErrNotFound"
        by (auto simp: GetManagedDevice_def found_def split: option.splits)
      show thesis
      proof (cases "plan v tenant q r")
        case (Inl e)
        then show thesis by (intro kept) (use assms d n in \<open>auto simp: Create_def\<close>)
      next
        case p: (Inr br)
        obtain b rel where br: "br = (b, rel)" by (cases br)
        note p = p [unfolded br]
        show thesis
        proof (cases "length (split_char (CHR ''.'') (rq_TestToken q)) = 2 \<and> token_valid v tenant q rel (ob_Profile b)")
          case False
          then show thesis by (intro kept) (use assms d n p in \<open>auto simp: Create_def fail_def split: if_splits\<close>)
        next
          case t: True
          show thesis
          proof (cases "sealed_device v tenant q digest (ob_Device b)")
            case (Inl e)
            then show thesis by (intro kept) (use assms d n p t in \<open>auto simp: Create_def\<close>)
          next
            case s: (Inr cd)
            obtain c dev where cd: "cd = (c, dev)" by (cases cd)
            have rel: "ob_Release (b\<lparr>ob_Device := dev\<rparr>) = Some rel" using plan_shape(1) [OF p] by simp
            from planned_save [OF rel, of r] show thesis
            proof
              assume "\<exists>e. onboarding_error (b\<lparr>ob_Device := dev\<rparr>) r = Some e \<and>
                SaveOnboarding (b\<lparr>ob_Device := dev\<rparr>) r = (Some (ErrText e), r)"
              then obtain e where "SaveOnboarding (b\<lparr>ob_Device := dev\<rparr>) r = (Some (ErrText e), r)" by blast
              then show thesis
                by (intro kept) (use assms d n p t s cd rec in \<open>auto simp: Create_def split: sum.splits\<close>)
            next
              assume "onboarding_error (b\<lparr>ob_Device := dev\<rparr>) r = None \<and> fst (SaveOnboarding (b\<lparr>ob_Device := dev\<rparr>) r) = None"
              then obtain r2 where "SaveOnboarding (b\<lparr>ob_Device := dev\<rparr>) r = (None, r2)" by (metis prod.collapse)
              then show thesis
                using assms stored [OF d e p] d n p t s cd by (auto simp: Create_def)
            qed
          qed
        qed
      qed
    qed
  qed
qed

section \<open>Stored devices and profiles\<close>

lemma saved_device:
  assumes "SaveOnboarding b r = (None, r1)"
  shows "GetManagedDevice (md_TenantID (ob_Device b)) (md_ID (ob_Device b)) r1 = Inr (ob_Device b)"
  using assms by (auto simp: SaveOnboarding_def GetManagedDevice_def Let_def split: option.splits prod.splits simp del: key_simps)

lemma saved_profile:
  assumes "SaveOnboarding b r = (None, r1)" "ob_Profile b = Some p"
  shows "mget (r_accessProfiles r1) (key [ap_TenantID p, ap_ID p]) \<noteq> None"
proof (cases "ob_ReuseProfile b")
  case True
  have "onboarding_error b r = None" using assms(1) by (auto simp: SaveOnboarding_def split: option.splits)
  then have "mget (r_accessProfiles r) (key [ap_TenantID p, ap_ID p]) \<noteq> None"
    using True assms(2) by (auto simp: onboarding_error_def Let_def simp del: key_simps split: if_splits option.splits)
  then show ?thesis
    using assms True by (auto simp: SaveOnboarding_def Let_def simp del: key_simps split: option.splits)
next
  case False
  then show ?thesis
    using assms by (auto simp: SaveOnboarding_def SaveDeviceAccessProfile_def Let_def simp del: key_simps split: option.splits)
qed

lemma sealed_deviceD:
  assumes "sealed_device v tenant q digest d0 = Inr (c, d)"
  shows "md_ID d = md_ID d0" "md_TenantID d = md_TenantID d0" "md_DeviceRole d = md_DeviceRole d0" "md_GatewayID d = md_GatewayID d0"
    "md_Tags d = mput (md_Tags d0) ''onboardingRequestHash'' digest"
    "if UsesPlatformCredentials d0 zero_product
     then dk_AccessKey c \<noteq> [] \<and> md_AccessKey d = dk_AccessKey c \<and> md_SecretHash d = Hash v (dk_Secret c)
     else c = zero_credential"
  using assms by (auto simp: sealed_device_def Credential_def elim!: bind_resE split: if_splits sum.splits)

lemma sealed_uses:
  "sealed_device v tenant q digest d0 = Inr (c, d) \<Longrightarrow> UsesPlatformCredentials d zero_product = UsesPlatformCredentials d0 zero_product"
  using sealed_deviceD(3-5) [of v tenant q digest d0 c d] by (simp add: UsesPlatformCredentials_def mget_or_def)

text \<open>
  C7. A device comes into being only through a test of what is stored. If creating a device changes the
  repository, then the request carried a token that has not expired and whose proof was made with the
  service's key for this tenant, request, release and transport; the plan was accepted; there was no such
  device; and what is stored has the hash of the returned secret, never the secret. In every other case, with
  or without an error, nothing has changed and no device is reported as new.
\<close>

theorem creation_needs_a_test:
  assumes "Create v tenant q r = (x, r1)"
  shows "(r1 = r \<and> (\<forall>y. x = Inr y \<longrightarrow> on_Reused y)) \<or>
    (\<exists>b rel expiry t d y. x = Inr y \<and> \<not> on_Reused y \<and> plan v tenant q r = Inr (b, rel) \<and>
       rq_TestToken q = expiry @ CHR ''.'' # proof_of v tenant q rel (ob_Profile b) expiry \<and> atoi expiry = Some t \<and>
       oe_now v div 1000 \<le> t \<and> GetManagedDevice tenant (rq_DeviceID q) r = Inl ErrNotFound \<and>
       GetManagedDevice tenant (rq_DeviceID q) r1 = Inr d \<and> on_Device y = device_Public d zero_product \<and>
       (UsesPlatformCredentials d zero_product \<longrightarrow> md_AccessKey d = dk_AccessKey (on_Credential y) \<and>
          md_SecretHash d = Hash v (dk_Secret (on_Credential y))))"
  using assms
proof (cases rule: Create_cases)
  case (stored digest b rel c d)
  note s = plan_shape [OF stored(3)] sealed_deviceD [OF stored(5)] sealed_uses [OF stored(5)]
  have "GetManagedDevice tenant (rq_DeviceID q) r1 = Inr d"
    using saved_device [OF stored(6)] s by simp
  moreover have "UsesPlatformCredentials d zero_product \<longrightarrow> md_AccessKey d = dk_AccessKey c \<and> md_SecretHash d = Hash v (dk_Secret c)"
    using s by (auto split: if_splits)
  ultimately show ?thesis
    using token_validD [OF stored(4)] stored(2, 3, 7) by (intro disjI2) fastforce
qed blast

section \<open>Repeated requests\<close>

text \<open>An enabled profile is filed under its own tenant and identifier.\<close>

definition profiles_filed :: "repo \<Rightarrow> bool" where
  "profiles_filed r \<longleftrightarrow> (\<forall>k p. mget (r_accessProfiles r) k = Some p \<longrightarrow> ap_Enabled p \<longrightarrow>
     k = key [ap_TenantID p, ap_ID p] \<and> nul_free (ap_TenantID p))"

lemma segment_nul_free: "segment s \<Longrightarrow> nul_free s"
  by (cases s) (auto simp: segment_def nul_free_def nul_def segment_start_def Let_def list_all_iff)

lemma planned_profile_tenant:
  assumes "plan v tenant q r = Inr (b, rel)" "ob_Profile b = Some p" "profiles_filed r"
  shows "ap_TenantID p = tenant"
proof -
  have t: "nul_free tenant" using plan_shape(5) [OF assms(1)] by (rule segment_nul_free)
  have "\<exists>p0. plan_profile v tenant q rel r = Inr p0 \<and> plan_reuse tenant q rel p0 r = Inr (p, ob_ReuseProfile b)"
    using assms(1, 2) unfolding plan_def fail_def
    by (auto elim!: refusedE bind_resE choiceE simp: Let_def split: prod.splits)
  then obtain p0 where p: "plan_profile v tenant q rel r = Inr p0" "plan_reuse tenant q rel p0 r = Inr (p, ob_ReuseProfile b)" by blast
  have "ap_TenantID p0 = tenant"
    using p(1) unfolding plan_profile_def fail_def
    by (auto elim!: refusedE bind_resE choiceE simp: Let_def split: sum.splits option.splits if_splits)
  show ?thesis
  proof (cases "p = p0")
    case True
    then show ?thesis using \<open>ap_TenantID p0 = tenant\<close> by simp
  next
    case False
    then obtain old where o: "GetDeviceAccessProfile tenant (rq_ExistingProfileID q) r = Inr old" "ap_Enabled old"
      "p = old\<lparr>ap_ProtocolID := pl_ProtocolID rel, ap_ProtocolVersion := pl_Version rel\<rparr>"
      using p(2) by (auto simp: plan_reuse_def fail_def split: if_splits sum.splits)
    then obtain s where s: "mget (r_accessProfiles r) (key [tenant, rq_ExistingProfileID q]) = Some s" "old = clone_profile s"
      by (auto simp: GetDeviceAccessProfile_def simp del: key_simps split: option.splits)
    have e: "ap_Enabled s" "ap_TenantID old = ap_TenantID s"
      using o(2) s(2) by (auto simp: clone_profile_def zero_access_profile_def split: if_splits)
    have "key [tenant, rq_ExistingProfileID q] = key [ap_TenantID s, ap_ID s]" "nul_free (ap_TenantID s)"
      using assms(3) s(1) e(1) unfolding profiles_filed_def by blast+
    then have "ap_TenantID s = tenant" using key2_inject [OF t] by blast
    then show ?thesis using o(3) e(2) by simp
  qed
qed

lemma profiles_filed_mput:
  assumes "profiles_filed r" "ap_Enabled v \<Longrightarrow> k = key [ap_TenantID v, ap_ID v] \<and> nul_free (ap_TenantID v)"
    "r_accessProfiles r2 = mput (r_accessProfiles r) k v"
  shows "profiles_filed r2"
  using assms unfolding profiles_filed_def by (auto simp del: key_simps)

lemma clone_profile_filed: "ap_Enabled (clone_profile v) \<Longrightarrow> ap_TenantID (clone_profile v) = ap_TenantID v \<and> ap_ID (clone_profile v) = ap_ID v"
  by (auto simp: clone_profile_def zero_access_profile_def split: if_splits)

lemma profiles_filed_same: "profiles_filed r \<Longrightarrow> r_accessProfiles r2 = r_accessProfiles r \<Longrightarrow> profiles_filed r2"
  by (simp add: profiles_filed_def)

lemma profiles_filed_clone:
  assumes "profiles_filed r" "nul_free (ap_TenantID v)"
    "r_accessProfiles r2 = mput (r_accessProfiles r) (key [ap_TenantID v, ap_ID v]) (clone_profile v)"
  shows "profiles_filed r2"
  using assms(2) clone_profile_filed [of v] by (intro profiles_filed_mput [OF assms(1) _ assms(3)]) simp

lemma UpdateDeviceAccessStatus_filed:
  assumes "profiles_filed r"
  shows "profiles_filed (snd (UpdateDeviceAccessStatus e status message at r))"
proof (cases "mget (r_accessProfiles r) (key [ap_TenantID e, ap_ID e])")
  case None
  then show ?thesis using assms by (simp add: UpdateDeviceAccessStatus_def del: key_simps)
next
  case (Some p)
  then have f: "ap_Enabled p \<Longrightarrow> key [ap_TenantID e, ap_ID e] = key [ap_TenantID p, ap_ID p] \<and> nul_free (ap_TenantID p)"
    using assms unfolding profiles_filed_def by blast
  have c: "\<exists>c. r_accessProfiles (snd (UpdateDeviceAccessStatus e status message at r)) =
        mput (r_accessProfiles r) (key [ap_TenantID e, ap_ID e]) c \<and>
      ap_Enabled c = ap_Enabled p \<and> ap_TenantID c = ap_TenantID p \<and> ap_ID c = ap_ID p"
    if "Configuration p = Configuration e"
    using that Some by (simp add: UpdateDeviceAccessStatus_def Let_def del: key_simps)
      (intro conjI impI; rule exI; rule conjI; (rule refl)?; simp)
  show ?thesis
  proof (cases "Configuration p = Configuration e")
    case True
    then show ?thesis using profiles_filed_mput [OF assms] f c by metis
  next
    case False
    then show ?thesis using assms Some by (simp add: UpdateDeviceAccessStatus_def del: key_simps)
  qed
qed

lemma SaveOnboarding_filed:
  assumes "profiles_filed r" "\<And>v. ob_Profile b = Some v \<Longrightarrow> nul_free (ap_TenantID v)"
  shows "profiles_filed (snd (SaveOnboarding b r))"
  using SaveOnboarding_profiles [of b r] assms profiles_filed_clone profiles_filed_same by metis

lemma exec_inventory_profiles:
  assumes "\<And>a. c \<noteq> C_SaveDeviceAccessProfile a" "\<And>e s m t. c \<noteq> C_UpdateDeviceAccessStatus e s m t"
  shows "r_accessProfiles (exec_inventory c r) = r_accessProfiles r"
  using assms by (cases c; simp add: inventory_defs kept_def Let_def split: option.split sum.split)

lemma exec_inventory_filed:
  assumes "profiles_filed r" "call_ok (Inventory c)"
  shows "profiles_filed (exec_inventory c r)"
proof (cases c)
  case (C_SaveDeviceAccessProfile a)
  then show ?thesis
    using assms(2) by (intro profiles_filed_clone [OF assms(1), of a]) (simp_all add: SaveDeviceAccessProfile_def call_ok_def)
next
  case (C_UpdateDeviceAccessStatus a1 a2 a3 a4)
  then show ?thesis using UpdateDeviceAccessStatus_filed [OF assms(1)] by simp
qed (rule profiles_filed_same [OF assms(1)], rule exec_inventory_profiles; simp)+

lemma exec_device_filed:
  assumes "profiles_filed r" "call_ok (Devices c)"
  shows "profiles_filed (exec_device sha c r)"
proof (cases c)
  case (C_SaveOnboarding b)
  have "nul_free (ap_TenantID v)" if "ob_Profile b = Some v" for v
    using assms(2) that C_SaveOnboarding by (simp add: call_ok_def)
  then show ?thesis using SaveOnboarding_filed [OF assms(1), of b] C_SaveOnboarding by simp
qed (rule profiles_filed_same [OF assms(1)], simp add: device_defs kept_def Let_def split: option.split sum.split)+

lemma reachable_profiles_filed: "reachable sha cp r \<Longrightarrow> profiles_filed r"
proof (induction rule: reachable.induct)
  case start
  then show ?case by (simp add: profiles_filed_def NewRepository_def)
next
  case (call r c)
  then show ?case
    using exec_inventory_filed [of r] exec_device_filed [of r] profiles_filed_same [of r] by (cases c) simp_all
qed

text \<open>After a creation its profile, if it has one, is found.\<close>

lemma created_profile:
  assumes "reachable sha cp r" "plan v tenant q r = Inr (b, rel)" "SaveOnboarding (b\<lparr>ob_Device := d\<rparr>) r = (None, r1)"
  shows "\<exists>profile. (if (case ob_Profile b of None \<Rightarrow> [] | Some p \<Rightarrow> ap_ID p) = [] then Inr None
    else bind_res (GetDeviceAccessProfile tenant (case ob_Profile b of None \<Rightarrow> [] | Some p \<Rightarrow> ap_ID p) r1) (\<lambda>p. Inr (Some p))) = Inr profile"
proof (cases "ob_Profile b")
  case (Some p)
  have "ap_TenantID p = tenant" by (rule planned_profile_tenant [OF assms(2) Some reachable_profiles_filed [OF assms(1)]])
  moreover have "mget (r_accessProfiles r1) (key [ap_TenantID p, ap_ID p]) \<noteq> None"
    using saved_profile [OF assms(3)] Some by simp
  ultimately show ?thesis using Some by (auto simp: GetDeviceAccessProfile_def simp del: key_simps)
qed simp

text \<open>
  C20. A request can be repeated: once it has created a device, the same request, with whatever token, is
  answered with that device, its user name and no secret, and changes nothing; another request for the same
  identifier is refused.
\<close>

theorem repeated_creation_is_recovered:
  assumes "reachable sha cp r" "Create v tenant q r = (Inr x, r1)" "\<not> on_Reused x" "request_digest v q = Inr digest"
    and "rq_DeviceID q' = rq_DeviceID q" "request_digest v' q' = Inr digest'"
  shows "if digest' = digest
    then (\<exists>y. Create v' tenant q' r1 = (Inr y, r1) \<and> on_Reused y \<and> on_Device y = on_Device x \<and>
      on_ClientID y = on_ClientID x \<and> on_Username y = on_Username x \<and> on_Credential y = zero_credential)
    else (\<exists>e. Create v' tenant q' r1 = (Inl e, r1))"
  using assms(2)
proof (cases rule: Create_cases)
  case kept
  then show ?thesis using assms(3) by blast
next
  case (stored digest0 b rel c d)
  have digest: "digest0 = digest" using stored(1) assms(4) by simp
  note s = plan_shape [OF stored(3)] sealed_deviceD [OF stored(5)] sealed_uses [OF stored(5)]
  have g: "GetManagedDevice tenant (rq_DeviceID q') r1 = Inr d"
    using saved_device [OF stored(6)] s assms(5) by simp
  have tags: "mget_or [] (md_Tags d) ''onboardingRequestHash'' = digest"
    "mget_or [] (md_Tags d) ''connectorProfileId'' = (case ob_Profile b of None \<Rightarrow> [] | Some p \<Rightarrow> ap_ID p)"
    using s digest by (simp_all add: mget_or_def)
  have c: "(if UsesPlatformCredentials d zero_product then dk_AccessKey c \<noteq> [] \<and> md_AccessKey d = dk_AccessKey c else c = zero_credential)"
    using s by (simp split: if_splits)
  show ?thesis
  proof (cases "digest' = digest")
    case False
    then have "Create v' tenant q' r1 = (fail ''the device exists with another request'', r1)"
      using assms(6) g tags by (simp add: Create_def recover_device_def)
    then show ?thesis using False by (simp add: fail_def)
  next
    case True
    obtain profile where "(if mget_or [] (md_Tags d) ''connectorProfileId'' = [] then Inr None
        else bind_res (GetDeviceAccessProfile tenant (mget_or [] (md_Tags d) ''connectorProfileId'') r1) (\<lambda>p. Inr (Some p))) = Inr profile"
      using created_profile [OF assms(1) stored(3, 6)] tags(2) by metis
    then show ?thesis
      using True assms(6) g tags(1) stored(7) c
      by (auto simp: Create_def recover_device_def Let_def zero_credential_def split: if_splits)
  qed
qed

section \<open>Credentials\<close>

lemma access_key_finds:
  assumes "devices_inv (r_devices r)" "mget (r_devices r) k = Some d"
  shows "GetManagedDeviceByAccessKey (md_AccessKey d) r = Inr d"
proof -
  have "find (\<lambda>e. md_AccessKey (snd e) = md_AccessKey d) (r_devices r) = Some (k, d)"
    using assms by (intro device_store.find_unique) (simp_all add: devices_inv_def same_access_key_def)
  then show ?thesis by (simp add: GetManagedDeviceByAccessKey_def find_mvals)
qed

lemma access_key_missing:
  assumes "devices_inv (r_devices r)" "\<And>k d. mget (r_devices r) k = Some d \<Longrightarrow> md_AccessKey d \<noteq> a"
  shows "GetManagedDeviceByAccessKey a r = Inl ErrNotFound"
proof -
  have "find (\<lambda>d. md_AccessKey d = a) (mvals (r_devices r)) = None"
    using assms(2) mvals_set [OF devices_invD(1) [OF assms(1)]] by (auto simp: find_None_iff)
  then show ?thesis by (simp add: GetManagedDeviceByAccessKey_def)
qed

lemma revoke_frame: "r_devices (snd (revoke v x r)) = r_devices r" "r_products (snd (revoke v x r)) = r_products r"
  by (auto simp: revoke_def UpdateCredentialRevocation_def Let_def split: sum.split option.split)

text \<open>What a change of the credential stores.\<close>

lemma ChangeCredential_stores:
  assumes inv: "devices_inv (r_devices r)" and "GetManagedDevice t i r = Inr d" "ChangeCredential v t i rotating r = (Inr (c, x), r1)"
  obtains p d1 where "GetProduct t (md_ProductID d) r = Inr p" "UsesPlatformCredentials d1 p" "r_products r1 = r_products r"
    "r_devices r1 = mput (r_devices r) (key [t, i]) d1" "devices_inv (r_devices r1)" "md_Status d1 = md_Status d"
    "md_TenantID d1 = md_TenantID d" "md_ProductID d1 = md_ProductID d"
    "md_SecretHash d1 = (if rotating then Hash v (dk_Secret c) else [])"
    "md_AccessKey d1 = (if rotating then dk_AccessKey c else md_AccessKey d)"
    "\<And>k e. rotating \<Longrightarrow> mget (r_devices r) k = Some e \<Longrightarrow> md_AccessKey e \<noteq> dk_AccessKey c"
proof -
  let ?hash = "if rotating then Hash v (dk_Secret c) else []"
  define d1 where "d1 = (if rotating then d\<lparr>md_AccessKey := dk_AccessKey c\<rparr> else d)
    \<lparr>md_SecretHash := ?hash, md_SecretHint := [], md_UpdatedAt := oe_now v\<rparr>"
  have d: "mget (r_devices r) (key [t, i]) = Some d"
    using assms(2) by (auto simp: GetManagedDevice_def simp del: key_simps split: option.splits)
  obtain p d2 w r2 where p: "GetProduct t (md_ProductID d) r = Inr p" "UsesPlatformCredentials d p"
    and c: "(if rotating then Credential v else Inr zero_credential) = Inr c"
    and ch: "ChangeDeviceCredential t i (dk_AccessKey c) ?hash (oe_now v) r = (Inr (d2, w), r2)" and r1: "r1 = snd (revoke v w r2)"
    using assms(2, 3) by (auto simp: ChangeCredential_def split: sum.splits if_splits prod.splits)
  have cred: "dk_AccessKey c \<noteq> [] \<longleftrightarrow> rotating"
    using c by (auto simp: Credential_def zero_credential_def split: if_splits sum.splits)
  have stored: "r_devices r1 = mput (r_devices r) (key [t, i]) d1" "r_products r1 = r_products r"
    and free: "rotating \<Longrightarrow> \<not> list_ex (\<lambda>e. md_AccessKey e = dk_AccessKey c) (mvals (r_devices r))"
    using ch d cred by (auto simp: r1 revoke_frame ChangeDeviceCredential_def Let_def d1_def simp del: key_simps split: if_splits)
  show ?thesis
  proof (rule that [OF p(1) _ stored(2, 1)])
    show "devices_inv (r_devices r1)"
      using ChangeDeviceCredential_inv [OF inv, of t i "dk_AccessKey c" ?hash "oe_now v"] ch by (simp add: r1 revoke_frame)
    show "md_AccessKey e \<noteq> dk_AccessKey c" if "rotating" "mget (r_devices r) k = Some e" for k e
      using free that some_access_key_iff [OF inv] by blast
  qed (use p(2) in \<open>simp_all add: d1_def UsesPlatformCredentials_def\<close>)
qed

text \<open>A device that gets another access key is not found by the former one.\<close>

lemma former_key_missing:
  assumes "devices_inv (r_devices r)" "mget (r_devices r) k = Some d" "r_devices r1 = mput (r_devices r) k d1"
    and "devices_inv (r_devices r1)" "md_AccessKey d1 \<noteq> md_AccessKey d"
  shows "GetManagedDeviceByAccessKey (md_AccessKey d) r1 = Inl ErrNotFound"
proof (rule access_key_missing [OF assms(4)])
  fix k2 e
  assume e: "mget (r_devices r1) k2 = Some e"
  then show "md_AccessKey e \<noteq> md_AccessKey d"
    using assms(3, 5) devices_invD(4) [OF assms(1) _ assms(2), of k2 e] by (cases "k2 = k") auto
qed

text \<open>
  C19. A credential is replaced at once: after a rotation the old access key authenticates nobody, and the
  new one exactly with a secret of the hash of the secret returned, while the device is enabled; after a
  withdrawal no secret authenticates, as long as hashes are not empty.
\<close>

theorem credential_change_replaces:
  assumes "reachable sha cp r" "nul_free t" "GetManagedDevice t i r = Inr d" "ChangeCredential v t i rotating r = (Inr (c, x), r1)"
    and "Hash v' secret \<noteq> []"
  shows "Authenticate v' (md_AccessKey d) secret r1 = Inl ErrAuth \<and>
    (rotating \<longrightarrow> ((\<exists>d'. Authenticate v' (dk_AccessKey c) secret r1 = Inr d') \<longleftrightarrow>
       secret \<noteq> [] \<and> md_Status d = ''ENABLED'' \<and> Hash v' secret = Hash v (dk_Secret c)))"
proof -
  have inv: "devices_inv (r_devices r)" using reachable_inv [OF assms(1)] by (simp add: repo_inv_def)
  have d: "mget (r_devices r) (key [t, i]) = Some d"
    using assms(3) by (auto simp: GetManagedDevice_def simp del: key_simps split: option.splits)
  obtain p d1 where p: "GetProduct t (md_ProductID d) r = Inr p" "UsesPlatformCredentials d1 p" "r_products r1 = r_products r"
    and dev: "r_devices r1 = mput (r_devices r) (key [t, i]) d1" and inv1: "devices_inv (r_devices r1)"
    and same: "md_Status d1 = md_Status d" "md_TenantID d1 = md_TenantID d" "md_ProductID d1 = md_ProductID d"
      "md_SecretHash d1 = (if rotating then Hash v (dk_Secret c) else [])"
      "md_AccessKey d1 = (if rotating then dk_AccessKey c else md_AccessKey d)"
    and new: "\<And>k e. rotating \<Longrightarrow> mget (r_devices r) k = Some e \<Longrightarrow> md_AccessKey e \<noteq> dk_AccessKey c"
    by (rule ChangeCredential_stores [OF inv assms(3, 4)]) blast
  have "md_TenantID d = t" using devices_invD(2, 3) [OF inv d] key2_inject [OF assms(2)] by metis
  then have gp: "GetProduct (md_TenantID d1) (md_ProductID d1) r1 = Inr p" using p same by (simp add: GetProduct_def)
  have found: "GetManagedDeviceByAccessKey (md_AccessKey d1) r1 = Inr d1"
    by (rule access_key_finds [OF inv1, of "key [t, i]"]) (simp add: dev del: key_simps)
  show ?thesis
  proof (cases rotating)
    case True
    then have "GetManagedDeviceByAccessKey (md_AccessKey d) r1 = Inl ErrNotFound"
      using former_key_missing [OF inv d dev inv1] new [OF True d] same(5) by simp
    then show ?thesis using True same gp found p(2) by (auto simp: Authenticate_def)
  next
    case False
    then show ?thesis using same assms(5) found by (simp add: Authenticate_def)
  qed
qed

lemma sample_digest: "request_digest sample_service sample_request = Inr ''hn''"
  by (simp add: request_digest_def sample_request_def)

lemma creation_needs_a_test_witness:
  "\<exists>b rel expiry d. plan sample_service ''t'' sample_request NewRepository = Inr (b, rel) \<and>
     rq_TestToken sample_request = expiry @ CHR ''.'' # ''mac'' \<and> GetManagedDevice ''t'' (rq_DeviceID sample_request) sample_after = Inr d"
  using creation_needs_a_test [OF sample_created] by (auto simp: proof_of_def)

lemma repeated_creation_is_recovered_witness:
  "\<exists>y. Create sample_service ''t'' sample_request sample_after = (Inr y, sample_after) \<and> on_Reused y \<and>
     on_Username y = dk_AccessKey sample_credential \<and> on_Credential y = zero_credential"
  using repeated_creation_is_recovered [OF reachable.start [of id Some] sample_created _ sample_digest _ sample_digest] by auto

lemma credential_change_replaces_witness:
  "\<exists>c x r1. ChangeCredential sample_service ''t'' ''d'' False sample_after = (Inr (c, x), r1) \<and>
     Authenticate sample_service (dk_AccessKey sample_credential) (dk_Secret sample_credential) r1 = Inl ErrAuth"
proof -
  have d: "GetManagedDevice ''t'' ''d'' sample_after = Inr sample_onboarded"
    by (simp add: GetManagedDevice_def sample_after_devices mget_def)
  obtain p where p: "GetProduct ''t'' ''p'' sample_after = Inr p"
    using sample_after_product by blast
  have f: "md_ProductID sample_onboarded = ''p''" "md_AccessKey sample_onboarded = dk_AccessKey sample_credential"
    by (simp_all add: sample_onboarded_def plan_device_def sample_request_def)
  have u: "UsesPlatformCredentials sample_onboarded p"
    by (simp add: sample_onboarded_def plan_device_def sample_request_def UsesPlatformCredentials_def zero_managed_device_def
        mget_or_def mget_def MQTT_def to_upper_def upper_char_def)
  have "\<exists>c x r1. ChangeCredential sample_service ''t'' ''d'' False sample_after = (Inr (c, x), r1)"
    using d p f u
    by (auto simp: ChangeCredential_def ChangeDeviceCredential_def sample_after_devices mget_def zero_credential_def Let_def
        split: prod.split)
  then obtain c x r1 where ch: "ChangeCredential sample_service ''t'' ''d'' False sample_after = (Inr (c, x), r1)" by blast
  have t: "nul_free ''t''" by (simp add: nul_free_def nul_def)
  have "Hash sample_service (dk_Secret sample_credential) \<noteq> []" by simp
  from credential_change_replaces [OF sample_after_devices(2) t d ch this] show ?thesis using ch f by auto
qed

end
