(* ===== verification/Onboard_Tested.thy ===== *)
theory Onboard_Tested
  imports Onboard_Create Collect_Props
begin

text \<open>
  What a test is worth: the token of a test that succeeded is accepted for ten minutes, because what the plan
  of a device seals does not depend on when the plan is made.
\<close>

section \<open>The plan at another time\<close>

text \<open>The service at another time, with other random bytes.\<close>

definition at_time :: "int \<times> octet list res \<Rightarrow> onboard_env \<Rightarrow> onboard_env" where
  "at_time n v = v\<lparr>oe_listen := (oe_listen v)\<lparr>lv_env := (oe_env v)\<lparr>v_now := fst n\<rparr>\<rparr>, oe_rand := snd n\<rparr>"

lemma at_time_fields [simp]:
  "oe_now (at_time n v) = fst n" "Hash (at_time n v) = Hash v" "oe_seal (at_time n v) = oe_seal v"
  "oe_parse_float (at_time n v) = oe_parse_float v" "oe_csv (at_time n v) = oe_csv v" "oe_ip (at_time n v) = oe_ip v"
  "oe_points_any (at_time n v) = oe_points_any v" "oe_blocks_any (at_time n v) = oe_blocks_any v"
  "lv_marshal (oe_listen (at_time n v)) = lv_marshal (oe_listen v)" "lv_json (oe_listen (at_time n v)) = lv_json (oe_listen v)"
  "oe_request_json (at_time n v) = oe_request_json v"
  by (simp_all add: at_time_def)

abbreviation with_token :: "string \<Rightarrow> onboard_request \<Rightarrow> onboard_request" where
  "with_token x q \<equiv> q\<lparr>rq_TestToken := x\<rparr>"

text \<open>Releases that differ in their times only.\<close>

definition same_release :: "protocol_release \<Rightarrow> protocol_release \<Rightarrow> bool" where
  "same_release rel rel' \<longleftrightarrow> rel'\<lparr>pl_CreatedAt := 0, pl_PublishedAt := 0\<rparr> = rel\<lparr>pl_CreatedAt := 0, pl_PublishedAt := 0\<rparr>"

lemma same_release_fields:
  assumes "same_release rel rel'"
  shows "pl_ProtocolID rel' = pl_ProtocolID rel" "pl_Version rel' = pl_Version rel" "pl_PointTableVersion rel' = pl_PointTableVersion rel"
    "pl_Transport rel' = pl_Transport rel" "pl_ParserType rel' = pl_ParserType rel" "pl_Artifact rel' = pl_Artifact rel"
    "pl_Capabilities rel' = pl_Capabilities rel"
  using assms unfolding same_release_def by (cases rel, cases rel', simp)+

lemma same_release_refl [simp]: "same_release rel rel"
  by (simp add: same_release_def)

lemma plan_product_later:
  assumes "plan_product v t q r = Inr p"
  shows "\<exists>p'. plan_product (at_time n v) t (with_token x q) r = Inr p' \<and> (p' = None \<longleftrightarrow> p = None)"
  using assms by (auto simp: plan_product_def fail_def split: if_splits sum.splits)

lemma plan_points_later:
  assumes "plan_points v t q = Inr (rel, table)"
  shows "\<exists>rel' table'. plan_points (at_time n v) t (with_token x q) = Inr (rel', table') \<and> same_release rel rel'"
  using assms by (auto simp: plan_points_def Let_def fail_def same_release_def bind_res_def split: if_splits sum.splits)

lemma plan_release_later:
  assumes "plan_release v t q r = Inr (rel, table)"
  shows "\<exists>rel' table'. plan_release (at_time n v) t (with_token x q) r = Inr (rel', table') \<and> same_release rel rel'"
proof (cases "GetProductProtocolBinding t (rq_ProductID q) r")
  case (Inl e)
  then show ?thesis
    using assms plan_points_later [of v t q rel table n x]
    by (auto simp: plan_release_def Let_def fail_def split: if_splits sum.splits)
next
  case (Inr b)
  then show ?thesis
    using assms plan_points_later [of v t q rel table n x]
    by (auto simp: plan_release_def Let_def fail_def split: if_splits sum.splits)
qed

lemma check_queries_later: "check_queries (oe_listen (at_time n v)) seen qs = check_queries (oe_listen v) seen qs"
  by (induction qs arbitrary: seen) (simp_all add: at_time_def split: option.split)

lemma access_later:
  assumes "ap_ConnectionMode p' = ap_ConnectionMode p" "ap_Mode p' = ap_Mode p" "ap_Network p' = ap_Network p"
    "ap_DeviceID p' = ap_DeviceID p" "ap_Host p' = ap_Host p" "ap_WireFormat p' = ap_WireFormat p" "ap_Queries p' = ap_Queries p"
    "ap_ChildProducts p' = ap_ChildProducts p" "ap_ProductID p' = ap_ProductID p"
  shows "ValidateProtocolAccess (oe_listen (at_time n v)) p' = ValidateProtocolAccess (oe_listen v) p"
  unfolding ValidateProtocolAccess_def check_queries_later assms ..

lemma children_later:
  assumes "same_release rel rel'" "ap_TenantID p' = ap_TenantID p" "ap_Queries p' = ap_Queries p" "ap_ChildProducts p' = ap_ChildProducts p"
  shows "ValidateChildProducts p' rel' r = ValidateChildProducts p rel r"
  unfolding ValidateChildProducts_def HasCapability_def same_release_fields [OF assms(1)] assms(2-) ..

text \<open>Profiles that differ in their times only.\<close>

definition same_profile :: "access_profile \<Rightarrow> access_profile \<Rightarrow> bool" where
  "same_profile p p' \<longleftrightarrow> p'\<lparr>ap_CreatedAt := 0, ap_UpdatedAt := 0\<rparr> = p\<lparr>ap_CreatedAt := 0, ap_UpdatedAt := 0\<rparr>"

lemma same_profile_fields:
  assumes "same_profile p p'"
  shows "ap_ID p' = ap_ID p" "ap_TenantID p' = ap_TenantID p" "ap_ProductID p' = ap_ProductID p" "ap_DeviceID p' = ap_DeviceID p"
    "ap_Host p' = ap_Host p" "ap_Port p' = ap_Port p" "ap_Network p' = ap_Network p" "ap_TimeoutMs p' = ap_TimeoutMs p"
    "ap_UnitID p' = ap_UnitID p" "ap_AutoRegister p' = ap_AutoRegister p" "ap_CollectorID p' = ap_CollectorID p"
    "ap_ConnectionMode p' = ap_ConnectionMode p" "ap_Mode p' = ap_Mode p" "ap_WireFormat p' = ap_WireFormat p"
    "ap_Queries p' = ap_Queries p" "ap_ChildProducts p' = ap_ChildProducts p" "ap_Retries p' = ap_Retries p"
  using assms unfolding same_profile_def by (cases p, cases p', simp)+

lemma same_profile_refl [simp]: "same_profile p p"
  by (simp add: same_profile_def)

text \<open>The profile of a plan in its two parts: its fields, and what its way of access makes of them.\<close>

definition profile_base :: "onboard_env \<Rightarrow> string \<Rightarrow> onboard_request \<Rightarrow> protocol_release \<Rightarrow> access_profile" where
  "profile_base v tenant q rel = (let p0 = rq_Profile q
     in p0\<lparr>ap_TenantID := tenant, ap_ProductID := rq_ProductID q, ap_DeviceID := rq_DeviceID q,
       ap_ID := ''onboard-'' @ take 24 (Hash v (tenant @ ''/'' @ rq_DeviceID q)), ap_ProtocolID := pl_ProtocolID rel,
       ap_ProtocolVersion := pl_Version rel, ap_PointTableVersion := pl_PointTableVersion rel, ap_Enabled := True,
       ap_CreatedAt := oe_now v, ap_UpdatedAt := oe_now v, ap_RuntimeStatus := ''PENDING'', ap_LastError := [],
       ap_LastSuccessAt := 0, ap_LastErrorAt := 0, ap_TimeoutMs := (if ap_TimeoutMs p0 = 0 then 3000 else ap_TimeoutMs p0)\<rparr>)"

definition profile_mode :: "onboard_env \<Rightarrow> onboard_request \<Rightarrow> protocol_release \<Rightarrow> access_profile \<Rightarrow> access_profile res" where
  "profile_mode v q rel p =
     (if modbus_type (rq_Type q) then
        (let rtu = (rq_Type q = ModbusRTUTCP);
             p1 = p\<lparr>ap_Mode := ''poll'', ap_Network := ''tcp'', ap_WireFormat := (if rtu then ''rtu_over_tcp'' else ap_WireFormat p)\<rparr>
         in if ap_Host p1 = [] \<or> ap_UnitID p1 < 0 \<or> 255 < ap_UnitID p1 \<or>
              pl_Transport rel \<noteq> (if rtu then ''MODBUS_RTU'' else ''MODBUS_TCP'')
            then fail ''invalid Modbus address, unit or protocol'' else Inr p1)
      else
        (let p1 = p\<lparr>ap_Mode := ''listener'', ap_Network := to_lower (rq_Type q),
               ap_DeviceID := (if ap_ConnectionMode p \<noteq> ''dial'' then [] else ap_DeviceID p)\<rparr>
         in if (ap_ConnectionMode p1 \<noteq> ''dial'' \<and> \<not> oe_ip v (ap_Host p1)) \<or> pl_ParserType rel \<noteq> ''go_protocol_parser'' \<or>
              any_at (pl_Artifact rel) ''runtime'' \<noteq> AStr ''go-protocol-v2'' \<or> \<not> HasCapability rel ''ingress'' \<or>
              (pl_Transport rel \<noteq> rq_Type q \<and> pl_Transport rel \<noteq> ''TCP_UDP'')
            then fail ''listening address or protocol not compatible'' else Inr p1))"

definition profile_bad :: "access_profile \<Rightarrow> bool" where
  "profile_bad p \<longleftrightarrow> ap_TimeoutMs p < 1 \<or> 10000 < ap_TimeoutMs p \<or> ap_Retries p < 0 \<or> 3 < ap_Retries p \<or> ap_Port p < 1 \<or> 65535 < ap_Port p"

lemma plan_profile_parts:
  "plan_profile v tenant q rel r =
     (if profile_bad (profile_base v tenant q rel) then fail ''invalid port, timeout or retries''
      else bind_res (profile_mode v q rel (profile_base v tenant q rel)) (\<lambda>p1.
        case ValidateProtocolAccess (oe_listen v) p1 of
          Inl e \<Rightarrow> fail (error_text e)
        | Inr _ \<Rightarrow> (case ValidateChildProducts p1 rel r of Some e \<Rightarrow> fail (error_text e) | None \<Rightarrow> Inr p1)))"
  unfolding plan_profile_def profile_base_def profile_mode_def profile_bad_def Let_def ..

lemma profile_base_later:
  assumes "same_release rel rel'"
  shows "same_profile (profile_base v tenant q rel) (profile_base (at_time n v) tenant (with_token x q) rel')"
  unfolding same_profile_def profile_base_def Let_def by (simp add: same_release_fields [OF assms])

lemma profile_mode_later:
  assumes "profile_mode v q rel p = Inr p1" "same_release rel rel'" "same_profile p p'"
  shows "\<exists>p1'. profile_mode (at_time n v) (with_token x q) rel' p' = Inr p1' \<and> same_profile p1 p1'"
proof -
  note f = same_release_fields [OF assms(2)] same_profile_fields [OF assms(3)]
  have m: "same_profile (p\<lparr>ap_Mode := a, ap_Network := b, ap_WireFormat := w\<rparr>) (p'\<lparr>ap_Mode := a, ap_Network := b, ap_WireFormat := w\<rparr>)"
    "same_profile (p\<lparr>ap_Mode := a, ap_Network := b\<rparr>) (p'\<lparr>ap_Mode := a, ap_Network := b, ap_WireFormat := ap_WireFormat p\<rparr>)"
    "same_profile (p\<lparr>ap_Mode := a, ap_Network := b\<rparr>) (p'\<lparr>ap_Mode := a, ap_Network := b, ap_DeviceID := ap_DeviceID p\<rparr>)"
    "same_profile (p\<lparr>ap_Mode := a, ap_Network := b, ap_DeviceID := w\<rparr>) (p'\<lparr>ap_Mode := a, ap_Network := b, ap_DeviceID := w\<rparr>)" for a b w
    using assms(3) unfolding same_profile_def by (cases p, cases p', simp)+
  show ?thesis
  proof (cases "modbus_type (rq_Type q)")
    case True
    then show ?thesis
      using assms(1) unfolding profile_mode_def Let_def by (cases "rq_Type q = ModbusRTUTCP") (auto simp: f fail_def m split: if_splits)
  next
    case False
    then show ?thesis
      using assms(1) unfolding profile_mode_def Let_def by (auto simp: f HasCapability_def fail_def m split: if_splits)
  qed
qed

lemma plan_profile_later:
  assumes "plan_profile v tenant q rel r = Inr p" "same_release rel rel'"
  shows "\<exists>p'. plan_profile (at_time n v) tenant (with_token x q) rel' r = Inr p' \<and> same_profile p p'"
proof -
  note base = profile_base_later [OF assms(2), of v tenant q n x]
  have ok: "\<not> profile_bad (profile_base v tenant q rel)" "profile_mode v q rel (profile_base v tenant q rel) = Inr p"
    "\<exists>u. ValidateProtocolAccess (oe_listen v) p = Inr u" "ValidateChildProducts p rel r = None"
    using assms(1) by (auto simp: plan_profile_parts fail_def elim!: bind_resE split: if_splits sum.splits option.splits)
  obtain p' where p': "profile_mode (at_time n v) (with_token x q) rel' (profile_base (at_time n v) tenant (with_token x q) rel') = Inr p'"
    "same_profile p p'"
    using profile_mode_later [OF ok(2) assms(2) base] by blast
  have "ValidateProtocolAccess (oe_listen (at_time n v)) p' = ValidateProtocolAccess (oe_listen v) p"
    by (intro access_later) (simp_all add: same_profile_fields [OF p'(2)])
  moreover have "ValidateChildProducts p' rel' r = ValidateChildProducts p rel r"
    by (intro children_later assms(2)) (simp_all add: same_profile_fields [OF p'(2)])
  moreover have "\<not> profile_bad (profile_base (at_time n v) tenant (with_token x q) rel')"
    using ok(1) by (simp add: profile_bad_def same_profile_fields [OF base])
  ultimately show ?thesis using ok(3, 4) p' by (auto simp: plan_profile_parts)
qed

lemma plan_reuse_later:
  assumes "plan_reuse tenant q rel p r = Inr (p1, u)" "same_release rel rel'" "same_profile p p'"
  shows "\<exists>p1'. plan_reuse tenant (with_token x q) rel' p' r = Inr (p1', u) \<and> same_profile p1 p1'"
  using assms(1, 3) unfolding plan_reuse_def
  by (auto simp: same_release_fields [OF assms(2)] same_profile_fields [OF assms(3)] fail_def split: if_splits sum.splits)

lemma plan_binding_later:
  assumes "plan_binding v tenant q rel new r = Inr z"
  shows "\<exists>z'. plan_binding (at_time n v) tenant (with_token x q) rel' new r = Inr z'"
  using assms by (auto simp: plan_binding_def fail_def split: if_splits sum.splits)

text \<open>The plan with other times, and what of it is sealed.\<close>

lemma plan_later:
  assumes "plan v tenant q r = Inr (b, rel)"
  shows "\<exists>b' rel'. plan (at_time n v) tenant (with_token x q) r = Inr (b', rel') \<and> same_release rel rel' \<and>
    map_option sealed_transport (ob_Profile b') = map_option sealed_transport (ob_Profile b)"
proof -
  have ok: "segment tenant" "segment (rq_DeviceID q)" "trim_space (rq_Name q) \<noteq> []" "\<not> 256 < length (rq_Name q)"
    "ap_EdgeNodeID (rq_Profile q) = []"
    using assms by (auto simp: plan_def fail_def split: if_splits)
  obtain product1 where prod: "plan_product v tenant q r = Inr product1"
    using assms by (auto simp: plan_def fail_def elim!: bind_resE split: if_splits)
  then obtain product2 where prod2: "plan_product (at_time n v) tenant (with_token x q) r = Inr product2" "product2 = None \<longleftrightarrow> product1 = None"
    using plan_product_later by blast
  show ?thesis
  proof (cases "rq_Type q \<in> {MQTT, HTTP}")
    case True
    then show ?thesis
      using assms ok prod prod2 by (auto simp: plan_def Let_def standard_release_def same_release_def)
  next
    case False
    then have t: "rq_Type q \<in> {ModbusTCP, ModbusRTUTCP, TCP, UDP}"
      using assms ok prod by (auto simp: plan_def Let_def fail_def split: if_splits)
    obtain table p profile u binding where st: "plan_release v tenant q r = Inr (rel, table)" "plan_profile v tenant q rel r = Inr p"
      "plan_reuse tenant q rel p r = Inr (profile, u)" "plan_binding v tenant q rel (product1 \<noteq> None) r = Inr binding"
      and b: "ob_Profile b = Some profile"
      using assms ok prod False t by (auto simp: plan_def Let_def elim!: bind_resE)
    obtain rel' table' where rel': "plan_release (at_time n v) tenant (with_token x q) r = Inr (rel', table')" "same_release rel rel'"
      using plan_release_later [OF st(1)] by blast
    obtain p' where p': "plan_profile (at_time n v) tenant (with_token x q) rel' r = Inr p'" "same_profile p p'"
      using plan_profile_later [OF st(2) rel'(2)] by blast
    obtain profile' where pr': "plan_reuse tenant (with_token x q) rel' p' r = Inr (profile', u)" "same_profile profile profile'"
      using plan_reuse_later [OF st(3) rel'(2) p'(2)] by blast
    obtain binding' where b': "plan_binding (at_time n v) tenant (with_token x q) rel' (product1 \<noteq> None) r = Inr binding'"
      using plan_binding_later [OF st(4)] by blast
    have new: "(product1 \<noteq> None) = (product2 \<noteq> None)" using prod2(2) by blast
    have "sealed_transport profile' = sealed_transport profile"
      by (simp add: sealed_transport_def same_profile_fields [OF pr'(2)])
    then show ?thesis
      using ok False t prod2(1) rel' p' pr' b' [unfolded new] b by (simp add: plan_def Let_def)
  qed
qed

section \<open>The token\<close>

lemma proof_of_later:
  assumes "same_release rel rel'" "map_option sealed_transport p' = map_option sealed_transport p"
  shows "proof_of (at_time n v) tenant (with_token x q) rel' p' expiry = proof_of v tenant q rel p expiry"
  using assms by (simp add: proof_of_def same_release_def)

lemma Test_token:
  assumes "Test v t tenant q r = (x, err)" "tr_Success x"
  obtains b rel where "plan v tenant q r = Inr (b, rel)" "tr_TestToken x = test_token v tenant q rel (ob_Profile b)"
proof -
  obtain y err' where st: "test_stages v t tenant q r = (y, err')" by (cases "test_stages v t tenant q r")
  then have x: "x = complete_result t q y err'" using assms(1) by (auto simp: Test_def)
  then obtain z where z: "y = Some z" "tr_Success z" "tr_TestToken x = tr_TestToken z"
    using assms(2) by (cases y; cases err') (auto simp: complete_result_def Let_def zero_test_result_def)
  show thesis
    using st z that by (auto simp: test_stages_def Let_def zero_test_result_def split: if_splits option.splits sum.splits prod.splits)
qed

lemma test_token_parts:
  assumes "CHR ''.'' \<notin> set mac" "0 \<le> t" "t < 2 ^ 63"
  shows "split_char (CHR ''.'') (decimal t @ CHR ''.'' # mac) = [decimal t, mac]" "atoi (decimal t) = Some t"
proof -
  have "CHR ''.'' \<notin> set (decimal t)" using assms(2) nat_digits_chars [of _ "nat t"] by (force simp: decimal_def)
  then show "split_char (CHR ''.'') (decimal t @ CHR ''.'' # mac) = [decimal t, mac]"
    using assms(1) by (simp add: split_char_append split_char_plain)
  show "atoi (decimal t) = Some t" using assms(2, 3) atoi_nat_digits [of "nat t"] by (simp add: decimal_def)
qed

text \<open>
  C8. A test that succeeded is honoured: for ten minutes the same request with the token of the test is planned
  and its token is valid, whatever the time and the random bytes; and if its device is new, and the repository
  accepts the bundle of the plan, it is created. Times are those of 64-bit milliseconds, and a seal, which is
  hexadecimal, has no dot.
\<close>

theorem tested_request_is_accepted:
  assumes "Test v t tenant q r = (x, err)" "tr_Success x" "\<And>s. CHR ''.'' \<notin> set (oe_seal v s)"
    and "0 \<le> oe_now v" "oe_now v < 2 ^ 63" "n \<le> oe_now v + 600000"
    and "GetManagedDevice tenant (rq_DeviceID q) r = Inl ErrNotFound" "request_digest v q = Inr digest"
  shows "\<exists>b rel. plan (at_time (n, rnd) v) tenant (with_token (tr_TestToken x) q) r = Inr (b, rel) \<and>
    token_valid (at_time (n, rnd) v) tenant (with_token (tr_TestToken x) q) rel (ob_Profile b) \<and>
    (\<forall>c d. sealed_device (at_time (n, rnd) v) tenant (with_token (tr_TestToken x) q) digest (ob_Device b) = Inr (c, d) \<and>
        onboarding_error (b\<lparr>ob_Device := d\<rparr>) r = None \<longrightarrow>
      (\<exists>y r1. Create (at_time (n, rnd) v) tenant (with_token (tr_TestToken x) q) r = (Inr y, r1) \<and> \<not> on_Reused y \<and>
        GetManagedDevice tenant (rq_DeviceID q) r1 = Inr d))"
proof -
  let ?v = "at_time (n, rnd) v" and ?q = "with_token (tr_TestToken x) q" and ?t = "(oe_now v + 600000) div 1000"
  obtain b0 rel0 where plan0: "plan v tenant q r = Inr (b0, rel0)" and token: "tr_TestToken x = test_token v tenant q rel0 (ob_Profile b0)"
    using Test_token [OF assms(1, 2)] by blast
  obtain b rel where plan: "plan ?v tenant ?q r = Inr (b, rel)"
    and same: "same_release rel0 rel" "map_option sealed_transport (ob_Profile b) = map_option sealed_transport (ob_Profile b0)"
    using plan_later [OF plan0] by blast
  define mac where "mac = proof_of ?v tenant ?q rel (ob_Profile b) (decimal ?t)"
  have mac: "CHR ''.'' \<notin> set mac" unfolding mac_def proof_of_def using assms(3) by simp
  have tok: "rq_TestToken ?q = decimal ?t @ CHR ''.'' # mac"
    by (simp add: token test_token_def Let_def mac_def proof_of_later [OF same])
  note parts = test_token_parts [OF mac, of ?t]
  have range: "0 \<le> ?t" "?t < 2 ^ 63" "n div 1000 \<le> ?t" using assms(4-6) by (simp_all add: zdiv_mono1)
  have valid: "token_valid ?v tenant ?q rel (ob_Profile b)"
    using range by (simp add: token_valid_def tok parts mac_def [symmetric] del: of_nat_numeral)
  moreover have "\<exists>y r1. Create ?v tenant ?q r = (Inr y, r1) \<and> \<not> on_Reused y \<and> GetManagedDevice tenant (rq_DeviceID q) r1 = Inr d"
    if "sealed_device ?v tenant ?q digest (ob_Device b) = Inr (c, d)" "onboarding_error (b\<lparr>ob_Device := d\<rparr>) r = None" for c d
  proof -
    have "ob_Release (b\<lparr>ob_Device := d\<rparr>) = Some rel" using plan_shape(1) [OF plan] by simp
    from planned_save [OF this, of r] that(2) obtain r1 where s: "SaveOnboarding (b\<lparr>ob_Device := d\<rparr>) r = (None, r1)"
      by (metis option.distinct(1) prod.collapse)
    have "request_digest ?v ?q = Inr digest" using assms(8) by (simp add: request_digest_def)
    then have "\<exists>y. Create ?v tenant ?q r = (Inr y, r1) \<and> \<not> on_Reused y"
      using assms(7) plan valid that(1) s range by (simp add: Create_def tok parts)
    moreover have "GetManagedDevice tenant (rq_DeviceID q) r1 = Inr d"
      using saved_device [OF s] sealed_deviceD(1, 2) [OF that(1)] plan_shape(2, 3) [OF plan] by simp
    ultimately show ?thesis by blast
  qed
  ultimately show ?thesis using plan by blast
qed

section \<open>A test that succeeds\<close>

definition tested_json :: standard_json where
  "tested_json = \<lparr>sj_tokens = (\<lambda>_. ([OpenObject, Closing], True)),
     sj_body = (\<lambda>_. Inr \<lparr>bo_Version = [], bo_Event = [], bo_Online = None, bo_CommandID = [], bo_Success = None, bo_ID = ''i'',
       bo_Timestamp = 1, bo_Data = [(''a'', AInt 1)]\<rparr>),
     sj_object = (\<lambda>_. Inr [])\<rparr>"

definition tested_service :: onboard_env where
  "tested_service = sample_service\<lparr>oe_json := tested_json,
     oe_listen := (oe_listen sample_service)\<lparr>lv_env := (oe_env sample_service)\<lparr>v_parsers := NewRegistry [StandardParser tested_json]\<rparr>\<rparr>\<rparr>"

definition tested_request :: onboard_request where
  "tested_request = sample_request\<lparr>rq_Type := HTTP, rq_MessageKind := ''property'', rq_Payload := ''{}''\<rparr>"

definition tested_env :: "network \<Rightarrow> test_env" where
  "tested_env net = \<lparr>te_ctx = None, te_full = False, te_health = None, te_status = None, te_network = net, te_cidrs = [],
     te_dial = (\<lambda>_ _. None), te_bind = (\<lambda>_ _. None), te_blocks = (\<lambda>_. []), te_kind = (\<lambda>_. OtherError), te_net = (\<lambda>_. False),
     te_exception = (\<lambda>_. None), te_elapsed = 0\<rparr>"

lemma tested_service_fields [simp]:
  "oe_now tested_service = 5" "Hash tested_service s = CHR ''h'' # s" "oe_seal tested_service x = ''mac''"
  "oe_request_json tested_service q = Inr (rq_Name q)" "oe_json tested_service = tested_json"
  "v_parsers (oe_env tested_service) = NewRegistry [StandardParser tested_json]"
  by (simp_all add: tested_service_def)

lemma tested_parse:
  assumes "rm_Payload raw = ''{}''" "mget_or [] (rm_Headers raw) ''messageKind'' = ''property''" "0 \<le> rm_ReceivedAt raw"
  shows "\<exists>m. StandardParser_Parse tested_json raw = Inr m"
proof -
  have "validateStandardJSON tested_json ''{}'' = Inr ()"
    by (simp add: validateStandardJSON_def tested_json_def bind_res_def numeral_eq_Suc)
  moreover have "sj_body tested_json p = Inr \<lparr>bo_Version = [], bo_Event = [], bo_Online = None, bo_CommandID = [],
      bo_Success = None, bo_ID = ''i'', bo_Timestamp = 1, bo_Data = [(''a'', AInt 1)]\<rparr>" "sj_object tested_json p = Inr []" for p
    by (simp_all add: tested_json_def)
  ultimately show ?thesis
    using assms by (simp add: StandardParser_Parse_def standard_data_def standard_kind_def MessageComponents_def Let_def
        zero_standard_message_def mget_def)
qed

lemma tested_raw:
  "\<exists>raw. StandardRaw (oe_env tested_service) tested_json ''t'' ''p'' ''d'' ''property'' HTTP ''{}'' = (raw, None) \<and>
     rm_Payload raw = ''{}'' \<and> mget_or [] (rm_Headers raw) ''messageKind'' = ''property'' \<and> 0 \<le> rm_ReceivedAt raw"
proof -
  let ?r = "Normalize (oe_env tested_service) (zero_raw_message\<lparr>rm_TenantID := ''t'', rm_ProductID := ''p'', rm_DeviceID := ''d'',
    rm_Protocol := StandardProtocolID, rm_ProtocolID := StandardProtocolID, rm_ProtocolVersion := ''1.0.0'',
    rm_Transport := HTTP, rm_Source := ''standard-'' @ to_lower HTTP, rm_PayloadFormat := ''json'',
    rm_Payload := ''{}'', rm_Headers := [(''messageKind'', ''property'')]\<rparr>)"
  have f: "rm_Payload ?r = ''{}''" "mget_or [] (rm_Headers ?r) ''messageKind'' = ''property''" "0 \<le> rm_ReceivedAt ?r"
    by (simp_all add: Normalize_def zero_raw_message_def mget_or_def mget_def)
  obtain m where "StandardParser_Parse tested_json ?r = Inr m" using tested_parse [OF f] by blast
  then show ?thesis using f by (simp add: StandardRaw_def sample_segments Let_def)
qed

lemma tested_plan: "\<exists>b rel. plan tested_service ''t'' tested_request NewRepository = Inr (b, rel) \<and> rel = standard_release tested_service ''t''"
  by (simp add: plan_def sample_segments tested_request_def sample_request_def visible_simps zero_access_profile_def plan_product_def Let_def)

lemma tested: "\<exists>x. Test tested_service (tested_env net) ''t'' tested_request NewRepository = (x, None) \<and> tr_Success x"
proof -
  obtain b where p: "plan tested_service ''t'' tested_request NewRepository = Inr (b, standard_release tested_service ''t'')"
    using tested_plan by blast
  obtain raw where raw: "StandardRaw (oe_env tested_service) tested_json ''t'' ''p'' ''d'' ''property'' HTTP ''{}'' = (raw, None)"
    "rm_Payload raw = ''{}''" "mget_or [] (rm_Headers raw) ''messageKind'' = ''property''" "0 \<le> rm_ReceivedAt raw"
    using tested_raw by blast
  obtain m where m: "StandardParser_Parse tested_json raw = Inr m" using tested_parse [OF raw(2-4)] by blast
  have q: "rq_Type tested_request = HTTP" "rq_ProductID tested_request = ''p''" "rq_DeviceID tested_request = ''d''"
    "rq_MessageKind tested_request = ''property''" "rq_Payload tested_request = ''{}''"
    by (simp_all add: tested_request_def sample_request_def)
  have k: "HTTP \<noteq> MQTT" "\<not> modbus_type HTTP" "HTTP \<noteq> TCP" "HTTP \<noteq> UDP"
    by (simp_all add: HTTP_def MQTT_def modbus_type_def ModbusTCP_def ModbusRTUTCP_def TCP_def UDP_def)
  have s: "ds_Supported (Describe HTTP)"
    by (simp add: Describe_def connector_Types_def Let_def HTTP_def MQTT_def)
  have probe: "tr_Success (probe tested_service (tested_env net)
      \<lparr>pe_Reuse = u, pe_Type = HTTP, pe_Profile = p, pe_Release = standard_release tested_service ''t'', pe_Raw = raw\<rparr>)" for u p
    by (simp add: probe_def k Let_def standard_release_def ParseWithConfig_def ParseVersionWithConfig_def NewRegistry_def
        StandardParser_def stamp_def m)
  show ?thesis
    using p raw(1) probe
    by (simp add: Test_def test_stages_def q s k unhealthy_def tested_env_def complete_result_def Let_def)
qed

text \<open>A request tested at time 5 is planned with its token at time 600000.\<close>

lemma tested_request_is_accepted_witness:
  "\<exists>x b rel. Test tested_service (tested_env sample_network) ''t'' tested_request NewRepository = (x, None) \<and>
     plan (at_time (600000, Inr []) tested_service) ''t'' (with_token (tr_TestToken x) tested_request) NewRepository = Inr (b, rel) \<and>
     token_valid (at_time (600000, Inr []) tested_service) ''t'' (with_token (tr_TestToken x) tested_request) rel (ob_Profile b)"
proof -
  obtain x where x: "Test tested_service (tested_env sample_network) ''t'' tested_request NewRepository = (x, None)" "tr_Success x"
    using tested by blast
  have "GetManagedDevice ''t'' (rq_DeviceID tested_request) NewRepository = Inl ErrNotFound"
    by (simp add: GetManagedDevice_def NewRepository_def)
  moreover have "request_digest tested_service tested_request = Inr ''hn''"
    by (simp add: request_digest_def tested_request_def sample_request_def)
  ultimately show ?thesis
    using tested_request_is_accepted [OF x, of 600000 "''hn''" "Inr []"] x(1) by auto
qed

end
