(* ===== verification/Spec2Isabelle.thy ===== *)
theory Spec2Isabelle
  imports Engine_Close Mqtt_Inbox Gb_Steps Modbus_Values External_Props Listener_Props
    Onboard_Limits Onboard_Commands Onboard_Tested
begin

text \<open>
  A model of the core of the IoT platform, a Go program, and what is proved about it. Paths are those
  of the repository, under src/.

  Parts of the program. Devices reach the platform through listeners, MQTT, gateways and active
  collection. A raw message is archived, indexed and published (core/engine.go IngestRaw,
  adapters/rawstore/store.go), parsed by the parser bound to its product (internal/parser), and the
  standard message that results changes the state of the device, runs the alarm rules and opens,
  counts or recovers alarms (core/engine.go handleRaw, handleStandard; core/component.go;
  core/rules.go). All of it lives in a repository (ports/ports.go), of which the in-memory one
  (adapters/memory) is modelled. Several instances of the platform share the work of active
  connections through leases (internal/protocolruntime/coordinator.go).

  Theories, in the order of the code's layers:
    \<^item> Prelude, Slices: Go strings as byte lists, maps as association lists in the order a range loop
      visits them, errors as values, values of type any, sort.Slice, pages.
    \<^item> Messages, Inventory, Alarms, Components, Parsers, Rules: package model, the parser registry and
      the matching of rules. A struct is a record with the same fields in the same order.
    \<^item> Json: what json.Marshal followed by json.Unmarshal makes of a stored value (function clone).
    \<^item> Repo_State, Repo_Inventory, Repo_Messages, Repo_Alarms, Repo_Devices: the in-memory repository,
      one definition per operation under its Go name, from arguments and repository to the result and
      the new repository. Alarm_Inv, Component_Inv, Device_Inv, Repo_Inv: its invariants, kept by each
      operation and so by every history of calls (reachable_repo_inv). Repo_Props: what histories of
      calls can and cannot do.
    \<^item> Lease_Service, Coordinator: leases as an interface (a locale, interpreted on the repository's
      leases), and the coordinators that hold them, each with its own clock of calls that may fail or
      be late.
    \<^item> Engine_Base, Engine_State, Engine_Alarms, Engine_Ingest: the engine as state passing over the
      repository and a record of everything outside it (clock, identifiers, hashes, publishing, object
      and database storage, parsers), each call of which may fail. Engine_Calls, Engine_Inv,
      Engine_Handlers: every handler calls the repository only within its contract, so the
      repository's invariants hold for the engine. Engine_Props, Engine_Close: whole handlers, and (the
      relation racing of Engine_Props) handlers side by side.
    \<^item> Wire, Modbus_Frame, Point_Table, Modbus_Collect: bytes on the wire, Modbus frames, point tables
      and their compilation into read blocks, and the collection of those blocks over any behaviour of
      the network. Point_Props, Collect_Props: what compiled blocks and collections guarantee.
    \<^item> Gb26875, Gb_Frames, Gb_Gateway, Gb_Props: fire-alarm frames of GB/T 26875.3, the standard messages
      they become, and the gateway process that forwards and confirms them. Gb_Steps: its connections, its
      UDP socket and its control interface side by side.
    \<^item> Durable_Queue, Queue_Inv, Mqtt_Inbox: the queue of files that MQTT messages are stored in before
      they are acknowledged, with system calls that may fail, and the workers that hand them on.
    \<^item> Configurable, Config_Props, Modbus_Parse, Modbus_Values, Standard_Parser: the parsers of configured
      JSON and hexadecimal messages, of Modbus responses, and of the platform's own JSON messages.
    \<^item> External, External_Props, Worker: protocol packages run as processes, the requests and responses
      they exchange with the platform, and the samples a package has to pass.
    \<^item> Listeners, Listener_Hosts: TCP and UDP listeners and dialled devices (internal/protocolruntime):
      hosts, sessions, frames, commands, closing. Listener_Moves breaks every step into small moves with
      an invariant; Listener_Steps, Listener_Frames, Listener_Runs show that each step is made of moves;
      Listener_Logs, Listener_Bytes, Listener_Life are invariants of runs; Listener_Sample is a run;
      Listener_Props has the properties.
    \<^item> Onboarding: the onboarding service (internal/onboarding): device authentication, rate limits, the
      plan and creation of a device, credentials, commands over MQTT. Onboard_Test: the test of an
      access before creation (with internal/connector). Onboard_Limits, Onboard_Commands, Onboard_Create,
      Onboard_Tested: what holds of them over any history; Onboard_Sample: a service and a device.

  Conventions. An operation takes its arguments and then the state; an error is Inl, a value Inr. A
  number of a fixed width is a word. An int of Go is int: where numbers from outside enter sums and
  products (point tables, read blocks, Modbus responses) go_int wraps them around at 64 bits as Go does, and
  elsewhere (counters, lengths, times) the code's values stay far from that bound. What the environment decides is an argument: the clock, random identifiers, SHA-256, the
  compaction of json.RawMessage, results of network and system calls, the time zone. Laws assumed of
  it are premises of the theorems that need them, each with a witness on a concrete instance. The
  environments are records: env (engine), lib (the standard library's conversions), process (file system
  and child processes), network, gateway_env, listen_env, onboard_env and test_env. Texts of errors that
  are Chinese in the code are given in English.

  Steps. Where goroutines share state, a run is a sequence of steps of an inductive relation, and one step
  is what one holding of a lock covers. Listeners: receiving, starting a frame and ending it are separate
  steps, with the engine's work between them; so are the stages of a closing and a command's sending,
  expiry and end. Onboarding: SendCommand is one step up to the creation of the record (command_begin),
  one for the publication, and one for storing the outcome (command_end), and may stop before any of them;
  the process lives on, since a restart loses the repository in memory. Engine: a handler is a function of
  the state; Engine_Handlers shows that each of its calls of the repository is one that keeps the invariant
  in whatever state it comes (blind), except the write of SetAlarmStatus, which depends on what was read
  before. So racing interleaves handlers by letting any such call come at any time, and has the read
  and the write of SetAlarmStatus as two steps. The properties of single handlers (Engine_Close,
  standard_message_once) have no other handler run during one. Gateway: reading and forwarding a frame, its
  registration, its delivery, its confirmation and the end of a connection are steps of gateway_step;
  handleConnection is a connection without interruption (handled_in_steps). Durable queue and repository:
  one operation is one step, under one mutex in the code.

  Bounds. closeRuleAlarms reads pages until none is left; its model has fuel n * (n + 3) for n alarms,
  which Engine_Close shows to be enough. A collection makes at most Retries + 1 attempts per block, and a
  worker is run Depth times. The check of a JSON text has twice as many steps as the text has tokens, and two
  more, which check_tokens_enough shows to be enough. The queue of files is modelled with a disk on which each
  call may fail, os.Stat after a failed write (dk_restat) included. Every other loop is a structural or measured recursion.

  ListAlarms visits a map and sorts by time, so that alarms of equal time come in any order: the order of
  the visit is an argument, and each call of the engine has its own (v_visit).

  Not modelled. Locks: an operation that holds one mutex throughout is one step. Texts of errors
  are shortened where only their presence matters. The PostgreSQL repository and the clients of
  ClickHouse, Redis, Kafka, MinIO, video platforms and model servers consist of requests to external
  services. The HTTP interface, configuration, metrics and command entry points decode requests and
  construct the parts that are modelled.
\<close>

end
